(* ===== verification/Prelude.thy ===== *)
theory Prelude
  imports Main "HOL-Library.Word" "HOL-Library.Monad_Syntax"
begin

text \<open>
  Shared vocabulary of the development: the machine types of the C++ sources, the model of
  host byte order, of a \<open>CHECK\<close> failure or undefined behaviour (the value \<open>None\<close> of an
  \<open>option\<close> result), and generic facts on lists, words and orders that the component theories use.
\<close>

unbundle bit_operations_syntax

named_theorems shill_defs \<open>definitions of the operations, unfolded together in component proofs\<close>
named_theorems shill_order \<open>facts on comparison functions\<close>

type_synonym u8 = "8 word"
type_synonym u16 = "16 word"
type_synonym u32 = "32 word"
type_synonym u64 = "64 word"
type_synonym bytes = "u8 list"

subsection \<open>Host byte order\<close>

text \<open>
  The sources copy integers to and from memory with \<open>memcpy\<close>, so what they store depends on the
  byte order of the machine. Every operation that does so takes the byte order as an argument,
  and the theorems hold for both.
\<close>

datatype endian = LittleEndian | BigEndian

definition le32 :: "u32 \<Rightarrow> bytes" where
  "le32 w = [ucast w, ucast (drop_bit 8 w), ucast (drop_bit 16 w), ucast (drop_bit 24 w)]"

definition be32 :: "u32 \<Rightarrow> bytes" where
  "be32 w = rev (le32 w)"

fun word_of_le32 :: "bytes \<Rightarrow> u32" where
  "word_of_le32 [a, b, c, d] =
     ucast a OR push_bit 8 (ucast b) OR push_bit 16 (ucast c) OR push_bit 24 (ucast d)"
| "word_of_le32 _ = 0"

definition le16 :: "u16 \<Rightarrow> bytes" where
  "le16 w = [ucast w, ucast (drop_bit 8 w)]"

definition be16 :: "u16 \<Rightarrow> bytes" where
  "be16 w = rev (le16 w)"

fun word_of_le16 :: "bytes \<Rightarrow> u16" where
  "word_of_le16 [a, b] = ucast a OR push_bit 8 (ucast b)"
| "word_of_le16 _ = 0"

lemma length_le32 [simp]: "length (le32 w) = 4" by (simp add: le32_def)

lemma length_be32 [simp]: "length (be32 w) = 4" by (simp add: be32_def)

lemma length_le16 [simp]: "length (le16 w) = 2" by (simp add: le16_def)

lemma length_be16 [simp]: "length (be16 w) = 2" by (simp add: be16_def)

lemma word_of_le32_le32 [simp]: "word_of_le32 (le32 w) = w"
proof (rule bit_word_eqI)
  fix n assume "n < LENGTH(32)"
  then have "n < 8 \<or> 8 \<le> n \<and> n < 16 \<or> 16 \<le> n \<and> n < 24 \<or> 24 \<le> n \<and> n < 32" by auto
  then show "bit (word_of_le32 (le32 w)) n \<longleftrightarrow> bit w n"
    by (elim disjE conjE) (auto simp: le32_def bit_simps less_diff_conv2)
qed

lemma word_of_le16_le16 [simp]: "word_of_le16 (le16 w) = w"
proof (rule bit_word_eqI)
  fix n assume "n < LENGTH(16)"
  then have "n < 8 \<or> 8 \<le> n \<and> n < 16" by auto
  then show "bit (word_of_le16 (le16 w)) n \<longleftrightarrow> bit w n"
    by (elim disjE conjE) (auto simp: le16_def bit_simps less_diff_conv2)
qed

lemma length_4E:
  assumes "length xs = 4"
  obtains a b c d where "xs = [a, b, c, d]"
  using assms by (auto simp: numeral_eq_Suc length_Suc_conv)

lemma length_2E:
  assumes "length xs = 2"
  obtains a b where "xs = [a, b]"
  using assms by (auto simp: numeral_eq_Suc length_Suc_conv)

lemma bit_u8_ge: "8 \<le> n \<Longrightarrow> \<not> bit (a :: u8) n"
  using bit_imp_le_length [of a n] by auto

lemma le32_word_of_le32: "length bs = 4 \<Longrightarrow> le32 (word_of_le32 bs) = bs"
  by (erule length_4E)
    (simp add: le32_def bit_eq_iff bit_simps bit_u8_ge)

lemma le16_word_of_le16: "length bs = 2 \<Longrightarrow> le16 (word_of_le16 bs) = bs"
  by (erule length_2E)
    (simp add: le16_def bit_eq_iff bit_simps bit_u8_ge)

text \<open>The bytes of an integer in memory, and \<open>htonl\<close>/\<open>ntohl\<close>, \<open>htons\<close>/\<open>ntohs\<close>.\<close>

definition mem32 :: "endian \<Rightarrow> u32 \<Rightarrow> bytes" where
  "mem32 e w = (case e of LittleEndian \<Rightarrow> le32 w | BigEndian \<Rightarrow> be32 w)"

definition load32 :: "endian \<Rightarrow> bytes \<Rightarrow> u32" where
  "load32 e bs = word_of_le32 (case e of LittleEndian \<Rightarrow> bs | BigEndian \<Rightarrow> rev bs)"

definition mem16 :: "endian \<Rightarrow> u16 \<Rightarrow> bytes" where
  "mem16 e w = (case e of LittleEndian \<Rightarrow> le16 w | BigEndian \<Rightarrow> be16 w)"

definition load16 :: "endian \<Rightarrow> bytes \<Rightarrow> u16" where
  "load16 e bs = word_of_le16 (case e of LittleEndian \<Rightarrow> bs | BigEndian \<Rightarrow> rev bs)"

definition ntohl :: "endian \<Rightarrow> u32 \<Rightarrow> u32" where
  "ntohl e w = (case e of LittleEndian \<Rightarrow> word_of_le32 (be32 w) | BigEndian \<Rightarrow> w)"

definition ntohs :: "endian \<Rightarrow> u16 \<Rightarrow> u16" where
  "ntohs e w = (case e of LittleEndian \<Rightarrow> word_of_le16 (be16 w) | BigEndian \<Rightarrow> w)"

abbreviation htonl :: "endian \<Rightarrow> u32 \<Rightarrow> u32" where "htonl \<equiv> ntohl"

abbreviation htons :: "endian \<Rightarrow> u16 \<Rightarrow> u16" where "htons \<equiv> ntohs"

lemma length_mem32 [simp]: "length (mem32 e w) = 4"
  by (cases e) (simp_all add: mem32_def)

lemma length_mem16 [simp]: "length (mem16 e w) = 2"
  by (cases e) (simp_all add: mem16_def)

lemma load32_mem32 [simp]: "load32 e (mem32 e w) = w"
  by (cases e) (simp_all add: load32_def mem32_def be32_def)

lemma load16_mem16 [simp]: "load16 e (mem16 e w) = w"
  by (cases e) (simp_all add: load16_def mem16_def be16_def)

lemma mem32_load32: "length bs = 4 \<Longrightarrow> mem32 e (load32 e bs) = bs"
  by (cases e) (simp_all add: load32_def mem32_def be32_def le32_word_of_le32)

lemma mem16_load16: "length bs = 2 \<Longrightarrow> mem16 e (load16 e bs) = bs"
  by (cases e) (simp_all add: load16_def mem16_def be16_def le16_word_of_le16)

lemma mem32_ntohl: "mem32 e (ntohl e w) = be32 w"
  by (cases e) (simp_all add: mem32_def ntohl_def le32_word_of_le32)

lemma mem16_ntohs: "mem16 e (ntohs e w) = be16 w"
  by (cases e) (simp_all add: mem16_def ntohs_def le16_word_of_le16)

lemma be32_rev: "rev (be32 w) = le32 w" by (simp add: be32_def)

lemma be16_rev: "rev (be16 w) = le16 w" by (simp add: be16_def)

lemma ntohl_ntohl [simp]: "ntohl e (ntohl e w) = w"
  by (cases e)
    (simp_all add: ntohl_def be32_def le32_word_of_le32)

lemma ntohs_ntohs [simp]: "ntohs e (ntohs e w) = w"
  by (cases e)
    (simp_all add: ntohs_def be16_def le16_word_of_le16)

lemma ntohl_load32: "length bs = 4 \<Longrightarrow> ntohl e (load32 e bs) = word_of_le32 (rev bs)"
  by (cases e) (simp_all add: ntohl_def load32_def be32_def le32_word_of_le32)

lemma ntohs_load16: "length bs = 2 \<Longrightarrow> ntohs e (load16 e bs) = word_of_le16 (rev bs)"
  by (cases e) (simp_all add: ntohs_def load16_def be16_def le16_word_of_le16)

subsection \<open>Lists and options\<close>

lemma map2_cong_nth:
  "length xs = length ys \<Longrightarrow> i < length xs \<Longrightarrow> map2 f xs ys ! i = f (xs ! i) (ys ! i)"
  by simp

lemma Option_bind_SomeE:
  assumes "Option.bind m f = Some y"
  obtains x where "m = Some x" "f x = Some y"
  using assms by (cases m) auto

end
