(* ===== verification/Byte_String.thy ===== *)
theory Byte_String
  imports Prelude
begin

text \<open>
  Model of \<open>net/byte_string.cc\<close>: \<open>ByteString\<close> wraps a byte vector. A value is the list of its
  bytes; operations that mutate the object return the new list, together with the returned
  \<open>bool\<close> where there is one. \<open>base::HexStringToBytes\<close> belongs to libchrome and is an argument.
\<close>

type_synonym byte_string = bytes

definition GetLength :: "byte_string \<Rightarrow> nat" where
  "GetLength b = length b"

definition GetSubstring :: "byte_string \<Rightarrow> nat \<Rightarrow> nat \<Rightarrow> byte_string" where
  "GetSubstring b off len =
     (let off = (if off > GetLength b then GetLength b else off);
          len = (if len > GetLength b - off then GetLength b - off else len)
      in take len (drop off b))"

definition CreateFromCPUUInt32 :: "endian \<Rightarrow> u32 \<Rightarrow> byte_string" where
  "CreateFromCPUUInt32 e v = mem32 e v"

definition CreateFromNetUInt32 :: "endian \<Rightarrow> u32 \<Rightarrow> byte_string" where
  "CreateFromNetUInt32 e v = CreateFromCPUUInt32 e (ntohl e v)"

definition CreateFromHexString :: "(string \<Rightarrow> bytes option) \<Rightarrow> string \<Rightarrow> byte_string" where
  "CreateFromHexString hex_string_to_bytes s =
     (case hex_string_to_bytes s of None \<Rightarrow> [] | Some bs \<Rightarrow> bs)"

definition ConvertToCPUUInt32 :: "endian \<Rightarrow> byte_string \<Rightarrow> u32 option" where
  "ConvertToCPUUInt32 e b = (if GetLength b \<noteq> 4 then None else Some (load32 e b))"

definition ConvertToNetUInt32 :: "endian \<Rightarrow> byte_string \<Rightarrow> u32 option" where
  "ConvertToNetUInt32 e b =
     (case ConvertToCPUUInt32 e b of None \<Rightarrow> None | Some v \<Rightarrow> Some (ntohl e v))"

text \<open>The loop over the words of the vector: four bytes are loaded, converted and stored back.\<close>

fun convert_words :: "endian \<Rightarrow> (u32 \<Rightarrow> u32) \<Rightarrow> bytes \<Rightarrow> bytes" where
  "convert_words e conv (a # b # c # d # rest) =
     mem32 e (conv (load32 e [a, b, c, d])) @ convert_words e conv rest"
| "convert_words e conv rest = rest"

definition ConvertByteOrderAsUIntArray ::
    "endian \<Rightarrow> (u32 \<Rightarrow> u32) \<Rightarrow> byte_string \<Rightarrow> bool \<times> byte_string" where
  "ConvertByteOrderAsUIntArray e conv b =
     (if GetLength b mod 4 \<noteq> 0 then (False, b) else (True, convert_words e conv b))"

definition ConvertFromNetToCPUUInt32Array :: "endian \<Rightarrow> byte_string \<Rightarrow> bool \<times> byte_string" where
  "ConvertFromNetToCPUUInt32Array e = ConvertByteOrderAsUIntArray e (ntohl e)"

definition ConvertFromCPUToNetUInt32Array :: "endian \<Rightarrow> byte_string \<Rightarrow> bool \<times> byte_string" where
  "ConvertFromCPUToNetUInt32Array e = ConvertByteOrderAsUIntArray e (htonl e)"

fun IsZero :: "byte_string \<Rightarrow> bool" where
  "IsZero [] = True"
| "IsZero (i # rest) = (if i \<noteq> 0 then False else IsZero rest)"

definition BitwiseAnd :: "byte_string \<Rightarrow> byte_string \<Rightarrow> bool \<times> byte_string" where
  "BitwiseAnd a b =
     (if GetLength a \<noteq> GetLength b then (False, a) else (True, map2 (\<lambda>l r. l AND r) a b))"

definition BitwiseOr :: "byte_string \<Rightarrow> byte_string \<Rightarrow> bool \<times> byte_string" where
  "BitwiseOr a b =
     (if GetLength a \<noteq> GetLength b then (False, a) else (True, map2 (\<lambda>l r. l OR r) a b))"

definition BitwiseInvert :: "byte_string \<Rightarrow> byte_string" where
  "BitwiseInvert a = map (\<lambda>i. NOT i) a"

fun equals_loop :: "bytes \<Rightarrow> bytes \<Rightarrow> bool" where
  "equals_loop (l # ls) (r # rs) = (if l \<noteq> r then False else equals_loop ls rs)"
| "equals_loop _ _ = True"

definition Equals :: "byte_string \<Rightarrow> byte_string \<Rightarrow> bool" where
  "Equals a b = (if GetLength a \<noteq> GetLength b then False else equals_loop a b)"

definition Append :: "byte_string \<Rightarrow> byte_string \<Rightarrow> byte_string" where
  "Append a b = a @ b"

definition Clear :: "byte_string \<Rightarrow> byte_string" where
  "Clear a = []"

definition Resize :: "byte_string \<Rightarrow> nat \<Rightarrow> byte_string" where
  "Resize a n = take n a @ replicate (n - GetLength a) 0"

text \<open>The bytes \<open>CopyData\<close> writes to its output buffer, \<open>None\<close> when it returns false.\<close>

definition CopyData :: "byte_string \<Rightarrow> nat \<Rightarrow> bytes option" where
  "CopyData a n = (if GetLength a < n then None else Some (take n a))"

text \<open>\<open>memcmp\<close> over the first \<open>n\<close> bytes: the sign of the first difference.\<close>

fun memcmp :: "bytes \<Rightarrow> bytes \<Rightarrow> nat \<Rightarrow> int" where
  "memcmp (l # ls) (r # rs) (Suc n) =
     (if l < r then - 1 else if r < l then 1 else memcmp ls rs n)"
| "memcmp _ _ _ = 0"

definition IsLessThan :: "byte_string \<Rightarrow> byte_string \<Rightarrow> bool" where
  "IsLessThan l r =
     (let byte_count = min (GetLength l) (GetLength r);
          result = memcmp l r byte_count
      in if result = 0 then GetLength l < GetLength r else result < 0)"

subsection \<open>Substrings and integers\<close>

lemma GetSubstring_eq: "GetSubstring b off len = take len (drop off b)"
  by (auto simp: GetSubstring_def GetLength_def Let_def)

lemma CreateFromNetUInt32_be: "CreateFromNetUInt32 e v = be32 v"
  by (simp add: CreateFromNetUInt32_def CreateFromCPUUInt32_def mem32_ntohl)

lemma ConvertToNet_CreateFromNet: "ConvertToNetUInt32 e (CreateFromNetUInt32 e v) = Some v"
  by (simp add: ConvertToNetUInt32_def ConvertToCPUUInt32_def CreateFromNetUInt32_be GetLength_def
      ntohl_load32 be32_def)

lemma convert_words_involution:
  assumes "\<And>w. conv (conv w) = w"
  shows "convert_words e conv (convert_words e conv b) = b"
  using assms
proof (induction e conv b rule: convert_words.induct)
  case (1 e conv a b c d rest)
  obtain p q r s where m: "mem32 e (conv (load32 e [a, b, c, d])) = [p, q, r, s]"
    by (rule length_4E [of "mem32 e (conv (load32 e [a, b, c, d]))"]) auto
  then have "load32 e [p, q, r, s] = conv (load32 e [a, b, c, d])"
    by (metis load32_mem32)
  then show ?case
    using m 1 by (simp add: mem32_load32)
qed simp_all

lemma length_convert_words [simp]: "length (convert_words e conv b) = length b"
  by (induction e conv b rule: convert_words.induct) auto

subsection \<open>Comparisons\<close>

lemma IsZero_iff: "IsZero b \<longleftrightarrow> (\<forall>i < length b. b ! i = 0)"
  by (induction b rule: IsZero.induct) (auto simp: nth_Cons' split: if_splits)

lemma equals_loop_iff: "length a = length b \<Longrightarrow> equals_loop a b \<longleftrightarrow> a = b"
  by (induction a b rule: equals_loop.induct) auto

lemma Equals_iff [simp]: "Equals a b \<longleftrightarrow> a = b"
  by (auto simp: Equals_def GetLength_def equals_loop_iff)

lemma fst_BitwiseAnd: "fst (BitwiseAnd a b) \<longleftrightarrow> length a = length b"
  by (simp add: BitwiseAnd_def GetLength_def)

text \<open>\<open>IsLessThan\<close> computes the lexicographic order on byte strings.\<close>

lemma IsLessThan_Nil [simp]: "IsLessThan [] r \<longleftrightarrow> r \<noteq> []" "\<not> IsLessThan l []"
  by (simp_all add: IsLessThan_def GetLength_def Let_def)

lemma IsLessThan_Cons [simp]:
  "IsLessThan (l # ls) (r # rs) \<longleftrightarrow> l < r \<or> l = r \<and> IsLessThan ls rs"
  by (auto simp: IsLessThan_def GetLength_def Let_def)

lemma IsLessThan_lexordp: "IsLessThan l r \<longleftrightarrow> ord_class.lexordp l r"
  by (induction l r rule: list_induct2') auto

lemma IsLessThan_irrefl: "\<not> IsLessThan a a"
  by (induction a) auto

lemma IsLessThan_trans: "IsLessThan a b \<Longrightarrow> IsLessThan b c \<Longrightarrow> IsLessThan a c"
  by (auto simp: IsLessThan_lexordp intro: lexordp_trans)

lemma IsLessThan_total: "IsLessThan a b \<or> a = b \<or> IsLessThan b a"
  by (induction a b rule: list_induct2') auto

end
