(* ===== verification/IP_Address.thy ===== *)
theory IP_Address
  imports Byte_String
begin

text \<open>
  Model of \<open>net/ip_address.cc\<close>. An address is a family, its bytes in network order and a prefix
  length. The C library's address parser and printer (\<open>inet_pton\<close>, \<open>inet_ntop\<close>,
  \<open>inet_network\<close>) and libchrome's \<open>SplitString\<close> and \<open>StringToSizeT\<close> are arguments of
  the operations that call them. A result \<open>None\<close> of an operation whose C++ counterpart always
  returns is a failed \<open>CHECK\<close> or a write outside the address buffer.
\<close>

type_synonym family = u8

definition kFamilyUnknown :: family where "kFamilyUnknown = 0"
definition kFamilyIPv4 :: family where "kFamilyIPv4 = 2"
definition kFamilyIPv6 :: family where "kFamilyIPv6 = 10"

definition kBitsPerByte :: nat where "kBitsPerByte = 8"

record ip_addr =
  family :: family
  address :: byte_string
  ip_prefix :: nat

definition IPAddress_family :: "family \<Rightarrow> ip_addr" where
  "IPAddress_family f = \<lparr>family = f, address = [], ip_prefix = 0\<rparr>"

definition IPAddress_bytes :: "family \<Rightarrow> byte_string \<Rightarrow> ip_addr" where
  "IPAddress_bytes f a = \<lparr>family = f, address = a, ip_prefix = 0\<rparr>"

definition IPAddress_prefix :: "family \<Rightarrow> byte_string \<Rightarrow> nat \<Rightarrow> ip_addr" where
  "IPAddress_prefix f a p = \<lparr>family = f, address = a, ip_prefix = p\<rparr>"

definition GetAddressLength :: "family \<Rightarrow> nat" where
  "GetAddressLength f =
     (if f = kFamilyIPv4 then 4 else if f = kFamilyIPv6 then 16 else 0)"

definition GetMaxPrefixLength :: "family \<Rightarrow> nat" where
  "GetMaxPrefixLength f = GetAddressLength f * kBitsPerByte"

definition IsValid :: "ip_addr \<Rightarrow> bool" where
  "IsValid ip \<longleftrightarrow> family ip \<noteq> kFamilyUnknown \<and>
     GetLength (address ip) = GetAddressLength (family ip)"

definition IsDefault :: "ip_addr \<Rightarrow> bool" where
  "IsDefault ip = IsZero (address ip)"

text \<open>The \<open>IN_CLASSx\<close> macros of \<open>netinet/in.h\<close> on a host-order address.\<close>

definition GetMinPrefixLength :: "endian \<Rightarrow> ip_addr \<Rightarrow> nat option" where
  "GetMinPrefixLength e ip =
     (if family ip \<noteq> kFamilyIPv4 then Some (GetMaxPrefixLength (family ip))
      else if \<not> IsValid ip then None
      else
        let v = ntohl e (load32 e (address ip))
        in if v AND 0x80000000 = 0 then Some (GetMaxPrefixLength (family ip) - 24)
           else if v AND 0xc0000000 = 0x80000000 then Some (GetMaxPrefixLength (family ip) - 16)
           else if v AND 0xe0000000 = 0xc0000000 then Some (GetMaxPrefixLength (family ip) - 8)
           else Some (GetMaxPrefixLength (family ip)))"

text \<open>\<open>while (mask_val) { subnet_prefix++; mask_val <<= 1; }\<close>\<close>

function count_shifts :: "u32 \<Rightarrow> nat \<Rightarrow> nat" where
  "count_shifts m k = (if m \<noteq> 0 then count_shifts (push_bit 1 m) (Suc k) else k)"
  by pat_completeness auto

termination
proof (relation "measure (\<lambda>(m, k). LEAST n. push_bit n (m :: u32) = 0)", goal_cases)
  case 1
  show ?case by simp
next
  case (2 m k)
  have "push_bit 32 m = 0" by (simp add: bit_eq_iff bit_simps)
  then have eq: "push_bit (LEAST n. push_bit n m = 0) m = 0" by (rule LeastI)
  with 2 obtain n where n: "(LEAST n. push_bit n m = 0) = Suc n"
    by (cases "LEAST n. push_bit n m = 0") auto
  with eq have "push_bit n (push_bit 1 m) = 0" by (simp add: push_bit_push_bit)
  then have "(LEAST n. push_bit n (push_bit 1 m) = 0) \<le> n" by (rule Least_le)
  with n show ?case by simp
qed

declare count_shifts.simps [simp del]

definition GetPrefixLengthFromMask :: "(string \<Rightarrow> u32) \<Rightarrow> family \<Rightarrow> string \<Rightarrow> nat" where
  "GetPrefixLengthFromMask inet_network f m =
     (if f = kFamilyIPv4 then count_shifts (inet_network m) 0 else 0)"

text \<open>
  The pointer walk of \<open>GetAddressMaskFromPrefix\<close>: \<open>i\<close> is the offset of \<open>address_ptr\<close> in the
  buffer, and a store past its end is \<open>None\<close>.
\<close>

function fill_mask :: "bytes \<Rightarrow> nat \<Rightarrow> nat \<Rightarrow> bytes option" where
  "fill_mask buf i bits =
     (if bits > kBitsPerByte
      then (if i < length buf then fill_mask (buf[i := 255]) (Suc i) (bits - kBitsPerByte) else None)
      else if i < length buf
      then Some (buf[i := ucast (NOT (push_bit (kBitsPerByte - bits) (1 :: u32) - 1))])
      else None)"
  by pat_completeness auto
termination
  by (relation "measure (\<lambda>(buf, i, bits). bits)") (auto simp: kBitsPerByte_def)

declare fill_mask.simps [simp del]

definition GetAddressMaskFromPrefix :: "family \<Rightarrow> nat \<Rightarrow> ip_addr option" where
  "GetAddressMaskFromPrefix f pre =
     (let bits = (if pre > GetMaxPrefixLength f then GetMaxPrefixLength f else pre)
      in map_option (IPAddress_bytes f) (fill_mask (replicate (GetAddressLength f) 0) 0 bits))"

definition GetAddressFamilyName :: "family \<Rightarrow> string" where
  "GetAddressFamilyName f =
     (if f = kFamilyIPv4 then ''IPv4'' else if f = kFamilyIPv6 then ''IPv6'' else ''Unknown'')"

text \<open>\<open>inet_pton f s\<close> is the address \<open>inet_pton\<close> writes, \<open>None\<close> when it returns 0 or -1.\<close>

definition SetAddressFromString ::
    "(family \<Rightarrow> string \<Rightarrow> bytes option) \<Rightarrow> ip_addr \<Rightarrow> string \<Rightarrow> bool \<times> ip_addr" where
  "SetAddressFromString inet_pton ip s =
     (if GetAddressLength (family ip) = 0 then (False, ip)
      else case inet_pton (family ip) s of
        None \<Rightarrow> (False, ip)
      | Some a \<Rightarrow> (True, ip\<lparr>address := a\<rparr>))"

definition IPAddress_string :: "(family \<Rightarrow> string \<Rightarrow> bytes option) \<Rightarrow> string \<Rightarrow> ip_addr" where
  "IPAddress_string inet_pton s =
     (let ip = \<lparr>family = kFamilyIPv4, address = [], ip_prefix = 0\<rparr>;
          (ok4, ip4) = SetAddressFromString inet_pton ip s
      in if ok4 then ip4
         else let (ok6, ip6) = SetAddressFromString inet_pton (ip4\<lparr>family := kFamilyIPv6\<rparr>) s
              in if ok6 then ip6 else ip6\<lparr>family := kFamilyUnknown\<rparr>)"

definition SetAddressAndPrefixFromString ::
    "(family \<Rightarrow> string \<Rightarrow> bytes option) \<Rightarrow> (string \<Rightarrow> string list) \<Rightarrow> (string \<Rightarrow> nat option) \<Rightarrow>
      ip_addr \<Rightarrow> string \<Rightarrow> bool \<times> ip_addr" where
  "SetAddressAndPrefixFromString inet_pton split_slash string_to_size_t ip s =
     (case split_slash s of
        [a, p] \<Rightarrow>
          (let (ok, ip') = SetAddressFromString inet_pton ip a
           in if \<not> ok then (False, ip')
              else case string_to_size_t p of
                     None \<Rightarrow> (False, ip')
                   | Some pre \<Rightarrow>
                       if pre > GetMaxPrefixLength (family ip') then (False, ip')
                       else (True, ip'\<lparr>ip_prefix := pre\<rparr>))
      | _ \<Rightarrow> (False, ip))"

definition SetAddressToDefault :: "ip_addr \<Rightarrow> ip_addr" where
  "SetAddressToDefault ip = ip\<lparr>address := replicate (GetAddressLength (family ip)) 0\<rparr>"

definition IntoString :: "(family \<Rightarrow> bytes \<Rightarrow> string option) \<Rightarrow> ip_addr \<Rightarrow> string option" where
  "IntoString inet_ntop ip =
     (if GetLength (address ip) \<noteq> GetAddressLength (family ip) then None
      else inet_ntop (family ip) (address ip))"

definition ToString :: "(family \<Rightarrow> bytes \<Rightarrow> string option) \<Rightarrow> ip_addr \<Rightarrow> string" where
  "ToString inet_ntop ip =
     (case IntoString inet_ntop ip of None \<Rightarrow> ''<unknown>'' | Some s \<Rightarrow> s)"

definition IP_Equals :: "ip_addr \<Rightarrow> ip_addr \<Rightarrow> bool" where
  "IP_Equals a b \<longleftrightarrow> family a = family b \<and> Equals (address a) (address b) \<and>
     ip_prefix a = ip_prefix b"

definition HasSameAddressAs :: "ip_addr \<Rightarrow> ip_addr \<Rightarrow> bool" where
  "HasSameAddressAs a b \<longleftrightarrow> family a = family b \<and> Equals (address a) (address b)"

definition MaskWith :: "ip_addr \<Rightarrow> ip_addr \<Rightarrow> ip_addr option" where
  "MaskWith a b =
     (if IsValid a \<and> IsValid b \<and> family a = family b
      then Some (IPAddress_bytes (family a) (snd (BitwiseAnd (address a) (address b))))
      else None)"

definition MergeWith :: "ip_addr \<Rightarrow> ip_addr \<Rightarrow> ip_addr option" where
  "MergeWith a b =
     (if IsValid a \<and> IsValid b \<and> family a = family b
      then Some (IPAddress_bytes (family a) (snd (BitwiseOr (address a) (address b))))
      else None)"

definition GetNetworkPart :: "ip_addr \<Rightarrow> ip_addr option" where
  "GetNetworkPart ip =
     Option.bind (GetAddressMaskFromPrefix (family ip) (ip_prefix ip)) (MaskWith ip)"

definition GetDefaultBroadcast :: "ip_addr \<Rightarrow> ip_addr option" where
  "GetDefaultBroadcast ip =
     Option.bind (GetAddressMaskFromPrefix (family ip) (ip_prefix ip))
       (\<lambda>m. MergeWith ip (IPAddress_bytes (family ip) (BitwiseInvert (address m))))"

definition CanReachAddress :: "ip_addr \<Rightarrow> ip_addr \<Rightarrow> bool option" where
  "CanReachAddress a b =
     (if family a \<noteq> family b then None
      else Option.bind (GetNetworkPart a) (\<lambda>na.
             Option.bind (GetNetworkPart (b\<lparr>ip_prefix := ip_prefix a\<rparr>)) (\<lambda>nb.
               Some (IP_Equals na nb))))"

lemmas family_consts = kFamilyUnknown_def kFamilyIPv4_def kFamilyIPv6_def kBitsPerByte_def

subsection \<open>Bits of an address\<close>

text \<open>Bit \<open>k\<close> of an address, counted from the most significant bit of its first byte.\<close>

definition addr_bit :: "bytes \<Rightarrow> nat \<Rightarrow> bool" where
  "addr_bit bs k = bit (bs ! (k div 8)) (7 - k mod 8)"

lemma addr_bit_flip:
  assumes "j < (8 :: nat)"
  shows "addr_bit bs (8 * i + (7 - j)) = bit (bs ! i) j"
proof -
  obtain m where m: "m = 7 - j" "m < 8" by simp
  then have "(8 * i + m) div 8 = i" "(8 * i + m) mod 8 = m" by simp_all
  moreover have "7 - m = j" using assms m by simp
  ultimately show ?thesis unfolding addr_bit_def m(1) [symmetric] by simp
qed

lemma bytes_eqI:
  assumes "length a = length b" and "\<And>k. k < 8 * length a \<Longrightarrow> addr_bit a k = addr_bit b k"
  shows "a = b"
proof (rule nth_equalityI [OF assms(1)], rule bit_word_eqI)
  fix i n assume "i < length a" "n < LENGTH(8)"
  then show "bit (a ! i) n = bit (b ! i) n"
    using assms(2) [of "8 * i + (7 - n)"] addr_bit_flip [of n a i] addr_bit_flip [of n b i] by simp
qed

lemma addr_bit_BitwiseAnd:
  assumes "length a = length b" "k < 8 * length a"
  shows "addr_bit (snd (BitwiseAnd a b)) k = (addr_bit a k \<and> addr_bit b k)"
  using assms by (simp add: addr_bit_def BitwiseAnd_def GetLength_def bit_simps div_less_iff_less_mult)

lemma addr_bit_BitwiseOr:
  assumes "length a = length b" "k < 8 * length a"
  shows "addr_bit (snd (BitwiseOr a b)) k = (addr_bit a k \<or> addr_bit b k)"
  using assms by (simp add: addr_bit_def BitwiseOr_def GetLength_def bit_simps div_less_iff_less_mult)

lemma addr_bit_BitwiseInvert:
  assumes "k < 8 * length a"
  shows "addr_bit (BitwiseInvert a) k = (\<not> addr_bit a k)"
proof -
  have "7 - k mod 8 < 8" by arith
  with assms show ?thesis
    by (simp add: addr_bit_def BitwiseInvert_def bit_simps div_less_iff_less_mult)
qed

lemma length_Bitwise [simp]:
  "length (snd (BitwiseAnd a b)) = length a"
  "length (snd (BitwiseOr a b)) = length a"
  "length (BitwiseInvert a) = length a"
  by (simp_all add: BitwiseAnd_def BitwiseOr_def BitwiseInvert_def GetLength_def)

subsection \<open>The address mask of a prefix\<close>

lemma bit_mask_byte:
  assumes "bits \<le> 8"
  shows "bit (ucast (NOT (2 ^ (8 - bits) - 1 :: u32)) :: u8) (7 - r mod 8) \<longleftrightarrow> r mod 8 < bits"
proof -
  have "(2 ^ (8 - bits) - 1 :: u32) = mask (8 - bits)"
    by (simp add: mask_eq_exp_minus_1)
  moreover have "7 - r mod 8 < 8" "r mod 8 < 8" by simp_all
  ultimately show ?thesis using assms by (auto simp: bit_simps not_less)
qed

lemma bit_255: "bit (255 :: int) (7 - m)"
proof -
  have "(255 :: int) = mask 8" by (simp add: mask_eq_exp_minus_1)
  moreover have "7 - m < 8" by arith
  ultimately show ?thesis by (simp only: bit_mask_iff) simp
qed

lemma addr_bit_update:
  assumes "i < length buf" "k < 8 * length buf"
  shows "addr_bit (buf[i := x]) k = (if k div 8 = i then bit x (7 - k mod 8) else addr_bit buf k)"
  using assms by (auto simp: addr_bit_def nth_list_update)

lemma addr_bit_zero: "k div 8 < length buf \<Longrightarrow> buf ! (k div 8) = 0 \<Longrightarrow> \<not> addr_bit buf k"
  by (simp add: addr_bit_def)

lemma fill_mask_bits:
  assumes "i < length buf" "bits \<le> 8 * (length buf - i)"
    and "\<And>j. i \<le> j \<Longrightarrow> j < length buf \<Longrightarrow> buf ! j = 0"
  shows "\<exists>r. fill_mask buf i bits = Some r \<and> length r = length buf \<and>
     (\<forall>k < 8 * length buf. addr_bit r k \<longleftrightarrow>
        (if k < 8 * i then addr_bit buf k else k < 8 * i + bits))"
  using assms
proof (induction buf i bits rule: fill_mask.induct)
  case (1 buf i bits)
  show ?case
  proof (cases "bits > 8")
    case True
    have sub: "Suc i < length (buf[i := 255])" "bits - 8 \<le> 8 * (length (buf[i := 255]) - Suc i)"
      "\<And>j. Suc i \<le> j \<Longrightarrow> j < length (buf[i := 255]) \<Longrightarrow> buf[i := 255] ! j = 0"
      using "1.prems" True by (auto simp: nth_list_update)
    then obtain r where r: "fill_mask (buf[i := 255]) (Suc i) (bits - 8) = Some r"
      "length r = length buf"
      "\<And>k. k < 8 * length buf \<Longrightarrow> addr_bit r k \<longleftrightarrow>
         (if k < 8 * Suc i then addr_bit (buf[i := 255]) k else k < 8 * Suc i + (bits - 8))"
      using "1.IH" "1.prems"(1) True by (auto simp: kBitsPerByte_def)
    have "addr_bit r k \<longleftrightarrow> (if k < 8 * i then addr_bit buf k else k < 8 * i + bits)"
      if "k < 8 * length buf" for k
      using r(3) [OF that] True "1.prems"(1) that
      by (auto simp: addr_bit_update bit_255 split: if_splits)
    with r True "1.prems"(1) show ?thesis
      by (auto simp: fill_mask.simps [of buf i bits] kBitsPerByte_def)
  next
    case False
    let ?r = "buf[i := ucast (NOT (push_bit (8 - bits) (1 :: u32) - 1))]"
    have "addr_bit ?r k \<longleftrightarrow> (if k < 8 * i then addr_bit buf k else k < 8 * i + bits)"
      if k: "k < 8 * length buf" for k
    proof (cases "k div 8 = i")
      case True
      then have "8 * i \<le> k" "k - 8 * i = k mod 8" by (auto simp: minus_mult_div_eq_mod)
      with True False "1.prems"(1) k show ?thesis
        by (simp add: addr_bit_update bit_mask_byte) linarith
    next
      case False2: False
      show ?thesis
      proof (cases "k < 8 * i")
        case True
        with False2 "1.prems"(1) k show ?thesis by (simp add: addr_bit_update)
      next
        case False3: False
        with False2 have "i \<le> k div 8" "8 * i + 8 \<le> k" by auto
        with False2 False False3 "1.prems"(1,3) k show ?thesis
          by (auto simp: addr_bit_update addr_bit_zero)
      qed
    qed
    with False "1.prems"(1) show ?thesis
      by (auto simp: fill_mask.simps [of buf i bits] kBitsPerByte_def)
  qed
qed

lemma address_length_pos [simp]:
  "GetAddressLength kFamilyIPv4 = 4" "GetAddressLength kFamilyIPv6 = 16"
  by (simp_all add: GetAddressLength_def family_consts)

lemma valid_family_cases:
  assumes "IsValid ip"
  shows "GetAddressLength (family ip) = 0 \<and> address ip = [] \<or>
    0 < GetAddressLength (family ip) \<and> length (address ip) = GetAddressLength (family ip)"
  using assms by (auto simp: IsValid_def GetLength_def)

lemma mask_from_prefix:
  assumes "0 < GetAddressLength f"
  obtains m where "GetAddressMaskFromPrefix f pre = Some m" "family m = f"
    "length (address m) = GetAddressLength f" "ip_prefix m = 0"
    "\<And>k. k < GetMaxPrefixLength f \<Longrightarrow> addr_bit (address m) k \<longleftrightarrow> k < pre"
proof -
  let ?n = "GetAddressLength f"
  let ?bits = "if pre > GetMaxPrefixLength f then GetMaxPrefixLength f else pre"
  have "?bits \<le> 8 * ?n" by (simp add: GetMaxPrefixLength_def kBitsPerByte_def)
  then obtain r where r: "fill_mask (replicate ?n 0) 0 ?bits = Some r" "length r = ?n"
    "\<And>k. k < 8 * ?n \<Longrightarrow> addr_bit r k \<longleftrightarrow> k < ?bits"
    using fill_mask_bits [of 0 "replicate ?n 0" ?bits] assms by auto
  show thesis
  proof (rule that)
    show "GetAddressMaskFromPrefix f pre = Some (IPAddress_bytes f r)"
      using r(1) by (simp add: GetAddressMaskFromPrefix_def)
    show "addr_bit (address (IPAddress_bytes f r)) k \<longleftrightarrow> k < pre" if "k < GetMaxPrefixLength f" for k
      using that r(3) [of k]
      by (auto simp: IPAddress_bytes_def GetMaxPrefixLength_def kBitsPerByte_def)
  qed (simp_all add: IPAddress_bytes_def r(2))
qed

lemma network_part:
  assumes "IsValid ip" "0 < GetAddressLength (family ip)"
  obtains n where "GetNetworkPart ip = Some n" "family n = family ip" "ip_prefix n = 0"
    "length (address n) = length (address ip)"
    "\<And>k. k < 8 * length (address ip) \<Longrightarrow>
       addr_bit (address n) k \<longleftrightarrow> k < ip_prefix ip \<and> addr_bit (address ip) k"
proof -
  obtain m where m: "GetAddressMaskFromPrefix (family ip) (ip_prefix ip) = Some m"
    "family m = family ip" "length (address m) = GetAddressLength (family ip)"
    "\<And>k. k < GetMaxPrefixLength (family ip) \<Longrightarrow> addr_bit (address m) k \<longleftrightarrow> k < ip_prefix ip"
    using mask_from_prefix [OF assms(2)] by metis
  have len: "length (address ip) = GetAddressLength (family ip)"
    using assms(1) by (simp add: IsValid_def GetLength_def)
  have valid: "IsValid m"
    using assms(1) m by (simp add: IsValid_def GetLength_def)
  show thesis
  proof (rule that)
    show "GetNetworkPart ip =
        Some (IPAddress_bytes (family ip) (snd (BitwiseAnd (address ip) (address m))))"
      using assms valid m by (simp add: GetNetworkPart_def MaskWith_def)
  qed (use m len in \<open>auto simp: IPAddress_bytes_def addr_bit_BitwiseAnd GetMaxPrefixLength_def
        kBitsPerByte_def\<close>)
qed

lemma default_broadcast:
  assumes "IsValid ip" "0 < GetAddressLength (family ip)"
  obtains n where "GetDefaultBroadcast ip = Some n" "family n = family ip" "ip_prefix n = 0"
    "length (address n) = length (address ip)"
    "\<And>k. k < 8 * length (address ip) \<Longrightarrow>
       addr_bit (address n) k \<longleftrightarrow> \<not> k < ip_prefix ip \<or> addr_bit (address ip) k"
proof -
  obtain m where m: "GetAddressMaskFromPrefix (family ip) (ip_prefix ip) = Some m"
    "family m = family ip" "length (address m) = GetAddressLength (family ip)"
    "\<And>k. k < GetMaxPrefixLength (family ip) \<Longrightarrow> addr_bit (address m) k \<longleftrightarrow> k < ip_prefix ip"
    using mask_from_prefix [OF assms(2)] by metis
  have len: "length (address ip) = GetAddressLength (family ip)"
    using assms(1) by (simp add: IsValid_def GetLength_def)
  have valid: "IsValid (IPAddress_bytes (family ip) (BitwiseInvert (address m)))"
    using assms(1) m by (simp add: IsValid_def GetLength_def IPAddress_bytes_def)
  show thesis
  proof (rule that)
    show "GetDefaultBroadcast ip = Some (IPAddress_bytes (family ip)
        (snd (BitwiseOr (address ip) (BitwiseInvert (address m)))))"
      using assms valid m
      by (simp add: GetDefaultBroadcast_def MergeWith_def) (simp add: IPAddress_bytes_def)
  qed (use m len in \<open>auto simp: IPAddress_bytes_def addr_bit_BitwiseOr addr_bit_BitwiseInvert
        GetMaxPrefixLength_def kBitsPerByte_def\<close>)
qed

subsection \<open>Reachability, broadcast and the mask round trip\<close>

lemma GetMaxPrefixLength_8: "GetMaxPrefixLength f = 8 * GetAddressLength f"
  by (simp add: GetMaxPrefixLength_def kBitsPerByte_def)

lemma can_reach_bits:
  assumes "IsValid a" "IsValid b" "family a = family b" "0 < GetAddressLength (family a)"
  shows "CanReachAddress a b = Some (\<forall>k < min (ip_prefix a) (GetMaxPrefixLength (family a)).
    addr_bit (address a) k = addr_bit (address b) k)"
proof -
  let ?b = "b\<lparr>ip_prefix := ip_prefix a\<rparr>"
  have vb: "IsValid ?b" using assms(2) by (simp add: IsValid_def)
  have len: "length (address a) = GetAddressLength (family a)"
    "length (address b) = GetAddressLength (family a)"
    using assms by (simp_all add: IsValid_def GetLength_def)
  obtain na where na: "GetNetworkPart a = Some na" "family na = family a" "ip_prefix na = 0"
    "length (address na) = length (address a)"
    "\<And>k. k < 8 * length (address a) \<Longrightarrow> addr_bit (address na) k \<longleftrightarrow>
       k < ip_prefix a \<and> addr_bit (address a) k"
    using network_part [OF assms(1,4)] by metis
  have fb: "0 < GetAddressLength (family ?b)" using assms(3,4) by simp
  obtain nb where nb: "GetNetworkPart ?b = Some nb" "family nb = family a" "ip_prefix nb = 0"
    "length (address nb) = length (address a)"
    "\<And>k. k < 8 * length (address a) \<Longrightarrow> addr_bit (address nb) k \<longleftrightarrow>
       k < ip_prefix a \<and> addr_bit (address b) k"
    by (rule network_part [OF vb fb]) (use assms(3) len in simp)
  have "address na = address nb \<longleftrightarrow>
      (\<forall>k < 8 * length (address a). addr_bit (address na) k = addr_bit (address nb) k)"
    using na(4) nb(4) by (auto intro: bytes_eqI)
  then have "IP_Equals na nb \<longleftrightarrow> (\<forall>k < min (ip_prefix a) (GetMaxPrefixLength (family a)).
      addr_bit (address a) k = addr_bit (address b) k)"
    using na nb len by (auto simp: IP_Equals_def GetMaxPrefixLength_8)
  then show ?thesis
    using assms(3) na(1) nb(1) by (simp add: CanReachAddress_def)
qed

lemma bit_network_word:
  assumes "length bs = 4" "j < 32"
  shows "bit (word_of_le32 (rev bs)) j = addr_bit bs (31 - j)"
proof -
  obtain a b c d where bs: "bs = [a, b, c, d]" using assms(1) by (rule length_4E)
  from assms(2) consider "j < 8" | "8 \<le> j" "j < 16" | "16 \<le> j" "j < 24" | "24 \<le> j" by linarith
  then show ?thesis
  proof cases
    case 1
    then have "(31 - j) div 8 = 3" "(31 - j) mod 8 = 7 - j" by (simp_all add: mod_if)
    with 1 bs show ?thesis by (simp add: addr_bit_def bit_simps)
  next
    case 2
    then have "(31 - j) div 8 = 2" "(31 - j) mod 8 = 15 - j" by (simp_all add: mod_if)
    with 2 bs show ?thesis by (simp add: addr_bit_def bit_simps bit_u8_ge less_diff_conv2)
  next
    case 3
    then have "(31 - j) div 8 = 1" "(31 - j) mod 8 = 23 - j" by (simp_all add: mod_if)
    with 3 bs show ?thesis by (simp add: addr_bit_def bit_simps bit_u8_ge less_diff_conv2)
  next
    case 4
    with assms(2) have "(31 - j) div 8 = 0" "(31 - j) mod 8 = 31 - j" by (simp_all add: mod_if)
    with 4 assms(2) bs show ?thesis
      by (simp add: addr_bit_def bit_simps bit_u8_ge less_diff_conv2)
  qed
qed

lemma count_shifts_ones:
  assumes "p \<le> 32" "\<And>j. j < 32 \<Longrightarrow> bit m j \<longleftrightarrow> 32 - p \<le> j"
  shows "count_shifts m k = k + p"
  using assms
proof (induction p arbitrary: m k)
  case 0
  then have "m = 0" by (intro bit_word_eqI) auto
  then show ?case by (simp add: count_shifts.simps)
next
  case (Suc p)
  have "bit m 31" using Suc.prems(2) [of 31] Suc.prems(1) by simp
  then have "m \<noteq> 0" by auto
  moreover have "count_shifts (push_bit 1 m) (Suc k) = Suc k + p"
  proof (rule Suc.IH)
    show "p \<le> 32" using Suc.prems(1) by simp
    show "bit (push_bit 1 m) j \<longleftrightarrow> 32 - p \<le> j" if "j < 32" for j
      using that Suc.prems(1) Suc.prems(2) [of "j - 1"]
      by (simp only: bit_push_bit_iff) (auto simp: bit_simps le_diff_conv2)
  qed
  ultimately show ?case by (simp add: count_shifts.simps [of m k])
qed

text \<open>
  For valid addresses of one family, \<open>CanReachAddress\<close> returns (no \<open>CHECK\<close> fails, no store
  leaves the mask buffer) and answers exactly whether the two addresses agree on every bit of the
  first address's prefix.
\<close>

theorem CanReachAddress_prefix_agree:
  assumes "IsValid a" "IsValid b" "family a = family b"
    and "family a \<in> {kFamilyIPv4, kFamilyIPv6}"
  shows "CanReachAddress a b = Some (\<forall>k < min (ip_prefix a) (GetMaxPrefixLength (family a)).
    addr_bit (address a) k = addr_bit (address b) k)"
  using assms by (intro can_reach_bits) auto

theorem CanReachAddress_prefix_agree_witness:
  "CanReachAddress \<lparr>family = kFamilyIPv4, address = [192, 168, 1, 5], ip_prefix = 24\<rparr>
      \<lparr>family = kFamilyIPv4, address = [192, 168, 1, 77], ip_prefix = 0\<rparr> =
   Some (\<forall>k < min 24 (GetMaxPrefixLength kFamilyIPv4).
     addr_bit [192, 168, 1, 5] k = addr_bit [192, 168, 1, 77] k)"
  using CanReachAddress_prefix_agree
    [of "\<lparr>family = kFamilyIPv4, address = [192, 168, 1, 5], ip_prefix = 24\<rparr>"
        "\<lparr>family = kFamilyIPv4, address = [192, 168, 1, 77], ip_prefix = 0\<rparr>"]
  by (simp add: IsValid_def GetLength_def kFamilyUnknown_def kFamilyIPv4_def
      address_length_pos [unfolded kFamilyIPv4_def])

text \<open>
  The broadcast address of a valid address exists, keeps its family and prefix bits and has
  every host bit set.
\<close>

theorem GetDefaultBroadcast_host_ones:
  assumes "IsValid ip" "family ip \<in> {kFamilyIPv4, kFamilyIPv6}"
  shows "\<exists>n. GetDefaultBroadcast ip = Some n \<and> IsValid n \<and> family n = family ip \<and>
    (\<forall>k < GetMaxPrefixLength (family ip).
       addr_bit (address n) k \<longleftrightarrow> ip_prefix ip \<le> k \<or> addr_bit (address ip) k)"
proof -
  have "0 < GetAddressLength (family ip)" using assms(2) by auto
  with assms(1) show ?thesis
    by (rule default_broadcast)
      (use assms(1) in \<open>auto simp: IsValid_def GetLength_def GetMaxPrefixLength_8 not_less\<close>)
qed

theorem GetDefaultBroadcast_host_ones_witness:
  "\<exists>n. GetDefaultBroadcast \<lparr>family = kFamilyIPv4, address = [10, 0, 0, 1], ip_prefix = 8\<rparr> = Some n \<and>
     IsValid n \<and> (\<forall>k < GetMaxPrefixLength kFamilyIPv4.
       addr_bit (address n) k \<longleftrightarrow> 8 \<le> k \<or> addr_bit [10, 0, 0, 1] k)"
  using GetDefaultBroadcast_host_ones
    [of "\<lparr>family = kFamilyIPv4, address = [10, 0, 0, 1], ip_prefix = 8\<rparr>"]
  by (auto simp: IsValid_def GetLength_def family_consts GetAddressLength_def)

text \<open>
  \<open>GetPrefixLengthFromMask\<close> inverts \<open>GetAddressMaskFromPrefix\<close>: when the parser reads the
  mask of a prefix of at most 32 bits as its network-order value, the loop counts that prefix.
\<close>

theorem prefix_mask_roundtrip:
  assumes "pre \<le> 32" and "GetAddressMaskFromPrefix kFamilyIPv4 pre = Some m"
    and "inet_network s = word_of_le32 (rev (address m))"
  shows "GetPrefixLengthFromMask inet_network kFamilyIPv4 s = pre"
proof -
  obtain m' where m': "GetAddressMaskFromPrefix kFamilyIPv4 pre = Some m'"
    "length (address m') = 4"
    "\<And>k. k < 32 \<Longrightarrow> addr_bit (address m') k \<longleftrightarrow> k < pre"
    by (rule mask_from_prefix [of kFamilyIPv4 pre]) (auto simp: GetMaxPrefixLength_8)
  with assms(2) have m: "length (address m) = 4"
    "\<And>k. k < 32 \<Longrightarrow> addr_bit (address m) k \<longleftrightarrow> k < pre" by auto
  have "bit (inet_network s) j \<longleftrightarrow> 32 - pre \<le> j" if "j < 32" for j
    using that assms(1) m(2) [of "31 - j"] bit_network_word [OF m(1) that]
    by (auto simp: assms(3))
  then show ?thesis
    using count_shifts_ones [OF assms(1), of "inet_network s" 0]
    by (simp add: GetPrefixLengthFromMask_def)
qed

theorem prefix_mask_roundtrip_witness:
  "GetPrefixLengthFromMask (\<lambda>s. word_of_le32 (rev [255, 255, 240, 0])) kFamilyIPv4
     ''255.255.240.0'' = 20"
proof (rule prefix_mask_roundtrip [of 20 "IPAddress_bytes kFamilyIPv4 [255, 255, 240, 0]"])
  show "GetAddressMaskFromPrefix kFamilyIPv4 20 =
      Some (IPAddress_bytes kFamilyIPv4 [255, 255, 240, 0])"
    by code_simp
qed (simp_all add: IPAddress_bytes_def)

end
