(* ===== verification/Key_Value_Store.thy ===== *)
theory Key_Value_Store
  imports Prelude "HOL-Library.AList"
begin

text \<open>
  Model of \<open>key_value_store.cc\<close>. A \<open>KeyValueStore\<close> wraps a
  \<open>brillo::VariantDictionary\<close>, a map from names to variants; it is an association list here,
  updated and erased through \<open>AList\<close>. A variant carries one of the types the class reads and
  writes; \<open>AnyUint64\<close> and \<open>AnyVariantDictionary\<close> are types that occur in dictionaries the
  store is converted to or from. A typed read of a missing key or of a key of another type is a
  failed \<open>CHECK\<close>, the value \<open>None\<close>.
\<close>

datatype any_value =
    AnyBool "bool"
  | AnyByteArrays "bytes list"
  | AnyInt "int"
  | AnyInt16 "int"
  | AnyKeyValueStore "(string \<times> any_value) list"
  | AnyRpcIdentifier "string"
  | AnyRpcIdentifiers "string list"
  | AnyString "string"
  | AnyStringmap "(string \<times> string) list"
  | AnyStrings "string list"
  | AnyUint "u32"
  | AnyUint8 "u8"
  | AnyUint16 "u16"
  | AnyUint8s "bytes"
  | AnyUint32s "u32 list"
  | AnyUint64 u64
  | AnyVariantDictionary "(string \<times> any_value) list"

type_synonym any_dict = "(string \<times> any_value) list"

definition KVS_Clear :: "any_dict \<Rightarrow> any_dict" where
  "KVS_Clear m = []"

definition KVS_IsEmpty :: "any_dict \<Rightarrow> bool" where
  "KVS_IsEmpty m \<longleftrightarrow> m = []"

definition KVS_CopyFrom :: "any_dict \<Rightarrow> any_dict \<Rightarrow> any_dict" where
  "KVS_CopyFrom m b = b"

definition KVS_Contains :: "any_dict \<Rightarrow> string \<Rightarrow> bool" where
  "KVS_Contains m name \<longleftrightarrow> map_of m name \<noteq> None"

subsection \<open>Typed access\<close>

definition KVS_ContainsBool :: "any_dict \<Rightarrow> string \<Rightarrow> bool" where
  "KVS_ContainsBool m name = (case map_of m name of Some (AnyBool _) \<Rightarrow> True | _ \<Rightarrow> False)"

definition KVS_ContainsByteArrays :: "any_dict \<Rightarrow> string \<Rightarrow> bool" where
  "KVS_ContainsByteArrays m name = (case map_of m name of Some (AnyByteArrays _) \<Rightarrow> True | _ \<Rightarrow> False)"

definition KVS_ContainsInt :: "any_dict \<Rightarrow> string \<Rightarrow> bool" where
  "KVS_ContainsInt m name = (case map_of m name of Some (AnyInt _) \<Rightarrow> True | _ \<Rightarrow> False)"

definition KVS_ContainsInt16 :: "any_dict \<Rightarrow> string \<Rightarrow> bool" where
  "KVS_ContainsInt16 m name = (case map_of m name of Some (AnyInt16 _) \<Rightarrow> True | _ \<Rightarrow> False)"

definition KVS_ContainsKeyValueStore :: "any_dict \<Rightarrow> string \<Rightarrow> bool" where
  "KVS_ContainsKeyValueStore m name = (case map_of m name of Some (AnyKeyValueStore _) \<Rightarrow> True | _ \<Rightarrow> False)"

definition KVS_ContainsRpcIdentifier :: "any_dict \<Rightarrow> string \<Rightarrow> bool" where
  "KVS_ContainsRpcIdentifier m name = (case map_of m name of Some (AnyRpcIdentifier _) \<Rightarrow> True | _ \<Rightarrow> False)"

definition KVS_ContainsRpcIdentifiers :: "any_dict \<Rightarrow> string \<Rightarrow> bool" where
  "KVS_ContainsRpcIdentifiers m name = (case map_of m name of Some (AnyRpcIdentifiers _) \<Rightarrow> True | _ \<Rightarrow> False)"

definition KVS_ContainsString :: "any_dict \<Rightarrow> string \<Rightarrow> bool" where
  "KVS_ContainsString m name = (case map_of m name of Some (AnyString _) \<Rightarrow> True | _ \<Rightarrow> False)"

definition KVS_ContainsStringmap :: "any_dict \<Rightarrow> string \<Rightarrow> bool" where
  "KVS_ContainsStringmap m name = (case map_of m name of Some (AnyStringmap _) \<Rightarrow> True | _ \<Rightarrow> False)"

definition KVS_ContainsStrings :: "any_dict \<Rightarrow> string \<Rightarrow> bool" where
  "KVS_ContainsStrings m name = (case map_of m name of Some (AnyStrings _) \<Rightarrow> True | _ \<Rightarrow> False)"

definition KVS_ContainsUint :: "any_dict \<Rightarrow> string \<Rightarrow> bool" where
  "KVS_ContainsUint m name = (case map_of m name of Some (AnyUint _) \<Rightarrow> True | _ \<Rightarrow> False)"

definition KVS_ContainsUint8 :: "any_dict \<Rightarrow> string \<Rightarrow> bool" where
  "KVS_ContainsUint8 m name = (case map_of m name of Some (AnyUint8 _) \<Rightarrow> True | _ \<Rightarrow> False)"

definition KVS_ContainsUint16 :: "any_dict \<Rightarrow> string \<Rightarrow> bool" where
  "KVS_ContainsUint16 m name = (case map_of m name of Some (AnyUint16 _) \<Rightarrow> True | _ \<Rightarrow> False)"

definition KVS_ContainsUint8s :: "any_dict \<Rightarrow> string \<Rightarrow> bool" where
  "KVS_ContainsUint8s m name = (case map_of m name of Some (AnyUint8s _) \<Rightarrow> True | _ \<Rightarrow> False)"

definition KVS_ContainsUint32s :: "any_dict \<Rightarrow> string \<Rightarrow> bool" where
  "KVS_ContainsUint32s m name = (case map_of m name of Some (AnyUint32s _) \<Rightarrow> True | _ \<Rightarrow> False)"

definition KVS_GetBool :: "any_dict \<Rightarrow> string \<Rightarrow> (bool) option" where
  "KVS_GetBool m name = (case map_of m name of Some (AnyBool v) \<Rightarrow> Some v | _ \<Rightarrow> None)"

definition KVS_GetByteArrays :: "any_dict \<Rightarrow> string \<Rightarrow> (bytes list) option" where
  "KVS_GetByteArrays m name = (case map_of m name of Some (AnyByteArrays v) \<Rightarrow> Some v | _ \<Rightarrow> None)"

definition KVS_GetInt :: "any_dict \<Rightarrow> string \<Rightarrow> (int) option" where
  "KVS_GetInt m name = (case map_of m name of Some (AnyInt v) \<Rightarrow> Some v | _ \<Rightarrow> None)"

definition KVS_GetInt16 :: "any_dict \<Rightarrow> string \<Rightarrow> (int) option" where
  "KVS_GetInt16 m name = (case map_of m name of Some (AnyInt16 v) \<Rightarrow> Some v | _ \<Rightarrow> None)"

definition KVS_GetKeyValueStore :: "any_dict \<Rightarrow> string \<Rightarrow> (any_dict) option" where
  "KVS_GetKeyValueStore m name = (case map_of m name of Some (AnyKeyValueStore v) \<Rightarrow> Some v | _ \<Rightarrow> None)"

definition KVS_GetRpcIdentifier :: "any_dict \<Rightarrow> string \<Rightarrow> (string) option" where
  "KVS_GetRpcIdentifier m name = (case map_of m name of Some (AnyRpcIdentifier v) \<Rightarrow> Some v | _ \<Rightarrow> None)"

definition KVS_GetRpcIdentifiers :: "any_dict \<Rightarrow> string \<Rightarrow> (string list) option" where
  "KVS_GetRpcIdentifiers m name = (case map_of m name of Some (AnyRpcIdentifiers v) \<Rightarrow> Some v | _ \<Rightarrow> None)"

definition KVS_GetString :: "any_dict \<Rightarrow> string \<Rightarrow> (string) option" where
  "KVS_GetString m name = (case map_of m name of Some (AnyString v) \<Rightarrow> Some v | _ \<Rightarrow> None)"

definition KVS_GetStringmap :: "any_dict \<Rightarrow> string \<Rightarrow> ((string \<times> string) list) option" where
  "KVS_GetStringmap m name = (case map_of m name of Some (AnyStringmap v) \<Rightarrow> Some v | _ \<Rightarrow> None)"

definition KVS_GetStrings :: "any_dict \<Rightarrow> string \<Rightarrow> (string list) option" where
  "KVS_GetStrings m name = (case map_of m name of Some (AnyStrings v) \<Rightarrow> Some v | _ \<Rightarrow> None)"

definition KVS_GetUint :: "any_dict \<Rightarrow> string \<Rightarrow> (u32) option" where
  "KVS_GetUint m name = (case map_of m name of Some (AnyUint v) \<Rightarrow> Some v | _ \<Rightarrow> None)"

definition KVS_GetUint8 :: "any_dict \<Rightarrow> string \<Rightarrow> (u8) option" where
  "KVS_GetUint8 m name = (case map_of m name of Some (AnyUint8 v) \<Rightarrow> Some v | _ \<Rightarrow> None)"

definition KVS_GetUint16 :: "any_dict \<Rightarrow> string \<Rightarrow> (u16) option" where
  "KVS_GetUint16 m name = (case map_of m name of Some (AnyUint16 v) \<Rightarrow> Some v | _ \<Rightarrow> None)"

definition KVS_GetUint8s :: "any_dict \<Rightarrow> string \<Rightarrow> (bytes) option" where
  "KVS_GetUint8s m name = (case map_of m name of Some (AnyUint8s v) \<Rightarrow> Some v | _ \<Rightarrow> None)"

definition KVS_GetUint32s :: "any_dict \<Rightarrow> string \<Rightarrow> (u32 list) option" where
  "KVS_GetUint32s m name = (case map_of m name of Some (AnyUint32s v) \<Rightarrow> Some v | _ \<Rightarrow> None)"

definition KVS_Get :: "any_dict \<Rightarrow> string \<Rightarrow> any_value option" where
  "KVS_Get m name = map_of m name"

definition KVS_SetBool :: "any_dict \<Rightarrow> string \<Rightarrow> bool \<Rightarrow> any_dict" where
  "KVS_SetBool m name v = AList.update name (AnyBool v) m"

definition KVS_SetByteArrays :: "any_dict \<Rightarrow> string \<Rightarrow> bytes list \<Rightarrow> any_dict" where
  "KVS_SetByteArrays m name v = AList.update name (AnyByteArrays v) m"

definition KVS_SetInt :: "any_dict \<Rightarrow> string \<Rightarrow> int \<Rightarrow> any_dict" where
  "KVS_SetInt m name v = AList.update name (AnyInt v) m"

definition KVS_SetInt16 :: "any_dict \<Rightarrow> string \<Rightarrow> int \<Rightarrow> any_dict" where
  "KVS_SetInt16 m name v = AList.update name (AnyInt16 v) m"

definition KVS_SetKeyValueStore :: "any_dict \<Rightarrow> string \<Rightarrow> any_dict \<Rightarrow> any_dict" where
  "KVS_SetKeyValueStore m name v = AList.update name (AnyKeyValueStore v) m"

definition KVS_SetRpcIdentifier :: "any_dict \<Rightarrow> string \<Rightarrow> string \<Rightarrow> any_dict" where
  "KVS_SetRpcIdentifier m name v = AList.update name (AnyRpcIdentifier v) m"

definition KVS_SetRpcIdentifiers :: "any_dict \<Rightarrow> string \<Rightarrow> string list \<Rightarrow> any_dict" where
  "KVS_SetRpcIdentifiers m name v = AList.update name (AnyRpcIdentifiers v) m"

definition KVS_SetString :: "any_dict \<Rightarrow> string \<Rightarrow> string \<Rightarrow> any_dict" where
  "KVS_SetString m name v = AList.update name (AnyString v) m"

definition KVS_SetStringmap :: "any_dict \<Rightarrow> string \<Rightarrow> (string \<times> string) list \<Rightarrow> any_dict" where
  "KVS_SetStringmap m name v = AList.update name (AnyStringmap v) m"

definition KVS_SetStrings :: "any_dict \<Rightarrow> string \<Rightarrow> string list \<Rightarrow> any_dict" where
  "KVS_SetStrings m name v = AList.update name (AnyStrings v) m"

definition KVS_SetUint :: "any_dict \<Rightarrow> string \<Rightarrow> u32 \<Rightarrow> any_dict" where
  "KVS_SetUint m name v = AList.update name (AnyUint v) m"

definition KVS_SetUint8 :: "any_dict \<Rightarrow> string \<Rightarrow> u8 \<Rightarrow> any_dict" where
  "KVS_SetUint8 m name v = AList.update name (AnyUint8 v) m"

definition KVS_SetUint16 :: "any_dict \<Rightarrow> string \<Rightarrow> u16 \<Rightarrow> any_dict" where
  "KVS_SetUint16 m name v = AList.update name (AnyUint16 v) m"

definition KVS_SetUint8s :: "any_dict \<Rightarrow> string \<Rightarrow> bytes \<Rightarrow> any_dict" where
  "KVS_SetUint8s m name v = AList.update name (AnyUint8s v) m"

definition KVS_SetUint32s :: "any_dict \<Rightarrow> string \<Rightarrow> u32 list \<Rightarrow> any_dict" where
  "KVS_SetUint32s m name v = AList.update name (AnyUint32s v) m"

definition KVS_Set :: "any_dict \<Rightarrow> string \<Rightarrow> any_value \<Rightarrow> any_dict" where
  "KVS_Set m name v = AList.update name v m"

definition KVS_RemoveByteArrays :: "any_dict \<Rightarrow> string \<Rightarrow> any_dict" where
  "KVS_RemoveByteArrays m name = AList.delete name m"

definition KVS_RemoveInt :: "any_dict \<Rightarrow> string \<Rightarrow> any_dict" where
  "KVS_RemoveInt m name = AList.delete name m"

definition KVS_RemoveInt16 :: "any_dict \<Rightarrow> string \<Rightarrow> any_dict" where
  "KVS_RemoveInt16 m name = AList.delete name m"

definition KVS_RemoveKeyValueStore :: "any_dict \<Rightarrow> string \<Rightarrow> any_dict" where
  "KVS_RemoveKeyValueStore m name = AList.delete name m"

definition KVS_RemoveRpcIdentifier :: "any_dict \<Rightarrow> string \<Rightarrow> any_dict" where
  "KVS_RemoveRpcIdentifier m name = AList.delete name m"

definition KVS_RemoveString :: "any_dict \<Rightarrow> string \<Rightarrow> any_dict" where
  "KVS_RemoveString m name = AList.delete name m"

definition KVS_RemoveStringmap :: "any_dict \<Rightarrow> string \<Rightarrow> any_dict" where
  "KVS_RemoveStringmap m name = AList.delete name m"

definition KVS_RemoveStrings :: "any_dict \<Rightarrow> string \<Rightarrow> any_dict" where
  "KVS_RemoveStrings m name = AList.delete name m"

definition KVS_RemoveUint16 :: "any_dict \<Rightarrow> string \<Rightarrow> any_dict" where
  "KVS_RemoveUint16 m name = AList.delete name m"

definition KVS_RemoveUint8 :: "any_dict \<Rightarrow> string \<Rightarrow> any_dict" where
  "KVS_RemoveUint8 m name = AList.delete name m"

definition KVS_RemoveUint8s :: "any_dict \<Rightarrow> string \<Rightarrow> any_dict" where
  "KVS_RemoveUint8s m name = AList.delete name m"

definition KVS_RemoveUint32s :: "any_dict \<Rightarrow> string \<Rightarrow> any_dict" where
  "KVS_RemoveUint32s m name = AList.delete name m"

definition KVS_Remove :: "any_dict \<Rightarrow> string \<Rightarrow> any_dict" where
  "KVS_Remove m name = AList.delete name m"

definition KVS_LookupBool :: "any_dict \<Rightarrow> string \<Rightarrow> bool \<Rightarrow> bool option" where
  "KVS_LookupBool m name default_value =
     (case map_of m name of
        None \<Rightarrow> Some default_value
      | Some (AnyBool v) \<Rightarrow> Some v
      | Some _ \<Rightarrow> None)"

definition KVS_LookupInt :: "any_dict \<Rightarrow> string \<Rightarrow> int \<Rightarrow> int option" where
  "KVS_LookupInt m name default_value =
     (case map_of m name of
        None \<Rightarrow> Some default_value
      | Some (AnyInt v) \<Rightarrow> Some v
      | Some _ \<Rightarrow> None)"

definition KVS_LookupString :: "any_dict \<Rightarrow> string \<Rightarrow> string \<Rightarrow> string option" where
  "KVS_LookupString m name default_value =
     (case map_of m name of
        None \<Rightarrow> Some default_value
      | Some (AnyString v) \<Rightarrow> Some v
      | Some _ \<Rightarrow> None)"

lemmas KVS_access_defs =
  KVS_ContainsBool_def KVS_ContainsByteArrays_def KVS_ContainsInt_def KVS_ContainsInt16_def
  KVS_ContainsKeyValueStore_def KVS_ContainsRpcIdentifier_def KVS_ContainsRpcIdentifiers_def
  KVS_ContainsString_def KVS_ContainsStringmap_def KVS_ContainsStrings_def KVS_ContainsUint_def
  KVS_ContainsUint8_def KVS_ContainsUint16_def KVS_ContainsUint8s_def KVS_ContainsUint32s_def
  KVS_GetBool_def KVS_GetByteArrays_def KVS_GetInt_def KVS_GetInt16_def KVS_GetKeyValueStore_def
  KVS_GetRpcIdentifier_def KVS_GetRpcIdentifiers_def KVS_GetString_def KVS_GetStringmap_def
  KVS_GetStrings_def KVS_GetUint_def KVS_GetUint8_def KVS_GetUint16_def KVS_GetUint8s_def
  KVS_GetUint32s_def KVS_Get_def KVS_Contains_def

lemmas KVS_update_defs =
  KVS_SetBool_def KVS_SetByteArrays_def KVS_SetInt_def KVS_SetInt16_def KVS_SetKeyValueStore_def
  KVS_SetRpcIdentifier_def KVS_SetRpcIdentifiers_def KVS_SetString_def KVS_SetStringmap_def
  KVS_SetStrings_def KVS_SetUint_def KVS_SetUint8_def KVS_SetUint16_def KVS_SetUint8s_def
  KVS_SetUint32s_def KVS_Set_def KVS_RemoveByteArrays_def KVS_RemoveInt_def KVS_RemoveInt16_def
  KVS_RemoveKeyValueStore_def KVS_RemoveRpcIdentifier_def KVS_RemoveString_def
  KVS_RemoveStringmap_def KVS_RemoveStrings_def KVS_RemoveUint16_def KVS_RemoveUint8_def
  KVS_RemoveUint8s_def KVS_RemoveUint32s_def KVS_Remove_def KVS_Clear_def

lemmas KVS_lookup_defs =
  KVS_LookupBool_def KVS_LookupInt_def KVS_LookupString_def

subsection \<open>Conversion of nested stores\<close>

text \<open>
  The conversions walk the dictionary and turn nested stores into nested variant dictionaries,
  and back; \<open>emplace\<close> and \<open>insert\<close> into the empty output keep the first entry of a key, and the
  keys of a map are distinct, so the output has the entries in the same order.
\<close>

fun to_variant :: "any_value \<Rightarrow> any_value" where
  "to_variant (AnyKeyValueStore m) = AnyVariantDictionary (map (\<lambda>(k, v). (k, to_variant v)) m)"
| "to_variant v = v"

definition ConvertToVariantDictionary :: "any_dict \<Rightarrow> any_dict" where
  "ConvertToVariantDictionary m = map (\<lambda>(k, v). (k, to_variant v)) m"

fun from_variant :: "any_value \<Rightarrow> any_value" where
  "from_variant (AnyVariantDictionary m) = AnyKeyValueStore (map (\<lambda>(k, v). (k, from_variant v)) m)"
| "from_variant v = v"

definition ConvertFromVariantDictionary :: "any_dict \<Rightarrow> any_dict" where
  "ConvertFromVariantDictionary m = map (\<lambda>(k, v). (k, from_variant v)) m"

text \<open>A value that can stand in a \<open>KeyValueStore\<close>: no raw variant dictionary at any depth.\<close>

fun no_variant_dict :: "any_value \<Rightarrow> bool" where
  "no_variant_dict (AnyVariantDictionary m) = False"
| "no_variant_dict (AnyKeyValueStore m) = (\<forall>(k, v) \<in> set m. no_variant_dict v)"
| "no_variant_dict v = True"

lemma from_to_variant: "no_variant_dict v \<Longrightarrow> from_variant (to_variant v) = v"
proof (induction v rule: no_variant_dict.induct)
  case (2 m)
  then have "\<forall>x \<in> set m. (case x of (k, v) \<Rightarrow> (k, from_variant (to_variant v))) = x"
    by (auto split: prod.splits)
  then show ?case
    by (auto intro!: map_idI simp: comp_def split: prod.splits)
qed simp_all

text \<open>
  Converting a store to a variant dictionary and back gives the store, with stores nested to
  any depth.
\<close>

theorem variant_dictionary_roundtrip:
  assumes "\<forall>(k, v) \<in> set m. no_variant_dict v"
  shows "ConvertFromVariantDictionary (ConvertToVariantDictionary m) = m"
  using assms
  by (auto simp: ConvertFromVariantDictionary_def ConvertToVariantDictionary_def from_to_variant
      intro!: map_idI)

theorem variant_dictionary_roundtrip_witness:
  "ConvertFromVariantDictionary (ConvertToVariantDictionary
     [(''a'', AnyInt 3), (''b'', AnyKeyValueStore [(''c'', AnyBool True)])]) =
     [(''a'', AnyInt 3), (''b'', AnyKeyValueStore [(''c'', AnyBool True)])]"
  by (rule variant_dictionary_roundtrip) simp

end
