(* ===== verification/Store_Interface.thy ===== *)
theory Store_Interface
  imports Key_Value_Store
begin

text \<open>
  \<open>store_interface.h\<close>: the abstract class through which services, profiles and static IP
  parameters read and write persistent settings. A concrete store supplies its virtual methods
  as the record \<open>store_interface\<close>; a client's operations take that record, as the C++ code takes
  a \<open>StoreInterface*\<close>. The locale \<open>store_laws\<close> states what clients rely on, by an abstraction
  \<open>view\<close> from the store's state to a two-level map of typed values.
\<close>

record 's store_interface =
  si_ContainsGroup :: "'s \<Rightarrow> string \<Rightarrow> bool"
  si_DeleteKey :: "'s \<Rightarrow> string \<Rightarrow> string \<Rightarrow> bool \<times> 's"
  si_DeleteGroup :: "'s \<Rightarrow> string \<Rightarrow> bool \<times> 's"
  si_GetString :: "'s \<Rightarrow> string \<Rightarrow> string \<Rightarrow> string option"
  si_SetString :: "'s \<Rightarrow> string \<Rightarrow> string \<Rightarrow> string \<Rightarrow> bool \<times> 's"
  si_GetBool :: "'s \<Rightarrow> string \<Rightarrow> string \<Rightarrow> bool option"
  si_SetBool :: "'s \<Rightarrow> string \<Rightarrow> string \<Rightarrow> bool \<Rightarrow> bool \<times> 's"
  si_GetInt :: "'s \<Rightarrow> string \<Rightarrow> string \<Rightarrow> int option"
  si_SetInt :: "'s \<Rightarrow> string \<Rightarrow> string \<Rightarrow> int \<Rightarrow> bool \<times> 's"
  si_GetUint64 :: "'s \<Rightarrow> string \<Rightarrow> string \<Rightarrow> u64 option"
  si_SetUint64 :: "'s \<Rightarrow> string \<Rightarrow> string \<Rightarrow> u64 \<Rightarrow> bool \<times> 's"
  si_GetStringList :: "'s \<Rightarrow> string \<Rightarrow> string \<Rightarrow> string list option"
  si_SetStringList :: "'s \<Rightarrow> string \<Rightarrow> string \<Rightarrow> string list \<Rightarrow> bool \<times> 's"
  si_GetCryptedString :: "'s \<Rightarrow> string \<Rightarrow> string \<Rightarrow> string option"
  si_SetCryptedString :: "'s \<Rightarrow> string \<Rightarrow> string \<Rightarrow> string \<Rightarrow> bool \<times> 's"

text \<open>Whether two variants hold the same type (\<open>brillo::Any::IsTypeCompatible\<close>).\<close>

fun any_tag :: "any_value \<Rightarrow> nat" where
  "any_tag (AnyBool _) = 0"
| "any_tag (AnyByteArrays _) = 1"
| "any_tag (AnyInt _) = 2"
| "any_tag (AnyInt16 _) = 3"
| "any_tag (AnyKeyValueStore _) = 4"
| "any_tag (AnyRpcIdentifier _) = 5"
| "any_tag (AnyRpcIdentifiers _) = 6"
| "any_tag (AnyString _) = 7"
| "any_tag (AnyStringmap _) = 8"
| "any_tag (AnyStrings _) = 9"
| "any_tag (AnyUint _) = 10"
| "any_tag (AnyUint8 _) = 11"
| "any_tag (AnyUint16 _) = 12"
| "any_tag (AnyUint8s _) = 13"
| "any_tag (AnyUint32s _) = 14"
| "any_tag (AnyUint64 _) = 15"
| "any_tag (AnyVariantDictionary _) = 16"

definition same_type :: "any_value \<Rightarrow> any_value \<Rightarrow> bool" where
  "same_type a b \<longleftrightarrow> any_tag a = any_tag b"

type_synonym settings_view = "string \<Rightarrow> string \<Rightarrow> any_value option"

definition view_set :: "settings_view \<Rightarrow> string \<Rightarrow> string \<Rightarrow> any_value \<Rightarrow> settings_view" where
  "view_set w g k v = w(g := (w g)(k \<mapsto> v))"

definition view_del :: "settings_view \<Rightarrow> string \<Rightarrow> string \<Rightarrow> settings_view" where
  "view_del w g k = w(g := (w g)(k := None))"

definition writable :: "settings_view \<Rightarrow> string \<Rightarrow> string \<Rightarrow> any_value \<Rightarrow> bool" where
  "writable w g k v = (case w g k of None \<Rightarrow> True | Some old \<Rightarrow> same_type old v)"

lemma view_set_apply [simp]:
  "view_set w g k v g' k' = (if g' = g \<and> k' = k then Some v else w g' k')"
  by (simp add: view_set_def)

lemma view_del_apply [simp]:
  "view_del w g k g' k' = (if g' = g \<and> k' = k then None else w g' k')"
  by (simp add: view_del_def)

lemma writable_view_set [simp]:
  "writable (view_set w g k v) g' k' v' =
     (if g' = g \<and> k' = k then same_type v v' else writable w g' k' v')"
  by (simp add: writable_def)

lemma writable_view_del [simp]:
  "writable (view_del w g k) g' k' v' = (g' = g \<and> k' = k \<or> writable w g' k' v')"
  by (auto simp: writable_def)

lemma same_type_simps [simp]:
  "same_type (AnyBool a) (AnyBool b)" "same_type (AnyInt i) (AnyInt j)"
  "same_type (AnyString s) (AnyString t)"
  by (simp_all add: same_type_def)

text \<open>
  Clients either set a key or delete it; \<open>view_put\<close> is both. \<open>slot w g k t\<close> says that the key
  has no value or one of the type with tag \<open>t\<close>, which is when a typed write succeeds.
\<close>

definition view_put :: "settings_view \<Rightarrow> string \<Rightarrow> string \<Rightarrow> any_value option \<Rightarrow> settings_view" where
  "view_put w g k vo = w(g := (w g)(k := vo))"

definition slot :: "settings_view \<Rightarrow> string \<Rightarrow> string \<Rightarrow> nat \<Rightarrow> bool" where
  "slot w g k t = (case w g k of None \<Rightarrow> True | Some v \<Rightarrow> any_tag v = t)"

lemma view_put_apply [simp]:
  "view_put w g k vo g' k' = (if g' = g \<and> k' = k then vo else w g' k')"
  by (simp add: view_put_def)

lemma slot_view_put [simp]:
  "slot (view_put w g k vo) g' k' t =
     (if g' = g \<and> k' = k then (case vo of None \<Rightarrow> True | Some v \<Rightarrow> any_tag v = t)
      else slot w g' k' t)"
  by (simp add: slot_def)

lemma writable_slot: "writable w g k v = slot w g k (any_tag v)"
  by (simp add: writable_def slot_def same_type_def split: option.split)

lemma view_set_put: "view_set w g k v = view_put w g k (Some v)"
  by (simp add: view_set_def view_put_def)

lemma view_del_put: "view_del w g k = view_put w g k None"
  by (simp add: view_del_def view_put_def)

text \<open>A chain of writes to one group, the last one first.\<close>

fun put_all :: "string \<Rightarrow> (string \<times> any_value option) list \<Rightarrow> settings_view \<Rightarrow> settings_view" where
  "put_all sid [] w = w"
| "put_all sid ((k, v) # kvs) w = view_put (put_all sid kvs w) sid k v"

lemma put_all_apply:
  "put_all sid kvs w g k =
    (if g = sid then (case map_of kvs k of Some v \<Rightarrow> v | None \<Rightarrow> w g k) else w g k)"
  by (induction kvs) auto

lemma slot_put_all:
  "slot (put_all sid kvs w) g k t =
    (if g = sid then (case map_of kvs k of Some None \<Rightarrow> True | Some (Some v) \<Rightarrow> any_tag v = t
                      | None \<Rightarrow> slot w g k t) else slot w g k t)"
  by (simp add: slot_def put_all_apply split: option.split)

subsection \<open>The storage helpers of \<open>Service\<close>\<close>

definition LoadString :: "'s store_interface \<Rightarrow> 's \<Rightarrow> string \<Rightarrow> string \<Rightarrow> string \<Rightarrow> string" where
  "LoadString I storage sid key default_value =
     (case si_GetString I storage sid key of Some v \<Rightarrow> v | None \<Rightarrow> default_value)"

definition SaveString ::
    "'s store_interface \<Rightarrow> string \<Rightarrow> string \<Rightarrow> string \<Rightarrow> bool \<Rightarrow> bool \<Rightarrow> 's \<Rightarrow> 's" where
  "SaveString I sid key v crypted save storage =
     (if v = [] \<or> \<not> save then snd (si_DeleteKey I storage sid key)
      else if crypted then snd (si_SetCryptedString I storage sid key v)
      else snd (si_SetString I storage sid key v))"

text \<open>What \<open>SaveString\<close> leaves under its key.\<close>

definition saved_string :: "(string \<Rightarrow> string) \<Rightarrow> string \<Rightarrow> bool \<Rightarrow> bool \<Rightarrow> any_value option" where
  "saved_string cipher v crypted save =
     (if v = [] \<or> \<not> save then None else Some (AnyString (if crypted then cipher v else v)))"

lemma saved_string_not [simp]: "saved_string cipher v crypted False = None"
  by (simp add: saved_string_def)

lemma saved_string_tag [simp]:
  "(case saved_string cipher v crypted save of None \<Rightarrow> True | Some a \<Rightarrow> any_tag a = 7)"
  by (simp add: saved_string_def)

text \<open>A successful \<open>Get\<close> overwrites its out parameter, a failed one leaves it.\<close>

definition got :: "'a option \<Rightarrow> 'a \<Rightarrow> 'a" where
  "got r old = (case r of Some v \<Rightarrow> v | None \<Rightarrow> old)"

lemma got_simps [simp]: "got (Some v) x = v" "got None x = x"
  by (simp_all add: got_def)

subsection \<open>The contract\<close>

locale store_laws =
  fixes I :: "'s store_interface"
    and view :: "'s \<Rightarrow> settings_view"
    and cipher :: "string \<Rightarrow> string"
    and decipher :: "string \<Rightarrow> string"
  assumes get_string: "si_GetString I s g k =
      (case view s g k of Some (AnyString v) \<Rightarrow> Some v | _ \<Rightarrow> None)"
    and get_bool: "si_GetBool I s g k =
      (case view s g k of Some (AnyBool v) \<Rightarrow> Some v | _ \<Rightarrow> None)"
    and get_int: "si_GetInt I s g k =
      (case view s g k of Some (AnyInt v) \<Rightarrow> Some v | _ \<Rightarrow> None)"
    and get_uint64: "si_GetUint64 I s g k =
      (case view s g k of Some (AnyUint64 v) \<Rightarrow> Some v | _ \<Rightarrow> None)"
    and get_string_list: "si_GetStringList I s g k =
      (case view s g k of Some (AnyStrings v) \<Rightarrow> Some v | _ \<Rightarrow> None)"
    and get_crypted: "si_GetCryptedString I s g k = map_option decipher (si_GetString I s g k)"
    and decipher: "decipher (cipher t) = t"
    and set_string: "writable (view s) g k (AnyString v) \<Longrightarrow>
      view (snd (si_SetString I s g k v)) = view_set (view s) g k (AnyString v)"
    and set_bool: "writable (view s) g k (AnyBool b) \<Longrightarrow>
      view (snd (si_SetBool I s g k b)) = view_set (view s) g k (AnyBool b)"
    and set_int: "writable (view s) g k (AnyInt i) \<Longrightarrow>
      view (snd (si_SetInt I s g k i)) = view_set (view s) g k (AnyInt i)"
    and set_uint64: "writable (view s) g k (AnyUint64 u) \<Longrightarrow>
      view (snd (si_SetUint64 I s g k u)) = view_set (view s) g k (AnyUint64 u)"
    and set_string_list: "writable (view s) g k (AnyStrings l) \<Longrightarrow>
      view (snd (si_SetStringList I s g k l)) = view_set (view s) g k (AnyStrings l)"
    and set_crypted: "si_SetCryptedString I s g k v = si_SetString I s g k (cipher v)"
    and delete_key: "view (snd (si_DeleteKey I s g k)) = view_del (view s) g k"
    and contains_view: "view s g k = Some a \<Longrightarrow> si_ContainsGroup I s g"
begin

lemmas get_laws = get_string get_bool get_int get_uint64 get_string_list get_crypted

lemma set_string_get:
  "writable (view s) g k (AnyString v) \<Longrightarrow>
     si_GetString I (snd (si_SetString I s g k v)) g k = Some v"
  by (simp add: get_string set_string)

lemma put_string:
  "slot (view s) g k 7 \<Longrightarrow> view (snd (si_SetString I s g k v)) = view_put (view s) g k (Some (AnyString v))"
  by (simp add: set_string writable_slot view_set_put)

lemma put_bool:
  "slot (view s) g k 0 \<Longrightarrow> view (snd (si_SetBool I s g k b)) = view_put (view s) g k (Some (AnyBool b))"
  by (simp add: set_bool writable_slot view_set_put)

lemma put_int:
  "slot (view s) g k 2 \<Longrightarrow> view (snd (si_SetInt I s g k i)) = view_put (view s) g k (Some (AnyInt i))"
  by (simp add: set_int writable_slot view_set_put)

lemma put_uint64:
  "slot (view s) g k 15 \<Longrightarrow>
     view (snd (si_SetUint64 I s g k u)) = view_put (view s) g k (Some (AnyUint64 u))"
  by (simp add: set_uint64 writable_slot view_set_put)

lemma put_string_list:
  "slot (view s) g k 9 \<Longrightarrow>
     view (snd (si_SetStringList I s g k l)) = view_put (view s) g k (Some (AnyStrings l))"
  by (simp add: set_string_list writable_slot view_set_put)

lemma put_none: "view (snd (si_DeleteKey I s g k)) = view_put (view s) g k None"
  by (simp add: delete_key view_del_put)

lemma put_SaveString:
  "slot (view s) g k 7 \<Longrightarrow>
     view (SaveString I g k v crypted save s) =
       view_put (view s) g k (saved_string cipher v crypted save)"
  by (simp add: SaveString_def put_none put_string set_crypted saved_string_def)

lemmas put_laws = put_string put_bool put_int put_uint64 put_string_list put_none put_SaveString

text \<open>
  The same laws as steps from a known view to the next one. A chain of writes is followed by
  applying them from the outermost write inwards; each leaves one slot condition.
\<close>

lemma put_steps:
  "view s = w \<Longrightarrow> slot w g k 7 \<Longrightarrow> view (snd (si_SetString I s g k v)) = view_put w g k (Some (AnyString v))"
  "view s = w \<Longrightarrow> slot w g k 0 \<Longrightarrow> view (snd (si_SetBool I s g k b)) = view_put w g k (Some (AnyBool b))"
  "view s = w \<Longrightarrow> slot w g k 2 \<Longrightarrow> view (snd (si_SetInt I s g k i)) = view_put w g k (Some (AnyInt i))"
  "view s = w \<Longrightarrow> slot w g k 15 \<Longrightarrow>
     view (snd (si_SetUint64 I s g k u)) = view_put w g k (Some (AnyUint64 u))"
  "view s = w \<Longrightarrow> view (snd (si_DeleteKey I s g k)) = view_put w g k None"
  "view s = w \<Longrightarrow> slot w g k 7 \<Longrightarrow>
     view (SaveString I g k v crypted save s) = view_put w g k (saved_string cipher v crypted save)"
  "view s = w \<Longrightarrow> slot w g k 9 \<Longrightarrow>
     view (if l = [] then snd (si_DeleteKey I s g k) else snd (si_SetStringList I s g k l)) =
       view_put w g k (if l = [] then None else Some (AnyStrings l))"
  "view s = w \<Longrightarrow> slot w g k 2 \<Longrightarrow>
     view (if i \<noteq> 0 then snd (si_SetInt I s g k i) else snd (si_DeleteKey I s g k)) =
       view_put w g k (if i \<noteq> 0 then Some (AnyInt i) else None)"
  "view s = w \<Longrightarrow> slot w g k 0 \<Longrightarrow>
     view (if b then snd (si_SetBool I s g k c) else snd (si_DeleteKey I s g k)) =
       view_put w g k (if b then Some (AnyBool c) else None)"
  "view s = w \<Longrightarrow> slot w g k 7 \<Longrightarrow>
     view (if b then snd (si_DeleteKey I s g k) else snd (si_SetString I s g k v)) =
       view_put w g k (if b then None else Some (AnyString v))"
  by (auto simp: put_laws)

lemma got_saved:
  "view s g k = saved_string cipher v False True \<Longrightarrow> got (si_GetString I s g k) [] = v"
  "view s g k = saved_string cipher v True True \<Longrightarrow> got (si_GetCryptedString I s g k) [] = v"
  "view s g k = (if l = [] then None else Some (AnyStrings l)) \<Longrightarrow> got (si_GetStringList I s g k) [] = l"
  "view s g k = Some (AnyBool b) \<Longrightarrow> got (si_GetBool I s g k) b0 = b"
  "view s g k = Some (AnyInt i) \<Longrightarrow> got (si_GetInt I s g k) i0 = i"
  by (auto simp: saved_string_def get_laws decipher split: if_splits)

end

end
