(* ===== verification/Json_Store.thy ===== *)
theory Json_Store
  imports Store_Interface
begin

text \<open>
  Model of \<open>json_store.cc\<close>: the settings store that keeps its groups in memory and serialises
  them to JSON. A JSON value has one constructor per \<open>base::Value\<close> type the code distinguishes
  (payloads the code never reads are left out); dictionaries are association lists. The JSON
  parser and printer, the hex and integer codecs and the ASCII test are libchrome's: they are
  arguments, collected in the record \<open>codec\<close> or passed as \<open>serialize\<close> and \<open>deserialize\<close>. The
  file's contents and whether a write succeeds are arguments too.
\<close>

datatype json =
    JNull | JBool bool | JInt int | JDouble | JString string | JBinary
  | JDict "(string \<times> json) list" | JList "json list"

record codec =
  is_string_ascii :: "string \<Rightarrow> bool"
  hex_encode :: "string \<Rightarrow> string"
  hex_string_to_bytes :: "string \<Rightarrow> string option"
  print_uint64 :: "u64 \<Rightarrow> string"
  string_to_uint64 :: "string \<Rightarrow> u64 option"

definition kCoercedValuePropertyEncodedValue :: string where
  "kCoercedValuePropertyEncodedValue = ''_encoded_value''"
definition kCoercedValuePropertyNativeType :: string where
  "kCoercedValuePropertyNativeType = ''_native_type''"
definition kNativeTypeNonAsciiString :: string where
  "kNativeTypeNonAsciiString = ''non_ascii_string''"
definition kNativeTypeUint64 :: string where "kNativeTypeUint64 = ''uint64''"
definition kRootPropertyDescription :: string where "kRootPropertyDescription = ''description''"
definition kRootPropertySettings :: string where "kRootPropertySettings = ''settings''"

lemmas json_consts = kCoercedValuePropertyEncodedValue_def kCoercedValuePropertyNativeType_def
  kNativeTypeNonAsciiString_def kNativeTypeUint64_def kRootPropertyDescription_def
  kRootPropertySettings_def

subsection \<open>Deserialization helpers\<close>

fun DoesGroupContainProperties :: "any_dict \<Rightarrow> any_dict \<Rightarrow> bool" where
  "DoesGroupContainProperties grp [] = True"
| "DoesGroupContainProperties grp ((k, v) # req) =
     (if map_of grp k = None \<or> map_of grp k \<noteq> Some v then False
      else DoesGroupContainProperties grp req)"

definition IsCoercedValue :: "(string \<times> json) list \<Rightarrow> bool" where
  "IsCoercedValue d \<longleftrightarrow> map_of d kCoercedValuePropertyNativeType \<noteq> None \<and>
     map_of d kCoercedValuePropertyEncodedValue \<noteq> None"

definition DecodeCoercedValue :: "codec \<Rightarrow> (string \<times> json) list \<Rightarrow> any_value option" where
  "DecodeCoercedValue cd d =
     (case map_of d kCoercedValuePropertyNativeType of
        Some (JString native_type) \<Rightarrow>
          (case map_of d kCoercedValuePropertyEncodedValue of
             Some (JString encoded) \<Rightarrow>
               if native_type = kNativeTypeNonAsciiString
               then map_option AnyString (hex_string_to_bytes cd encoded)
               else if native_type = kNativeTypeUint64
               then map_option AnyUint64 (string_to_uint64 cd encoded)
               else None
           | _ \<Rightarrow> None)
      | _ \<Rightarrow> None)"

definition MakeStringFromValue :: "codec \<Rightarrow> json \<Rightarrow> string option" where
  "MakeStringFromValue cd v =
     (case v of
        JString s \<Rightarrow> Some s
      | JDict d \<Rightarrow> (case DecodeCoercedValue cd d of Some (AnyString s) \<Rightarrow> Some s | _ \<Rightarrow> None)
      | _ \<Rightarrow> None)"

fun string_or_dict :: "json \<Rightarrow> bool" where
  "string_or_dict (JString _) = True"
| "string_or_dict (JDict _) = True"
| "string_or_dict _ = False"

fun strings_of_values :: "codec \<Rightarrow> json list \<Rightarrow> string list option" where
  "strings_of_values cd [] = Some []"
| "strings_of_values cd (v # vs) =
     (case MakeStringFromValue cd v of
        None \<Rightarrow> None
      | Some s \<Rightarrow> map_option ((#) s) (strings_of_values cd vs))"

definition ConvertListValueToStringVector :: "codec \<Rightarrow> json list \<Rightarrow> string list option" where
  "ConvertListValueToStringVector cd vs =
     (if list_all string_or_dict vs then strings_of_values cd vs else None)"

definition value_to_variant :: "codec \<Rightarrow> json \<Rightarrow> any_value option" where
  "value_to_variant cd v =
     (case v of
        JNull \<Rightarrow> None
      | JBool b \<Rightarrow> Some (AnyBool b)
      | JInt i \<Rightarrow> Some (AnyInt i)
      | JDouble \<Rightarrow> None
      | JString s \<Rightarrow> Some (AnyString s)
      | JBinary \<Rightarrow> None
      | JDict d \<Rightarrow> if \<not> IsCoercedValue d then None else DecodeCoercedValue cd d
      | JList vs \<Rightarrow> map_option AnyStrings (ConvertListValueToStringVector cd vs))"

fun variant_loop :: "codec \<Rightarrow> (string \<times> json) list \<Rightarrow> any_dict \<Rightarrow> any_dict option" where
  "variant_loop cd [] acc = Some acc"
| "variant_loop cd ((k, v) # rest) acc =
     (case value_to_variant cd v of
        None \<Rightarrow> None
      | Some a \<Rightarrow> variant_loop cd rest (AList.update k a acc))"

definition ConvertDictionaryValueToVariantDictionary ::
    "codec \<Rightarrow> (string \<times> json) list \<Rightarrow> any_dict option" where
  "ConvertDictionaryValueToVariantDictionary cd d = variant_loop cd d []"

subsection \<open>Serialization helpers\<close>

definition MakeCoercedValue :: "string \<Rightarrow> string \<Rightarrow> json" where
  "MakeCoercedValue native_type encoded =
     JDict (AList.update kCoercedValuePropertyEncodedValue (JString encoded)
             (AList.update kCoercedValuePropertyNativeType (JString native_type) []))"

definition MakeValueForString :: "codec \<Rightarrow> string \<Rightarrow> json" where
  "MakeValueForString cd s =
     (if is_string_ascii cd s \<and> CHR 0x00 \<notin> set s then JString s
      else MakeCoercedValue kNativeTypeNonAsciiString (hex_encode cd s))"

fun variant_to_value :: "codec \<Rightarrow> any_value \<Rightarrow> json option" where
  "variant_to_value cd (AnyBool b) = Some (JBool b)"
| "variant_to_value cd (AnyInt i) = Some (JInt i)"
| "variant_to_value cd (AnyString s) = Some (MakeValueForString cd s)"
| "variant_to_value cd (AnyUint64 u) = Some (MakeCoercedValue kNativeTypeUint64 (print_uint64 cd u))"
| "variant_to_value cd (AnyStrings ss) = Some (JList (map (MakeValueForString cd) ss))"
| "variant_to_value cd _ = None"

fun dictionary_loop ::
    "codec \<Rightarrow> any_dict \<Rightarrow> (string \<times> json) list \<Rightarrow> (string \<times> json) list option" where
  "dictionary_loop cd [] acc = Some acc"
| "dictionary_loop cd ((k, a) # rest) acc =
     (case variant_to_value cd a of
        None \<Rightarrow> None
      | Some v \<Rightarrow> dictionary_loop cd rest (AList.update k v acc))"

definition ConvertVariantDictionaryToDictionaryValue ::
    "codec \<Rightarrow> any_dict \<Rightarrow> (string \<times> json) list option" where
  "ConvertVariantDictionaryToDictionaryValue cd m = dictionary_loop cd m []"

subsection \<open>The store\<close>

record json_store =
  file_description :: string
  group_name_to_settings :: "(string \<times> any_dict) list"

text \<open>
  \<open>Open\<close>: \<open>file\<close> is \<open>None\<close> when the file is missing or empty, otherwise the result of reading
  it (\<open>None\<close> for a failed read). A failure in the middle of the groups leaves the groups read so
  far in the store, as the code does.
\<close>

fun open_groups ::
    "codec \<Rightarrow> (string \<times> json) list \<Rightarrow> (string \<times> any_dict) list \<Rightarrow> bool \<times> (string \<times> any_dict) list"
where
  "open_groups cd [] acc = (True, acc)"
| "open_groups cd ((g, v) # rest) acc =
     (case v of
        JDict d \<Rightarrow>
          (case ConvertDictionaryValueToVariantDictionary cd d of
             None \<Rightarrow> (False, acc)
           | Some m \<Rightarrow> open_groups cd rest (AList.update g m acc))
      | _ \<Rightarrow> (False, acc))"

definition JsonStore_Open ::
    "codec \<Rightarrow> (string \<Rightarrow> json option) \<Rightarrow> string option option \<Rightarrow> json_store \<Rightarrow> bool \<times> json_store" where
  "JsonStore_Open cd deserialize file st =
     (case file of
        None \<Rightarrow> (True, st)
      | Some None \<Rightarrow> (False, st)
      | Some (Some text) \<Rightarrow>
          (case deserialize text of
             Some (JDict root) \<Rightarrow>
               (let st = (case map_of root kRootPropertyDescription of
                            Some (JString s) \<Rightarrow> st\<lparr>file_description := s\<rparr>
                          | _ \<Rightarrow> st)
                in case map_of root kRootPropertySettings of
                     Some (JDict settings) \<Rightarrow>
                       (let (ok, groups) = open_groups cd settings []
                        in (ok, st\<lparr>group_name_to_settings := groups\<rparr>))
                   | _ \<Rightarrow> (False, st))
           | _ \<Rightarrow> (False, st)))"

fun flush_groups ::
    "codec \<Rightarrow> (string \<times> any_dict) list \<Rightarrow> (string \<times> json) list \<Rightarrow> (string \<times> json) list option" where
  "flush_groups cd [] acc = Some acc"
| "flush_groups cd ((g, m) # rest) acc =
     (case ConvertVariantDictionaryToDictionaryValue cd m of
        None \<Rightarrow> None
      | Some d \<Rightarrow> flush_groups cd rest (AList.update g (JDict d) acc))"

text \<open>
  \<open>Flush\<close> aborts the process (\<open>LOG(FATAL)\<close>, here \<open>None\<close>) when a group cannot be converted;
  otherwise it returns its result and, when that is true, the text written.
\<close>

definition JsonStore_Flush ::
    "codec \<Rightarrow> (json \<Rightarrow> string option) \<Rightarrow> (string \<Rightarrow> bool) \<Rightarrow> json_store \<Rightarrow>
      (bool \<times> string option) option" where
  "JsonStore_Flush cd serialize write_ok st =
     (case flush_groups cd (group_name_to_settings st) [] of
        None \<Rightarrow> None
      | Some groups \<Rightarrow>
          (let root = AList.update kRootPropertySettings (JDict groups)
                        (AList.update kRootPropertyDescription (JString (file_description st)) [])
           in case serialize (JDict root) of
                None \<Rightarrow> Some (False, None)
              | Some text \<Rightarrow> if write_ok text then Some (True, Some text) else Some (False, None)))"

definition JsonStore_Close where
  "JsonStore_Close cd serialize write_ok st = JsonStore_Flush cd serialize write_ok st"

definition JsonStore_GetGroups :: "json_store \<Rightarrow> string set" where
  "JsonStore_GetGroups st = set (map fst (group_name_to_settings st))"

definition JsonStore_GetGroupsWithKey :: "json_store \<Rightarrow> string \<Rightarrow> string set" where
  "JsonStore_GetGroupsWithKey st key =
     set (map fst (filter (\<lambda>(g, m). map_of m key \<noteq> None) (group_name_to_settings st)))"

definition JsonStore_GetGroupsWithProperties :: "json_store \<Rightarrow> any_dict \<Rightarrow> string set" where
  "JsonStore_GetGroupsWithProperties st props =
     set (map fst (filter (\<lambda>(g, m). DoesGroupContainProperties m props) (group_name_to_settings st)))"

definition JsonStore_ContainsGroup :: "json_store \<Rightarrow> string \<Rightarrow> bool" where
  "JsonStore_ContainsGroup st g \<longleftrightarrow> map_of (group_name_to_settings st) g \<noteq> None"

definition JsonStore_DeleteKey :: "json_store \<Rightarrow> string \<Rightarrow> string \<Rightarrow> bool \<times> json_store" where
  "JsonStore_DeleteKey st g k =
     (case map_of (group_name_to_settings st) g of
        None \<Rightarrow> (False, st)
      | Some m \<Rightarrow>
          (True, st\<lparr>group_name_to_settings :=
                     AList.update g (AList.delete k m) (group_name_to_settings st)\<rparr>))"

definition JsonStore_DeleteGroup :: "json_store \<Rightarrow> string \<Rightarrow> bool \<times> json_store" where
  "JsonStore_DeleteGroup st g =
     (True, st\<lparr>group_name_to_settings := AList.delete g (group_name_to_settings st)\<rparr>)"

definition JsonStore_SetHeader :: "json_store \<Rightarrow> string \<Rightarrow> bool \<times> json_store" where
  "JsonStore_SetHeader st h = (True, st\<lparr>file_description := h\<rparr>)"

text \<open>The templates \<open>ReadSetting<T>\<close> and \<open>WriteSetting<T>\<close>: \<open>T\<close> is given by a tag.\<close>

definition ReadSetting :: "nat \<Rightarrow> json_store \<Rightarrow> string \<Rightarrow> string \<Rightarrow> any_value option" where
  "ReadSetting tag st g k =
     (case map_of (group_name_to_settings st) g of
        None \<Rightarrow> None
      | Some m \<Rightarrow>
          (case map_of m k of
             None \<Rightarrow> None
           | Some v \<Rightarrow> if any_tag v \<noteq> tag then None else Some v))"

definition WriteSetting :: "json_store \<Rightarrow> string \<Rightarrow> string \<Rightarrow> any_value \<Rightarrow> bool \<times> json_store" where
  "WriteSetting st g k v =
     (case map_of (group_name_to_settings st) g of
        None \<Rightarrow> (True, st\<lparr>group_name_to_settings :=
                          AList.update g (AList.update k v []) (group_name_to_settings st)\<rparr>)
      | Some m \<Rightarrow>
          (let written = st\<lparr>group_name_to_settings :=
                              AList.update g (AList.update k v m) (group_name_to_settings st)\<rparr>
           in case map_of m k of
                None \<Rightarrow> (True, written)
              | Some old \<Rightarrow> if \<not> same_type old v then (False, st) else (True, written)))"

definition JsonStore_GetString :: "json_store \<Rightarrow> string \<Rightarrow> string \<Rightarrow> string option" where
  "JsonStore_GetString st g k =
     (case ReadSetting (any_tag (AnyString [])) st g k of Some (AnyString s) \<Rightarrow> Some s | _ \<Rightarrow> None)"

definition JsonStore_SetString :: "json_store \<Rightarrow> string \<Rightarrow> string \<Rightarrow> string \<Rightarrow> bool \<times> json_store" where
  "JsonStore_SetString st g k v = WriteSetting st g k (AnyString v)"

definition JsonStore_GetBool :: "json_store \<Rightarrow> string \<Rightarrow> string \<Rightarrow> bool option" where
  "JsonStore_GetBool st g k =
     (case ReadSetting (any_tag (AnyBool True)) st g k of Some (AnyBool b) \<Rightarrow> Some b | _ \<Rightarrow> None)"

definition JsonStore_SetBool :: "json_store \<Rightarrow> string \<Rightarrow> string \<Rightarrow> bool \<Rightarrow> bool \<times> json_store" where
  "JsonStore_SetBool st g k v = WriteSetting st g k (AnyBool v)"

definition JsonStore_GetInt :: "json_store \<Rightarrow> string \<Rightarrow> string \<Rightarrow> int option" where
  "JsonStore_GetInt st g k =
     (case ReadSetting (any_tag (AnyInt 0)) st g k of Some (AnyInt i) \<Rightarrow> Some i | _ \<Rightarrow> None)"

definition JsonStore_SetInt :: "json_store \<Rightarrow> string \<Rightarrow> string \<Rightarrow> int \<Rightarrow> bool \<times> json_store" where
  "JsonStore_SetInt st g k v = WriteSetting st g k (AnyInt v)"

definition JsonStore_GetUint64 :: "json_store \<Rightarrow> string \<Rightarrow> string \<Rightarrow> u64 option" where
  "JsonStore_GetUint64 st g k =
     (case ReadSetting (any_tag (AnyUint64 0)) st g k of Some (AnyUint64 u) \<Rightarrow> Some u | _ \<Rightarrow> None)"

definition JsonStore_SetUint64 :: "json_store \<Rightarrow> string \<Rightarrow> string \<Rightarrow> u64 \<Rightarrow> bool \<times> json_store" where
  "JsonStore_SetUint64 st g k v = WriteSetting st g k (AnyUint64 v)"

definition JsonStore_GetStringList :: "json_store \<Rightarrow> string \<Rightarrow> string \<Rightarrow> string list option" where
  "JsonStore_GetStringList st g k =
     (case ReadSetting (any_tag (AnyStrings [])) st g k of Some (AnyStrings s) \<Rightarrow> Some s | _ \<Rightarrow> None)"

definition JsonStore_SetStringList ::
    "json_store \<Rightarrow> string \<Rightarrow> string \<Rightarrow> string list \<Rightarrow> bool \<times> json_store" where
  "JsonStore_SetStringList st g k v = WriteSetting st g k (AnyStrings v)"

text \<open>
  \<open>CryptoROT47::Encrypt\<close> on one character; \<open>char\<close> is compared as in the source, so bytes of
  128 and more, negative or large, are out of the rotated range either way.
\<close>

definition rot47_char :: "char \<Rightarrow> char" where
  "rot47_char c =
     (let ch = of_char c :: nat; rot = ch + 47
      in if ch < 33 \<or> ch > 126 then c
         else char_of (if rot > 126 then rot - 94 else rot))"

definition CryptoROT47_Encrypt :: "string \<Rightarrow> string" where
  "CryptoROT47_Encrypt plaintext = map rot47_char plaintext"

definition CryptoROT47_Decrypt :: "string \<Rightarrow> string" where
  "CryptoROT47_Decrypt ciphertext = CryptoROT47_Encrypt ciphertext"

definition JsonStore_GetCryptedString :: "json_store \<Rightarrow> string \<Rightarrow> string \<Rightarrow> string option" where
  "JsonStore_GetCryptedString st g k = map_option CryptoROT47_Decrypt (JsonStore_GetString st g k)"

definition JsonStore_SetCryptedString ::
    "json_store \<Rightarrow> string \<Rightarrow> string \<Rightarrow> string \<Rightarrow> bool \<times> json_store" where
  "JsonStore_SetCryptedString st g k v = JsonStore_SetString st g k (CryptoROT47_Encrypt v)"

subsection \<open>The store implements the interface\<close>

definition json_view :: "json_store \<Rightarrow> settings_view" where
  "json_view st g k =
     (case map_of (group_name_to_settings st) g of None \<Rightarrow> None | Some m \<Rightarrow> map_of m k)"

definition JsonStore_interface :: "json_store store_interface" where
  "JsonStore_interface =
     \<lparr>si_ContainsGroup = JsonStore_ContainsGroup,
      si_DeleteKey = JsonStore_DeleteKey,
      si_DeleteGroup = JsonStore_DeleteGroup,
      si_GetString = JsonStore_GetString,
      si_SetString = JsonStore_SetString,
      si_GetBool = JsonStore_GetBool,
      si_SetBool = JsonStore_SetBool,
      si_GetInt = JsonStore_GetInt,
      si_SetInt = JsonStore_SetInt,
      si_GetUint64 = JsonStore_GetUint64,
      si_SetUint64 = JsonStore_SetUint64,
      si_GetStringList = JsonStore_GetStringList,
      si_SetStringList = JsonStore_SetStringList,
      si_GetCryptedString = JsonStore_GetCryptedString,
      si_SetCryptedString = JsonStore_SetCryptedString\<rparr>"

lemma ReadSetting_view:
  "ReadSetting tag st g k =
     (case json_view st g k of Some v \<Rightarrow> if any_tag v = tag then Some v else None | None \<Rightarrow> None)"
  by (auto simp: ReadSetting_def json_view_def split: option.splits)

lemma WriteSetting_view:
  assumes "writable (json_view st) g k v"
  shows "fst (WriteSetting st g k v)"
    and "json_view (snd (WriteSetting st g k v)) = view_set (json_view st) g k v"
  using assms
  by (auto simp: WriteSetting_def json_view_def writable_def view_set_def fun_eq_iff update_conv' Let_def
      split: option.splits)

lemma WriteSetting_refused:
  assumes "\<not> writable (json_view st) g k v"
  shows "WriteSetting st g k v = (False, st)"
  using assms
  by (auto simp: WriteSetting_def json_view_def writable_def Let_def split: option.splits)

lemma DeleteKey_view: "json_view (snd (JsonStore_DeleteKey st g k)) = view_del (json_view st) g k"
  by (auto simp: JsonStore_DeleteKey_def json_view_def view_del_def fun_eq_iff update_conv' delete_conv'
      split: option.splits)

subsection \<open>ROT47\<close>

lemma rot47_char_involution: "rot47_char (rot47_char c) = c"
proof -
  define n where "n = (of_char c :: nat)"
  have c: "c = char_of n" by (simp add: n_def)
  show ?thesis
    by (simp add: rot47_char_def Let_def n_def [symmetric] of_char_of)
      (auto simp: c of_char_of mod_if)
qed

lemma ROT47_involution: "CryptoROT47_Decrypt (CryptoROT47_Encrypt s) = s"
  by (induction s) (simp_all add: CryptoROT47_Decrypt_def CryptoROT47_Encrypt_def rot47_char_involution)

subsection \<open>The interface laws\<close>

interpretation js: store_laws JsonStore_interface json_view CryptoROT47_Encrypt CryptoROT47_Decrypt
proof
  fix s g k v b i a t l u
  show "si_GetString JsonStore_interface s g k =
      (case json_view s g k of Some (AnyString v) \<Rightarrow> Some v | _ \<Rightarrow> None)"
    by (auto simp: JsonStore_interface_def JsonStore_GetString_def ReadSetting_view
        split: option.splits any_value.splits)
  show "si_GetBool JsonStore_interface s g k =
      (case json_view s g k of Some (AnyBool v) \<Rightarrow> Some v | _ \<Rightarrow> None)"
    by (auto simp: JsonStore_interface_def JsonStore_GetBool_def ReadSetting_view
        split: option.splits any_value.splits)
  show "si_GetInt JsonStore_interface s g k =
      (case json_view s g k of Some (AnyInt v) \<Rightarrow> Some v | _ \<Rightarrow> None)"
    by (auto simp: JsonStore_interface_def JsonStore_GetInt_def ReadSetting_view
        split: option.splits any_value.splits)
  show "si_GetUint64 JsonStore_interface s g k =
      (case json_view s g k of Some (AnyUint64 v) \<Rightarrow> Some v | _ \<Rightarrow> None)"
    by (auto simp: JsonStore_interface_def JsonStore_GetUint64_def ReadSetting_view
        split: option.splits any_value.splits)
  show "json_view (snd (si_SetUint64 JsonStore_interface s g k u)) =
      view_set (json_view s) g k (AnyUint64 u)" if "writable (json_view s) g k (AnyUint64 u)"
    using WriteSetting_view(2) [OF that] by (simp add: JsonStore_interface_def JsonStore_SetUint64_def)
  show "si_GetStringList JsonStore_interface s g k =
      (case json_view s g k of Some (AnyStrings v) \<Rightarrow> Some v | _ \<Rightarrow> None)"
    by (auto simp: JsonStore_interface_def JsonStore_GetStringList_def ReadSetting_view
        split: option.splits any_value.splits)
  show "si_GetCryptedString JsonStore_interface s g k =
      map_option CryptoROT47_Decrypt (si_GetString JsonStore_interface s g k)"
    by (simp add: JsonStore_interface_def JsonStore_GetCryptedString_def)
  show "CryptoROT47_Decrypt (CryptoROT47_Encrypt t) = t" by (rule ROT47_involution)
  show "json_view (snd (si_SetStringList JsonStore_interface s g k l)) =
      view_set (json_view s) g k (AnyStrings l)" if "writable (json_view s) g k (AnyStrings l)"
    using WriteSetting_view(2) [OF that]
    by (simp add: JsonStore_interface_def JsonStore_SetStringList_def)
  show "si_SetCryptedString JsonStore_interface s g k v =
      si_SetString JsonStore_interface s g k (CryptoROT47_Encrypt v)"
    by (simp add: JsonStore_interface_def JsonStore_SetCryptedString_def)
  show "json_view (snd (si_SetString JsonStore_interface s g k v)) =
      view_set (json_view s) g k (AnyString v)" if "writable (json_view s) g k (AnyString v)"
    using WriteSetting_view(2) [OF that] by (simp add: JsonStore_interface_def JsonStore_SetString_def)
  show "json_view (snd (si_SetBool JsonStore_interface s g k b)) =
      view_set (json_view s) g k (AnyBool b)" if "writable (json_view s) g k (AnyBool b)"
    using WriteSetting_view(2) [OF that] by (simp add: JsonStore_interface_def JsonStore_SetBool_def)
  show "json_view (snd (si_SetInt JsonStore_interface s g k i)) =
      view_set (json_view s) g k (AnyInt i)" if "writable (json_view s) g k (AnyInt i)"
    using WriteSetting_view(2) [OF that] by (simp add: JsonStore_interface_def JsonStore_SetInt_def)
  show "json_view (snd (si_DeleteKey JsonStore_interface s g k)) = view_del (json_view s) g k"
    by (simp add: JsonStore_interface_def DeleteKey_view)
  show "si_ContainsGroup JsonStore_interface s g" if "json_view s g k = Some a"
    using that by (auto simp: JsonStore_interface_def JsonStore_ContainsGroup_def json_view_def
        split: option.splits)
qed

subsection \<open>Round trip through JSON\<close>

text \<open>
  What the code relies on of libchrome: hex and decimal encodings decode to what was encoded
  (\<open>HexStringToBytes\<close> refuses the empty string, which is always ASCII and never encoded).
\<close>

definition codec_ok :: "codec \<Rightarrow> bool" where
  "codec_ok cd \<longleftrightarrow> is_string_ascii cd [] \<and>
     (\<forall>s. s \<noteq> [] \<longrightarrow> hex_string_to_bytes cd (hex_encode cd s) = Some s) \<and>
     (\<forall>u. string_to_uint64 cd (print_uint64 cd u) = Some u)"

definition storable :: "any_value \<Rightarrow> bool" where
  "storable a \<longleftrightarrow> (case a of AnyBool _ \<Rightarrow> True | AnyInt _ \<Rightarrow> True | AnyString _ \<Rightarrow> True
     | AnyUint64 _ \<Rightarrow> True | AnyStrings _ \<Rightarrow> True | _ \<Rightarrow> False)"

text \<open>The invariant the comment in \<open>Flush\<close> names: everything placed in a group is convertible.\<close>

definition json_store_wf :: "json_store \<Rightarrow> bool" where
  "json_store_wf st \<longleftrightarrow> distinct (map fst (group_name_to_settings st)) \<and>
     (\<forall>(g, m) \<in> set (group_name_to_settings st).
        distinct (map fst m) \<and> (\<forall>(k, a) \<in> set m. storable a))"

lemma update_new: "k \<notin> fst ` set acc \<Longrightarrow> AList.update k v acc = acc @ [(k, v)]"
  by (induction acc) auto

lemma hex_back:
  assumes "codec_ok cd" "\<not> (is_string_ascii cd s \<and> CHR 0x00 \<notin> set s)"
  shows "hex_string_to_bytes cd (hex_encode cd s) = Some s"
proof -
  have "s \<noteq> []" using assms by (auto simp: codec_ok_def)
  with assms(1) show ?thesis by (simp add: codec_ok_def)
qed

lemma Decode_Make:
  "DecodeCoercedValue cd [(''_native_type'', JString t), (''_encoded_value'', JString x)] =
     (if t = kNativeTypeNonAsciiString then map_option AnyString (hex_string_to_bytes cd x)
      else if t = kNativeTypeUint64 then map_option AnyUint64 (string_to_uint64 cd x) else None)"
  by (simp add: DecodeCoercedValue_def json_consts)

lemma MakeCoercedValue_eq:
  "MakeCoercedValue t x = JDict [(''_native_type'', JString t), (''_encoded_value'', JString x)]"
  by (simp add: MakeCoercedValue_def json_consts)

lemma MakeString_MakeValue:
  assumes "codec_ok cd"
  shows "MakeStringFromValue cd (MakeValueForString cd s) = Some s"
proof (cases "is_string_ascii cd s \<and> CHR 0x00 \<notin> set s")
  case False
  from hex_back [OF assms this] show ?thesis
    by (simp add: MakeStringFromValue_def MakeValueForString_def if_not_P [OF False]
        MakeCoercedValue_eq Decode_Make)
qed (simp add: MakeStringFromValue_def MakeValueForString_def)

lemma string_or_dict_MakeValue: "string_or_dict (MakeValueForString cd s)"
  by (simp add: MakeValueForString_def MakeCoercedValue_def)

lemma strings_roundtrip:
  "codec_ok cd \<Longrightarrow> ConvertListValueToStringVector cd (map (MakeValueForString cd) ss) = Some ss"
proof -
  assume cd: "codec_ok cd"
  have "list_all string_or_dict (map (MakeValueForString cd) ss)"
    by (auto simp: list_all_iff string_or_dict_MakeValue)
  moreover have "strings_of_values cd (map (MakeValueForString cd) ss) = Some ss"
    by (induction ss) (simp_all add: MakeString_MakeValue cd)
  ultimately show ?thesis by (simp add: ConvertListValueToStringVector_def)
qed

lemma string_value_roundtrip:
  assumes "codec_ok cd"
  shows "value_to_variant cd (MakeValueForString cd s) = Some (AnyString s)"
proof (cases "is_string_ascii cd s \<and> CHR 0x00 \<notin> set s")
  case False
  from hex_back [OF assms this] show ?thesis
    by (simp add: value_to_variant_def MakeValueForString_def if_not_P [OF False]
        MakeCoercedValue_eq Decode_Make IsCoercedValue_def json_consts)
qed (simp add: value_to_variant_def MakeValueForString_def)

lemma variant_value_roundtrip:
  assumes "codec_ok cd" "variant_to_value cd a = Some v"
  shows "value_to_variant cd v = Some a"
  using assms(2) strings_roundtrip [OF assms(1)] string_value_roundtrip [OF assms(1)] assms(1)
  by (cases a)
    (auto simp: value_to_variant_def MakeCoercedValue_eq IsCoercedValue_def
      Decode_Make codec_ok_def json_consts)

lemma storable_convertible: "storable a \<Longrightarrow> \<exists>v. variant_to_value cd a = Some v"
  by (cases a) (auto simp: storable_def)

lemma dictionary_roundtrip:
  assumes "codec_ok cd" "\<forall>(k, a) \<in> set m. storable a" "distinct (map fst m)"
    "fst ` set acc \<inter> fst ` set m = {}"
  shows "\<exists>d. dictionary_loop cd m acc = Some (acc @ d) \<and>
     (\<forall>acc'. fst ` set acc' \<inter> fst ` set m = {} \<longrightarrow> variant_loop cd d acc' = Some (acc' @ m))"
  using assms(2-4)
proof (induction m arbitrary: acc)
  case (Cons e m)
  obtain k a where e: "e = (k, a)" by force
  with Cons.prems obtain v where v: "variant_to_value cd a = Some v"
    using storable_convertible by fastforce
  obtain d where d: "dictionary_loop cd m (acc @ [(k, v)]) = Some ((acc @ [(k, v)]) @ d)"
    "\<And>acc'. fst ` set acc' \<inter> fst ` set m = {} \<Longrightarrow> variant_loop cd d acc' = Some (acc' @ m)"
    using Cons.IH [of "acc @ [(k, v)]"] Cons.prems e by auto
  have "variant_loop cd ((k, v) # d) acc' = Some (acc' @ e # m)"
    if "fst ` set acc' \<inter> fst ` set (e # m) = {}" for acc'
  proof -
    have "fst ` set (acc' @ [(k, a)]) \<inter> fst ` set m = {}" and "k \<notin> fst ` set acc'"
      using that Cons.prems(2) e by auto
    then show ?thesis
      using d(2) [of "acc' @ [(k, a)]"] variant_value_roundtrip [OF assms(1) v] e
      by (simp add: update_new)
  qed
  moreover have "dictionary_loop cd (e # m) acc = Some (acc @ (k, v) # d)"
    using d(1) v e Cons.prems(3) by (simp add: update_new)
  ultimately show ?case by blast
qed simp

lemma groups_roundtrip:
  assumes "codec_ok cd"
    "\<forall>(g, m) \<in> set gs. distinct (map fst m) \<and> (\<forall>(k, a) \<in> set m. storable a)"
    "distinct (map fst gs)" "fst ` set acc \<inter> fst ` set gs = {}"
  shows "\<exists>d. flush_groups cd gs acc = Some (acc @ d) \<and>
     (\<forall>acc'. fst ` set acc' \<inter> fst ` set gs = {} \<longrightarrow> open_groups cd d acc' = (True, acc' @ gs))"
  using assms(2-4)
proof (induction gs arbitrary: acc)
  case (Cons e gs)
  obtain g m where e: "e = (g, m)" by force
  have m: "distinct (map fst m)" "\<forall>(k, a) \<in> set m. storable a"
    using Cons.prems(1) e by auto
  from dictionary_roundtrip [OF assms(1) m(2,1), of "[]"] obtain dm where
    dm: "ConvertVariantDictionaryToDictionaryValue cd m = Some dm"
      "ConvertDictionaryValueToVariantDictionary cd dm = Some m"
    by (auto simp: ConvertVariantDictionaryToDictionaryValue_def
        ConvertDictionaryValueToVariantDictionary_def)
  obtain d where d: "flush_groups cd gs (acc @ [(g, JDict dm)]) = Some ((acc @ [(g, JDict dm)]) @ d)"
    "\<And>acc'. fst ` set acc' \<inter> fst ` set gs = {} \<Longrightarrow> open_groups cd d acc' = (True, acc' @ gs)"
    using Cons.IH [of "acc @ [(g, JDict dm)]"] Cons.prems e by auto
  have "open_groups cd ((g, JDict dm) # d) acc' = (True, acc' @ e # gs)"
    if "fst ` set acc' \<inter> fst ` set (e # gs) = {}" for acc'
  proof -
    have "fst ` set (acc' @ [(g, m)]) \<inter> fst ` set gs = {}" and "g \<notin> fst ` set acc'"
      using that Cons.prems(2) e by auto
    then show ?thesis
      using d(2) [of "acc' @ [(g, m)]"] dm e by (simp add: update_new)
  qed
  moreover have "flush_groups cd (e # gs) acc = Some (acc @ (g, JDict dm) # d)"
    using d(1) dm e Cons.prems(3) by (simp add: update_new)
  ultimately show ?case by blast
qed simp

lemma flush_groups_wf:
  assumes "codec_ok cd" "json_store_wf st"
  obtains d where "flush_groups cd (group_name_to_settings st) [] = Some d"
    "open_groups cd d [] = (True, group_name_to_settings st)"
  using groups_roundtrip [OF assms(1), of "group_name_to_settings st" "[]"] assms(2)
  by (auto simp: json_store_wf_def)

text \<open>
  C31: opening the text that a successful flush of a well-formed store wrote restores the
  description and every group, whatever the opened store held before, given that the JSON parser
  reads back what the printer printed.
\<close>

theorem JsonStore_flush_open_roundtrip:
  assumes "codec_ok cd" "json_store_wf st"
    and "\<And>v t. serialize v = Some t \<Longrightarrow> deserialize t = Some v"
    and "JsonStore_Flush cd serialize write_ok st = Some (True, Some text)"
  shows "JsonStore_Open cd deserialize (Some (Some text)) st0 = (True, st0
      \<lparr>file_description := file_description st,
       group_name_to_settings := group_name_to_settings st\<rparr>)"
proof -
  obtain d where d: "flush_groups cd (group_name_to_settings st) [] = Some d"
    "open_groups cd d [] = (True, group_name_to_settings st)"
    using flush_groups_wf [OF assms(1,2)] .
  let ?root = "JDict [(''description'', JString (file_description st)), (''settings'', JDict d)]"
  from assms(4) d(1) have "serialize ?root = Some text"
    by (auto simp: JsonStore_Flush_def Let_def json_consts split: option.splits if_splits)
  then have "deserialize text = Some ?root" by (rule assms(3))
  with d show ?thesis
    by (simp add: JsonStore_Open_def Let_def json_consts)
qed

definition demo_codec :: codec where
  "demo_codec = \<lparr>is_string_ascii = list_all (\<lambda>c. of_char c < (128 :: nat)),
     hex_encode = id, hex_string_to_bytes = Some,
     print_uint64 = (\<lambda>u. replicate (unat u) CHR ''1''),
     string_to_uint64 = (\<lambda>s. Some (of_nat (length s)))\<rparr>"

lemma demo_codec_ok: "codec_ok demo_codec"
  by (simp add: codec_ok_def demo_codec_def)

theorem JsonStore_flush_open_roundtrip_witness:
  "let st = \<lparr>file_description = ''d'', group_name_to_settings =
       [(''g'', [(''k'', AnyUint64 1), (''b'', AnyBool True)])]\<rparr>;
     root = JDict [(''description'', JString ''d''), (''settings'',
       JDict [(''g'', JDict [(''k'', MakeCoercedValue ''uint64'' ''1''), (''b'', JBool True)])])]
   in JsonStore_Open demo_codec (\<lambda>t. Some root) (Some (Some ''text''))
        \<lparr>file_description = ''old'', group_name_to_settings = [(''h'', [])]\<rparr> = (True, st)"
proof -
  let ?st = "\<lparr>file_description = ''d'', group_name_to_settings =
       [(''g'', [(''k'', AnyUint64 1), (''b'', AnyBool True)])]\<rparr> :: json_store"
  let ?root = "JDict [(''description'', JString ''d''), (''settings'',
       JDict [(''g'', JDict [(''k'', MakeCoercedValue ''uint64'' ''1''), (''b'', JBool True)])])]"
  have flush: "JsonStore_Flush demo_codec (\<lambda>v. if v = ?root then Some ''text'' else None)
      (\<lambda>_. True) ?st = Some (True, Some ''text'')"
    by (simp add: JsonStore_Flush_def ConvertVariantDictionaryToDictionaryValue_def Let_def
        json_consts demo_codec_def)
  have wf: "json_store_wf ?st" by (simp add: json_store_wf_def storable_def)
  have parses: "\<And>v t. (if v = ?root then Some ''text'' else None) = Some t \<Longrightarrow>
      (\<lambda>t. Some ?root) t = Some v" by (simp split: if_splits)
  show ?thesis
    using JsonStore_flush_open_roundtrip [where deserialize = "\<lambda>t. Some ?root" and
        serialize = "\<lambda>v. if v = ?root then Some ''text'' else None" and
        ?st0.0 = "\<lparr>file_description = ''old'', group_name_to_settings = [(''h'', [])]\<rparr>",
        OF demo_codec_ok wf parses flush]
    by (simp add: Let_def)
qed

lemma in_set_AList_update: "x \<in> set (AList.update k v al) \<Longrightarrow> x = (k, v) \<or> x \<in> set al"
  by (induction al) (auto split: if_splits)

lemma in_set_AList_delete: "x \<in> set (AList.delete k al) \<Longrightarrow> x \<in> set al"
  by (induction al) (auto split: if_splits)

lemma json_store_wf_update:
  assumes "json_store_wf st" "distinct (map fst m)" "\<forall>(k, a) \<in> set m. storable a"
  shows "json_store_wf (st\<lparr>group_name_to_settings := AList.update g m (group_name_to_settings st)\<rparr>)"
  using assms by (auto simp: json_store_wf_def distinct_update dest!: in_set_AList_update)

lemma json_store_wf_group:
  assumes "json_store_wf st" "map_of (group_name_to_settings st) g = Some m"
  shows "distinct (map fst m)" "\<forall>(k, a) \<in> set m. storable a"
  using assms map_of_SomeD [OF assms(2)] by (auto simp: json_store_wf_def)

lemma json_store_wf_write:
  assumes "json_store_wf st" "storable v"
  shows "json_store_wf (snd (WriteSetting st g k v))"
proof (cases "map_of (group_name_to_settings st) g")
  case None
  with assms show ?thesis by (simp add: WriteSetting_def json_store_wf_update)
next
  case (Some m)
  note m = json_store_wf_group [OF assms(1) Some]
  have "json_store_wf (st\<lparr>group_name_to_settings :=
      AList.update g (AList.update k v m) (group_name_to_settings st)\<rparr>)"
    using m assms(2)
    by (intro json_store_wf_update [OF assms(1)]) (auto simp: distinct_update dest!: in_set_AList_update)
  with assms(1) Some show ?thesis
    by (simp add: WriteSetting_def Let_def split: option.splits)
qed

lemma json_store_wf_delete:
  assumes "json_store_wf st"
  shows "json_store_wf (snd (JsonStore_DeleteKey st g k))"
    and "json_store_wf (snd (JsonStore_DeleteGroup st g))"
proof -
  show "json_store_wf (snd (JsonStore_DeleteKey st g k))"
  proof (cases "map_of (group_name_to_settings st) g")
    case (Some m)
    note m = json_store_wf_group [OF assms Some]
    have "json_store_wf (st\<lparr>group_name_to_settings :=
        AList.update g (AList.delete k m) (group_name_to_settings st)\<rparr>)"
      using m by (intro json_store_wf_update [OF assms])
        (auto simp: distinct_delete dest!: in_set_AList_delete)
    with Some show ?thesis by (simp add: JsonStore_DeleteKey_def)
  qed (use assms in \<open>simp add: JsonStore_DeleteKey_def\<close>)
  show "json_store_wf (snd (JsonStore_DeleteGroup st g))"
    using assms by (auto simp: json_store_wf_def JsonStore_DeleteGroup_def distinct_delete
        dest!: in_set_AList_delete)
qed

text \<open>A setting is written over unless the key holds a value of another type.\<close>

definition type_conflict :: "json_store \<Rightarrow> string \<Rightarrow> string \<Rightarrow> any_value \<Rightarrow> bool" where
  "type_conflict st g k v = (case json_view st g k of None \<Rightarrow> False | Some old \<Rightarrow> any_tag old \<noteq> any_tag v)"

lemma writable_conflict: "writable (json_view st) g k v = (\<not> type_conflict st g k v)"
  by (auto simp: writable_def type_conflict_def same_type_def split: option.split)

lemma WriteSetting_groups:
  "JsonStore_GetGroups (snd (WriteSetting st g k v)) =
     (if type_conflict st g k v then JsonStore_GetGroups st else insert g (JsonStore_GetGroups st))"
  by (auto simp: WriteSetting_def JsonStore_GetGroups_def type_conflict_def json_view_def same_type_def Let_def dom_update
      split: option.splits)

text \<open>
  C32: the store is a map from groups to maps from keys to values, and this is what its operations do to that map.
  \<open>WriteSetting\<close> fails exactly if the key of that group holds a value of another type, and then the store is
  what it was; otherwise the group exists, the key holds the value, and every other key of every group what it held:
  reading the key back with the type written gives the value, and after a refused write gives nothing.
  \<open>DeleteKey\<close> fails exactly if there is no such group and otherwise removes that key and nothing else, whether or
  not it was there; the group stays even if it is empty. \<open>DeleteGroup\<close> always succeeds, removes the group with all
  its keys and leaves the others. The description of the file is never touched.
\<close>

theorem JsonStore_operations:
  "(if type_conflict st g k v then WriteSetting st g k v = (False, st)
    else fst (WriteSetting st g k v) \<and>
      json_view (snd (WriteSetting st g k v)) = (json_view st)(g := (json_view st g)(k \<mapsto> v)) \<and>
      JsonStore_GetGroups (snd (WriteSetting st g k v)) = insert g (JsonStore_GetGroups st)) \<and>
   ReadSetting (any_tag v) (snd (WriteSetting st g k v)) g k = (if type_conflict st g k v then None else Some v) \<and>
   (if g \<in> JsonStore_GetGroups st then fst (JsonStore_DeleteKey st g k) \<and>
      json_view (snd (JsonStore_DeleteKey st g k)) = (json_view st)(g := (json_view st g)(k := None)) \<and>
      JsonStore_GetGroups (snd (JsonStore_DeleteKey st g k)) = JsonStore_GetGroups st
    else JsonStore_DeleteKey st g k = (False, st)) \<and>
   fst (JsonStore_DeleteGroup st g) \<and>
   json_view (snd (JsonStore_DeleteGroup st g)) = (json_view st)(g := Map.empty) \<and>
   JsonStore_GetGroups (snd (JsonStore_DeleteGroup st g)) = JsonStore_GetGroups st - {g} \<and>
   file_description (snd (WriteSetting st g k v)) = file_description st \<and>
   file_description (snd (JsonStore_DeleteKey st g k)) = file_description st \<and>
   file_description (snd (JsonStore_DeleteGroup st g)) = file_description st"
  (is "?written \<and> ?read \<and> ?key \<and> ?group \<and> ?view \<and> ?groups \<and> ?files")
proof (intro conjI)
  show written: ?written
    using WriteSetting_refused [of st g k v] WriteSetting_view [of st g k v] WriteSetting_groups [of st g k v]
    by (auto simp: writable_conflict view_set_def)
  show ?read
    using written by (cases "type_conflict st g k v")
      (auto simp: ReadSetting_view type_conflict_def split: option.splits)
  show ?key
    using DeleteKey_view [of st g k]
    by (auto simp: JsonStore_DeleteKey_def view_del_def JsonStore_GetGroups_def dom_update map_of_eq_None_iff
        dest: map_of_SomeD split: option.splits intro: rev_image_eqI)
  show ?view
    by (auto simp: JsonStore_DeleteGroup_def json_view_def delete_conv' fun_eq_iff split: option.split)
  show ?groups by (auto simp: JsonStore_DeleteGroup_def JsonStore_GetGroups_def AList.delete_eq)
  show "file_description (snd (WriteSetting st g k v)) = file_description st"
    by (auto simp: WriteSetting_def Let_def split: option.split)
qed (simp_all add: JsonStore_DeleteGroup_def JsonStore_DeleteKey_def split: option.split)

text \<open>
  A string written with \<open>SetCryptedString\<close> over an absent or string-valued key is read back
  by \<open>GetCryptedString\<close>: the ROT47 pass is an involution and the write succeeds.
\<close>

theorem JsonStore_crypted_roundtrip:
  assumes "writable (json_view st) g k (AnyString v)"
  shows "fst (JsonStore_SetCryptedString st g k v) \<and>
    JsonStore_GetCryptedString (snd (JsonStore_SetCryptedString st g k v)) g k = Some v"
proof -
  have w: "writable (json_view st) g k (AnyString (CryptoROT47_Encrypt v))"
    using assms by (simp add: writable_def same_type_def split: option.splits)
  show ?thesis
    using js.set_string_get [OF w] WriteSetting_view(1) [OF w]
    by (simp add: JsonStore_GetCryptedString_def JsonStore_SetCryptedString_def
        JsonStore_interface_def JsonStore_SetString_def ROT47_involution)
qed

theorem JsonStore_crypted_roundtrip_witness:
  "JsonStore_GetCryptedString (snd (JsonStore_SetCryptedString
      \<lparr>file_description = ''d'', group_name_to_settings = []\<rparr> ''g'' ''k'' ''secret''))
      ''g'' ''k'' = Some ''secret''"
  using JsonStore_crypted_roundtrip [of
      "\<lparr>file_description = ''d'', group_name_to_settings = []\<rparr>" "''g''" "''k''" "''secret''"]
  by (simp add: writable_def json_view_def)

end
