(* ===== verification/Shill_Error.thy ===== *)
theory Shill_Error
  imports Prelude
begin

text \<open>
  Model of \<open>error.cc\<close>: the error object the RPC operations fill in. \<open>kNumErrors\<close> is the
  enumerator the range checks compare with; populating it is a failed \<open>CHECK\<close>.
\<close>

datatype error_type =
    kSuccess | kOperationFailed | kAlreadyConnected | kAlreadyExists | kIncorrectPin | kInProgress
  | kInternalError | kInvalidApn | kInvalidArguments | kInvalidNetworkName | kInvalidPassphrase
  | kInvalidProperty | kNoCarrier | kNotConnected | kNotFound | kNotImplemented
  | kNotOnHomeNetwork | kNotRegistered | kNotSupported | kOperationAborted | kOperationInitiated
  | kOperationTimeout | kPassphraseRequired | kPermissionDenied | kPinBlocked | kPinRequired
  | kWrongState | kNumErrors

record shill_error =
  err_type :: error_type
  err_message :: string

fun GetDefaultMessage :: "error_type \<Rightarrow> string option" where
  "GetDefaultMessage kSuccess = Some ''Success (no error)''"
| "GetDefaultMessage kOperationFailed = Some ''Operation failed (no other information)''"
| "GetDefaultMessage kAlreadyConnected = Some ''Already connected''"
| "GetDefaultMessage kAlreadyExists = Some ''Already exists''"
| "GetDefaultMessage kIncorrectPin = Some ''Incorrect PIN''"
| "GetDefaultMessage kInProgress = Some ''In progress''"
| "GetDefaultMessage kInternalError = Some ''Internal error''"
| "GetDefaultMessage kInvalidApn = Some ''Invalid APN''"
| "GetDefaultMessage kInvalidArguments = Some ''Invalid arguments''"
| "GetDefaultMessage kInvalidNetworkName = Some ''Invalid network name''"
| "GetDefaultMessage kInvalidPassphrase = Some ''Invalid passphrase''"
| "GetDefaultMessage kInvalidProperty = Some ''Invalid property''"
| "GetDefaultMessage kNoCarrier = Some ''No carrier''"
| "GetDefaultMessage kNotConnected = Some ''Not connected''"
| "GetDefaultMessage kNotFound = Some ''Not found''"
| "GetDefaultMessage kNotImplemented = Some ''Not implemented''"
| "GetDefaultMessage kNotOnHomeNetwork = Some ''Not on home network''"
| "GetDefaultMessage kNotRegistered = Some ''Not registered''"
| "GetDefaultMessage kNotSupported = Some ''Not supported''"
| "GetDefaultMessage kOperationAborted = Some ''Operation aborted''"
| "GetDefaultMessage kOperationInitiated = Some ''Operation initiated''"
| "GetDefaultMessage kOperationTimeout = Some ''Operation timeout''"
| "GetDefaultMessage kPassphraseRequired = Some ''Passphrase required''"
| "GetDefaultMessage kPermissionDenied = Some ''Permission denied''"
| "GetDefaultMessage kPinBlocked = Some ''SIM PIN is blocked''"
| "GetDefaultMessage kPinRequired = Some ''SIM PIN is required''"
| "GetDefaultMessage kWrongState = Some ''Wrong state''"
| "GetDefaultMessage kNumErrors = None"

definition Populate_message :: "error_type \<Rightarrow> string \<Rightarrow> shill_error \<Rightarrow> shill_error option" where
  "Populate_message t m e =
     (if t = kNumErrors then None else Some (e\<lparr>err_type := t, err_message := m\<rparr>))"

definition Populate :: "error_type \<Rightarrow> shill_error \<Rightarrow> shill_error option" where
  "Populate t e = Option.bind (GetDefaultMessage t) (\<lambda>m. Populate_message t m e)"

definition Reset :: "shill_error \<Rightarrow> shill_error option" where
  "Reset e = Populate kSuccess e"

definition CopyFrom :: "shill_error \<Rightarrow> shill_error \<Rightarrow> shill_error option" where
  "CopyFrom e src = Populate_message (err_type src) (err_message src) e"

definition IsSuccess :: "shill_error \<Rightarrow> bool" where
  "IsSuccess e \<longleftrightarrow> err_type e = kSuccess"

definition IsFailure :: "shill_error \<Rightarrow> bool" where
  "IsFailure e \<longleftrightarrow> \<not> IsSuccess e \<and> err_type e \<noteq> kOperationInitiated"

text \<open>\<open>PopulateAndLog\<close> accepts a null error pointer, here \<open>None\<close>.\<close>

definition PopulateAndLog ::
    "shill_error option \<Rightarrow> error_type \<Rightarrow> string \<Rightarrow> shill_error option option" where
  "PopulateAndLog eo t m =
     (case eo of None \<Rightarrow> Some None | Some e \<Rightarrow> map_option Some (Populate_message t m e))"

definition no_error :: shill_error where
  "no_error = \<lparr>err_type = kSuccess, err_message = ''Success (no error)''\<rparr>"

end
