(* ===== verification/IP_Config.thy ===== *)
theory IP_Config
  imports IP_Address Json_Store Shill_Error
begin

text \<open>
  Models of \<open>ipconfig.h\<close> (the \<open>Properties\<close> of an IP configuration), of the lease clock in
  \<open>ipconfig.cc\<close>, and of \<open>static_ip_parameters.cc\<close>: user-supplied parameters that override what
  DHCP or another method gave, remember the overridden values, and live in the settings store.
  The property names come from the platform's \<open>service_constants.h\<close> and are an argument
  (\<open>sip_names\<close>), as are libchrome's \<open>SplitString\<close> and \<open>JoinString\<close> on commas.
\<close>

record ip_route =
  rt_host :: string
  rt_netmask :: string
  rt_gateway :: string

record ip_properties =
  address_family :: family
  p_address :: string
  subnet_prefix :: int
  broadcast_address :: string
  dns_servers :: "string list"
  domain_name :: string
  accepted_hostname :: string
  domain_search :: "string list"
  p_gateway :: string
  p_method :: string
  peer_address :: string
  delegated_prefix :: string
  delegated_prefix_length :: int
  user_traffic_only :: bool
  default_route :: bool
  exclusion_list :: "string list"
  blackhole_ipv6 :: bool
  p_mtu :: int
  p_routes :: "ip_route list"
  vendor_encapsulated_options :: bytes
  web_proxy_auto_discovery :: string
  lease_duration_seconds :: u32

definition kUndefinedMTU :: int where "kUndefinedMTU = 0"

definition default_properties :: ip_properties where
  "default_properties =
     \<lparr>address_family = kFamilyUnknown, p_address = [], subnet_prefix = 0, broadcast_address = [],
      dns_servers = [], domain_name = [], accepted_hostname = [], domain_search = [],
      p_gateway = [], p_method = [], peer_address = [], delegated_prefix = [],
      delegated_prefix_length = 0, user_traffic_only = False, default_route = True,
      exclusion_list = [], blackhole_ipv6 = False, p_mtu = kUndefinedMTU, p_routes = [],
      vendor_encapsulated_options = [], web_proxy_auto_discovery = [],
      lease_duration_seconds = 0\<rparr>"

subsection \<open>The lease clock\<close>

text \<open>
  The lease part of an \<open>IPConfig\<close>: the seconds of \<open>current_lease_expiration_time_\<close>.
  \<open>kDefaultLeaseExpirationTime\<close>, the largest \<open>long\<close>, means no lease. \<open>now\<close> is the boot-time clock.
\<close>

definition kDefaultLeaseExpirationTime :: int where
  "kDefaultLeaseExpirationTime = 2 ^ 63 - 1"

definition UpdateLeaseExpirationTime :: "int \<Rightarrow> u32 \<Rightarrow> int" where
  "UpdateLeaseExpirationTime now new_lease_duration = now + uint new_lease_duration"

definition ResetLeaseExpirationTime :: int where
  "ResetLeaseExpirationTime = kDefaultLeaseExpirationTime"

definition TimeToLeaseExpiry :: "int \<Rightarrow> int \<Rightarrow> u32 option" where
  "TimeToLeaseExpiry expiration now =
     (if expiration = kDefaultLeaseExpirationTime then None
      else if now > expiration then None
      else Some (word_of_int (expiration - now)))"

subsection \<open>Static parameters\<close>

datatype sip_type = kTypeInt32 | kTypeString | kTypeStrings

record sip_names =
  kAddressProperty :: string
  kGatewayProperty :: string
  kMtuProperty :: string
  kNameServersProperty :: string
  kPeerAddressProperty :: string
  kPrefixlenProperty :: string

definition kProperties :: "sip_names \<Rightarrow> (string \<times> sip_type) list" where
  "kProperties n =
     [(kAddressProperty n, kTypeString), (kGatewayProperty n, kTypeString),
      (kMtuProperty n, kTypeInt32), (kNameServersProperty n, kTypeStrings),
      (kPeerAddressProperty n, kTypeString), (kPrefixlenProperty n, kTypeInt32)]"

definition kConfigKeyPrefix :: string where "kConfigKeyPrefix = ''StaticIP.''"

record static_ip =
  sip_args :: any_dict
  saved_args :: any_dict

fun load_property ::
    "'s store_interface \<Rightarrow> (string \<Rightarrow> string list) \<Rightarrow> 's \<Rightarrow> string \<Rightarrow> string \<times> sip_type \<Rightarrow>
      any_dict \<Rightarrow> any_dict" where
  "load_property I split_comma storage sid (p, kTypeInt32) args =
     (case si_GetInt I storage sid (kConfigKeyPrefix @ p) of
        Some v \<Rightarrow> KVS_SetInt args p v | None \<Rightarrow> KVS_RemoveInt args p)"
| "load_property I split_comma storage sid (p, kTypeString) args =
     (case si_GetString I storage sid (kConfigKeyPrefix @ p) of
        Some v \<Rightarrow> KVS_SetString args p v | None \<Rightarrow> KVS_RemoveString args p)"
| "load_property I split_comma storage sid (p, kTypeStrings) args =
     (case si_GetString I storage sid (kConfigKeyPrefix @ p) of
        Some v \<Rightarrow> KVS_SetStrings args p (split_comma v) | None \<Rightarrow> KVS_RemoveStrings args p)"

fun load_properties where
  "load_properties I split_comma storage sid [] args = args"
| "load_properties I split_comma storage sid (p # ps) args =
     load_properties I split_comma storage sid ps (load_property I split_comma storage sid p args)"

definition SIP_Load ::
    "sip_names \<Rightarrow> 's store_interface \<Rightarrow> (string \<Rightarrow> string list) \<Rightarrow> 's \<Rightarrow> string \<Rightarrow> static_ip \<Rightarrow> static_ip" where
  "SIP_Load n I split_comma storage sid sip =
     sip\<lparr>sip_args := load_properties I split_comma storage sid (kProperties n) (sip_args sip)\<rparr>"

text \<open>One turn of the save loop: a set of the typed value, or a deletion of the key.\<close>

fun save_property ::
    "'s store_interface \<Rightarrow> (string list \<Rightarrow> string) \<Rightarrow> any_dict \<Rightarrow> string \<Rightarrow> string \<times> sip_type \<Rightarrow> 's \<Rightarrow> 's"
where
  "save_property I join_comma args sid (p, kTypeInt32) storage =
     (case KVS_GetInt args p of
        Some v \<Rightarrow> snd (si_SetInt I storage sid (kConfigKeyPrefix @ p) v)
      | None \<Rightarrow> snd (si_DeleteKey I storage sid (kConfigKeyPrefix @ p)))"
| "save_property I join_comma args sid (p, kTypeString) storage =
     (case KVS_GetString args p of
        Some v \<Rightarrow> snd (si_SetString I storage sid (kConfigKeyPrefix @ p) v)
      | None \<Rightarrow> snd (si_DeleteKey I storage sid (kConfigKeyPrefix @ p)))"
| "save_property I join_comma args sid (p, kTypeStrings) storage =
     (case KVS_GetStrings args p of
        Some v \<Rightarrow> snd (si_SetString I storage sid (kConfigKeyPrefix @ p) (join_comma v))
      | None \<Rightarrow> snd (si_DeleteKey I storage sid (kConfigKeyPrefix @ p)))"

fun save_properties where
  "save_properties I join_comma args sid [] storage = storage"
| "save_properties I join_comma args sid (p # ps) storage =
     save_properties I join_comma args sid ps (save_property I join_comma args sid p storage)"

definition SIP_Save ::
    "sip_names \<Rightarrow> 's store_interface \<Rightarrow> (string list \<Rightarrow> string) \<Rightarrow> static_ip \<Rightarrow> string \<Rightarrow> 's \<Rightarrow> 's" where
  "SIP_Save n I join_comma sip sid storage =
     save_properties I join_comma (sip_args sip) sid (kProperties n) storage"

definition ApplyInt :: "string \<Rightarrow> int \<Rightarrow> static_ip \<Rightarrow> int \<times> static_ip" where
  "ApplyInt p v sip =
     (let sip = sip\<lparr>saved_args := KVS_SetInt (saved_args sip) p v\<rparr>
      in (case KVS_GetInt (sip_args sip) p of Some w \<Rightarrow> w | None \<Rightarrow> v, sip))"

definition ApplyString :: "string \<Rightarrow> string \<Rightarrow> static_ip \<Rightarrow> string \<times> static_ip" where
  "ApplyString p v sip =
     (let sip = sip\<lparr>saved_args := KVS_SetString (saved_args sip) p v\<rparr>
      in (case KVS_GetString (sip_args sip) p of Some w \<Rightarrow> w | None \<Rightarrow> v, sip))"

definition ApplyStrings :: "string \<Rightarrow> string list \<Rightarrow> static_ip \<Rightarrow> string list \<times> static_ip" where
  "ApplyStrings p v sip =
     (let sip = sip\<lparr>saved_args := KVS_SetStrings (saved_args sip) p v\<rparr>
      in (case KVS_GetStrings (sip_args sip) p of Some w \<Rightarrow> w | None \<Rightarrow> v, sip))"

definition ClearSavedParameters :: "static_ip \<Rightarrow> static_ip" where
  "ClearSavedParameters sip = sip\<lparr>saved_args := KVS_Clear (saved_args sip)\<rparr>"

definition SIP_ApplyTo :: "sip_names \<Rightarrow> static_ip \<Rightarrow> ip_properties \<Rightarrow> static_ip \<times> ip_properties" where
  "SIP_ApplyTo n sip props =
     (let props = (if address_family props = kFamilyUnknown
                   then props\<lparr>address_family := kFamilyIPv4\<rparr> else props);
          sip = ClearSavedParameters sip;
          (a, sip) = ApplyString (kAddressProperty n) (p_address props) sip;
          (g, sip) = ApplyString (kGatewayProperty n) (p_gateway props) sip;
          (m, sip) = ApplyInt (kMtuProperty n) (p_mtu props) sip;
          (d, sip) = ApplyStrings (kNameServersProperty n) (dns_servers props) sip;
          (q, sip) = ApplyString (kPeerAddressProperty n) (peer_address props) sip;
          (x, sip) = ApplyInt (kPrefixlenProperty n) (subnet_prefix props) sip
      in (sip, props\<lparr>p_address := a, p_gateway := g, p_mtu := m, dns_servers := d,
                    peer_address := q, subnet_prefix := x\<rparr>))"

text \<open>\<open>None\<close> is a failed type \<open>CHECK\<close> of a lookup in \<open>saved_args_\<close>.\<close>

definition SIP_RestoreTo ::
    "sip_names \<Rightarrow> static_ip \<Rightarrow> ip_properties \<Rightarrow> (static_ip \<times> ip_properties) option" where
  "SIP_RestoreTo n sip props = do {
     a \<leftarrow> KVS_LookupString (saved_args sip) (kAddressProperty n) [];
     g \<leftarrow> KVS_LookupString (saved_args sip) (kGatewayProperty n) [];
     m \<leftarrow> KVS_LookupInt (saved_args sip) (kMtuProperty n) 0;
     let d = (if KVS_ContainsStrings (saved_args sip) (kNameServersProperty n)
              then (case KVS_GetStrings (saved_args sip) (kNameServersProperty n) of
                      Some d \<Rightarrow> d | None \<Rightarrow> [])
              else []);
     q \<leftarrow> KVS_LookupString (saved_args sip) (kPeerAddressProperty n) [];
     x \<leftarrow> KVS_LookupInt (saved_args sip) (kPrefixlenProperty n) 0;
     Some (ClearSavedParameters sip,
           props\<lparr>p_address := a, p_gateway := g, p_mtu := m, dns_servers := d,
                 peer_address := q, subnet_prefix := x\<rparr>)
   }"

definition SIP_ContainsAddress :: "sip_names \<Rightarrow> static_ip \<Rightarrow> bool" where
  "SIP_ContainsAddress n sip \<longleftrightarrow> KVS_ContainsString (sip_args sip) (kAddressProperty n) \<and>
     KVS_ContainsInt (sip_args sip) (kPrefixlenProperty n)"

definition SIP_ContainsNameServers :: "sip_names \<Rightarrow> static_ip \<Rightarrow> bool" where
  "SIP_ContainsNameServers n sip \<longleftrightarrow>
     KVS_ContainsStrings (sip_args sip) (kNameServersProperty n)"

subsubsection \<open>The property accessors\<close>

text \<open>
  The accessors take the index of a property; an index out of range is a failed \<open>CHECK\<close>,
  \<open>None\<close>. \<open>Inl\<close> is the error populated. Setters return whether the value changed.
\<close>

type_synonym rpc_error = "error_type \<times> string"

definition not_set :: rpc_error where "not_set = (kNotFound, ''Property is not set'')"
definition read_only :: rpc_error where "read_only = (kInvalidArguments, ''Property is read-only'')"

definition property_at :: "sip_names \<Rightarrow> nat \<Rightarrow> (string \<times> sip_type) option" where
  "property_at n i = (if i < length (kProperties n) then Some (kProperties n ! i) else None)"

definition ClearMappedProperty :: "sip_names \<Rightarrow> static_ip \<Rightarrow> nat \<Rightarrow> (rpc_error + static_ip) option" where
  "ClearMappedProperty n sip i =
     map_option (\<lambda>(p, t).
       let present = (case t of
             kTypeInt32 \<Rightarrow> KVS_ContainsInt (sip_args sip) p
           | kTypeString \<Rightarrow> KVS_ContainsString (sip_args sip) p
           | kTypeStrings \<Rightarrow> KVS_ContainsStrings (sip_args sip) p)
       in if present then Inr (sip\<lparr>sip_args := KVS_Remove (sip_args sip) p\<rparr>) else Inl not_set)
     (property_at n i)"

definition ClearMappedSavedProperty :: "static_ip \<Rightarrow> nat \<Rightarrow> rpc_error + static_ip" where
  "ClearMappedSavedProperty sip i = Inl read_only"

definition mapped_int :: "any_dict \<Rightarrow> string \<Rightarrow> rpc_error + int" where
  "mapped_int args p = (case KVS_GetInt args p of None \<Rightarrow> Inl not_set | Some v \<Rightarrow> Inr v)"

definition mapped_string :: "any_dict \<Rightarrow> string \<Rightarrow> rpc_error + string" where
  "mapped_string args p = (case KVS_GetString args p of None \<Rightarrow> Inl not_set | Some v \<Rightarrow> Inr v)"

definition mapped_strings :: "(string list \<Rightarrow> string) \<Rightarrow> any_dict \<Rightarrow> string \<Rightarrow> rpc_error + string" where
  "mapped_strings join_comma args p =
     (case KVS_GetStrings args p of None \<Rightarrow> Inl not_set | Some v \<Rightarrow> Inr (join_comma v))"

definition GetMappedInt32Property :: "sip_names \<Rightarrow> static_ip \<Rightarrow> nat \<Rightarrow> (rpc_error + int) option" where
  "GetMappedInt32Property n sip i = map_option (mapped_int (sip_args sip) \<circ> fst) (property_at n i)"

definition GetMappedSavedInt32Property :: "sip_names \<Rightarrow> static_ip \<Rightarrow> nat \<Rightarrow> (rpc_error + int) option" where
  "GetMappedSavedInt32Property n sip i =
     map_option (mapped_int (saved_args sip) \<circ> fst) (property_at n i)"

definition GetMappedStringProperty :: "sip_names \<Rightarrow> static_ip \<Rightarrow> nat \<Rightarrow> (rpc_error + string) option" where
  "GetMappedStringProperty n sip i =
     map_option (mapped_string (sip_args sip) \<circ> fst) (property_at n i)"

definition GetMappedSavedStringProperty ::
    "sip_names \<Rightarrow> static_ip \<Rightarrow> nat \<Rightarrow> (rpc_error + string) option" where
  "GetMappedSavedStringProperty n sip i =
     map_option (mapped_string (saved_args sip) \<circ> fst) (property_at n i)"

definition GetMappedStringsProperty ::
    "sip_names \<Rightarrow> (string list \<Rightarrow> string) \<Rightarrow> static_ip \<Rightarrow> nat \<Rightarrow> (rpc_error + string) option" where
  "GetMappedStringsProperty n join_comma sip i =
     map_option (mapped_strings join_comma (sip_args sip) \<circ> fst) (property_at n i)"

definition GetMappedSavedStringsProperty ::
    "sip_names \<Rightarrow> (string list \<Rightarrow> string) \<Rightarrow> static_ip \<Rightarrow> nat \<Rightarrow> (rpc_error + string) option" where
  "GetMappedSavedStringsProperty n join_comma sip i =
     map_option (mapped_strings join_comma (saved_args sip) \<circ> fst) (property_at n i)"

definition SetMappedInt32Property ::
    "sip_names \<Rightarrow> static_ip \<Rightarrow> nat \<Rightarrow> int \<Rightarrow> (bool \<times> static_ip) option" where
  "SetMappedInt32Property n sip i v =
     map_option (\<lambda>(p, t).
       if KVS_GetInt (sip_args sip) p = Some v then (False, sip)
       else (True, sip\<lparr>sip_args := KVS_SetInt (sip_args sip) p v\<rparr>)) (property_at n i)"

definition SetMappedStringProperty ::
    "sip_names \<Rightarrow> static_ip \<Rightarrow> nat \<Rightarrow> string \<Rightarrow> (bool \<times> static_ip) option" where
  "SetMappedStringProperty n sip i v =
     map_option (\<lambda>(p, t).
       if KVS_GetString (sip_args sip) p = Some v then (False, sip)
       else (True, sip\<lparr>sip_args := KVS_SetString (sip_args sip) p v\<rparr>)) (property_at n i)"

definition SetMappedStringsProperty ::
    "sip_names \<Rightarrow> (string \<Rightarrow> string list) \<Rightarrow> static_ip \<Rightarrow> nat \<Rightarrow> string \<Rightarrow> (bool \<times> static_ip) option" where
  "SetMappedStringsProperty n split_comma sip i v =
     map_option (\<lambda>(p, t).
       if KVS_GetStrings (sip_args sip) p = Some (split_comma v) then (False, sip)
       else (True, sip\<lparr>sip_args := KVS_SetStrings (sip_args sip) p (split_comma v)\<rparr>))
     (property_at n i)"

definition SetMappedSavedProperty :: "static_ip \<Rightarrow> nat \<Rightarrow> rpc_error + bool \<times> static_ip" where
  "SetMappedSavedProperty sip i = Inl read_only"

definition SetStaticIPConfig :: "static_ip \<Rightarrow> any_dict \<Rightarrow> bool \<times> static_ip" where
  "SetStaticIPConfig sip v =
     (if sip_args sip = v then (False, sip) else (True, sip\<lparr>sip_args := v\<rparr>))"

subsection \<open>Restoring what was overridden\<close>

definition sip_names_distinct :: "sip_names \<Rightarrow> bool" where
  "sip_names_distinct n = distinct (map fst (kProperties n))"

lemma apply_saved:
  assumes "sip_names_distinct n"
  shows "map_of (saved_args (fst (SIP_ApplyTo n sip props))) =
    [kAddressProperty n \<mapsto> AnyString (p_address props),
     kGatewayProperty n \<mapsto> AnyString (p_gateway props),
     kMtuProperty n \<mapsto> AnyInt (p_mtu props),
     kNameServersProperty n \<mapsto> AnyStrings (dns_servers props),
     kPeerAddressProperty n \<mapsto> AnyString (peer_address props),
     kPrefixlenProperty n \<mapsto> AnyInt (subnet_prefix props)]"
  by (rule ext) (simp add: SIP_ApplyTo_def ApplyString_def ApplyInt_def ApplyStrings_def Let_def
      ClearSavedParameters_def KVS_update_defs update_conv' KVS_Clear_def)

lemma apply_family:
  "snd (SIP_ApplyTo n sip props)\<lparr>p_address := a, p_gateway := g, p_mtu := m, dns_servers := d,
     peer_address := q, subnet_prefix := x\<rparr> =
   props\<lparr>address_family := (if address_family props = kFamilyUnknown then kFamilyIPv4
                            else address_family props),
     p_address := a, p_gateway := g, p_mtu := m, dns_servers := d, peer_address := q,
     subnet_prefix := x\<rparr>"
  by (simp add: SIP_ApplyTo_def ApplyString_def ApplyInt_def ApplyStrings_def Let_def)

text \<open>
  \<open>RestoreTo\<close> undoes \<open>ApplyTo\<close>: whatever the static parameters override, restoring the
  properties right after applying them passes every type check, gives back the properties as they
  were, up to the address family that an unknown family was defaulted to, and leaves no saved
  value behind.
\<close>

theorem SIP_RestoreTo_ApplyTo:
  assumes "sip_names_distinct n"
  shows "(case SIP_ApplyTo n sip props of (sip', props') \<Rightarrow> SIP_RestoreTo n sip' props') =
    Some (sip\<lparr>saved_args := []\<rparr>,
          props\<lparr>address_family := (if address_family props = kFamilyUnknown then kFamilyIPv4
                                   else address_family props)\<rparr>)"
proof -
  obtain sip' props' where a: "SIP_ApplyTo n sip props = (sip', props')" by fastforce
  have s: "map_of (saved_args sip') =
    [kAddressProperty n \<mapsto> AnyString (p_address props),
     kGatewayProperty n \<mapsto> AnyString (p_gateway props),
     kMtuProperty n \<mapsto> AnyInt (p_mtu props),
     kNameServersProperty n \<mapsto> AnyStrings (dns_servers props),
     kPeerAddressProperty n \<mapsto> AnyString (peer_address props),
     kPrefixlenProperty n \<mapsto> AnyInt (subnet_prefix props)]"
    using apply_saved [OF assms, of sip props] by (simp add: a)
  have "sip_args sip' = sip_args sip" and "static_ip.more sip' = static_ip.more sip"
    using a by (auto simp: SIP_ApplyTo_def ApplyString_def ApplyInt_def ApplyStrings_def Let_def
        ClearSavedParameters_def)
  then have c: "sip'\<lparr>saved_args := []\<rparr> = sip\<lparr>saved_args := []\<rparr>" by simp
  show ?thesis
    using assms apply_family [where n = n and sip = sip and props = props] c
    by (simp add: a SIP_RestoreTo_def KVS_lookup_defs KVS_access_defs s sip_names_distinct_def
        kProperties_def ClearSavedParameters_def KVS_Clear_def)
qed

definition demo_names :: sip_names where
  "demo_names = \<lparr>kAddressProperty = ''Address'', kGatewayProperty = ''Gateway'',
     kMtuProperty = ''Mtu'', kNameServersProperty = ''NameServers'',
     kPeerAddressProperty = ''PeerAddress'', kPrefixlenProperty = ''Prefixlen''\<rparr>"

lemma demo_names_distinct: "sip_names_distinct demo_names"
  by (simp add: sip_names_distinct_def demo_names_def kProperties_def)

theorem SIP_RestoreTo_ApplyTo_witness:
  "(case SIP_ApplyTo demo_names
           \<lparr>sip_args = [(''Mtu'', AnyInt 1400), (''NameServers'', AnyStrings [''8.8.8.8''])],
            saved_args = []\<rparr>
           (default_properties\<lparr>p_mtu := 1500\<rparr>) of
      (sip', props') \<Rightarrow> p_mtu props' = 1400 \<and> dns_servers props' = [''8.8.8.8''] \<and>
        map_option (p_mtu \<circ> snd) (SIP_RestoreTo demo_names sip' props') = Some 1500)"
  using SIP_RestoreTo_ApplyTo [OF demo_names_distinct,
      of "\<lparr>sip_args = [(''Mtu'', AnyInt 1400), (''NameServers'', AnyStrings [''8.8.8.8''])],
           saved_args = []\<rparr>" "default_properties\<lparr>p_mtu := 1500\<rparr>"]
  by (simp add: SIP_ApplyTo_def ApplyString_def ApplyInt_def ApplyStrings_def Let_def
      ClearSavedParameters_def KVS_access_defs KVS_update_defs demo_names_def)

subsection \<open>Saving and loading\<close>

fun typed_value :: "(string list \<Rightarrow> string) \<Rightarrow> any_dict \<Rightarrow> string \<times> sip_type \<Rightarrow> any_value option" where
  "typed_value join_comma args (p, kTypeInt32) = map_option AnyInt (KVS_GetInt args p)"
| "typed_value join_comma args (p, kTypeString) = map_option AnyString (KVS_GetString args p)"
| "typed_value join_comma args (p, kTypeStrings) =
     map_option (AnyString \<circ> join_comma) (KVS_GetStrings args p)"

fun slot_free :: "settings_view \<Rightarrow> string \<Rightarrow> string \<times> sip_type \<Rightarrow> bool" where
  "slot_free w sid (p, kTypeInt32) = slot w sid (kConfigKeyPrefix @ p) 2"
| "slot_free w sid (p, t) = slot w sid (kConfigKeyPrefix @ p) 7"

fun well_typed :: "any_dict \<Rightarrow> string \<times> sip_type \<Rightarrow> bool" where
  "well_typed args (p, kTypeInt32) = (map_of args p = map_option AnyInt (KVS_GetInt args p))"
| "well_typed args (p, kTypeString) =
     (map_of args p = map_option AnyString (KVS_GetString args p))"
| "well_typed args (p, kTypeStrings) =
     (map_of args p = map_option AnyStrings (KVS_GetStrings args p))"

context store_laws
begin

lemma view_save_property:
  assumes "slot_free (view st) sid (p, t)"
  shows "view (save_property I join_comma args sid (p, t) st) =
    view_put (view st) sid (kConfigKeyPrefix @ p) (typed_value join_comma args (p, t))"
  using assms by (cases t) (auto simp: put_laws split: option.splits)

lemma slot_free_save:
  assumes "slot_free (view st) sid (p, t)" "slot_free (view st) sid (q, u)" "p \<noteq> q"
  shows "slot_free (view (save_property I join_comma args sid (p, t) st)) sid (q, u)"
  using assms by (cases u) (simp_all add: view_save_property)

lemma slots_free_save:
  assumes "\<And>x. x \<in> set ((p, t) # ps) \<Longrightarrow> slot_free (view st) sid x"
    and "distinct (map fst ((p, t) # ps))" "x \<in> set ps"
  shows "slot_free (view (save_property I join_comma args sid (p, t) st)) sid x"
proof (cases x)
  case (Pair r u)
  then have "p \<noteq> r" using assms(2,3) by force
  then show ?thesis using assms(1,3) by (simp add: Pair slot_free_save)
qed

lemma view_save_other:
  assumes "\<And>x. x \<in> set ps \<Longrightarrow> slot_free (view st) sid x" "distinct (map fst ps)"
    and "g \<noteq> sid \<or> k \<notin> (\<lambda>x. kConfigKeyPrefix @ fst x) ` set ps"
  shows "view (save_properties I join_comma args sid ps st) g k = view st g k"
  using assms
proof (induction ps arbitrary: st)
  case (Cons a ps)
  obtain p t where a: "a = (p, t)" by fastforce
  let ?st = "save_property I join_comma args sid a st"
  have "slot_free (view ?st) sid x" if "x \<in> set ps" for x
    using slots_free_save [of p t ps] Cons.prems that by (simp add: a)
  then have "view (save_properties I join_comma args sid ps ?st) g k = view ?st g k"
    using Cons.prems by (intro Cons.IH) auto
  also have "\<dots> = view st g k"
    using Cons.prems by (auto simp: a view_save_property)
  finally show ?case by simp
qed simp

lemma view_save_properties:
  assumes "\<And>x. x \<in> set ps \<Longrightarrow> slot_free (view st) sid x" "distinct (map fst ps)"
    and "(q, u) \<in> set ps"
  shows "view (save_properties I join_comma args sid ps st) sid (kConfigKeyPrefix @ q) =
    typed_value join_comma args (q, u)"
  using assms
proof (induction ps arbitrary: st)
  case (Cons a ps)
  obtain p t where a: "a = (p, t)" by fastforce
  let ?st = "save_property I join_comma args sid a st"
  have free: "slot_free (view ?st) sid x" if "x \<in> set ps" for x
    using slots_free_save [of p t ps] Cons.prems that by (simp add: a)
  show ?case
  proof (cases "(q, u) = a")
    case True
    have "view ?st sid (kConfigKeyPrefix @ q) = typed_value join_comma args (q, u)"
      using Cons.prems(1) True by (simp add: a view_save_property)
    moreover have "kConfigKeyPrefix @ q \<notin> (\<lambda>x. kConfigKeyPrefix @ fst x) ` set ps"
      using Cons.prems(2) True by (auto simp: a)
    ultimately show ?thesis using Cons.prems(2) by (simp add: view_save_other free)
  next
    case False
    then show ?thesis using Cons free by simp
  qed
qed simp

lemma load_property_map_of:
  "map_of (load_property I split_comma st sid (p, t) args) =
     (map_of args)(p := (case view st sid (kConfigKeyPrefix @ p) of
        Some (AnyInt i) \<Rightarrow> if t = kTypeInt32 then Some (AnyInt i) else None
      | Some (AnyString s) \<Rightarrow>
          if t = kTypeString then Some (AnyString s)
          else if t = kTypeStrings then Some (AnyStrings (split_comma s)) else None
      | _ \<Rightarrow> None))"
  by (cases t; cases "view st sid (kConfigKeyPrefix @ p)")
    (auto simp: get_laws KVS_update_defs update_conv' delete_conv' split: any_value.split)

lemma load_properties_map_of:
  assumes "distinct (map fst ps)"
  shows "map_of (load_properties I split_comma st sid ps args) q =
    (if q \<in> fst ` set ps
     then map_of (load_property I split_comma st sid (q, the (map_of ps q)) []) q
     else map_of args q)"
  using assms
proof (induction ps arbitrary: args)
  case (Cons a ps)
  then show ?case by (cases a) (auto simp: load_property_map_of split: option.split any_value.split)
qed simp

lemma load_typed:
  assumes ps: "distinct (map fst ps)" and q: "(q, u) \<in> set ps" "well_typed args (q, u)"
    and v: "view st sid (kConfigKeyPrefix @ q) = typed_value join_comma args (q, u)"
    and split: "\<And>ss. KVS_GetStrings args q = Some ss \<Longrightarrow> split_comma (join_comma ss) = ss"
  shows "map_of (load_properties I split_comma st sid ps args0) q = map_of args q"
proof -
  have "map_of ps q = Some u" using ps q by (simp add: map_of_is_SomeI)
  moreover have "q \<in> fst ` set ps" using q by force
  ultimately show ?thesis
    using q split v
    by (cases u; simp add: load_properties_map_of [OF ps] load_property_map_of
        del: load_property.simps split: option.split)
qed

lemma load_save:
  assumes ps: "distinct (map fst ps)" and q: "(q, u) \<in> set ps" "well_typed args (q, u)"
    and free: "\<And>x. x \<in> set ps \<Longrightarrow> slot_free (view st) sid x"
    and split: "\<And>ss. KVS_GetStrings args q = Some ss \<Longrightarrow> split_comma (join_comma ss) = ss"
  shows "map_of (load_properties I split_comma (save_properties I join_comma args sid ps st) sid
           ps args0) q = map_of args q"
  using load_typed [OF ps q view_save_properties [OF free ps q(1)] split] .

end

text \<open>
  Static IP parameters survive the settings store: once \<open>Save\<close> has written well-typed
  parameters to a JSON store under a storage identifier, in keys the store has no value of another
  type for, \<open>Load\<close> into any object, whatever parameters it held, makes every parameter exactly what
  was saved, set or unset. Name servers are written comma-joined, so splitting must undo joining on
  the saved list.
\<close>

theorem SIP_Load_Save:
  assumes "sip_names_distinct n" and "\<forall>x \<in> set (kProperties n). well_typed (sip_args sip) x"
    and "\<forall>x \<in> set (kProperties n). slot_free (json_view st) sid x"
    and "\<forall>q ss. KVS_GetStrings (sip_args sip) q = Some ss \<longrightarrow> split_comma (join_comma ss) = ss"
  shows "\<forall>q \<in> fst ` set (kProperties n).
    map_of (sip_args (SIP_Load n JsonStore_interface split_comma
      (SIP_Save n JsonStore_interface join_comma sip sid st) sid sip0)) q = map_of (sip_args sip) q"
  using assms by (auto simp: SIP_Load_def SIP_Save_def sip_names_distinct_def intro!: js.load_save)

fun demo_split :: "string \<Rightarrow> string list" where
  "demo_split [] = [[]]"
| "demo_split (c # s) =
     (if c = CHR '','' then [] # demo_split s
      else (case demo_split s of [] \<Rightarrow> [[c]] | w # ws \<Rightarrow> (c # w) # ws))"

fun demo_join :: "string list \<Rightarrow> string" where
  "demo_join [] = []"
| "demo_join [s] = s"
| "demo_join (s # ss) = s @ CHR '','' # demo_join ss"

theorem SIP_Load_Save_witness:
  "let sip = \<lparr>sip_args = [(''Mtu'', AnyInt 1400), (''NameServers'', AnyStrings [''8'', ''9''])],
              saved_args = []\<rparr>;
       st = \<lparr>file_description = [], group_name_to_settings = [(''s'', [(''x'', AnyBool True)])]\<rparr>
   in map_of (sip_args (SIP_Load demo_names JsonStore_interface demo_split
        (SIP_Save demo_names JsonStore_interface demo_join sip ''s'' st) ''s''
        \<lparr>sip_args = [(''Address'', AnyString ''1.2.3.4'')], saved_args = []\<rparr>)) ''NameServers'' =
      Some (AnyStrings [''8'', ''9''])"
proof -
  let ?sip = "\<lparr>sip_args = [(''Mtu'', AnyInt 1400), (''NameServers'', AnyStrings [''8'', ''9''])],
              saved_args = []\<rparr>"
  let ?st = "\<lparr>file_description = [], group_name_to_settings = [(''s'', [(''x'', AnyBool True)])]\<rparr>"
  have typed: "\<forall>x \<in> set (kProperties demo_names). well_typed (sip_args ?sip) x"
    by (simp add: kProperties_def demo_names_def KVS_access_defs)
  have free: "\<forall>x \<in> set (kProperties demo_names). slot_free (json_view ?st) ''s'' x"
    by (simp add: kProperties_def demo_names_def json_view_def kConfigKeyPrefix_def slot_def)
  have split: "\<forall>q ss. KVS_GetStrings (sip_args ?sip) q = Some ss \<longrightarrow> demo_split (demo_join ss) = ss"
    by (auto simp: KVS_access_defs split: if_splits)
  show ?thesis
    using SIP_Load_Save [OF demo_names_distinct typed free split]
    by (simp add: kProperties_def demo_names_def Let_def)
qed

end
