(* ===== verification/Dhcp_Properties.thy ===== *)
theory Dhcp_Properties
  imports Json_Store Shill_Error
begin

text \<open>
  Model of \<open>dhcp_properties.cc\<close>: the DHCP host name and vendor class a user sets for a service,
  kept as strings in a \<open>KeyValueStore\<close> and saved under a prefix in the settings store. \<open>None\<close> is a
  failed \<open>CHECK\<close>: an index out of range, or a value that is not a string.
\<close>

definition kStoragePrefix :: string where "kStoragePrefix = ''DHCPProperty.''"
definition kHostnameProperty :: string where "kHostnameProperty = ''Hostname''"
definition kVendorClassProperty :: string where "kVendorClassProperty = ''VendorClass''"

definition kPropertyNames :: "string list" where
  "kPropertyNames = [kHostnameProperty, kVendorClassProperty]"

definition GetFullPropertyName :: "string \<Rightarrow> string" where
  "GetFullPropertyName property_name = kStoragePrefix @ property_name"

definition dhcp_load_one :: "'s store_interface \<Rightarrow> 's \<Rightarrow> string \<Rightarrow> any_dict \<Rightarrow> string \<Rightarrow> any_dict" where
  "dhcp_load_one I storage sid properties name =
     (case si_GetString I storage sid (GetFullPropertyName name) of
        Some property_value \<Rightarrow> KVS_SetString properties name property_value
      | None \<Rightarrow> properties)"

definition DhcpProperties_Load :: "'s store_interface \<Rightarrow> 's \<Rightarrow> string \<Rightarrow> any_dict \<Rightarrow> any_dict" where
  "DhcpProperties_Load I storage sid properties =
     foldl (dhcp_load_one I storage sid) (KVS_Clear properties) kPropertyNames"

fun dhcp_save :: "'s store_interface \<Rightarrow> any_dict \<Rightarrow> string \<Rightarrow> string list \<Rightarrow> 's \<Rightarrow> 's option" where
  "dhcp_save I properties sid [] storage = Some storage"
| "dhcp_save I properties sid (name # names) storage =
     (if KVS_Contains properties name
      then (case KVS_GetString properties name of
              None \<Rightarrow> None
            | Some v \<Rightarrow> dhcp_save I properties sid names
                          (snd (si_SetString I storage sid (GetFullPropertyName name) v)))
      else dhcp_save I properties sid names
             (snd (si_DeleteKey I storage sid (GetFullPropertyName name))))"

definition DhcpProperties_Save :: "'s store_interface \<Rightarrow> any_dict \<Rightarrow> string \<Rightarrow> 's \<Rightarrow> 's option" where
  "DhcpProperties_Save I properties sid storage = dhcp_save I properties sid kPropertyNames storage"

definition Combine :: "any_dict \<Rightarrow> any_dict \<Rightarrow> any_dict" where
  "Combine base to_merge = foldl (\<lambda>m (name, v). KVS_Set m name v) base to_merge"

definition GetValueForProperty :: "any_dict \<Rightarrow> string \<Rightarrow> string option" where
  "GetValueForProperty properties name =
     (if KVS_ContainsString properties name then KVS_GetString properties name else None)"

definition dhcp_name_at :: "nat \<Rightarrow> string option" where
  "dhcp_name_at index = (if index < length kPropertyNames then Some (kPropertyNames ! index) else None)"

definition property_not_set :: "error_type \<times> string" where
  "property_not_set = (kNotFound, ''Property is not set'')"

definition ClearMappedStringProperty ::
    "any_dict \<Rightarrow> nat \<Rightarrow> ((error_type \<times> string) + any_dict) option" where
  "ClearMappedStringProperty properties index =
     map_option (\<lambda>name. if KVS_ContainsString properties name
                        then Inr (KVS_RemoveString properties name) else Inl property_not_set)
       (dhcp_name_at index)"

definition DhcpProperties_GetMappedStringProperty ::
    "any_dict \<Rightarrow> nat \<Rightarrow> ((error_type \<times> string) + string) option" where
  "DhcpProperties_GetMappedStringProperty properties index =
     map_option (\<lambda>name. case KVS_GetString properties name of
                          Some v \<Rightarrow> Inr v | None \<Rightarrow> Inl property_not_set)
       (dhcp_name_at index)"

definition DhcpProperties_SetMappedStringProperty ::
    "any_dict \<Rightarrow> nat \<Rightarrow> string \<Rightarrow> (bool \<times> any_dict) option" where
  "DhcpProperties_SetMappedStringProperty properties index v =
     map_option (\<lambda>name. if KVS_GetString properties name = Some v then (False, properties)
                        else (True, KVS_SetString properties name v))
       (dhcp_name_at index)"

lemmas dhcp_names = kPropertyNames_def kHostnameProperty_def kVendorClassProperty_def
  GetFullPropertyName_def kStoragePrefix_def

definition dhcp_slots :: "settings_view \<Rightarrow> string \<Rightarrow> bool" where
  "dhcp_slots w sid \<longleftrightarrow>
     slot w sid ''DHCPProperty.Hostname'' 7 \<and> slot w sid ''DHCPProperty.VendorClass'' 7"

text \<open>The shape every operation keeps: known names, string values.\<close>

definition dhcp_wf :: "any_dict \<Rightarrow> bool" where
  "dhcp_wf m \<longleftrightarrow> (\<forall>(k, v) \<in> set m. k \<in> set kPropertyNames \<and> any_tag v = 7)"

lemma dhcp_wf_lookup:
  assumes "dhcp_wf m" shows "map_of m k = map_option AnyString (KVS_GetString m k)"
  using assms by (auto simp: dhcp_wf_def KVS_access_defs split: option.split any_value.split
      dest!: map_of_SomeD)

lemma dhcp_wf_keys: "dhcp_wf m \<Longrightarrow> k \<notin> set kPropertyNames \<Longrightarrow> map_of m k = None"
  by (force simp: dhcp_wf_def map_of_eq_None_iff)

context store_laws
begin

lemma view_dhcp_save:
  assumes "dhcp_wf m" "dhcp_slots (view st) sid"
  obtains st' where "DhcpProperties_Save I m sid st = Some st'"
    and "view st' =
      view_put (view_put (view st) sid ''DHCPProperty.Hostname'' (map_of m ''Hostname''))
        sid ''DHCPProperty.VendorClass'' (map_of m ''VendorClass'')"
  using assms dhcp_wf_lookup [OF assms(1), of "''Hostname''"]
    dhcp_wf_lookup [OF assms(1), of "''VendorClass''"]
  by (cases "KVS_GetString m ''Hostname''"; cases "KVS_GetString m ''VendorClass''")
    (auto simp: DhcpProperties_Save_def dhcp_names dhcp_slots_def KVS_Contains_def put_laws)

lemma dhcp_load_map_of:
  "map_of (DhcpProperties_Load I st sid m0) k =
     (if k \<in> set kPropertyNames
      then map_option AnyString (si_GetString I st sid (GetFullPropertyName k)) else None)"
  by (auto simp: DhcpProperties_Load_def dhcp_load_one_def dhcp_names KVS_update_defs update_conv'
      KVS_Clear_def split: option.split)

lemma dhcp_load_save:
  assumes "dhcp_wf m" "view st' sid ''DHCPProperty.Hostname'' = map_of m ''Hostname''"
    and "view st' sid ''DHCPProperty.VendorClass'' = map_of m ''VendorClass''"
  shows "map_of (DhcpProperties_Load I st' sid m0) = map_of m"
proof
  fix k show "map_of (DhcpProperties_Load I st' sid m0) k = map_of m k"
  proof (cases "k \<in> set kPropertyNames")
    case True
    then show ?thesis
      using assms dhcp_wf_lookup [OF assms(1), of k]
      by (cases "KVS_GetString m k") (auto simp: dhcp_load_map_of get_string dhcp_names)
  next
    case False
    then show ?thesis using dhcp_wf_keys [OF assms(1)] by (simp add: dhcp_load_map_of)
  qed
qed

end

subsection \<open>Merging\<close>

lemma Combine_map_of:
  "distinct (map fst m) \<Longrightarrow> map_of (Combine b m) = map_of b ++ map_of m"
  unfolding Combine_def
proof (induction m arbitrary: b)
  case (Cons x m)
  then have "map_of m (fst x) = None" by (simp add: map_of_eq_None_iff)
  with Cons show ?case
    by (cases x) (auto simp: KVS_update_defs update_conv' map_add_def fun_eq_iff split: option.split)
qed simp

end
