(* ===== verification/Eap_Credentials.thy ===== *)
theory Eap_Credentials
  imports Json_Store
begin

text \<open>
  Model of \<open>eap_credentials.cc\<close>: the 802.1x credentials of a service, when they suffice to connect,
  their form in the settings store (authentication properties only when credentials are to be
  saved, some of them through the store's cipher) and as \<open>wpa_supplicant\<close> parameters. The method
  name \<open>kEapMethodTLS\<close> is defined by the platform and is an argument. The registration of the
  fields as RPC properties is not modelled.
\<close>

record eap_credentials =
  anonymous_identity :: string
  cert_id :: string
  client_cert :: string
  eap_identity :: string
  key_id :: string
  key_management :: string
  eap_password :: string
  eap_pin :: string
  private_key :: string
  private_key_password :: string
  ca_cert :: string
  ca_cert_id :: string
  ca_cert_nss :: string
  ca_cert_pem :: "string list"
  eap_method :: string
  inner_eap :: string
  subject_match :: string
  use_system_cas :: bool
  use_proactive_key_caching :: bool

definition EapCredentials_new :: eap_credentials where
  "EapCredentials_new =
     \<lparr>anonymous_identity = [], cert_id = [], client_cert = [], eap_identity = [], key_id = [],
      key_management = [], eap_password = [], eap_pin = [], private_key = [],
      private_key_password = [], ca_cert = [], ca_cert_id = [], ca_cert_nss = [],
      ca_cert_pem = [], eap_method = [], inner_eap = [], subject_match = [],
      use_system_cas = True, use_proactive_key_caching = False\<rparr>"

definition SetEapPassword :: "eap_credentials \<Rightarrow> string \<Rightarrow> bool \<times> eap_credentials" where
  "SetEapPassword e pw =
     (if eap_password e = pw then (False, e) else (True, e\<lparr>eap_password := pw\<rparr>))"

definition SetEapPrivateKeyPassword :: "eap_credentials \<Rightarrow> string \<Rightarrow> bool \<times> eap_credentials" where
  "SetEapPrivateKeyPassword e pw =
     (if private_key_password e = pw then (False, e) else (True, e\<lparr>private_key_password := pw\<rparr>))"

definition SetKeyManagement :: "eap_credentials \<Rightarrow> string \<Rightarrow> bool \<times> eap_credentials" where
  "SetKeyManagement e km =
     (if km = [] then (False, e)
      else if key_management e = km then (False, e)
      else (True, e\<lparr>key_management := km\<rparr>))"

definition ClientAuthenticationUsesCryptoToken :: "string \<Rightarrow> eap_credentials \<Rightarrow> bool" where
  "ClientAuthenticationUsesCryptoToken tls e \<longleftrightarrow>
     (eap_method e = [] \<or> eap_method e = tls \<or> inner_eap e = tls) \<and>
     (cert_id e \<noteq> [] \<or> key_id e \<noteq> [])"

definition Eap_IsConnectable :: "string \<Rightarrow> eap_credentials \<Rightarrow> bool" where
  "Eap_IsConnectable tls e =
     (if eap_identity e = [] then False
      else if (client_cert e \<noteq> [] \<or> cert_id e \<noteq> []) \<and> private_key e = [] \<and> key_id e = [] then False
      else if (cert_id e \<noteq> [] \<or> key_id e \<noteq> [] \<or> ca_cert_id e \<noteq> []) \<and> eap_pin e = [] then False
      else if (eap_method e = [] \<or> eap_method e = tls) \<and>
              (client_cert e \<noteq> [] \<or> cert_id e \<noteq> []) \<and> (private_key e \<noteq> [] \<or> key_id e \<noteq> []) then True
      else if (eap_method e = [] \<or> eap_method e \<noteq> tls) \<and> eap_password e \<noteq> [] then True
      else False)"

definition IsConnectableUsingPassphrase :: "eap_credentials \<Rightarrow> bool" where
  "IsConnectableUsingPassphrase e \<longleftrightarrow> eap_identity e \<noteq> [] \<and> eap_password e \<noteq> []"

definition Eap_Reset :: "eap_credentials \<Rightarrow> eap_credentials" where
  "Eap_Reset e = e
     \<lparr>anonymous_identity := [], cert_id := [], client_cert := [], eap_identity := [], key_id := [],
      eap_password := [], eap_pin := [], private_key := [], private_key_password := [],
      ca_cert := [], ca_cert_id := [], ca_cert_nss := [], ca_cert_pem := [],
      eap_method := [], inner_eap := [], subject_match := [],
      use_system_cas := True, use_proactive_key_caching := False\<rparr>"

subsection \<open>The settings store\<close>

definition Eap_Load :: "'s store_interface \<Rightarrow> 's \<Rightarrow> string \<Rightarrow> eap_credentials \<Rightarrow> eap_credentials" where
  "Eap_Load I storage sid e =
     (let str = (\<lambda>k old. got (si_GetString I storage sid k) old);
          crypted = (\<lambda>k old. got (si_GetCryptedString I storage sid k) old);
          km = key_management (snd (SetKeyManagement e (str ''EAP.KeyMgmt'' [])))
      in e\<lparr>anonymous_identity := crypted ''EAP.AnonymousIdentity'' (anonymous_identity e),
           cert_id := str ''EAP.CertID'' (cert_id e),
           client_cert := str ''EAP.ClientCert'' (client_cert e),
           eap_identity := crypted ''EAP.Identity'' (eap_identity e),
           key_id := str ''EAP.KeyID'' (key_id e),
           key_management := km,
           eap_password := crypted ''EAP.Password'' (eap_password e),
           eap_pin := str ''EAP.PIN'' (eap_pin e),
           private_key := str ''EAP.PrivateKey'' (private_key e),
           private_key_password := crypted ''EAP.PrivateKeyPassword'' (private_key_password e),
           ca_cert := str ''EAP.CACert'' (ca_cert e),
           ca_cert_id := str ''EAP.CACertID'' (ca_cert_id e),
           ca_cert_nss := str ''EAP.CACertNSS'' (ca_cert_nss e),
           ca_cert_pem := got (si_GetStringList I storage sid ''EAP.CACertPEM'') (ca_cert_pem e),
           eap_method := str ''EAP.EAP'' (eap_method e),
           inner_eap := str ''EAP.InnerEAP'' (inner_eap e),
           subject_match := str ''EAP.SubjectMatch'' (subject_match e),
           use_proactive_key_caching :=
             got (si_GetBool I storage sid ''EAP.UseProactiveKeyCaching'') (use_proactive_key_caching e),
           use_system_cas := got (si_GetBool I storage sid ''EAP.UseSystemCAs'') (use_system_cas e)\<rparr>)"

definition Eap_Save ::
    "'s store_interface \<Rightarrow> eap_credentials \<Rightarrow> string \<Rightarrow> bool \<Rightarrow> 's \<Rightarrow> 's" where
  "Eap_Save I e sid save_credentials st =
     (let st = SaveString I sid ''EAP.AnonymousIdentity'' (anonymous_identity e) True save_credentials st;
          st = SaveString I sid ''EAP.CertID'' (cert_id e) False save_credentials st;
          st = SaveString I sid ''EAP.ClientCert'' (client_cert e) False save_credentials st;
          st = SaveString I sid ''EAP.Identity'' (eap_identity e) True save_credentials st;
          st = SaveString I sid ''EAP.KeyID'' (key_id e) False save_credentials st;
          st = SaveString I sid ''EAP.KeyMgmt'' (key_management e) False True st;
          st = SaveString I sid ''EAP.Password'' (eap_password e) True save_credentials st;
          st = SaveString I sid ''EAP.PIN'' (eap_pin e) False save_credentials st;
          st = SaveString I sid ''EAP.PrivateKey'' (private_key e) False save_credentials st;
          st = SaveString I sid ''EAP.PrivateKeyPassword'' (private_key_password e) True
                 save_credentials st;
          st = SaveString I sid ''EAP.CACert'' (ca_cert e) False True st;
          st = SaveString I sid ''EAP.CACertID'' (ca_cert_id e) False True st;
          st = SaveString I sid ''EAP.CACertNSS'' (ca_cert_nss e) False True st;
          st = (if ca_cert_pem e = [] then snd (si_DeleteKey I st sid ''EAP.CACertPEM'')
                else snd (si_SetStringList I st sid ''EAP.CACertPEM'' (ca_cert_pem e)));
          st = SaveString I sid ''EAP.EAP'' (eap_method e) False True st;
          st = SaveString I sid ''EAP.InnerEAP'' (inner_eap e) False True st;
          st = SaveString I sid ''EAP.SubjectMatch'' (subject_match e) False True st;
          st = snd (si_SetBool I st sid ''EAP.UseProactiveKeyCaching'' (use_proactive_key_caching e));
          st = snd (si_SetBool I st sid ''EAP.UseSystemCAs'' (use_system_cas e))
      in st)"

subsection \<open>Supplicant parameters\<close>

text \<open>
  Values pass through \<open>const char*\<close>, so they end at the first NUL. \<open>certfile\<close> is the path of the
  PEM file written by \<open>CertificateFile\<close>, empty when that failed.
\<close>

definition c_str :: "string \<Rightarrow> string" where
  "c_str s = takeWhile (\<lambda>c. c \<noteq> CHR 0x00) s"

definition set_nonempty :: "any_dict \<Rightarrow> string \<times> string \<Rightarrow> any_dict" where
  "set_nonempty params kv =
     (if length (c_str (snd kv)) > 0 then KVS_SetString params (fst kv) (c_str (snd kv)) else params)"

definition PopulateSupplicantProperties ::
    "string \<Rightarrow> string \<Rightarrow> eap_credentials \<Rightarrow> any_dict \<Rightarrow> any_dict" where
  "PopulateSupplicantProperties tls certfile e params =
     (let ca = (if ca_cert_pem e \<noteq> [] \<and> certfile \<noteq> [] then certfile else ca_cert e);
          token = ClientAuthenticationUsesCryptoToken tls e;
          propertyvals =
            [(''anonymous_identity'', anonymous_identity e), (''client_cert'', client_cert e),
             (''identity'', eap_identity e), (''password'', eap_password e),
             (''private_key'', private_key e), (''private_key_passwd'', private_key_password e),
             (''ca_cert'', ca), (''ca_cert_id'', ca_cert_id e), (''eap'', eap_method e),
             (''phase2'', inner_eap e), (''subject_match'', subject_match e)]
            @ (if use_system_cas e then [(''ca_path'', ''/etc/ssl/certs'')] else [])
            @ (if token then [(''cert_id'', cert_id e), (''key_id'', key_id e)] else [])
            @ (if token \<or> ca_cert_id e \<noteq> [] then [(''pin'', eap_pin e), (''engine_id'', ''pkcs11'')]
               else []);
          params = (if token \<or> ca_cert_id e \<noteq> [] then KVS_SetUint params ''engine'' 1 else params);
          params = KVS_SetUint params ''proactive_key_caching''
                     (if use_proactive_key_caching e then 1 else 0)
      in foldl set_nonempty params propertyvals)"

definition PopulateWiMaxProperties ::
    "string \<times> string \<times> string \<Rightarrow> eap_credentials \<Rightarrow> any_dict \<Rightarrow> any_dict" where
  "PopulateWiMaxProperties names e params =
     (case names of (anon, user, pass) \<Rightarrow>
        let params = (if anonymous_identity e \<noteq> [] then KVS_SetString params anon (anonymous_identity e)
                      else params);
            params = (if eap_identity e \<noteq> [] then KVS_SetString params user (eap_identity e) else params)
        in if eap_password e \<noteq> [] then KVS_SetString params pass (eap_password e) else params)"

subsection \<open>What reaches the store\<close>

definition eap_auth_keys :: "string list" where
  "eap_auth_keys =
     [''EAP.AnonymousIdentity'', ''EAP.CertID'', ''EAP.ClientCert'', ''EAP.Identity'', ''EAP.KeyID'',
      ''EAP.Password'', ''EAP.PIN'', ''EAP.PrivateKey'', ''EAP.PrivateKeyPassword'']"

definition eap_string_keys :: "string list" where
  "eap_string_keys = eap_auth_keys @
     [''EAP.KeyMgmt'', ''EAP.CACert'', ''EAP.CACertID'', ''EAP.CACertNSS'', ''EAP.EAP'',
      ''EAP.InnerEAP'', ''EAP.SubjectMatch'']"

definition eap_slots :: "settings_view \<Rightarrow> string \<Rightarrow> bool" where
  "eap_slots w sid \<longleftrightarrow> list_all (\<lambda>k. slot w sid k 7) eap_string_keys \<and>
     slot w sid ''EAP.CACertPEM'' 9 \<and> slot w sid ''EAP.UseProactiveKeyCaching'' 0 \<and>
     slot w sid ''EAP.UseSystemCAs'' 0"

lemmas eap_keys = eap_slots_def eap_string_keys_def eap_auth_keys_def

text \<open>The value \<open>Eap_Save\<close> leaves under each of its keys, the last written first.\<close>

definition eap_stored ::
    "(string \<Rightarrow> string) \<Rightarrow> eap_credentials \<Rightarrow> bool \<Rightarrow> (string \<times> any_value option) list" where
  "eap_stored cipher e save =
     (let put = saved_string cipher
      in [(''EAP.UseSystemCAs'', Some (AnyBool (use_system_cas e))),
          (''EAP.UseProactiveKeyCaching'', Some (AnyBool (use_proactive_key_caching e))),
          (''EAP.SubjectMatch'', put (subject_match e) False True),
          (''EAP.InnerEAP'', put (inner_eap e) False True),
          (''EAP.EAP'', put (eap_method e) False True),
          (''EAP.CACertPEM'', if ca_cert_pem e = [] then None else Some (AnyStrings (ca_cert_pem e))),
          (''EAP.CACertNSS'', put (ca_cert_nss e) False True),
          (''EAP.CACertID'', put (ca_cert_id e) False True),
          (''EAP.CACert'', put (ca_cert e) False True),
          (''EAP.PrivateKeyPassword'', put (private_key_password e) True save),
          (''EAP.PrivateKey'', put (private_key e) False save),
          (''EAP.PIN'', put (eap_pin e) False save),
          (''EAP.Password'', put (eap_password e) True save),
          (''EAP.KeyMgmt'', put (key_management e) False True),
          (''EAP.KeyID'', put (key_id e) False save),
          (''EAP.Identity'', put (eap_identity e) True save),
          (''EAP.ClientCert'', put (client_cert e) False save),
          (''EAP.CertID'', put (cert_id e) False save),
          (''EAP.AnonymousIdentity'', put (anonymous_identity e) True save)])"

context store_laws
begin

lemma view_Eap_Save:
  assumes w: "view st = w" and s: "eap_slots w sid"
  shows "view (Eap_Save I e sid save st) = put_all sid (eap_stored cipher e save) w"
  unfolding Eap_Save_def Let_def eap_stored_def put_all.simps
  by (rule put_steps w | use s in \<open>simp add: eap_keys; fail\<close>)+

end

context store_laws
begin

lemma Eap_Load_Save:
  assumes e0: "Eap_Reset e0 = e0"
    and view: "\<forall>(k, v) \<in> set (eap_stored cipher e True). view st' sid k = v"
  shows "Eap_Load I st' sid e0 =
    e\<lparr>key_management := (if key_management e = [] then key_management e0 else key_management e)\<rparr>"
proof -
  have empty: "anonymous_identity e0 = []" "cert_id e0 = []" "client_cert e0 = []"
    "eap_identity e0 = []" "key_id e0 = []" "eap_password e0 = []" "eap_pin e0 = []"
    "private_key e0 = []" "private_key_password e0 = []" "ca_cert e0 = []" "ca_cert_id e0 = []"
    "ca_cert_nss e0 = []" "ca_cert_pem e0 = []" "eap_method e0 = []" "inner_eap e0 = []"
    "subject_match e0 = []"
    by (subst e0 [symmetric], simp add: Eap_Reset_def)+
  note v = view [unfolded eap_stored_def Let_def, simplified]
  have got: "got (si_GetCryptedString I st' sid ''EAP.AnonymousIdentity'') [] = anonymous_identity e"
    "got (si_GetString I st' sid ''EAP.CertID'') [] = cert_id e"
    "got (si_GetString I st' sid ''EAP.ClientCert'') [] = client_cert e"
    "got (si_GetCryptedString I st' sid ''EAP.Identity'') [] = eap_identity e"
    "got (si_GetString I st' sid ''EAP.KeyID'') [] = key_id e"
    "got (si_GetString I st' sid ''EAP.KeyMgmt'') [] = key_management e"
    "got (si_GetCryptedString I st' sid ''EAP.Password'') [] = eap_password e"
    "got (si_GetString I st' sid ''EAP.PIN'') [] = eap_pin e"
    "got (si_GetString I st' sid ''EAP.PrivateKey'') [] = private_key e"
    "got (si_GetCryptedString I st' sid ''EAP.PrivateKeyPassword'') [] = private_key_password e"
    "got (si_GetString I st' sid ''EAP.CACert'') [] = ca_cert e"
    "got (si_GetString I st' sid ''EAP.CACertID'') [] = ca_cert_id e"
    "got (si_GetString I st' sid ''EAP.CACertNSS'') [] = ca_cert_nss e"
    "got (si_GetStringList I st' sid ''EAP.CACertPEM'') [] = ca_cert_pem e"
    "got (si_GetString I st' sid ''EAP.EAP'') [] = eap_method e"
    "got (si_GetString I st' sid ''EAP.InnerEAP'') [] = inner_eap e"
    "got (si_GetString I st' sid ''EAP.SubjectMatch'') [] = subject_match e"
    "got (si_GetBool I st' sid ''EAP.UseProactiveKeyCaching'') b = use_proactive_key_caching e"
    "got (si_GetBool I st' sid ''EAP.UseSystemCAs'') b = use_system_cas e" for b
    by (rule got_saved, simp only: v)+
  show ?thesis
    by (simp add: Eap_Load_def Let_def empty got SetKeyManagement_def)
qed

end

text \<open>
  EAP credentials survive the settings store: once \<open>Save\<close> with \<open>save_credentials\<close> has
  written them to a JSON store that has no value of another type under the keys, \<open>Load\<close> into a reset
  object gives back every field, the encrypted ones included. Only an empty key management string
  is not stored, and loading keeps the one the object has.
\<close>

theorem EapCredentials_Load_Save:
  assumes "eap_slots (json_view st) sid" "Eap_Reset e0 = e0"
  shows "Eap_Load JsonStore_interface (Eap_Save JsonStore_interface e sid True st) sid e0 =
    e\<lparr>key_management := (if key_management e = [] then key_management e0 else key_management e)\<rparr>"
  by (rule js.Eap_Load_Save [OF assms(2)])
    (simp add: js.view_Eap_Save [OF refl assms(1)] put_all_apply eap_stored_def Let_def)

theorem EapCredentials_Load_Save_witness:
  "Eap_Load JsonStore_interface
     (Eap_Save JsonStore_interface
       (EapCredentials_new\<lparr>eap_identity := ''me'', eap_password := ''pw''\<rparr>) ''s'' True
       \<lparr>file_description = [], group_name_to_settings = [(''s'', [(''EAP.Identity'', AnyString ''x'')])]\<rparr>)
     ''s'' (EapCredentials_new\<lparr>key_management := ''WPA-EAP''\<rparr>) =
   EapCredentials_new\<lparr>eap_identity := ''me'', eap_password := ''pw'', key_management := ''WPA-EAP''\<rparr>"
  using EapCredentials_Load_Save [of
      "\<lparr>file_description = [], group_name_to_settings = [(''s'', [(''EAP.Identity'', AnyString ''x'')])]\<rparr>"
      "''s''" "EapCredentials_new\<lparr>key_management := ''WPA-EAP''\<rparr>"
      "EapCredentials_new\<lparr>eap_identity := ''me'', eap_password := ''pw''\<rparr>"]
  by (simp add: eap_keys slot_def json_view_def EapCredentials_new_def Eap_Reset_def)

text \<open>
  Credentials that are not to be saved are not: after \<open>Save\<close> without \<open>save_credentials\<close> the
  JSON store holds no value under any authentication key of the service, whatever it held before,
  and the entries of every other group are as they were.
\<close>

theorem EapCredentials_not_saved:
  assumes "eap_slots (json_view st) sid"
  shows "let st' = Eap_Save JsonStore_interface e sid False st
    in list_all (\<lambda>k. json_view st' sid k = None) eap_auth_keys \<and>
       (\<forall>g k. g \<noteq> sid \<longrightarrow> json_view st' g k = json_view st g k)"
  by (simp add: js.view_Eap_Save [OF refl assms] put_all_apply eap_stored_def Let_def eap_auth_keys_def)

theorem EapCredentials_not_saved_witness:
  "json_view (Eap_Save JsonStore_interface
     (EapCredentials_new\<lparr>eap_identity := ''me'', eap_password := ''pw''\<rparr>) ''s'' False
     \<lparr>file_description = [], group_name_to_settings =
       [(''s'', [(''EAP.Password'', AnyString ''old'')]), (''t'', [(''k'', AnyInt 1)])]\<rparr>)
     ''s'' ''EAP.Password'' = None"
  using EapCredentials_not_saved [of "\<lparr>file_description = [], group_name_to_settings =
       [(''s'', [(''EAP.Password'', AnyString ''old'')]), (''t'', [(''k'', AnyInt 1)])]\<rparr>" "''s''"
      "EapCredentials_new\<lparr>eap_identity := ''me'', eap_password := ''pw''\<rparr>"]
  by (simp add: eap_keys slot_def json_view_def Let_def)

end
