(* ===== verification/Event_History.thy ===== *)
theory Event_History
  imports Prelude
begin

text \<open>
  Model of \<open>net/event_history.cc\<close>: a bounded deque of time stamps, with expiry and counting on
  one of two clocks. A \<open>timeval\<close> is a pair of seconds and microseconds; \<open>timersub\<close> and
  \<open>timercmp\<close> are the macros of \<open>sys/time.h\<close>. The clock reading \<open>time_->GetNow()\<close> is an
  argument of the operations that take one.
\<close>

type_synonym timeval = "int \<times> int"

record timestamp =
  monotonic :: timeval
  boottime :: timeval
  wall_clock :: string

datatype clock_type = kClockTypeBoottime | kClockTypeMonotonic

record event_history =
  max_events_specified :: bool
  max_events_saved :: int
  events :: "timestamp list"

definition EventHistory_unbounded :: event_history where
  "EventHistory_unbounded = \<lparr>max_events_specified = False, max_events_saved = 0, events = []\<rparr>"

definition EventHistory_bounded :: "int \<Rightarrow> event_history" where
  "EventHistory_bounded m = \<lparr>max_events_specified = True, max_events_saved = m, events = []\<rparr>"

definition timersub :: "timeval \<Rightarrow> timeval \<Rightarrow> timeval" where
  "timersub a b =
     (let sec = fst a - fst b; usec = snd a - snd b
      in if usec < 0 then (sec - 1, usec + 1000000) else (sec, usec))"

definition timercmp_less :: "timeval \<Rightarrow> timeval \<Rightarrow> bool" where
  "timercmp_less a b = (if fst a = fst b then snd a < snd b else fst a < fst b)"

definition timercmp_le :: "timeval \<Rightarrow> timeval \<Rightarrow> bool" where
  "timercmp_le a b = (if fst a = fst b then snd a \<le> snd b else fst a < fst b)"

definition clock_of :: "clock_type \<Rightarrow> timestamp \<Rightarrow> timeval" where
  "clock_of c t = (case c of kClockTypeBoottime \<Rightarrow> boottime t | kClockTypeMonotonic \<Rightarrow> monotonic t)"

definition elapsed :: "clock_type \<Rightarrow> timestamp \<Rightarrow> timestamp \<Rightarrow> timeval" where
  "elapsed c now t = timersub (clock_of c now) (clock_of c t)"

text \<open>\<open>static_cast<size_t>(max_events_saved_)\<close>: a negative bound becomes a huge one.\<close>

definition size_of_int :: "int \<Rightarrow> int" where
  "size_of_int m = m mod 2 ^ 64"

fun trim_front :: "bool \<Rightarrow> int \<Rightarrow> timestamp list \<Rightarrow> timestamp list" where
  "trim_front spec m [] = []"
| "trim_front spec m (t # ts) =
     (if spec \<and> int (length (t # ts)) > size_of_int m then trim_front spec m ts else t # ts)"

definition RecordEventInternal :: "event_history \<Rightarrow> timestamp \<Rightarrow> event_history" where
  "RecordEventInternal h now =
     h\<lparr>events := trim_front (max_events_specified h) (max_events_saved h) (events h @ [now])\<rparr>"

fun expire_front :: "int \<Rightarrow> clock_type \<Rightarrow> timestamp \<Rightarrow> timestamp list \<Rightarrow> timestamp list" where
  "expire_front s c now [] = []"
| "expire_front s c now (t # ts) =
     (if timercmp_less (elapsed c now t) (s, 0) then t # ts else expire_front s c now ts)"

definition ExpireEventsBeforeInternal ::
    "event_history \<Rightarrow> int \<Rightarrow> timestamp \<Rightarrow> clock_type \<Rightarrow> event_history" where
  "ExpireEventsBeforeInternal h s now c = h\<lparr>events := expire_front s c now (events h)\<rparr>"

definition RecordEvent :: "event_history \<Rightarrow> timestamp \<Rightarrow> event_history" where
  "RecordEvent h now = RecordEventInternal h now"

definition ExpireEventsBefore ::
    "event_history \<Rightarrow> int \<Rightarrow> clock_type \<Rightarrow> timestamp \<Rightarrow> event_history" where
  "ExpireEventsBefore h s c now = ExpireEventsBeforeInternal h s now c"

definition RecordEventAndExpireEventsBefore ::
    "event_history \<Rightarrow> int \<Rightarrow> clock_type \<Rightarrow> timestamp \<Rightarrow> event_history" where
  "RecordEventAndExpireEventsBefore h s c now =
     ExpireEventsBeforeInternal (RecordEventInternal h now) s now c"

definition ExtractWallClockToStrings :: "event_history \<Rightarrow> string list" where
  "ExtractWallClockToStrings h = map wall_clock (events h)"

fun count_from :: "int \<Rightarrow> clock_type \<Rightarrow> timestamp \<Rightarrow> nat \<Rightarrow> nat \<Rightarrow> timestamp list \<Rightarrow> nat" where
  "count_from s c now n_events i [] = 0"
| "count_from s c now n_events i (t # ts) =
     (if timercmp_le (elapsed c now t) (s, 0) then n_events - i
      else count_from s c now n_events (Suc i) ts)"

definition CountEventsWithinInterval ::
    "event_history \<Rightarrow> int \<Rightarrow> clock_type \<Rightarrow> timestamp \<Rightarrow> nat" where
  "CountEventsWithinInterval h s c now = count_from s c now (length (events h)) 0 (events h)"

subsection \<open>Bounds\<close>

lemma trim_front_suffix: "\<exists>k. trim_front spec m ts = drop k ts"
proof (induction ts)
  case (Cons t ts)
  then obtain k where "trim_front spec m ts = drop k ts" ..
  then have "trim_front spec m (t # ts) = drop (Suc k) (t # ts) \<or>
      trim_front spec m (t # ts) = drop 0 (t # ts)" by auto
  then show ?case by blast
qed simp

lemma trim_front_length:
  "spec \<Longrightarrow> 0 \<le> m \<Longrightarrow> m < 2 ^ 64 \<Longrightarrow> int (length (trim_front spec m ts)) \<le> m"
  by (induction ts) (auto simp: size_of_int_def)

lemma trim_front_drop:
  assumes "spec" "0 \<le> m" "m < 2 ^ 64"
  shows "trim_front spec m ts = drop (length ts - nat m) ts"
  using assms
proof (induction ts)
  case (Cons t ts)
  then show ?case
    by (cases "int (length (t # ts)) > m") (auto simp: size_of_int_def Suc_diff_le)
qed simp

lemma expire_front_suffix: "\<exists>k. expire_front s c now ts = drop k ts"
proof (induction ts)
  case (Cons t ts)
  then obtain k where "expire_front s c now ts = drop k ts" ..
  then have "expire_front s c now (t # ts) = drop (Suc k) (t # ts) \<or>
      expire_front s c now (t # ts) = drop 0 (t # ts)" by auto
  then show ?case by blast
qed simp

lemma length_expire_front: "length (expire_front s c now ts) \<le> length ts"
  using expire_front_suffix [of s c now ts] by auto

subsection \<open>Chronological histories\<close>

text \<open>
  Time stamps are chronological when their clock never runs backwards and every microsecond
  count is in range; then the age of the events decreases along the deque.
\<close>

definition wf_timeval :: "timeval \<Rightarrow> bool" where
  "wf_timeval a \<longleftrightarrow> 0 \<le> snd a \<and> snd a < 1000000"

definition usecs :: "timeval \<Rightarrow> int" where
  "usecs a = fst a * 1000000 + snd a"

definition chronological :: "clock_type \<Rightarrow> timestamp list \<Rightarrow> bool" where
  "chronological c ts \<longleftrightarrow> (\<forall>t \<in> set ts. wf_timeval (clock_of c t)) \<and>
     sorted_wrt (\<lambda>a b. usecs (clock_of c a) \<le> usecs (clock_of c b)) ts"

lemma timersub_usecs:
  assumes "wf_timeval a" "wf_timeval b"
  shows "wf_timeval (timersub a b)" "usecs (timersub a b) = usecs a - usecs b"
  using assms by (auto simp: wf_timeval_def timersub_def usecs_def Let_def)

lemma timercmp_usecs:
  assumes "wf_timeval a" "wf_timeval b"
  shows "timercmp_less a b \<longleftrightarrow> usecs a < usecs b" "timercmp_le a b \<longleftrightarrow> usecs a \<le> usecs b"
  using assms by (auto simp: wf_timeval_def timercmp_less_def timercmp_le_def usecs_def)

lemma elapsed_cmp:
  assumes "wf_timeval (clock_of c now)" "wf_timeval (clock_of c t)"
  shows "timercmp_less (elapsed c now t) (s, 0) \<longleftrightarrow>
      usecs (clock_of c now) - usecs (clock_of c t) < s * 1000000"
    "timercmp_le (elapsed c now t) (s, 0) \<longleftrightarrow>
      usecs (clock_of c now) - usecs (clock_of c t) \<le> s * 1000000"
  using assms timercmp_usecs [of "elapsed c now t" "(s, 0)"]
  by (simp_all add: elapsed_def timersub_usecs usecs_def [of "(s, 0)"] wf_timeval_def [of "(s, 0)"])

abbreviation age :: "clock_type \<Rightarrow> timestamp \<Rightarrow> timestamp \<Rightarrow> int" where
  "age c now t \<equiv> usecs (clock_of c now) - usecs (clock_of c t)"

lemma expire_front_filter:
  assumes "chronological c ts" "wf_timeval (clock_of c now)"
  shows "expire_front s c now ts = filter (\<lambda>t. age c now t < s * 1000000) ts"
  using assms
proof (induction ts)
  case (Cons t ts)
  have IH: "expire_front s c now ts = filter (\<lambda>t. age c now t < s * 1000000) ts"
    using Cons by (auto simp: chronological_def)
  have wf: "wf_timeval (clock_of c t)" using Cons.prems by (simp add: chronological_def)
  show ?case
  proof (cases "age c now t < s * 1000000")
    case True
    have "\<forall>u \<in> set ts. age c now u < s * 1000000"
      using Cons.prems(1) True by (fastforce simp: chronological_def)
    with True wf Cons.prems(2) show ?thesis by (simp add: elapsed_cmp)
  next
    case False
    with IH wf Cons.prems(2) show ?thesis by (simp add: elapsed_cmp)
  qed
qed simp

lemma count_from_filter:
  assumes "chronological c ts" "wf_timeval (clock_of c now)"
  shows "count_from s c now (i + length ts) i ts =
    length (filter (\<lambda>t. age c now t \<le> s * 1000000) ts)"
  using assms
proof (induction ts arbitrary: i)
  case (Cons t ts)
  have IH: "count_from s c now (Suc i + length ts) (Suc i) ts =
      length (filter (\<lambda>t. age c now t \<le> s * 1000000) ts)"
    using Cons.IH [of "Suc i"] Cons.prems by (auto simp: chronological_def)
  have wf: "wf_timeval (clock_of c t)" using Cons.prems by (simp add: chronological_def)
  show ?case
  proof (cases "age c now t \<le> s * 1000000")
    case True
    have "\<forall>u \<in> set ts. age c now u \<le> s * 1000000"
      using Cons.prems(1) True by (fastforce simp: chronological_def)
    with True wf Cons.prems(2) show ?thesis by (simp add: elapsed_cmp)
  next
    case False
    with IH wf Cons.prems(2) show ?thesis by (simp add: elapsed_cmp)
  qed
qed simp

lemma chronological_append:
  "chronological c (ts @ [t]) \<longleftrightarrow> chronological c ts \<and> wf_timeval (clock_of c t) \<and>
     (\<forall>u \<in> set ts. usecs (clock_of c u) \<le> usecs (clock_of c t))"
  by (auto simp: chronological_def sorted_wrt_append)

lemma chronological_drop: "chronological c ts \<Longrightarrow> chronological c (drop k ts)"
  by (auto simp: chronological_def sorted_wrt_drop dest: in_set_dropD)

subsection \<open>The history's contract\<close>

text \<open>
  Recording an event in a bounded history of capacity \<open>m\<close> keeps the newest \<open>m\<close> of the
  stored events and the new one, in order; nothing else is dropped.
\<close>

theorem RecordEvent_keeps_newest:
  assumes "max_events_specified h" "0 \<le> max_events_saved h" "max_events_saved h < 2 ^ 31"
  shows "events (RecordEvent h now) =
    drop (Suc (length (events h)) - nat (max_events_saved h)) (events h @ [now])"
proof -
  have "max_events_saved h < 2 ^ 64" using assms(3) by simp
  with assms show ?thesis
    using trim_front_drop [of True "max_events_saved h" "events h @ [now]"]
    by (simp add: RecordEvent_def RecordEventInternal_def)
qed

theorem RecordEvent_keeps_newest_witness:
  "events (RecordEvent (RecordEvent (EventHistory_bounded 1)
      \<lparr>monotonic = (1, 0), boottime = (1, 0), wall_clock = ''a''\<rparr>)
      \<lparr>monotonic = (2, 0), boottime = (2, 0), wall_clock = ''b''\<rparr>) =
   [\<lparr>monotonic = (2, 0), boottime = (2, 0), wall_clock = ''b''\<rparr>]"
  using RecordEvent_keeps_newest [of "RecordEvent (EventHistory_bounded 1)
      \<lparr>monotonic = (1, 0), boottime = (1, 0), wall_clock = ''a''\<rparr>"
      "\<lparr>monotonic = (2, 0), boottime = (2, 0), wall_clock = ''b''\<rparr>"]
  by (simp add: EventHistory_bounded_def RecordEvent_def RecordEventInternal_def size_of_int_def)

text \<open>
  In a chronological history, recording an event at \<open>now\<close> and expiring keeps exactly the
  (trimmed) events whose age is below the limit; an event exactly \<open>s\<close> seconds old is removed,
  although the header's comment says only older ones are.
\<close>

theorem RecordEventAndExpire_keeps_recent:
  assumes "chronological c (events h @ [now])"
  shows "events (RecordEventAndExpireEventsBefore h s c now) =
    filter (\<lambda>t. age c now t < s * 1000000) (events (RecordEvent h now))"
proof -
  obtain k where k: "events (RecordEvent h now) = drop k (events h @ [now])"
    using trim_front_suffix [of "max_events_specified h" "max_events_saved h" "events h @ [now]"]
    by (auto simp: RecordEvent_def RecordEventInternal_def simp del: drop_append)
  have "chronological c (events (RecordEvent h now))"
    using assms by (simp only: k chronological_drop)
  moreover have "wf_timeval (clock_of c now)"
    using assms by (simp add: chronological_append)
  ultimately show ?thesis
    by (simp add: RecordEventAndExpireEventsBefore_def ExpireEventsBeforeInternal_def
        RecordEvent_def expire_front_filter)
qed

theorem RecordEventAndExpire_keeps_recent_witness:
  "events (RecordEventAndExpireEventsBefore
      \<lparr>max_events_specified = True, max_events_saved = 20,
       events = [\<lparr>monotonic = (10, 0), boottime = (10, 0), wall_clock = ''a''\<rparr>]\<rparr> 300
      kClockTypeMonotonic \<lparr>monotonic = (310, 0), boottime = (310, 0), wall_clock = ''b''\<rparr>) =
   [\<lparr>monotonic = (310, 0), boottime = (310, 0), wall_clock = ''b''\<rparr>]"
  using RecordEventAndExpire_keeps_recent [of kClockTypeMonotonic
      "\<lparr>max_events_specified = True, max_events_saved = 20,
        events = [\<lparr>monotonic = (10, 0), boottime = (10, 0), wall_clock = ''a''\<rparr>]\<rparr>"
      "\<lparr>monotonic = (310, 0), boottime = (310, 0), wall_clock = ''b''\<rparr>" 300]
  by (simp add: chronological_def wf_timeval_def clock_of_def usecs_def RecordEvent_def
      RecordEventInternal_def size_of_int_def)

text \<open>
  In a chronological history, \<open>CountEventsWithinInterval\<close> returns the number of events at
  most the given number of seconds old, although it stops at the first such event.
\<close>

theorem CountEventsWithinInterval_counts:
  assumes "chronological c (events h)" "wf_timeval (clock_of c now)"
  shows "CountEventsWithinInterval h s c now =
    length (filter (\<lambda>t. age c now t \<le> s * 1000000) (events h))"
  using count_from_filter [OF assms, of s 0] by (simp add: CountEventsWithinInterval_def)

theorem CountEventsWithinInterval_counts_witness:
  "CountEventsWithinInterval \<lparr>max_events_specified = False, max_events_saved = 0,
       events = [\<lparr>monotonic = (10, 0), boottime = (10, 0), wall_clock = ''a''\<rparr>,
                 \<lparr>monotonic = (20, 0), boottime = (20, 0), wall_clock = ''b''\<rparr>]\<rparr> 5
      kClockTypeBoottime \<lparr>monotonic = (25, 0), boottime = (25, 0), wall_clock = ''c''\<rparr> = 1"
  using CountEventsWithinInterval_counts [of kClockTypeBoottime
      "\<lparr>max_events_specified = False, max_events_saved = 0,
       events = [\<lparr>monotonic = (10, 0), boottime = (10, 0), wall_clock = ''a''\<rparr>,
                 \<lparr>monotonic = (20, 0), boottime = (20, 0), wall_clock = ''b''\<rparr>]\<rparr>"
      "\<lparr>monotonic = (25, 0), boottime = (25, 0), wall_clock = ''c''\<rparr>" 5]
  by (simp add: chronological_def wf_timeval_def clock_of_def usecs_def)

end
