(* ===== verification/Technology.thy ===== *)
theory Technology
  imports Shill_Error
begin

text \<open>
  Model of \<open>technology.cc\<close>: technology identifiers, their names and parsing of technology lists.
  The type names \<open>kType...\<close> come from the platform's \<open>service_constants.h\<close>, and
  \<open>base::SplitString\<close> from libchrome: both are arguments.
\<close>

datatype technology =
    kEthernet | kEthernetEap | kWifi | kWiFiMonitor | kWiMax | kCellular | kVPN | kTunnel
  | kBlacklisted | kLoopback | kCDCEthernet | kVirtioEthernet | kNoDeviceSymlink | kPPP | kPPPoE
  | kUnknown

record tech_names =
  kTypeEthernet :: string
  kTypeEthernetEap :: string
  kTypeWifi :: string
  kTypeWimax :: string
  kTypeCellular :: string
  kTypeVPN :: string
  kTypePPPoE :: string

definition kLoopbackName :: string where "kLoopbackName = ''loopback''"
definition kTunnelName :: string where "kTunnelName = ''tunnel''"
definition kPPPName :: string where "kPPPName = ''ppp''"
definition kUnknownName :: string where "kUnknownName = ''unknown''"

definition IdentifierFromName :: "tech_names \<Rightarrow> string \<Rightarrow> technology" where
  "IdentifierFromName n name =
     (if name = kTypeEthernet n then kEthernet
      else if name = kTypeEthernetEap n then kEthernetEap
      else if name = kTypeWifi n then kWifi
      else if name = kTypeWimax n then kWiMax
      else if name = kTypeCellular n then kCellular
      else if name = kTypeVPN n then kVPN
      else if name = kTypePPPoE n then kPPPoE
      else if name = kLoopbackName then kLoopback
      else if name = kTunnelName then kTunnel
      else if name = kPPPName then kPPP
      else kUnknown)"

fun NameFromIdentifier :: "tech_names \<Rightarrow> technology \<Rightarrow> string" where
  "NameFromIdentifier n kEthernet = kTypeEthernet n"
| "NameFromIdentifier n kEthernetEap = kTypeEthernetEap n"
| "NameFromIdentifier n kWifi = kTypeWifi n"
| "NameFromIdentifier n kWiMax = kTypeWimax n"
| "NameFromIdentifier n kCellular = kTypeCellular n"
| "NameFromIdentifier n kVPN = kTypeVPN n"
| "NameFromIdentifier n kLoopback = kLoopbackName"
| "NameFromIdentifier n kTunnel = kTunnelName"
| "NameFromIdentifier n kPPP = kPPPName"
| "NameFromIdentifier n kPPPoE = kTypePPPoE n"
| "NameFromIdentifier n _ = kUnknownName"

definition IdentifierFromStorageGroup ::
    "tech_names \<Rightarrow> (string \<Rightarrow> string \<Rightarrow> string list) \<Rightarrow> string \<Rightarrow> technology" where
  "IdentifierFromStorageGroup n split_string grp =
     (case split_string grp ''_'' of [] \<Rightarrow> kUnknown | p # _ \<Rightarrow> IdentifierFromName n p)"

text \<open>The loop: \<open>seen\<close> is the set of identifiers met, \<open>acc\<close> the output vector.\<close>

fun technology_loop ::
    "tech_names \<Rightarrow> string list \<Rightarrow> technology set \<Rightarrow> technology list \<Rightarrow>
      (error_type \<times> string) option \<times> technology list" where
  "technology_loop n [] seen acc = (None, acc)"
| "technology_loop n (name # names) seen acc =
     (let identifier = IdentifierFromName n name
      in if identifier = kUnknown
         then (Some (kInvalidArguments, name @ '' is an unknown technology name''), acc)
         else if identifier \<in> seen
         then (Some (kInvalidArguments, name @ '' is duplicated in the list''), acc)
         else technology_loop n names (insert identifier seen) (acc @ [identifier]))"

text \<open>
  The result is \<open>Inl\<close> of the populated error when the function returns false, \<open>Inr\<close> of the
  vector otherwise.
\<close>

definition GetTechnologyVectorFromString ::
    "tech_names \<Rightarrow> (string \<Rightarrow> string \<Rightarrow> string list) \<Rightarrow> string \<Rightarrow>
      (error_type \<times> string) + technology list" where
  "GetTechnologyVectorFromString n split_string s =
     (let parts = (if s \<noteq> [] then split_string s '','' else [])
      in case technology_loop n parts {} [] of
           (Some e, _) \<Rightarrow> Inl e
         | (None, v) \<Rightarrow> Inr v)"

definition IsPrimaryConnectivityTechnology :: "technology \<Rightarrow> bool" where
  "IsPrimaryConnectivityTechnology t \<longleftrightarrow>
     t = kCellular \<or> t = kEthernet \<or> t = kWifi \<or> t = kWiMax \<or> t = kPPPoE"

subsection \<open>Names and lists\<close>

text \<open>The platform's type names are distinct, and differ from the names defined here.\<close>

definition names_distinct :: "tech_names \<Rightarrow> bool" where
  "names_distinct n \<longleftrightarrow> distinct
     [kTypeEthernet n, kTypeEthernetEap n, kTypeWifi n, kTypeWimax n, kTypeCellular n, kTypeVPN n,
      kTypePPPoE n, kLoopbackName, kTunnelName, kPPPName, kUnknownName]"

definition named_technologies :: "technology list" where
  "named_technologies =
     [kEthernet, kEthernetEap, kWifi, kWiMax, kCellular, kVPN, kLoopback, kTunnel, kPPP, kPPPoE]"

lemma technology_loop_Some:
  assumes "technology_loop n names seen acc = (None, v)"
  shows "v = acc @ map (IdentifierFromName n) names" and "kUnknown \<notin> set (drop (length acc) v)"
    and "distinct (drop (length acc) v)" and "\<forall>x \<in> set (drop (length acc) v). x \<notin> seen"
proof -
  have "v = acc @ map (IdentifierFromName n) names \<and> kUnknown \<notin> set (drop (length acc) v) \<and>
      distinct (drop (length acc) v) \<and> (\<forall>x \<in> set (drop (length acc) v). x \<notin> seen)"
    using assms
  proof (induction n names seen acc rule: technology_loop.induct)
    case (2 n name names seen acc)
    let ?i = "IdentifierFromName n name"
    from "2.prems" have i: "?i \<noteq> kUnknown" "?i \<notin> seen"
      and rest: "technology_loop n names (insert ?i seen) (acc @ [?i]) = (None, v)"
      by (auto simp: Let_def split: if_splits)
    from "2.IH" [OF refl i rest] have
      v: "v = (acc @ [?i]) @ map (IdentifierFromName n) names" and
      p: "kUnknown \<notin> set (drop (length (acc @ [?i])) v)"
        "distinct (drop (length (acc @ [?i])) v)"
        "\<forall>x \<in> set (drop (length (acc @ [?i])) v). x \<notin> insert ?i seen" by auto
    then show ?case using i by auto
  qed simp
  then show "v = acc @ map (IdentifierFromName n) names" "kUnknown \<notin> set (drop (length acc) v)"
    "distinct (drop (length acc) v)" "\<forall>x \<in> set (drop (length acc) v). x \<notin> seen" by auto
qed

lemma IdentifierFromName_NameFromIdentifier:
  "names_distinct n \<Longrightarrow> t \<in> set named_technologies \<Longrightarrow>
     IdentifierFromName n (NameFromIdentifier n t) = t"
  unfolding names_distinct_def IdentifierFromName_def
  by (cases t; clarsimp simp: named_technologies_def)

end
