(* ===== verification/Service.thy ===== *)
theory Service
  imports IP_Config Dhcp_Properties Eap_Credentials Event_History Technology
begin

text \<open>
  Model of \<open>service.cc\<close>, the base class of every network service, together with the operations of
  \<open>manager.cc\<close>, \<open>profile.cc\<close> and \<open>ephemeral_profile.cc\<close> that a service calls on itself
  (\<open>Manager::UpdateService\<close>, \<open>SaveServiceToProfile\<close>, \<open>SortServices\<close>, \<open>Profile::AdoptService\<close>, ...).

  A service is a record; what it shares with the manager and the profiles is the record \<open>world\<close>.
  An operation takes both and returns both. Calls that leave the modelled part (D-Bus signals,
  metrics, posted tasks, upstart) are appended to the trace \<open>wd_events\<close>, in program order. Virtual
  methods that the base class leaves to its subclasses are data of the record
  (\<open>sv_storage_identifier\<close>, \<open>sv_auto_connect_by_default\<close>, \<open>sv_visible\<close>). Constants of the
  platform's \<open>service_constants.h\<close> and functions of libchrome are the record \<open>platform\<close>.
\<close>

subsection \<open>Data\<close>

datatype connect_failure =
    kFailureUnknown | kFailureAAA | kFailureActivation | kFailureBadPassphrase | kFailureBadWEPKey
  | kFailureConnect | kFailureDHCP | kFailureDNSLookup | kFailureEAPAuthentication
  | kFailureEAPLocalTLS | kFailureEAPRemoteTLS | kFailureHTTPGet | kFailureIPSecCertAuth
  | kFailureIPSecPSKAuth | kFailureInternal | kFailureNeedEVDO | kFailureNeedHomeNetwork
  | kFailureOTASP | kFailureOutOfRange | kFailurePPPAuth | kFailurePinMissing | kFailureMax

datatype connect_state =
    kStateUnknown | kStateIdle | kStateAssociating | kStateConfiguring | kStateConnected
  | kStatePortal | kStateFailure | kStateOnline

datatype crypto_algorithm = kCryptoNone | kCryptoRc4 | kCryptoAes

datatype user_connection_result =
    kUserInitiatedConnectionResultSuccess | kUserInitiatedConnectionResultFailure
  | kUserInitiatedConnectionResultAborted

datatype rpc_property =
    kStateProperty | kErrorProperty | kErrorDetailsProperty | kAutoConnectProperty
  | kConnectableProperty | kGuidProperty | kPriorityProperty | kPriorityWithinTechnologyProperty
  | kProfileProperty | kProxyConfigProperty | kCheckPortalProperty | kNameProperty
  | kSignalStrengthProperty | kIPConfigProperty | kPortalDetectionFailedPhaseProperty
  | kPortalDetectionFailedStatusProperty | kUIDataProperty | kSaveCredentialsProperty

datatype profile_ref = EphemeralProfile | StackProfile nat

datatype svc_event =
    EmitBoolChanged nat rpc_property bool
  | EmitStringChanged nat rpc_property string
  | EmitIntChanged nat rpc_property int
  | EmitUint8Changed nat rpc_property u8
  | EmitRpcIdentifierChanged nat rpc_property string
  | NotifyServiceStateChanged nat connect_state
  | NotifyUserInitiatedConnectionFailureReason connect_failure
  | NotifyUserInitiatedConnectionResult user_connection_result
  | PostReEnableAutoConnectTask nat u64
  | PostSortServicesTask
  | RecheckPortalOnService nat
  | StorageFlush nat

text \<open>The constants of \<open>service.cc\<close>.\<close>

definition kCheckPortalAuto :: string where "kCheckPortalAuto = ''auto''"
definition kCheckPortalFalse :: string where "kCheckPortalFalse = ''false''"
definition kCheckPortalTrue :: string where "kCheckPortalTrue = ''true''"
definition kErrorDetailsNone :: string where "kErrorDetailsNone = []"
definition kPriorityNone :: int where "kPriorityNone = 0"
definition kEAPMaxCertificationElements :: nat where "kEAPMaxCertificationElements = 10"
definition kMaxAutoConnectCooldownTimeMilliseconds :: u64 where
  "kMaxAutoConnectCooldownTimeMilliseconds = 30 * 60 * 1000"
definition kMinAutoConnectCooldownTimeMilliseconds :: u64 where
  "kMinAutoConnectCooldownTimeMilliseconds = 1000"
definition kAutoConnectCooldownBackoffFactor :: u64 where "kAutoConnectCooldownBackoffFactor = 2"
definition kDisconnectsMonitorSeconds :: int where "kDisconnectsMonitorSeconds = 5 * 60"
definition kMisconnectsMonitorSeconds :: int where "kMisconnectsMonitorSeconds = 5 * 60"
definition kMaxDisconnectEventHistory :: int where "kMaxDisconnectEventHistory = 20"
definition kMaxMisconnectEventHistory :: int where "kMaxMisconnectEventHistory = 20"

lemmas service_consts = kCheckPortalAuto_def kCheckPortalFalse_def kCheckPortalTrue_def
  kErrorDetailsNone_def kPriorityNone_def

record service =
  sv_serial_number :: nat
  sv_unique_name :: string
  sv_friendly_name :: string
  sv_technology :: technology
  sv_storage_identifier :: string
  sv_auto_connect_by_default :: bool
  sv_visible :: bool
  sv_state :: connect_state
  sv_previous_state :: connect_state
  sv_failure :: connect_failure
  sv_auto_connect :: bool
  sv_retain_auto_connect :: bool
  sv_check_portal :: string
  sv_connectable :: bool
  sv_error :: string
  sv_error_details :: string
  sv_previous_error :: string
  sv_previous_error_serial_number :: int
  sv_explicitly_disconnected :: bool
  sv_is_in_user_connect :: bool
  sv_priority :: int
  sv_priority_within_technology :: int
  sv_crypto_algorithm :: crypto_algorithm
  sv_key_rotation :: bool
  sv_endpoint_auth :: bool
  sv_portal_detection_failure_phase :: string
  sv_portal_detection_failure_status :: string
  sv_strength :: u8
  sv_proxy_config :: string
  sv_ui_data :: string
  sv_guid :: string
  sv_save_credentials :: bool
  sv_eap :: "eap_credentials option"
  sv_failed_time :: int
  sv_has_ever_connected :: bool
  sv_disconnects :: event_history
  sv_misconnects :: event_history
  sv_auto_connect_cooldown_milliseconds :: u64
  sv_reenable_task_pending :: bool
  sv_profile :: "profile_ref option"
  sv_remote_certification :: "string list"
  sv_connection :: "nat option"
  sv_connection_id :: int
  sv_is_dns_auto_fallback_allowed :: bool
  sv_link_monitor_disabled :: bool
  sv_managed_credentials :: bool
  sv_unreliable :: bool
  sv_static_ip :: static_ip
  sv_dhcp_properties :: any_dict

record profile_id =
  id_user :: string
  id_identifier :: string
  id_user_hash :: string

text \<open>
  A profile that can be on the manager's stack: a \<open>Profile\<close>, or with \<open>pr_default\<close> a
  \<open>DefaultProfile\<close>; \<open>pr_rpc_identifier\<close> is empty without an adaptor.
\<close>

record 's profile =
  pr_name :: profile_id
  pr_default :: bool
  pr_rpc_identifier :: string
  pr_storage :: 's

record 's world =
  wd_running :: bool
  wd_suspending :: "bool option"
  wd_now :: timestamp
  wd_time :: int
  wd_flush_ok :: bool
  wd_profiles :: "nat list"
  wd_profile :: "nat \<Rightarrow> 's profile"
  wd_sort_pending :: bool
  wd_no_auto_connect_technologies :: string
  wd_lower_connection :: "nat \<Rightarrow> nat option"
  wd_ipconfig_rpc :: "nat \<Rightarrow> string"
  wd_events :: "svc_event list"

record 's platform =
  pf_store :: "'s store_interface"
  pf_tech :: tech_names
  pf_sip :: sip_names
  pf_split_string :: "string \<Rightarrow> string \<Rightarrow> string list"
  pf_join_comma :: "string list \<Rightarrow> string"
  pf_tls :: string
  pf_error_name :: "connect_failure \<Rightarrow> string"
  pf_state_name :: "connect_state \<Rightarrow> string"
  pf_uint_to_string :: "nat \<Rightarrow> string"

definition emit :: "svc_event \<Rightarrow> 's world \<Rightarrow> 's world" where
  "emit e w = w\<lparr>wd_events := wd_events w @ [e]\<rparr>"

fun ConnectFailureToString :: "'s platform \<Rightarrow> connect_failure \<Rightarrow> string" where
  "ConnectFailureToString P kFailureUnknown = ''Unknown''"
| "ConnectFailureToString P kFailureMax = ''Invalid''"
| "ConnectFailureToString P f = pf_error_name P f"

fun ConnectStateToString :: "connect_state \<Rightarrow> string" where
  "ConnectStateToString kStateUnknown = ''Unknown''"
| "ConnectStateToString kStateIdle = ''Idle''"
| "ConnectStateToString kStateAssociating = ''Associating''"
| "ConnectStateToString kStateConfiguring = ''Configuring''"
| "ConnectStateToString kStateConnected = ''Connected''"
| "ConnectStateToString kStatePortal = ''Portal''"
| "ConnectStateToString kStateFailure = ''Failure''"
| "ConnectStateToString kStateOnline = ''Online''"

definition GetStateString :: "'s platform \<Rightarrow> service \<Rightarrow> string" where
  "GetStateString P sv = (if sv_state sv = kStateUnknown then [] else pf_state_name P (sv_state sv))"

definition Service_new :: "'s platform \<Rightarrow> nat \<Rightarrow> technology \<Rightarrow> string \<Rightarrow> bool \<Rightarrow> bool \<Rightarrow> service" where
  "Service_new P serial tech storage_id by_default visible =
     \<lparr>sv_serial_number = serial, sv_unique_name = pf_uint_to_string P serial,
      sv_friendly_name = pf_uint_to_string P serial, sv_technology = tech,
      sv_storage_identifier = storage_id, sv_auto_connect_by_default = by_default,
      sv_visible = visible, sv_state = kStateIdle, sv_previous_state = kStateIdle,
      sv_failure = kFailureUnknown, sv_auto_connect = False, sv_retain_auto_connect = False,
      sv_check_portal = kCheckPortalAuto, sv_connectable = False,
      sv_error = ConnectFailureToString P kFailureUnknown, sv_error_details = kErrorDetailsNone,
      sv_previous_error = [], sv_previous_error_serial_number = 0,
      sv_explicitly_disconnected = False, sv_is_in_user_connect = False,
      sv_priority = kPriorityNone, sv_priority_within_technology = kPriorityNone,
      sv_crypto_algorithm = kCryptoNone, sv_key_rotation = False, sv_endpoint_auth = False,
      sv_portal_detection_failure_phase = [], sv_portal_detection_failure_status = [],
      sv_strength = 0, sv_proxy_config = [], sv_ui_data = [], sv_guid = [],
      sv_save_credentials = True, sv_eap = None, sv_failed_time = 0,
      sv_has_ever_connected = False,
      sv_disconnects = EventHistory_bounded kMaxDisconnectEventHistory,
      sv_misconnects = EventHistory_bounded kMaxMisconnectEventHistory,
      sv_auto_connect_cooldown_milliseconds = 0, sv_reenable_task_pending = False,
      sv_profile = None, sv_remote_certification = [], sv_connection = None,
      sv_connection_id = 0, sv_is_dns_auto_fallback_allowed = False,
      sv_link_monitor_disabled = False, sv_managed_credentials = False, sv_unreliable = False,
      sv_static_ip = \<lparr>sip_args = [], saved_args = []\<rparr>, sv_dhcp_properties = []\<rparr>"

subsection \<open>State predicates\<close>

definition IsActive :: "service \<Rightarrow> bool" where
  "IsActive sv \<longleftrightarrow> sv_state sv \<noteq> kStateUnknown \<and> sv_state sv \<noteq> kStateIdle \<and> sv_state sv \<noteq> kStateFailure"

definition IsConnectedState :: "connect_state \<Rightarrow> bool" where
  "IsConnectedState s \<longleftrightarrow> s = kStateConnected \<or> s = kStatePortal \<or> s = kStateOnline"

definition IsConnectingState :: "connect_state \<Rightarrow> bool" where
  "IsConnectingState s \<longleftrightarrow> s = kStateAssociating \<or> s = kStateConfiguring"

definition IsConnected :: "service \<Rightarrow> bool" where "IsConnected sv = IsConnectedState (sv_state sv)"
definition IsConnecting :: "service \<Rightarrow> bool" where "IsConnecting sv = IsConnectingState (sv_state sv)"

definition IsFailed :: "service \<Rightarrow> bool" where
  "IsFailed sv \<longleftrightarrow> sv_state sv = kStateFailure \<or> sv_failed_time sv > 0"

definition IsInFailState :: "service \<Rightarrow> bool" where "IsInFailState sv \<longleftrightarrow> sv_state sv = kStateFailure"
definition IsOnline :: "service \<Rightarrow> bool" where "IsOnline sv \<longleftrightarrow> sv_state sv = kStateOnline"
definition IsPortalled :: "service \<Rightarrow> bool" where "IsPortalled sv \<longleftrightarrow> sv_state sv = kStatePortal"

lemmas state_preds = IsActive_def IsConnected_def IsConnecting_def IsConnectedState_def
  IsConnectingState_def IsFailed_def IsInFailState_def IsOnline_def IsPortalled_def

definition IsPortalDetectionDisabled :: "service \<Rightarrow> bool" where
  "IsPortalDetectionDisabled sv \<longleftrightarrow> sv_check_portal sv = kCheckPortalFalse"

definition IsPortalDetectionAuto :: "service \<Rightarrow> bool" where
  "IsPortalDetectionAuto sv \<longleftrightarrow> sv_check_portal sv = kCheckPortalAuto"

definition HasStaticIPAddress :: "'s platform \<Rightarrow> service \<Rightarrow> bool" where
  "HasStaticIPAddress P sv = SIP_ContainsAddress (pf_sip P) (sv_static_ip sv)"

definition HasStaticNameServers :: "'s platform \<Rightarrow> service \<Rightarrow> bool" where
  "HasStaticNameServers P sv = SIP_ContainsNameServers (pf_sip P) (sv_static_ip sv)"

definition Is8021xConnectable :: "'s platform \<Rightarrow> service \<Rightarrow> bool" where
  "Is8021xConnectable P sv = (case sv_eap sv of None \<Rightarrow> False | Some e \<Rightarrow> Eap_IsConnectable (pf_tls P) e)"

definition IsServiceEphemeral :: "service \<Rightarrow> bool" where
  "IsServiceEphemeral sv \<longleftrightarrow> sv_profile sv = Some EphemeralProfile"

definition IsRemembered :: "service \<Rightarrow> bool" where
  "IsRemembered sv \<longleftrightarrow> sv_profile sv \<noteq> None \<and> \<not> IsServiceEphemeral sv"

definition IsDependentOn :: "'s world \<Rightarrow> service \<Rightarrow> service \<Rightarrow> bool" where
  "IsDependentOn w a b =
     (case (sv_connection a, sv_connection b) of
        (Some c, Some d) \<Rightarrow> wd_lower_connection w c = Some d
      | _ \<Rightarrow> False)"

fun crypto_value :: "crypto_algorithm \<Rightarrow> nat" where
  "crypto_value kCryptoNone = 0"
| "crypto_value kCryptoRc4 = 1"
| "crypto_value kCryptoAes = 2"

definition SecurityLevel :: "service \<Rightarrow> nat" where
  "SecurityLevel sv =
     push_bit 2 (crypto_value (sv_crypto_algorithm sv)) OR push_bit 1 (of_bool (sv_key_rotation sv))
       OR of_bool (sv_endpoint_auth sv)"

subsection \<open>Writing a service to a store\<close>

text \<open>
  \<open>Service::Save\<close> always returns true. A failed \<open>CHECK\<close> of the DHCP properties, which stops the
  process, leaves the store as it was at that point; \<open>dhcp_wf\<close> excludes it.
\<close>

definition Service_Save :: "'s platform \<Rightarrow> service \<Rightarrow> 's \<Rightarrow> 's" where
  "Service_Save P sv st =
     (let I = pf_store P; sid = sv_storage_identifier sv;
          st = snd (si_SetString I st sid ''Type'' (NameFromIdentifier (pf_tech P) (sv_technology sv)));
          st = (if sv_retain_auto_connect sv
                then snd (si_SetBool I st sid ''AutoConnect'' (sv_auto_connect sv))
                else snd (si_DeleteKey I st sid ''AutoConnect''));
          st = snd (si_DeleteKey I st sid ''Favorite'');
          st = (if sv_check_portal sv = kCheckPortalAuto then snd (si_DeleteKey I st sid ''CheckPortal'')
                else snd (si_SetString I st sid ''CheckPortal'' (sv_check_portal sv)));
          st = SaveString I sid ''GUID'' (sv_guid sv) False True st;
          st = snd (si_SetBool I st sid ''HasEverConnected'' (sv_has_ever_connected sv));
          st = snd (si_SetString I st sid ''Name'' (sv_friendly_name sv));
          st = (if sv_priority sv \<noteq> kPriorityNone
                then snd (si_SetInt I st sid ''Priority'' (sv_priority sv))
                else snd (si_DeleteKey I st sid ''Priority''));
          st = (if sv_priority_within_technology sv \<noteq> kPriorityNone
                then snd (si_SetInt I st sid ''PriorityWithinTechnology''
                       (sv_priority_within_technology sv))
                else snd (si_DeleteKey I st sid ''PriorityWithinTechnology''));
          st = SaveString I sid ''ProxyConfig'' (sv_proxy_config sv) False True st;
          st = snd (si_SetBool I st sid ''SaveCredentials'' (sv_save_credentials sv));
          st = SaveString I sid ''UIData'' (sv_ui_data sv) False True st;
          st = snd (si_SetInt I st sid ''ConnectionId'' (sv_connection_id sv));
          st = snd (si_SetBool I st sid ''DNSAutoFallback'' (sv_is_dns_auto_fallback_allowed sv));
          st = snd (si_SetBool I st sid ''LinkMonitorDisabled'' (sv_link_monitor_disabled sv));
          st = snd (si_SetBool I st sid ''ManagedCredentials'' (sv_managed_credentials sv));
          st = SIP_Save (pf_sip P) I (pf_join_comma P) (sv_static_ip sv) sid st;
          st = (case sv_eap sv of None \<Rightarrow> st
                | Some e \<Rightarrow> Eap_Save I e sid (sv_save_credentials sv) st)
      in got (DhcpProperties_Save I (sv_dhcp_properties sv) sid st) st)"

subsection \<open>Profiles and the manager, as a service calls them\<close>

definition Profile_GetRpcIdentifier :: "'s world \<Rightarrow> profile_ref \<Rightarrow> string" where
  "Profile_GetRpcIdentifier w p =
     (case p of EphemeralProfile \<Rightarrow> [] | StackProfile i \<Rightarrow> pr_rpc_identifier (wd_profile w i))"

definition GetProfileRpcId :: "'s world \<Rightarrow> service \<Rightarrow> error_type + string" where
  "GetProfileRpcId w sv =
     (case sv_profile sv of None \<Rightarrow> Inl kNotFound | Some p \<Rightarrow> Inr (Profile_GetRpcIdentifier w p))"

definition SetProfile :: "profile_ref option \<Rightarrow> service \<Rightarrow> 's world \<Rightarrow> service \<times> 's world" where
  "SetProfile p sv w =
     (if sv_profile sv = p then (sv, w)
      else let sv = sv\<lparr>sv_profile := p\<rparr>
           in case GetProfileRpcId w sv of
                Inl _ \<Rightarrow> (sv, w)
              | Inr rpc \<Rightarrow> (sv, emit (EmitStringChanged (sv_serial_number sv) kProfileProperty rpc) w))"

definition update_storage :: "nat \<Rightarrow> ('s \<Rightarrow> 's) \<Rightarrow> 's world \<Rightarrow> 's world" where
  "update_storage i f w =
     w\<lparr>wd_profile := (wd_profile w)(i := (wd_profile w i)\<lparr>pr_storage := f (pr_storage (wd_profile w i))\<rparr>)\<rparr>"

text \<open>\<open>Flush\<close> writes the file of the profile; its outcome is \<open>wd_flush_ok\<close>.\<close>

definition Flush :: "nat \<Rightarrow> 's world \<Rightarrow> bool \<times> 's world" where
  "Flush i w = (wd_flush_ok w, emit (StorageFlush i) w)"

definition Profile_UpdateService :: "'s platform \<Rightarrow> nat \<Rightarrow> service \<Rightarrow> 's world \<Rightarrow> bool \<times> 's world" where
  "Profile_UpdateService P i sv w = Flush i (update_storage i (Service_Save P sv) w)"

definition AdoptService ::
    "'s platform \<Rightarrow> profile_ref \<Rightarrow> service \<Rightarrow> 's world \<Rightarrow> bool \<times> service \<times> 's world" where
  "AdoptService P p sv w =
     (case p of
        EphemeralProfile \<Rightarrow> (case SetProfile (Some p) sv w of (sv, w) \<Rightarrow> (True, sv, w))
      | StackProfile i \<Rightarrow>
          if sv_profile sv = Some p then (False, sv, w)
          else (case SetProfile (Some p) sv w of (sv, w) \<Rightarrow>
                  case Flush i (update_storage i (Service_Save P sv) w) of (ok, w) \<Rightarrow> (ok, sv, w)))"

definition AbandonService ::
    "'s platform \<Rightarrow> profile_ref \<Rightarrow> service \<Rightarrow> 's world \<Rightarrow> bool \<times> service \<times> 's world" where
  "AbandonService P p sv w =
     (case (if sv_profile sv = Some p then SetProfile None sv w else (sv, w)) of (sv, w) \<Rightarrow>
        (case p of
           EphemeralProfile \<Rightarrow> (True, sv, w)
         | StackProfile i \<Rightarrow>
             (case si_DeleteGroup (pf_store P) (pr_storage (wd_profile w i)) (sv_storage_identifier sv) of
                (deleted, st) \<Rightarrow>
                  let w = update_storage i (\<lambda>_. st) w
                  in if deleted then (case Flush i w of (ok, w) \<Rightarrow> (ok, sv, w)) else (False, sv, w))))"

definition MoveServiceToProfile ::
    "'s platform \<Rightarrow> profile_ref \<Rightarrow> profile_ref \<Rightarrow> service \<Rightarrow> 's world \<Rightarrow> bool \<times> service \<times> 's world" where
  "MoveServiceToProfile P from destination sv w =
     (case AdoptService P destination sv w of
        (True, sv, w) \<Rightarrow> AbandonService P from sv w
      | (False, sv, w) \<Rightarrow> (False, sv, w))"

definition SortServices :: "'s world \<Rightarrow> 's world" where
  "SortServices w =
     (if wd_sort_pending w then w else emit PostSortServicesTask (w\<lparr>wd_sort_pending := True\<rparr>))"

text \<open>The service has a profile here; a null one is not dereferenced by any caller modelled.\<close>

definition SaveServiceToProfile :: "'s platform \<Rightarrow> service \<Rightarrow> 's world \<Rightarrow> service \<times> 's world" where
  "SaveServiceToProfile P sv w =
     (case sv_profile sv of
        None \<Rightarrow> (sv, w)
      | Some EphemeralProfile \<Rightarrow>
          (if wd_profiles w = [] then (sv, w)
           else snd (MoveServiceToProfile P EphemeralProfile (StackProfile (last (wd_profiles w))) sv w))
      | Some (StackProfile i) \<Rightarrow> (sv, snd (Profile_UpdateService P i sv w)))"

definition SetAutoConnect :: "bool \<Rightarrow> service \<Rightarrow> 's world \<Rightarrow> service \<times> 's world" where
  "SetAutoConnect c sv w =
     (if sv_auto_connect sv = c then (sv, w)
      else (sv\<lparr>sv_auto_connect := c\<rparr>,
            emit (EmitBoolChanged (sv_serial_number sv) kAutoConnectProperty c) w))"

definition RetainAutoConnect :: "service \<Rightarrow> service" where
  "RetainAutoConnect sv = sv\<lparr>sv_retain_auto_connect := True\<rparr>"

definition EnableAndRetainAutoConnect :: "service \<Rightarrow> 's world \<Rightarrow> service \<times> 's world" where
  "EnableAndRetainAutoConnect sv w =
     (if sv_retain_auto_connect sv then (sv, w)
      else case SetAutoConnect True sv w of (sv, w) \<Rightarrow> (RetainAutoConnect sv, w))"

definition Manager_UpdateService :: "'s platform \<Rightarrow> service \<Rightarrow> 's world \<Rightarrow> service \<times> 's world" where
  "Manager_UpdateService P sv w =
     (case (if IsConnected sv
            then (case EnableAndRetainAutoConnect sv w of (sv, w) \<Rightarrow> SaveServiceToProfile P sv w)
            else (sv, w)) of
        (sv, w) \<Rightarrow> (sv, SortServices w))"

text \<open>The ephemeral profile has no storage, so \<open>GetConstStorage\<close> is null for it.\<close>

definition SaveToProfile :: "'s platform \<Rightarrow> service \<Rightarrow> 's world \<Rightarrow> 's world" where
  "SaveToProfile P sv w =
     (case sv_profile sv of
        Some (StackProfile i) \<Rightarrow> snd (Profile_UpdateService P i sv w)
      | _ \<Rightarrow> w)"

subsection \<open>The life of a connection\<close>

definition ClearExplicitlyDisconnected :: "'s platform \<Rightarrow> service \<Rightarrow> 's world \<Rightarrow> service \<times> 's world" where
  "ClearExplicitlyDisconnected P sv w =
     (if sv_explicitly_disconnected sv
      then Manager_UpdateService P (sv\<lparr>sv_explicitly_disconnected := False\<rparr>) w
      else (sv, w))"

definition SetErrorDetails :: "string \<Rightarrow> service \<Rightarrow> 's world \<Rightarrow> service \<times> 's world" where
  "SetErrorDetails details sv w =
     (if sv_error_details sv = details then (sv, w)
      else (sv\<lparr>sv_error_details := details\<rparr>,
            emit (EmitStringChanged (sv_serial_number sv) kErrorDetailsProperty details) w))"

definition UpdateErrorProperty :: "'s platform \<Rightarrow> service \<Rightarrow> 's world \<Rightarrow> service \<times> 's world" where
  "UpdateErrorProperty P sv w =
     (let e = ConnectFailureToString P (sv_failure sv)
      in if e = sv_error sv then (sv, w)
         else (sv\<lparr>sv_error := e\<rparr>, emit (EmitStringChanged (sv_serial_number sv) kErrorProperty e) w))"

definition NoteDisconnectEvent :: "service \<Rightarrow> 's world \<Rightarrow> service" where
  "NoteDisconnectEvent sv w =
     (if sv_explicitly_disconnected sv then sv
      else if \<not> wd_running w then sv
      else if wd_suspending w = None \<or> wd_suspending w = Some True then sv
      else let s = (if sv_state sv = kStateIdle then sv_previous_state sv else sv_state sv)
           in if IsConnectedState s
              then sv\<lparr>sv_disconnects := RecordEventAndExpireEventsBefore (sv_disconnects sv)
                        kDisconnectsMonitorSeconds kClockTypeMonotonic (wd_now w)\<rparr>
              else if IsConnectingState s
              then sv\<lparr>sv_misconnects := RecordEventAndExpireEventsBefore (sv_misconnects sv)
                        kMisconnectsMonitorSeconds kClockTypeMonotonic (wd_now w)\<rparr>
              else sv)"

definition ReportUserInitiatedConnectionResult ::
    "connect_state \<Rightarrow> service \<Rightarrow> 's world \<Rightarrow> 's world" where
  "ReportUserInitiatedConnectionResult s sv w =
     (if sv_technology sv \<noteq> kWifi then w
      else case s of
        kStateConnected \<Rightarrow>
          emit (NotifyUserInitiatedConnectionResult kUserInitiatedConnectionResultSuccess) w
      | kStateFailure \<Rightarrow>
          emit (NotifyUserInitiatedConnectionResult kUserInitiatedConnectionResultFailure)
            (emit (NotifyUserInitiatedConnectionFailureReason (sv_failure sv)) w)
      | kStateIdle \<Rightarrow>
          emit (NotifyUserInitiatedConnectionResult kUserInitiatedConnectionResultAborted) w
      | _ \<Rightarrow> w)"

definition SetState :: "'s platform \<Rightarrow> connect_state \<Rightarrow> service \<Rightarrow> 's world \<Rightarrow> service \<times> 's world" where
  "SetState P s sv w =
     (if s = sv_state sv then (sv, w)
      else
        let (sv, w) =
              (if sv_is_in_user_connect sv \<and> (s = kStateConnected \<or> s = kStateFailure \<or> s = kStateIdle)
               then (sv\<lparr>sv_is_in_user_connect := False\<rparr>, ReportUserInitiatedConnectionResult s sv w)
               else (sv, w));
            sv = (if s = kStateFailure then NoteDisconnectEvent sv w else sv);
            sv = sv\<lparr>sv_previous_state := sv_state sv, sv_state := s\<rparr>;
            (sv, w) =
              (if s \<noteq> kStateFailure
               then SetErrorDetails kErrorDetailsNone (sv\<lparr>sv_failure := kFailureUnknown\<rparr>) w
               else (sv, w));
            (sv, w) =
              (if s = kStateConnected
               then let sv = sv\<lparr>sv_failed_time := 0, sv_has_ever_connected := True\<rparr>;
                        w = SaveToProfile P sv w
                    in (sv\<lparr>sv_auto_connect_cooldown_milliseconds := 0, sv_reenable_task_pending := False\<rparr>, w)
               else (sv, w));
            (sv, w) = UpdateErrorProperty P sv w;
            (sv, w) = Manager_UpdateService P sv w;
            w = emit (NotifyServiceStateChanged (sv_serial_number sv) s) w;
            w = emit (EmitStringChanged (sv_serial_number sv) kStateProperty (GetStateString P sv)) w
        in (sv, w))"

definition SetPortalDetectionFailure ::
    "string \<Rightarrow> string \<Rightarrow> service \<Rightarrow> 's world \<Rightarrow> service \<times> 's world" where
  "SetPortalDetectionFailure phase status sv w =
     (sv\<lparr>sv_portal_detection_failure_phase := phase, sv_portal_detection_failure_status := status\<rparr>,
      emit (EmitStringChanged (sv_serial_number sv) kPortalDetectionFailedStatusProperty status)
        (emit (EmitStringChanged (sv_serial_number sv) kPortalDetectionFailedPhaseProperty phase) w))"

definition SaveFailure :: "'s platform \<Rightarrow> service \<Rightarrow> service" where
  "SaveFailure P sv =
     sv\<lparr>sv_previous_error := ConnectFailureToString P (sv_failure sv),
        sv_previous_error_serial_number := sv_previous_error_serial_number sv + 1\<rparr>"

definition SetFailure :: "'s platform \<Rightarrow> connect_failure \<Rightarrow> service \<Rightarrow> 's world \<Rightarrow> service \<times> 's world" where
  "SetFailure P f sv w =
     (let sv = SaveFailure P (sv\<lparr>sv_failure := f\<rparr>);
          sv = sv\<lparr>sv_failed_time := wd_time w\<rparr>;
          (sv, w) = UpdateErrorProperty P sv w
      in SetState P kStateFailure sv w)"

definition SetFailureSilent ::
    "'s platform \<Rightarrow> connect_failure \<Rightarrow> service \<Rightarrow> 's world \<Rightarrow> service \<times> 's world" where
  "SetFailureSilent P f sv w =
     (let sv = NoteDisconnectEvent sv w;
          (sv, w) = SetState P kStateIdle sv w;
          sv = SaveFailure P (sv\<lparr>sv_failure := f\<rparr>);
          (sv, w) = UpdateErrorProperty P sv w
      in (sv\<lparr>sv_failed_time := wd_time w\<rparr>, w))"

subsection \<open>Connecting\<close>

definition Connect :: "'s platform \<Rightarrow> service \<Rightarrow> 's world \<Rightarrow> service \<times> 's world" where
  "Connect P sv w =
     (let (sv, w) = ClearExplicitlyDisconnected P sv w
      in if sv_state sv = kStateFailure then SetState P kStateIdle sv w else (sv, w))"

text \<open>The base class only logs on \<open>Disconnect\<close>; the technology classes extend it.\<close>

definition DisconnectWithFailure ::
    "'s platform \<Rightarrow> connect_failure \<Rightarrow> service \<Rightarrow> 's world \<Rightarrow> service \<times> 's world" where
  "DisconnectWithFailure P f sv w = SetFailure P f sv w"

definition UserInitiatedDisconnect :: "service \<Rightarrow> service" where
  "UserInitiatedDisconnect sv = sv\<lparr>sv_explicitly_disconnected := True\<rparr>"

definition UserInitiatedConnect :: "'s platform \<Rightarrow> service \<Rightarrow> 's world \<Rightarrow> service \<times> 's world" where
  "UserInitiatedConnect P sv w =
     (case Connect P sv w of (sv, w) \<Rightarrow> (sv\<lparr>sv_is_in_user_connect := True\<rparr>, w))"

definition ReEnableAutoConnectTask :: "'s platform \<Rightarrow> service \<Rightarrow> 's world \<Rightarrow> service \<times> 's world" where
  "ReEnableAutoConnectTask P sv w =
     Manager_UpdateService P (sv\<lparr>sv_reenable_task_pending := False\<rparr>) w"

definition ThrottleFutureAutoConnects :: "service \<Rightarrow> 's world \<Rightarrow> service \<times> 's world" where
  "ThrottleFutureAutoConnects sv w =
     (let (sv, w) =
            (if sv_auto_connect_cooldown_milliseconds sv > 0
             then (sv\<lparr>sv_reenable_task_pending := True\<rparr>,
                   emit (PostReEnableAutoConnectTask (sv_serial_number sv)
                           (sv_auto_connect_cooldown_milliseconds sv)) w)
             else (sv, w))
      in (sv\<lparr>sv_auto_connect_cooldown_milliseconds :=
               min kMaxAutoConnectCooldownTimeMilliseconds
                 (max kMinAutoConnectCooldownTimeMilliseconds
                    (sv_auto_connect_cooldown_milliseconds sv * kAutoConnectCooldownBackoffFactor))\<rparr>, w))"

datatype auto_conn_reason =
    kAutoConnTechnologyNotConnectable | kAutoConnNotConnectable | kAutoConnConnected
  | kAutoConnConnecting | kAutoConnExplicitDisconnect | kAutoConnThrottled | kAutoConnOffline

definition IsTechnologyInList :: "'s platform \<Rightarrow> string \<Rightarrow> technology \<Rightarrow> bool" where
  "IsTechnologyInList P technology_list tech =
     (if technology_list = [] then False
      else case GetTechnologyVectorFromString (pf_tech P) (pf_split_string P) technology_list of
             Inl _ \<Rightarrow> False
           | Inr technologies \<Rightarrow> tech \<in> set technologies)"

definition IsTechnologyAutoConnectDisabled :: "'s platform \<Rightarrow> 's world \<Rightarrow> technology \<Rightarrow> bool" where
  "IsTechnologyAutoConnectDisabled P w tech =
     IsTechnologyInList P (wd_no_auto_connect_technologies w) tech"

text \<open>
  \<open>None\<close> is true, \<open>Some reason\<close> false. \<open>manager_connected\<close> is \<open>Manager::IsConnected()\<close>, which reads
  the manager's list of services.
\<close>

definition IsAutoConnectable ::
    "'s platform \<Rightarrow> bool \<Rightarrow> service \<Rightarrow> 's world \<Rightarrow> auto_conn_reason option" where
  "IsAutoConnectable P manager_connected sv w =
     (if IsTechnologyAutoConnectDisabled P w (sv_technology sv) then Some kAutoConnTechnologyNotConnectable
      else if \<not> sv_connectable sv then Some kAutoConnNotConnectable
      else if IsConnected sv then Some kAutoConnConnected
      else if IsConnecting sv then Some kAutoConnConnecting
      else if sv_explicitly_disconnected sv then Some kAutoConnExplicitDisconnect
      else if sv_reenable_task_pending sv then Some kAutoConnThrottled
      else if \<not> IsPrimaryConnectivityTechnology (sv_technology sv) \<and> \<not> manager_connected
      then Some kAutoConnOffline
      else None)"

definition AutoConnect ::
    "'s platform \<Rightarrow> bool \<Rightarrow> service \<Rightarrow> 's world \<Rightarrow> service \<times> 's world" where
  "AutoConnect P manager_connected sv w =
     (case IsAutoConnectable P manager_connected sv w of
        None \<Rightarrow> (case ThrottleFutureAutoConnects sv w of (sv, w) \<Rightarrow> Connect P sv w)
      | Some _ \<Rightarrow> (sv, w))"

definition OnAfterResume :: "'s platform \<Rightarrow> service \<Rightarrow> 's world \<Rightarrow> service \<times> 's world" where
  "OnAfterResume P sv w =
     ClearExplicitlyDisconnected P
       (sv\<lparr>sv_auto_connect_cooldown_milliseconds := 0, sv_reenable_task_pending := False\<rparr>) w"

definition HasRecentConnectionIssues :: "service \<Rightarrow> 's world \<Rightarrow> bool \<times> service" where
  "HasRecentConnectionIssues sv w =
     (let sv = sv\<lparr>sv_disconnects := ExpireEventsBefore (sv_disconnects sv) kDisconnectsMonitorSeconds
                    kClockTypeMonotonic (wd_now w)\<rparr>;
          sv = sv\<lparr>sv_misconnects := ExpireEventsBefore (sv_misconnects sv) kMisconnectsMonitorSeconds
                    kClockTypeMonotonic (wd_now w)\<rparr>
      in (events (sv_disconnects sv) \<noteq> [] \<or> events (sv_misconnects sv) \<noteq> [], sv))"

subsection \<open>Loading and unloading\<close>

definition IsLoadableFrom :: "'s platform \<Rightarrow> service \<Rightarrow> 's \<Rightarrow> bool" where
  "IsLoadableFrom P sv st = si_ContainsGroup (pf_store P) st (sv_storage_identifier sv)"

definition GetLoadableStorageIdentifier :: "'s platform \<Rightarrow> service \<Rightarrow> 's \<Rightarrow> string" where
  "GetLoadableStorageIdentifier P sv st =
     (if IsLoadableFrom P sv st then sv_storage_identifier sv else [])"

text \<open>
  \<open>Load\<close> holds a pointer to the storage, and clearing the explicit disconnection in the middle of it
  can write to the same storage; so the argument \<open>storage\<close> reads the storage out of the world.
\<close>

definition Service_Load ::
    "'s platform \<Rightarrow> ('s world \<Rightarrow> 's) \<Rightarrow> service \<Rightarrow> 's world \<Rightarrow> bool \<times> service \<times> 's world" where
  "Service_Load P storage sv w =
     (let I = pf_store P; sid = sv_storage_identifier sv; st = storage w
      in if \<not> si_ContainsGroup I st sid then (False, sv, w)
         else
           let auto = si_GetBool I st sid ''AutoConnect'';
               sv = sv\<lparr>
                 sv_auto_connect := got auto (sv_auto_connect_by_default sv),
                 sv_retain_auto_connect := got (si_GetBool I st sid ''Favorite'') (auto \<noteq> None),
                 sv_check_portal := LoadString I st sid ''CheckPortal'' kCheckPortalAuto,
                 sv_guid := LoadString I st sid ''GUID'' [],
                 sv_priority := got (si_GetInt I st sid ''Priority'') kPriorityNone,
                 sv_priority_within_technology :=
                   got (si_GetInt I st sid ''PriorityWithinTechnology'') kPriorityNone,
                 sv_proxy_config := LoadString I st sid ''ProxyConfig'' [],
                 sv_save_credentials := got (si_GetBool I st sid ''SaveCredentials'') (sv_save_credentials sv),
                 sv_ui_data := LoadString I st sid ''UIData'' [],
                 sv_connection_id := got (si_GetInt I st sid ''ConnectionId'') (sv_connection_id sv),
                 sv_is_dns_auto_fallback_allowed :=
                   got (si_GetBool I st sid ''DNSAutoFallback'') (sv_is_dns_auto_fallback_allowed sv),
                 sv_link_monitor_disabled :=
                   got (si_GetBool I st sid ''LinkMonitorDisabled'') (sv_link_monitor_disabled sv),
                 sv_managed_credentials := got (si_GetBool I st sid ''ManagedCredentials'') False,
                 sv_static_ip :=
                   SIP_Load (pf_sip P) I (\<lambda>s. pf_split_string P s '','') st sid (sv_static_ip sv),
                 sv_eap := map_option (Eap_Load I st sid) (sv_eap sv)\<rparr>;
               (sv, w) = ClearExplicitlyDisconnected P sv w;
               st = storage w;
               sv = sv\<lparr>sv_has_ever_connected :=
                         got (si_GetBool I st sid ''HasEverConnected'') (sv_has_ever_connected sv)\<rparr>;
               sv = sv\<lparr>sv_dhcp_properties := DhcpProperties_Load I st sid (sv_dhcp_properties sv)\<rparr>
           in (True, sv, w))"

definition ClearEAPCertification :: "service \<Rightarrow> service" where
  "ClearEAPCertification sv = sv\<lparr>sv_remote_certification := []\<rparr>"

definition Service_Unload :: "'s platform \<Rightarrow> service \<Rightarrow> 's world \<Rightarrow> bool \<times> service \<times> 's world" where
  "Service_Unload P sv w =
     (let sv = sv\<lparr>sv_auto_connect := sv_auto_connect_by_default sv, sv_retain_auto_connect := False,
                  sv_check_portal := kCheckPortalAuto\<rparr>;
          (sv, w) = ClearExplicitlyDisconnected P sv w;
          sv = sv\<lparr>sv_guid := [], sv_has_ever_connected := False, sv_priority := kPriorityNone,
                  sv_priority_within_technology := kPriorityNone, sv_proxy_config := [],
                  sv_save_credentials := True, sv_ui_data := [], sv_connection_id := 0,
                  sv_is_dns_auto_fallback_allowed := False, sv_link_monitor_disabled := False,
                  sv_managed_credentials := False\<rparr>;
          sv = sv\<lparr>sv_eap := map_option Eap_Reset (sv_eap sv)\<rparr>;
          sv = ClearEAPCertification sv
      in (False, sv, w))"

subsection \<open>Property setters\<close>

text \<open>A setter returns whether the value changed; a rejected value is \<open>Inl\<close> of the error.\<close>

definition SetAutoConnectFull ::
    "'s platform \<Rightarrow> bool \<Rightarrow> service \<Rightarrow> 's world \<Rightarrow> bool \<times> service \<times> 's world" where
  "SetAutoConnectFull P c sv w =
     (let (sv, w) =
            (if \<not> sv_retain_auto_connect sv
             then let sv = RetainAutoConnect sv
                  in (sv, if IsRemembered sv then SaveToProfile P sv w else w)
             else (sv, w))
      in if sv_auto_connect sv = c then (False, sv, w)
         else let (sv, w) = SetAutoConnect c sv w; (sv, w) = Manager_UpdateService P sv w
              in (True, sv, w))"

definition ClearAutoConnect :: "'s platform \<Rightarrow> service \<Rightarrow> 's world \<Rightarrow> service \<times> 's world" where
  "ClearAutoConnect P sv w =
     (let (sv, w) =
            (if sv_auto_connect sv
             then let (sv, w) = SetAutoConnect False sv w in Manager_UpdateService P sv w
             else (sv, w))
      in (sv\<lparr>sv_retain_auto_connect := False\<rparr>, w))"

definition SetCheckPortal :: "string \<Rightarrow> service \<Rightarrow> (error_type \<times> string) + bool \<times> service" where
  "SetCheckPortal check_portal sv =
     (if check_portal \<noteq> kCheckPortalFalse \<and> check_portal \<noteq> kCheckPortalTrue \<and>
         check_portal \<noteq> kCheckPortalAuto
      then Inl (kInvalidArguments, ''Invalid Service CheckPortal property value: '' @ check_portal)
      else if check_portal = sv_check_portal sv then Inr (False, sv)
      else Inr (True, sv\<lparr>sv_check_portal := check_portal\<rparr>))"

definition SetGuid :: "string \<Rightarrow> service \<Rightarrow> 's world \<Rightarrow> bool \<times> service \<times> 's world" where
  "SetGuid guid sv w =
     (if sv_guid sv = guid then (False, sv, w)
      else (True, sv\<lparr>sv_guid := guid\<rparr>,
            emit (EmitStringChanged (sv_serial_number sv) kGuidProperty guid) w))"

definition SetPriority :: "int \<Rightarrow> service \<Rightarrow> 's world \<Rightarrow> bool \<times> service \<times> 's world" where
  "SetPriority v sv w =
     (if sv_priority sv = v then (False, sv, w)
      else (True, sv\<lparr>sv_priority := v\<rparr>, emit (EmitIntChanged (sv_serial_number sv) kPriorityProperty v) w))"

definition SetPriorityWithinTechnology ::
    "int \<Rightarrow> service \<Rightarrow> 's world \<Rightarrow> bool \<times> service \<times> 's world" where
  "SetPriorityWithinTechnology v sv w =
     (if sv_priority_within_technology sv = v then (False, sv, w)
      else (True, sv\<lparr>sv_priority_within_technology := v\<rparr>,
            emit (EmitIntChanged (sv_serial_number sv) kPriorityWithinTechnologyProperty v) w))"

definition SetProxyConfig :: "string \<Rightarrow> service \<Rightarrow> 's world \<Rightarrow> bool \<times> service \<times> 's world" where
  "SetProxyConfig v sv w =
     (if sv_proxy_config sv = v then (False, sv, w)
      else (True, sv\<lparr>sv_proxy_config := v\<rparr>,
            emit (EmitStringChanged (sv_serial_number sv) kProxyConfigProperty v) w))"

definition SetNameProperty :: "string \<Rightarrow> service \<Rightarrow> (error_type \<times> string) + bool" where
  "SetNameProperty name sv =
     (if name \<noteq> sv_friendly_name sv
      then Inl (kInvalidArguments,
                ''Service '' @ sv_unique_name sv @ '' Name property cannot be modified.'')
      else Inr False)"

definition SetFriendlyName :: "string \<Rightarrow> service \<Rightarrow> 's world \<Rightarrow> service \<times> 's world" where
  "SetFriendlyName name sv w =
     (if name = sv_friendly_name sv then (sv, w)
      else (sv\<lparr>sv_friendly_name := name\<rparr>,
            emit (EmitStringChanged (sv_serial_number sv) kNameProperty name) w))"

definition SetStrength :: "u8 \<Rightarrow> service \<Rightarrow> 's world \<Rightarrow> service \<times> 's world" where
  "SetStrength v sv w =
     (if v = sv_strength sv then (sv, w)
      else (sv\<lparr>sv_strength := v\<rparr>,
            emit (EmitUint8Changed (sv_serial_number sv) kSignalStrengthProperty v) w))"

definition SetSecurity :: "crypto_algorithm \<Rightarrow> bool \<Rightarrow> bool \<Rightarrow> service \<Rightarrow> service" where
  "SetSecurity c k e sv = sv\<lparr>sv_crypto_algorithm := c, sv_key_rotation := k, sv_endpoint_auth := e\<rparr>"

definition SetHasEverConnected :: "bool \<Rightarrow> service \<Rightarrow> service" where
  "SetHasEverConnected b sv =
     (if sv_has_ever_connected sv = b then sv else sv\<lparr>sv_has_ever_connected := b\<rparr>)"

definition SetConnectable :: "bool \<Rightarrow> service \<Rightarrow> 's world \<Rightarrow> service \<times> 's world" where
  "SetConnectable c sv w =
     (if sv_connectable sv = c then (sv, w)
      else (sv\<lparr>sv_connectable := c\<rparr>,
            emit (EmitBoolChanged (sv_serial_number sv) kConnectableProperty c) w))"

text \<open>\<open>registered\<close> is \<open>Manager::HasService(this)\<close>.\<close>

definition SetConnectableFull ::
    "'s platform \<Rightarrow> bool \<Rightarrow> bool \<Rightarrow> service \<Rightarrow> 's world \<Rightarrow> service \<times> 's world" where
  "SetConnectableFull P registered c sv w =
     (if sv_connectable sv = c then (sv, w)
      else let (sv, w) = SetConnectable c sv w
           in if registered then Manager_UpdateService P sv w else (sv, w))"

text \<open>
  \<open>AddEAPCertification\<close>: \<open>resize\<close> pads with empty strings; entries past the limit are refused.
\<close>

definition AddEAPCertification :: "string \<Rightarrow> nat \<Rightarrow> service \<Rightarrow> bool \<times> service" where
  "AddEAPCertification name depth sv =
     (if depth \<ge> kEAPMaxCertificationElements then (False, sv)
      else let rc = sv_remote_certification sv
           in if depth \<ge> length rc
              then (True, sv\<lparr>sv_remote_certification :=
                             (rc @ replicate (depth + 1 - length rc) [])[depth := name]\<rparr>)
              else if name = rc ! depth then (True, sv)
              else (True, sv\<lparr>sv_remote_certification := rc[depth := name]\<rparr>))"

text \<open>\<open>SetEapCredentials\<close>; \<open>None\<close> is the failed \<open>CHECK\<close> on a second call.\<close>

definition SetEapCredentials :: "eap_credentials \<Rightarrow> service \<Rightarrow> service option" where
  "SetEapCredentials e sv = (if sv_eap sv = None then Some (sv\<lparr>sv_eap := Some e\<rparr>) else None)"

definition GetIPConfigRpcIdentifier :: "'s world \<Rightarrow> service \<Rightarrow> error_type + string" where
  "GetIPConfigRpcIdentifier w sv =
     (case sv_connection sv of
        None \<Rightarrow> Inl kNotFound
      | Some c \<Rightarrow> if wd_ipconfig_rpc w c = [] then Inl kNotFound else Inr (wd_ipconfig_rpc w c))"

definition NotifyIPConfigChanges :: "service \<Rightarrow> 's world \<Rightarrow> 's world" where
  "NotifyIPConfigChanges sv w =
     (case GetIPConfigRpcIdentifier w sv of
        Inl _ \<Rightarrow> w
      | Inr ipconfig \<Rightarrow> emit (EmitRpcIdentifierChanged (sv_serial_number sv) kIPConfigProperty ipconfig) w)"

text \<open>\<open>SetConnection\<close>, without the HTTP proxy it starts or stops.\<close>

definition SetConnection :: "nat option \<Rightarrow> service \<Rightarrow> 's world \<Rightarrow> service \<times> 's world" where
  "SetConnection c sv w =
     (let sv = (if c = None then sv\<lparr>sv_static_ip := ClearSavedParameters (sv_static_ip sv)\<rparr> else sv);
          sv = sv\<lparr>sv_connection := c\<rparr>
      in (sv, NotifyIPConfigChanges sv w))"

definition OnPropertyChanged :: "'s platform \<Rightarrow> rpc_property \<Rightarrow> service \<Rightarrow> 's world \<Rightarrow> 's world" where
  "OnPropertyChanged P property sv w =
     (let w = SaveToProfile P sv w
      in if (property = kCheckPortalProperty \<or> property = kProxyConfigProperty) \<and>
            (sv_state sv = kStateConnected \<or> sv_state sv = kStatePortal \<or> sv_state sv = kStateOnline)
         then emit (RecheckPortalOnService (sv_serial_number sv)) w else w)"

subsection \<open>A platform for examples\<close>

definition demo_tech :: tech_names where
  "demo_tech = \<lparr>kTypeEthernet = ''ethernet'', kTypeEthernetEap = ''etherneteap'', kTypeWifi = ''wifi'',
     kTypeWimax = ''wimax'', kTypeCellular = ''cellular'', kTypeVPN = ''vpn'', kTypePPPoE = ''pppoe''\<rparr>"

definition demo_platform :: "json_store platform" where
  "demo_platform =
     \<lparr>pf_store = JsonStore_interface, pf_tech = demo_tech, pf_sip = demo_names,
      pf_split_string = (\<lambda>s sep. demo_split s), pf_join_comma = demo_join, pf_tls = ''TLS'',
      pf_error_name = (\<lambda>f. if f = kFailureDHCP then ''dhcp-failed'' else ''connect-failed''),
      pf_state_name = (\<lambda>s. ConnectStateToString s), pf_uint_to_string = (\<lambda>n. replicate n CHR ''1'')\<rparr>"

definition demo_store :: json_store where
  "demo_store = \<lparr>file_description = [], group_name_to_settings = []\<rparr>"

definition demo_profile :: "string \<Rightarrow> json_store profile" where
  "demo_profile user = \<lparr>pr_name = \<lparr>id_user = user, id_identifier = ''default'', id_user_hash = []\<rparr>,
     pr_default = (user = []), pr_rpc_identifier = ''/profile'', pr_storage = demo_store\<rparr>"

definition demo_world :: "json_store world" where
  "demo_world =
     \<lparr>wd_running = True, wd_suspending = Some False,
      wd_now = \<lparr>monotonic = (100, 0), boottime = (100, 0), wall_clock = ''now''\<rparr>, wd_time = 1000,
      wd_flush_ok = True, wd_profiles = [0], wd_profile = (\<lambda>_. demo_profile []),
      wd_sort_pending = False, wd_no_auto_connect_technologies = [],
      wd_lower_connection = (\<lambda>_. None), wd_ipconfig_rpc = (\<lambda>_. []), wd_events = []\<rparr>"

definition demo_service :: service where
  "demo_service = Service_new demo_platform 1 kWifi ''wifi_1'' False True"

end
