(* ===== verification/Service_Proofs.thy ===== *)
theory Service_Proofs
  imports Service
begin

text \<open>
  What the operations of \<open>Service\<close> do: frame lemmas for the callbacks into the manager and the
  profiles, the effect of every state change, an invariant over all sequences of operations, and the
  throttling of automatic connections.
\<close>

subsection \<open>Frames\<close>

text \<open>The part of the world that no operation of a service changes.\<close>

definition env :: "'s world \<Rightarrow> 's world" where
  "env w = w\<lparr>wd_profile := undefined, wd_sort_pending := False, wd_events := []\<rparr>"

lemma env_emit [simp]: "env (emit e w) = env w"
  by (simp add: env_def emit_def)

lemma env_update_storage [simp]: "env (update_storage i f w) = env w"
  by (simp add: env_def update_storage_def)

lemma env_Flush [simp]: "env (snd (Flush i w)) = env w"
  by (simp add: Flush_def)

lemma env_UpdateService [simp]: "env (snd (Profile_UpdateService P i sv w)) = env w"
  by (simp add: Profile_UpdateService_def)

lemma env_SortServices [simp]: "env (SortServices w) = env w"
  by (simp add: SortServices_def) (simp add: env_def emit_def)

lemma env_fields:
  assumes "env w' = env w"
  shows "wd_running w' = wd_running w" "wd_suspending w' = wd_suspending w" "wd_now w' = wd_now w"
    "wd_time w' = wd_time w" "wd_flush_ok w' = wd_flush_ok w" "wd_profiles w' = wd_profiles w"
    "wd_no_auto_connect_technologies w' = wd_no_auto_connect_technologies w"
    "wd_lower_connection w' = wd_lower_connection w" "wd_ipconfig_rpc w' = wd_ipconfig_rpc w"
  using assms by (cases w; cases w'; simp add: env_def)+

lemma SetProfile_fst [simp]: "fst (SetProfile p sv w) = sv\<lparr>sv_profile := p\<rparr>"
  by (auto simp: SetProfile_def Let_def split: sum.split)

lemma SetProfile_env [simp]: "env (snd (SetProfile p sv w)) = env w"
  by (auto simp: SetProfile_def Let_def split: sum.split)

lemma AdoptService_sv [simp]: "fst (snd (AdoptService P p sv w)) = sv\<lparr>sv_profile := Some p\<rparr>"
  by (auto simp: AdoptService_def split_def split: profile_ref.split)

lemma AdoptService_env [simp]: "env (snd (snd (AdoptService P p sv w))) = env w"
  by (auto simp: AdoptService_def split_def split: profile_ref.split)

lemma AbandonService_other:
  assumes "sv_profile sv \<noteq> Some EphemeralProfile"
  shows "AbandonService P EphemeralProfile sv w = (True, sv, w)"
  using assms by (simp add: AbandonService_def)

lemma Move_from_ephemeral:
  "fst (snd (MoveServiceToProfile P EphemeralProfile (StackProfile i) sv w)) =
     sv\<lparr>sv_profile := Some (StackProfile i)\<rparr>"
  "env (snd (snd (MoveServiceToProfile P EphemeralProfile (StackProfile i) sv w))) = env w"
proof -
  obtain ok sv' w' where a: "AdoptService P (StackProfile i) sv w = (ok, sv', w')"
    by (cases "AdoptService P (StackProfile i) sv w") auto
  then have "sv' = sv\<lparr>sv_profile := Some (StackProfile i)\<rparr>" "env w' = env w"
    using AdoptService_sv [of P "StackProfile i" sv w] AdoptService_env [of P "StackProfile i" sv w]
    by simp_all
  then show "fst (snd (MoveServiceToProfile P EphemeralProfile (StackProfile i) sv w)) =
     sv\<lparr>sv_profile := Some (StackProfile i)\<rparr>"
    and "env (snd (snd (MoveServiceToProfile P EphemeralProfile (StackProfile i) sv w))) = env w"
    by (simp_all add: MoveServiceToProfile_def a AbandonService_other split: bool.split)
qed

text \<open>
  What \<open>Manager::UpdateService\<close> makes of the service: a connected one is set to connect
  automatically unless the user decided, and leaves the ephemeral profile for the top of the stack.
\<close>

definition updated :: "service \<Rightarrow> 's world \<Rightarrow> service" where
  "updated sv w =
     (if \<not> IsConnected sv then sv
      else sv\<lparr>sv_auto_connect := sv_auto_connect sv \<or> \<not> sv_retain_auto_connect sv,
              sv_retain_auto_connect := True,
              sv_profile := (if IsServiceEphemeral sv \<and> wd_profiles w \<noteq> []
                             then Some (StackProfile (last (wd_profiles w))) else sv_profile sv)\<rparr>)"

lemma EnableAndRetain_sv:
  "fst (EnableAndRetainAutoConnect sv w) =
     sv\<lparr>sv_auto_connect := sv_auto_connect sv \<or> \<not> sv_retain_auto_connect sv,
        sv_retain_auto_connect := True\<rparr>"
  by (auto simp: EnableAndRetainAutoConnect_def SetAutoConnect_def RetainAutoConnect_def)

lemma EnableAndRetain_env [simp]: "env (snd (EnableAndRetainAutoConnect sv w)) = env w"
  by (auto simp: EnableAndRetainAutoConnect_def SetAutoConnect_def)

lemma SaveServiceToProfile_sv:
  "fst (SaveServiceToProfile P sv w) =
     sv\<lparr>sv_profile := (if IsServiceEphemeral sv \<and> wd_profiles w \<noteq> []
                       then Some (StackProfile (last (wd_profiles w))) else sv_profile sv)\<rparr>"
  by (auto simp: SaveServiceToProfile_def IsServiceEphemeral_def Move_from_ephemeral
      split: option.split profile_ref.split)

lemma SaveServiceToProfile_env [simp]: "env (snd (SaveServiceToProfile P sv w)) = env w"
  by (auto simp: SaveServiceToProfile_def Move_from_ephemeral split: option.split profile_ref.split)

lemma Manager_UpdateService_sv [simp]: "fst (Manager_UpdateService P sv w) = updated sv w"
  using env_fields(6) [OF EnableAndRetain_env [of sv w]]
  by (simp add: Manager_UpdateService_def updated_def split_def SaveServiceToProfile_sv
      EnableAndRetain_sv IsServiceEphemeral_def)

lemma Manager_UpdateService_env [simp]: "env (snd (Manager_UpdateService P sv w)) = env w"
  by (simp add: Manager_UpdateService_def split_def)

lemma updated_simps [simp]:
  "sv_state (updated sv w) = sv_state sv" "sv_previous_state (updated sv w) = sv_previous_state sv"
  "sv_failure (updated sv w) = sv_failure sv" "sv_error (updated sv w) = sv_error sv"
  "sv_error_details (updated sv w) = sv_error_details sv"
  "sv_failed_time (updated sv w) = sv_failed_time sv"
  "sv_has_ever_connected (updated sv w) = sv_has_ever_connected sv"
  "sv_explicitly_disconnected (updated sv w) = sv_explicitly_disconnected sv"
  "sv_auto_connect_cooldown_milliseconds (updated sv w) = sv_auto_connect_cooldown_milliseconds sv"
  "sv_reenable_task_pending (updated sv w) = sv_reenable_task_pending sv"
  "sv_disconnects (updated sv w) = sv_disconnects sv"
  "sv_misconnects (updated sv w) = sv_misconnects sv"
  "sv_serial_number (updated sv w) = sv_serial_number sv"
  "sv_connectable (updated sv w) = sv_connectable sv"
  "sv_technology (updated sv w) = sv_technology sv"
  "sv_remote_certification (updated sv w) = sv_remote_certification sv"
  "sv_dhcp_properties (updated sv w) = sv_dhcp_properties sv"
  "sv_is_in_user_connect (updated sv w) = sv_is_in_user_connect sv"
  by (simp_all add: updated_def)

lemma SetErrorDetails_sv [simp]: "fst (SetErrorDetails d sv w) = sv\<lparr>sv_error_details := d\<rparr>"
  by (simp add: SetErrorDetails_def)

lemma SetErrorDetails_env [simp]: "env (snd (SetErrorDetails d sv w)) = env w"
  by (simp add: SetErrorDetails_def)

lemma UpdateErrorProperty_sv [simp]:
  "fst (UpdateErrorProperty P sv w) = sv\<lparr>sv_error := ConnectFailureToString P (sv_failure sv)\<rparr>"
  by (simp add: UpdateErrorProperty_def Let_def)

lemma UpdateErrorProperty_env [simp]: "env (snd (UpdateErrorProperty P sv w)) = env w"
  by (simp add: UpdateErrorProperty_def Let_def)

lemma SaveToProfile_env [simp]: "env (SaveToProfile P sv w) = env w"
  by (simp add: SaveToProfile_def split: option.split profile_ref.split)

lemma Report_env [simp]: "env (ReportUserInitiatedConnectionResult s sv w) = env w"
  by (simp add: ReportUserInitiatedConnectionResult_def split: connect_state.split)

lemma Note_cases:
  obtains d m where "NoteDisconnectEvent sv w = sv\<lparr>sv_disconnects := d, sv_misconnects := m\<rparr>"
proof -
  have "NoteDisconnectEvent sv w =
      sv\<lparr>sv_disconnects := sv_disconnects (NoteDisconnectEvent sv w),
         sv_misconnects := sv_misconnects (NoteDisconnectEvent sv w)\<rparr>"
    by (simp add: NoteDisconnectEvent_def Let_def)
  then show ?thesis by (rule that)
qed

text \<open>The service after a change of state, before the manager hears of it.\<close>

definition entered :: "'s platform \<Rightarrow> connect_state \<Rightarrow> service \<Rightarrow> 's world \<Rightarrow> service" where
  "entered P s sv w =
     (let sv = sv\<lparr>sv_is_in_user_connect := sv_is_in_user_connect sv \<and>
                    \<not> (s = kStateConnected \<or> s = kStateFailure \<or> s = kStateIdle)\<rparr>;
          sv = (if s = kStateFailure then NoteDisconnectEvent sv w else sv);
          sv = sv\<lparr>sv_previous_state := sv_state sv, sv_state := s\<rparr>;
          sv = (if s \<noteq> kStateFailure
                then sv\<lparr>sv_failure := kFailureUnknown, sv_error_details := kErrorDetailsNone\<rparr> else sv);
          sv = (if s = kStateConnected
                then sv\<lparr>sv_failed_time := 0, sv_has_ever_connected := True,
                        sv_auto_connect_cooldown_milliseconds := 0,
                        sv_reenable_task_pending := False\<rparr> else sv)
      in sv\<lparr>sv_error := ConnectFailureToString P (sv_failure sv)\<rparr>)"

lemma Note_env:
  assumes "env w' = env w"
  shows "NoteDisconnectEvent sv w' = NoteDisconnectEvent sv w"
  by (simp add: NoteDisconnectEvent_def Let_def env_fields(1,2,3) [OF assms])

lemma updated_env: "env w' = env w \<Longrightarrow> updated sv w' = updated sv w"
  using env_fields(6) [of w' w] by (simp add: updated_def)

text \<open>The same facts as equations between pairs, to step through a sequence of calls.\<close>

lemma SetErrorDetails_pair:
  obtains w' where "SetErrorDetails d sv w = (sv\<lparr>sv_error_details := d\<rparr>, w')" "env w' = env w"
  by (metis SetErrorDetails_env SetErrorDetails_sv surjective_pairing)

lemma UpdateErrorProperty_pair:
  obtains w' where
    "UpdateErrorProperty P sv w = (sv\<lparr>sv_error := ConnectFailureToString P (sv_failure sv)\<rparr>, w')"
    "env w' = env w"
  by (metis UpdateErrorProperty_env UpdateErrorProperty_sv surjective_pairing)

lemma Manager_UpdateService_pair:
  obtains w' where "Manager_UpdateService P sv w = (updated sv w, w')" "env w' = env w"
  by (metis Manager_UpdateService_env Manager_UpdateService_sv surjective_pairing)

lemma set_same_user_connect: "sv\<lparr>sv_is_in_user_connect := sv_is_in_user_connect sv\<rparr> = sv"
  by simp

lemma SetState_steps:
  assumes "s \<noteq> sv_state sv"
  obtains w0 where "SetState P s sv w =
      (updated (entered P s sv w) w,
       emit (EmitStringChanged (sv_serial_number sv) kStateProperty
               (GetStateString P (updated (entered P s sv w) w)))
         (emit (NotifyServiceStateChanged (sv_serial_number sv) s)
           (snd (Manager_UpdateService P (entered P s sv w) w0))))" "env w0 = env w"
proof -
  let ?user = "sv_is_in_user_connect sv \<and> (s = kStateConnected \<or> s = kStateFailure \<or> s = kStateIdle)"
  let ?w1 = "if ?user then ReportUserInitiatedConnectionResult s sv w else w"
  let ?sv1 = "sv\<lparr>sv_is_in_user_connect := sv_is_in_user_connect sv \<and>
                    \<not> (s = kStateConnected \<or> s = kStateFailure \<or> s = kStateIdle)\<rparr>"
  have w1: "env ?w1 = env w" by simp
  have 1: "(if ?user then (sv\<lparr>sv_is_in_user_connect := False\<rparr>, ReportUserInitiatedConnectionResult s sv w)
     else (sv, w)) = (?sv1, ?w1)"
  proof (cases ?user)
    case False
    then have "(sv_is_in_user_connect sv \<and>
        \<not> (s = kStateConnected \<or> s = kStateFailure \<or> s = kStateIdle)) = sv_is_in_user_connect sv"
      by blast
    with False show ?thesis by (simp only: if_False set_same_user_connect)
  qed simp
  define sv2 where "sv2 = (if s = kStateFailure then NoteDisconnectEvent ?sv1 w else ?sv1)"
  have serial: "sv_serial_number sv2 = sv_serial_number sv"
    by (simp add: sv2_def NoteDisconnectEvent_def Let_def)
  define sv3 where "sv3 = sv2\<lparr>sv_previous_state := sv_state sv2, sv_state := s\<rparr>"
  define sv4 where "sv4 = (if s \<noteq> kStateFailure
    then sv3\<lparr>sv_failure := kFailureUnknown, sv_error_details := kErrorDetailsNone\<rparr> else sv3)"
  define w4 where "w4 = (if s \<noteq> kStateFailure
    then snd (SetErrorDetails kErrorDetailsNone (sv3\<lparr>sv_failure := kFailureUnknown\<rparr>) ?w1) else ?w1)"
  have 4: "(if s \<noteq> kStateFailure
     then SetErrorDetails kErrorDetailsNone (sv3\<lparr>sv_failure := kFailureUnknown\<rparr>) ?w1 else (sv3, ?w1)) = (sv4, w4)"
    by (simp add: prod_eq_iff sv4_def w4_def)
  have w4: "env w4 = env w" by (simp add: w4_def)
  define sv5 where "sv5 = (if s = kStateConnected
    then sv4\<lparr>sv_failed_time := 0, sv_has_ever_connected := True,
             sv_auto_connect_cooldown_milliseconds := 0, sv_reenable_task_pending := False\<rparr> else sv4)"
  define w5 where "w5 = (if s = kStateConnected
    then SaveToProfile P (sv4\<lparr>sv_failed_time := 0, sv_has_ever_connected := True\<rparr>) w4 else w4)"
  have 5: "(if s = kStateConnected
      then let sv = sv4\<lparr>sv_failed_time := 0, sv_has_ever_connected := True\<rparr>; w = SaveToProfile P sv w4
           in (sv\<lparr>sv_auto_connect_cooldown_milliseconds := 0, sv_reenable_task_pending := False\<rparr>, w)
      else (sv4, w4)) = (sv5, w5)" and w5: "env w5 = env w"
    by (simp_all add: sv5_def w5_def w4 Let_def)
  obtain w6 where 6: "UpdateErrorProperty P sv5 w5 =
      (sv5\<lparr>sv_error := ConnectFailureToString P (sv_failure sv5)\<rparr>, w6)" and w6: "env w6 = env w"
    using UpdateErrorProperty_pair [of P sv5 w5] w5 by metis
  have e: "entered P s sv w = sv5\<lparr>sv_error := ConnectFailureToString P (sv_failure sv5)\<rparr>"
    by (simp add: entered_def Let_def sv5_def sv4_def sv3_def sv2_def)
  define w7 where "w7 = snd (Manager_UpdateService P (entered P s sv w) w6)"
  have 7: "Manager_UpdateService P (entered P s sv w) w6 = (updated (entered P s sv w) w, w7)"
    by (simp add: prod_eq_iff updated_env [OF w6] w7_def)
  have n: "sv_serial_number (updated (entered P s sv w) w) = sv_serial_number sv"
    by (simp add: e sv5_def sv4_def sv3_def serial)
  have "SetState P s sv w =
      (updated (entered P s sv w) w,
       emit (EmitStringChanged (sv_serial_number sv) kStateProperty
               (GetStateString P (updated (entered P s sv w) w)))
         (emit (NotifyServiceStateChanged (sv_serial_number sv) s) w7))"
    using assms
    by (simp only: SetState_def if_False 1 prod.case Let_def Note_env [OF w1]
        sv2_def [symmetric] sv3_def [symmetric] 4 5 [unfolded Let_def] 6 e [symmetric] 7 n)
  then show ?thesis using w6 unfolding w7_def by (rule that)
qed

lemma SetState_sv:
  assumes "s \<noteq> sv_state sv"
  shows "fst (SetState P s sv w) = updated (entered P s sv w) w"
  by (rule SetState_steps [OF assms, of P w]) simp

lemma SetState_same [simp]: "SetState P (sv_state sv) sv w = (sv, w)"
  by (simp add: SetState_def)

lemma SetState_env [simp]: "env (snd (SetState P s sv w)) = env w"
proof (cases "s = sv_state sv")
  case False
  then obtain w0 where "snd (SetState P s sv w) =
       emit (EmitStringChanged (sv_serial_number sv) kStateProperty
               (GetStateString P (updated (entered P s sv w) w)))
         (emit (NotifyServiceStateChanged (sv_serial_number sv) s)
           (snd (Manager_UpdateService P (entered P s sv w) w0)))" and "env w0 = env w"
    by (rule SetState_steps [where P = P and w = w]) simp
  then show ?thesis by simp
qed simp

lemma Note_simps [simp]:
  "sv_state (NoteDisconnectEvent sv w) = sv_state sv"
  "sv_previous_state (NoteDisconnectEvent sv w) = sv_previous_state sv"
  "sv_failure (NoteDisconnectEvent sv w) = sv_failure sv"
  "sv_error (NoteDisconnectEvent sv w) = sv_error sv"
  "sv_error_details (NoteDisconnectEvent sv w) = sv_error_details sv"
  "sv_failed_time (NoteDisconnectEvent sv w) = sv_failed_time sv"
  "sv_has_ever_connected (NoteDisconnectEvent sv w) = sv_has_ever_connected sv"
  "sv_explicitly_disconnected (NoteDisconnectEvent sv w) = sv_explicitly_disconnected sv"
  "sv_auto_connect_cooldown_milliseconds (NoteDisconnectEvent sv w) =
     sv_auto_connect_cooldown_milliseconds sv"
  "sv_reenable_task_pending (NoteDisconnectEvent sv w) = sv_reenable_task_pending sv"
  "sv_serial_number (NoteDisconnectEvent sv w) = sv_serial_number sv"
  "sv_connectable (NoteDisconnectEvent sv w) = sv_connectable sv"
  "sv_technology (NoteDisconnectEvent sv w) = sv_technology sv"
  "sv_remote_certification (NoteDisconnectEvent sv w) = sv_remote_certification sv"
  "sv_dhcp_properties (NoteDisconnectEvent sv w) = sv_dhcp_properties sv"
  "sv_auto_connect (NoteDisconnectEvent sv w) = sv_auto_connect sv"
  "sv_retain_auto_connect (NoteDisconnectEvent sv w) = sv_retain_auto_connect sv"
  "sv_profile (NoteDisconnectEvent sv w) = sv_profile sv"
  "sv_is_in_user_connect (NoteDisconnectEvent sv w) = sv_is_in_user_connect sv"
  by (simp_all add: NoteDisconnectEvent_def Let_def)

lemma entered_simps [simp]:
  "sv_state (entered P s sv w) = s"
  "sv_previous_state (entered P s sv w) = sv_state sv"
  "sv_failure (entered P s sv w) = (if s = kStateFailure then sv_failure sv else kFailureUnknown)"
  "sv_error (entered P s sv w) =
     ConnectFailureToString P (if s = kStateFailure then sv_failure sv else kFailureUnknown)"
  "sv_error_details (entered P s sv w) =
     (if s = kStateFailure then sv_error_details sv else kErrorDetailsNone)"
  "sv_failed_time (entered P s sv w) = (if s = kStateConnected then 0 else sv_failed_time sv)"
  "sv_has_ever_connected (entered P s sv w) = (s = kStateConnected \<or> sv_has_ever_connected sv)"
  "sv_explicitly_disconnected (entered P s sv w) = sv_explicitly_disconnected sv"
  "sv_auto_connect_cooldown_milliseconds (entered P s sv w) =
     (if s = kStateConnected then 0 else sv_auto_connect_cooldown_milliseconds sv)"
  "sv_reenable_task_pending (entered P s sv w) =
     (s \<noteq> kStateConnected \<and> sv_reenable_task_pending sv)"
  "sv_serial_number (entered P s sv w) = sv_serial_number sv"
  "sv_connectable (entered P s sv w) = sv_connectable sv"
  "sv_technology (entered P s sv w) = sv_technology sv"
  "sv_remote_certification (entered P s sv w) = sv_remote_certification sv"
  "sv_dhcp_properties (entered P s sv w) = sv_dhcp_properties sv"
  "sv_auto_connect (entered P s sv w) = sv_auto_connect sv"
  "sv_retain_auto_connect (entered P s sv w) = sv_retain_auto_connect sv"
  "sv_profile (entered P s sv w) = sv_profile sv"
  "sv_is_in_user_connect (entered P s sv w) =
     (sv_is_in_user_connect sv \<and> \<not> (s = kStateConnected \<or> s = kStateFailure \<or> s = kStateIdle))"
  by (simp_all add: entered_def Let_def)

lemma entered_histories:
  "sv_disconnects (entered P s sv w) =
     sv_disconnects (if s = kStateFailure then NoteDisconnectEvent sv w else sv)"
  "sv_misconnects (entered P s sv w) =
     sv_misconnects (if s = kStateFailure then NoteDisconnectEvent sv w else sv)"
  by (simp_all add: entered_def Let_def NoteDisconnectEvent_def)

subsection \<open>The effect of a state change\<close>

text \<open>
  \<open>Service::SetState\<close> with the current state does nothing. With another state it records the
  old state as previous, makes the error property that of the failure in force (unknown unless the
  new state is failure, with the details cleared), and the last two things it does are to report
  the new state to metrics and to emit it on D-Bus. The rest of the world's environment (clock,
  profile stack, power state) is not touched.
\<close>

theorem SetState_effect:
  "SetState P (sv_state sv) sv w = (sv, w) \<and>
   (s \<noteq> sv_state sv \<longrightarrow>
     (case SetState P s sv w of (sv', w') \<Rightarrow>
        sv_state sv' = s \<and> sv_previous_state sv' = sv_state sv \<and>
        sv_failure sv' = (if s = kStateFailure then sv_failure sv else kFailureUnknown) \<and>
        sv_error sv' = ConnectFailureToString P (sv_failure sv') \<and>
        (s \<noteq> kStateFailure \<longrightarrow> sv_error_details sv' = []) \<and>
        (\<exists>es. wd_events w' = es @ [NotifyServiceStateChanged (sv_serial_number sv) s,
                EmitStringChanged (sv_serial_number sv) kStateProperty (GetStateString P sv')]) \<and>
        wd_profiles w' = wd_profiles w \<and> wd_time w' = wd_time w))"
proof (cases "s = sv_state sv")
  case False
  then obtain w0 where s: "SetState P s sv w =
      (updated (entered P s sv w) w,
       emit (EmitStringChanged (sv_serial_number sv) kStateProperty
               (GetStateString P (updated (entered P s sv w) w)))
         (emit (NotifyServiceStateChanged (sv_serial_number sv) s)
           (snd (Manager_UpdateService P (entered P s sv w) w0))))" and w0: "env w0 = env w"
    by (rule SetState_steps)
  have "env (snd (Manager_UpdateService P (entered P s sv w) w0)) = env w" by (simp add: w0)
  note env_fields(4,6) [OF this]
  then show ?thesis by (simp add: s emit_def kErrorDetailsNone_def)
qed simp

subsection \<open>Connected services are remembered\<close>

lemma SortServices_profile [simp]: "wd_profile (SortServices w) = wd_profile w"
  by (simp add: SortServices_def emit_def)

lemma Flush_profile [simp]: "wd_profile (snd (Flush i w)) = wd_profile w"
  by (simp add: Flush_def emit_def)

lemma stored_update [simp]:
  "pr_storage (wd_profile (update_storage i f w) i) = f (pr_storage (wd_profile w i))"
  by (simp add: update_storage_def)

lemma Move_saves:
  assumes "sv_profile sv \<noteq> Some (StackProfile i)"
  shows "\<exists>st. pr_storage (wd_profile (snd (snd
      (MoveServiceToProfile P EphemeralProfile (StackProfile i) sv w))) i) =
    Service_Save P (sv\<lparr>sv_profile := Some (StackProfile i)\<rparr>) st"
  using assms
  by (auto simp: MoveServiceToProfile_def AdoptService_def split_def AbandonService_other
      split: bool.split)

lemma SaveServiceToProfile_saves:
  assumes "IsRemembered sv \<or> IsServiceEphemeral sv \<and> wd_profiles w \<noteq> []"
  shows "\<exists>j st. sv_profile (fst (SaveServiceToProfile P sv w)) = Some (StackProfile j) \<and>
    pr_storage (wd_profile (snd (SaveServiceToProfile P sv w)) j) =
      Service_Save P (fst (SaveServiceToProfile P sv w)) st"
proof (cases "IsServiceEphemeral sv")
  case True
  then show ?thesis
    using assms Move_saves [of sv "last (wd_profiles w)" P w]
    by (auto simp: SaveServiceToProfile_sv SaveServiceToProfile_def IsRemembered_def
        IsServiceEphemeral_def Move_from_ephemeral)
next
  case False
  then obtain i where "sv_profile sv = Some (StackProfile i)"
    using assms
    by (cases "sv_profile sv") (auto simp: IsRemembered_def IsServiceEphemeral_def split: profile_ref.splits
        intro: profile_ref.exhaust)
  then show ?thesis
    by (auto simp: SaveServiceToProfile_def Profile_UpdateService_def)
qed

lemma UpdateService_saves:
  assumes "IsConnected sv" "IsRemembered sv \<or> IsServiceEphemeral sv \<and> wd_profiles w \<noteq> []"
  shows "\<exists>j st. sv_profile (updated sv w) = Some (StackProfile j) \<and>
    pr_storage (wd_profile (snd (Manager_UpdateService P sv w)) j) =
      Service_Save P (updated sv w) st"
proof -
  let ?e = "EnableAndRetainAutoConnect sv w"
  have p: "wd_profiles (snd ?e) = wd_profiles w"
    by (rule env_fields(6)) simp
  have "IsRemembered (fst ?e) \<or> IsServiceEphemeral (fst ?e) \<and> wd_profiles (snd ?e) \<noteq> []"
    using assms(2) p by (simp add: EnableAndRetain_sv IsRemembered_def IsServiceEphemeral_def)
  moreover have "updated sv w = fst (SaveServiceToProfile P (fst ?e) (snd ?e))"
    using Manager_UpdateService_sv [of P sv w] assms(1)
    by (simp add: Manager_UpdateService_def split_def)
  ultimately show ?thesis
    using SaveServiceToProfile_saves [of "fst ?e" "snd ?e" P] assms(1)
    by (simp add: Manager_UpdateService_def split_def)
qed

subsection \<open>What the state machine leaves alone\<close>

text \<open>The identity of a service, its connection and the results of portal detection.\<close>

definition fixed_fields :: "service \<Rightarrow> (string \<times> nat \<times> technology \<times> string) \<times> nat option \<times> string \<times> string" where
  "fixed_fields sv =
     ((sv_unique_name sv, sv_serial_number sv, sv_technology sv, sv_storage_identifier sv),
      sv_connection sv, sv_portal_detection_failure_phase sv, sv_portal_detection_failure_status sv)"

lemma fixed_updated [simp]: "fixed_fields (updated sv w) = fixed_fields sv"
  by (simp add: fixed_fields_def updated_def)

lemma fixed_entered [simp]: "fixed_fields (entered P s sv w) = fixed_fields sv"
  by (simp add: fixed_fields_def entered_def NoteDisconnectEvent_def Let_def)

lemma fixed_SetState [simp]: "fixed_fields (fst (SetState P s sv w)) = fixed_fields sv"
  by (cases "s = sv_state sv") (simp_all add: SetState_sv)

lemma fixed_fieldsD:
  assumes "fixed_fields sv' = fixed_fields sv"
  shows "sv_unique_name sv' = sv_unique_name sv" "sv_serial_number sv' = sv_serial_number sv"
    "sv_technology sv' = sv_technology sv" "sv_storage_identifier sv' = sv_storage_identifier sv"
    "sv_connection sv' = sv_connection sv"
    "sv_portal_detection_failure_phase sv' = sv_portal_detection_failure_phase sv"
  using assms by (simp_all add: fixed_fields_def)

lemmas SetState_fixed = fixed_fieldsD [OF fixed_SetState]

end
