(* ===== verification/Service_Machine.thy ===== *)
theory Service_Machine
  imports Service_Proofs
begin

text \<open>
  A service as a state machine: the relation \<open>svc_call\<close> has one rule per operation of \<open>service.cc\<close> and
  \<open>service.h\<close> that changes the service; the step relation \<open>svc_step\<close> adds the change of the profile, which is up
  to profiles and the manager, and the world moving on by itself. Every state reached from the constructor
  satisfies \<open>service_inv\<close>. \<open>E\<close> is the set of the texts with which \<open>set_error\<close> is called.
\<close>

definition history_ok :: "event_history \<Rightarrow> bool" where
  "history_ok h \<longleftrightarrow> max_events_specified h \<and> max_events_saved h = 20 \<and> length (events h) \<le> 20"

lemma history_ok_record:
  assumes "history_ok h" shows "history_ok (RecordEventAndExpireEventsBefore h s c now)"
  using assms trim_front_length [of True 20 "events h @ [now]"]
    length_expire_front [of s c now "trim_front True 20 (events h @ [now])"]
  by (simp add: history_ok_def RecordEventAndExpireEventsBefore_def RecordEventInternal_def
      ExpireEventsBeforeInternal_def)

lemma history_ok_expire: "history_ok h \<Longrightarrow> history_ok (ExpireEventsBefore h s c now)"
  using length_expire_front [of s c now "events h"]
  by (simp add: history_ok_def ExpireEventsBefore_def ExpireEventsBeforeInternal_def)

definition cooldown_ok :: "u64 \<Rightarrow> bool" where
  "cooldown_ok c \<longleftrightarrow> c = 0 \<or> 1000 \<le> c \<and> c \<le> 1800000"

definition service_inv :: "'s platform \<Rightarrow> string set \<Rightarrow> service \<Rightarrow> bool" where
  "service_inv P E sv \<longleftrightarrow>
     (sv_error sv = ConnectFailureToString P (sv_failure sv) \<or> sv_error sv \<in> E) \<and>
     (IsActive sv \<longrightarrow> sv_failure sv = kFailureUnknown) \<and>
     cooldown_ok (sv_auto_connect_cooldown_milliseconds sv) \<and>
     (sv_reenable_task_pending sv \<longrightarrow> sv_auto_connect_cooldown_milliseconds sv \<noteq> 0) \<and>
     history_ok (sv_disconnects sv) \<and> history_ok (sv_misconnects sv) \<and>
     length (sv_remote_certification sv) \<le> 10 \<and>
     dhcp_wf (sv_dhcp_properties sv)"

text \<open>The fields the invariant reads.\<close>

definition inv_fields where
  "inv_fields sv = (sv_error sv, sv_failure sv, sv_state sv,
     sv_auto_connect_cooldown_milliseconds sv, sv_reenable_task_pending sv, sv_disconnects sv,
     sv_misconnects sv, sv_remote_certification sv, sv_dhcp_properties sv)"

lemma inv_fieldsD: "inv_fields sv' = inv_fields sv \<Longrightarrow> service_inv P E sv \<Longrightarrow> service_inv P E sv'"
  by (simp add: inv_fields_def service_inv_def IsActive_def)

lemma inv_fields_updated [simp]: "inv_fields (updated sv w) = inv_fields sv"
  by (simp add: inv_fields_def)

lemma inv_updated [simp]: "service_inv P E (updated sv w) = service_inv P E sv"
  by (simp add: service_inv_def IsActive_def)

lemma Note_histories:
  assumes "history_ok (sv_disconnects sv)" "history_ok (sv_misconnects sv)"
  shows "history_ok (sv_disconnects (NoteDisconnectEvent sv w))"
    and "history_ok (sv_misconnects (NoteDisconnectEvent sv w))"
  using assms by (simp_all add: NoteDisconnectEvent_def Let_def history_ok_record)

lemma inv_Note: "service_inv P E sv \<Longrightarrow> service_inv P E (NoteDisconnectEvent sv w)"
  by (simp add: service_inv_def IsActive_def Note_histories)

text \<open>
  \<open>SetFailure\<close> sets the failure before it changes the state, so the state change must not rely on
  the part of the invariant about active states.
\<close>

lemma inv_SetState_weak:
  assumes "service_inv P E (sv\<lparr>sv_state := kStateIdle\<rparr>)" "s = sv_state sv \<Longrightarrow> service_inv P E sv"
  shows "service_inv P E (fst (SetState P s sv w))"
proof (cases "s = sv_state sv")
  case False
  have n: "history_ok (sv_disconnects (NoteDisconnectEvent sv w))"
    "history_ok (sv_misconnects (NoteDisconnectEvent sv w))"
    using assms(1) by (simp_all add: service_inv_def Note_histories)
  show ?thesis
    using assms(1) n
    by (simp add: SetState_sv [OF False] service_inv_def IsActive_def entered_histories cooldown_ok_def)
qed (use assms in simp)

lemma inv_idle: "service_inv P E sv \<Longrightarrow> service_inv P E (sv\<lparr>sv_state := kStateIdle\<rparr>)"
  by (simp add: service_inv_def IsActive_def)

lemma inv_SetState: "service_inv P E sv \<Longrightarrow> service_inv P E (fst (SetState P s sv w))"
  by (rule inv_SetState_weak) (simp_all add: inv_idle)

lemma inv_SetFailure:
  assumes "service_inv P E sv" shows "service_inv P E (fst (SetFailure P f sv w))"
  using assms
  by (simp add: SetFailure_def Let_def split_def SaveFailure_def)
    (rule inv_SetState_weak; simp add: service_inv_def IsActive_def)

lemma SetState_state: "sv_state (fst (SetState P s sv w)) = s"
  by (cases "s = sv_state sv") (simp_all add: SetState_sv)

lemma inv_SetFailureSilent:
  assumes "service_inv P E sv" shows "service_inv P E (fst (SetFailureSilent P f sv w))"
proof -
  let ?sv = "fst (SetState P kStateIdle (NoteDisconnectEvent sv w) w)"
  have "service_inv P E ?sv" using assms by (simp add: inv_SetState inv_Note)
  moreover have "sv_state ?sv = kStateIdle" by (rule SetState_state)
  ultimately show ?thesis
    by (simp add: SetFailureSilent_def Let_def split_def SaveFailure_def service_inv_def IsActive_def)
qed

lemma Clear_sv:
  "fst (ClearExplicitlyDisconnected P sv w) =
     (if sv_explicitly_disconnected sv then updated (sv\<lparr>sv_explicitly_disconnected := False\<rparr>) w else sv)"
  by (simp add: ClearExplicitlyDisconnected_def)

lemma inv_fields_Clear [simp]:
  "inv_fields (fst (ClearExplicitlyDisconnected P sv w)) = inv_fields sv"
  by (simp add: Clear_sv) (simp add: inv_fields_def)

lemma inv_Clear: "service_inv P E sv \<Longrightarrow> service_inv P E (fst (ClearExplicitlyDisconnected P sv w))"
  by (erule inv_fieldsD [rotated]) simp

lemma inv_Connect: "service_inv P E sv \<Longrightarrow> service_inv P E (fst (Connect P sv w))"
  by (simp add: Connect_def Let_def split_def inv_SetState inv_Clear)

lemma cooldown_next:
  assumes "cooldown_ok c"
  shows "cooldown_ok (min kMaxAutoConnectCooldownTimeMilliseconds
      (max kMinAutoConnectCooldownTimeMilliseconds (c * kAutoConnectCooldownBackoffFactor)))"
    and "min kMaxAutoConnectCooldownTimeMilliseconds
      (max kMinAutoConnectCooldownTimeMilliseconds (c * kAutoConnectCooldownBackoffFactor)) \<noteq> 0"
  by (auto simp: cooldown_ok_def kMaxAutoConnectCooldownTimeMilliseconds_def
      kMinAutoConnectCooldownTimeMilliseconds_def min_def max_def)

lemma inv_Throttle: "service_inv P E sv \<Longrightarrow> service_inv P E (fst (ThrottleFutureAutoConnects sv w))"
  using cooldown_next [of "sv_auto_connect_cooldown_milliseconds sv"]
  by (simp add: ThrottleFutureAutoConnects_def Let_def split_def service_inv_def IsActive_def)

lemma inv_AutoConnect: "service_inv P E sv \<Longrightarrow> service_inv P E (fst (AutoConnect P b sv w))"
  by (simp add: AutoConnect_def split_def inv_Connect inv_Throttle split: option.split)

lemma dhcp_wf_set: "dhcp_wf m \<Longrightarrow> name \<in> set kPropertyNames \<Longrightarrow> dhcp_wf (KVS_SetString m name v)"
  by (auto simp: dhcp_wf_def KVS_update_defs dest!: in_set_AList_update)

lemma dhcp_wf_load: "dhcp_wf (DhcpProperties_Load I st sid m)"
proof -
  have "dhcp_wf []" by (simp add: dhcp_wf_def)
  moreover have "dhcp_wf (KVS_SetString m kHostnameProperty v)"
    and "dhcp_wf (KVS_SetString m kVendorClassProperty v)" if "dhcp_wf m" for m v
    using that by (simp_all add: dhcp_wf_set kPropertyNames_def)
  ultimately show ?thesis
    by (simp add: DhcpProperties_Load_def dhcp_load_one_def kPropertyNames_def KVS_Clear_def
        split: option.split)
qed

lemma dhcp_wf_mapped:
  assumes "dhcp_wf m" "DhcpProperties_SetMappedStringProperty m i v = Some (changed, m')"
  shows "dhcp_wf m'"
  using assms
  by (auto simp: DhcpProperties_SetMappedStringProperty_def dhcp_name_at_def dhcp_wf_set
      split: if_splits)

lemma dhcp_wf_clear:
  assumes "dhcp_wf m" "ClearMappedStringProperty m i = Some (Inr m')"
  shows "dhcp_wf m'"
  using assms
  by (auto simp: ClearMappedStringProperty_def dhcp_name_at_def dhcp_wf_def KVS_update_defs
      split: if_splits dest!: in_set_AList_delete)

lemma inv_Load:
  assumes "service_inv P E sv" shows "service_inv P E (fst (snd (Service_Load P st sv w)))"
proof (cases "si_ContainsGroup (pf_store P) (st w) (sv_storage_identifier sv)")
  case True
  define sv1 where "sv1 = fst (snd (Service_Load P st sv w))"
  have "inv_fields (sv1\<lparr>sv_dhcp_properties := sv_dhcp_properties sv\<rparr>) = inv_fields sv"
    using True by (simp add: sv1_def Service_Load_def Let_def split_def inv_fields_def Clear_sv)
  moreover have "dhcp_wf (sv_dhcp_properties sv1)"
    using True by (simp add: sv1_def Service_Load_def Let_def split_def dhcp_wf_load)
  ultimately show ?thesis
    using assms by (simp add: sv1_def [symmetric] inv_fields_def service_inv_def IsActive_def)
qed (use assms in \<open>simp add: Service_Load_def Let_def\<close>)

lemma inv_Unload:
  assumes "service_inv P E sv" shows "service_inv P E (fst (snd (Service_Unload P sv w)))"
  using assms
  by (simp add: Service_Unload_def Let_def split_def Clear_sv ClearEAPCertification_def service_inv_def
      IsActive_def)

lemma inv_AddEAP:
  assumes "service_inv P E sv" shows "service_inv P E (snd (AddEAPCertification name depth sv))"
  using assms
  by (auto simp: AddEAPCertification_def Let_def service_inv_def IsActive_def
      kEAPMaxCertificationElements_def)

subsection \<open>Steps\<close>

text \<open>\<open>Service::set_error\<close>, which the cellular capabilities call to report the outcome of an activation.\<close>

definition set_error :: "string \<Rightarrow> service \<Rightarrow> service" where
  "set_error e sv = sv\<lparr>sv_error := e\<rparr>"

text \<open>
  The settings that have no setter of their own: \<open>store_\<close> or a setter in the header writes the member, whatever
  else the service is doing.
\<close>

definition write_settings ::
    "string \<Rightarrow> string \<Rightarrow> bool \<Rightarrow> int \<Rightarrow> bool \<Rightarrow> bool \<Rightarrow> bool \<Rightarrow> bool \<Rightarrow> static_ip \<Rightarrow>
      (eap_credentials \<Rightarrow> eap_credentials) \<Rightarrow> service \<Rightarrow> service" where
  "write_settings name ui_data save_credentials connection_id dns_auto_fallback link_monitor_disabled
       managed_credentials unreliable static_ip eap sv =
     sv\<lparr>sv_friendly_name := name, sv_ui_data := ui_data, sv_save_credentials := save_credentials,
        sv_connection_id := connection_id, sv_is_dns_auto_fallback_allowed := dns_auto_fallback,
        sv_link_monitor_disabled := link_monitor_disabled, sv_managed_credentials := managed_credentials,
        sv_unreliable := unreliable, sv_static_ip := static_ip, sv_eap := map_option eap (sv_eap sv)\<rparr>"

inductive svc_call ::
    "'s platform \<Rightarrow> string set \<Rightarrow> service \<times> 's world \<Rightarrow> service \<times> 's world \<Rightarrow> bool"
  for P :: "'s platform" and E :: "string set" where
  set_state: "svc_call P E (sv, w) (SetState P s sv w)"
| set_failure: "svc_call P E (sv, w) (SetFailure P f sv w)"
| set_failure_silent: "svc_call P E (sv, w) (SetFailureSilent P f sv w)"
| connect: "svc_call P E (sv, w) (Connect P sv w)"
| user_connect: "svc_call P E (sv, w) (UserInitiatedConnect P sv w)"
| user_disconnect: "svc_call P E (sv, w) (UserInitiatedDisconnect sv, w)"
| auto_connect: "svc_call P E (sv, w) (AutoConnect P manager_connected sv w)"
| reenable: "svc_call P E (sv, w) (ReEnableAutoConnectTask P sv w)"
| resume: "svc_call P E (sv, w) (OnAfterResume P sv w)"
| issues: "svc_call P E (sv, w) (snd (HasRecentConnectionIssues sv w), w)"
| load: "svc_call P E (sv, w) (snd (Service_Load P st sv w))"
| unload: "svc_call P E (sv, w) (snd (Service_Unload P sv w))"
| set_auto_connect: "svc_call P E (sv, w) (snd (SetAutoConnectFull P c sv w))"
| clear_auto_connect: "svc_call P E (sv, w) (ClearAutoConnect P sv w)"
| set_check_portal: "SetCheckPortal v sv = Inr (changed, sv') \<Longrightarrow> svc_call P E (sv, w) (sv', w)"
| set_guid: "svc_call P E (sv, w) (snd (SetGuid v sv w))"
| set_priority: "svc_call P E (sv, w) (snd (SetPriority i sv w))"
| set_priority_within: "svc_call P E (sv, w) (snd (SetPriorityWithinTechnology i sv w))"
| set_proxy: "svc_call P E (sv, w) (snd (SetProxyConfig v sv w))"
| set_name: "svc_call P E (sv, w) (SetFriendlyName v sv w)"
| set_strength: "svc_call P E (sv, w) (SetStrength n sv w)"
| set_security: "svc_call P E (sv, w) (SetSecurity a b c sv, w)"
| set_ever: "svc_call P E (sv, w) (SetHasEverConnected b sv, w)"
| set_connectable: "svc_call P E (sv, w) (SetConnectableFull P registered b sv w)"
| add_certification: "svc_call P E (sv, w) (snd (AddEAPCertification v d sv), w)"
| set_eap: "SetEapCredentials e sv = Some sv' \<Longrightarrow> svc_call P E (sv, w) (sv', w)"
| set_connection: "svc_call P E (sv, w) (SetConnection conn sv w)"
| set_portal_failure: "svc_call P E (sv, w) (SetPortalDetectionFailure p q sv w)"
| set_dhcp: "DhcpProperties_SetMappedStringProperty (sv_dhcp_properties sv) i v = Some (changed, m) \<Longrightarrow>
    svc_call P E (sv, w) (sv\<lparr>sv_dhcp_properties := m\<rparr>, w)"
| clear_dhcp: "ClearMappedStringProperty (sv_dhcp_properties sv) i = Some (Inr m) \<Longrightarrow>
    svc_call P E (sv, w) (sv\<lparr>sv_dhcp_properties := m\<rparr>, w)"
| set_error: "e \<in> E \<Longrightarrow> svc_call P E (sv, w) (set_error e sv, w)"
| set_error_details: "svc_call P E (sv, w) (SetErrorDetails d sv w)"
| save_failure: "svc_call P E (sv, w) (SaveFailure P sv, w)"
| clear_disconnected: "svc_call P E (sv, w) (ClearExplicitlyDisconnected P sv w)"
| enable_auto_connect: "svc_call P E (sv, w) (EnableAndRetainAutoConnect sv w)"
| plain_auto_connect: "svc_call P E (sv, w) (SetAutoConnect b sv w)"
| plain_connectable: "svc_call P E (sv, w) (SetConnectable b sv w)"
| clear_certification: "svc_call P E (sv, w) (ClearEAPCertification sv, w)"
| update: "svc_call P E (sv, w) (Manager_UpdateService P sv w)"
| save: "svc_call P E (sv, w) (sv, SaveToProfile P sv w)"
| settings: "svc_call P E (sv, w) (write_settings a b c i d e f g ip eap sv, w)"
| property_changed: "svc_call P E (sv, w) (sv, OnPropertyChanged P property sv w)"

inductive svc_step ::
    "'s platform \<Rightarrow> string set \<Rightarrow> service \<times> 's world \<Rightarrow> service \<times> 's world \<Rightarrow> bool"
  for P :: "'s platform" and E :: "string set" where
  call: "svc_call P E c c' \<Longrightarrow> svc_step P E c c'"
| set_profile: "svc_step P E (sv, w) (SetProfile pr sv w)"
| world: "svc_step P E (sv, w) (sv, w')"

inductive_cases svc_stepE: "svc_step P E c c'"
inductive_cases svc_callE: "svc_call P E c c'"

lemma inv_fields_others [simp]:
  "inv_fields (fst (UserInitiatedConnect P sv w)) = inv_fields (fst (Connect P sv w))"
  "inv_fields (UserInitiatedDisconnect sv) = inv_fields sv"
  "inv_fields (fst (snd (SetAutoConnectFull P b sv w))) = inv_fields sv"
  "inv_fields (fst (ClearAutoConnect P sv w)) = inv_fields sv"
  "inv_fields (fst (snd (SetGuid v sv w))) = inv_fields sv"
  "inv_fields (fst (snd (SetPriority i sv w))) = inv_fields sv"
  "inv_fields (fst (snd (SetPriorityWithinTechnology i sv w))) = inv_fields sv"
  "inv_fields (fst (snd (SetProxyConfig v sv w))) = inv_fields sv"
  "inv_fields (fst (SetFriendlyName v sv w)) = inv_fields sv"
  "inv_fields (fst (SetStrength n sv w)) = inv_fields sv"
  "inv_fields (SetSecurity a b c sv) = inv_fields sv"
  "inv_fields (SetHasEverConnected b sv) = inv_fields sv"
  "inv_fields (fst (SetConnectableFull P r b sv w)) = inv_fields sv"
  "inv_fields (fst (SetConnection conn sv w)) = inv_fields sv"
  "inv_fields (fst (SetPortalDetectionFailure p q sv w)) = inv_fields sv"
  "inv_fields (fst (SetProfile pr sv w)) = inv_fields sv"
  by (simp_all add: UserInitiatedConnect_def UserInitiatedDisconnect_def SetAutoConnectFull_def
      ClearAutoConnect_def SetGuid_def SetPriority_def SetPriorityWithinTechnology_def SetProxyConfig_def
      SetFriendlyName_def SetStrength_def SetSecurity_def SetHasEverConnected_def SetConnectableFull_def
      SetConnectable_def SetConnection_def SetPortalDetectionFailure_def SetAutoConnect_def
      RetainAutoConnect_def inv_fields_def Let_def split_def)

lemma inv_checked:
  "SetCheckPortal v sv = Inr (changed, sv') \<Longrightarrow> inv_fields sv' = inv_fields sv"
  "SetEapCredentials e sv = Some sv' \<Longrightarrow> inv_fields sv' = inv_fields sv"
  by (auto simp: SetCheckPortal_def SetEapCredentials_def inv_fields_def split: if_splits)

lemma inv_pending:
  "service_inv P E sv \<Longrightarrow> service_inv P E (sv\<lparr>sv_reenable_task_pending := False\<rparr>)"
  "service_inv P E sv \<Longrightarrow>
     service_inv P E (sv\<lparr>sv_auto_connect_cooldown_milliseconds := 0, sv_reenable_task_pending := False\<rparr>)"
  by (simp_all add: service_inv_def IsActive_def cooldown_ok_def)

lemma inv_issues: "service_inv P E sv \<Longrightarrow> service_inv P E (snd (HasRecentConnectionIssues sv w))"
  by (simp add: HasRecentConnectionIssues_def Let_def service_inv_def IsActive_def history_ok_expire)

lemma inv_fields_plain [simp]:
  "inv_fields (fst (SetErrorDetails text sv w)) = inv_fields sv"
  "inv_fields (SaveFailure P sv) = inv_fields sv"
  "inv_fields (fst (EnableAndRetainAutoConnect sv w)) = inv_fields sv"
  "inv_fields (fst (SetAutoConnect b sv w)) = inv_fields sv"
  "inv_fields (fst (SetConnectable b sv w)) = inv_fields sv"
  "inv_fields (fst (Manager_UpdateService P sv w)) = inv_fields sv"
  "inv_fields (write_settings n u b i d e f g ip eap sv) = inv_fields sv"
  by (simp_all add: SaveFailure_def EnableAndRetain_sv SetAutoConnect_def SetConnectable_def
      write_settings_def inv_fields_def)

lemma inv_set_error: "service_inv P E sv \<Longrightarrow> e \<in> E \<Longrightarrow> service_inv P E (set_error e sv)"
  by (simp add: set_error_def service_inv_def IsActive_def)

lemma inv_clear_certification: "service_inv P E sv \<Longrightarrow> service_inv P E (ClearEAPCertification sv)"
  by (simp add: ClearEAPCertification_def service_inv_def IsActive_def)

lemma inv_call:
  assumes "svc_call P E (sv, w) c" "service_inv P E sv" shows "service_inv P E (fst c)"
  using assms
proof (cases rule: svc_call.cases)
  case reenable
  then show ?thesis using assms(2) by (simp add: ReEnableAutoConnectTask_def inv_pending)
next
  case resume
  then show ?thesis using assms(2) by (simp add: OnAfterResume_def inv_Clear inv_pending)
next
  case user_connect
  then show ?thesis using inv_Connect [OF assms(2)] by (auto intro: inv_fieldsD)
next
  case (set_dhcp i v changed m)
  then show ?thesis using assms(2) by (auto simp: service_inv_def IsActive_def dest: dhcp_wf_mapped)
next
  case (clear_dhcp i m)
  then show ?thesis using assms(2) by (auto simp: service_inv_def IsActive_def dest: dhcp_wf_clear)
next
  case (set_error_details d)
  then show ?thesis using assms(2) by (simp add: service_inv_def IsActive_def)
next
  case (set_error e)
  then show ?thesis using assms(2) by (simp add: inv_set_error)
qed (use assms(2) in \<open>auto intro: inv_SetState inv_SetFailure inv_SetFailureSilent inv_Connect inv_Clear
      inv_AutoConnect inv_Load inv_Unload inv_AddEAP inv_issues inv_clear_certification inv_fieldsD
      dest: inv_checked\<close>)

lemma inv_step:
  assumes "svc_step P E (sv, w) c" "service_inv P E sv" shows "service_inv P E (fst c)"
  using assms
proof (cases rule: svc_step.cases)
  case call
  then show ?thesis using inv_call assms(2) by blast
next
  case (set_profile pr)
  then show ?thesis using assms(2) by (simp add: service_inv_def IsActive_def)
qed (use assms(2) in simp)

lemma inv_new: "service_inv P E (Service_new P serial tech sid by_default visible)"
  by (simp add: service_inv_def Service_new_def IsActive_def cooldown_ok_def history_ok_def
      EventHistory_bounded_def kMaxDisconnectEventHistory_def kMaxMisconnectEventHistory_def dhcp_wf_def)


lemma error_named:
  "sv_error (fst (SetFailure P f sv w)) = ConnectFailureToString P f"
  "sv_error (fst (SetFailureSilent P f sv w)) = ConnectFailureToString P f"
  "s \<noteq> sv_state sv \<Longrightarrow> sv_error (fst (SetState P s sv w)) = ConnectFailureToString P (sv_failure (fst (SetState P s sv w)))"
proof -
  show 3: "sv_error (fst (SetState P s sv w)) = ConnectFailureToString P (sv_failure (fst (SetState P s sv w)))"
    if "s \<noteq> sv_state sv" for s sv w
    using that by (simp add: SetState_sv)
  show "sv_error (fst (SetFailure P f sv w)) = ConnectFailureToString P f"
    by (cases "sv_state sv = kStateFailure") (simp_all add: SetFailure_def Let_def split_def SaveFailure_def SetState_def SetState_sv)
qed (simp add: SetFailureSilent_def Let_def split_def SaveFailure_def)

text \<open>
  C1: the invariant of a service. Through any sequence of operations from construction, and
  whatever the clock, the power state, the profiles and the manager do in between: the error
  property names the failure in force, unless the text is one that was written to it with
  \<open>set_error\<close>, as the cellular capabilities do for a failed activation (\<open>E\<close> is the set of these texts;
  with none of them, the property always names the failure), and every change of state and every failure,
  silent or not, makes it name the failure again; an active service has no failure; the automatic
  connection back-off is zero or between one second and thirty minutes and a pending re-enable task
  implies a back-off; neither event history exceeds twenty entries; at most ten EAP certification
  entries are kept; and the DHCP properties are strings under known names, so saving them never
  fails a type check.
\<close>

theorem service_inv_reachable:
  assumes "(svc_step P E)\<^sup>*\<^sup>* (Service_new P serial tech sid by_default visible, w) (sv, w')"
  shows "service_inv P E sv \<and>
    (\<forall>f. sv_error (fst (SetFailure P f sv w')) = ConnectFailureToString P f \<and>
         sv_error (fst (SetFailureSilent P f sv w')) = ConnectFailureToString P f) \<and>
    (\<forall>s. s = sv_state sv \<or>
         sv_error (fst (SetState P s sv w')) = ConnectFailureToString P (sv_failure (fst (SetState P s sv w'))))"
proof -
  have "service_inv P E (fst c)"
    if "(svc_step P E)\<^sup>*\<^sup>* (Service_new P serial tech sid by_default visible, w) c" for c
    using that
  proof induction
    case base
    show ?case by (simp add: inv_new)
  next
    case (step c c')
    then show ?case by (cases c) (auto dest: inv_step)
  qed
  from this [OF assms] show ?thesis
    using error_named(1,2) [of P _ sv w'] error_named(3) [of _ sv P w'] unfolding fst_conv by blast
qed

theorem service_inv_reachable_witness:
  "service_inv demo_platform {''activation-failed''}
     (set_error ''activation-failed'' (fst (SetFailure demo_platform kFailureDHCP demo_service demo_world)))"
proof -
  obtain sv w where s: "SetFailure demo_platform kFailureDHCP demo_service demo_world = (sv, w)"
    by fastforce
  have "svc_step demo_platform {''activation-failed''} (demo_service, demo_world) (sv, w)"
    by (metis s svc_step.call svc_call.set_failure)
  moreover have "svc_step demo_platform {''activation-failed''} (sv, w) (set_error ''activation-failed'' sv, w)"
    by (simp add: svc_step.call svc_call.set_error)
  ultimately have "(svc_step demo_platform {''activation-failed''})\<^sup>*\<^sup>* (demo_service, demo_world)
      (set_error ''activation-failed'' sv, w)"
    by (simp add: converse_rtranclp_into_rtranclp)
  from service_inv_reachable [OF this [unfolded demo_service_def]] show ?thesis by (simp add: s)
qed

subsection \<open>Automatic connection\<close>

lemma throttle_cooldown:
  "sv_auto_connect_cooldown_milliseconds (fst (ThrottleFutureAutoConnects sv w)) =
     min kMaxAutoConnectCooldownTimeMilliseconds
       (max kMinAutoConnectCooldownTimeMilliseconds
          (sv_auto_connect_cooldown_milliseconds sv * kAutoConnectCooldownBackoffFactor))"
  by (simp add: ThrottleFutureAutoConnects_def Let_def split_def)

lemma backoff_arith:
  "1 \<le> x \<Longrightarrow> min 1800000 (max 1000 (2 * min 1800000 (1000 * x))) = min 1800000 (1000 * (2 * x :: nat))"
  by (auto simp: min_def max_def)

definition throttle_step :: "service \<times> 's world \<Rightarrow> service \<times> 's world" where
  "throttle_step c = ThrottleFutureAutoConnects (fst c) (snd c)"

lemma throttle_step_cooldown:
  "sv_auto_connect_cooldown_milliseconds (fst (throttle_step c)) =
     min kMaxAutoConnectCooldownTimeMilliseconds
       (max kMinAutoConnectCooldownTimeMilliseconds
          (sv_auto_connect_cooldown_milliseconds (fst c) * kAutoConnectCooldownBackoffFactor))"
  by (simp only: throttle_step_def throttle_cooldown)

lemma cooldown_nat:
  fixes c :: u64
  assumes "unat c \<le> 1800000"
  shows "unat (min kMaxAutoConnectCooldownTimeMilliseconds
       (max kMinAutoConnectCooldownTimeMilliseconds (c * kAutoConnectCooldownBackoffFactor))) =
     min 1800000 (max 1000 (2 * unat c))"
proof -
  have "unat (c * 2) = 2 * unat c"
    using assms by (subst unat_mult_lem [THEN iffD1]) auto
  then show ?thesis
    by (simp add: kMaxAutoConnectCooldownTimeMilliseconds_def kMinAutoConnectCooldownTimeMilliseconds_def
        kAutoConnectCooldownBackoffFactor_def min_def max_def word_le_nat_alt)
qed

text \<open>
  C33: the exponential back-off of automatic connection. Starting without a back-off, as after a
  successful connection or a resume, the cool-down recorded by the (n+1)-st attempt is
  1000 * 2^n milliseconds, capped at thirty minutes: the doubling never overflows. Whenever a
  cool-down is in force, an attempt posts the task that lifts the block after exactly that
  many milliseconds and blocks further attempts until then.
\<close>

theorem ThrottleFutureAutoConnects_backoff:
  assumes "sv_auto_connect_cooldown_milliseconds sv = 0"
  shows "unat (sv_auto_connect_cooldown_milliseconds
           (fst ((throttle_step ^^ Suc n) (sv, w)))) =
         min 1800000 (1000 * 2 ^ n) \<and>
    (\<forall>sv w. sv_auto_connect_cooldown_milliseconds sv > 0 \<longrightarrow>
       (case ThrottleFutureAutoConnects sv w of (sv', w') \<Rightarrow>
          sv_reenable_task_pending sv' \<and>
          wd_events w' = wd_events w @ [PostReEnableAutoConnectTask (sv_serial_number sv)
            (sv_auto_connect_cooldown_milliseconds sv)]))"
proof
  show "unat (sv_auto_connect_cooldown_milliseconds
           (fst ((throttle_step ^^ Suc n) (sv, w)))) =
         min 1800000 (1000 * 2 ^ n)"
  proof (induction n)
    case 0
    then show ?case
      using assms cooldown_nat [of 0] by (simp add: throttle_cooldown throttle_step_def)
  next
    case (Suc n)
    let ?c = "sv_auto_connect_cooldown_milliseconds
           (fst ((throttle_step ^^ Suc n) (sv, w)))"
    have "unat ?c \<le> 1800000" using Suc by simp
    then have "unat (min kMaxAutoConnectCooldownTimeMilliseconds
       (max kMinAutoConnectCooldownTimeMilliseconds (?c * kAutoConnectCooldownBackoffFactor))) =
       min 1800000 (max 1000 (2 * unat ?c))"
      by (rule cooldown_nat)
    also have "\<dots> = min 1800000 (1000 * 2 ^ Suc n)"
      unfolding Suc.IH using backoff_arith [of "2 ^ n"] by simp
    finally show ?case
      by (simp only: funpow.simps(2) comp_apply throttle_step_cooldown)
  qed
  show "\<forall>sv w. sv_auto_connect_cooldown_milliseconds sv > 0 \<longrightarrow>
       (case ThrottleFutureAutoConnects sv w of (sv', w') \<Rightarrow>
          sv_reenable_task_pending sv' \<and>
          wd_events w' = wd_events w @ [PostReEnableAutoConnectTask (sv_serial_number sv)
            (sv_auto_connect_cooldown_milliseconds sv)])"
    by (simp add: ThrottleFutureAutoConnects_def Let_def emit_def)
qed

theorem ThrottleFutureAutoConnects_backoff_witness:
  "unat (sv_auto_connect_cooldown_milliseconds
     (fst ((throttle_step ^^ Suc 11) (demo_service, demo_world)))) = 1800000"
proof -
  have "sv_auto_connect_cooldown_milliseconds demo_service = 0"
    by (simp add: demo_service_def Service_new_def)
  from ThrottleFutureAutoConnects_backoff [OF this, of 11 demo_world, THEN conjunct1]
  show ?thesis by simp
qed

lemma ThrottleFuture_fields:
  "sv_state (fst (ThrottleFutureAutoConnects sv w)) = sv_state sv"
  "sv_connectable (fst (ThrottleFutureAutoConnects sv w)) = sv_connectable sv"
  "sv_technology (fst (ThrottleFutureAutoConnects sv w)) = sv_technology sv"
  "sv_explicitly_disconnected (fst (ThrottleFutureAutoConnects sv w)) = sv_explicitly_disconnected sv"
  "sv_reenable_task_pending (fst (ThrottleFutureAutoConnects sv w)) =
     (sv_auto_connect_cooldown_milliseconds sv > 0 \<or> sv_reenable_task_pending sv)"
  "env (snd (ThrottleFutureAutoConnects sv w)) = env w"
  by (simp_all add: ThrottleFutureAutoConnects_def Let_def split_def)

lemma Connect_fields:
  assumes "\<not> sv_explicitly_disconnected sv"
  shows "sv_state (fst (Connect P sv w)) = (if sv_state sv = kStateFailure then kStateIdle else sv_state sv)"
    and "sv_connectable (fst (Connect P sv w)) = sv_connectable sv"
    and "sv_technology (fst (Connect P sv w)) = sv_technology sv"
    and "sv_explicitly_disconnected (fst (Connect P sv w)) = sv_explicitly_disconnected sv"
    and "sv_reenable_task_pending (fst (Connect P sv w)) = sv_reenable_task_pending sv"
    and "env (snd (Connect P sv w)) = env w"
  using assms by (simp_all add: Connect_def ClearExplicitlyDisconnected_def SetState_sv)

text \<open>
  \<open>Service::AutoConnect\<close> never touches a service that the user explicitly disconnected, that
  is connected or connecting, that is not connectable, or whose technology is excluded: then it
  changes neither the service nor anything else. When it does attempt a connection with a
  cool-down in force, the service is throttled afterwards, so the next call is refused.
\<close>

theorem AutoConnect_guards:
  "(sv_explicitly_disconnected sv \<or> IsConnected sv \<or> IsConnecting sv \<or> \<not> sv_connectable sv \<or>
    sv_reenable_task_pending sv \<or> IsTechnologyAutoConnectDisabled P w (sv_technology sv) \<longrightarrow>
      AutoConnect P b sv w = (sv, w)) \<and>
   (IsAutoConnectable P b sv w = None \<and> sv_auto_connect_cooldown_milliseconds sv > 0 \<longrightarrow>
      (case AutoConnect P b sv w of (sv', w') \<Rightarrow>
         IsAutoConnectable P b' sv' w' = Some kAutoConnThrottled \<and> AutoConnect P b' sv' w' = (sv', w')))"
proof (intro conjI impI)
  assume "sv_explicitly_disconnected sv \<or> IsConnected sv \<or> IsConnecting sv \<or> \<not> sv_connectable sv \<or>
    sv_reenable_task_pending sv \<or> IsTechnologyAutoConnectDisabled P w (sv_technology sv)"
  then show "AutoConnect P b sv w = (sv, w)" by (auto simp: AutoConnect_def IsAutoConnectable_def)
next
  assume a: "IsAutoConnectable P b sv w = None \<and> sv_auto_connect_cooldown_milliseconds sv > 0"
  obtain sv1 w1 where t: "ThrottleFutureAutoConnects sv w = (sv1, w1)" by fastforce
  obtain sv2 w2 where c: "Connect P sv1 w1 = (sv2, w2)" by fastforce
  note f = ThrottleFuture_fields [of sv w, unfolded t fst_conv snd_conv]
  have e: "\<not> sv_explicitly_disconnected sv1"
    using a f(4) by (auto simp: IsAutoConnectable_def split: if_splits)
  note g = Connect_fields [OF e, of P w1, unfolded c fst_conv snd_conv]
  have "env w2 = env w" using g(6) f(6) by simp
  then have "IsTechnologyAutoConnectDisabled P w2 (sv_technology sv2) =
      IsTechnologyAutoConnectDisabled P w (sv_technology sv)"
    using g(3) f(3) env_fields(7) [of w2 w] by (simp add: IsTechnologyAutoConnectDisabled_def)
  then have "IsAutoConnectable P b' sv2 w2 = Some kAutoConnThrottled"
    using a f g by (auto simp: IsAutoConnectable_def state_preds split: if_splits)
  moreover have "AutoConnect P b sv w = (sv2, w2)" using a by (simp add: AutoConnect_def t c)
  ultimately show "case AutoConnect P b sv w of (sv', w') \<Rightarrow>
      IsAutoConnectable P b' sv' w' = Some kAutoConnThrottled \<and> AutoConnect P b' sv' w' = (sv', w')"
    by (simp add: AutoConnect_def)
qed

theorem AutoConnect_guards_witness:
  "AutoConnect demo_platform True (UserInitiatedDisconnect demo_service) demo_world =
     (UserInitiatedDisconnect demo_service, demo_world)"
  using AutoConnect_guards [of "UserInitiatedDisconnect demo_service" demo_platform demo_world True]
  by (simp add: UserInitiatedDisconnect_def)


theorem SetState_effect_witness:
  "sv_previous_state (fst (SetState demo_platform kStateConnected demo_service demo_world)) = kStateIdle"
proof -
  have "sv_state demo_service = kStateIdle" by (simp add: demo_service_def Service_new_def)
  then show ?thesis
    using SetState_effect [of demo_platform demo_service demo_world kStateConnected]
    by (auto split: prod.splits)
qed

subsection \<open>Failures\<close>

text \<open>The failure is kept through the state change that \<open>SetFailure\<close> ends with.\<close>

lemma SetFailure_sv:
  obtains w1 where "env w1 = env w" and "fst (SetFailure P f sv w) = fst (SetState P kStateFailure
    (sv\<lparr>sv_failure := f, sv_previous_error := ConnectFailureToString P f,
        sv_previous_error_serial_number := sv_previous_error_serial_number sv + 1,
        sv_failed_time := wd_time w, sv_error := ConnectFailureToString P f\<rparr>) w1)"
proof -
  let ?sv = "(SaveFailure P (sv\<lparr>sv_failure := f\<rparr>))\<lparr>sv_failed_time := wd_time w\<rparr>"
  let ?w1 = "snd (UpdateErrorProperty P ?sv w)"
  have "fst (SetFailure P f sv w) = fst (SetState P kStateFailure
    (sv\<lparr>sv_failure := f, sv_previous_error := ConnectFailureToString P f,
        sv_previous_error_serial_number := sv_previous_error_serial_number sv + 1,
        sv_failed_time := wd_time w, sv_error := ConnectFailureToString P f\<rparr>) ?w1)"
    by (simp add: SetFailure_def Let_def split_def SaveFailure_def)
  then show ?thesis by (rule that [rotated]) simp
qed

lemma entered_previous_error [simp]:
  "sv_previous_error (entered P s sv w) = sv_previous_error sv"
  "sv_previous_error_serial_number (entered P s sv w) = sv_previous_error_serial_number sv"
  by (simp_all add: entered_def Let_def NoteDisconnectEvent_def)

lemma updated_previous_error [simp]:
  "sv_previous_error (updated sv w) = sv_previous_error sv"
  "sv_previous_error_serial_number (updated sv w) = sv_previous_error_serial_number sv"
  by (simp_all add: updated_def)

lemma Note_fields_only:
  assumes "sv_state a = sv_state b" "sv_previous_state a = sv_previous_state b"
    and "sv_explicitly_disconnected a = sv_explicitly_disconnected b"
    and "sv_disconnects a = sv_disconnects b" "sv_misconnects a = sv_misconnects b"
  shows "sv_disconnects (NoteDisconnectEvent a w) = sv_disconnects (NoteDisconnectEvent b w)"
  using assms by (simp add: NoteDisconnectEvent_def Let_def)

text \<open>
  \<open>Service::SetFailure\<close> leaves the service failed with the given failure: the error
  property names it, it becomes the previous error with the next serial number, and the time of the
  failure is recorded. If the service was connected and the drop was not the user's doing (not
  explicitly disconnected, the manager running, the system not suspending), the drop is recorded
  in the history of disconnections.
\<close>

theorem SetFailure_effect:
  "sv_state (fst (SetFailure P f sv w)) = kStateFailure \<and>
   sv_failure (fst (SetFailure P f sv w)) = f \<and>
   sv_error (fst (SetFailure P f sv w)) = ConnectFailureToString P f \<and>
   sv_previous_error (fst (SetFailure P f sv w)) = ConnectFailureToString P f \<and>
   sv_previous_error_serial_number (fst (SetFailure P f sv w)) = sv_previous_error_serial_number sv + 1 \<and>
   sv_failed_time (fst (SetFailure P f sv w)) = wd_time w \<and>
   (IsConnected sv \<and> \<not> sv_explicitly_disconnected sv \<and> wd_running w \<and> wd_suspending w = Some False \<longrightarrow>
      sv_disconnects (fst (SetFailure P f sv w)) = RecordEventAndExpireEventsBefore (sv_disconnects sv)
        (5 * 60) kClockTypeMonotonic (wd_now w))"
proof -
  obtain w1 where w1: "env w1 = env w" and s: "fst (SetFailure P f sv w) = fst (SetState P kStateFailure
    (sv\<lparr>sv_failure := f, sv_previous_error := ConnectFailureToString P f,
        sv_previous_error_serial_number := sv_previous_error_serial_number sv + 1,
        sv_failed_time := wd_time w, sv_error := ConnectFailureToString P f\<rparr>) w1)"
    (is "_ = fst (SetState P kStateFailure ?sv w1)")
    by (rule SetFailure_sv)
  have n: "sv_disconnects (NoteDisconnectEvent ?sv w1) = sv_disconnects (NoteDisconnectEvent sv w)"
    using Note_fields_only [of ?sv sv w] by (simp add: Note_env [OF w1])
  show ?thesis
  proof (cases "sv_state sv = kStateFailure")
    case True
    then show ?thesis by (simp add: s SetState_def state_preds)
  next
    case False
    then have "fst (SetFailure P f sv w) = updated (entered P kStateFailure ?sv w1) w1"
      by (simp add: s SetState_sv)
    moreover have "sv_disconnects (NoteDisconnectEvent sv w) = RecordEventAndExpireEventsBefore
        (sv_disconnects sv) (5 * 60) kClockTypeMonotonic (wd_now w)"
      if "IsConnected sv \<and> \<not> sv_explicitly_disconnected sv \<and> wd_running w \<and> wd_suspending w = Some False"
      using that
      by (auto simp: NoteDisconnectEvent_def Let_def state_preds kDisconnectsMonitorSeconds_def)
    ultimately show ?thesis
      by (simp add: entered_histories n)
  qed
qed

theorem SetFailure_effect_witness:
  "sv_disconnects (fst (SetFailure demo_platform kFailureDHCP (demo_service\<lparr>sv_state := kStateOnline\<rparr>) demo_world)) =
     (EventHistory_bounded 20)\<lparr>events := [wd_now demo_world]\<rparr>"
proof -
  have "IsConnected (demo_service\<lparr>sv_state := kStateOnline\<rparr>) \<and>
      \<not> sv_explicitly_disconnected (demo_service\<lparr>sv_state := kStateOnline\<rparr>) \<and> wd_running demo_world \<and>
      wd_suspending demo_world = Some False"
    by (simp add: demo_service_def Service_new_def state_preds demo_world_def)
  then have "sv_disconnects (fst (SetFailure demo_platform kFailureDHCP
        (demo_service\<lparr>sv_state := kStateOnline\<rparr>) demo_world)) =
      RecordEventAndExpireEventsBefore (EventHistory_bounded 20) (5 * 60) kClockTypeMonotonic
        (wd_now demo_world)"
    using SetFailure_effect [of demo_platform kFailureDHCP "demo_service\<lparr>sv_state := kStateOnline\<rparr>" demo_world]
    by (simp add: demo_service_def Service_new_def kMaxDisconnectEventHistory_def)
  then show ?thesis
    by (simp add: RecordEventAndExpireEventsBefore_def EventHistory_bounded_def RecordEventInternal_def
        ExpireEventsBeforeInternal_def size_of_int_def demo_world_def elapsed_def timersub_def
        timercmp_less_def clock_of_def)
qed

subsection \<open>Connected services are remembered\<close>

text \<open>
  C30: entering a connected state makes the service permanent. If it has a profile (or is ephemeral
  while some profile is on the stack), then afterwards it belongs to a profile on disk whose store was
  last written from exactly the service's new state, and automatic connection is on unless the user
  had decided otherwise, a decision that is kept. Entering \<open>kStateConnected\<close> also forgets past failures:
  no failure time, no back-off, no pending re-enable task.
\<close>

theorem SetState_connected_remembered:
  assumes "s \<noteq> sv_state sv" "IsConnectedState s"
    and "IsRemembered sv \<or> IsServiceEphemeral sv \<and> wd_profiles w \<noteq> []"
  shows "case SetState P s sv w of (sv', w') \<Rightarrow>
    (\<exists>j st. sv_profile sv' = Some (StackProfile j) \<and>
            pr_storage (wd_profile w' j) = Service_Save P sv' st) \<and>
    sv_retain_auto_connect sv' \<and>
    sv_auto_connect sv' = (if sv_retain_auto_connect sv then sv_auto_connect sv else True) \<and>
    (s = kStateConnected \<longrightarrow> sv_has_ever_connected sv' \<and> sv_failed_time sv' = 0 \<and>
       sv_auto_connect_cooldown_milliseconds sv' = 0 \<and> \<not> sv_reenable_task_pending sv')"
proof -
  let ?sv = "entered P s sv w"
  obtain w0 where s: "SetState P s sv w =
      (updated ?sv w,
       emit (EmitStringChanged (sv_serial_number sv) kStateProperty (GetStateString P (updated ?sv w)))
         (emit (NotifyServiceStateChanged (sv_serial_number sv) s)
           (snd (Manager_UpdateService P ?sv w0))))" and w0: "env w0 = env w"
    by (rule SetState_steps [OF assms(1)])
  have c: "IsConnected ?sv" using assms(2) by (simp add: IsConnected_def)
  have "IsRemembered ?sv \<or> IsServiceEphemeral ?sv \<and> wd_profiles w0 \<noteq> []"
    using assms(3) env_fields(6) [OF w0] by (simp add: IsRemembered_def IsServiceEphemeral_def)
  from UpdateService_saves [OF c this, of P] obtain j st where
    "sv_profile (updated ?sv w) = Some (StackProfile j)"
    "pr_storage (wd_profile (snd (Manager_UpdateService P ?sv w0)) j) = Service_Save P (updated ?sv w) st"
    using updated_env [OF w0] by auto
  moreover have "sv_retain_auto_connect (updated ?sv w)"
    "sv_auto_connect (updated ?sv w) = (if sv_retain_auto_connect sv then sv_auto_connect sv else True)"
    using c by (simp_all add: updated_def)
  ultimately show ?thesis by (auto simp: s emit_def)
qed

theorem SetState_connected_remembered_witness:
  "sv_has_ever_connected (fst (SetState demo_platform kStateConnected
     (demo_service\<lparr>sv_profile := Some EphemeralProfile\<rparr>) demo_world))"
proof -
  let ?sv = "demo_service\<lparr>sv_profile := Some EphemeralProfile\<rparr>"
  have 1: "kStateConnected \<noteq> sv_state ?sv" by (simp add: demo_service_def Service_new_def)
  have 2: "IsConnectedState kStateConnected" by (simp add: IsConnectedState_def)
  have 3: "IsRemembered ?sv \<or> IsServiceEphemeral ?sv \<and> wd_profiles demo_world \<noteq> []"
    by (simp add: IsServiceEphemeral_def demo_world_def)
  show ?thesis
    using SetState_connected_remembered [OF 1 2 3, of demo_platform] by (auto split: prod.splits)
qed

end
