(* ===== verification/Service_Storage.thy ===== *)
theory Service_Storage
  imports Service_Machine
begin

text \<open>
  The persistent form of a service. \<open>Service::Save\<close> writes some twenty keys of its own, then the
  static IP parameters, the EAP credentials and the DHCP properties, all in one group of the settings
  store; \<open>Service::Load\<close> reads them back. The proofs follow the writes on the abstract view of the
  store given by \<open>store_laws\<close>, and are instantiated for the JSON store.
\<close>

text \<open>The value under each key the service writes itself, the last written first.\<close>

definition service_stored ::
    "(string \<Rightarrow> string) \<Rightarrow> 's platform \<Rightarrow> service \<Rightarrow> (string \<times> any_value option) list" where
  "service_stored cipher P sv =
     [(''ManagedCredentials'', Some (AnyBool (sv_managed_credentials sv))),
      (''LinkMonitorDisabled'', Some (AnyBool (sv_link_monitor_disabled sv))),
      (''DNSAutoFallback'', Some (AnyBool (sv_is_dns_auto_fallback_allowed sv))),
      (''ConnectionId'', Some (AnyInt (sv_connection_id sv))),
      (''UIData'', saved_string cipher (sv_ui_data sv) False True),
      (''SaveCredentials'', Some (AnyBool (sv_save_credentials sv))),
      (''ProxyConfig'', saved_string cipher (sv_proxy_config sv) False True),
      (''PriorityWithinTechnology'',
        if sv_priority_within_technology sv \<noteq> 0
        then Some (AnyInt (sv_priority_within_technology sv)) else None),
      (''Priority'', if sv_priority sv \<noteq> 0 then Some (AnyInt (sv_priority sv)) else None),
      (''Name'', Some (AnyString (sv_friendly_name sv))),
      (''HasEverConnected'', Some (AnyBool (sv_has_ever_connected sv))),
      (''GUID'', saved_string cipher (sv_guid sv) False True),
      (''CheckPortal'', if sv_check_portal sv = kCheckPortalAuto then None
                       else Some (AnyString (sv_check_portal sv))),
      (''Favorite'', None),
      (''AutoConnect'', if sv_retain_auto_connect sv then Some (AnyBool (sv_auto_connect sv)) else None),
      (''Type'', Some (AnyString (NameFromIdentifier (pf_tech P) (sv_technology sv))))]"

definition service_tags :: "(string \<times> nat) list" where
  "service_tags =
     [(''ManagedCredentials'', 0), (''LinkMonitorDisabled'', 0), (''DNSAutoFallback'', 0),
      (''ConnectionId'', 2), (''UIData'', 7), (''SaveCredentials'', 0), (''ProxyConfig'', 7),
      (''PriorityWithinTechnology'', 2), (''Priority'', 2), (''Name'', 7), (''HasEverConnected'', 0),
      (''GUID'', 7), (''CheckPortal'', 7), (''AutoConnect'', 0), (''Type'', 7)]"

definition service_slots :: "settings_view \<Rightarrow> string \<Rightarrow> bool" where
  "service_slots w sid \<longleftrightarrow> (\<forall>(k, t) \<in> set service_tags. slot w sid k t)"

text \<open>The group has no value of a type that one of the writes would be refused for.\<close>

definition entry_writable :: "'s platform \<Rightarrow> settings_view \<Rightarrow> string \<Rightarrow> bool" where
  "entry_writable P w sid \<longleftrightarrow> service_slots w sid \<and> eap_slots w sid \<and> dhcp_slots w sid \<and>
     (\<forall>x \<in> set (kProperties (pf_sip P)). slot_free w sid x)"

lemma eap_stored_other:
  assumes "take 4 k \<noteq> ''EAP.''" shows "map_of (eap_stored cipher e save) k = None"
proof -
  have "list_all (\<lambda>k. take 4 k = ''EAP.'') (map fst (eap_stored cipher e save))"
    by (simp add: eap_stored_def Let_def)
  then have "k \<notin> set (map fst (eap_stored cipher e save))"
    using assms by (auto simp: list_all_iff)
  then show ?thesis by (simp add: map_of_eq_None_iff)
qed

definition dhcp_stored :: "any_dict \<Rightarrow> (string \<times> any_value option) list" where
  "dhcp_stored m = [(''DHCPProperty.VendorClass'', map_of m ''VendorClass''),
     (''DHCPProperty.Hostname'', map_of m ''Hostname'')]"

definition own_save :: "'s platform \<Rightarrow> service \<Rightarrow> 's \<Rightarrow> 's" where
  "own_save P sv st =
     (let I = pf_store P; sid = sv_storage_identifier sv;
          st = snd (si_SetString I st sid ''Type'' (NameFromIdentifier (pf_tech P) (sv_technology sv)));
          st = (if sv_retain_auto_connect sv
                then snd (si_SetBool I st sid ''AutoConnect'' (sv_auto_connect sv))
                else snd (si_DeleteKey I st sid ''AutoConnect''));
          st = snd (si_DeleteKey I st sid ''Favorite'');
          st = (if sv_check_portal sv = kCheckPortalAuto then snd (si_DeleteKey I st sid ''CheckPortal'')
                else snd (si_SetString I st sid ''CheckPortal'' (sv_check_portal sv)));
          st = SaveString I sid ''GUID'' (sv_guid sv) False True st;
          st = snd (si_SetBool I st sid ''HasEverConnected'' (sv_has_ever_connected sv));
          st = snd (si_SetString I st sid ''Name'' (sv_friendly_name sv));
          st = (if sv_priority sv \<noteq> kPriorityNone
                then snd (si_SetInt I st sid ''Priority'' (sv_priority sv))
                else snd (si_DeleteKey I st sid ''Priority''));
          st = (if sv_priority_within_technology sv \<noteq> kPriorityNone
                then snd (si_SetInt I st sid ''PriorityWithinTechnology''
                       (sv_priority_within_technology sv))
                else snd (si_DeleteKey I st sid ''PriorityWithinTechnology''));
          st = SaveString I sid ''ProxyConfig'' (sv_proxy_config sv) False True st;
          st = snd (si_SetBool I st sid ''SaveCredentials'' (sv_save_credentials sv));
          st = SaveString I sid ''UIData'' (sv_ui_data sv) False True st;
          st = snd (si_SetInt I st sid ''ConnectionId'' (sv_connection_id sv));
          st = snd (si_SetBool I st sid ''DNSAutoFallback'' (sv_is_dns_auto_fallback_allowed sv));
          st = snd (si_SetBool I st sid ''LinkMonitorDisabled'' (sv_link_monitor_disabled sv))
      in snd (si_SetBool I st sid ''ManagedCredentials'' (sv_managed_credentials sv)))"

lemma Service_Save_parts:
  "Service_Save P sv st =
     (let I = pf_store P; sid = sv_storage_identifier sv;
          st = SIP_Save (pf_sip P) I (pf_join_comma P) (sv_static_ip sv) sid (own_save P sv st);
          st = (case sv_eap sv of None \<Rightarrow> st
                | Some e \<Rightarrow> Eap_Save I e sid (sv_save_credentials sv) st)
      in got (DhcpProperties_Save I (sv_dhcp_properties sv) sid st) st)"
  by (simp only: Service_Save_def own_save_def Let_def)

text \<open>The settings that \<open>Service\<close> itself stores agree.\<close>

definition same_settings :: "service \<Rightarrow> service \<Rightarrow> bool" where
  "same_settings a b \<longleftrightarrow>
     sv_retain_auto_connect a = sv_retain_auto_connect b \<and>
     sv_auto_connect a = (if sv_retain_auto_connect b then sv_auto_connect b
                          else sv_auto_connect_by_default a) \<and>
     sv_check_portal a = sv_check_portal b \<and> sv_guid a = sv_guid b \<and>
     sv_priority a = sv_priority b \<and>
     sv_priority_within_technology a = sv_priority_within_technology b \<and>
     sv_proxy_config a = sv_proxy_config b \<and> sv_save_credentials a = sv_save_credentials b \<and>
     sv_ui_data a = sv_ui_data b \<and> sv_connection_id a = sv_connection_id b \<and>
     sv_is_dns_auto_fallback_allowed a = sv_is_dns_auto_fallback_allowed b \<and>
     sv_link_monitor_disabled a = sv_link_monitor_disabled b \<and>
     sv_managed_credentials a = sv_managed_credentials b \<and>
     sv_has_ever_connected a = sv_has_ever_connected b"

context store_laws
begin

lemma view_own_save:
  assumes P: "pf_store P = I" and s: "service_slots (view st) (sv_storage_identifier sv)"
  shows "view (own_save P sv st) =
    put_all (sv_storage_identifier sv) (service_stored cipher P sv) (view st)"
  unfolding own_save_def service_stored_def Let_def put_all.simps P kPriorityNone_def
  by (rule put_steps refl | use s in \<open>simp add: service_slots_def service_tags_def; fail\<close>)+

text \<open>The view after a save, stage by stage.\<close>

lemma view_Service_Save:
  assumes P: "pf_store P = I" and wr: "entry_writable P (view st) (sv_storage_identifier sv)"
    and names: "sip_names_distinct (pf_sip P)" and dhcp: "dhcp_wf (sv_dhcp_properties sv)"
  obtains w where
    "view (Service_Save P sv st) =
       put_all (sv_storage_identifier sv) (dhcp_stored (sv_dhcp_properties sv))
         (put_all (sv_storage_identifier sv)
           (case sv_eap sv of None \<Rightarrow> [] | Some e \<Rightarrow> eap_stored cipher e (sv_save_credentials sv)) w)"
    and "\<forall>q u. (q, u) \<in> set (kProperties (pf_sip P)) \<longrightarrow>
       w (sv_storage_identifier sv) (kConfigKeyPrefix @ q) =
         typed_value (pf_join_comma P) (sip_args (sv_static_ip sv)) (q, u)"
    and "\<forall>g k. g \<noteq> sv_storage_identifier sv \<or> (\<forall>q. k \<noteq> kConfigKeyPrefix @ q) \<longrightarrow>
       w g k = put_all (sv_storage_identifier sv) (service_stored cipher P sv) (view st) g k"
proof -
  let ?sid = "sv_storage_identifier sv"
  let ?ps = "kProperties (pf_sip P)"
  let ?st1 = "own_save P sv st"
  let ?st2 = "SIP_Save (pf_sip P) I (pf_join_comma P) (sv_static_ip sv) ?sid ?st1"
  have v1: "view ?st1 = put_all ?sid (service_stored cipher P sv) (view st)"
    using wr by (intro view_own_save [OF P]) (simp add: entry_writable_def)
  have own: "map_of (service_stored cipher P sv) (kConfigKeyPrefix @ q) = None" for q
    by (simp add: service_stored_def kConfigKeyPrefix_def)
  have "slot_free (view ?st1) ?sid x = slot_free (view st) ?sid x" for x
    by (cases "(view st, ?sid, x)" rule: slot_free.cases) (auto simp: v1 slot_put_all own)
  then have free: "slot_free (view ?st1) ?sid x" if "x \<in> set ?ps" for x
    using wr that by (simp add: entry_writable_def)
  have d: "distinct (map fst ?ps)" using names by (simp add: sip_names_distinct_def)
  define w where "w = view ?st2"
  have w1: "w ?sid (kConfigKeyPrefix @ q) = typed_value (pf_join_comma P) (sip_args (sv_static_ip sv)) (q, u)"
    if "(q, u) \<in> set ?ps" for q u
    unfolding w_def SIP_Save_def by (rule view_save_properties [OF free d that])
  have w2: "w g k = view ?st1 g k" if "g \<noteq> ?sid \<or> (\<forall>q. k \<noteq> kConfigKeyPrefix @ q)" for g k
    unfolding w_def SIP_Save_def using that by (intro view_save_other [OF free d]) auto
  have slots: "slot w ?sid k t = slot (view st) ?sid k t"
    if "\<forall>q. k \<noteq> kConfigKeyPrefix @ q" "map_of (service_stored cipher P sv) k = None" for k t
    using w2 [of ?sid k] that by (simp add: slot_def v1 put_all_apply)
  have eap: "eap_slots w ?sid" and dh: "dhcp_slots w ?sid"
    using wr by (simp_all add: entry_writable_def eap_keys dhcp_slots_def slots kConfigKeyPrefix_def
        service_stored_def)
  let ?st3 = "case sv_eap sv of None \<Rightarrow> ?st2 | Some e \<Rightarrow> Eap_Save I e ?sid (sv_save_credentials sv) ?st2"
  let ?el = "case sv_eap sv of None \<Rightarrow> [] | Some e \<Rightarrow> eap_stored cipher e (sv_save_credentials sv)"
  have v3: "view ?st3 = put_all ?sid ?el w"
    using view_Eap_Save [OF w_def [symmetric] eap] by (simp add: w_def split: option.split)
  have "map_of ?el ''DHCPProperty.Hostname'' = None" "map_of ?el ''DHCPProperty.VendorClass'' = None"
    by (simp_all add: eap_stored_def Let_def split: option.split)
  then have "dhcp_slots (view ?st3) ?sid" using dh by (simp add: dhcp_slots_def v3 slot_put_all)
  from view_dhcp_save [OF dhcp this] obtain st4 where
    "DhcpProperties_Save I (sv_dhcp_properties sv) ?sid ?st3 = Some st4"
    "view st4 = put_all ?sid (dhcp_stored (sv_dhcp_properties sv)) (view ?st3)"
    by (auto simp: dhcp_stored_def)
  then have "view (Service_Save P sv st) =
      put_all ?sid (dhcp_stored (sv_dhcp_properties sv)) (put_all ?sid ?el w)"
    by (simp add: Service_Save_parts Let_def P v3)
  then show ?thesis using w1 w2 [unfolded v1] by (intro that [of w]) blast+
qed

text \<open>What each kind of key holds once the whole service has been written.\<close>

lemma Service_Save_holds:
  assumes P: "pf_store P = I" and wr: "entry_writable P (view st) (sv_storage_identifier sv)"
    and names: "sip_names_distinct (pf_sip P)" and dhcp: "dhcp_wf (sv_dhcp_properties sv)"
  defines "v \<equiv> view (Service_Save P sv st) (sv_storage_identifier sv)"
  shows "\<forall>(k, a) \<in> set (service_stored cipher P sv). v k = a"
    and "sv_eap sv = Some e \<Longrightarrow> \<forall>(k, a) \<in> set (eap_stored cipher e (sv_save_credentials sv)). v k = a"
    and "\<forall>(k, a) \<in> set (dhcp_stored (sv_dhcp_properties sv)). v k = a"
    and "(q, u) \<in> set (kProperties (pf_sip P)) \<Longrightarrow> v (kConfigKeyPrefix @ q) =
       typed_value (pf_join_comma P) (sip_args (sv_static_ip sv)) (q, u)"
proof -
  let ?sid = "sv_storage_identifier sv"
  let ?el = "case sv_eap sv of None \<Rightarrow> [] | Some e \<Rightarrow> eap_stored cipher e (sv_save_credentials sv)"
  obtain w where w: "view (Service_Save P sv st) =
       put_all ?sid (dhcp_stored (sv_dhcp_properties sv)) (put_all ?sid ?el w)"
    and sip: "\<forall>q u. (q, u) \<in> set (kProperties (pf_sip P)) \<longrightarrow>
       w ?sid (kConfigKeyPrefix @ q) = typed_value (pf_join_comma P) (sip_args (sv_static_ip sv)) (q, u)"
    and rest: "\<forall>g k. g \<noteq> ?sid \<or> (\<forall>q. k \<noteq> kConfigKeyPrefix @ q) \<longrightarrow>
       w g k = put_all ?sid (service_stored cipher P sv) (view st) g k"
    by (rule view_Service_Save [OF P wr names dhcp])
  have el: "map_of ?el k = None" if "take 4 k \<noteq> ''EAP.''" for k
    using that eap_stored_other [OF that, of cipher _ "sv_save_credentials sv"]
    by (simp split: option.split)
  have v: "v k = (case map_of (dhcp_stored (sv_dhcp_properties sv)) k of Some a \<Rightarrow> a
      | None \<Rightarrow> (case map_of ?el k of Some a \<Rightarrow> a | None \<Rightarrow> w ?sid k))" for k
    unfolding v_def w put_all_apply by simp
  show "\<forall>(k, a) \<in> set (service_stored cipher P sv). v k = a"
    by (simp add: v el rest put_all_apply dhcp_stored_def service_stored_def kConfigKeyPrefix_def)
  show "\<forall>(k, a) \<in> set (eap_stored cipher e (sv_save_credentials sv)). v k = a" if "sv_eap sv = Some e"
    by (simp add: v that dhcp_stored_def eap_stored_def Let_def)
  show "\<forall>(k, a) \<in> set (dhcp_stored (sv_dhcp_properties sv)). v k = a"
    by (simp add: v dhcp_stored_def)
  show "v (kConfigKeyPrefix @ q) = typed_value (pf_join_comma P) (sip_args (sv_static_ip sv)) (q, u)"
    if "(q, u) \<in> set (kProperties (pf_sip P))"
    using sip that by (simp add: v el dhcp_stored_def kConfigKeyPrefix_def)
qed

lemma LoadString_saved:
  "view s g k = saved_string cipher v False True \<Longrightarrow> LoadString I s g k [] = v"
  "view s g k = (if v = d then None else Some (AnyString v)) \<Longrightarrow> LoadString I s g k d = v"
  by (auto simp: saved_string_def get_laws LoadString_def split: if_splits)

lemma got_int_saved:
  "view s g k = (if i \<noteq> 0 then Some (AnyInt i) else None) \<Longrightarrow> got (si_GetInt I s g k) 0 = i"
  by (auto simp: get_laws split: if_splits)

lemma GetBool_saved:
  "view s g k = (if b then Some (AnyBool c) else None) \<Longrightarrow> si_GetBool I s g k = (if b then Some c else None)"
  by (auto simp: get_laws split: if_splits)

lemma Service_Load_own:
  assumes P: "pf_store P = I" and sid: "sv_storage_identifier sv0 = sv_storage_identifier sv"
    and "\<not> sv_explicitly_disconnected sv0"
    and "\<forall>(k, a) \<in> set (service_stored cipher P sv). view st' (sv_storage_identifier sv) k = a"
  shows "fst (Service_Load P (\<lambda>_. st') sv0 w) \<and> snd (snd (Service_Load P (\<lambda>_. st') sv0 w)) = w \<and>
    same_settings (fst (snd (Service_Load P (\<lambda>_. st') sv0 w))) sv"
proof -
  let ?sid = "sv_storage_identifier sv"
  note v = assms(4) [unfolded service_stored_def, simplified]
  have "si_ContainsGroup I st' ?sid" using v by (intro contains_view) auto
  then have c: "si_ContainsGroup (pf_store P) st' (sv_storage_identifier sv0)" by (simp add: P sid)
  have auto: "si_GetBool I st' ?sid ''AutoConnect'' =
      (if sv_retain_auto_connect sv then Some (sv_auto_connect sv) else None)"
    by (rule GetBool_saved, simp only: v)
  have fav: "si_GetBool I st' ?sid ''Favorite'' = None" by (simp add: get_laws v)
  have strings: "LoadString I st' ?sid ''GUID'' [] = sv_guid sv"
    "LoadString I st' ?sid ''ProxyConfig'' [] = sv_proxy_config sv"
    "LoadString I st' ?sid ''UIData'' [] = sv_ui_data sv"
    by (rule LoadString_saved(1), simp only: v)+
  have portal: "LoadString I st' ?sid ''CheckPortal'' kCheckPortalAuto = sv_check_portal sv"
    by (rule LoadString_saved(2), simp only: v)
  have ints: "got (si_GetInt I st' ?sid ''Priority'') 0 = sv_priority sv"
    "got (si_GetInt I st' ?sid ''PriorityWithinTechnology'') 0 = sv_priority_within_technology sv"
    by (rule got_int_saved, simp only: v)+
  have bools: "got (si_GetBool I st' ?sid ''SaveCredentials'') b = sv_save_credentials sv"
    "got (si_GetBool I st' ?sid ''DNSAutoFallback'') b = sv_is_dns_auto_fallback_allowed sv"
    "got (si_GetBool I st' ?sid ''LinkMonitorDisabled'') b = sv_link_monitor_disabled sv"
    "got (si_GetBool I st' ?sid ''ManagedCredentials'') b = sv_managed_credentials sv"
    "got (si_GetBool I st' ?sid ''HasEverConnected'') b = sv_has_ever_connected sv"
    "got (si_GetInt I st' ?sid ''ConnectionId'') i = sv_connection_id sv" for b i
    by (rule got_saved, simp only: v)+
  show ?thesis
    using c assms(3)
    by (simp add: Service_Load_def Let_def ClearExplicitlyDisconnected_def same_settings_def P sid auto
        fav strings portal ints bools kPriorityNone_def)
qed

end

lemma sip_args_Load:
  "sip_args (SIP_Load n I split_comma st sid sip) =
     load_properties I split_comma st sid (kProperties n) (sip_args sip)"
  by (simp add: SIP_Load_def)

lemma Service_Load_parts:
  assumes "fst (Service_Load P (\<lambda>_. st) sv w)" "\<not> sv_explicitly_disconnected sv"
  shows "sv_static_ip (fst (snd (Service_Load P (\<lambda>_. st) sv w))) = SIP_Load (pf_sip P) (pf_store P)
      (\<lambda>s. pf_split_string P s '','') st (sv_storage_identifier sv) (sv_static_ip sv)"
    and "sv_eap (fst (snd (Service_Load P (\<lambda>_. st) sv w))) =
      map_option (Eap_Load (pf_store P) st (sv_storage_identifier sv)) (sv_eap sv)"
    and "sv_dhcp_properties (fst (snd (Service_Load P (\<lambda>_. st) sv w))) =
      DhcpProperties_Load (pf_store P) st (sv_storage_identifier sv) (sv_dhcp_properties sv)"
  using assms
  by (simp_all add: Service_Load_def Let_def ClearExplicitlyDisconnected_def split: if_splits)

text \<open>
  The EAP credentials of the two services fit: both have none, or those to load into are reset
  and those saved are complete and were allowed to be saved.
\<close>

definition eap_fits :: "service \<Rightarrow> service \<Rightarrow> bool" where
  "eap_fits sv0 sv =
     (case (sv_eap sv0, sv_eap sv) of
        (None, None) \<Rightarrow> True
      | (Some e0, Some e) \<Rightarrow> Eap_Reset e0 = e0 \<and> key_management e \<noteq> [] \<and> sv_save_credentials sv
      | _ \<Rightarrow> False)"

text \<open>
  C3: a service survives its profile. After \<open>Service::Save\<close> into a JSON store whose entry has no
  value of a conflicting type, \<open>Service::Load\<close> into any service of the same storage identifier
  succeeds and reproduces every stored setting: automatic connection (as saved if the user's choice was
  retained, else the default), portal checking, GUID, priorities, proxy, UI data, connection id, the
  flags, whether it ever connected, every static IP parameter, the EAP credentials and the DHCP
  properties.
\<close>

theorem Service_Load_Save:
  fixes P :: "json_store platform"
  assumes P: "pf_store P = JsonStore_interface" and names: "sip_names_distinct (pf_sip P)"
    and wr: "entry_writable P (json_view st) (sv_storage_identifier sv)"
    and dhcp: "dhcp_wf (sv_dhcp_properties sv)"
    and typed: "\<forall>x \<in> set (kProperties (pf_sip P)). well_typed (sip_args (sv_static_ip sv)) x"
    and split: "\<forall>q ss. KVS_GetStrings (sip_args (sv_static_ip sv)) q = Some ss \<longrightarrow>
      pf_split_string P (pf_join_comma P ss) '','' = ss"
    and sv0: "sv_storage_identifier sv0 = sv_storage_identifier sv" "\<not> sv_explicitly_disconnected sv0"
    and eap: "eap_fits sv0 sv"
  shows "case Service_Load P (\<lambda>_. Service_Save P sv st) sv0 w of (ok, sv', w') \<Rightarrow>
    ok \<and> w' = w \<and> same_settings sv' sv \<and> sv_eap sv' = sv_eap sv \<and>
    map_of (sv_dhcp_properties sv') = map_of (sv_dhcp_properties sv) \<and>
    (\<forall>q \<in> fst ` set (kProperties (pf_sip P)).
       map_of (sip_args (sv_static_ip sv')) q = map_of (sip_args (sv_static_ip sv)) q)"
proof -
  let ?st = "Service_Save P sv st"
  let ?sid = "sv_storage_identifier sv"
  note holds = js.Service_Save_holds [OF P wr names dhcp]
  note own = js.Service_Load_own [OF P sv0 holds(1), of w]
  note parts = Service_Load_parts [OF own [THEN conjunct1] sv0(2), unfolded P sv0(1)]
  have "sv_eap (fst (snd (Service_Load P (\<lambda>_. ?st) sv0 w))) = sv_eap sv"
  proof (cases "sv_eap sv0")
    case None
    then show ?thesis using eap by (simp add: parts eap_fits_def split: option.splits)
  next
    case (Some e0)
    then obtain e where e: "sv_eap sv = Some e" "Eap_Reset e0 = e0" "key_management e \<noteq> []"
      "sv_save_credentials sv" using eap by (auto simp: eap_fits_def split: option.splits)
    show ?thesis
      using js.Eap_Load_Save [OF e(2), of e ?st ?sid] holds(2) [OF e(1)] e by (simp add: parts Some)
  qed
  moreover have "map_of (sv_dhcp_properties (fst (snd (Service_Load P (\<lambda>_. ?st) sv0 w)))) =
      map_of (sv_dhcp_properties sv)"
    unfolding parts using holds(3) by (intro js.dhcp_load_save [OF dhcp]) (simp_all add: dhcp_stored_def)
  moreover have "map_of (sip_args (sv_static_ip (fst (snd (Service_Load P (\<lambda>_. ?st) sv0 w))))) q =
      map_of (sip_args (sv_static_ip sv)) q" if q: "(q, u) \<in> set (kProperties (pf_sip P))" for q u
    unfolding parts sip_args_Load
    using names typed q split holds(4) [OF q]
    by (intro js.load_typed [OF _ q]) (auto simp: sip_names_distinct_def)
  ultimately show ?thesis using own by (auto simp: split_def)
qed

theorem Service_Load_Save_witness:
  "case Service_Load demo_platform
      (\<lambda>_. Service_Save demo_platform
        (demo_service\<lparr>sv_guid := ''g1'', sv_retain_auto_connect := True, sv_auto_connect := True\<rparr>) demo_store)
      (demo_service\<lparr>sv_guid := ''old'', sv_priority := 3\<rparr>) demo_world of
    (ok, sv', w') \<Rightarrow> ok \<and> sv_guid sv' = ''g1'' \<and> sv_auto_connect sv' \<and> sv_priority sv' = 0"
proof -
  let ?sv = "demo_service\<lparr>sv_guid := ''g1'', sv_retain_auto_connect := True, sv_auto_connect := True\<rparr>"
  let ?old = "demo_service\<lparr>sv_guid := ''old'', sv_priority := 3\<rparr>"
  have empty: "json_view demo_store = (\<lambda>_ _. None)"
    by (simp add: fun_eq_iff json_view_def demo_store_def)
  have 1: "pf_store demo_platform = JsonStore_interface" "sip_names_distinct (pf_sip demo_platform)"
    by (simp_all add: demo_platform_def demo_names_distinct)
  have 2: "entry_writable demo_platform (json_view demo_store) (sv_storage_identifier ?sv)"
    by (simp add: entry_writable_def empty service_slots_def service_tags_def eap_keys dhcp_slots_def
        slot_def demo_platform_def demo_names_def kProperties_def)
  have 3: "dhcp_wf (sv_dhcp_properties ?sv)"
    by (simp add: demo_service_def Service_new_def dhcp_wf_def)
  have 4: "\<forall>x \<in> set (kProperties (pf_sip demo_platform)). well_typed (sip_args (sv_static_ip ?sv)) x"
    by (simp add: demo_service_def Service_new_def demo_platform_def demo_names_def kProperties_def
        KVS_access_defs)
  have 5: "\<forall>q ss. KVS_GetStrings (sip_args (sv_static_ip ?sv)) q = Some ss \<longrightarrow>
      pf_split_string demo_platform (pf_join_comma demo_platform ss) '','' = ss"
    by (simp add: demo_service_def Service_new_def KVS_access_defs)
  have 6: "sv_storage_identifier ?old = sv_storage_identifier ?sv" "\<not> sv_explicitly_disconnected ?old"
    "eap_fits ?old ?sv"
    by (simp_all add: demo_service_def Service_new_def eap_fits_def)
  have p: "sv_priority ?sv = 0" by (simp add: demo_service_def Service_new_def kPriorityNone_def)
  obtain ok sv' w' where l: "Service_Load demo_platform (\<lambda>_. Service_Save demo_platform ?sv demo_store) ?old
      demo_world = (ok, sv', w')" by (rule prod_cases3)
  have "ok \<and> same_settings sv' ?sv"
    using Service_Load_Save [OF 1 2 3 4 5 6, of demo_world] unfolding l by simp
  then show ?thesis unfolding l using p by (simp add: same_settings_def)
qed

end
