(* ===== verification/Service_Order.thy ===== *)
theory Service_Order
  imports Service "HOL-Library.Multiset"
begin

text \<open>
  The order in which the manager ranks services: \<open>Service::DecideBetween\<close>, \<open>Service::Compare\<close> and
  \<open>ServiceSorter\<close>, with \<open>Manager::IsProfileBefore\<close>. The locale \<open>comparator\<close> is what \<open>std::sort\<close> asks
  of a comparison and what a caller may then rely on; it is interpreted for the services whose
  recorded failure agrees with their state. Outside of that set \<open>Compare\<close> is not an order, which is
  shown by examples.
\<close>

datatype sort_reason =
    kServiceSortIsOnline | kServiceSortIsConnected | kServiceSortIsPortalled
  | kServiceSortIsConnecting | kServiceSortIsFailed | kServiceSortConnectable
  | kServiceSortDependency | kServiceSortAutoConnect | kServiceSortHasEverConnected
  | kServiceSortPriority | kServiceSortTechnology | kServiceSortPriorityWithinTechnology
  | kServiceSortSecurity | kServiceSortProfileOrder | kServiceSortEtc | kServiceSortSerialNumber

text \<open>\<open>None\<close> when the function returns false, otherwise the decision.\<close>

definition DecideBetween :: "int \<Rightarrow> int \<Rightarrow> bool option" where
  "DecideBetween a b = (if a = b then None else Some (a > b))"

definition decide :: "int \<Rightarrow> int \<Rightarrow> sort_reason \<Rightarrow> bool \<times> sort_reason \<Rightarrow> bool \<times> sort_reason" where
  "decide a b reason rest = (case DecideBetween a b of Some ret \<Rightarrow> (ret, reason) | None \<Rightarrow> rest)"

fun IsProfileBefore :: "nat list \<Rightarrow> profile_ref option \<Rightarrow> profile_ref option \<Rightarrow> bool" where
  "IsProfileBefore [] a b = False"
| "IsProfileBefore (p # ps) a b =
     (if Some (StackProfile p) = a then True
      else if Some (StackProfile p) = b then False
      else IsProfileBefore ps a b)"

fun compare_technology :: "technology list \<Rightarrow> technology \<Rightarrow> technology \<Rightarrow> bool option" where
  "compare_technology [] a b = None"
| "compare_technology (t # ts) a b =
     (case DecideBetween (of_bool (a = t)) (of_bool (b = t)) of
        Some ret \<Rightarrow> Some ret
      | None \<Rightarrow> compare_technology ts a b)"

definition Compare ::
    "'s world \<Rightarrow> service \<Rightarrow> service \<Rightarrow> bool \<Rightarrow> technology list \<Rightarrow> bool \<times> sort_reason" where
  "Compare w a b compare_connectivity_state tech_order =
     (let by_serial = (sv_serial_number a < sv_serial_number b, kServiceSortSerialNumber);
          by_strength = decide (uint (sv_strength a)) (uint (sv_strength b)) kServiceSortEtc by_serial;
          by_profile =
            (if sv_profile a \<noteq> sv_profile b
             then (if IsServiceEphemeral b then True
                   else if IsServiceEphemeral a then False
                   else if IsProfileBefore (wd_profiles w) (sv_profile b) (sv_profile a) then True
                   else False, kServiceSortProfileOrder)
             else by_strength);
          by_security = decide (int (SecurityLevel a)) (int (SecurityLevel b)) kServiceSortSecurity by_profile;
          by_within = decide (sv_priority_within_technology a) (sv_priority_within_technology b)
            kServiceSortPriorityWithinTechnology by_security;
          by_technology =
            (case compare_technology tech_order (sv_technology a) (sv_technology b) of
               Some ret \<Rightarrow> (ret, kServiceSortTechnology)
             | None \<Rightarrow> by_within);
          by_priority = decide (sv_priority a) (sv_priority b) kServiceSortPriority by_technology;
          by_ever = decide (of_bool (sv_has_ever_connected a \<or> sv_managed_credentials a))
            (of_bool (sv_has_ever_connected b \<or> sv_managed_credentials b))
            kServiceSortHasEverConnected by_priority;
          by_auto =
            (if \<not> IsConnected a
             then decide (of_bool (sv_auto_connect a)) (of_bool (sv_auto_connect b))
                    kServiceSortAutoConnect by_ever
             else by_ever);
          by_dependency = decide (of_bool (IsDependentOn w a b)) (of_bool (IsDependentOn w b a))
            kServiceSortDependency by_auto;
          by_connectable = decide (of_bool (sv_connectable a)) (of_bool (sv_connectable b))
            kServiceSortConnectable by_dependency
      in if compare_connectivity_state \<and> sv_state a \<noteq> sv_state b
         then decide (of_bool (IsOnline a)) (of_bool (IsOnline b)) kServiceSortIsOnline
               (decide (of_bool (IsConnected a)) (of_bool (IsConnected b)) kServiceSortIsConnected
               (decide (of_bool (\<not> IsPortalled a)) (of_bool (\<not> IsPortalled b)) kServiceSortIsPortalled
               (decide (of_bool (IsConnecting a)) (of_bool (IsConnecting b)) kServiceSortIsConnecting
               (decide (of_bool (\<not> IsFailed a)) (of_bool (\<not> IsFailed b)) kServiceSortIsFailed
                 by_connectable))))
         else by_connectable)"

definition ServiceSorter ::
    "'s world \<Rightarrow> bool \<Rightarrow> technology list \<Rightarrow> service \<Rightarrow> service \<Rightarrow> bool" where
  "ServiceSorter w compare_connectivity_state tech_order a b =
     fst (Compare w a b compare_connectivity_state tech_order)"

subsection \<open>Sorting\<close>

text \<open>
  \<open>std_sort\<close> stands for \<open>std::sort\<close>, by insertion. When the comparison is a strict order that is total on the
  elements (\<open>strict_total\<close>), a list has exactly one sorted arrangement, so this is the result whatever the
  algorithm. When it is not, which \<open>Compare\<close> does not exclude (see the end of this theory), C++ leaves
  the behaviour of \<open>std::sort\<close> undefined and the model gives one arrangement of the same elements: what is
  proved about the order of services has hypotheses under which the comparison is a strict total order, and
  all else holds for every arrangement.
\<close>

fun insert_by :: "('a \<Rightarrow> 'a \<Rightarrow> bool) \<Rightarrow> 'a \<Rightarrow> 'a list \<Rightarrow> 'a list" where
  "insert_by lt x [] = [x]"
| "insert_by lt x (y # ys) = (if lt y x then y # insert_by lt x ys else x # y # ys)"

definition std_sort :: "('a \<Rightarrow> 'a \<Rightarrow> bool) \<Rightarrow> 'a list \<Rightarrow> 'a list" where
  "std_sort lt xs = foldr (insert_by lt) xs []"

lemma mset_insert_by [simp]: "mset (insert_by lt x ys) = add_mset x (mset ys)"
  by (induction ys) auto

lemma mset_std_sort [simp]: "mset (std_sort lt xs) = mset xs"
  unfolding std_sort_def by (induction xs) auto

lemma set_std_sort [simp]: "set (std_sort lt xs) = set xs"
  by (metis mset_std_sort set_mset_mset)

lemma set_insert_by [simp]: "set (insert_by lt x ys) = insert x (set ys)"
  by (induction ys) auto

locale comparator =
  fixes S :: "'a set"
    and lt :: "'a \<Rightarrow> 'a \<Rightarrow> bool"
    and ident :: "'a \<Rightarrow> 'k"
  assumes irrefl: "a \<in> S \<Longrightarrow> \<not> lt a a"
    and trans: "a \<in> S \<Longrightarrow> b \<in> S \<Longrightarrow> c \<in> S \<Longrightarrow> lt a b \<Longrightarrow> lt b c \<Longrightarrow> lt a c"
    and total: "a \<in> S \<Longrightarrow> b \<in> S \<Longrightarrow> ident a \<noteq> ident b \<Longrightarrow> lt a b \<or> lt b a"
begin

lemma asym: "a \<in> S \<Longrightarrow> b \<in> S \<Longrightarrow> lt a b \<Longrightarrow> \<not> lt b a"
  using irrefl trans by blast

lemma sorted_insert_by:
  assumes "sorted_wrt lt ys" "insert x (set ys) \<subseteq> S" "ident x \<notin> ident ` set ys"
  shows "sorted_wrt lt (insert_by lt x ys)"
  using assms
proof (induction ys)
  case (Cons y ys)
  show ?case
  proof (cases "lt y x")
    case True
    with Cons show ?thesis by auto
  next
    case False
    then have xy: "lt x y" using Cons.prems(2,3) total [of x y] by auto
    have "lt x z" if "z \<in> set ys" for z
      using xy Cons.prems that by (auto intro: trans [of x y z])
    with xy False Cons.prems(1) show ?thesis by simp
  qed
qed simp

lemma sorted_std_sort:
  assumes "set xs \<subseteq> S" "distinct (map ident xs)"
  shows "sorted_wrt lt (std_sort lt xs)"
  using assms
proof (induction xs)
  case (Cons x xs)
  then have "sorted_wrt lt (std_sort lt xs)" by simp
  then have "sorted_wrt lt (insert_by lt x (std_sort lt xs))"
    using Cons.prems by (intro sorted_insert_by) auto
  then show ?case by (simp add: std_sort_def)
qed (simp add: std_sort_def)

lemma sorted_unique:
  assumes "mset xs = mset ys" "sorted_wrt lt xs" "sorted_wrt lt ys" "set xs \<subseteq> S"
  shows "xs = ys"
  using assms
proof (induction xs arbitrary: ys)
  case (Cons x xs)
  then obtain y ys' where ys: "ys = y # ys'" by (cases ys) auto
  have sets: "set (x # xs) = set (y # ys')" using Cons.prems(1) ys by (metis set_mset_mset)
  have "x = y"
  proof (rule ccontr)
    assume "x \<noteq> y"
    then have "lt x y" "lt y x" using sets Cons.prems(2,3) ys by auto
    then show False using asym Cons.prems(4) sets by (metis list.set_intros(1) subsetD)
  qed
  then show ?case using Cons ys by auto
qed simp

text \<open>A property that the order puts first is decided by the head of a sorted list.\<close>

lemma sorted_head:
  assumes "sorted_wrt lt xs" "set xs \<subseteq> S" "x \<in> set xs" "Q x"
    and "\<And>a b. a \<in> S \<Longrightarrow> b \<in> S \<Longrightarrow> lt a b \<Longrightarrow> Q b \<Longrightarrow> Q a"
  shows "Q (hd xs)"
  using assms by (cases xs) auto

end

definition strict_total :: "('a \<Rightarrow> 'a \<Rightarrow> bool) \<Rightarrow> 'a list \<Rightarrow> bool" where
  "strict_total lt xs \<longleftrightarrow> (\<forall>a \<in> set xs. \<not> lt a a) \<and>
     (\<forall>a \<in> set xs. \<forall>b \<in> set xs. \<forall>c \<in> set xs. lt a b \<and> lt b c \<longrightarrow> lt a c) \<and>
     (\<forall>a \<in> set xs. \<forall>b \<in> set xs. a \<noteq> b \<longrightarrow> lt a b \<or> lt b a)"

lemma strict_total_comparator: "strict_total lt xs \<Longrightarrow> comparator (set xs) lt (\<lambda>x. x)"
  unfolding strict_total_def by unfold_locales blast+

text \<open>What \<open>std::sort\<close> promises, that nothing precedes an element which comes before it, determines the list.\<close>

lemma std_sort_determined:
  assumes "strict_total lt xs" "distinct xs" "mset ys = mset xs" "sorted_wrt (\<lambda>a b. \<not> lt b a) ys"
  shows "ys = std_sort lt xs"
proof -
  note cmp = strict_total_comparator [OF assms(1)]
  have ys: "set ys = set xs" "distinct ys"
    using assms(2,3) by (metis set_mset_mset, metis mset_eq_imp_distinct_iff)
  have "lt (ys ! i) (ys ! j)" if ij: "i < j" "j < length ys" for i j
  proof -
    have "ys ! i \<in> set xs" "ys ! j \<in> set xs" unfolding ys(1) [symmetric] using ij by simp_all
    moreover have "ys ! i \<noteq> ys ! j" using ys(2) ij by (simp add: nth_eq_iff_index_eq)
    moreover have "\<not> lt (ys ! j) (ys ! i)" using assms(4) ij by (simp add: sorted_wrt_iff_nth_less)
    ultimately show ?thesis using assms(1) unfolding strict_total_def by blast
  qed
  then have "sorted_wrt lt ys" by (simp add: sorted_wrt_iff_nth_less)
  moreover have "sorted_wrt lt (std_sort lt xs)"
    using comparator.sorted_std_sort [OF cmp, of xs] assms(2) by simp
  ultimately show ?thesis
    using comparator.sorted_unique [OF cmp, of ys "std_sort lt xs"] assms(3) ys(1) by simp
qed

subsection \<open>\<open>Compare\<close> as a lexicographic order\<close>

fun lex_gt :: "int list \<Rightarrow> int list \<Rightarrow> bool" where
  "lex_gt (x # xs) (y # ys) = (x > y \<or> x = y \<and> lex_gt xs ys)"
| "lex_gt _ _ = False"

lemma lex_gt_irrefl: "\<not> lex_gt xs xs"
  by (induction xs) auto

lemma lex_gt_trans: "lex_gt xs ys \<Longrightarrow> lex_gt ys zs \<Longrightarrow> lex_gt xs zs"
  by (induction xs ys arbitrary: zs rule: lex_gt.induct) (case_tac zs; auto)+

lemma lex_gt_total: "length xs = length ys \<Longrightarrow> xs = ys \<or> lex_gt xs ys \<or> lex_gt ys xs"
  by (induction xs ys rule: list_induct2) auto

lemma decide_fst [simp]: "fst (decide a b reason rest) = (a > b \<or> a = b \<and> fst rest)"
  by (auto simp: decide_def DecideBetween_def)

definition tech_index :: "technology list \<Rightarrow> technology \<Rightarrow> nat" where
  "tech_index ts t = length (takeWhile (\<lambda>u. u \<noteq> t) ts)"

lemma compare_technology_index:
  "compare_technology ts a b =
     (if tech_index ts a = tech_index ts b then None else Some (tech_index ts a < tech_index ts b))"
  by (induction ts) (auto simp: tech_index_def DecideBetween_def)

definition profile_rank :: "nat list \<Rightarrow> profile_ref option \<Rightarrow> nat" where
  "profile_rank ps p =
     (case p of Some (StackProfile i) \<Rightarrow> Suc (length (takeWhile (\<lambda>j. j \<noteq> i) ps)) | _ \<Rightarrow> 0)"

lemma IsProfileBefore_rank:
  assumes "i \<in> set ps" "j \<in> set ps" "i \<noteq> j"
  shows "IsProfileBefore ps (Some (StackProfile i)) (Some (StackProfile j)) =
    (length (takeWhile (\<lambda>k. k \<noteq> i) ps) < length (takeWhile (\<lambda>k. k \<noteq> j) ps))"
  using assms by (induction ps) auto

lemma takeWhile_index_inj:
  assumes "i \<in> set ps" "j \<in> set ps"
    and "length (takeWhile (\<lambda>k. k \<noteq> i) ps) = length (takeWhile (\<lambda>k. k \<noteq> j) ps)"
  shows "i = j"
  using assms by (induction ps) (auto split: if_splits)

text \<open>
  The services that \<open>Compare\<close> orders: registered (ephemeral, or in a profile on the stack), not
  running on top of another service's connection, and with a recorded failure time only in the
  failure state.
\<close>

definition rankable :: "'s world \<Rightarrow> service \<Rightarrow> bool" where
  "rankable w sv \<longleftrightarrow>
     (case sv_profile sv of
        Some EphemeralProfile \<Rightarrow> True | Some (StackProfile i) \<Rightarrow> i \<in> set (wd_profiles w) | None \<Rightarrow> False) \<and>
     (case sv_connection sv of None \<Rightarrow> True | Some c \<Rightarrow> wd_lower_connection w c = None) \<and>
     (sv_failed_time sv \<le> 0 \<or> sv_state sv = kStateFailure)"

definition sort_key :: "'s world \<Rightarrow> technology list \<Rightarrow> service \<Rightarrow> int list" where
  "sort_key w tech_order sv =
     [of_bool (IsOnline sv), of_bool (IsConnected sv), of_bool (\<not> IsPortalled sv),
      of_bool (IsConnecting sv), of_bool (\<not> IsFailed sv), of_bool (sv_connectable sv),
      (if IsConnected sv then 0 else of_bool (sv_auto_connect sv)),
      of_bool (sv_has_ever_connected sv \<or> sv_managed_credentials sv), sv_priority sv,
      - int (tech_index tech_order (sv_technology sv)), sv_priority_within_technology sv,
      int (SecurityLevel sv), int (profile_rank (wd_profiles w) (sv_profile sv)),
      uint (sv_strength sv), - int (sv_serial_number sv)]"

lemma by_profile_rank:
  assumes "rankable w a" "rankable w b"
  shows "(if sv_profile a \<noteq> sv_profile b
     then (if IsServiceEphemeral b then True
           else if IsServiceEphemeral a then False
           else if IsProfileBefore (wd_profiles w) (sv_profile b) (sv_profile a) then True
           else False)
     else rest) =
    (profile_rank (wd_profiles w) (sv_profile a) > profile_rank (wd_profiles w) (sv_profile b) \<or>
     profile_rank (wd_profiles w) (sv_profile a) = profile_rank (wd_profiles w) (sv_profile b) \<and> rest)"
  using assms takeWhile_index_inj [of _ "wd_profiles w"]
  by (auto simp: rankable_def IsServiceEphemeral_def profile_rank_def IsProfileBefore_rank
      split: option.splits profile_ref.splits)

lemma not_dependent: "rankable w a \<Longrightarrow> \<not> IsDependentOn w a b"
  by (auto simp: rankable_def IsDependentOn_def split: option.splits)

lemma same_state:
  assumes "rankable w a" "rankable w b" "sv_state a = sv_state b"
  shows "IsOnline a = IsOnline b" "IsConnected a = IsConnected b" "IsPortalled a = IsPortalled b"
    "IsConnecting a = IsConnecting b" "IsFailed a = IsFailed b"
  using assms by (auto simp: state_preds rankable_def)

lemma of_bool_eq_iff [simp]: "(of_bool p = (of_bool q :: int)) = (p = q)"
  by auto

lemma Compare_lex:
  assumes "rankable w a" "rankable w b"
  shows "ServiceSorter w True tech_order a b = lex_gt (sort_key w tech_order a) (sort_key w tech_order b)"
proof -
  note r = by_profile_rank [OF assms]
  let ?d = "\<lambda>rest :: bool \<times> sort_reason.
    case compare_technology tech_order (sv_technology a) (sv_technology b) of
      Some ret \<Rightarrow> (ret, kServiceSortTechnology) | None \<Rightarrow> rest"
  have t: "fst (?d rest) =
      (- int (tech_index tech_order (sv_technology a)) > - int (tech_index tech_order (sv_technology b)) \<or>
       - int (tech_index tech_order (sv_technology a)) = - int (tech_index tech_order (sv_technology b)) \<and>
       fst rest)" for rest
    by (auto simp: compare_technology_index)
  have p: "fst (if c then (x, kServiceSortProfileOrder) else rest) = (if c then x else fst rest)"
    for c x and rest :: "bool \<times> sort_reason" by simp
  show ?thesis
  proof (cases "sv_state a = sv_state b")
    case True
    note s = same_state [OF assms True]
    show ?thesis
      unfolding ServiceSorter_def Compare_def Let_def sort_key_def lex_gt.simps
      by (simp add: True s t p r not_dependent [OF assms(1)] not_dependent [OF assms(2)]
          del: split_paired_All)
  next
    case False
    then show ?thesis
      unfolding ServiceSorter_def Compare_def Let_def sort_key_def lex_gt.simps
      by (simp add: t p r not_dependent [OF assms(1)] not_dependent [OF assms(2)]
          del: split_paired_All)
  qed
qed

lemma sort_key_serial: "sort_key w t a = sort_key w t b \<Longrightarrow> sv_serial_number a = sv_serial_number b"
  by (simp add: sort_key_def)

lemma length_sort_key: "length (sort_key w t a) = 15"
  by (simp add: sort_key_def)

interpretation svc: comparator "{sv. rankable w sv}" "ServiceSorter w True tech_order" sv_serial_number
  for w tech_order
proof
  fix a b c :: service
  let ?k = "sort_key w tech_order"
  show "\<not> ServiceSorter w True tech_order a a" if "a \<in> {sv. rankable w sv}"
    using that by (simp add: Compare_lex lex_gt_irrefl)
  show "ServiceSorter w True tech_order a c"
    if "a \<in> {sv. rankable w sv}" "b \<in> {sv. rankable w sv}" "c \<in> {sv. rankable w sv}"
      "ServiceSorter w True tech_order a b" "ServiceSorter w True tech_order b c"
    using that lex_gt_trans [of "?k a" "?k b" "?k c"] by (simp add: Compare_lex)
  show "ServiceSorter w True tech_order a b \<or> ServiceSorter w True tech_order b a"
    if "a \<in> {sv. rankable w sv}" "b \<in> {sv. rankable w sv}" "sv_serial_number a \<noteq> sv_serial_number b"
    using that lex_gt_total [of "?k a" "?k b"] sort_key_serial [of w tech_order a b]
    by (auto simp: Compare_lex length_sort_key)
qed

text \<open>
  C4: on registered services that run on no other service's connection and whose failure time is
  set only in the failure state, the comparison the manager sorts with is a strict total order,
  as \<open>std::sort\<close> requires: no service precedes itself, the relation is transitive, and of two
  services with different serial numbers exactly one precedes the other. So there is exactly one
  sorted list of given services, whatever the sorting algorithm.
\<close>

theorem ServiceSorter_strict_total:
  assumes "rankable w a" "rankable w b" "rankable w c"
  shows "\<not> ServiceSorter w True tech_order a a \<and>
    (ServiceSorter w True tech_order a b \<and> ServiceSorter w True tech_order b c \<longrightarrow>
       ServiceSorter w True tech_order a c) \<and>
    (sv_serial_number a \<noteq> sv_serial_number b \<longrightarrow>
       ServiceSorter w True tech_order a b \<noteq> ServiceSorter w True tech_order b a)"
  using assms svc.irrefl [of a w tech_order] svc.trans [of a w b c tech_order]
    svc.total [of a w b tech_order] svc.asym [of a w b tech_order]
  by (auto simp del: not_iff)

definition demo_ranked :: "nat \<Rightarrow> connect_state \<Rightarrow> service" where
  "demo_ranked n s = (Service_new demo_platform n kWifi ''wifi'' False True)
     \<lparr>sv_state := s, sv_profile := Some (StackProfile 0), sv_connectable := True\<rparr>"

theorem ServiceSorter_strict_total_witness:
  "\<not> ServiceSorter demo_world True [] (demo_ranked 1 kStateIdle) (demo_ranked 1 kStateIdle) \<and>
   ServiceSorter demo_world True [] (demo_ranked 1 kStateIdle) (demo_ranked 2 kStateOnline) \<noteq>
   ServiceSorter demo_world True [] (demo_ranked 2 kStateOnline) (demo_ranked 1 kStateIdle)"
  using ServiceSorter_strict_total [of demo_world "demo_ranked 1 kStateIdle" "demo_ranked 2 kStateOnline"
      "demo_ranked 3 kStateFailure" "[]"]
  by (simp add: rankable_def demo_ranked_def Service_new_def demo_world_def)

text \<open>
  Comparing connectivity, a connected service precedes every service that is not connected
  and an online one every service that is not online, whatever their other attributes; and when
  connectivity is ignored, a connectable service precedes every one that is not. This is what \<open>Manager::IsConnected\<close>, \<open>IsOnline\<close> and \<open>ConnectToBestServicesTask\<close> rely on.
\<close>

theorem ServiceSorter_connected_first:
  "(IsConnected a \<and> \<not> IsConnected b \<longrightarrow>
      ServiceSorter w True t a b \<and> \<not> ServiceSorter w True t b a) \<and>
   (IsOnline a \<and> \<not> IsOnline b \<longrightarrow>
      ServiceSorter w True t a b \<and> \<not> ServiceSorter w True t b a) \<and>
   (sv_connectable a \<and> \<not> sv_connectable b \<longrightarrow>
      ServiceSorter w False t a b \<and> \<not> ServiceSorter w False t b a)"
proof (intro conjI impI; elim conjE)
  assume "IsConnected a" "\<not> IsConnected b"
  moreover from this have "sv_state a \<noteq> sv_state b" "\<not> IsOnline b" by (auto simp: state_preds)
  ultimately show "ServiceSorter w True t a b" "\<not> ServiceSorter w True t b a"
    by (auto simp: ServiceSorter_def Compare_def Let_def)
next
  assume "IsOnline a" "\<not> IsOnline b"
  moreover from this have "sv_state a \<noteq> sv_state b" by (auto simp: state_preds)
  ultimately show "ServiceSorter w True t a b" "\<not> ServiceSorter w True t b a"
    by (auto simp: ServiceSorter_def Compare_def Let_def)
next
  assume "sv_connectable a" "\<not> sv_connectable b"
  then show "ServiceSorter w False t a b" "\<not> ServiceSorter w False t b a"
    by (simp_all add: ServiceSorter_def Compare_def Let_def)
qed

theorem ServiceSorter_connected_first_witness:
  "ServiceSorter demo_world True [] (demo_ranked 2 kStateOnline) (demo_ranked 1 kStateIdle)"
  using ServiceSorter_connected_first [of "demo_ranked 2 kStateOnline" "demo_ranked 1 kStateIdle" demo_world "[]"]
  by (simp add: demo_ranked_def state_preds)

subsection \<open>The order without connectivity\<close>

text \<open>
  \<open>ConnectToBestServicesTask\<close> sorts without comparing connectivity. \<open>auto_agrees\<close> says where the test of automatic
  connection, which \<open>Compare\<close> makes only when its first argument is not connected, cannot contradict itself: a connected
  service and one that is not agree on it.
\<close>

definition auto_agrees :: "service list \<Rightarrow> bool" where
  "auto_agrees svs \<longleftrightarrow> (\<forall>a \<in> set svs. \<forall>b \<in> set svs.
     IsConnected a \<and> \<not> IsConnected b \<longrightarrow> sv_auto_connect a = sv_auto_connect b)"

definition sort_key_plain :: "bool \<Rightarrow> 's world \<Rightarrow> technology list \<Rightarrow> service \<Rightarrow> int list" where
  "sort_key_plain by_auto w tech_order sv =
     of_bool (sv_connectable sv) # of_bool (by_auto \<and> sv_auto_connect sv) # drop 7 (sort_key w tech_order sv)"

lemma Compare_plain_lex:
  assumes "rankable w a" "rankable w b"
    and "if by_auto then \<not> IsConnected a else IsConnected a \<or> sv_auto_connect a = sv_auto_connect b"
  shows "ServiceSorter w False tech_order a b =
    lex_gt (sort_key_plain by_auto w tech_order a) (sort_key_plain by_auto w tech_order b)"
proof -
  note r = by_profile_rank [OF assms(1,2)]
  let ?d = "\<lambda>rest :: bool \<times> sort_reason.
    case compare_technology tech_order (sv_technology a) (sv_technology b) of
      Some ret \<Rightarrow> (ret, kServiceSortTechnology) | None \<Rightarrow> rest"
  have t: "fst (?d rest) =
      (- int (tech_index tech_order (sv_technology a)) > - int (tech_index tech_order (sv_technology b)) \<or>
       - int (tech_index tech_order (sv_technology a)) = - int (tech_index tech_order (sv_technology b)) \<and>
       fst rest)" for rest
    by (auto simp: compare_technology_index)
  have p: "fst (if c then (x, kServiceSortProfileOrder) else rest) = (if c then x else fst rest)"
    for c x and rest :: "bool \<times> sort_reason" by simp
  have d: "drop 7 (sort_key w tech_order sv) =
      [of_bool (sv_has_ever_connected sv \<or> sv_managed_credentials sv), sv_priority sv,
       - int (tech_index tech_order (sv_technology sv)), sv_priority_within_technology sv,
       int (SecurityLevel sv), int (profile_rank (wd_profiles w) (sv_profile sv)),
       uint (sv_strength sv), - int (sv_serial_number sv)]" for sv
    by (simp add: sort_key_def)
  show ?thesis
  proof (cases "IsConnected a")
    case True
    then show ?thesis using assms(3)
      unfolding ServiceSorter_def Compare_def Let_def sort_key_plain_def d lex_gt.simps
      by (simp add: t p r not_dependent [OF assms(1)] not_dependent [OF assms(2)] del: split_paired_All split: if_splits)
  next
    case False
    then show ?thesis using assms(3)
      unfolding ServiceSorter_def Compare_def Let_def sort_key_plain_def d lex_gt.simps
      by (cases by_auto)
        (simp_all add: t p r not_dependent [OF assms(1)] not_dependent [OF assms(2)] del: split_paired_All)
  qed
qed

lemma strict_total_lex:
  assumes "\<And>a b. a \<in> set xs \<Longrightarrow> b \<in> set xs \<Longrightarrow> lt a b = lex_gt (key a) (key b)"
    and "\<And>a. length (key a) = n" "inj_on key (set xs)"
  shows "strict_total lt xs"
  unfolding strict_total_def
proof (intro conjI ballI impI)
  show "\<not> lt a a" if "a \<in> set xs" for a using assms(1) that by (simp add: lex_gt_irrefl)
  show "lt a c" if "a \<in> set xs" "b \<in> set xs" "c \<in> set xs" "lt a b \<and> lt b c" for a b c
    using that assms(1) lex_gt_trans [of "key a" "key b" "key c"] by auto
  show "lt a b \<or> lt b a" if "a \<in> set xs" "b \<in> set xs" "a \<noteq> b" for a b
    using that assms lex_gt_total [of "key a" "key b"] by (auto dest: inj_onD)
qed

text \<open>There the comparison is a strict total order.\<close>

lemma ServiceSorter_plain_total:
  assumes rank: "\<forall>sv \<in> set svs. rankable w sv" and agree: "auto_agrees svs" and dist: "distinct (map sv_serial_number svs)"
  shows "strict_total (ServiceSorter w False tech_order) svs"
proof (rule strict_total_lex [where n = 10])
  let ?k = "sort_key_plain (\<forall>sv \<in> set svs. \<not> IsConnected sv) w tech_order"
  show "ServiceSorter w False tech_order a b = lex_gt (?k a) (?k b)" if "a \<in> set svs" "b \<in> set svs" for a b
  proof (rule Compare_plain_lex)
    show "if \<forall>sv \<in> set svs. \<not> IsConnected sv then \<not> IsConnected a
      else IsConnected a \<or> sv_auto_connect a = sv_auto_connect b"
      using that agree unfolding auto_agrees_def by (cases "IsConnected b") (simp_all, metis+)
  qed (use that rank in simp_all)
  show "length (?k sv) = 10" for sv by (simp add: sort_key_plain_def length_sort_key)
  show "inj_on ?k (set svs)"
    using dist by (auto simp: inj_on_def distinct_map sort_key_plain_def sort_key_def)
qed

subsection \<open>Where \<open>Compare\<close> is not an order\<close>

lemma sorter_eval:
  "ServiceSorter demo_world ccs [] (demo_ranked m s\<lparr>sv_priority := i, sv_failed_time := x, sv_auto_connect := p\<rparr>)
       (demo_ranked n t\<lparr>sv_priority := j, sv_failed_time := y, sv_auto_connect := q\<rparr>) \<longleftrightarrow>
     (if ccs \<and> s \<noteq> t
      then (s = kStateOnline \<and> t \<noteq> kStateOnline \<or> (s = kStateOnline \<longleftrightarrow> t = kStateOnline) \<and>
        (IsConnectedState s \<and> \<not> IsConnectedState t \<or> (IsConnectedState s \<longleftrightarrow> IsConnectedState t) \<and>
        (s \<noteq> kStatePortal \<and> t = kStatePortal \<or> (s = kStatePortal \<longleftrightarrow> t = kStatePortal) \<and>
        (IsConnectingState s \<and> \<not> IsConnectingState t \<or> (IsConnectingState s \<longleftrightarrow> IsConnectingState t) \<and>
        (\<not> (s = kStateFailure \<or> x > 0) \<and> (t = kStateFailure \<or> y > 0) \<or>
         ((s = kStateFailure \<or> x > 0) \<longleftrightarrow> (t = kStateFailure \<or> y > 0)) \<and>
         (if \<not> IsConnectedState s then p \<and> \<not> q \<or> (p \<longleftrightarrow> q) \<and> (i > j \<or> i = j \<and> m < n)
          else i > j \<or> i = j \<and> m < n))))))
      else (if \<not> IsConnectedState s then p \<and> \<not> q \<or> (p \<longleftrightarrow> q) \<and> (i > j \<or> i = j \<and> m < n)
            else i > j \<or> i = j \<and> m < n))"
  by (auto simp: ServiceSorter_def Compare_def Let_def demo_ranked_def Service_new_def IsDependentOn_def
      state_preds SecurityLevel_def)

text \<open>
  \<open>Service::Compare\<close> is not a strict weak order, which \<open>std::sort\<close> requires. It looks at
  \<open>IsFailed\<close> only for services in different states, but \<open>IsFailed\<close> also depends on the failure time,
  which \<open>SetFailureSilent\<close> sets on an idle service. So three registered services can precede
  one another in a circle: an idle one that failed silently, an idle one that did not, and a failed one.
\<close>

theorem ServiceSorter_cycle:
  "\<exists>a b c. list_all (\<lambda>sv. sv_profile sv = Some (StackProfile 0) \<and> sv_connection sv = None) [a, b, c] \<and>
     ServiceSorter demo_world True [] a b \<and> ServiceSorter demo_world True [] b c \<and>
     ServiceSorter demo_world True [] c a"
proof -
  let ?sv = "\<lambda>n s i t. (demo_ranked n s)\<lparr>sv_priority := i, sv_failed_time := t, sv_auto_connect := False\<rparr>"
  let ?a = "?sv 1 kStateIdle 2 1000" and ?b = "?sv 2 kStateIdle 1 0" and ?c = "?sv 3 kStateFailure 3 1000"
  have "ServiceSorter demo_world True [] ?a ?b" "ServiceSorter demo_world True [] ?b ?c"
    "ServiceSorter demo_world True [] ?c ?a"
    by (simp_all add: sorter_eval IsConnectedState_def IsConnectingState_def)
  moreover have "list_all (\<lambda>sv. sv_profile sv = Some (StackProfile 0) \<and> sv_connection sv = None) [?a, ?b, ?c]"
    by (simp add: demo_ranked_def Service_new_def)
  ultimately show ?thesis by blast
qed

text \<open>
  Without comparing connectivity, as \<open>ConnectToBestServicesTask\<close> sorts, \<open>Compare\<close> is not even
  asymmetric: it skips the automatic-connection test when the first service is connected, although
  its comment says when both are. A disconnected service with automatic connection and a connected
  one of higher priority without it each precede the other.
\<close>

theorem ServiceSorter_asymmetry_fails:
  "\<exists>a b. sv_serial_number a \<noteq> sv_serial_number b \<and> \<not> IsConnected a \<and> IsConnected b \<and>
     ServiceSorter demo_world False [] a b \<and> ServiceSorter demo_world False [] b a"
proof -
  let ?a = "(demo_ranked 1 kStateIdle)\<lparr>sv_priority := 1, sv_failed_time := 0, sv_auto_connect := True\<rparr>"
  let ?b = "(demo_ranked 2 kStateOnline)\<lparr>sv_priority := 2, sv_failed_time := 0, sv_auto_connect := False\<rparr>"
  have "ServiceSorter demo_world False [] ?a ?b" "ServiceSorter demo_world False [] ?b ?a"
    by (simp_all add: sorter_eval IsConnectedState_def)
  moreover have "sv_serial_number ?a \<noteq> sv_serial_number ?b" "\<not> IsConnected ?a" "IsConnected ?b"
    by (simp_all add: demo_ranked_def Service_new_def state_preds)
  ultimately show ?thesis by blast
qed

end
