(* ===== verification/Profile.thy ===== *)
theory Profile
  imports Service
begin

text \<open>
  Model of \<open>profile.cc\<close> and \<open>default_profile.cc\<close>: profile identifiers and their text form, the list
  of loaded user profiles that survives a restart, the opening of a profile's storage, and how a
  profile takes up, configures and gives up services. \<open>base::SplitString\<close> on newlines, file access and
  the store's own \<open>Open\<close> are arguments.
\<close>

subsection \<open>Identifiers\<close>

text \<open>\<open>base::IsAsciiAlpha\<close> and \<open>IsAsciiDigit\<close> on one character.\<close>

definition ascii_alnum :: "char \<Rightarrow> bool" where
  "ascii_alnum c \<longleftrightarrow> (let n = of_char c :: nat
     in 65 \<le> n \<and> n \<le> 90 \<or> 97 \<le> n \<and> n \<le> 122 \<or> 48 \<le> n \<and> n \<le> 57)"

definition IsValidIdentifierToken :: "string \<Rightarrow> bool" where
  "IsValidIdentifierToken token \<longleftrightarrow> token \<noteq> [] \<and> list_all ascii_alnum token"

text \<open>\<open>string::find\<close> of a character: the part before its first occurrence and the part after.\<close>

fun split_at :: "char \<Rightarrow> string \<Rightarrow> (string \<times> string) option" where
  "split_at c [] = None"
| "split_at c (x # xs) =
     (if x = c then Some ([], xs)
      else map_option (\<lambda>(a, b). (x # a, b)) (split_at c xs))"

text \<open>\<open>None\<close> when the function returns false; the user hash is not parsed and left empty.\<close>

definition ParseIdentifier :: "string \<Rightarrow> profile_id option" where
  "ParseIdentifier raw =
     (case raw of
        [] \<Rightarrow> None
      | c # rest \<Rightarrow>
          if c = CHR ''~''
          then (case split_at CHR ''/'' rest of
                  None \<Rightarrow> None
                | Some (user, ident) \<Rightarrow>
                    if \<not> IsValidIdentifierToken user \<or> \<not> IsValidIdentifierToken ident then None
                    else Some \<lparr>id_user = user, id_identifier = ident, id_user_hash = []\<rparr>)
          else if \<not> IsValidIdentifierToken raw then None
          else Some \<lparr>id_user = [], id_identifier = raw, id_user_hash = []\<rparr>)"

definition IdentifierToString :: "profile_id \<Rightarrow> string" where
  "IdentifierToString name =
     (if id_user name = [] then id_identifier name
      else ''~'' @ id_user name @ ''/'' @ id_identifier name)"

definition GetFriendlyName :: "'s profile \<Rightarrow> string" where
  "GetFriendlyName p =
     (if id_user (pr_name p) = [] then [] else id_user (pr_name p) @ ''/'') @ id_identifier (pr_name p)"

definition MatchesIdentifier :: "'s profile \<Rightarrow> profile_id \<Rightarrow> bool" where
  "MatchesIdentifier p name \<longleftrightarrow>
     id_user name = id_user (pr_name p) \<and> id_identifier name = id_identifier (pr_name p)"

text \<open>The file of a profile below the storage directory, with the extension of the JSON build.\<close>

definition GetFinalStoragePath :: "string \<Rightarrow> profile_id \<Rightarrow> string" where
  "GetFinalStoragePath storage_dir name =
     storage_dir @ ''/'' @
     (if id_user name = [] then id_identifier name @ ''.profile''
      else id_user name @ ''/'' @ id_identifier name @ ''.profile'') @ ''.json''"

subsection \<open>The list of loaded user profiles\<close>

definition parse_line :: "string \<Rightarrow> profile_id option" where
  "parse_line line =
     (case split_at CHR '' '' line of
        None \<Rightarrow> None
      | Some (name, hash) \<Rightarrow>
          if name = [] then None
          else case ParseIdentifier name of
                 None \<Rightarrow> None
               | Some ident \<Rightarrow> if id_user ident = [] then None else Some (ident\<lparr>id_user_hash := hash\<rparr>))"

text \<open>\<open>content\<close> is \<open>None\<close> when the file cannot be read. Bad lines are logged and skipped.\<close>

definition LoadUserProfileList ::
    "(string \<Rightarrow> string list) \<Rightarrow> string option \<Rightarrow> profile_id list" where
  "LoadUserProfileList split_lines content =
     (case content of
        None \<Rightarrow> []
      | Some s \<Rightarrow> List.map_filter (\<lambda>line. if line = [] then None else parse_line line) (split_lines s))"

definition profile_line :: "profile_id \<Rightarrow> string" where
  "profile_line ident = IdentifierToString ident @ '' '' @ id_user_hash ident @ [CHR 0x0A]"

text \<open>The content written; the result of the write itself is the file system's.\<close>

definition SaveUserProfileList :: "'s profile list \<Rightarrow> string" where
  "SaveUserProfileList profiles =
     concat (map profile_line (filter (\<lambda>ident. id_user ident \<noteq> []) (map pr_name profiles)))"

subsection \<open>Opening the storage\<close>

datatype init_storage_option = kOpenExisting | kCreateNew | kCreateOrOpenExisting

text \<open>
  \<open>InitStorage\<close>: \<open>already_exists\<close> is \<open>IsNonEmpty\<close> of the new store, \<open>opened\<close> the store after a
  successful \<open>Open\<close>. The result is the error, with whether the file was marked as corrupted, or
  the storage and whether a header was set.
\<close>

definition InitStorage ::
    "init_storage_option \<Rightarrow> profile_id \<Rightarrow> bool \<Rightarrow> 's option \<Rightarrow> (string \<Rightarrow> 's \<Rightarrow> 's) \<Rightarrow>
      ((error_type \<times> string) \<times> bool) + 's" where
  "InitStorage storage_option name already_exists opened set_header =
     (let who = id_user name @ '':'' @ id_identifier name
      in if \<not> already_exists \<and> storage_option \<noteq> kCreateNew \<and> storage_option \<noteq> kCreateOrOpenExisting
         then Inl ((kNotFound, ''Profile storage for '' @ who @ '' does not already exist''), False)
         else if already_exists \<and> storage_option \<noteq> kOpenExisting \<and> storage_option \<noteq> kCreateOrOpenExisting
         then Inl ((kAlreadyExists, ''Profile storage for '' @ who @ '' already exists''), False)
         else case opened of
                None \<Rightarrow> Inl ((kInternalError, ''Could not open profile storage for '' @ who), already_exists)
              | Some st \<Rightarrow> Inr (if already_exists then st else set_header (''Profile '' @ who) st))"

subsection \<open>Services of a profile\<close>

definition ContainsService :: "'s platform \<Rightarrow> nat \<Rightarrow> service \<Rightarrow> 's world \<Rightarrow> bool" where
  "ContainsService P i sv w = IsLoadableFrom P sv (pr_storage (wd_profile w i))"

definition LoadService ::
    "'s platform \<Rightarrow> nat \<Rightarrow> service \<Rightarrow> 's world \<Rightarrow> bool \<times> service \<times> 's world" where
  "LoadService P i sv w =
     (if \<not> ContainsService P i sv w then (False, sv, w)
      else Service_Load P (\<lambda>w. pr_storage (wd_profile w i)) sv w)"

definition Profile_ConfigureService ::
    "'s platform \<Rightarrow> nat \<Rightarrow> service \<Rightarrow> 's world \<Rightarrow> bool \<times> service \<times> 's world" where
  "Profile_ConfigureService P i sv w =
     (case LoadService P i sv w of
        (False, sv, w) \<Rightarrow> (False, sv, w)
      | (True, sv, w) \<Rightarrow> (case SetProfile (Some (StackProfile i)) sv w of (sv, w) \<Rightarrow> (True, sv, w)))"

text \<open>The default profile accepts every Ethernet service, known or not.\<close>

definition ConfigureService ::
    "'s platform \<Rightarrow> nat \<Rightarrow> service \<Rightarrow> 's world \<Rightarrow> bool \<times> service \<times> 's world" where
  "ConfigureService P i sv w =
     (if \<not> pr_default (wd_profile w i) then Profile_ConfigureService P i sv w
      else case Profile_ConfigureService P i sv w of
             (True, sv, w) \<Rightarrow> (True, sv, w)
           | (False, sv, w) \<Rightarrow>
               if sv_technology sv = kEthernet
               then let w = snd (Profile_UpdateService P i sv w)
                    in (case SetProfile (Some (StackProfile i)) sv w of (sv, w) \<Rightarrow> (True, sv, w))
               else (False, sv, w))"

definition EnumerateEntries :: "'s platform \<Rightarrow> string list \<Rightarrow> string list" where
  "EnumerateEntries P groups =
     filter (\<lambda>g. IdentifierFromStorageGroup (pf_tech P) (pf_split_string P) g \<noteq> kUnknown) groups"

subsection \<open>Round trips of identifiers\<close>

lemma split_at_append [simp]: "c \<notin> set a \<Longrightarrow> split_at c (a @ c # b) = Some (a, b)"
  by (induction a) auto

lemma split_at_SomeD: "split_at c s = Some (a, b) \<Longrightarrow> s = a @ c # b \<and> c \<notin> set a"
  by (induction c s arbitrary: a b rule: split_at.induct) (auto split: if_splits)

lemma split_at_None [simp]: "split_at c s = None \<longleftrightarrow> c \<notin> set s"
  by (induction s) auto

lemma ascii_alnum_punct [simp]:
  "\<not> ascii_alnum CHR ''~''" "\<not> ascii_alnum CHR ''/''" "\<not> ascii_alnum CHR '' ''" "\<not> ascii_alnum CHR 0x0A"
  by (simp_all add: ascii_alnum_def)

lemma valid_token_notin:
  "IsValidIdentifierToken t \<Longrightarrow> \<not> ascii_alnum c \<Longrightarrow> c \<notin> set t"
  by (auto simp: IsValidIdentifierToken_def list_all_iff)

lemma valid_token_hd:
  "IsValidIdentifierToken t \<Longrightarrow> \<exists>c cs. t = c # cs \<and> ascii_alnum c"
  by (cases t) (auto simp: IsValidIdentifierToken_def)

text \<open>What \<open>ParseIdentifier\<close> can return: valid tokens, the user being optional.\<close>

definition ident_wf :: "profile_id \<Rightarrow> bool" where
  "ident_wf name \<longleftrightarrow> (id_user name = [] \<or> IsValidIdentifierToken (id_user name)) \<and>
     IsValidIdentifierToken (id_identifier name)"

lemma ParseIdentifier_IdentifierToString [simp]:
  assumes "ident_wf name"
  shows "ParseIdentifier (IdentifierToString name) = Some (name\<lparr>id_user_hash := []\<rparr>)"
proof (cases "id_user name = []")
  case True
  with assms obtain c cs where "id_identifier name = c # cs" "ascii_alnum c"
    using valid_token_hd [of "id_identifier name"] by (auto simp: ident_wf_def)
  with True assms show ?thesis
    by (auto simp: ParseIdentifier_def IdentifierToString_def ident_wf_def)
next
  case False
  with assms show ?thesis
    by (auto simp: ParseIdentifier_def IdentifierToString_def ident_wf_def valid_token_notin)
qed

lemma ParseIdentifier_SomeD:
  assumes "ParseIdentifier raw = Some name"
  shows "ident_wf name \<and> id_user_hash name = [] \<and> IdentifierToString name = raw"
  using assms
  by (auto simp: ParseIdentifier_def IdentifierToString_def ident_wf_def IsValidIdentifierToken_def
      split: list.splits if_splits option.splits dest!: split_at_SomeD)

text \<open>
  \<open>ParseIdentifier\<close> accepts exactly the text forms of well-formed identifiers (an optional
  \<open>~user/\<close> and a name, all of ASCII letters and digits) and returns the identifier the text was
  written from; so no two identifiers share a text form and every other text is refused.
\<close>

theorem ParseIdentifier_exact:
  "ParseIdentifier raw = Some name \<longleftrightarrow>
     ident_wf name \<and> id_user_hash name = [] \<and> raw = IdentifierToString name"
proof
  assume "ParseIdentifier raw = Some name"
  then show "ident_wf name \<and> id_user_hash name = [] \<and> raw = IdentifierToString name"
    using ParseIdentifier_SomeD by blast
next
  assume "ident_wf name \<and> id_user_hash name = [] \<and> raw = IdentifierToString name"
  then show "ParseIdentifier raw = Some name"
    by (cases name) (simp add: ParseIdentifier_IdentifierToString)
qed

subsection \<open>The user profile list survives a restart\<close>

lemma IdentifierToString_no_space:
  "ident_wf name \<Longrightarrow> \<not> ascii_alnum c \<Longrightarrow> c \<noteq> CHR ''~'' \<Longrightarrow> c \<noteq> CHR ''/'' \<Longrightarrow> c \<notin> set (IdentifierToString name)"
  by (auto simp: ident_wf_def IdentifierToString_def dest: valid_token_notin)

lemma IdentifierToString_nonempty: "ident_wf name \<Longrightarrow> IdentifierToString name \<noteq> []"
  by (auto simp: ident_wf_def IdentifierToString_def IsValidIdentifierToken_def)

lemma parse_line_profile_line:
  assumes "ident_wf name" "id_user name \<noteq> []"
  shows "parse_line (IdentifierToString name @ '' '' @ id_user_hash name) = Some name"
  using assms by (simp add: parse_line_def IdentifierToString_no_space IdentifierToString_nonempty)

lemma map_filter_all_Some:
  "(\<And>x. x \<in> set xs \<Longrightarrow> f (g x) = Some x) \<Longrightarrow> List.map_filter f (map g xs) = xs"
  by (induction xs) (auto simp: map_filter_simps)

text \<open>
  The list of loaded user profiles written by \<open>SaveUserProfileList\<close> is read back by
  \<open>LoadUserProfileList\<close> exactly: same users, names and hashes, in stack order, with the profiles of
  no user left out. The splitter is assumed to cut newline-terminated lines apart.
\<close>

theorem UserProfileList_roundtrip:
  assumes split: "\<And>ls. \<forall>l \<in> set ls. CHR 0x0A \<notin> set l \<Longrightarrow>
      split_lines (concat (map (\<lambda>l. l @ [CHR 0x0A]) ls)) = ls @ [[]]"
    and wf: "\<forall>p \<in> set profiles. ident_wf (pr_name p) \<and> CHR 0x0A \<notin> set (id_user_hash (pr_name p))"
  shows "LoadUserProfileList split_lines (Some (SaveUserProfileList profiles)) =
    filter (\<lambda>ident. id_user ident \<noteq> []) (map pr_name profiles)"
proof -
  let ?ids = "filter (\<lambda>ident. id_user ident \<noteq> []) (map pr_name profiles)"
  let ?line = "\<lambda>name. IdentifierToString name @ '' '' @ id_user_hash name"
  have wf': "ident_wf n" "CHR 0x0A \<notin> set (id_user_hash n)" "id_user n \<noteq> []" if "n \<in> set ?ids" for n
    using that wf by auto
  have lines: "\<forall>l \<in> set (map ?line ?ids). CHR 0x0A \<notin> set l"
  proof
    fix l assume "l \<in> set (map ?line ?ids)"
    then obtain n where "n \<in> set ?ids" and l: "l = ?line n"
      by (metis (no_types, lifting) imageE list.set_map)
    with wf' [of n] show "CHR 0x0A \<notin> set l"
      by (simp add: IdentifierToString_no_space)
  qed
  have saved: "SaveUserProfileList profiles = concat (map (\<lambda>l. l @ [CHR 0x0A]) (map ?line ?ids))"
    by (simp add: SaveUserProfileList_def profile_line_def [abs_def] comp_def)
  have "List.map_filter (\<lambda>line. if line = [] then None else parse_line line) (map ?line ?ids) = ?ids"
  proof (rule map_filter_all_Some)
    fix n assume "n \<in> set ?ids"
    from wf' [OF this] have "parse_line (?line n) = Some n"
      by (intro parse_line_profile_line)
    then show "(if ?line n = [] then None else parse_line (?line n)) = Some n"
      by simp
  qed
  moreover have "List.map_filter (\<lambda>line. if line = [] then None else parse_line line) (map ?line ?ids @ [[]])
      = List.map_filter (\<lambda>line. if line = [] then None else parse_line line) (map ?line ?ids)"
    by (simp add: List.map_filter_def)
  ultimately show ?thesis
    unfolding LoadUserProfileList_def option.case saved split [OF lines] by (simp only:)
qed

text \<open>A splitter for the witness: it cuts at each newline and keeps empty pieces.\<close>

fun newline_split :: "string \<Rightarrow> string list" where
  "newline_split [] = [[]]"
| "newline_split (c # s) =
     (if c = CHR 0x0A then [] # newline_split s
      else case newline_split s of [] \<Rightarrow> [[c]] | l # ls \<Rightarrow> (c # l) # ls)"

lemma newline_split_line: "CHR 0x0A \<notin> set l \<Longrightarrow> newline_split (l @ CHR 0x0A # s) = l # newline_split s"
  by (induction l) auto

lemma newline_split_lines:
  "\<forall>l \<in> set ls. CHR 0x0A \<notin> set l \<Longrightarrow>
     newline_split (concat (map (\<lambda>l. l @ [CHR 0x0A]) ls)) = ls @ [[]]"
  by (induction ls) (auto simp: newline_split_line)

theorem UserProfileList_roundtrip_witness:
  "LoadUserProfileList newline_split
     (Some (SaveUserProfileList [demo_profile [], demo_profile ''alice'', demo_profile ''bob''])) =
   map pr_name [demo_profile ''alice'', demo_profile ''bob'']"
  using UserProfileList_roundtrip
    [OF newline_split_lines, of "[demo_profile [], demo_profile ''alice'', demo_profile ''bob'']"]
  by (simp add: demo_profile_def ident_wf_def IsValidIdentifierToken_def ascii_alnum_def)

subsection \<open>Opening storage and taking up a service\<close>

text \<open>
  \<open>InitStorage\<close> gives the profile a storage exactly when the option agrees with what is on
  disk and the store opens: a new profile never takes over existing storage, an existing one is
  never silently created, and storage that exists but cannot be opened is the only one marked as
  corrupted.
\<close>

theorem InitStorage_correct:
  "((\<exists>st. InitStorage storage_option name already_exists opened set_header = Inr st) \<longleftrightarrow>
      \<not> (storage_option = kCreateNew \<and> already_exists) \<and>
      \<not> (storage_option = kOpenExisting \<and> \<not> already_exists) \<and> opened \<noteq> None) \<and>
   ((\<exists>e. InitStorage storage_option name already_exists opened set_header = Inl (e, True)) \<longleftrightarrow>
      already_exists \<and> storage_option \<noteq> kCreateNew \<and> opened = None)"
  by (cases storage_option; cases already_exists; cases opened; simp add: InitStorage_def Let_def)

end
