(* ===== verification/Default_Profile.thy ===== *)
theory Default_Profile
  imports Profile
begin

text \<open>
  Model of \<open>default_profile.cc\<close>: the machine-wide profile also keeps the manager's own properties, in
  the group \<open>global\<close>. \<open>Save\<close> writes them and \<open>LoadManagerProperties\<close> reads them with a default for
  each missing value. The decimal conversions of libchrome and the random salt are arguments.
\<close>

text \<open>\<open>Manager::Properties\<close>.\<close>

record manager_properties =
  mp_offline_mode :: bool
  mp_check_portal_list :: string
  mp_country :: string
  mp_portal_check_interval_seconds :: int
  mp_portal_url :: string
  mp_host_name :: string
  mp_arp_gateway :: bool
  mp_link_monitor_technologies :: string
  mp_no_auto_connect_technologies :: string
  mp_prohibited_technologies :: string
  mp_ignored_dns_search_paths :: string
  mp_prepend_dns_servers :: string
  mp_connection_id_salt :: int
  mp_minimum_mtu :: int

definition kDefaultCheckPortalList :: string where "kDefaultCheckPortalList = ''ethernet,wifi,cellular''"
definition kDefaultIgnoredSearchList :: string where "kDefaultIgnoredSearchList = ''gateway.2wire.net''"
definition kDefaultLinkMonitorTechnologies :: string where "kDefaultLinkMonitorTechnologies = ''wifi''"
definition kDefaultURL :: string where "kDefaultURL = ''http://www.gstatic.com/generate_204''"
definition kDefaultCheckIntervalSeconds :: int where "kDefaultCheckIntervalSeconds = 30"
definition kStorageId :: string where "kStorageId = ''global''"

definition LoadManagerProperties ::
    "'s store_interface \<Rightarrow> (string \<Rightarrow> int option) \<Rightarrow> int \<Rightarrow> 's \<Rightarrow> manager_properties \<times> any_dict \<Rightarrow>
      manager_properties \<times> any_dict" where
  "LoadManagerProperties I string_to_int random_salt storage props_dhcp =
     (case props_dhcp of (p, dhcp) \<Rightarrow>
       (p\<lparr>mp_arp_gateway := got (si_GetBool I storage kStorageId ''ArpGateway'') (mp_arp_gateway p),
          mp_host_name := got (si_GetString I storage kStorageId ''HostName'') (mp_host_name p),
          mp_offline_mode := got (si_GetBool I storage kStorageId ''OfflineMode'') (mp_offline_mode p),
          mp_check_portal_list :=
            got (si_GetString I storage kStorageId ''CheckPortalList'') kDefaultCheckPortalList,
          mp_connection_id_salt :=
            got (si_GetInt I storage kStorageId ''ConnectionIdSalt'') random_salt,
          mp_ignored_dns_search_paths :=
            got (si_GetString I storage kStorageId ''IgnoredDNSSearchPaths'') kDefaultIgnoredSearchList,
          mp_link_monitor_technologies :=
            got (si_GetString I storage kStorageId ''LinkMonitorTechnologies'')
              kDefaultLinkMonitorTechnologies,
          mp_no_auto_connect_technologies :=
            got (si_GetString I storage kStorageId ''NoAutoConnectTechnologies'') [],
          mp_portal_url := got (si_GetString I storage kStorageId ''PortalURL'') kDefaultURL,
          mp_portal_check_interval_seconds :=
            (case si_GetString I storage kStorageId ''PortalCheckInterval'' of
               None \<Rightarrow> kDefaultCheckIntervalSeconds
             | Some check_interval \<Rightarrow> got (string_to_int check_interval) kDefaultCheckIntervalSeconds),
          mp_prohibited_technologies :=
            got (si_GetString I storage kStorageId ''ProhibitedTechnologies'') []\<rparr>,
        DhcpProperties_Load I storage kStorageId dhcp))"

text \<open>The writes before \<open>Flush\<close>; \<open>None\<close> is a failed \<open>CHECK\<close> in the DHCP properties.\<close>

definition save_properties ::
    "'s store_interface \<Rightarrow> (int \<Rightarrow> string) \<Rightarrow> string \<Rightarrow> manager_properties \<Rightarrow> 's \<Rightarrow> 's" where
  "save_properties I int_to_string friendly_name p storage =
     (let st = storage;
          st = snd (si_SetBool I st kStorageId ''ArpGateway'' (mp_arp_gateway p));
          st = snd (si_SetString I st kStorageId ''HostName'' (mp_host_name p));
          st = snd (si_SetString I st kStorageId ''Name'' friendly_name);
          st = snd (si_SetBool I st kStorageId ''OfflineMode'' (mp_offline_mode p));
          st = snd (si_SetString I st kStorageId ''CheckPortalList'' (mp_check_portal_list p));
          st = snd (si_SetInt I st kStorageId ''ConnectionIdSalt'' (mp_connection_id_salt p));
          st = snd (si_SetString I st kStorageId ''IgnoredDNSSearchPaths'' (mp_ignored_dns_search_paths p));
          st = snd (si_SetString I st kStorageId ''LinkMonitorTechnologies'' (mp_link_monitor_technologies p));
          st = snd (si_SetString I st kStorageId ''NoAutoConnectTechnologies''
                 (mp_no_auto_connect_technologies p));
          st = snd (si_SetString I st kStorageId ''PortalURL'' (mp_portal_url p));
          st = snd (si_SetString I st kStorageId ''PortalCheckInterval''
                 (int_to_string (mp_portal_check_interval_seconds p)))
      in snd (si_SetString I st kStorageId ''ProhibitedTechnologies'' (mp_prohibited_technologies p)))"

definition DefaultProfile_Save ::
    "'s store_interface \<Rightarrow> (int \<Rightarrow> string) \<Rightarrow> 's profile \<Rightarrow> manager_properties \<Rightarrow> any_dict \<Rightarrow> 's option" where
  "DefaultProfile_Save I int_to_string pr p dhcp =
     DhcpProperties_Save I dhcp kStorageId
       (save_properties I int_to_string (GetFriendlyName pr) p (pr_storage pr))"

subsection \<open>Round trip\<close>

definition manager_tags :: "(string \<times> nat) list" where
  "manager_tags =
     [(''ArpGateway'', 0), (''HostName'', 7), (''Name'', 7), (''OfflineMode'', 0), (''CheckPortalList'', 7),
      (''ConnectionIdSalt'', 2), (''IgnoredDNSSearchPaths'', 7), (''LinkMonitorTechnologies'', 7),
      (''NoAutoConnectTechnologies'', 7), (''PortalURL'', 7), (''PortalCheckInterval'', 7),
      (''ProhibitedTechnologies'', 7)]"

definition manager_stored ::
    "(int \<Rightarrow> string) \<Rightarrow> string \<Rightarrow> manager_properties \<Rightarrow> (string \<times> any_value option) list" where
  "manager_stored int_to_string friendly_name p =
     [(''ProhibitedTechnologies'', Some (AnyString (mp_prohibited_technologies p))),
      (''PortalCheckInterval'', Some (AnyString (int_to_string (mp_portal_check_interval_seconds p)))),
      (''PortalURL'', Some (AnyString (mp_portal_url p))),
      (''NoAutoConnectTechnologies'', Some (AnyString (mp_no_auto_connect_technologies p))),
      (''LinkMonitorTechnologies'', Some (AnyString (mp_link_monitor_technologies p))),
      (''IgnoredDNSSearchPaths'', Some (AnyString (mp_ignored_dns_search_paths p))),
      (''ConnectionIdSalt'', Some (AnyInt (mp_connection_id_salt p))),
      (''CheckPortalList'', Some (AnyString (mp_check_portal_list p))),
      (''OfflineMode'', Some (AnyBool (mp_offline_mode p))),
      (''Name'', Some (AnyString friendly_name)),
      (''HostName'', Some (AnyString (mp_host_name p))),
      (''ArpGateway'', Some (AnyBool (mp_arp_gateway p)))]"

text \<open>The group has no value of another type under one of the keys.\<close>

definition global_writable :: "settings_view \<Rightarrow> bool" where
  "global_writable w \<longleftrightarrow> (\<forall>(k, t) \<in> set manager_tags. slot w kStorageId k t) \<and> dhcp_slots w kStorageId"

context store_laws
begin

lemma view_save_properties:
  assumes "global_writable (view st)"
  shows "view (save_properties I int_to_string friendly_name p st) =
    put_all kStorageId (manager_stored int_to_string friendly_name p) (view st)"
proof -
  from assms have s:
    "slot (view st) kStorageId ''ArpGateway'' 0" "slot (view st) kStorageId ''HostName'' 7"
    "slot (view st) kStorageId ''Name'' 7" "slot (view st) kStorageId ''OfflineMode'' 0"
    "slot (view st) kStorageId ''CheckPortalList'' 7" "slot (view st) kStorageId ''ConnectionIdSalt'' 2"
    "slot (view st) kStorageId ''IgnoredDNSSearchPaths'' 7"
    "slot (view st) kStorageId ''LinkMonitorTechnologies'' 7"
    "slot (view st) kStorageId ''NoAutoConnectTechnologies'' 7" "slot (view st) kStorageId ''PortalURL'' 7"
    "slot (view st) kStorageId ''PortalCheckInterval'' 7"
    "slot (view st) kStorageId ''ProhibitedTechnologies'' 7"
    by (simp_all add: global_writable_def manager_tags_def)
  show ?thesis
    unfolding save_properties_def Let_def manager_stored_def put_all.simps
    by (rule put_steps refl | use s in \<open>simp; fail\<close>)+
qed

lemma dhcp_slots_put_all:
  assumes "map_of kvs ''DHCPProperty.Hostname'' = None" "map_of kvs ''DHCPProperty.VendorClass'' = None"
  shows "dhcp_slots (put_all sid kvs w) g = dhcp_slots w g"
  using assms by (simp add: dhcp_slots_def slot_put_all)

lemma DefaultProfile_Save_holds:
  assumes wr: "global_writable (view (pr_storage pr))" and dhcp: "dhcp_wf dhcp"
  obtains st where "DefaultProfile_Save I int_to_string pr p dhcp = Some st"
    and "\<And>k v. map_of (manager_stored int_to_string (GetFriendlyName pr) p) k = Some v \<Longrightarrow>
      view st kStorageId k = v"
    and "map_of (DhcpProperties_Load I st kStorageId d) = map_of dhcp"
proof -
  let ?st = "save_properties I int_to_string (GetFriendlyName pr) p (pr_storage pr)"
  have view: "view ?st =
      put_all kStorageId (manager_stored int_to_string (GetFriendlyName pr) p) (view (pr_storage pr))"
    by (rule view_save_properties [OF wr])
  have "dhcp_slots (view ?st) kStorageId"
    unfolding view
    by (subst dhcp_slots_put_all) (use wr in \<open>simp_all add: manager_stored_def global_writable_def\<close>)
  from view_dhcp_save [OF dhcp this] obtain st where
    st: "DhcpProperties_Save I dhcp kStorageId ?st = Some st"
      "view st = view_put (view_put (view ?st) kStorageId ''DHCPProperty.Hostname'' (map_of dhcp ''Hostname''))
        kStorageId ''DHCPProperty.VendorClass'' (map_of dhcp ''VendorClass'')" .
  show thesis
  proof (rule that)
    show "DefaultProfile_Save I int_to_string pr p dhcp = Some st"
      by (simp add: DefaultProfile_Save_def st)
    show "view st kStorageId k = v"
      if "map_of (manager_stored int_to_string (GetFriendlyName pr) p) k = Some v" for k v
    proof -
      have "k \<noteq> ''DHCPProperty.Hostname''" "k \<noteq> ''DHCPProperty.VendorClass''"
        using that by (auto simp: manager_stored_def)
      then show ?thesis using that by (simp add: st view put_all_apply)
    qed
    show "map_of (DhcpProperties_Load I st kStorageId d) = map_of dhcp"
      by (rule dhcp_load_save [OF dhcp]) (simp_all add: st)
  qed
qed

lemma got_string: "view s g k = Some (AnyString v) \<Longrightarrow> got (si_GetString I s g k) v0 = v"
  by (simp add: get_string)

lemma LoadManagerProperties_stored:
  assumes "\<And>k v. map_of (manager_stored int_to_string friendly_name p) k = Some v \<Longrightarrow>
      view st kStorageId k = v"
    and "string_to_int (int_to_string (mp_portal_check_interval_seconds p)) =
      Some (mp_portal_check_interval_seconds p)"
  shows "fst (LoadManagerProperties I string_to_int random_salt st (p0, dhcp)) =
    p\<lparr>mp_country := mp_country p0, mp_prepend_dns_servers := mp_prepend_dns_servers p0,
      mp_minimum_mtu := mp_minimum_mtu p0\<rparr>"
proof -
  note k = assms(1) [of "''ArpGateway''"] assms(1) [of "''HostName''"] assms(1) [of "''OfflineMode''"]
    assms(1) [of "''CheckPortalList''"] assms(1) [of "''ConnectionIdSalt''"]
    assms(1) [of "''IgnoredDNSSearchPaths''"] assms(1) [of "''LinkMonitorTechnologies''"]
    assms(1) [of "''NoAutoConnectTechnologies''"] assms(1) [of "''PortalURL''"]
    assms(1) [of "''PortalCheckInterval''"] assms(1) [of "''ProhibitedTechnologies''"]
  show ?thesis
    using assms(2) by (simp add: LoadManagerProperties_def k manager_stored_def get_laws)
qed

end

text \<open>
  The manager's properties and the global DHCP properties written by \<open>DefaultProfile::Save\<close> are
  the ones \<open>LoadManagerProperties\<close> reads back at the next start: none is replaced by a default or by a
  new random salt. Only the country, the prepended DNS servers and the minimum MTU are not persistent.
\<close>

theorem DefaultProfile_Load_Save:
  fixes pr :: "json_store profile"
  assumes wr: "global_writable (json_view (pr_storage pr))" and dhcp: "dhcp_wf dhcp"
    and conv: "string_to_int (int_to_string (mp_portal_check_interval_seconds p)) =
      Some (mp_portal_check_interval_seconds p)"
  shows "\<exists>st. DefaultProfile_Save JsonStore_interface int_to_string pr p dhcp = Some st \<and>
    (case LoadManagerProperties JsonStore_interface string_to_int random_salt st (p0, dhcp0) of
       (p', dhcp') \<Rightarrow>
         p' = p\<lparr>mp_country := mp_country p0, mp_prepend_dns_servers := mp_prepend_dns_servers p0,
                mp_minimum_mtu := mp_minimum_mtu p0\<rparr> \<and>
         map_of dhcp' = map_of dhcp)"
proof -
  obtain st where st: "DefaultProfile_Save JsonStore_interface int_to_string pr p dhcp = Some st"
      "\<And>k v. map_of (manager_stored int_to_string (GetFriendlyName pr) p) k = Some v \<Longrightarrow>
        json_view st kStorageId k = v"
      "map_of (DhcpProperties_Load JsonStore_interface st kStorageId dhcp0) = map_of dhcp"
    by (rule js.DefaultProfile_Save_holds [OF wr dhcp]) blast
  have "snd (LoadManagerProperties JsonStore_interface string_to_int random_salt st (p0, dhcp0)) =
      DhcpProperties_Load JsonStore_interface st kStorageId dhcp0"
    by (simp add: LoadManagerProperties_def)
  moreover have "fst (LoadManagerProperties JsonStore_interface string_to_int random_salt st (p0, dhcp0)) =
      p\<lparr>mp_country := mp_country p0, mp_prepend_dns_servers := mp_prepend_dns_servers p0,
        mp_minimum_mtu := mp_minimum_mtu p0\<rparr>"
    by (rule js.LoadManagerProperties_stored [where int_to_string = int_to_string and p = p]) (fact st(2), fact conv)
  ultimately show ?thesis using st by (auto simp: split_def)
qed

definition demo_properties :: manager_properties where
  "demo_properties = \<lparr>mp_offline_mode = True, mp_check_portal_list = ''wifi'', mp_country = [],
     mp_portal_check_interval_seconds = 60, mp_portal_url = ''u'', mp_host_name = ''h'',
     mp_arp_gateway = False, mp_link_monitor_technologies = [], mp_no_auto_connect_technologies = [],
     mp_prohibited_technologies = [], mp_ignored_dns_search_paths = [], mp_prepend_dns_servers = [],
     mp_connection_id_salt = 5, mp_minimum_mtu = 0\<rparr>"

theorem DefaultProfile_Load_Save_witness:
  "\<exists>st. DefaultProfile_Save JsonStore_interface (\<lambda>_. ''60'') (demo_profile []) demo_properties [] = Some st \<and>
    mp_connection_id_salt (fst (LoadManagerProperties JsonStore_interface (\<lambda>_. Some 60) 99 st
      (demo_properties\<lparr>mp_connection_id_salt := 0\<rparr>, []))) = 5"
proof -
  have wr: "global_writable (json_view (pr_storage (demo_profile [])))"
    by (simp add: global_writable_def manager_tags_def dhcp_slots_def slot_def demo_profile_def
        json_view_def demo_store_def)
  have dhcp: "dhcp_wf []" by (simp add: dhcp_wf_def)
  have "(\<lambda>_. Some 60) ((\<lambda>_. ''60'') (mp_portal_check_interval_seconds demo_properties)) =
      Some (mp_portal_check_interval_seconds demo_properties)"
    by (simp add: demo_properties_def)
  note roundtrip = DefaultProfile_Load_Save [OF wr dhcp, where int_to_string = "\<lambda>_. ''60''"
      and string_to_int = "\<lambda>_. Some 60" and p = demo_properties and random_salt = 99
      and ?p0.0 = "demo_properties\<lparr>mp_connection_id_salt := 0\<rparr>" and ?dhcp0.0 = "[]", OF this]
  then show ?thesis by (auto simp: split_def demo_properties_def)
qed

end
