(* ===== verification/Device.thy ===== *)
theory Device
  imports Profile
begin

text \<open>
  Model of \<open>device.cc\<close>, the part every technology shares: enabling and disabling, the byte counters
  that survive a restart, the selected service and the activities on its connection, link
  reliability, and portal detection. \<open>Start\<close> and \<open>Stop\<close> are virtual and complete later through
  \<open>OnEnabledStateChanged\<close>; what the device asks of its environment is a list of events. The selected
  service is known by its serial number; operations that change it take and return the service.
\<close>

datatype dev_event =
    EmitPoweredChanged bool
  | EmitSelectedServiceChanged string
  | EmitIPConfigsChanged
  | UpdateEnabledTechnologies
  | Manager_UpdateDevice
  | StartDevice
  | StopDevice
  | ClearInterfaceUp
  | DisableIPv6
  | ReleaseIP nat
  | RenewIP nat
  | RunCallback "(error_type \<times> string) option"
  | PostReliableLinkTask int
  | StartDNSTest

record device =
  dv_link_name :: string
  dv_rpc_identifier :: string
  dv_hardware_address :: string
  dv_interface_index :: int
  dv_technology :: technology
  dv_enabled :: bool
  dv_enabled_persistent :: bool
  dv_enabled_pending :: bool
  dv_running :: bool
  dv_receive_byte_offset :: u64
  dv_transmit_byte_offset :: u64
  dv_selected_service :: "nat option"
  dv_connection :: "nat option"
  dv_ipconfig :: "nat option"
  dv_ip6config :: "nat option"
  dv_dhcpv6_config :: "nat option"
  dv_portal_detector :: bool
  dv_portal_attempts_to_online :: int
  dv_connection_tester :: bool
  dv_connection_diagnostics :: bool
  dv_link_monitor :: bool
  dv_dns_server_tester :: bool
  dv_ipv6_dns_timer :: bool
  dv_reliable_link_pending :: bool
  dv_last_link_monitor_failed_time :: int
  dv_is_loose_routing :: bool
  dv_is_multi_homed :: bool
  dv_reverse_path_loose :: bool
  dv_arp_filtering :: bool
  dv_events :: "dev_event list"

definition kLinkUnreliableThresholdSeconds :: int where "kLinkUnreliableThresholdSeconds = 60 * 60"
definition kHardwareAddressLength :: nat where "kHardwareAddressLength = 6"

definition note_event :: "dev_event \<Rightarrow> device \<Rightarrow> device" where
  "note_event e d = d\<lparr>dv_events := dv_events d @ [e]\<rparr>"

text \<open>The kernel's counters of the interface, received then transmitted (\<open>DeviceInfo::GetByteCounts\<close>).\<close>

type_synonym byte_counts = "u64 \<times> u64"

definition Device_new ::
    "byte_counts \<Rightarrow> string \<Rightarrow> string \<Rightarrow> string \<Rightarrow> int \<Rightarrow> technology \<Rightarrow> device" where
  "Device_new counts link_name rpc hw_address interface_index tech =
     \<lparr>dv_link_name = link_name, dv_rpc_identifier = rpc, dv_hardware_address = hw_address,
      dv_interface_index = interface_index, dv_technology = tech, dv_enabled = False,
      dv_enabled_persistent = True, dv_enabled_pending = False, dv_running = False,
      dv_receive_byte_offset = fst counts, dv_transmit_byte_offset = snd counts,
      dv_selected_service = None, dv_connection = None, dv_ipconfig = None, dv_ip6config = None,
      dv_dhcpv6_config = None, dv_portal_detector = False, dv_portal_attempts_to_online = 0,
      dv_connection_tester = False, dv_connection_diagnostics = False, dv_link_monitor = False,
      dv_dns_server_tester = False, dv_ipv6_dns_timer = False, dv_reliable_link_pending = False,
      dv_last_link_monitor_failed_time = 0, dv_is_loose_routing = False, dv_is_multi_homed = False,
      dv_reverse_path_loose = False, dv_arp_filtering = False, dv_events = []\<rparr>"

subsection \<open>Persistence and byte counters\<close>

text \<open>\<open>ControlInterface::RpcIdToStorageId\<close>: the leading slash goes, the others become underscores.\<close>

definition RpcIdToStorageId :: "string \<Rightarrow> string" where
  "RpcIdToStorageId rpc_id = map (\<lambda>c. if c = CHR ''/'' then CHR ''_'' else c) (tl rpc_id)"

text \<open>Without an underscore the position is \<open>npos\<close>, whose successor is 0: the whole text is replaced.\<close>

definition Device_GetStorageIdentifier :: "device \<Rightarrow> string" where
  "Device_GetStorageIdentifier d =
     (case split_at CHR ''_'' (RpcIdToStorageId (dv_rpc_identifier d)) of
        Some (prefix, _) \<Rightarrow> prefix @ ''_'' @ dv_hardware_address d
      | None \<Rightarrow> dv_hardware_address d)"

definition GetReceiveByteCount :: "byte_counts \<Rightarrow> device \<Rightarrow> u64" where
  "GetReceiveByteCount counts d = fst counts - dv_receive_byte_offset d"

definition GetTransmitByteCount :: "byte_counts \<Rightarrow> device \<Rightarrow> u64" where
  "GetTransmitByteCount counts d = snd counts - dv_transmit_byte_offset d"

definition Device_Load :: "'s store_interface \<Rightarrow> byte_counts \<Rightarrow> 's \<Rightarrow> device \<Rightarrow> bool \<times> device" where
  "Device_Load I counts storage d =
     (let sid = Device_GetStorageIdentifier d
      in if \<not> si_ContainsGroup I storage sid then (False, d)
         else (True, d\<lparr>
           dv_enabled_persistent := got (si_GetBool I storage sid ''Powered'') True,
           dv_receive_byte_offset :=
             (case si_GetUint64 I storage sid ''ReceiveByteCount'' of
                Some profile_byte_count \<Rightarrow> fst counts - profile_byte_count
              | None \<Rightarrow> dv_receive_byte_offset d),
           dv_transmit_byte_offset :=
             (case si_GetUint64 I storage sid ''TransmitByteCount'' of
                Some profile_byte_count \<Rightarrow> snd counts - profile_byte_count
              | None \<Rightarrow> dv_transmit_byte_offset d)\<rparr>))"

definition Device_Save :: "'s store_interface \<Rightarrow> byte_counts \<Rightarrow> device \<Rightarrow> 's \<Rightarrow> 's" where
  "Device_Save I counts d storage =
     (let sid = Device_GetStorageIdentifier d; st = storage;
          st = snd (si_SetBool I st sid ''Powered'' (dv_enabled_persistent d));
          st = snd (si_SetUint64 I st sid ''ReceiveByteCount'' (GetReceiveByteCount counts d))
      in snd (si_SetUint64 I st sid ''TransmitByteCount'' (GetTransmitByteCount counts d)))"

definition ResetByteCounters :: "byte_counts \<Rightarrow> device \<Rightarrow> device" where
  "ResetByteCounters counts d =
     note_event Manager_UpdateDevice
       (d\<lparr>dv_receive_byte_offset := fst counts, dv_transmit_byte_offset := snd counts\<rparr>)"

subsection \<open>Activities and the selected service\<close>

definition Device_IsConnected :: "device \<Rightarrow> service \<Rightarrow> bool" where
  "Device_IsConnected d sel \<longleftrightarrow> dv_selected_service d \<noteq> None \<and> IsConnected sel"

definition IsConnectedToService :: "device \<Rightarrow> service \<Rightarrow> service \<Rightarrow> bool" where
  "IsConnectedToService d sel sv \<longleftrightarrow>
     dv_selected_service d = Some (sv_serial_number sv) \<and> Device_IsConnected d sel"

text \<open>Traffic monitoring is off in the base class, so \<open>StopTrafficMonitor\<close> does nothing.\<close>

definition StopAllActivities :: "device \<Rightarrow> device" where
  "StopAllActivities d =
     d\<lparr>dv_portal_detector := False, dv_connection_tester := False, dv_connection_diagnostics := False,
       dv_link_monitor := False, dv_dns_server_tester := False, dv_ipv6_dns_timer := False\<rparr>"

definition GetSelectedServiceRpcIdentifier :: "(nat \<Rightarrow> string) \<Rightarrow> device \<Rightarrow> string" where
  "GetSelectedServiceRpcIdentifier service_rpc d =
     (case dv_selected_service d of None \<Rightarrow> ''/'' | Some n \<Rightarrow> service_rpc n)"

definition SelectService ::
    "'s platform \<Rightarrow> (nat \<Rightarrow> string) \<Rightarrow> nat option \<Rightarrow> device \<times> service \<times> 's world \<Rightarrow>
      device \<times> service \<times> 's world" where
  "SelectService P service_rpc selected st =
     (case st of (d, sel, w) \<Rightarrow>
        if dv_selected_service d = selected then (d, sel, w)
        else
          let (d, sel, w) =
                (if dv_selected_service d \<noteq> None
                 then let (sel, w) =
                            (if sv_state sel \<noteq> kStateFailure then SetState P kStateIdle sel w else (sel, w));
                          (sel, w) = SetConnection None sel w;
                          sel = sel\<lparr>sv_unreliable := False\<rparr>
                      in (StopAllActivities (d\<lparr>dv_reliable_link_pending := False\<rparr>), sel, w)
                 else (d, sel, w));
              d = d\<lparr>dv_last_link_monitor_failed_time := 0, dv_selected_service := selected\<rparr>
          in (note_event (EmitSelectedServiceChanged (GetSelectedServiceRpcIdentifier service_rpc d)) d,
              sel, w))"

definition DestroyConnection ::
    "device \<times> service \<times> 's world \<Rightarrow> device \<times> service \<times> 's world" where
  "DestroyConnection st =
     (case st of (d, sel, w) \<Rightarrow>
        let d = StopAllActivities d;
            (sel, w) = (if dv_selected_service d \<noteq> None then SetConnection None sel w else (sel, w))
        in (d\<lparr>dv_connection := None\<rparr>, sel, w))"

definition release_ip :: "nat option \<Rightarrow> device \<Rightarrow> device" where
  "release_ip config d = (case config of None \<Rightarrow> d | Some i \<Rightarrow> note_event (ReleaseIP i) d)"

definition DestroyIPConfig ::
    "device \<times> service \<times> 's world \<Rightarrow> device \<times> service \<times> 's world" where
  "DestroyIPConfig st =
     (case st of (d, sel, w) \<Rightarrow>
        let d = note_event DisableIPv6 d;
            ipconfig_changed = (dv_ipconfig d \<noteq> None \<or> dv_ip6config d \<noteq> None \<or> dv_dhcpv6_config d \<noteq> None);
            d = (release_ip (dv_ipconfig d) d)\<lparr>dv_ipconfig := None\<rparr>;
            d = (if dv_ip6config d \<noteq> None then d\<lparr>dv_ipv6_dns_timer := False, dv_ip6config := None\<rparr> else d);
            d = (release_ip (dv_dhcpv6_config d) d)\<lparr>dv_dhcpv6_config := None\<rparr>;
            d = (if ipconfig_changed then note_event EmitIPConfigsChanged d else d)
        in DestroyConnection (d, sel, w))"

definition DropConnection ::
    "'s platform \<Rightarrow> (nat \<Rightarrow> string) \<Rightarrow> device \<times> service \<times> 's world \<Rightarrow> device \<times> service \<times> 's world" where
  "DropConnection P service_rpc st = SelectService P service_rpc None (DestroyIPConfig st)"

definition SetServiceState ::
    "'s platform \<Rightarrow> connect_state \<Rightarrow> device \<Rightarrow> service \<Rightarrow> 's world \<Rightarrow> service \<times> 's world" where
  "SetServiceState P state d sel w = (if dv_selected_service d \<noteq> None then SetState P state sel w else (sel, w))"

definition SetServiceFailure ::
    "'s platform \<Rightarrow> connect_failure \<Rightarrow> device \<Rightarrow> service \<Rightarrow> 's world \<Rightarrow> service \<times> 's world" where
  "SetServiceFailure P failure d sel w =
     (if dv_selected_service d \<noteq> None then SetFailure P failure sel w else (sel, w))"

definition SetServiceFailureSilent ::
    "'s platform \<Rightarrow> connect_failure \<Rightarrow> device \<Rightarrow> service \<Rightarrow> 's world \<Rightarrow> service \<times> 's world" where
  "SetServiceFailureSilent P failure d sel w =
     (if dv_selected_service d \<noteq> None then SetFailureSilent P failure sel w else (sel, w))"

definition OnIPConfigFailure ::
    "'s platform \<Rightarrow> device \<Rightarrow> service \<Rightarrow> 's world \<Rightarrow> service \<times> 's world" where
  "OnIPConfigFailure P d sel w =
     (if dv_selected_service d \<noteq> None then DisconnectWithFailure P kFailureDHCP sel w else (sel, w))"

definition RenewDHCPLease :: "device \<Rightarrow> device" where
  "RenewDHCPLease d =
     (let d = (case dv_ipconfig d of None \<Rightarrow> d | Some i \<Rightarrow> note_event (RenewIP i) d);
          d = (if dv_ip6config d \<noteq> None
               then note_event EmitIPConfigsChanged (d\<lparr>dv_ipv6_dns_timer := False, dv_ip6config := None\<rparr>)
               else d)
      in case dv_dhcpv6_config d of None \<Rightarrow> d | Some i \<Rightarrow> note_event (RenewIP i) d)"

subsection \<open>Link reliability\<close>

definition OnConnected :: "device \<Rightarrow> service \<Rightarrow> device" where
  "OnConnected d sel =
     (if sv_unreliable sel
      then note_event (PostReliableLinkTask (kLinkUnreliableThresholdSeconds * 1000))
             (d\<lparr>dv_reliable_link_pending := True\<rparr>)
      else d)"

definition OnUnreliableLink :: "device \<Rightarrow> service \<Rightarrow> device \<times> service" where
  "OnUnreliableLink d sel = (d\<lparr>dv_reliable_link_pending := False\<rparr>, sel\<lparr>sv_unreliable := True\<rparr>)"

definition OnReliableLink :: "service \<Rightarrow> service" where
  "OnReliableLink sel = sel\<lparr>sv_unreliable := False\<rparr>"

text \<open>\<open>now\<close> is the boot time in seconds.\<close>

definition OnLinkMonitorFailure :: "int \<Rightarrow> device \<Rightarrow> service \<Rightarrow> device \<times> service" where
  "OnLinkMonitorFailure now d sel =
     (if dv_selected_service d = None then (d, sel)
      else let (d, sel) =
                 (if dv_last_link_monitor_failed_time d \<noteq> 0 \<and>
                     now - dv_last_link_monitor_failed_time d < kLinkUnreliableThresholdSeconds
                  then OnUnreliableLink d sel else (d, sel))
           in (d\<lparr>dv_last_link_monitor_failed_time := now\<rparr>, sel))"

text \<open>\<open>sel\<close> is the object of the selected service, where the caller holds it.\<close>

definition Device_OnAfterResume :: "device \<Rightarrow> service option \<Rightarrow> device \<times> service option" where
  "Device_OnAfterResume d sel =
     (let d = RenewDHCPLease d;
          (d, sel) = (if dv_selected_service d \<noteq> None
                      then (d\<lparr>dv_reliable_link_pending := False\<rparr>,
                            map_option (\<lambda>sv. sv\<lparr>sv_unreliable := False\<rparr>) sel)
                      else (d, sel))
      in (d\<lparr>dv_last_link_monitor_failed_time := 0\<rparr>, sel))"

subsection \<open>Routing flags\<close>

text \<open>
  \<open>dv_reverse_path_loose\<close> and \<open>dv_arp_filtering\<close> are the kernel flags that \<open>SetIPFlag\<close> writes, as they
  are after successful writes.
\<close>

definition Device_Initialize :: "device \<Rightarrow> device" where
  "Device_Initialize d = d\<lparr>dv_arp_filtering := True\<rparr>"

definition SetLooseRouting :: "bool \<Rightarrow> device \<Rightarrow> device" where
  "SetLooseRouting is_loose_routing d =
     (if is_loose_routing = dv_is_loose_routing d then d
      else let d = d\<lparr>dv_is_loose_routing := is_loose_routing\<rparr>
           in if dv_is_multi_homed d then d else d\<lparr>dv_reverse_path_loose := is_loose_routing\<rparr>)"

definition SetIsMultiHomed :: "bool \<Rightarrow> device \<Rightarrow> device" where
  "SetIsMultiHomed is_multi_homed d =
     (if is_multi_homed = dv_is_multi_homed d then d
      else let d = d\<lparr>dv_is_multi_homed := is_multi_homed, dv_arp_filtering := is_multi_homed\<rparr>
           in if dv_is_loose_routing d then d else d\<lparr>dv_reverse_path_loose := is_multi_homed\<rparr>)"

subsection \<open>Portal detection\<close>

text \<open>
  What the device reads of its connection, of the manager and of a new \<open>PortalDetector\<close>:
  \<open>pe_start_ok\<close> and \<open>pe_restart_ok\<close> are the results of \<open>Start\<close> and \<open>StartAfterDelay\<close>, which fail
  on a bad URL; \<open>pe_in_progress\<close> is its \<open>IsInProgress\<close>.
\<close>

record portal_env =
  pe_is_default :: bool
  pe_is_ipv6 :: bool
  pe_check_interval :: int
  pe_detection_enabled :: bool
  pe_start_ok :: bool
  pe_restart_ok :: bool
  pe_in_progress :: bool
  pe_diagnostics_ok :: bool

text \<open>\<open>None\<close> is the failed \<open>CHECK\<close> of \<open>portal_detector_\<close>.\<close>

definition SetServiceConnectedState ::
    "'s platform \<Rightarrow> portal_env \<Rightarrow> connect_state \<Rightarrow> device \<times> service \<times> 's world \<Rightarrow>
      (device \<times> service \<times> 's world) option" where
  "SetServiceConnectedState P env state st =
     (case st of (d, sel, w) \<Rightarrow>
        if dv_selected_service d = None \<or> \<not> IsConnected sel then Some (d, sel, w)
        else if state = kStatePortal \<and> pe_is_default env \<and> pe_check_interval env \<noteq> 0
        then if \<not> dv_portal_detector d then None
             else if \<not> pe_restart_ok env
             then (case SetServiceState P kStateOnline d sel w of
                     (sel, w) \<Rightarrow> Some (d\<lparr>dv_portal_detector := False\<rparr>, sel, w))
             else (case SetServiceState P state d sel w of (sel, w) \<Rightarrow> Some (d, sel, w))
        else let d = d\<lparr>dv_portal_detector := False\<rparr>
             in (case SetServiceState P state d sel w of (sel, w) \<Rightarrow> Some (d, sel, w)))"

definition StartPortalDetection ::
    "'s platform \<Rightarrow> portal_env \<Rightarrow> device \<times> service \<times> 's world \<Rightarrow>
      (bool \<times> device \<times> service \<times> 's world) option" where
  "StartPortalDetection P env st =
     (case st of (d, sel, w) \<Rightarrow>
        if IsPortalDetectionDisabled sel \<or> (IsPortalDetectionAuto sel \<and> \<not> pe_detection_enabled env) \<or>
           sv_proxy_config sel \<noteq> []
        then map_option (Pair False) (SetServiceConnectedState P env kStateOnline (d, sel, w))
        else let d = d\<lparr>dv_portal_detector := True\<rparr>
             in if \<not> pe_start_ok env
                then map_option (Pair False) (SetServiceConnectedState P env kStateOnline (d, sel, w))
                else Some (True, d, sel, w))"

definition RequestPortalDetection ::
    "'s platform \<Rightarrow> portal_env \<Rightarrow> device \<times> service \<times> 's world \<Rightarrow>
      (bool \<times> device \<times> service \<times> 's world) option" where
  "RequestPortalDetection P env st =
     (case st of (d, sel, w) \<Rightarrow>
        if dv_selected_service d = None \<or> dv_connection d = None \<or> sv_state sel \<noteq> kStatePortal \<or>
           \<not> pe_is_default env
        then Some (False, d, sel, w)
        else if dv_portal_detector d \<and> pe_in_progress env then Some (True, d, sel, w)
        else StartPortalDetection P env (d, sel, w))"

text \<open>\<open>PortalDetector::Result\<close>, with the metric class of the result that the callback reads.\<close>

record portal_result =
  res_final :: bool
  res_success :: bool
  res_phase :: string
  res_status :: string
  res_num_attempts :: int
  res_dns_problem :: bool

definition PortalDetectorCallback ::
    "'s platform \<Rightarrow> portal_env \<Rightarrow> portal_result \<Rightarrow> device \<times> service \<times> 's world \<Rightarrow>
      (device \<times> service \<times> 's world) option" where
  "PortalDetectorCallback P env r st =
     (case st of (d, sel, w) \<Rightarrow>
        if \<not> res_final r then Some (d, sel, w)
        else
          let d = d\<lparr>dv_portal_attempts_to_online := dv_portal_attempts_to_online d + res_num_attempts r\<rparr>
          in if res_success r then SetServiceConnectedState P env kStateOnline (d, sel, w)
             else
               let (sel, w) = (if dv_selected_service d \<noteq> None
                               then SetPortalDetectionFailure (res_phase r) (res_status r) sel w
                               else (sel, w))
               in case SetServiceConnectedState P env kStatePortal (d, sel, w) of
                    None \<Rightarrow> None
                  | Some (d, sel, w) \<Rightarrow>
                      let d = d\<lparr>dv_connection_diagnostics := pe_diagnostics_ok env\<rparr>
                      in if pe_is_ipv6 env \<or> \<not> res_dns_problem r \<or> dv_dns_server_tester d
                         then Some (d, sel, w)
                         else Some (note_event StartDNSTest (d\<lparr>dv_dns_server_tester := True\<rparr>), sel, w))"

subsection \<open>Enabling and disabling\<close>

text \<open>The callback of \<open>Start\<close> and \<open>Stop\<close>; \<open>err\<close> is \<open>None\<close> on success.\<close>

definition OnEnabledStateChanged :: "(error_type \<times> string) option \<Rightarrow> device \<Rightarrow> device" where
  "OnEnabledStateChanged err d =
     (let d = (if err = None
               then note_event (EmitPoweredChanged (dv_enabled_pending d))
                      (note_event UpdateEnabledTechnologies (d\<lparr>dv_enabled := dv_enabled_pending d\<rparr>))
               else d);
          d = d\<lparr>dv_enabled_pending := dv_enabled d\<rparr>
      in note_event (RunCallback err) d)"

definition SetEnabledUnchecked ::
    "'s platform \<Rightarrow> (nat \<Rightarrow> string) \<Rightarrow> bool \<Rightarrow> device \<times> service \<times> 's world \<Rightarrow>
      device \<times> service \<times> 's world" where
  "SetEnabledUnchecked P service_rpc enable st =
     (case st of (d, sel, w) \<Rightarrow>
        let d = d\<lparr>dv_enabled_pending := enable\<rparr>
        in if enable then (note_event StartDevice (d\<lparr>dv_running := True\<rparr>), sel, w)
           else (case DropConnection P service_rpc (d\<lparr>dv_running := False\<rparr>, sel, w) of
                   (d, sel, w) \<Rightarrow> (note_event StopDevice (note_event ClearInterfaceUp d), sel, w)))"

text \<open>The first component is the error reported at once; \<open>prohibited\<close> is \<open>IsTechnologyProhibited\<close>.\<close>

definition SetEnabledChecked ::
    "'s platform \<Rightarrow> (nat \<Rightarrow> string) \<Rightarrow> bool \<Rightarrow> bool \<Rightarrow> bool \<Rightarrow> device \<times> service \<times> 's world \<Rightarrow>
      (error_type \<times> string) option \<times> device \<times> service \<times> 's world" where
  "SetEnabledChecked P service_rpc prohibited enable persist st =
     (case st of (d, sel, w) \<Rightarrow>
        if enable \<and> prohibited
        then (Some (kPermissionDenied, ''The '' @ NameFromIdentifier (pf_tech P) (dv_technology d) @
                '' technology is prohibited''), d, sel, w)
        else if enable = dv_enabled d
        then if enable \<noteq> dv_enabled_pending d \<and> persist
             then (Some (kOperationFailed,
                     if enable then ''Cannot enable while the device is disabling.''
                     else ''Cannot disable while the device is enabling.''), d, sel, w)
             else (None, d, sel, w)
        else if dv_enabled_pending d = enable
        then (Some (kInProgress, ''Enable operation already in progress''), d, sel, w)
        else let d = (if persist then note_event Manager_UpdateDevice (d\<lparr>dv_enabled_persistent := enable\<rparr>)
                      else d)
             in (None, SetEnabledUnchecked P service_rpc enable (d, sel, w)))"

subsection \<open>Hardware addresses\<close>

text \<open>\<open>base::HexStringToBytes\<close> is an argument; it leaves the bytes read so far when it fails.\<close>

definition MakeHardwareAddressFromString :: "(string \<Rightarrow> bytes) \<Rightarrow> string \<Rightarrow> bytes" where
  "MakeHardwareAddressFromString hex_to_bytes address_string =
     (let address_bytes = hex_to_bytes (filter (\<lambda>c. c \<noteq> CHR '':'') address_string)
      in if length address_bytes \<noteq> kHardwareAddressLength then [] else address_bytes)"

definition hex_digit :: "nat \<Rightarrow> char" where
  "hex_digit n = char_of (if n < 10 then n + 48 else n + 87)"

definition hex_byte :: "u8 \<Rightarrow> string" where
  "hex_byte b = [hex_digit (unat b div 16), hex_digit (unat b mod 16)]"

text \<open>\<open>None\<close> is the failed \<open>CHECK\<close> of the length.\<close>

definition MakeStringFromHardwareAddress :: "bytes \<Rightarrow> string option" where
  "MakeStringFromHardwareAddress address_bytes =
     (if length address_bytes \<noteq> kHardwareAddressLength then None
      else Some (tl (concat (map (\<lambda>b. CHR '':'' # hex_byte b) address_bytes))))"

end
