(* ===== verification/Device_Proofs.thy ===== *)
theory Device_Proofs
  imports Device Service_Machine
begin

text \<open>
  Properties of devices: byte counters continue across a restart in 64-bit arithmetic, the
  enable and disable operations never block and do not overlap unless \<open>SetEnabledUnchecked\<close> is called around the
  check, a deselected service is left in a clean state, and portal detection settles a connected service.
\<close>

subsection \<open>Byte counters\<close>

definition device_slots :: "settings_view \<Rightarrow> string \<Rightarrow> bool" where
  "device_slots w sid \<longleftrightarrow> slot w sid ''Powered'' 0 \<and> slot w sid ''ReceiveByteCount'' 15 \<and>
     slot w sid ''TransmitByteCount'' 15"

context store_laws
begin

lemma view_Device_Save:
  assumes "device_slots (view st) (Device_GetStorageIdentifier d)"
  shows "view (Device_Save I counts d st) =
    put_all (Device_GetStorageIdentifier d)
      [(''TransmitByteCount'', Some (AnyUint64 (GetTransmitByteCount counts d))),
       (''ReceiveByteCount'', Some (AnyUint64 (GetReceiveByteCount counts d))),
       (''Powered'', Some (AnyBool (dv_enabled_persistent d)))] (view st)"
  using assms unfolding Device_Save_def Let_def put_all.simps device_slots_def
  by (intro put_steps refl) simp_all

lemma Device_Load_Save_fields:
  assumes "device_slots (view st) (Device_GetStorageIdentifier d)"
    and same: "Device_GetStorageIdentifier d0 = Device_GetStorageIdentifier d"
  shows "Device_Load I counts1 (Device_Save I counts0 d st) d0 =
    (True, d0\<lparr>dv_enabled_persistent := dv_enabled_persistent d,
      dv_receive_byte_offset := fst counts1 - GetReceiveByteCount counts0 d,
      dv_transmit_byte_offset := snd counts1 - GetTransmitByteCount counts0 d\<rparr>)"
proof -
  let ?st = "Device_Save I counts0 d st" and ?sid = "Device_GetStorageIdentifier d"
  note v = view_Device_Save [OF assms(1), of counts0]
  have "view ?st ?sid ''Powered'' = Some (AnyBool (dv_enabled_persistent d))" by (simp add: v)
  then have "si_ContainsGroup I ?st ?sid" by (rule contains_view)
  then show ?thesis by (simp add: Device_Load_def same get_laws v)
qed

end

text \<open>
  The byte counters of a device continue across a restart. After \<open>Device::Save\<close> and a later
  \<open>Device::Load\<close> of the same interface, possibly with the kernel's counters reset in between, the
  reported counts are the saved counts plus the bytes since the load, modulo \<open>2 ^ 64\<close> even where the
  offset rolls over below zero; the persistent enabled flag is restored as well.
\<close>

theorem Device_byte_counts_continue:
  assumes "device_slots (json_view st) (Device_GetStorageIdentifier d)"
    and "Device_GetStorageIdentifier d0 = Device_GetStorageIdentifier d"
  shows "case Device_Load JsonStore_interface at_load (Device_Save JsonStore_interface at_save d st) d0 of
    (ok, d') \<Rightarrow> ok \<and> dv_enabled_persistent d' = dv_enabled_persistent d \<and>
      GetReceiveByteCount now d' = GetReceiveByteCount at_save d + (fst now - fst at_load) \<and>
      GetTransmitByteCount now d' = GetTransmitByteCount at_save d + (snd now - snd at_load)"
  using js.Device_Load_Save_fields [OF assms, of at_load at_save]
  by (simp add: GetReceiveByteCount_def GetTransmitByteCount_def)

definition demo_device :: device where
  "demo_device = Device_new (0, 0) ''wlan0'' ''/device/wlan0'' ''aabbcc'' 3 kWifi"

theorem Device_byte_counts_continue_witness:
  "let st = Device_Save JsonStore_interface (500, 70) demo_device demo_store
   in GetReceiveByteCount (30, 5) (snd (Device_Load JsonStore_interface (10, 5) st demo_device)) = 520"
proof -
  have 1: "device_slots (json_view demo_store) (Device_GetStorageIdentifier demo_device)"
    by (simp add: device_slots_def slot_def json_view_def demo_store_def)
  have 2: "GetReceiveByteCount (500, 70) demo_device = 500"
    by (simp add: GetReceiveByteCount_def demo_device_def Device_new_def)
  from Device_byte_counts_continue [OF 1 refl, where at_load = "(10, 5)" and at_save = "(500, 70)"
      and now = "(30, 5)"] show ?thesis
    by (simp add: split_def Let_def 2)
qed

subsection \<open>Enabling and disabling\<close>

text \<open>The operations asked of the technology (\<open>Start\<close>, \<open>Stop\<close>) that have not reported back.\<close>

fun op_count :: "dev_event \<Rightarrow> int" where
  "op_count StartDevice = 1"
| "op_count StopDevice = 1"
| "op_count (RunCallback _) = -1"
| "op_count _ = 0"

definition outstanding :: "device \<Rightarrow> int" where
  "outstanding d = sum_list (map op_count (dv_events d))"

lemma outstanding_note [simp]: "outstanding (note_event e d) = outstanding d + op_count e"
  by (simp add: outstanding_def note_event_def)

text \<open>The part of a device that the enable operations read and write.\<close>

definition enable_fields :: "device \<Rightarrow> bool \<times> bool \<times> int" where
  "enable_fields d = (dv_enabled d, dv_enabled_pending d, outstanding d)"

lemma enable_note [simp]:
  "op_count e = 0 \<Longrightarrow> enable_fields (note_event e d) = enable_fields d"
  by (simp add: enable_fields_def) (simp add: note_event_def)

lemma note_event_simps [simp]:
  "dv_enabled (note_event e d) = dv_enabled d" "dv_enabled_pending (note_event e d) = dv_enabled_pending d"
  "dv_running (note_event e d) = dv_running d" "dv_selected_service (note_event e d) = dv_selected_service d"
  "dv_connection (note_event e d) = dv_connection d" "dv_ipconfig (note_event e d) = dv_ipconfig d"
  "dv_ip6config (note_event e d) = dv_ip6config d" "dv_dhcpv6_config (note_event e d) = dv_dhcpv6_config d"
  "dv_portal_detector (note_event e d) = dv_portal_detector d"
  "dv_link_monitor (note_event e d) = dv_link_monitor d"
  by (simp_all add: note_event_def)

lemma outstanding_update [simp]:
  "outstanding (d\<lparr>dv_enabled := b\<rparr>) = outstanding d"
  "outstanding (d\<lparr>dv_enabled_pending := b\<rparr>) = outstanding d"
  "outstanding (d\<lparr>dv_enabled_persistent := b\<rparr>) = outstanding d"
  "outstanding (d\<lparr>dv_running := b\<rparr>) = outstanding d"
  by (simp_all add: outstanding_def)

lemma enable_release [simp]: "enable_fields (release_ip c d) = enable_fields d"
  by (simp add: release_ip_def split: option.split)

lemma enable_update [simp]:
  "enable_fields (d\<lparr>dv_ipconfig := i\<rparr>) = enable_fields d"
  "enable_fields (d\<lparr>dv_ip6config := i\<rparr>) = enable_fields d"
  "enable_fields (d\<lparr>dv_dhcpv6_config := i\<rparr>) = enable_fields d"
  "enable_fields (d\<lparr>dv_connection := i\<rparr>) = enable_fields d"
  "enable_fields (d\<lparr>dv_ipv6_dns_timer := b\<rparr>) = enable_fields d"
  "enable_fields (d\<lparr>dv_running := b\<rparr>) = enable_fields d"
  "enable_fields (d\<lparr>dv_portal_detector := b\<rparr>) = enable_fields d"
  "enable_fields (d\<lparr>dv_connection_diagnostics := b\<rparr>) = enable_fields d"
  "enable_fields (d\<lparr>dv_dns_server_tester := b\<rparr>) = enable_fields d"
  "enable_fields (d\<lparr>dv_reliable_link_pending := b\<rparr>) = enable_fields d"
  "enable_fields (d\<lparr>dv_last_link_monitor_failed_time := t\<rparr>) = enable_fields d"
  "enable_fields (d\<lparr>dv_selected_service := s\<rparr>) = enable_fields d"
  "enable_fields (d\<lparr>dv_portal_attempts_to_online := t\<rparr>) = enable_fields d"
  "enable_fields (d\<lparr>dv_enabled_persistent := b\<rparr>) = enable_fields d"
  "enable_fields (d\<lparr>dv_receive_byte_offset := r\<rparr>) = enable_fields d"
  "enable_fields (d\<lparr>dv_transmit_byte_offset := r\<rparr>) = enable_fields d"
  "enable_fields (StopAllActivities d) = enable_fields d"
  by (simp_all add: enable_fields_def outstanding_def StopAllActivities_def)

lemma enable_SelectService [simp]:
  "enable_fields (fst (SelectService P rpc s st)) = enable_fields (fst st)"
  by (simp add: SelectService_def Let_def split_def)

lemma enable_DestroyConnection [simp]:
  "enable_fields (fst (DestroyConnection st)) = enable_fields (fst st)"
  by (simp add: DestroyConnection_def Let_def split_def)

lemma enable_DestroyIPConfig [simp]:
  "enable_fields (fst (DestroyIPConfig st)) = enable_fields (fst st)"
  by (simp add: DestroyIPConfig_def Let_def split_def)

lemma enable_DropConnection [simp]:
  "enable_fields (fst (DropConnection P rpc st)) = enable_fields (fst st)"
  by (simp add: DropConnection_def)

lemma enable_RenewDHCPLease [simp]: "enable_fields (RenewDHCPLease d) = enable_fields d"
  by (simp add: RenewDHCPLease_def Let_def split: option.split)

lemma enable_links [simp]:
  "enable_fields (OnConnected d sel) = enable_fields d"
  "enable_fields (fst (OnLinkMonitorFailure now d sel)) = enable_fields d"
  "enable_fields (fst (Device_OnAfterResume d osel)) = enable_fields d"
  by (simp_all add: OnConnected_def OnLinkMonitorFailure_def OnUnreliableLink_def Device_OnAfterResume_def
      Let_def)

lemma enable_persistence [simp]:
  "enable_fields (ResetByteCounters counts d) = enable_fields d"
  "enable_fields (snd (Device_Load I counts st d)) = enable_fields d"
  by (simp_all add: ResetByteCounters_def Device_Load_def Let_def)

lemma enable_SetServiceConnectedState:
  "SetServiceConnectedState P pe s st = Some st' \<Longrightarrow> enable_fields (fst st') = enable_fields (fst st)"
  by (auto simp: SetServiceConnectedState_def Let_def split_def split: if_splits)

lemma enable_StartPortalDetection:
  "StartPortalDetection P pe st = Some (b, st') \<Longrightarrow> enable_fields (fst st') = enable_fields (fst st)"
  by (auto simp: StartPortalDetection_def Let_def split_def split: if_splits
      dest!: enable_SetServiceConnectedState)

lemma enable_RequestPortalDetection:
  "RequestPortalDetection P pe st = Some (b, st') \<Longrightarrow> enable_fields (fst st') = enable_fields (fst st)"
  by (auto simp: RequestPortalDetection_def split_def split: if_splits dest!: enable_StartPortalDetection)

lemma enable_PortalDetectorCallback:
  "PortalDetectorCallback P pe r st = Some st' \<Longrightarrow> enable_fields (fst st') = enable_fields (fst st)"
  by (auto simp: PortalDetectorCallback_def Let_def split_def split: if_splits option.splits
      dest!: enable_SetServiceConnectedState)

text \<open>
  The states of a device in service. \<open>SetEnabledUnchecked\<close> is public: \<open>Cellular::OnAfterResume\<close> calls it without
  the checks of \<open>SetEnabledChecked\<close>, also while a \<open>Stop\<close> is still under way. \<open>dev_reach P rpc k d\<close> counts in \<open>k\<close>
  the direct calls that \<open>SetEnabledChecked\<close> would not have passed on because the device is in the state asked for
  or an operation is under way; the other ones leave \<open>k\<close>. \<open>configured\<close> and \<open>watched\<close> stand for the operations
  that are not modelled and set the IP configurations, the connection and the activities on it; the service and the
  world may change between steps in any way.
\<close>

definition passed_on :: "bool \<Rightarrow> device \<Rightarrow> bool" where
  "passed_on enable d \<longleftrightarrow> enable \<noteq> dv_enabled d \<and> enable \<noteq> dv_enabled_pending d"

inductive dev_reach :: "'s platform \<Rightarrow> (nat \<Rightarrow> string) \<Rightarrow> nat \<Rightarrow> device \<Rightarrow> bool" for P rpc where
  created: "dev_reach P rpc 0 (Device_new counts link_name rpc_id hw_address index tech)"
| request: "dev_reach P rpc k d \<Longrightarrow>
    dev_reach P rpc k (fst (snd (SetEnabledChecked P rpc prohibited enable persist (d, sel, w))))"
| direct: "dev_reach P rpc k d \<Longrightarrow>
    dev_reach P rpc (if passed_on enable d then k else Suc k) (fst (SetEnabledUnchecked P rpc enable (d, sel, w)))"
| completed: "dev_reach P rpc k d \<Longrightarrow> outstanding d > 0 \<Longrightarrow> dev_reach P rpc k (OnEnabledStateChanged err d)"
| selected: "dev_reach P rpc k d \<Longrightarrow> dev_reach P rpc k (fst (SelectService P rpc s (d, sel, w)))"
| dropped: "dev_reach P rpc k d \<Longrightarrow> dev_reach P rpc k (fst (DropConnection P rpc (d, sel, w)))"
| destroyed: "dev_reach P rpc k d \<Longrightarrow> dev_reach P rpc k (fst (DestroyIPConfig (d, sel, w :: 's world)))"
| disconnected: "dev_reach P rpc k d \<Longrightarrow> dev_reach P rpc k (fst (DestroyConnection (d, sel, w :: 's world)))"
| renewed: "dev_reach P rpc k d \<Longrightarrow> dev_reach P rpc k (RenewDHCPLease d)"
| loaded: "dev_reach P rpc k d \<Longrightarrow> dev_reach P rpc k (snd (Device_Load (pf_store P) counts storage d))"
| reset: "dev_reach P rpc k d \<Longrightarrow> dev_reach P rpc k (ResetByteCounters counts d)"
| connected: "dev_reach P rpc k d \<Longrightarrow> dev_reach P rpc k (OnConnected d sel)"
| link_failed: "dev_reach P rpc k d \<Longrightarrow> dev_reach P rpc k (fst (OnLinkMonitorFailure now d sel))"
| unreliable: "dev_reach P rpc k d \<Longrightarrow> dev_reach P rpc k (fst (OnUnreliableLink d sel))"
| resumed: "dev_reach P rpc k d \<Longrightarrow> dev_reach P rpc k (fst (Device_OnAfterResume d osel))"
| initialized: "dev_reach P rpc k d \<Longrightarrow> dev_reach P rpc k (Device_Initialize d)"
| loose: "dev_reach P rpc k d \<Longrightarrow> dev_reach P rpc k (SetLooseRouting b d)"
| multi_homed: "dev_reach P rpc k d \<Longrightarrow> dev_reach P rpc k (SetIsMultiHomed b d)"
| portal_started: "dev_reach P rpc k d \<Longrightarrow>
    StartPortalDetection P pe (d, sel, w) = Some (b, d', sel', w') \<Longrightarrow> dev_reach P rpc k d'"
| portal_requested: "dev_reach P rpc k d \<Longrightarrow>
    RequestPortalDetection P pe (d, sel, w) = Some (b, d', sel', w') \<Longrightarrow> dev_reach P rpc k d'"
| portal_result: "dev_reach P rpc k d \<Longrightarrow>
    PortalDetectorCallback P pe r (d, sel, w) = Some (d', sel', w') \<Longrightarrow> dev_reach P rpc k d'"
| service_state: "dev_reach P rpc k d \<Longrightarrow>
    SetServiceConnectedState P pe state (d, sel, w) = Some (d', sel', w') \<Longrightarrow> dev_reach P rpc k d'"
| configured: "dev_reach P rpc k d \<Longrightarrow>
    dev_reach P rpc k (d\<lparr>dv_ipconfig := i4, dv_ip6config := i6, dv_dhcpv6_config := i7, dv_connection := c,
      dv_ipv6_dns_timer := b\<rparr>)"
| watched: "dev_reach P rpc k d \<Longrightarrow>
    dev_reach P rpc k (d\<lparr>dv_link_monitor := b1, dv_connection_tester := b2, dv_connection_diagnostics := b3,
      dv_dns_server_tester := b4\<rparr>)"

lemma enable_others [simp]:
  "enable_fields (Device_Initialize d) = enable_fields d"
  "enable_fields (SetLooseRouting b d) = enable_fields d"
  "enable_fields (SetIsMultiHomed b d) = enable_fields d"
  "enable_fields (fst (OnUnreliableLink d sel)) = enable_fields d"
  "enable_fields (d\<lparr>dv_link_monitor := b\<rparr>) = enable_fields d"
  "enable_fields (d\<lparr>dv_connection_tester := b\<rparr>) = enable_fields d"
  by (simp_all add: Device_Initialize_def SetLooseRouting_def SetIsMultiHomed_def OnUnreliableLink_def Let_def
      enable_fields_def outstanding_def)

lemma enable_direct:
  "enable_fields (fst (SetEnabledUnchecked P rpc enable (d, sel, w))) = (dv_enabled d, enable, outstanding d + 1)"
proof -
  have drop: "dv_enabled (fst (DropConnection P rpc st)) = dv_enabled (fst st)"
    "dv_enabled_pending (fst (DropConnection P rpc st)) = dv_enabled_pending (fst st)"
    "outstanding (fst (DropConnection P rpc st)) = outstanding (fst st)" for st
    using enable_DropConnection [of P rpc st] by (simp_all add: enable_fields_def)
  show ?thesis using drop by (simp add: SetEnabledUnchecked_def Let_def split_def enable_fields_def)
qed

lemma enable_request:
  assumes "SetEnabledChecked P rpc prohibited enable persist (d, sel, w) = (err, d', st')"
  shows "enable_fields d' =
    (if \<not> (enable \<and> prohibited) \<and> enable \<noteq> dv_enabled d \<and> enable \<noteq> dv_enabled_pending d
     then (dv_enabled d, enable, outstanding d + 1) else enable_fields d)"
proof -
  have drop: "dv_enabled (fst (DropConnection P rpc st)) = dv_enabled (fst st)"
    "dv_enabled_pending (fst (DropConnection P rpc st)) = dv_enabled_pending (fst st)"
    "outstanding (fst (DropConnection P rpc st)) = outstanding (fst st)" for st
    using enable_DropConnection [of P rpc st] by (simp_all add: enable_fields_def)
  show ?thesis
    using assms drop
    by (auto simp: SetEnabledChecked_def SetEnabledUnchecked_def Let_def split_def enable_fields_def
        split: if_splits)
qed

text \<open>
  What \<open>k\<close> forced requests can do: without any, an operation is under way exactly when the pending state is
  another one; each can leave up to two operations more under way, but when none is under way the pending
  state is always the current one.
\<close>

definition enable_inv :: "nat \<Rightarrow> device \<Rightarrow> bool" where
  "enable_inv k d \<longleftrightarrow> 0 \<le> outstanding d \<and> outstanding d \<le> 2 * int k + of_bool (dv_enabled_pending d \<noteq> dv_enabled d) \<and>
     (outstanding d = 0 \<longrightarrow> dv_enabled_pending d = dv_enabled d)"

lemma enable_inv_frame: "enable_inv k d \<Longrightarrow> enable_fields d' = enable_fields d \<Longrightarrow> enable_inv k d'"
  by (simp add: enable_inv_def enable_fields_def)

lemma enable_inv_request:
  assumes "enable_inv k d"
  shows "enable_inv k (fst (snd (SetEnabledChecked P rpc prohibited enable persist (d, sel, w))))"
proof -
  obtain err d' st' where r: "SetEnabledChecked P rpc prohibited enable persist (d, sel, w) = (err, d', st')"
    by (rule prod_cases3)
  from enable_request [OF r] assms show ?thesis
    by (auto simp: r enable_inv_def enable_fields_def split: if_splits)
qed

lemma enable_inv_direct:
  assumes "enable_inv k d"
  shows "enable_inv (if passed_on enable d then k else Suc k) (fst (SetEnabledUnchecked P rpc enable (d, sel, w)))"
  using enable_direct [of P rpc enable d sel w] assms
  by (auto simp: enable_inv_def enable_fields_def passed_on_def of_bool_def split: if_splits)

lemma enable_inv_completed:
  assumes "enable_inv k d" "outstanding d > 0"
  shows "enable_inv k (OnEnabledStateChanged err d)"
  using assms by (auto simp: enable_inv_def OnEnabledStateChanged_def Let_def of_bool_def split: if_splits)

lemma enable_inv_created: "enable_inv 0 (Device_new counts link_name rpc_id hw_address index tech)"
  by (simp add: enable_inv_def Device_new_def outstanding_def)

lemma enable_inv_reach: "dev_reach P rpc k d \<Longrightarrow> enable_inv k d"
proof (induction rule: dev_reach.induct)
  case (portal_started k d pe sel w b d' sel' w')
  from enable_StartPortalDetection [OF portal_started(2)] portal_started(3)
  show ?case by (auto intro: enable_inv_frame)
next
  case (portal_requested k d pe sel w b d' sel' w')
  from enable_RequestPortalDetection [OF portal_requested(2)] portal_requested(3)
  show ?case by (auto intro: enable_inv_frame)
next
  case (portal_result k d pe r sel w d' sel' w')
  from enable_PortalDetectorCallback [OF portal_result(2)] portal_result(3)
  show ?case by (auto intro: enable_inv_frame)
next
  case (service_state k d pe state sel w d' sel' w')
  from enable_SetServiceConnectedState [OF service_state(2)] service_state(3)
  show ?case by (auto intro: enable_inv_frame)
qed (assumption | rule enable_inv_created enable_inv_request enable_inv_direct enable_inv_completed |
    erule enable_inv_frame, simp)+

text \<open>
  C34: in every state a device can reach by requests that \<open>SetEnabledChecked\<close> lets through or refuses, by the
  completions of what they start and by its other operations, in any order, at most one \<open>Start\<close> or \<open>Stop\<close> is
  outstanding, and one is exactly when the pending state differs from the current one: such requests never overlap.
  A direct call of \<open>SetEnabledUnchecked\<close> keeps that if \<open>SetEnabledChecked\<close> would have passed it on. Where \<open>k\<close> direct
  calls were made that it would not, as \<open>Cellular::OnAfterResume\<close> does while the \<open>Stop\<close> of the suspend is under way,
  operations can overlap, at most \<open>2 k + 1\<close> of them; but whenever none is outstanding the pending state is the
  current one again.
\<close>

theorem Device_one_operation:
  assumes "dev_reach P rpc k d"
  shows "(if k = 0 then outstanding d = (if dv_enabled_pending d = dv_enabled d then 0 else 1)
      else 0 \<le> outstanding d \<and> outstanding d \<le> 2 * int k + 1) \<and>
    (if outstanding d = 0 then dv_enabled_pending d = dv_enabled d else 0 < outstanding d)"
  using enable_inv_reach [OF assms] by (auto simp: enable_inv_def split: if_splits)

text \<open>
  The overlap does happen: a device that was enabled is asked to stop when the system suspends, and on
  resume \<open>Cellular::OnAfterResume\<close> starts it while the \<open>Stop\<close> has not reported. Two operations are
  outstanding, and the pending state is the current one. When the \<open>Stop\<close> then succeeds and the \<open>Start\<close> fails, the
  device passes for enabled: completions read one pending state, whichever operation they end.
\<close>

lemma resume_overlaps:
  assumes "dev_reach P rpc 0 d" "dv_enabled d" "outstanding d = 0"
    and "SetEnabledChecked P rpc prohibited False False (d, sel, w) = (err, d1, sel1, w1)"
    and "SetEnabledUnchecked P rpc True (d1, sel1, w1) = (d2, st2)"
  shows "err = None \<and> outstanding d2 = 2 \<and> dv_enabled_pending d2 = dv_enabled d2 \<and> dev_reach P rpc 1 d2 \<and>
    dv_enabled (OnEnabledStateChanged (Some e) (OnEnabledStateChanged None d2)) \<and>
    outstanding (OnEnabledStateChanged (Some e) (OnEnabledStateChanged None d2)) = 0"
proof -
  have idle: "dv_enabled_pending d = dv_enabled d" using enable_inv_reach [OF assms(1)] assms(3) by (simp add: enable_inv_def)
  have f1: "enable_fields d1 = (True, False, 1)" using enable_request [OF assms(4)] assms(2,3) idle by simp
  have f2: "enable_fields d2 = (True, True, 2)"
    using enable_direct [of P rpc True d1 sel1 w1] assms(5) f1 by (simp add: enable_fields_def)
  have "dev_reach P rpc 0 d1"
    using dev_reach.request [OF assms(1), of prohibited False False sel w] assms(4) by simp
  from dev_reach.direct [OF this, of True sel1 w1] have "dev_reach P rpc 1 d2"
    using f1 assms(5) by (simp add: passed_on_def enable_fields_def)
  moreover have "err = None" using assms(2,4) idle by (auto simp: SetEnabledChecked_def Let_def split: if_splits)
  ultimately show ?thesis using f2 by (simp add: enable_fields_def OnEnabledStateChanged_def Let_def)
qed

theorem Device_one_operation_witness:
  "outstanding (fst (snd (SetEnabledChecked demo_platform (\<lambda>_. []) False True True
     (demo_device, demo_service, demo_world)))) = 1"
proof -
  have "dev_reach demo_platform (\<lambda>_. []) 0 demo_device"
    unfolding demo_device_def by (rule dev_reach.created)
  note Device_one_operation [OF dev_reach.request [OF this], of False True True demo_service demo_world]
  then show ?thesis
    by (simp add: SetEnabledChecked_def SetEnabledUnchecked_def demo_device_def Device_new_def Let_def)
qed

text \<open>
  C35: a device is never stuck: in every reachable state in which no operation is outstanding, however
  requests and direct calls overlapped before, a
  request for the other state is accepted unless the technology is prohibited, exactly one operation is
  started, and when that reports success the device is in the requested state; when it fails the
  device is back where it was and can be asked again.
\<close>

theorem Device_request_completes:
  assumes "dev_reach P rpc k d" "outstanding d = 0" "enable \<noteq> dv_enabled d" "\<not> (enable \<and> prohibited)"
  shows "case SetEnabledChecked P rpc prohibited enable persist (d, sel, w) of (err, d', st') \<Rightarrow>
    err = None \<and> outstanding d' = 1 \<and>
    dv_enabled (OnEnabledStateChanged None d') = enable \<and>
    outstanding (OnEnabledStateChanged None d') = 0 \<and>
    dv_enabled (OnEnabledStateChanged (Some e) d') = dv_enabled d \<and>
    dv_enabled_pending (OnEnabledStateChanged (Some e) d') = dv_enabled d \<and>
    outstanding (OnEnabledStateChanged (Some e) d') = 0"
proof -
  obtain err d' st' where r: "SetEnabledChecked P rpc prohibited enable persist (d, sel, w) = (err, d', st')"
    by (rule prod_cases3)
  from enable_inv_reach [OF assms(1)] assms(2) have idle: "dv_enabled_pending d = dv_enabled d"
    by (simp add: enable_inv_def)
  with enable_request [OF r] assms(2-4)
  have d': "dv_enabled d' = dv_enabled d" "dv_enabled_pending d' = enable" "outstanding d' = 1"
    by (auto simp: enable_fields_def)
  have "err = None"
    using r idle assms(3,4) by (auto simp: SetEnabledChecked_def Let_def split: if_splits)
  with d' show ?thesis
    by (simp add: r OnEnabledStateChanged_def Let_def)
qed

theorem Device_request_completes_witness:
  "dv_enabled (OnEnabledStateChanged None (fst (snd (SetEnabledChecked demo_platform (\<lambda>_. []) False True True
     (demo_device, demo_service, demo_world)))))"
proof -
  have "dev_reach demo_platform (\<lambda>_. []) 0 demo_device"
    unfolding demo_device_def by (rule dev_reach.created)
  moreover have "outstanding demo_device = 0" "True \<noteq> dv_enabled demo_device"
    by (simp_all add: demo_device_def Device_new_def outstanding_def)
  ultimately show ?thesis
    using Device_request_completes [where P = demo_platform and rpc = "\<lambda>_. []" and d = demo_device
        and enable = True and prohibited = False and persist = True and sel = demo_service and w = demo_world]
    by (auto simp: split_def)
qed

subsection \<open>The selected service\<close>

lemma SetConnection_simps [simp]:
  "sv_state (fst (SetConnection c sv w)) = sv_state sv"
  "sv_connection (fst (SetConnection c sv w)) = c"
  by (simp_all add: SetConnection_def Let_def)

text \<open>
  When a device selects another service or none, the service selected before is left clean: idle,
  or failed if it had failed, with no connection and not marked unreliable; every activity
  on the old connection is stopped and the memory of link failures is erased.
\<close>

theorem SelectService_releases:
  assumes "dv_selected_service d \<noteq> None" "dv_selected_service d \<noteq> selected"
  shows "case SelectService P rpc selected (d, sel, w) of (d', sel', w') \<Rightarrow>
    dv_selected_service d' = selected \<and>
    sv_state sel' = (if sv_state sel = kStateFailure then kStateFailure else kStateIdle) \<and>
    sv_connection sel' = None \<and> \<not> sv_unreliable sel' \<and>
    \<not> dv_portal_detector d' \<and> \<not> dv_connection_tester d' \<and> \<not> dv_connection_diagnostics d' \<and>
    \<not> dv_link_monitor d' \<and> \<not> dv_dns_server_tester d' \<and> \<not> dv_ipv6_dns_timer d' \<and>
    \<not> dv_reliable_link_pending d' \<and> dv_last_link_monitor_failed_time d' = 0"
  using assms
  by (simp add: SelectService_def Let_def split_def SetState_state note_event_def StopAllActivities_def)

theorem SelectService_releases_witness:
  "sv_connection (fst (snd (SelectService demo_platform (\<lambda>_. []) None
     (demo_device\<lparr>dv_selected_service := Some 1\<rparr>, demo_service\<lparr>sv_connection := Some 7\<rparr>, demo_world)))) = None"
  using SelectService_releases [where d = "demo_device\<lparr>dv_selected_service := Some 1\<rparr>" and selected = None
      and P = demo_platform and rpc = "\<lambda>_. []" and sel = "demo_service\<lparr>sv_connection := Some 7\<rparr>"
      and w = demo_world]
  by (simp add: split_def)

subsection \<open>Portal detection\<close>

text \<open>The state a finished detection leads to, and whether the detector is kept for a retry.\<close>

definition retries :: "portal_env \<Rightarrow> bool" where
  "retries pe \<longleftrightarrow> pe_is_default pe \<and> pe_check_interval pe \<noteq> 0"

definition settled :: "portal_env \<Rightarrow> connect_state \<Rightarrow> connect_state" where
  "settled pe state = (if state = kStatePortal \<and> retries pe \<and> \<not> pe_restart_ok pe then kStateOnline else state)"

lemma SetServiceConnectedState_connected:
  assumes "dv_selected_service d \<noteq> None" "IsConnected sel" "dv_portal_detector d"
  shows "SetServiceConnectedState P pe state (d, sel, w) =
    Some (if state = kStatePortal \<and> retries pe \<and> pe_restart_ok pe then d else d\<lparr>dv_portal_detector := False\<rparr>,
      SetState P (settled pe state) sel w)"
proof -
  have guard: "(dv_selected_service d = None \<or> \<not> IsConnected sel) = False" using assms by simp
  have state: "SetServiceState P s d sel w = SetState P s sel w"
    "SetServiceState P s (d\<lparr>dv_portal_detector := b\<rparr>) sel w = SetState P s sel w" for s b
    using assms(1) by (simp_all add: SetServiceState_def)
  have "(case st of (sel, w) \<Rightarrow> Some (x, sel, w)) = Some (x, st)"
    for st :: "service \<times> 'a world" and x :: device by (simp add: split_def)
  then show ?thesis
    using assms(3) unfolding SetServiceConnectedState_def prod.case guard if_False state Let_def
    by (simp add: settled_def retries_def)
qed

text \<open>
  A final result of portal detection settles a connected service. Success puts it online; any
  other result puts it in the portal state, or online when the retry cannot be started. The
  detector stays only to retry: behind a portal, on the default connection, with an interval
  set. The \<open>CHECK\<close> of the detector never fails.
\<close>

theorem PortalDetectorCallback_settles:
  assumes "dv_selected_service d \<noteq> None" "IsConnected sel" "dv_portal_detector d" "res_final r"
  shows "case PortalDetectorCallback P pe r (d, sel, w) of None \<Rightarrow> False | Some (d', sel', w') \<Rightarrow>
    sv_state sel' =
      (if res_success r \<or> pe_is_default pe \<and> pe_check_interval pe \<noteq> 0 \<and> \<not> pe_restart_ok pe
       then kStateOnline else kStatePortal) \<and>
    dv_portal_detector d' =
      (\<not> res_success r \<and> pe_is_default pe \<and> pe_check_interval pe \<noteq> 0 \<and> pe_restart_ok pe) \<and>
    sv_portal_detection_failure_phase sel' =
      (if res_success r then sv_portal_detection_failure_phase sel else res_phase r)"
  using assms
  by (simp add: PortalDetectorCallback_def SetServiceConnectedState_connected settled_def
      retries_def SetPortalDetectionFailure_def IsConnected_def SetState_state SetState_fixed
      note_event_def Let_def split_def)

theorem PortalDetectorCallback_settles_witness:
  "case PortalDetectorCallback demo_platform
     \<lparr>pe_is_default = True, pe_is_ipv6 = False, pe_check_interval = 30, pe_detection_enabled = True,
      pe_start_ok = True, pe_restart_ok = True, pe_in_progress = False, pe_diagnostics_ok = True\<rparr>
     \<lparr>res_final = True, res_success = False, res_phase = ''DNS'', res_status = ''Failure'',
      res_num_attempts = 3, res_dns_problem = True\<rparr>
     (demo_device\<lparr>dv_selected_service := Some 1, dv_portal_detector := True\<rparr>,
      demo_service\<lparr>sv_state := kStateConnected\<rparr>, demo_world) of None \<Rightarrow> False | Some (d', sel', w') \<Rightarrow>
     sv_state sel' = kStatePortal \<and> dv_portal_detector d'"
  using PortalDetectorCallback_settles [where P = demo_platform and
      pe = "\<lparr>pe_is_default = True, pe_is_ipv6 = False, pe_check_interval = 30, pe_detection_enabled = True,
      pe_start_ok = True, pe_restart_ok = True, pe_in_progress = False, pe_diagnostics_ok = True\<rparr>" and
      r = "\<lparr>res_final = True, res_success = False, res_phase = ''DNS'', res_status = ''Failure'',
      res_num_attempts = 3, res_dns_problem = True\<rparr>" and
      d = "demo_device\<lparr>dv_selected_service := Some 1, dv_portal_detector := True\<rparr>" and
      sel = "demo_service\<lparr>sv_state := kStateConnected\<rparr>" and w = demo_world]
  by (auto simp: state_preds split: option.splits)

subsection \<open>Routing flags\<close>

text \<open>Setting loose routing and multi-homing in any order; \<open>True\<close> is \<open>SetLooseRouting\<close>.\<close>

fun routing_run :: "(bool \<times> bool) list \<Rightarrow> device \<Rightarrow> device" where
  "routing_run [] d = d"
| "routing_run ((loose, b) # ops) d =
     routing_run ops (if loose then SetLooseRouting b d else SetIsMultiHomed b d)"

lemma routing_step:
  "dv_reverse_path_loose d = (dv_is_loose_routing d \<or> dv_is_multi_homed d) \<Longrightarrow>
   (let d' = if loose then SetLooseRouting b d else SetIsMultiHomed b d
    in dv_reverse_path_loose d' = (dv_is_loose_routing d' \<or> dv_is_multi_homed d'))"
  by (auto simp: SetLooseRouting_def SetIsMultiHomed_def Let_def)

text \<open>
  Two independent requests relax reverse-path filtering on a device, loose routing and
  multi-homing. After any sequence of them from a new device the kernel's filter is loose exactly while
  at least one of the two is in force, so neither undoes the other.
\<close>

theorem reverse_path_filter_agrees:
  "let d = routing_run ops (Device_new counts link_name rpc_id hw_address index tech)
   in dv_reverse_path_loose d = (dv_is_loose_routing d \<or> dv_is_multi_homed d)"
proof -
  have "dv_reverse_path_loose (routing_run ops d) =
      (dv_is_loose_routing (routing_run ops d) \<or> dv_is_multi_homed (routing_run ops d))"
    if "dv_reverse_path_loose d = (dv_is_loose_routing d \<or> dv_is_multi_homed d)" for d
    using that
  proof (induction ops arbitrary: d)
    case (Cons x ops)
    obtain loose b where x: "x = (loose, b)" by (cases x)
    show ?case unfolding x routing_run.simps
      by (rule Cons.IH) (use routing_step [OF Cons.prems, of loose b] in \<open>simp add: Let_def\<close>)
  qed simp
  then show ?thesis by (simp add: Device_new_def)
qed

end
