(* ===== verification/World_Frames.thy ===== *)
theory World_Frames
  imports Profile Service_Machine
begin

text \<open>
  What the operations that the manager performs on a service leave alone: the stack of profiles and
  everything about a profile but its storage (\<open>frame\<close>), and the identity and connection of the
  service (\<open>fixed_fields\<close>). The last section says which profile a service is in afterwards.
\<close>

definition frame :: "'s world \<Rightarrow> 's world \<times> (nat \<Rightarrow> profile_id \<times> bool \<times> string)" where
  "frame w = (env w, \<lambda>i. (pr_name (wd_profile w i), pr_default (wd_profile w i), pr_rpc_identifier (wd_profile w i)))"

lemma frameD:
  assumes "frame w' = frame w"
  shows "wd_profiles w' = wd_profiles w" "pr_name (wd_profile w' i) = pr_name (wd_profile w i)"
    "pr_default (wd_profile w' i) = pr_default (wd_profile w i)"
    "wd_running w' = wd_running w" "wd_suspending w' = wd_suspending w"
    "wd_lower_connection w' = wd_lower_connection w"
    "wd_no_auto_connect_technologies w' = wd_no_auto_connect_technologies w"
  using assms env_fields [of w' w] by (auto simp: frame_def fun_eq_iff)

subsection \<open>The world\<close>

lemma frame_emit [simp]: "frame (emit e w) = frame w"
  by (simp add: frame_def) (simp add: emit_def)

lemma frame_update_storage [simp]: "frame (update_storage i f w) = frame w"
  by (simp add: frame_def) (simp add: update_storage_def fun_eq_iff)

lemma frame_Flush [simp]: "frame (snd (Flush i w)) = frame w"
  by (simp add: Flush_def)

lemma frame_SortServices [simp]: "frame (SortServices w) = frame w"
  by (simp add: frame_def)

lemma frame_UpdateService [simp]: "frame (snd (Profile_UpdateService P i sv w)) = frame w"
  by (simp add: Profile_UpdateService_def)

lemma frame_SetProfile [simp]: "frame (snd (SetProfile p sv w)) = frame w"
  by (auto simp: SetProfile_def Let_def split: sum.split)

lemma frame_AdoptService [simp]: "frame (snd (snd (AdoptService P p sv w))) = frame w"
  by (auto simp: AdoptService_def split_def split: profile_ref.split)

lemma frame_AbandonService [simp]: "frame (snd (snd (AbandonService P p sv w))) = frame w"
  by (auto simp: AbandonService_def Let_def split_def split: profile_ref.split)

lemma frame_Move [simp]: "frame (snd (snd (MoveServiceToProfile P from destination sv w))) = frame w"
  by (auto simp: MoveServiceToProfile_def split_def split: bool.split)

lemma frame_SaveServiceToProfile [simp]: "frame (snd (SaveServiceToProfile P sv w)) = frame w"
  by (auto simp: SaveServiceToProfile_def split: option.split profile_ref.split)

lemma frame_EnableAndRetain [simp]: "frame (snd (EnableAndRetainAutoConnect sv w)) = frame w"
  by (auto simp: EnableAndRetainAutoConnect_def SetAutoConnect_def)

lemma frame_Manager_UpdateService [simp]: "frame (snd (Manager_UpdateService P sv w)) = frame w"
  by (simp add: Manager_UpdateService_def split_def)

lemma frame_SaveToProfile [simp]: "frame (SaveToProfile P sv w) = frame w"
  by (auto simp: SaveToProfile_def split: option.split profile_ref.split)

lemma frame_errors [simp]:
  "frame (snd (SetErrorDetails d sv w)) = frame w" "frame (snd (UpdateErrorProperty P sv w)) = frame w"
  "frame (ReportUserInitiatedConnectionResult s sv w) = frame w"
  by (auto simp: SetErrorDetails_def UpdateErrorProperty_def ReportUserInitiatedConnectionResult_def Let_def
      split: connect_state.split)

lemma frame_SetState [simp]: "frame (snd (SetState P s sv w)) = frame w"
  by (simp add: SetState_def Let_def split_def)

lemma frame_Clear [simp]: "frame (snd (ClearExplicitlyDisconnected P sv w)) = frame w"
  by (simp add: ClearExplicitlyDisconnected_def)

lemma frame_Connect [simp]: "frame (snd (Connect P sv w)) = frame w"
  by (simp add: Connect_def Let_def split_def)

lemma frame_AutoConnect [simp]: "frame (snd (AutoConnect P b sv w)) = frame w"
  by (simp add: AutoConnect_def ThrottleFutureAutoConnects_def Let_def split_def split: option.split)

lemma frame_Load [simp]: "frame (snd (snd (Service_Load P st sv w))) = frame w"
  by (simp add: Service_Load_def Let_def split_def)

lemma frame_Unload [simp]: "frame (snd (snd (Service_Unload P sv w))) = frame w"
  by (simp add: Service_Unload_def Let_def split_def)

lemma frame_LoadService [simp]: "frame (snd (snd (LoadService P i sv w))) = frame w"
  by (simp add: LoadService_def)

lemma Profile_ConfigureService_eq:
  "Profile_ConfigureService P i sv w =
     (if fst (LoadService P i sv w)
      then (True, SetProfile (Some (StackProfile i)) (fst (snd (LoadService P i sv w)))
                    (snd (snd (LoadService P i sv w))))
      else LoadService P i sv w)"
  by (cases "LoadService P i sv w") (auto simp: Profile_ConfigureService_def split: bool.split)

lemma frame_Profile_ConfigureService [simp]:
  "frame (snd (snd (Profile_ConfigureService P i sv w))) = frame w"
  by (simp add: Profile_ConfigureService_eq)

lemma ConfigureService_eq:
  "ConfigureService P i sv w =
     (let r = Profile_ConfigureService P i sv w
      in if pr_default (wd_profile w i) \<and> \<not> fst r \<and> sv_technology (fst (snd r)) = kEthernet
         then (True, SetProfile (Some (StackProfile i)) (fst (snd r))
                       (snd (Profile_UpdateService P i (fst (snd r)) (snd (snd r)))))
         else r)"
  by (cases "Profile_ConfigureService P i sv w") (auto simp: ConfigureService_def Let_def split: bool.split)

lemma frame_ConfigureService [simp]: "frame (snd (snd (ConfigureService P i sv w))) = frame w"
  by (simp add: ConfigureService_eq Let_def)

subsection \<open>The service\<close>

lemma fixed_profile [simp]: "fixed_fields (sv\<lparr>sv_profile := p\<rparr>) = fixed_fields sv"
  by (simp add: fixed_fields_def)

lemma fixed_Clear [simp]: "fixed_fields (fst (ClearExplicitlyDisconnected P sv w)) = fixed_fields sv"
  by (simp add: Clear_sv) (simp add: fixed_fields_def)

lemma fixed_Connect [simp]: "fixed_fields (fst (Connect P sv w)) = fixed_fields sv"
  by (simp add: Connect_def Let_def split_def)

lemma fixed_AutoConnect [simp]: "fixed_fields (fst (AutoConnect P b sv w)) = fixed_fields sv"
  by (simp add: AutoConnect_def ThrottleFutureAutoConnects_def Let_def split_def split: option.split)
    (simp add: fixed_fields_def)

lemma fixed_fields_upd:
  "fixed_fields (sv\<lparr>sv_dhcp_properties := d\<rparr>) = fixed_fields sv"
  "fixed_fields (sv\<lparr>sv_has_ever_connected := b\<rparr>) = fixed_fields sv"
  "fixed_fields (sv\<lparr>sv_eap := e\<rparr>) = fixed_fields sv"
  "fixed_fields (sv\<lparr>sv_remote_certification := r\<rparr>) = fixed_fields sv"
  by (simp_all add: fixed_fields_def)

lemma fixed_Load [simp]: "fixed_fields (fst (snd (Service_Load P st sv w))) = fixed_fields sv"
  by (simp add: Service_Load_def Let_def split_def fixed_fields_upd) (simp add: fixed_fields_def)

lemma fixed_Unload [simp]: "fixed_fields (fst (snd (Service_Unload P sv w))) = fixed_fields sv"
  by (simp add: Service_Unload_def Let_def split_def ClearEAPCertification_def fixed_fields_def Clear_sv updated_def)

lemma fixed_LoadService [simp]: "fixed_fields (fst (snd (LoadService P i sv w))) = fixed_fields sv"
  by (simp add: LoadService_def)

lemma fixed_ConfigureService [simp]: "fixed_fields (fst (snd (ConfigureService P i sv w))) = fixed_fields sv"
  by (simp add: ConfigureService_eq Profile_ConfigureService_eq Let_def)

subsection \<open>The profile of a service\<close>

definition profile_valid :: "nat list \<Rightarrow> service \<Rightarrow> bool" where
  "profile_valid ps sv =
     (case sv_profile sv of
        Some EphemeralProfile \<Rightarrow> True | Some (StackProfile i) \<Rightarrow> i \<in> set ps | None \<Rightarrow> False)"

lemma profile_valid_simps [simp]:
  "sv_profile sv = Some EphemeralProfile \<Longrightarrow> profile_valid ps sv"
  "sv_profile sv = Some (StackProfile i) \<Longrightarrow> profile_valid ps sv = (i \<in> set ps)"
  "profile_valid ps (sv\<lparr>sv_profile := Some EphemeralProfile\<rparr>)"
  "profile_valid ps (sv\<lparr>sv_profile := Some (StackProfile i)\<rparr>) = (i \<in> set ps)"
  by (simp_all add: profile_valid_def)

lemma profile_valid_cong: "sv_profile sv' = sv_profile sv \<Longrightarrow> profile_valid ps sv' = profile_valid ps sv"
  by (simp add: profile_valid_def)

lemma profile_valid_mono: "profile_valid ps sv \<Longrightarrow> set ps \<subseteq> set ps' \<Longrightarrow> profile_valid ps' sv"
  by (auto simp: profile_valid_def split: option.splits profile_ref.splits)

text \<open>A service stays in its profile, or moves from the ephemeral one to the top of the stack.\<close>

definition same_or_top :: "'s world \<Rightarrow> service \<Rightarrow> service \<Rightarrow> bool" where
  "same_or_top w sv sv' \<longleftrightarrow> sv_profile sv' = sv_profile sv \<or>
     sv_profile sv = Some EphemeralProfile \<and> wd_profiles w \<noteq> [] \<and>
     sv_profile sv' = Some (StackProfile (last (wd_profiles w)))"

lemma same_or_top_valid:
  "same_or_top w sv sv' \<Longrightarrow> profile_valid (wd_profiles w) sv \<Longrightarrow> profile_valid (wd_profiles w) sv'"
  unfolding same_or_top_def using profile_valid_cong [of sv' sv] by auto

lemma updated_profile: "same_or_top w sv (updated sv w)"
  by (auto simp: same_or_top_def updated_def IsServiceEphemeral_def)

lemma Clear_profile: "same_or_top w sv (fst (ClearExplicitlyDisconnected P sv w))"
  using updated_profile [of w "sv\<lparr>sv_explicitly_disconnected := False\<rparr>"]
  by (simp add: Clear_sv same_or_top_def)

lemma Load_profile: "same_or_top w sv (fst (snd (Service_Load P st sv w)))"
  by (simp add: Service_Load_def Let_def split_def same_or_top_def Clear_sv updated_def
      IsServiceEphemeral_def)

lemma Unload_profile: "same_or_top w sv (fst (snd (Service_Unload P sv w)))"
  by (simp add: Service_Unload_def Let_def split_def same_or_top_def Clear_sv updated_def
      IsServiceEphemeral_def ClearEAPCertification_def)

lemma LoadService_profile: "same_or_top w sv (fst (snd (LoadService P i sv w)))"
  using Load_profile by (auto simp: LoadService_def) (simp add: same_or_top_def)

lemma ConfigureService_profile:
  "if fst (ConfigureService P i sv w) then sv_profile (fst (snd (ConfigureService P i sv w))) = Some (StackProfile i)
   else same_or_top w sv (fst (snd (ConfigureService P i sv w)))"
  using LoadService_profile [of w sv P i] by (simp add: ConfigureService_eq Profile_ConfigureService_eq Let_def)

lemma ConfigureService_valid:
  assumes "profile_valid (wd_profiles w) sv" "i \<in> set (wd_profiles w)"
  shows "profile_valid (wd_profiles w) (fst (snd (ConfigureService P i sv w)))"
  using ConfigureService_profile [of P i sv w] assms same_or_top_valid
  by (cases "fst (ConfigureService P i sv w)") auto

subsection \<open>Whatever a service does on its own\<close>

text \<open>
  No call of a service changes its identity or the stack of profiles; the service stays in its profile, or
  moves from the ephemeral one to the top of the stack.
\<close>

definition own_step :: "'s world \<Rightarrow> service \<Rightarrow> service \<times> 's world \<Rightarrow> bool" where
  "own_step w sv c \<longleftrightarrow> frame (snd c) = frame w \<and> sv_unique_name (fst c) = sv_unique_name sv \<and>
     sv_serial_number (fst c) = sv_serial_number sv \<and> same_or_top w sv (fst c)"

lemma own_refl [simp]: "own_step w sv (sv, w)"
  by (simp add: own_step_def same_or_top_def)

lemma own_trans: "own_step w sv c \<Longrightarrow> own_step (snd c) (fst c) c' \<Longrightarrow> own_step w sv c'"
  using frameD(1) [of "snd c" w] by (auto simp: own_step_def same_or_top_def)

text \<open>A change of fields that are none of these.\<close>

lemma own_fields:
  assumes "frame w' = frame w" "sv_unique_name sv' = sv_unique_name sv"
    "sv_serial_number sv' = sv_serial_number sv" "sv_profile sv' = sv_profile sv"
  shows "own_step w sv (sv', w')"
  using assms by (simp add: own_step_def same_or_top_def)

lemma own_change:
  assumes "own_step w sv c" "sv_unique_name sv' = sv_unique_name (fst c)"
    "sv_serial_number sv' = sv_serial_number (fst c)" "sv_profile sv' = sv_profile (fst c)" "frame w' = frame (snd c)"
  shows "own_step w sv (sv', w')"
  using assms by (simp add: own_step_def same_or_top_def)

lemma own_start:
  assumes "own_step w' sv' c" "sv_unique_name sv' = sv_unique_name sv"
    "sv_serial_number sv' = sv_serial_number sv" "sv_profile sv' = sv_profile sv" "frame w' = frame w"
  shows "own_step w sv c"
  using assms frameD(1) [OF assms(5)] by (simp add: own_step_def same_or_top_def)

lemma own_updated: "own_step w sv (Manager_UpdateService P sv w)"
  using updated_profile [of w sv] by (simp add: own_step_def) (simp add: updated_def)

lemma own_Clear: "own_step w sv (ClearExplicitlyDisconnected P sv w)"
  by (auto simp: ClearExplicitlyDisconnected_def intro: own_start [OF own_updated])

lemma own_SetState: "own_step w sv (SetState P s sv w)"
proof (cases "s = sv_state sv")
  case False
  have "same_or_top w sv (fst (SetState P s sv w))"
    using updated_profile [of w "entered P s sv w"] by (simp add: SetState_sv [OF False] same_or_top_def)
  then show ?thesis by (simp add: own_step_def SetState_fixed)
qed simp

lemma own_SetFailure: "own_step w sv (SetFailure P f sv w)"
  unfolding SetFailure_def Let_def split_def SaveFailure_def
  by (rule own_start [OF own_SetState]) simp_all

lemma own_SetFailureSilent: "own_step w sv (SetFailureSilent P f sv w)"
proof -
  have "own_step w sv (SetState P kStateIdle (NoteDisconnectEvent sv w) w)"
    by (rule own_start [OF own_SetState]) (simp_all add: NoteDisconnectEvent_def Let_def)
  then show ?thesis
    unfolding SetFailureSilent_def Let_def split_def SaveFailure_def by (rule own_change) simp_all
qed

lemma own_Connect: "own_step w sv (Connect P sv w)"
proof -
  let ?c = "ClearExplicitlyDisconnected P sv w"
  have "own_step (snd ?c) (fst ?c) (SetState P kStateIdle (fst ?c) (snd ?c))" by (rule own_SetState)
  then show ?thesis by (auto simp: Connect_def Let_def split_def intro: own_trans [OF own_Clear] own_Clear)
qed

lemma own_AutoConnect: "own_step w sv (AutoConnect P b sv w)"
proof (cases "IsAutoConnectable P b sv w")
  case None
  have "own_step w sv (ThrottleFutureAutoConnects sv w)"
    by (rule own_fields [of "snd (ThrottleFutureAutoConnects sv w)" w "fst (ThrottleFutureAutoConnects sv w)" sv,
          unfolded prod.collapse]) (simp_all add: ThrottleFutureAutoConnects_def Let_def split_def)
  from own_trans [OF this own_Connect] show ?thesis using None by (simp add: AutoConnect_def split_def)
qed (simp add: AutoConnect_def)

lemma own_Load: "own_step w sv (snd (Service_Load P st sv w))"
  using fixed_fieldsD [OF fixed_Load [of P st sv w]] by (simp add: own_step_def Load_profile)

lemma own_Unload: "own_step w sv (snd (Service_Unload P sv w))"
  using fixed_fieldsD [OF fixed_Unload [of P sv w]] by (simp add: own_step_def Unload_profile)

lemma own_SetConnection: "own_step w sv (SetConnection c sv w)"
  by (auto simp: SetConnection_def Let_def NotifyIPConfigChanges_def own_step_def same_or_top_def split: sum.split)

lemma own_setters:
  "own_step w sv (SetAutoConnect b sv w)"
  "own_step w sv (SetConnectable b sv w)"
  "own_step w sv (snd (SetGuid v sv w))"
  "own_step w sv (snd (SetPriority i sv w))"
  "own_step w sv (snd (SetPriorityWithinTechnology i sv w))"
  "own_step w sv (snd (SetProxyConfig v sv w))"
  "own_step w sv (SetFriendlyName v sv w)"
  "own_step w sv (SetStrength n sv w)"
  "own_step w sv (SetSecurity a k d sv, w)"
  "own_step w sv (SetHasEverConnected b sv, w)"
  "own_step w sv (snd (AddEAPCertification v depth sv), w)"
  "own_step w sv (SetPortalDetectionFailure p q sv w)"
  "own_step w sv (SetErrorDetails text sv w)"
  "own_step w sv (EnableAndRetainAutoConnect sv w)"
  "own_step w sv (SaveFailure P sv, w)"
  "own_step w sv (ClearEAPCertification sv, w)"
  "own_step w sv (set_error e sv, w)"
  "own_step w sv (UserInitiatedDisconnect sv, w)"
  "own_step w sv (snd (HasRecentConnectionIssues sv w), w)"
  by (simp_all add: SetAutoConnect_def SetConnectable_def SetGuid_def SetPriority_def SetPriorityWithinTechnology_def
      SetProxyConfig_def SetFriendlyName_def SetStrength_def SetSecurity_def SetHasEverConnected_def
      AddEAPCertification_def SetPortalDetectionFailure_def SetErrorDetails_def EnableAndRetainAutoConnect_def
      RetainAutoConnect_def SaveFailure_def ClearEAPCertification_def set_error_def UserInitiatedDisconnect_def
      HasRecentConnectionIssues_def Let_def own_step_def same_or_top_def split_def)

lemma own_ReEnable: "own_step w sv (ReEnableAutoConnectTask P sv w)"
  unfolding ReEnableAutoConnectTask_def by (rule own_start [OF own_updated]) simp_all

lemma own_OnAfterResume: "own_step w sv (OnAfterResume P sv w)"
  unfolding OnAfterResume_def by (rule own_start [OF own_Clear]) simp_all

lemma own_UserInitiatedConnect: "own_step w sv (UserInitiatedConnect P sv w)"
  unfolding UserInitiatedConnect_def split_def by (rule own_change [OF own_Connect]) simp_all

lemma own_SaveToProfile: "own_step w sv (sv, SaveToProfile P sv w)"
  by (rule own_fields) simp_all

lemma own_SetConnectableFull: "own_step w sv (SetConnectableFull P b c sv w)"
  using own_setters(2) [of w sv c]
  by (auto simp: SetConnectableFull_def Let_def split_def intro: own_trans [OF own_setters(2)] own_updated)

lemma own_ClearAutoConnect: "own_step w sv (ClearAutoConnect P sv w)"
proof -
  let ?r = "if sv_auto_connect sv
    then let r = SetAutoConnect False sv w in Manager_UpdateService P (fst r) (snd r) else (sv, w)"
  have "own_step w sv ?r" by (auto simp: Let_def intro: own_trans [OF own_setters(1)] own_updated)
  from own_change [OF this] show ?thesis
    by (simp add: ClearAutoConnect_def Let_def split_def)
qed

lemma own_SetAutoConnectFull: "own_step w sv (snd (SetAutoConnectFull P c sv w))"
proof -
  let ?sv = "sv\<lparr>sv_retain_auto_connect := True\<rparr>"
  define r where "r = (if \<not> sv_retain_auto_connect sv
    then (?sv, if IsRemembered ?sv then SaveToProfile P ?sv w else w) else (sv, w))"
  have r: "own_step w sv r" by (simp add: r_def own_step_def same_or_top_def)
  have "own_step (snd r) (fst r) (Manager_UpdateService P (fst (SetAutoConnect c (fst r) (snd r)))
      (snd (SetAutoConnect c (fst r) (snd r))))"
    by (rule own_trans [OF own_setters(1) own_updated])
  note step = own_trans [OF r this]
  have "snd (SetAutoConnectFull P c sv w) = (if sv_auto_connect (fst r) = c then r
      else Manager_UpdateService P (fst (SetAutoConnect c (fst r) (snd r))) (snd (SetAutoConnect c (fst r) (snd r))))"
    by (simp add: SetAutoConnectFull_def Let_def split_def RetainAutoConnect_def r_def)
  with step r show ?thesis by simp
qed

lemma own_call:
  assumes "svc_call P E (sv, w) c" shows "own_step w sv c"
  using assms
proof (cases rule: svc_call.cases)
  case (set_check_portal v changed sv')
  then show ?thesis by (auto simp: SetCheckPortal_def intro: own_fields split: if_splits)
next
  case (set_eap e sv')
  then show ?thesis by (auto simp: SetEapCredentials_def intro: own_fields split: if_splits)
next
  case (property_changed property)
  then show ?thesis by (simp add: OnPropertyChanged_def Let_def own_fields)
qed (auto intro: own_setters own_SetState own_SetFailure own_SetFailureSilent own_Connect own_UserInitiatedConnect
    own_AutoConnect own_ReEnable own_OnAfterResume own_Load own_Unload own_SetAutoConnectFull own_ClearAutoConnect
    own_SetConnectableFull own_SetConnection own_Clear own_updated own_SaveToProfile own_fields
    simp: write_settings_def)

end
