(* ===== verification/Manager.thy ===== *)
theory Manager
  imports Default_Profile Service_Order Device World_Frames
begin

text \<open>
  Model of \<open>manager.cc\<close>: the stack of profiles, the list of registered services and its ranking, the
  assignment of services to profiles, automatic connection, and the state reported to clients. The
  state is the record \<open>manager\<close>; it contains the \<open>world\<close> that services see. Profiles are objects
  with an identity (a number); services are the elements of \<open>mg_services\<close>, identified by their serial
  number. A failed \<open>CHECK\<close> is the value \<open>None\<close>.
\<close>

datatype mgr_event =
    EmitProfilesChanged "string list"
  | WriteUserProfileList string
  | EmitServiceCompleteList "nat list"
  | EmitServices "nat list"
  | EmitServiceWatchList "nat list"
  | EmitConnectedTechnologies "string set"
  | EmitDefaultTechnology string
  | NotifyDefaultServiceChanged "nat option"
  | EmitDefaultServiceChanged "nat option"
  | EmitConnectionStateChanged string
  | UpstartNotifyConnected
  | UpstartNotifyDisconnected
  | ReportAutoConnectableServices

record 's manager =
  mg_world :: "'s world"
  mg_services :: "service list"
  mg_next_profile :: nat
  mg_devices :: "device list"
  mg_props :: manager_properties
  mg_dhcp_properties :: any_dict
  mg_ignored_search_list :: "string list"
  mg_technology_order :: "technology list"
  mg_suppress_autoconnect :: bool
  mg_in_dark_resume :: bool
  mg_watched_service_states :: "(string, connect_state) map"
  mg_default_service :: "nat option"
  mg_connection_is_default :: "nat \<Rightarrow> bool"
  mg_connection_state :: string
  mg_is_connected_state :: bool
  mg_events :: "mgr_event list"

abbreviation profiles_of :: "'s manager \<Rightarrow> nat list" where
  "profiles_of m \<equiv> wd_profiles (mg_world m)"

abbreviation profile_at :: "'s manager \<Rightarrow> nat \<Rightarrow> 's profile" where
  "profile_at m \<equiv> wd_profile (mg_world m)"

definition mg_emit :: "mgr_event \<Rightarrow> 's manager \<Rightarrow> 's manager" where
  "mg_emit e m = m\<lparr>mg_events := mg_events m @ [e]\<rparr>"

definition mg_sort :: "'s manager \<Rightarrow> 's manager" where
  "mg_sort m = m\<lparr>mg_world := SortServices (mg_world m)\<rparr>"

text \<open>
  The surroundings of a profile operation: which profile files exist and what opening them gives, the
  empty storage used when the disk is full, the fix-up of WiFi entries, the RPC names of new profiles,
  what the virtual \<open>Unload\<close> of a service's class returns, the byte counters of an interface and the
  services that the providers register from the entries of a new profile.
\<close>

record 's environment =
  en_exists :: "profile_id \<Rightarrow> bool"
  en_open :: "profile_id \<Rightarrow> 's option"
  en_set_header :: "string \<Rightarrow> 's \<Rightarrow> 's"
  en_stub :: 's
  en_fixup :: "'s \<Rightarrow> 's"
  en_rpc :: "profile_id \<Rightarrow> string"
  en_unload :: "service \<Rightarrow> bool"
  en_counts :: "string \<Rightarrow> byte_counts"
  en_created :: "service list"
  en_string_to_int :: "string \<Rightarrow> int option"
  en_int_to_string :: "int \<Rightarrow> string"
  en_salt :: int

subsection \<open>Profiles and services\<close>

definition HasProfile :: "profile_id \<Rightarrow> 's manager \<Rightarrow> bool" where
  "HasProfile ident m \<longleftrightarrow> (\<exists>i \<in> set (profiles_of m). MatchesIdentifier (profile_at m i) ident)"

fun match_profiles ::
    "'s platform \<Rightarrow> nat list \<Rightarrow> service \<Rightarrow> 's world \<Rightarrow> bool \<times> service \<times> 's world" where
  "match_profiles P [] sv w = (case AdoptService P EphemeralProfile sv w of (_, sv, w) \<Rightarrow> (False, sv, w))"
| "match_profiles P (i # is) sv w =
     (case ConfigureService P i sv w of
        (True, sv, w) \<Rightarrow> (True, sv, w)
      | (False, sv, w) \<Rightarrow> match_profiles P is sv w)"

definition MatchProfileWithService ::
    "'s platform \<Rightarrow> service \<Rightarrow> 's world \<Rightarrow> bool \<times> service \<times> 's world" where
  "MatchProfileWithService P sv w = match_profiles P (rev (wd_profiles w)) sv w"

definition UnloadService ::
    "'s platform \<Rightarrow> 's environment \<Rightarrow> service \<Rightarrow> 's world \<Rightarrow> bool \<times> service \<times> 's world" where
  "UnloadService P E sv w =
     (case Service_Unload P sv w of (_, sv', w) \<Rightarrow>
        if \<not> en_unload E sv then (False, sv', w)
        else (case SetProfile None sv' w of (sv', w) \<Rightarrow> (True, sv', w)))"

text \<open>A loop over the services, each changed together with the world.\<close>

fun each_service ::
    "(service \<Rightarrow> 's world \<Rightarrow> service \<times> 's world) \<Rightarrow> service list \<Rightarrow> 's world \<Rightarrow> service list \<times> 's world" where
  "each_service f [] w = ([], w)"
| "each_service f (sv # svs) w =
     (case f sv w of (sv, w) \<Rightarrow> case each_service f svs w of (svs, w) \<Rightarrow> (sv # svs, w))"

definition HasService :: "service \<Rightarrow> 's manager \<Rightarrow> bool" where
  "HasService sv m \<longleftrightarrow> sv_unique_name sv \<in> sv_unique_name ` set (mg_services m)"

definition RegisterService :: "'s platform \<Rightarrow> service \<Rightarrow> 's manager \<Rightarrow> 's manager option" where
  "RegisterService P to_manage m =
     (case MatchProfileWithService P to_manage (mg_world m) of (_, sv, w) \<Rightarrow>
        if HasService sv m then None
        else Some (mg_sort (m\<lparr>mg_world := w, mg_services := mg_services m @ [sv]\<rparr>)))"

fun register_all :: "'s platform \<Rightarrow> service list \<Rightarrow> 's manager \<Rightarrow> 's manager option" where
  "register_all P [] m = Some m"
| "register_all P (sv # svs) m =
     (case RegisterService P sv m of None \<Rightarrow> None | Some m \<Rightarrow> register_all P svs m)"

text \<open>The first service of that name is unloaded, whatever \<open>Unload\<close> returns, and erased.\<close>

fun deregister :: "'s platform \<Rightarrow> string \<Rightarrow> service list \<Rightarrow> 's world \<Rightarrow> (service list \<times> 's world) option" where
  "deregister P name [] w = None"
| "deregister P name (sv # svs) w =
     (if sv_unique_name sv = name
      then (case Service_Unload P sv w of (_, sv, w) \<Rightarrow> case SetProfile None sv w of (_, w) \<Rightarrow> Some (svs, w))
      else map_option (\<lambda>(svs, w). (sv # svs, w)) (deregister P name svs w))"

definition DeregisterService :: "'s platform \<Rightarrow> service \<Rightarrow> 's manager \<Rightarrow> 's manager" where
  "DeregisterService P to_forget m =
     (case deregister P (sv_unique_name to_forget) (mg_services m) (mg_world m) of
        None \<Rightarrow> m
      | Some (svs, w) \<Rightarrow> mg_sort (m\<lparr>mg_services := svs, mg_world := w\<rparr>))"

definition EnumerateProfiles :: "'s manager \<Rightarrow> string list" where
  "EnumerateProfiles m = map (\<lambda>i. pr_rpc_identifier (profile_at m i)) (profiles_of m)"

definition OnProfilesChanged :: "'s manager \<Rightarrow> 's manager" where
  "OnProfilesChanged m =
     mg_emit (WriteUserProfileList (SaveUserProfileList (map (profile_at m) (profiles_of m))))
       (mg_emit (EmitProfilesChanged (EnumerateProfiles m)) m)"

definition SetIgnoredDNSSearchPaths :: "'s platform \<Rightarrow> string \<Rightarrow> 's manager \<Rightarrow> bool \<times> 's manager" where
  "SetIgnoredDNSSearchPaths P ignored_paths m =
     (if mp_ignored_dns_search_paths (mg_props m) = ignored_paths then (False, m)
      else (True, m\<lparr>mg_props := (mg_props m)\<lparr>mp_ignored_dns_search_paths := ignored_paths\<rparr>,
              mg_ignored_search_list :=
                (if ignored_paths = [] then [] else pf_split_string P ignored_paths '','')\<rparr>))"

definition LoadProperties :: "'s platform \<Rightarrow> 's environment \<Rightarrow> 's \<Rightarrow> 's manager \<Rightarrow> 's manager" where
  "LoadProperties P E storage m =
     (case LoadManagerProperties (pf_store P) (en_string_to_int E) (en_salt E) storage
             (mg_props m, mg_dhcp_properties m) of
        (props, dhcp) \<Rightarrow>
          let m = m\<lparr>mg_props := props, mg_dhcp_properties := dhcp,
                    mg_world := (mg_world m)\<lparr>wd_no_auto_connect_technologies :=
                                   mp_no_auto_connect_technologies props\<rparr>\<rparr>
          in snd (SetIgnoredDNSSearchPaths P (mp_ignored_dns_search_paths (mg_props m)) m))"

subsection \<open>The profile stack\<close>

text \<open>A new profile object on top of the stack.\<close>

definition push_profile :: "'s profile \<Rightarrow> 's manager \<Rightarrow> 's manager" where
  "push_profile pr m =
     m\<lparr>mg_next_profile := Suc (mg_next_profile m),
       mg_world := (mg_world m)\<lparr>wd_profiles := profiles_of m @ [mg_next_profile m],
         wd_profile := (profile_at m)(mg_next_profile m := pr)\<rparr>\<rparr>"

text \<open>The loops after the push: services, then devices, then providers.\<close>

definition offer_profile ::
    "'s platform \<Rightarrow> 's environment \<Rightarrow> nat \<Rightarrow> 's manager \<Rightarrow> 's manager option" where
  "offer_profile P E i m =
     (case each_service
             (\<lambda>sv w. case ClearExplicitlyDisconnected P sv w of
                (sv, w) \<Rightarrow> snd (ConfigureService P i sv w)) (mg_services m) (mg_world m) of
        (svs, w) \<Rightarrow>
          register_all P (en_created E)
            (m\<lparr>mg_services := svs, mg_world := w,
               mg_devices := map (\<lambda>d. snd (Device_Load (pf_store P) (en_counts E (dv_link_name d))
                                 (pr_storage (wd_profile w i)) d)) (mg_devices m)\<rparr>))"

definition finish_push ::
    "'s platform \<Rightarrow> 's environment \<Rightarrow> 's profile \<Rightarrow> 's manager \<Rightarrow>
      (((error_type \<times> string) + string) \<times> 's manager) option" where
  "finish_push P E pr m =
     (let i = mg_next_profile m
      in map_option (\<lambda>m. (Inr (pr_rpc_identifier (profile_at m i)), OnProfilesChanged (mg_sort m)))
           (offer_profile P E i (push_profile pr m)))"

definition PushProfileInternal ::
    "'s platform \<Rightarrow> 's environment \<Rightarrow> profile_id \<Rightarrow> 's manager \<Rightarrow>
      (((error_type \<times> string) + string) \<times> 's manager) option" where
  "PushProfileInternal P E ident m =
     (if HasProfile ident m
      then Some (Inl (kAlreadyExists, ''Profile name '' @ IdentifierToString ident @ '' is already on stack''), m)
      else
        let opened = InitStorage kOpenExisting ident (en_exists E ident) (en_open E ident) (en_set_header E);
            pr = \<lambda>d st. \<lparr>pr_name = ident, pr_default = d, pr_rpc_identifier = en_rpc E ident, pr_storage = st\<rparr>
        in if id_user ident = []
           then if profiles_of m \<noteq> [] \<and> id_user (pr_name (profile_at m (last (profiles_of m)))) \<noteq> []
                then Some (Inl (kInvalidArguments, ''Cannot load non-default global profile '' @
                       IdentifierToString ident @ '' on top of a user profile''), m)
                else
                  let st = (case opened of Inl _ \<Rightarrow> en_stub E | Inr st \<Rightarrow> en_fixup E st)
                  in finish_push P E (pr True st) (LoadProperties P E st m)
           else (case opened of
                   Inl (e, _) \<Rightarrow> Some (Inl e, m)
                 | Inr st \<Rightarrow> finish_push P E (pr False (en_fixup E st)) m))"

definition PushProfile ::
    "'s platform \<Rightarrow> 's environment \<Rightarrow> string \<Rightarrow> 's manager \<Rightarrow>
      (((error_type \<times> string) + string) \<times> 's manager) option" where
  "PushProfile P E name m =
     (case ParseIdentifier name of
        None \<Rightarrow> Some (Inl (kInvalidArguments, ''Invalid profile name '' @ name), m)
      | Some ident \<Rightarrow> PushProfileInternal P E ident m)"

definition InsertUserProfile ::
    "'s platform \<Rightarrow> 's environment \<Rightarrow> string \<Rightarrow> string \<Rightarrow> 's manager \<Rightarrow>
      (((error_type \<times> string) + string) \<times> 's manager) option" where
  "InsertUserProfile P E name user_hash m =
     (case ParseIdentifier name of
        None \<Rightarrow> Some (Inl (kInvalidArguments, ''Invalid user profile name '' @ name), m)
      | Some ident \<Rightarrow>
          if id_user ident = []
          then Some (Inl (kInvalidArguments, ''Invalid user profile name '' @ name), m)
          else PushProfileInternal P E (ident\<lparr>id_user_hash := user_hash\<rparr>) m)"

text \<open>The loop of \<open>PopProfileInternal\<close>; a service that is completely unloaded is erased.\<close>

fun pop_services ::
    "'s platform \<Rightarrow> 's environment \<Rightarrow> nat \<Rightarrow> service list \<Rightarrow> 's world \<Rightarrow> service list \<times> 's world" where
  "pop_services P E active [] w = ([], w)"
| "pop_services P E active (sv # svs) w =
     (let (sv, w) = ClearExplicitlyDisconnected P sv w;
          keep = (\<lambda>sv w. case pop_services P E active svs w of (svs, w) \<Rightarrow> (sv # svs, w))
      in if IsServiceEphemeral sv \<or> sv_profile sv \<noteq> Some (StackProfile active) then keep sv w
         else case MatchProfileWithService P sv w of
                (True, sv, w) \<Rightarrow> keep sv w
              | (False, sv, w) \<Rightarrow>
                  (case UnloadService P E sv w of
                     (False, sv, w) \<Rightarrow> keep sv w
                   | (True, sv, w) \<Rightarrow> pop_services P E active svs w))"

definition pop_stack :: "'s manager \<Rightarrow> 's manager" where
  "pop_stack m = m\<lparr>mg_world := (mg_world m)\<lparr>wd_profiles := butlast (profiles_of m)\<rparr>\<rparr>"

definition PopProfileInternal :: "'s platform \<Rightarrow> 's environment \<Rightarrow> 's manager \<Rightarrow> 's manager option" where
  "PopProfileInternal P E m =
     (if profiles_of m = [] then None
      else let active = last (profiles_of m); m = pop_stack m
           in case pop_services P E active (mg_services m) (mg_world m) of
                (svs, w) \<Rightarrow> Some (OnProfilesChanged (mg_sort (m\<lparr>mg_services := svs, mg_world := w\<rparr>))))"

text \<open>The result is the error, if there is one.\<close>

definition PopProfile ::
    "'s platform \<Rightarrow> 's environment \<Rightarrow> string \<Rightarrow> 's manager \<Rightarrow>
      ((error_type \<times> string) option \<times> 's manager) option" where
  "PopProfile P E name m =
     (if profiles_of m = [] then Some (Some (kNotFound, ''Profile stack is empty''), m)
      else case ParseIdentifier name of
             None \<Rightarrow> Some (Some (kInvalidArguments, ''Invalid profile name '' @ name), m)
           | Some ident \<Rightarrow>
               if \<not> MatchesIdentifier (profile_at m (last (profiles_of m))) ident
               then Some (Some (kNotSupported, name @ '' is not the active profile''), m)
               else map_option (Pair None) (PopProfileInternal P E m))"

definition PopAnyProfile ::
    "'s platform \<Rightarrow> 's environment \<Rightarrow> 's manager \<Rightarrow> ((error_type \<times> string) option \<times> 's manager) option" where
  "PopAnyProfile P E m =
     (if profiles_of m = [] then Some (Some (kNotFound, ''Profile stack is empty''), m)
      else map_option (Pair None) (PopProfileInternal P E m))"

subsection \<open>Frames of the loops\<close>

text \<open>
  The facts below about the loops are needed for the termination of \<open>PopAllUserProfiles\<close>: popping
  shortens the stack by one profile, whatever happens to the services.
\<close>

lemma frame_match [simp]: "frame (snd (snd (match_profiles P is sv w))) = frame w"
proof (induction "is" arbitrary: sv w)
  case Nil
  show ?case by (simp add: split_def)
next
  case (Cons i "is")
  obtain ok sv' w' where c: "ConfigureService P i sv w = (ok, sv', w')" by (rule prod_cases3)
  then have "frame w' = frame w" using frame_ConfigureService [of P i sv w] by simp
  with Cons c show ?case by (cases ok) simp_all
qed

lemma frame_Match [simp]: "frame (snd (snd (MatchProfileWithService P sv w))) = frame w"
  by (simp add: MatchProfileWithService_def)

lemma frame_UnloadService [simp]: "frame (snd (snd (UnloadService P E sv w))) = frame w"
  by (simp add: UnloadService_def split_def)

lemma frame_each:
  assumes "\<And>sv w. frame (snd (f sv w)) = frame w"
  shows "frame (snd (each_service f svs w)) = frame w"
  using assms by (induction svs arbitrary: w) (simp_all add: split_def)

text \<open>One turn of the loop of \<open>PopProfileInternal\<close>: the service kept, if it is.\<close>

definition pop_one ::
    "'s platform \<Rightarrow> 's environment \<Rightarrow> nat \<Rightarrow> service \<Rightarrow> 's world \<Rightarrow> service option \<times> 's world" where
  "pop_one P E active sv w =
     (let c = ClearExplicitlyDisconnected P sv w
      in if IsServiceEphemeral (fst c) \<or> sv_profile (fst c) \<noteq> Some (StackProfile active) then (Some (fst c), snd c)
         else let r = MatchProfileWithService P (fst c) (snd c)
              in if fst r then (Some (fst (snd r)), snd (snd r))
                 else let u = UnloadService P E (fst (snd r)) (snd (snd r))
                      in (if fst u then None else Some (fst (snd u)), snd (snd u)))"

lemma pop_services_Cons:
  "pop_services P E active (sv # svs) w =
     (case pop_one P E active sv w of
        (None, w) \<Rightarrow> pop_services P E active svs w
      | (Some sv, w) \<Rightarrow> (case pop_services P E active svs w of (svs, w) \<Rightarrow> (sv # svs, w)))"
  by (auto simp: pop_one_def Let_def split: prod.splits bool.splits if_splits)

declare pop_services.simps(2) [simp del]

lemma frame_pop_one [simp]: "frame (snd (pop_one P E active sv w)) = frame w"
  by (simp add: pop_one_def Let_def)

lemma frame_pop_services [simp]: "frame (snd (pop_services P E active svs w)) = frame w"
proof (induction svs arbitrary: w)
  case (Cons sv svs)
  obtain so w' where p: "pop_one P E active sv w = (so, w')" by (rule prod.exhaust)
  then have "frame w' = frame w" using frame_pop_one [of P E active sv w] by simp
  with Cons p show ?case by (cases so) (simp_all add: pop_services_Cons split_def)
qed simp

lemma mg_emit_simps [simp]:
  "mg_world (mg_emit e m) = mg_world m" "mg_services (mg_emit e m) = mg_services m"
  "mg_next_profile (mg_emit e m) = mg_next_profile m"
  by (simp_all add: mg_emit_def)

lemma OnProfilesChanged_simps [simp]:
  "mg_world (OnProfilesChanged m) = mg_world m" "mg_services (OnProfilesChanged m) = mg_services m"
  "mg_next_profile (OnProfilesChanged m) = mg_next_profile m"
  by (simp_all add: OnProfilesChanged_def)

lemma mg_sort_simps [simp]:
  "mg_services (mg_sort m) = mg_services m" "mg_next_profile (mg_sort m) = mg_next_profile m"
  "frame (mg_world (mg_sort m)) = frame (mg_world m)"
  by (simp_all add: mg_sort_def)

lemma PopProfileInternal_frame:
  assumes "PopProfileInternal P E m = Some m'"
  shows "frame (mg_world m') = frame (mg_world (pop_stack m)) \<and> mg_next_profile m' = mg_next_profile m"
  using assms by (auto simp: PopProfileInternal_def Let_def pop_stack_def split_def split: if_splits)

lemma PopProfileInternal_stack:
  assumes "PopProfileInternal P E m = Some m'"
  shows "profiles_of m' = butlast (profiles_of m)" "profiles_of m \<noteq> []"
  using frameD(1) [OF conjunct1 [OF PopProfileInternal_frame [OF assms]]] assms
  by (auto simp: pop_stack_def PopProfileInternal_def)

lemma PopProfileInternal_total: "profiles_of m \<noteq> [] \<Longrightarrow> \<exists>m'. PopProfileInternal P E m = Some m'"
  by (simp add: PopProfileInternal_def Let_def split_def)

subsection \<open>More operations on the stack\<close>

function PopAllUserProfiles :: "'s platform \<Rightarrow> 's environment \<Rightarrow> 's manager \<Rightarrow> 's manager" where
  "PopAllUserProfiles P E m =
     (if profiles_of m = [] \<or> id_user (pr_name (profile_at m (last (profiles_of m)))) = [] then m
      else case PopProfileInternal P E m of None \<Rightarrow> m | Some m \<Rightarrow> PopAllUserProfiles P E m)"
  by pat_completeness auto
termination
  by (relation "measure (\<lambda>(P, E, m). length (profiles_of m))")
    (auto simp: PopProfileInternal_stack(1))

declare PopAllUserProfiles.simps [simp del]

text \<open>The profile that is created is not put on the stack; the result is its RPC name and content.\<close>

definition CreateProfile ::
    "'s platform \<Rightarrow> 's environment \<Rightarrow> string \<Rightarrow> 's manager \<Rightarrow> (error_type \<times> string) + (string \<times> 's)" where
  "CreateProfile P E name m =
     (case ParseIdentifier name of
        None \<Rightarrow> Inl (kInvalidArguments, ''Invalid profile name '' @ name)
      | Some ident \<Rightarrow>
          if HasProfile ident m
          then Inl (kAlreadyExists, ''Profile name '' @ name @ '' is already on stack'')
          else (case InitStorage kCreateNew ident (en_exists E ident) (en_open E ident) (en_set_header E) of
                  Inl (e, _) \<Rightarrow> Inl e
                | Inr st \<Rightarrow>
                    let pr = \<lparr>pr_name = ident, pr_default = (id_user ident = []),
                              pr_rpc_identifier = en_rpc E ident, pr_storage = en_fixup E st\<rparr>;
                        st = (if id_user ident = []
                              then got (DefaultProfile_Save (pf_store P) (en_int_to_string E) pr (mg_props m)
                                          (mg_dhcp_properties m)) (pr_storage pr)
                              else pr_storage pr)
                    in if wd_flush_ok (mg_world m) then Inr (en_rpc E ident, st)
                       else Inl (kInternalError, ''Profile name '' @ name @ '' could not be saved'')))"

text \<open>\<open>deleted\<close> is the result of deleting the file.\<close>

definition RemoveProfile ::
    "(string \<Rightarrow> bool) \<Rightarrow> (profile_id \<Rightarrow> string) \<Rightarrow> string \<Rightarrow> 's manager \<Rightarrow> (error_type \<times> string) option" where
  "RemoveProfile deleted path name m =
     (case ParseIdentifier name of
        None \<Rightarrow> Some (kInvalidArguments, ''Invalid profile name '' @ name)
      | Some ident \<Rightarrow>
          if HasProfile ident m
          then Some (kInvalidArguments, ''Cannot remove profile name '' @ name @ '' since it is on stack'')
          else if \<not> deleted (path ident) then Some (kOperationFailed, ''Could not remove path '' @ path ident)
          else None)"

definition IsActiveProfile :: "nat \<Rightarrow> 's manager \<Rightarrow> bool" where
  "IsActiveProfile i m \<longleftrightarrow> profiles_of m \<noteq> [] \<and> last (profiles_of m) = i"

definition LookupProfileByRpcIdentifier :: "string \<Rightarrow> 's manager \<Rightarrow> nat option" where
  "LookupProfileByRpcIdentifier profile_rpcid m =
     List.find (\<lambda>i. pr_rpc_identifier (profile_at m i) = profile_rpcid) (profiles_of m)"

subsection \<open>Services\<close>

definition set_service :: "service \<Rightarrow> 's manager \<Rightarrow> 's manager" where
  "set_service sv m =
     m\<lparr>mg_services := map (\<lambda>x. if sv_serial_number x = sv_serial_number sv then sv else x) (mg_services m)\<rparr>"

definition erase_service :: "service \<Rightarrow> 's manager \<Rightarrow> 's manager" where
  "erase_service sv m =
     m\<lparr>mg_services := filter (\<lambda>x. sv_serial_number x \<noteq> sv_serial_number sv) (mg_services m)\<rparr>"

definition update_service :: "'s platform \<Rightarrow> service \<Rightarrow> 's world \<Rightarrow> 's manager \<Rightarrow> 's manager" where
  "update_service P sv w m =
     (case Manager_UpdateService P sv w of (sv, w) \<Rightarrow> set_service sv (m\<lparr>mg_world := w\<rparr>))"

text \<open>
  \<open>sv\<close> is an element of \<open>mg_services\<close>. \<open>None\<close> when its profile is null or it is not in the list.
\<close>

definition RemoveService ::
    "'s platform \<Rightarrow> 's environment \<Rightarrow> service \<Rightarrow> 's manager \<Rightarrow> 's manager option" where
  "RemoveService P E sv m =
     (case sv_profile sv of
        None \<Rightarrow> None
      | Some p \<Rightarrow>
          let (matched, sv, w) =
                (if IsServiceEphemeral sv then (False, sv, mg_world m)
                 else case AbandonService P p sv (mg_world m) of (_, sv, w) \<Rightarrow> MatchProfileWithService P sv w)
          in if matched then Some (update_service P sv w m)
             else if sv_serial_number sv \<notin> sv_serial_number ` set (mg_services m) then None
             else (case UnloadService P E sv w of
                     (True, sv, w) \<Rightarrow> Some (mg_sort (erase_service sv (m\<lparr>mg_world := w\<rparr>)))
                   | (False, sv, w) \<Rightarrow> Some (mg_sort (update_service P sv w m))))"

fun delete_entry ::
    "'s platform \<Rightarrow> 's environment \<Rightarrow> nat \<Rightarrow> string \<Rightarrow> service list \<Rightarrow> 's world \<Rightarrow>
      bool \<times> service list \<times> 's world" where
  "delete_entry P E i entry_name [] w = (False, [], w)"
| "delete_entry P E i entry_name (sv # svs) w =
     (let continue = (\<lambda>moved keep w. case delete_entry P E i entry_name svs w of
                        (moved', svs, w) \<Rightarrow> (moved \<or> moved', keep @ svs, w))
      in if sv_profile sv = Some (StackProfile i) \<and> sv_storage_identifier sv = entry_name
         then (case AbandonService P (StackProfile i) sv w of (_, sv, w) \<Rightarrow>
                 case MatchProfileWithService P sv w of
                   (True, sv, w) \<Rightarrow> continue True [sv] w
                 | (False, sv, w) \<Rightarrow>
                     (case UnloadService P E sv w of
                        (True, sv, w) \<Rightarrow> continue True [] w
                      | (False, sv, w) \<Rightarrow> continue True [sv] w))
         else continue False [sv] w)"

definition HandleProfileEntryDeletion ::
    "'s platform \<Rightarrow> 's environment \<Rightarrow> nat \<Rightarrow> string \<Rightarrow> 's manager \<Rightarrow> bool \<times> 's manager" where
  "HandleProfileEntryDeletion P E i entry_name m =
     (case delete_entry P E i entry_name (mg_services m) (mg_world m) of
        (moved_services, svs, w) \<Rightarrow>
          let m = m\<lparr>mg_services := svs, mg_world := w\<rparr>
          in (moved_services, if moved_services then mg_sort m else m))"

definition DeleteEntry ::
    "'s platform \<Rightarrow> 's environment \<Rightarrow> nat \<Rightarrow> string \<Rightarrow> 's manager \<Rightarrow>
      (error_type \<times> string) option \<times> 's manager" where
  "DeleteEntry P E i entry_name m =
     (if \<not> si_ContainsGroup (pf_store P) (pr_storage (profile_at m i)) entry_name
      then (Some (kNotFound, ''Entry '' @ entry_name @ '' does not exist in profile''), m)
      else case HandleProfileEntryDeletion P E i entry_name m of
             (moved, m) \<Rightarrow>
               let w = mg_world m;
                   w = (if moved then w
                        else update_storage i (\<lambda>st. snd (si_DeleteGroup (pf_store P) st entry_name)) w)
               in (None, m\<lparr>mg_world := snd (Flush i w)\<rparr>))"

definition GetServiceWithStorageIdentifier :: "nat \<Rightarrow> string \<Rightarrow> 's manager \<Rightarrow> service option" where
  "GetServiceWithStorageIdentifier i entry_name m =
     List.find (\<lambda>sv. sv_profile sv = Some (StackProfile i) \<and> sv_storage_identifier sv = entry_name)
       (mg_services m)"

definition GetServiceWithGUID :: "string \<Rightarrow> 's manager \<Rightarrow> (error_type \<times> string) + service" where
  "GetServiceWithGUID guid m =
     (case List.find (\<lambda>sv. sv_guid sv = guid) (mg_services m) of
        Some sv \<Rightarrow> Inr sv
      | None \<Rightarrow> Inl (kNotFound, ''Service wth GUID '' @ guid @ '' is not registered in the manager''))"

definition FindService :: "string \<Rightarrow> 's manager \<Rightarrow> service option" where
  "FindService name m = List.find (\<lambda>sv. sv_unique_name sv = name) (mg_services m)"

definition GetLoadableProfileEntriesForService ::
    "'s platform \<Rightarrow> service \<Rightarrow> 's manager \<Rightarrow> (string, string) map" where
  "GetLoadableProfileEntriesForService P sv m =
     foldl (\<lambda>entries i.
              let entry_name = GetLoadableStorageIdentifier P sv (pr_storage (profile_at m i))
              in if entry_name \<noteq> [] then entries(pr_rpc_identifier (profile_at m i) \<mapsto> entry_name) else entries)
       Map.empty (profiles_of m)"

text \<open>\<open>Manager::SetProfileForService\<close> for a registered service; the error, if there is one.\<close>

definition SetProfileForService ::
    "'s platform \<Rightarrow> service \<Rightarrow> string \<Rightarrow> 's manager \<Rightarrow> ((error_type \<times> string) option \<times> 's manager) option" where
  "SetProfileForService P sv profile_rpcid m =
     (case LookupProfileByRpcIdentifier profile_rpcid m of
        None \<Rightarrow> Some (Some (kInvalidArguments,
                  ''Unknown Profile '' @ profile_rpcid @ '' requested for Service''), m)
      | Some i \<Rightarrow>
          (case (if sv_profile sv = None
                 then map_option (\<lambda>m. (last (mg_services m), m)) (RegisterService P sv m)
                 else Some (sv, m)) of
             None \<Rightarrow> None
           | Some (sv, m) \<Rightarrow>
               if sv_profile sv = Some (StackProfile i)
               then Some (Some (kInvalidArguments, ''Service is already connected to this profile''), m)
               else (case sv_profile sv of
                       None \<Rightarrow> None
                     | Some from \<Rightarrow>
                         (case MoveServiceToProfile P from (StackProfile i) sv (mg_world m) of
                            (moved, sv, w) \<Rightarrow>
                              Some (if moved then None
                                    else Some (kInternalError, ''Unable to move service to profile''),
                                    set_service sv (m\<lparr>mg_world := w\<rparr>))))))"

subsection \<open>State for clients\<close>

definition GetDefaultService :: "'s manager \<Rightarrow> service option" where
  "GetDefaultService m =
     (case mg_services m of
        [] \<Rightarrow> None
      | sv # _ \<Rightarrow> if sv_connection sv = None then None else Some sv)"

definition Manager_IsConnected :: "'s manager \<Rightarrow> bool" where
  "Manager_IsConnected m \<longleftrightarrow> (case mg_services m of [] \<Rightarrow> False | sv # _ \<Rightarrow> IsConnected sv)"

definition Manager_IsOnline :: "'s manager \<Rightarrow> bool" where
  "Manager_IsOnline m \<longleftrightarrow> (case mg_services m of [] \<Rightarrow> False | sv # _ \<Rightarrow> IsOnline sv)"

definition DefaultTechnology :: "'s platform \<Rightarrow> 's manager \<Rightarrow> string" where
  "DefaultTechnology P m =
     (case mg_services m of
        [] \<Rightarrow> []
      | sv # _ \<Rightarrow> if IsConnected sv then NameFromIdentifier (pf_tech P) (sv_technology sv) else [])"

fun IsWifiIdle :: "service list \<Rightarrow> bool" where
  "IsWifiIdle [] = False"
| "IsWifiIdle (sv # svs) =
     (if sv_technology sv = kWifi then \<not> IsConnecting sv \<and> \<not> IsConnected sv else IsWifiIdle svs)"

definition device_connected :: "'s manager \<Rightarrow> device \<Rightarrow> bool" where
  "device_connected m d \<longleftrightarrow>
     (\<exists>sv \<in> set (mg_services m). dv_selected_service d = Some (sv_serial_number sv) \<and> IsConnected sv)"

definition ConnectedTechnologies :: "'s platform \<Rightarrow> 's manager \<Rightarrow> string set" where
  "ConnectedTechnologies P m =
     (\<lambda>d. NameFromIdentifier (pf_tech P) (dv_technology d)) ` set (filter (device_connected m) (mg_devices m))"

definition EnumerateCompleteServices :: "'s manager \<Rightarrow> nat list" where
  "EnumerateCompleteServices m = map sv_serial_number (mg_services m)"

definition EnumerateAvailableServices :: "'s manager \<Rightarrow> nat list" where
  "EnumerateAvailableServices m = map sv_serial_number (filter sv_visible (mg_services m))"

definition EnumerateWatchedServices :: "'s manager \<Rightarrow> nat list \<times> 's manager" where
  "EnumerateWatchedServices m =
     (let watched = filter (\<lambda>sv. sv_visible sv \<and> IsActive sv) (mg_services m)
      in (map sv_serial_number watched,
          m\<lparr>mg_watched_service_states :=
              foldl (\<lambda>states sv. states(sv_unique_name sv \<mapsto> sv_state sv)) Map.empty watched\<rparr>))"

text \<open>The callbacks registered for changes of the default service are the event.\<close>

definition notify_default_service :: "nat option \<Rightarrow> 's manager \<Rightarrow> 's manager" where
  "notify_default_service sv m =
     (let m = mg_emit (NotifyDefaultServiceChanged sv) m;
          default_service = map_option sv_serial_number (GetDefaultService m)
      in if default_service \<noteq> mg_default_service m
         then (mg_emit (EmitDefaultServiceChanged default_service) m)\<lparr>mg_default_service := default_service\<rparr>
         else m)"

definition RefreshConnectionState :: "'s platform \<Rightarrow> 's manager \<Rightarrow> 's manager" where
  "RefreshConnectionState P m =
     (let connection_state =
            (case GetDefaultService m of Some sv \<Rightarrow> GetStateString P sv | None \<Rightarrow> pf_state_name P kStateIdle)
      in if mg_connection_state m = connection_state then m
         else
           let m = mg_emit (EmitConnectionStateChanged connection_state)
                     (m\<lparr>mg_connection_state := connection_state\<rparr>)
           in if \<not> mg_is_connected_state m \<and> Manager_IsConnected m
              then mg_emit UpstartNotifyConnected (m\<lparr>mg_is_connected_state := True\<rparr>)
              else if mg_is_connected_state m \<and> \<not> Manager_IsConnected m
              then mg_emit UpstartNotifyDisconnected (m\<lparr>mg_is_connected_state := False\<rparr>)
              else if connection_state = pf_state_name P kStateIdle
              then mg_emit UpstartNotifyDisconnected m else m)"

subsection \<open>Devices on the same subnet\<close>

text \<open>The buckets of \<open>DetectMultiHomedDevices\<close>: the positions of the devices on each subnet.\<close>

fun add_bucket :: "string \<Rightarrow> nat \<Rightarrow> (string \<times> nat list) list \<Rightarrow> (string \<times> nat list) list" where
  "add_bucket name i [] = [(name, [i])]"
| "add_bucket name i ((n, is) # bs) = (if n = name then (n, is @ [i]) # bs else (n, is) # add_bucket name i bs)"

definition subnet_of :: "(nat \<Rightarrow> string) \<Rightarrow> device \<Rightarrow> string" where
  "subnet_of GetSubnetName d = (case dv_connection d of None \<Rightarrow> [] | Some c \<Rightarrow> GetSubnetName c)"

definition bucket_step ::
    "(nat \<Rightarrow> string) \<Rightarrow> (string \<times> nat list) list \<times> device list \<Rightarrow> nat \<Rightarrow>
      (string \<times> nat list) list \<times> device list" where
  "bucket_step GetSubnetName st i =
     (case st of (buckets, ds) \<Rightarrow>
        let subnet_name = subnet_of GetSubnetName (ds ! i)
        in if subnet_name = [] then (buckets, ds[i := SetIsMultiHomed False (ds ! i)])
           else (add_bucket subnet_name i buckets, ds))"

definition apply_bucket :: "device list \<Rightarrow> nat list \<Rightarrow> device list" where
  "apply_bucket ds is =
     (if length is > 1 then foldl (\<lambda>ds i. ds[i := SetIsMultiHomed True (ds ! i)]) ds is
      else ds[last is := SetIsMultiHomed False (ds ! last is)])"

definition DetectMultiHomedDevices :: "(nat \<Rightarrow> string) \<Rightarrow> device list \<Rightarrow> device list" where
  "DetectMultiHomedDevices GetSubnetName ds =
     (case foldl (bucket_step GetSubnetName) ([], ds) [0..<length ds] of
        (buckets, ds) \<Rightarrow> foldl apply_bucket ds (map snd buckets))"

subsection \<open>Ranking and automatic connection\<close>

text \<open>The loop of \<open>Manager::AutoConnect\<close>; \<open>done\<close> is the part of the list already visited.\<close>

fun auto_connect_loop ::
    "'s platform \<Rightarrow> service list \<Rightarrow> service list \<Rightarrow> 's world \<Rightarrow> service list \<times> 's world" where
  "auto_connect_loop P done [] w = (done, w)"
| "auto_connect_loop P done (sv # svs) w =
     (case (if sv_auto_connect sv then AutoConnect P (IsConnected (hd (done @ sv # svs))) sv w else (sv, w)) of
        (sv, w) \<Rightarrow> auto_connect_loop P (done @ [sv]) svs w)"

definition Manager_AutoConnect :: "'s platform \<Rightarrow> 's manager \<Rightarrow> 's manager" where
  "Manager_AutoConnect P m =
     (if mg_suppress_autoconnect m \<or> \<not> wd_running (mg_world m) \<or>
         wd_suspending (mg_world m) = Some True \<and> \<not> mg_in_dark_resume m \<or> mg_services m = [] then m
      else
        let m = (if IsWifiIdle (mg_services m) then mg_emit ReportAutoConnectableServices m else m)
        in case auto_connect_loop P [] (mg_services m) (mg_world m) of
             (svs, w) \<Rightarrow> m\<lparr>mg_services := svs, mg_world := w\<rparr>)"

text \<open>The connection marked as the default one, and the default service if it has a connection.\<close>

definition update_default :: "service \<Rightarrow> service \<Rightarrow> (nat \<Rightarrow> bool) \<Rightarrow> (nat \<Rightarrow> bool) \<times> nat option" where
  "update_default old new is_default =
     (let is_default =
            (case sv_connection old of
               Some c \<Rightarrow> if sv_connection new \<noteq> Some c then is_default(c := False) else is_default
             | None \<Rightarrow> is_default)
      in case sv_connection new of
           Some c \<Rightarrow> (is_default(c := True), Some (sv_serial_number new))
         | None \<Rightarrow> (is_default, None))"

definition sort_and_mark :: "'s manager \<Rightarrow> nat option \<times> 's manager" where
  "sort_and_mark m =
     (let w = (mg_world m)\<lparr>wd_sort_pending := False\<rparr>;
          sorted = std_sort (ServiceSorter w True (mg_technology_order m)) (mg_services m);
          (is_default, default_service) =
            (if sorted = [] then (mg_connection_is_default m, None)
             else update_default (hd (mg_services m)) (hd sorted) (mg_connection_is_default m))
      in (default_service,
          m\<lparr>mg_world := w, mg_services := sorted, mg_connection_is_default := is_default\<rparr>))"

definition emit_services :: "'s platform \<Rightarrow> 's manager \<Rightarrow> 's manager" where
  "emit_services P m =
     (let m = mg_emit (EmitServiceCompleteList (EnumerateCompleteServices m)) m;
          m = mg_emit (EmitServices (EnumerateAvailableServices m)) m;
          (watched, m) = EnumerateWatchedServices m;
          m = mg_emit (EmitServiceWatchList watched) m;
          m = mg_emit (EmitConnectedTechnologies (ConnectedTechnologies P m)) m
      in mg_emit (EmitDefaultTechnology (DefaultTechnology P m)) m)"

definition SortServicesTask :: "'s platform \<Rightarrow> (nat \<Rightarrow> string) \<Rightarrow> 's manager \<Rightarrow> 's manager" where
  "SortServicesTask P GetSubnetName m =
     (let (default_service, m) = sort_and_mark m;
          m = emit_services P m;
          m = notify_default_service default_service m;
          m = RefreshConnectionState P m;
          m = m\<lparr>mg_devices := DetectMultiHomedDevices GetSubnetName (mg_devices m)\<rparr>
      in Manager_AutoConnect P m)"

text \<open>
  The loop over the sorted copy: \<open>svs\<close> is the manager's list, whose head \<open>IsConnected()\<close> reads. The first
  component of the result are the services on which \<open>Connect\<close> was called.
\<close>

fun best_loop ::
    "'s platform \<Rightarrow> service list \<Rightarrow> technology set \<Rightarrow> service list \<Rightarrow> 's world \<Rightarrow>
      service list \<times> service list \<times> 's world" where
  "best_loop P [] techs svs w = ([], svs, w)"
| "best_loop P (sv # copy) techs svs w =
     (if \<not> sv_connectable sv then ([], svs, w)
      else if \<not> sv_auto_connect sv \<or> \<not> sv_visible sv then best_loop P copy techs svs w
      else if \<not> IsPrimaryConnectivityTechnology (sv_technology sv) \<and> \<not> (svs \<noteq> [] \<and> IsConnected (hd svs))
      then best_loop P copy techs svs w
      else if sv_technology sv \<in> techs then best_loop P copy techs svs w
      else if sv_explicitly_disconnected sv then best_loop P copy techs svs w
      else if \<not> IsConnected sv \<and> \<not> IsConnecting sv
      then (case Connect P sv w of (sv', w) \<Rightarrow>
              case best_loop P copy (insert (sv_technology sv) techs)
                     (map (\<lambda>x. if sv_serial_number x = sv_serial_number sv then sv' else x) svs) w of
                (connected, svs, w) \<Rightarrow> (sv # connected, svs, w))
      else best_loop P copy (insert (sv_technology sv) techs) svs w)"

definition ConnectToBestServicesTask :: "'s platform \<Rightarrow> 's manager \<Rightarrow> service list \<times> 's manager" where
  "ConnectToBestServicesTask P m =
     (case best_loop P (std_sort (ServiceSorter (mg_world m) False (mg_technology_order m)) (mg_services m))
             {} (mg_services m) (mg_world m) of
        (connected, svs, w) \<Rightarrow> (connected, m\<lparr>mg_services := svs, mg_world := w\<rparr>))"

definition SetTechnologyOrder ::
    "'s platform \<Rightarrow> string \<Rightarrow> 's manager \<Rightarrow> (error_type \<times> string) option \<times> 's manager" where
  "SetTechnologyOrder P order m =
     (case GetTechnologyVectorFromString (pf_tech P) (pf_split_string P) order of
        Inl e \<Rightarrow> (Some e, m)
      | Inr new_order \<Rightarrow>
          let m = m\<lparr>mg_technology_order := new_order\<rparr>
          in (None, if wd_running (mg_world m) then mg_sort m else m))"

definition GetTechnologyOrder :: "'s platform \<Rightarrow> 's manager \<Rightarrow> string" where
  "GetTechnologyOrder P m = pf_join_comma P (map (NameFromIdentifier (pf_tech P)) (mg_technology_order m))"

text \<open>The devices resume one after the other; each changes the service it has selected.\<close>

definition resume_selected :: "device \<Rightarrow> service \<Rightarrow> service" where
  "resume_selected d sv =
     (if dv_selected_service d = Some (sv_serial_number sv) then the (snd (Device_OnAfterResume d (Some sv)))
      else sv)"

fun resume_devices :: "device list \<Rightarrow> service list \<Rightarrow> device list \<times> service list" where
  "resume_devices [] svs = ([], svs)"
| "resume_devices (d # ds) svs =
     (case resume_devices ds (map (resume_selected d) svs) of
        (ds, svs) \<Rightarrow> (fst (Device_OnAfterResume d None) # ds, svs))"

definition OnSuspendDone :: "'s platform \<Rightarrow> 's manager \<Rightarrow> 's manager" where
  "OnSuspendDone P m =
     (case each_service (OnAfterResume P) (mg_services m) (mg_world m) of
        (svs, w) \<Rightarrow>
          let m = mg_sort (m\<lparr>mg_suppress_autoconnect := False, mg_services := svs, mg_world := w\<rparr>)
          in case resume_devices (mg_devices m) (mg_services m) of
               (ds, svs) \<Rightarrow> m\<lparr>mg_devices := ds, mg_services := svs\<rparr>)"

text \<open>
  The choice of the network that \<open>VerifyDestination\<close> hands to the crypto utility; \<open>ids\<close> gives the SSID
  and BSSID of a WiFi service.
\<close>

definition VerifyDestination ::
    "(service \<Rightarrow> string \<times> string) \<Rightarrow> string \<Rightarrow> string \<Rightarrow> 's manager \<Rightarrow>
      (error_type \<times> string) + (string \<times> string)" where
  "VerifyDestination ids hotspot_ssid hotspot_bssid m =
     (if length hotspot_bssid > 32 then Inl (kOperationFailed, ''Invalid SSID given for verification.'')
      else if hotspot_ssid \<noteq> [] \<or> hotspot_bssid \<noteq> [] then Inr (hotspot_ssid, hotspot_bssid)
      else case List.find (\<lambda>sv. sv_technology sv = kWifi \<and> IsConnected sv) (mg_services m) of
             Some sv \<Rightarrow> Inr (ids sv)
           | None \<Rightarrow> Inl (kOperationFailed, ''Unable to find connected WiFi service.''))"

end
