(* ===== verification/Manager_Proofs.thy ===== *)
theory Manager_Proofs
  imports Manager "HOL-Library.Sublist"
begin

text \<open>
  The invariant of the manager: the shape of the profile stack, and that every registered service is in
  a profile of the stack or in the ephemeral one, and that services keep distinct names. It is kept by
  every sequence of the operations of \<open>Manager\<close>, of the registered services' own operations and of changes
  of their surroundings (\<open>mgr_step\<close>).
\<close>

subsection \<open>The invariant\<close>

definition profile_key :: "'s manager \<Rightarrow> nat \<Rightarrow> string \<times> string" where
  "profile_key m i = (id_user (pr_name (profile_at m i)), id_identifier (pr_name (profile_at m i)))"

definition user_profile :: "'s manager \<Rightarrow> nat \<Rightarrow> bool" where
  "user_profile m i \<longleftrightarrow> id_user (pr_name (profile_at m i)) \<noteq> []"

text \<open>No object twice, no name twice, and no machine profile above a user profile.\<close>

definition stack_ok :: "'s manager \<Rightarrow> bool" where
  "stack_ok m \<longleftrightarrow> distinct (profiles_of m) \<and> (\<forall>i \<in> set (profiles_of m). i < mg_next_profile m) \<and>
     distinct (map (profile_key m) (profiles_of m)) \<and>
     sorted_wrt (\<lambda>i j. user_profile m i \<longrightarrow> user_profile m j) (profiles_of m)"

definition services_ok :: "nat list \<Rightarrow> service list \<Rightarrow> bool" where
  "services_ok ps svs \<longleftrightarrow> (\<forall>sv \<in> set svs. profile_valid ps sv) \<and>
     distinct (map sv_unique_name svs) \<and> distinct (map sv_serial_number svs)"

definition mgr_inv :: "'s manager \<Rightarrow> bool" where
  "mgr_inv m \<longleftrightarrow> stack_ok m \<and> services_ok (profiles_of m) (mg_services m)"

text \<open>What \<open>stack_ok\<close> reads.\<close>

lemma stack_ok_frame:
  assumes "frame (mg_world m') = frame (mg_world m)" "mg_next_profile m' = mg_next_profile m"
  shows "stack_ok m' = stack_ok m"
proof -
  have "profile_key m' = profile_key m" "user_profile m' = user_profile m"
    using frameD(2) [OF assms(1)] by (simp_all add: profile_key_def user_profile_def fun_eq_iff)
  then show ?thesis using frameD(1) [OF assms(1)] assms(2) by (simp add: stack_ok_def)
qed

lemma mgr_inv_step:
  assumes "stack_ok m" "frame (mg_world m') = frame (mg_world m)" "mg_next_profile m' = mg_next_profile m"
    and "services_ok (profiles_of m) (mg_services m')"
  shows "mgr_inv m'"
  using assms stack_ok_frame [OF assms(2,3)] frameD(1) [OF assms(2)] by (simp add: mgr_inv_def)

lemma subseq_distinct: "subseq xs ys \<Longrightarrow> distinct ys \<Longrightarrow> distinct xs"
  by (induction rule: list_emb.induct) (auto dest: list_emb_set)

lemma services_ok_subseq:
  assumes "services_ok ps svs" "subseq (map fixed_fields svs') (map fixed_fields svs)"
    and "\<forall>sv \<in> set svs'. profile_valid ps' sv"
  shows "services_ok ps' svs'"
proof -
  have "subseq (map (fst \<circ> fst) (map fixed_fields svs')) (map (fst \<circ> fst) (map fixed_fields svs))"
    "subseq (map (fst \<circ> snd \<circ> fst) (map fixed_fields svs')) (map (fst \<circ> snd \<circ> fst) (map fixed_fields svs))"
    using assms(2) by (rule subseq_map)+
  moreover have "map (fst \<circ> fst) (map fixed_fields l) = map sv_unique_name l"
    "map (fst \<circ> snd \<circ> fst) (map fixed_fields l) = map sv_serial_number l" for l
    by (simp_all add: fixed_fields_def)
  ultimately have "subseq (map sv_unique_name svs') (map sv_unique_name svs)"
    "subseq (map sv_serial_number svs') (map sv_serial_number svs)" by (simp_all only:)
  then have "distinct (map sv_unique_name svs')" "distinct (map sv_serial_number svs')"
    using assms(1) unfolding services_ok_def by (blast intro: subseq_distinct)+
  then show ?thesis using assms(3) by (simp add: services_ok_def)
qed

subsection \<open>The loops\<close>

lemma fixed_match [simp]: "fixed_fields (fst (snd (match_profiles P is sv w))) = fixed_fields sv"
proof (induction "is" arbitrary: sv w)
  case Nil
  show ?case by (simp add: split_def)
next
  case (Cons i "is")
  obtain ok sv' w' where c: "ConfigureService P i sv w = (ok, sv', w')" by (rule prod_cases3)
  then have "fixed_fields sv' = fixed_fields sv" using fixed_ConfigureService [of P i sv w] by simp
  with Cons c show ?case by (cases ok) simp_all
qed

lemma match_profile:
  "sv_profile (fst (snd (match_profiles P is sv w))) \<in>
     (if fst (match_profiles P is sv w) then (\<lambda>i. Some (StackProfile i)) ` set is else {Some EphemeralProfile})"
proof (induction "is" arbitrary: sv w)
  case Nil
  show ?case by (simp add: split_def)
next
  case (Cons i "is")
  obtain ok sv' w' where c: "ConfigureService P i sv w = (ok, sv', w')" by (rule prod_cases3)
  show ?case
  proof (cases ok)
    case True
    then show ?thesis using c ConfigureService_profile [of P i sv w] by simp
  next
    case False
    then show ?thesis using c Cons [of sv' w'] by (auto split: if_splits)
  qed
qed

lemma Match_facts:
  "fixed_fields (fst (snd (MatchProfileWithService P sv w))) = fixed_fields sv"
  "profile_valid (wd_profiles w) (fst (snd (MatchProfileWithService P sv w)))"
  "\<not> fst (MatchProfileWithService P sv w) \<Longrightarrow>
     sv_profile (fst (snd (MatchProfileWithService P sv w))) = Some EphemeralProfile"
  using match_profile [of P "rev (wd_profiles w)" sv w]
  by (auto simp: MatchProfileWithService_def split: if_splits)

lemma UnloadService_facts:
  "fixed_fields (fst (snd (UnloadService P E sv w))) = fixed_fields sv"
  "\<not> fst (UnloadService P E sv w) \<Longrightarrow> same_or_top w sv (fst (snd (UnloadService P E sv w)))"
  using Unload_profile [of w sv P] by (auto simp: UnloadService_def split_def split: if_splits)

lemma UnloadService_valid:
  assumes "profile_valid (wd_profiles w) sv" "\<not> fst (UnloadService P E sv w)"
  shows "profile_valid (wd_profiles w) (fst (snd (UnloadService P E sv w)))"
  using UnloadService_facts(2) [OF assms(2)] assms(1) by (rule same_or_top_valid)

lemma each_service_facts:
  assumes "\<And>sv w. fixed_fields (fst (f sv w)) = fixed_fields sv" "\<And>sv w. frame (snd (f sv w)) = frame w"
    and valid: "\<And>sv w. wd_profiles w = ps \<Longrightarrow> profile_valid ps sv \<Longrightarrow> profile_valid ps (fst (f sv w))"
    and "wd_profiles w = ps" "\<forall>sv \<in> set svs. profile_valid ps sv"
  shows "map fixed_fields (fst (each_service f svs w)) = map fixed_fields svs \<and>
    (\<forall>sv \<in> set (fst (each_service f svs w)). profile_valid ps sv)"
  using assms(4,5)
proof (induction svs arbitrary: w)
  case (Cons sv svs)
  obtain sv' w' where f: "f sv w = (sv', w')" by (rule prod.exhaust)
  have "wd_profiles w' = ps" using frameD(1) [OF assms(2) [of sv w]] f Cons.prems(1) by simp
  then show ?case
    using Cons.IH [of w'] Cons.prems valid [of w sv] assms(1) [of sv w] f by (simp add: split_def)
qed simp

lemma pop_one_facts:
  assumes ps: "wd_profiles w = ps" and valid: "profile_valid (ps @ [active]) sv" and "active \<notin> set ps"
  shows "case fst (pop_one P E active sv w) of
    None \<Rightarrow> True | Some sv' \<Rightarrow> fixed_fields sv' = fixed_fields sv \<and> profile_valid ps sv'"
proof -
  let ?c = "ClearExplicitlyDisconnected P sv w"
  let ?r = "MatchProfileWithService P (fst ?c) (snd ?c)"
  have c: "same_or_top w sv (fst ?c)" by (rule Clear_profile)
  have "wd_profiles (snd ?c) = ps" using frameD(1) [OF frame_Clear] ps by metis
  moreover have "wd_profiles (snd (snd ?r)) = ps"
    using frameD(1) [OF frame_Match] calculation by metis
  ultimately have w: "wd_profiles (snd ?c) = ps" "wd_profiles (snd (snd ?r)) = ps" by simp_all
  have "profile_valid ps (fst ?c)"
    if "sv_profile (fst ?c) \<noteq> Some (StackProfile active)"
    using c valid that assms(3) ps
    by (auto simp: same_or_top_def profile_valid_def split: option.splits profile_ref.splits)
  moreover have "profile_valid ps (fst (snd ?r))" using Match_facts(2) w(1) by metis
  moreover have "profile_valid ps (fst (snd (UnloadService P E (fst (snd ?r)) (snd (snd ?r)))))"
    if "\<not> fst (UnloadService P E (fst (snd ?r)) (snd (snd ?r)))"
    using UnloadService_valid [OF _ that] calculation(2) w(2) by simp
  ultimately show ?thesis
    by (auto simp: pop_one_def Let_def Match_facts(1) UnloadService_facts(1) IsServiceEphemeral_def)
qed

lemma pop_services_facts:
  assumes "wd_profiles w = ps" "\<forall>sv \<in> set svs. profile_valid (ps @ [active]) sv" "active \<notin> set ps"
  shows "subseq (map fixed_fields (fst (pop_services P E active svs w))) (map fixed_fields svs) \<and>
    (\<forall>sv \<in> set (fst (pop_services P E active svs w)). profile_valid ps sv)"
  using assms(1,2)
proof (induction svs arbitrary: w)
  case (Cons sv svs)
  obtain so w' where p: "pop_one P E active sv w = (so, w')" by (rule prod.exhaust)
  have w': "wd_profiles w' = ps" using frameD(1) [OF frame_pop_one [of P E active sv w]] p Cons.prems(1) by simp
  note IH = Cons.IH [OF w']
  have "profile_valid (ps @ [active]) sv" using Cons.prems(2) by simp
  note one = pop_one_facts [OF Cons.prems(1) this assms(3), of P E]
  show ?case
  proof (cases so)
    case None
    then show ?thesis using p IH Cons.prems(2) by (auto simp: pop_services_Cons)
  next
    case (Some sv')
    then show ?thesis using p IH one Cons.prems(2) by (simp add: pop_services_Cons split_def)
  qed
qed simp

subsection \<open>Every operation keeps the invariant\<close>

lemma services_ok_map:
  assumes "services_ok ps svs" "map fixed_fields svs' = map fixed_fields svs"
    and "\<forall>sv \<in> set svs'. profile_valid ps' sv"
  shows "services_ok ps' svs'"
  using services_ok_subseq [OF assms(1) _ assms(3)] assms(2) by simp

lemma services_ok_valid: "services_ok ps svs \<Longrightarrow> \<forall>sv \<in> set svs. profile_valid ps sv"
  by (simp add: services_ok_def)

lemma RegisterService_inv:
  assumes "mgr_inv m" "RegisterService P sv m = Some m'"
    and fresh: "sv_serial_number sv \<notin> sv_serial_number ` set (mg_services m)"
  shows "mgr_inv m' \<and> frame (mg_world m') = frame (mg_world m) \<and> mg_next_profile m' = mg_next_profile m"
proof -
  let ?r = "MatchProfileWithService P sv (mg_world m)"
  let ?sv = "fst (snd ?r)"
  have r: "fixed_fields ?sv = fixed_fields sv" "profile_valid (profiles_of m) ?sv"
    by (rule Match_facts)+
  have m': "m' = mg_sort (m\<lparr>mg_world := snd (snd ?r), mg_services := mg_services m @ [?sv]\<rparr>)"
    and new: "sv_unique_name ?sv \<notin> sv_unique_name ` set (mg_services m)"
    using assms(2) by (auto simp: RegisterService_def split_def HasService_def split: if_splits)
  have f: "frame (mg_world m') = frame (mg_world m)" "mg_next_profile m' = mg_next_profile m"
    by (simp_all add: m')
  have "services_ok (profiles_of m) (mg_services m')"
    using assms(1) new fresh r fixed_fieldsD(2) [OF r(1)] by (auto simp: m' mgr_inv_def services_ok_def)
  with assms(1) f show ?thesis using mgr_inv_step [of m m'] by (simp add: mgr_inv_def)
qed

lemma register_all_inv:
  assumes "mgr_inv m" "register_all P svs m = Some m'"
    and "distinct (map sv_serial_number svs)"
      "\<forall>sv \<in> set svs. sv_serial_number sv \<notin> sv_serial_number ` set (mg_services m)"
  shows "mgr_inv m' \<and> frame (mg_world m') = frame (mg_world m) \<and> mg_next_profile m' = mg_next_profile m"
  using assms
proof (induction svs arbitrary: m)
  case (Cons sv svs)
  then obtain m1 where m1: "RegisterService P sv m = Some m1" "register_all P svs m1 = Some m'"
    by (auto split: option.splits)
  have reg: "mgr_inv m1 \<and> frame (mg_world m1) = frame (mg_world m) \<and> mg_next_profile m1 = mg_next_profile m"
    using RegisterService_inv [OF Cons.prems(1) m1(1)] Cons.prems(4) by simp
  have "sv_serial_number ` set (mg_services m1) = insert (sv_serial_number sv) (sv_serial_number ` set (mg_services m))"
    using m1(1) fixed_fieldsD(2) [OF Match_facts(1) [of P sv "mg_world m"]]
    by (auto simp: RegisterService_def split_def split: if_splits)
  then have "\<forall>sv \<in> set svs. sv_serial_number sv \<notin> sv_serial_number ` set (mg_services m1)"
    using Cons.prems(3,4) by (metis imageI insertE distinct.simps(2) list.set_intros(2) list.set_map list.simps(9))
  with Cons.IH [OF conjunct1 [OF reg] m1(2)] Cons.prems(3) reg show ?case by simp
qed simp

text \<open>The services that providers create for a new profile are new objects.\<close>

definition env_ok :: "'s environment \<Rightarrow> 's manager \<Rightarrow> bool" where
  "env_ok E m \<longleftrightarrow> distinct (map sv_serial_number (en_created E)) \<and>
     (\<forall>sv \<in> set (en_created E). sv_serial_number sv \<notin> sv_serial_number ` set (mg_services m))"

lemma LoadProperties_simps [simp]:
  "mg_services (LoadProperties P E st m) = mg_services m"
  "mg_next_profile (LoadProperties P E st m) = mg_next_profile m"
  "profiles_of (LoadProperties P E st m) = profiles_of m"
  "profile_at (LoadProperties P E st m) = profile_at m"
  by (simp_all add: LoadProperties_def SetIgnoredDNSSearchPaths_def Let_def split_def)

lemma stack_ok_push:
  assumes "stack_ok m" "\<not> HasProfile (pr_name pr) m"
    and top: "id_user (pr_name pr) = [] \<Longrightarrow> \<forall>i \<in> set (profiles_of m). \<not> user_profile m i"
  shows "stack_ok (push_profile pr m)"
proof -
  let ?m = "push_profile pr m" and ?n = "mg_next_profile m"
  have lt: "\<forall>i \<in> set (profiles_of m). i < ?n" using assms(1) by (simp add: stack_ok_def)
  have old: "profile_key ?m i = profile_key m i" "user_profile ?m i = user_profile m i"
    if "i \<in> set (profiles_of m)" for i
    using that lt by (auto simp: push_profile_def profile_key_def user_profile_def)
  have new: "profile_key ?m ?n = (id_user (pr_name pr), id_identifier (pr_name pr))"
    "user_profile ?m ?n = (id_user (pr_name pr) \<noteq> [])"
    by (simp_all add: push_profile_def profile_key_def user_profile_def)
  have stack: "profiles_of ?m = profiles_of m @ [?n]" "mg_next_profile ?m = Suc ?n"
    by (simp_all add: push_profile_def)
  have "map (profile_key ?m) (profiles_of m) = map (profile_key m) (profiles_of m)" using old by simp
  then have "distinct (map (profile_key ?m) (profiles_of m))" using assms(1) by (simp only: stack_ok_def)
  moreover have "profile_key ?m ?n \<notin> profile_key m ` set (profiles_of m)"
    unfolding new using assms(2) by (auto simp: HasProfile_def MatchesIdentifier_def profile_key_def)
  moreover have "sorted_wrt (\<lambda>i j. user_profile ?m i \<longrightarrow> user_profile ?m j) (profiles_of m)"
    using assms(1) old by (auto simp: stack_ok_def elim!: sorted_wrt_mono_rel [rotated])
  moreover have "user_profile ?m i \<longrightarrow> user_profile ?m ?n" if "i \<in> set (profiles_of m)" for i
    using that old top by (auto simp: new)
  ultimately show ?thesis
    using assms(1) lt old by (auto simp: stack_ok_def stack sorted_wrt_append)
qed

lemma offer_inv:
  assumes inv: "mgr_inv m" and off: "offer_profile P E i m = Some m'"
    and i: "i \<in> set (profiles_of m)" and "env_ok E m"
  shows "mgr_inv m' \<and> frame (mg_world m') = frame (mg_world m) \<and> mg_next_profile m' = mg_next_profile m"
proof -
  define f where "f = (\<lambda>sv w. case ClearExplicitlyDisconnected P sv w of
      (sv, w) \<Rightarrow> snd (ConfigureService P i sv w))"
  define r where "r = each_service f (mg_services m) (mg_world m)"
  define m1 where "m1 = m\<lparr>mg_services := fst r, mg_world := snd r,
      mg_devices := map (\<lambda>d. snd (Device_Load (pf_store P) (en_counts E (dv_link_name d))
        (pr_storage (wd_profile (snd r) i)) d)) (mg_devices m)\<rparr>"
  have f1: "fixed_fields (fst (f sv w)) = fixed_fields sv" "frame (snd (f sv w)) = frame w" for sv w
    by (simp_all add: f_def split_def)
  have f2: "profile_valid (profiles_of m) (fst (f sv w))"
    if "wd_profiles w = profiles_of m" "profile_valid (profiles_of m) sv" for sv w
  proof -
    have "wd_profiles (snd (ClearExplicitlyDisconnected P sv w)) = profiles_of m"
      using frameD(1) [OF frame_Clear [of P sv w]] that(1) by simp
    with ConfigureService_valid [of "snd (ClearExplicitlyDisconnected P sv w)" _ i P]
      same_or_top_valid [OF Clear_profile [of w sv P]] that i
    show ?thesis by (simp add: f_def split_def)
  qed
  have "frame (mg_world m1) = frame (mg_world m)"
    by (simp add: m1_def r_def frame_each [OF f1(2)])
  moreover have "services_ok (profiles_of m) (mg_services m1)" "map fixed_fields (mg_services m1) =
      map fixed_fields (mg_services m)"
    using each_service_facts [of f "profiles_of m" "mg_world m" "mg_services m", OF f1 f2] inv
      services_ok_map [of "profiles_of m" "mg_services m" "fst r"]
    by (auto simp: m1_def r_def mgr_inv_def services_ok_def)
  moreover have "mg_next_profile m1 = mg_next_profile m" by (simp add: m1_def)
  moreover have "register_all P (en_created E) m1 = Some m'"
    using off by (simp add: offer_profile_def m1_def r_def f_def split_def)
  moreover have "sv_serial_number ` set (mg_services m1) = sv_serial_number ` set (mg_services m)"
    using arg_cong [OF calculation(3), of "\<lambda>l. (fst \<circ> snd \<circ> fst) ` set l"]
    by (simp add: image_image) (simp add: fixed_fields_def image_def)
  ultimately show ?thesis
    using register_all_inv [of m1 P "en_created E" m'] mgr_inv_step [of m m1] inv assms(4)
    by (simp add: mgr_inv_def env_ok_def)
qed

lemma finish_push_inv:
  assumes "mgr_inv m" "finish_push P E pr m = Some (r, m')" "\<not> HasProfile (pr_name pr) m" "env_ok E m"
    and "id_user (pr_name pr) = [] \<Longrightarrow> \<forall>i \<in> set (profiles_of m). \<not> user_profile m i"
  shows "mgr_inv m' \<and> profiles_of m' = profiles_of m @ [mg_next_profile m]"
proof -
  let ?p = "push_profile pr m"
  have stack: "stack_ok ?p" using assms stack_ok_push by (auto simp: mgr_inv_def)
  have "services_ok (profiles_of ?p) (mg_services ?p)"
    using assms(1) by (auto simp: mgr_inv_def services_ok_def push_profile_def intro: profile_valid_mono)
  with stack have inv: "mgr_inv ?p" by (simp add: mgr_inv_def)
  obtain m1 where m1: "offer_profile P E (mg_next_profile m) ?p = Some m1" "m' = OnProfilesChanged (mg_sort m1)"
    using assms(2) by (auto simp: finish_push_def Let_def)
  have "mgr_inv m1 \<and> frame (mg_world m1) = frame (mg_world ?p) \<and> mg_next_profile m1 = mg_next_profile ?p"
    by (rule offer_inv [OF inv m1(1)]) (use assms(4) in \<open>simp_all add: push_profile_def env_ok_def\<close>)
  moreover have "profiles_of ?p = profiles_of m @ [mg_next_profile m]" by (simp add: push_profile_def)
  ultimately show ?thesis
    using mgr_inv_step [of m1 m'] frameD(1) [of "mg_world m1" "mg_world ?p"]
      frameD(1) [of "mg_world (mg_sort m1)" "mg_world m1"]
    by (simp add: m1(2) mgr_inv_def)
qed

lemma stack_ok_top:
  assumes "stack_ok m" "profiles_of m = [] \<or> \<not> user_profile m (last (profiles_of m))"
  shows "\<forall>i \<in> set (profiles_of m). \<not> user_profile m i"
proof (cases "profiles_of m" rule: rev_cases)
  case (snoc ps p)
  then show ?thesis using assms by (auto simp: stack_ok_def sorted_wrt_append)
qed simp

text \<open>A push either refuses and changes nothing, or puts one profile on top.\<close>

lemma PushProfileInternal_inv:
  assumes "mgr_inv m" "PushProfileInternal P E ident m = Some (r, m')" "env_ok E m"
  shows "case r of Inl e \<Rightarrow> m' = m
    | Inr path \<Rightarrow> mgr_inv m' \<and> profiles_of m' = profiles_of m @ [mg_next_profile m]"
proof (cases "HasProfile ident m")
  case True
  then show ?thesis using assms(2) by (auto simp: PushProfileInternal_def)
next
  case new: False
  have fin: "case r of Inl e \<Rightarrow> m' = m
      | Inr path \<Rightarrow> mgr_inv m' \<and> profiles_of m' = profiles_of m @ [mg_next_profile m]"
    if "finish_push P E pr m0 = Some (r, m')" "pr_name pr = ident" "mgr_inv m0" "env_ok E m0"
      "profiles_of m0 = profiles_of m" "mg_next_profile m0 = mg_next_profile m" "\<not> HasProfile ident m0"
      "id_user ident = [] \<Longrightarrow> \<forall>i \<in> set (profiles_of m0). \<not> user_profile m0 i" for pr m0
  proof -
    have "\<exists>path. r = Inr path" using that(1) by (auto simp: finish_push_def Let_def)
    then show ?thesis using finish_push_inv [OF that(3,1) _ that(4)] that by auto
  qed
  show ?thesis
  proof (cases "id_user ident = []")
    case machine: True
    show ?thesis
    proof (cases "profiles_of m \<noteq> [] \<and> user_profile m (last (profiles_of m))")
      case True
      then show ?thesis using assms(2) new machine by (auto simp: PushProfileInternal_def user_profile_def)
    next
      case False
      then have top: "\<forall>i \<in> set (profiles_of m). \<not> user_profile m i"
        using stack_ok_top [of m] assms(1) by (simp add: mgr_inv_def)
      obtain pr st where push: "finish_push P E pr (LoadProperties P E st m) = Some (r, m')" "pr_name pr = ident"
        using assms(2) new machine False by (auto simp: PushProfileInternal_def user_profile_def Let_def)
      have key: "profile_key (LoadProperties P E st m) = profile_key m"
        "user_profile (LoadProperties P E st m) = user_profile m"
        by (simp_all add: profile_key_def user_profile_def fun_eq_iff)
      have "mgr_inv (LoadProperties P E st m)"
        using assms(1) by (simp add: mgr_inv_def stack_ok_def key)
      then show ?thesis
        by (rule fin [OF push]) (use assms(3) new top key in \<open>simp_all add: env_ok_def HasProfile_def\<close>)
    qed
  next
    case user: False
    show ?thesis
    proof (cases "InitStorage kOpenExisting ident (en_exists E ident) (en_open E ident) (en_set_header E)")
      case (Inl e)
      then show ?thesis using assms(2) new user
        by (cases e) (auto simp: PushProfileInternal_def Let_def)
    next
      case (Inr st)
      then obtain pr where "finish_push P E pr m = Some (r, m')" "pr_name pr = ident"
        using assms(2) new user by (auto simp: PushProfileInternal_def Let_def)
      then show ?thesis by (rule fin) (use assms new user in simp_all)
    qed
  qed
qed

lemma stack_ok_pop: "stack_ok m \<Longrightarrow> stack_ok (pop_stack m)"
proof (cases "profiles_of m" rule: rev_cases)
  case (snoc ps p)
  assume ok: "stack_ok m"
  have "profile_key (pop_stack m) = profile_key m" "user_profile (pop_stack m) = user_profile m"
    by (simp_all add: pop_stack_def profile_key_def user_profile_def fun_eq_iff)
  with ok snoc show ?thesis by (auto simp: stack_ok_def pop_stack_def sorted_wrt_append)
qed (simp add: stack_ok_def pop_stack_def)

lemma PopProfileInternal_inv:
  assumes "mgr_inv m" "PopProfileInternal P E m = Some m'"
  shows "mgr_inv m'"
proof -
  let ?p = "pop_stack m"
  obtain ps p where ps: "profiles_of m = ps @ [p]"
    using PopProfileInternal_stack(2) [OF assms(2)] by (cases "profiles_of m" rule: rev_cases) auto
  have stack: "stack_ok ?p" using assms(1) stack_ok_pop by (auto simp: mgr_inv_def)
  have p: "profiles_of ?p = ps" "mg_services ?p = mg_services m" by (simp_all add: pop_stack_def ps)
  let ?r = "pop_services P E p (mg_services m) (mg_world ?p)"
  have m': "mg_services m' = fst ?r"
    using assms(2) by (auto simp: PopProfileInternal_def Let_def ps p split_def)
  have "p \<notin> set ps" using assms(1) by (auto simp: mgr_inv_def stack_ok_def ps)
  from pop_services_facts [OF p(1) _ this, of "mg_services m" P E] assms(1)
  have "subseq (map fixed_fields (fst ?r)) (map fixed_fields (mg_services m))"
    "\<forall>sv \<in> set (fst ?r). profile_valid ps sv"
    by (simp_all add: mgr_inv_def services_ok_def ps)
  then have "services_ok ps (fst ?r)"
    using services_ok_subseq assms(1) by (auto simp: mgr_inv_def)
  moreover have "mg_next_profile ?p = mg_next_profile m" by (simp add: pop_stack_def)
  ultimately show ?thesis
    using mgr_inv_step [OF stack, of m'] PopProfileInternal_frame [OF assms(2)] by (simp add: p m')
qed

lemma PopAllUserProfiles_inv: "mgr_inv m \<Longrightarrow> mgr_inv (PopAllUserProfiles P E m)"
proof (induction P E m rule: PopAllUserProfiles.induct)
  case (1 P E m)
  show ?case
    by (subst PopAllUserProfiles.simps)
      (use 1 PopProfileInternal_inv [of m P E] in \<open>auto split: option.splits\<close>)
qed

lemma mgr_inv_services:
  assumes "mgr_inv m" "frame w = frame (mg_world m)" "services_ok (profiles_of m) svs"
    and "mg_services m' = svs" "mg_world m' = w" "mg_next_profile m' = mg_next_profile m"
  shows "mgr_inv m'"
  using assms mgr_inv_step [of m m'] by (simp add: mgr_inv_def)

lemma deregister_facts:
  assumes "deregister P name svs w = Some (svs', w')"
  shows "subseq svs' svs \<and> frame w' = frame w"
  using assms
proof (induction svs arbitrary: svs')
  case (Cons sv svs)
  then show ?case by (auto simp: split_def split: if_splits)
qed simp

lemma mgr_inv_sort: "mgr_inv m \<Longrightarrow> mgr_inv (mg_sort m)"
  using mgr_inv_step [of m "mg_sort m"] by (simp add: mgr_inv_def)

lemma DeregisterService_inv:
  assumes "mgr_inv m" shows "mgr_inv (DeregisterService P sv m)"
proof (cases "deregister P (sv_unique_name sv) (mg_services m) (mg_world m)")
  case None
  then show ?thesis using assms by (simp add: DeregisterService_def)
next
  case (Some r)
  obtain svs w where r: "r = (svs, w)" by (cases r)
  have d: "subseq svs (mg_services m)" "frame w = frame (mg_world m)"
    using deregister_facts Some r by blast+
  have "services_ok (profiles_of m) svs"
    using services_ok_subseq [of "profiles_of m" "mg_services m" svs "profiles_of m"] assms d(1)
      list_emb_set [OF d(1)] by (fastforce simp: mgr_inv_def services_ok_def intro: subseq_map)
  then have "mgr_inv (m\<lparr>mg_services := svs, mg_world := w\<rparr>)"
    by (rule mgr_inv_services [OF assms d(2)]) simp_all
  then show ?thesis using mgr_inv_sort by (simp add: DeregisterService_def Some r)
qed

lemma same_or_top_trans:
  assumes "same_or_top w a b" "same_or_top w' b c" "wd_profiles w' = wd_profiles w"
  shows "same_or_top w a c"
  using assms by (auto simp: same_or_top_def)

lemma SetState_profile: "same_or_top w sv (fst (SetState P s sv w))"
  using updated_profile [of w "entered P s sv w"]
  by (cases "s = sv_state sv") (simp_all add: SetState_sv same_or_top_def)

lemma Connect_profile: "same_or_top w sv (fst (Connect P sv w))"
proof -
  let ?c = "ClearExplicitlyDisconnected P sv w"
  have "wd_profiles (snd ?c) = wd_profiles w" by (rule frameD(1) [OF frame_Clear])
  with Clear_profile [of w sv P] SetState_profile [of "snd ?c" "fst ?c" P kStateIdle] show ?thesis
    by (auto simp: Connect_def Let_def split_def intro: same_or_top_trans)
qed

lemma AutoConnect_profile: "same_or_top w sv (fst (AutoConnect P b sv w))"
proof (cases "IsAutoConnectable P b sv w")
  case None
  let ?t = "ThrottleFutureAutoConnects sv w"
  have "sv_profile (fst ?t) = sv_profile sv" "wd_profiles (snd ?t) = wd_profiles w"
    by (simp_all add: ThrottleFutureAutoConnects_def Let_def emit_def)
  with Connect_profile [of "snd ?t" "fst ?t" P] None show ?thesis
    by (simp add: AutoConnect_def split_def same_or_top_def)
qed (simp add: AutoConnect_def same_or_top_def)

lemma OnAfterResume_facts:
  "fixed_fields (fst (OnAfterResume P sv w)) = fixed_fields sv" "frame (snd (OnAfterResume P sv w)) = frame w"
  "same_or_top w sv (fst (OnAfterResume P sv w))"
  using Clear_profile [of w "sv\<lparr>sv_auto_connect_cooldown_milliseconds := 0, sv_reenable_task_pending := False\<rparr>" P]
  by (simp_all add: OnAfterResume_def same_or_top_def) (simp add: fixed_fields_def)

lemma set_service_ok:
  assumes "services_ok ps svs" "sv0 \<in> set svs" "fixed_fields sv = fixed_fields sv0" "profile_valid ps sv"
  shows "services_ok ps (map (\<lambda>x. if sv_serial_number x = sv_serial_number sv then sv else x) svs)"
proof (rule services_ok_map [OF assms(1)])
  have serial: "sv_serial_number sv = sv_serial_number sv0" using assms(3) by (rule fixed_fieldsD)
  have "x = sv0" if "x \<in> set svs" "sv_serial_number x = sv_serial_number sv" for x
    using that assms(1,2) serial by (auto simp: services_ok_def distinct_map inj_on_def)
  then show "map fixed_fields (map (\<lambda>x. if sv_serial_number x = sv_serial_number sv then sv else x) svs) =
      map fixed_fields svs"
    using assms(3) by auto
qed (use assms in \<open>auto simp: services_ok_def\<close>)

lemma update_service_inv:
  assumes "mgr_inv m" "frame w = frame (mg_world m)" "sv0 \<in> set (mg_services m)"
    and "fixed_fields sv = fixed_fields sv0" "profile_valid (profiles_of m) sv"
  shows "mgr_inv (update_service P sv w m)"
proof -
  let ?u = "Manager_UpdateService P sv w"
  have "profile_valid (profiles_of m) (fst ?u)"
    using same_or_top_valid [OF updated_profile [of w sv]] assms(5) frameD(1) [OF assms(2)] by simp
  then have "services_ok (profiles_of m)
      (map (\<lambda>x. if sv_serial_number x = sv_serial_number (fst ?u) then fst ?u else x) (mg_services m))"
    using set_service_ok [of "profiles_of m" "mg_services m" sv0 "fst ?u"] assms by (simp add: mgr_inv_def)
  then show ?thesis
    by (rule mgr_inv_services [OF assms(1), of "snd ?u", rotated])
      (simp_all add: assms(2) update_service_def set_service_def split_def)
qed

lemma fixed_Abandon [simp]: "fixed_fields (fst (snd (AbandonService P p sv w))) = fixed_fields sv"
  by (auto simp: AbandonService_def Let_def split_def split: profile_ref.split)

lemma erase_service_inv:
  assumes "mgr_inv m" "frame w = frame (mg_world m)"
  shows "mgr_inv (erase_service sv (m\<lparr>mg_world := w\<rparr>))"
proof -
  have "services_ok (profiles_of m) (filter (\<lambda>x. sv_serial_number x \<noteq> sv_serial_number sv) (mg_services m))"
    by (rule services_ok_subseq [of "profiles_of m" "mg_services m"])
      (use assms(1) in \<open>auto simp: mgr_inv_def services_ok_def intro: subseq_map\<close>)
  then show ?thesis by (rule mgr_inv_services [OF assms]) (simp_all add: erase_service_def)
qed

lemma RemoveService_inv:
  assumes inv: "mgr_inv m" and sv: "sv \<in> set (mg_services m)" and rem: "RemoveService P E sv m = Some m'"
  shows "mgr_inv m'"
proof -
  have valid: "profile_valid (profiles_of m) sv" using inv sv by (simp add: mgr_inv_def services_ok_def)
  then obtain p where p: "sv_profile sv = Some p" by (auto simp: profile_valid_def split: option.splits)
  define r where "r = (if IsServiceEphemeral sv then (False, sv, mg_world m)
    else MatchProfileWithService P (fst (snd (AbandonService P p sv (mg_world m))))
      (snd (snd (AbandonService P p sv (mg_world m)))))"
  let ?sv = "fst (snd r)" and ?w = "snd (snd r)"
  have w: "frame ?w = frame (mg_world m)" by (simp add: r_def)
  have fixed: "fixed_fields ?sv = fixed_fields sv" by (simp add: r_def Match_facts)
  have "wd_profiles (snd (snd (AbandonService P p sv (mg_world m)))) = profiles_of m"
    by (rule frameD(1) [OF frame_AbandonService])
  with valid have val: "profile_valid (profiles_of m) ?sv"
    using Match_facts(2) [of "snd (snd (AbandonService P p sv (mg_world m)))" P
        "fst (snd (AbandonService P p sv (mg_world m)))"] by (simp add: r_def)
  let ?u = "UnloadService P E ?sv ?w"
  have u: "frame (snd (snd ?u)) = frame (mg_world m)" "fixed_fields (fst (snd ?u)) = fixed_fields sv"
    by (simp_all add: w UnloadService_facts fixed)
  have uval: "profile_valid (profiles_of m) (fst (snd ?u))" if "\<not> fst ?u"
    using UnloadService_valid [OF _ that] val frameD(1) [OF w] by simp
  consider "m' = update_service P ?sv ?w m"
    | "m' = mg_sort (erase_service (fst (snd ?u)) (m\<lparr>mg_world := snd (snd ?u)\<rparr>))"
    | "\<not> fst ?u" "m' = mg_sort (update_service P (fst (snd ?u)) (snd (snd ?u)) m)"
    using rem p by (auto simp: RemoveService_def Let_def r_def split_def split: if_splits bool.splits)
  then show ?thesis
  proof cases
    case 1 then show ?thesis using update_service_inv [OF inv w sv fixed val] by simp
  next
    case 2 then show ?thesis using mgr_inv_sort [OF erase_service_inv [OF inv u(1)]] by simp
  next
    case 3 then show ?thesis using mgr_inv_sort [OF update_service_inv [OF inv u(1) sv u(2) uval]] by simp
  qed
qed

lemma delete_entry_facts:
  assumes "wd_profiles w = ps" "\<forall>sv \<in> set svs. profile_valid ps sv"
  shows "case delete_entry P E i entry svs w of (moved, svs', w') \<Rightarrow>
    subseq (map fixed_fields svs') (map fixed_fields svs) \<and> (\<forall>sv \<in> set svs'. profile_valid ps sv) \<and>
    frame w' = frame w"
  using assms
proof (induction svs arbitrary: w)
  case (Cons sv svs)
  let ?a = "AbandonService P (StackProfile i) sv w"
  let ?r = "MatchProfileWithService P (fst (snd ?a)) (snd (snd ?a))"
  let ?u = "UnloadService P E (fst (snd ?r)) (snd (snd ?r))"
  have a: "wd_profiles (snd (snd ?a)) = ps" using frameD(1) [OF frame_AbandonService] Cons.prems(1) by metis
  have r: "wd_profiles (snd (snd ?r)) = ps" using frameD(1) [OF frame_Match] a by metis
  have u: "wd_profiles (snd (snd ?u)) = ps" using frameD(1) [OF frame_UnloadService] r by metis
  have rval: "profile_valid ps (fst (snd ?r))" using Match_facts(2) [of "snd (snd ?a)"] a by simp
  have uval: "profile_valid ps (fst (snd ?u))" if "\<not> fst ?u" using UnloadService_valid [OF _ that] rval r by simp
  have fixed: "fixed_fields (fst (snd ?r)) = fixed_fields sv" "fixed_fields (fst (snd ?u)) = fixed_fields sv"
    by (simp_all add: Match_facts UnloadService_facts)
  have fr: "frame (snd (snd ?r)) = frame w" "frame (snd (snd ?u)) = frame w" by simp_all
  have rest: "\<forall>sv \<in> set svs. profile_valid ps sv" "profile_valid ps sv" using Cons.prems(2) by simp_all
  note IH = Cons.IH [OF _ rest(1)]
  show ?case
    using IH [OF r] IH [OF u] IH [OF Cons.prems(1)] rval uval fixed fr rest(2)
    by (auto simp: Let_def split_def split: bool.split if_splits)
qed simp

lemma HandleProfileEntryDeletion_inv:
  assumes "mgr_inv m" shows "mgr_inv (snd (HandleProfileEntryDeletion P E i entry m))"
proof -
  obtain moved svs w where d: "delete_entry P E i entry (mg_services m) (mg_world m) = (moved, svs, w)"
    by (rule prod_cases3)
  have "subseq (map fixed_fields svs) (map fixed_fields (mg_services m))"
    "\<forall>sv \<in> set svs. profile_valid (profiles_of m) sv" "frame w = frame (mg_world m)"
    using delete_entry_facts [of "mg_world m" "profiles_of m" "mg_services m" P E i entry] assms
    by (auto simp: d mgr_inv_def services_ok_def)
  moreover from this have "services_ok (profiles_of m) svs"
    using services_ok_subseq assms by (auto simp: mgr_inv_def)
  ultimately have "mgr_inv (m\<lparr>mg_services := svs, mg_world := w\<rparr>)"
    using mgr_inv_services [OF assms, of w svs] by simp
  then show ?thesis by (simp add: HandleProfileEntryDeletion_def d Let_def mgr_inv_sort)
qed

lemma DeleteEntry_inv:
  assumes "mgr_inv m" shows "mgr_inv (snd (DeleteEntry P E i entry m))"
proof (cases "si_ContainsGroup (pf_store P) (pr_storage (profile_at m i)) entry")
  case True
  let ?h = "HandleProfileEntryDeletion P E i entry m"
  let ?m = "snd ?h"
  have inv: "mgr_inv ?m" by (rule HandleProfileEntryDeletion_inv [OF assms])
  define w where "w = snd (Flush i (if fst ?h then mg_world ?m
    else update_storage i (\<lambda>st. snd (si_DeleteGroup (pf_store P) st entry)) (mg_world ?m)))"
  have "mgr_inv (?m\<lparr>mg_world := w\<rparr>)"
    using inv by (intro mgr_inv_services [OF inv, of w "mg_services ?m"]) (simp_all add: w_def mgr_inv_def)
  then show ?thesis using True by (simp add: DeleteEntry_def w_def split_def Let_def)
qed (use assms in \<open>simp add: DeleteEntry_def\<close>)

lemma services_ok_mset:
  assumes "mset svs' = mset svs" shows "services_ok ps svs' = services_ok ps svs"
proof -
  have "mset (map f svs') = mset (map f svs)" for f :: "service \<Rightarrow> 'a" using assms by simp
  then show ?thesis
    using mset_eq_setD [OF assms] mset_eq_imp_distinct_iff by (metis services_ok_def mset_map)
qed

lemma emit_services_simps [simp]:
  "mg_services (emit_services P m) = mg_services m" "mg_world (emit_services P m) = mg_world m"
  "mg_next_profile (emit_services P m) = mg_next_profile m"
  by (simp_all add: emit_services_def Let_def EnumerateWatchedServices_def)

lemma notify_default_simps [simp]:
  "mg_services (notify_default_service sv m) = mg_services m"
  "mg_world (notify_default_service sv m) = mg_world m"
  "mg_next_profile (notify_default_service sv m) = mg_next_profile m"
  by (simp_all add: notify_default_service_def Let_def)

lemma Refresh_simps [simp]:
  "mg_services (RefreshConnectionState P m) = mg_services m"
  "mg_world (RefreshConnectionState P m) = mg_world m"
  "mg_next_profile (RefreshConnectionState P m) = mg_next_profile m"
  by (simp_all add: RefreshConnectionState_def Let_def)

lemma auto_connect_loop_Cons:
  obtains sv' w' where "auto_connect_loop P done (sv # svs) w = auto_connect_loop P (done @ [sv']) svs w'"
    and "frame w' = frame w" "fixed_fields sv' = fixed_fields sv" "same_or_top w sv sv'"
proof (cases "sv_auto_connect sv")
  case True
  let ?r = "AutoConnect P (IsConnected (hd (done @ sv # svs))) sv w"
  have "auto_connect_loop P done (sv # svs) w = auto_connect_loop P (done @ [fst ?r]) svs (snd ?r)"
    using True by (simp add: split_def)
  then show thesis by (rule that) (simp_all add: AutoConnect_profile)
next
  case False
  then have "auto_connect_loop P done (sv # svs) w = auto_connect_loop P (done @ [sv]) svs w" by simp
  then show thesis by (rule that) (simp_all add: same_or_top_def)
qed

lemma auto_connect_loop_facts:
  assumes "wd_profiles w = ps" "\<forall>sv \<in> set (done @ svs). profile_valid ps sv"
  shows "map fixed_fields (fst (auto_connect_loop P done svs w)) = map fixed_fields (done @ svs) \<and>
    frame (snd (auto_connect_loop P done svs w)) = frame w \<and>
    (\<forall>sv \<in> set (fst (auto_connect_loop P done svs w)). profile_valid ps sv)"
  using assms
proof (induction svs arbitrary: "done" w)
  case (Cons sv svs)
  obtain sv' w' where step: "auto_connect_loop P done (sv # svs) w = auto_connect_loop P (done @ [sv']) svs w'"
    and r: "frame w' = frame w" "fixed_fields sv' = fixed_fields sv" "same_or_top w sv sv'"
    by (rule auto_connect_loop_Cons)
  have w': "wd_profiles w' = ps" using frameD(1) [OF r(1)] Cons.prems(1) by simp
  have "profile_valid ps sv'" using same_or_top_valid [OF r(3)] Cons.prems by simp
  then have "\<forall>sv \<in> set ((done @ [sv']) @ svs). profile_valid ps sv" using Cons.prems(2) by simp
  from Cons.IH [OF w' this] show ?case
    unfolding step by (simp add: r)
qed simp

lemma Manager_AutoConnect_inv:
  assumes "mgr_inv m"
  shows "mgr_inv (Manager_AutoConnect P m)"
    "map fixed_fields (mg_services (Manager_AutoConnect P m)) = map fixed_fields (mg_services m)"
proof -
  let ?r = "auto_connect_loop P [] (mg_services m) (mg_world m)"
  have f: "map fixed_fields (fst ?r) = map fixed_fields (mg_services m)" "frame (snd ?r) = frame (mg_world m)"
    "\<forall>sv \<in> set (fst ?r). profile_valid (profiles_of m) sv"
    using auto_connect_loop_facts [of "mg_world m" "profiles_of m" "[]" "mg_services m" P] assms
    by (auto simp: mgr_inv_def services_ok_def)
  have ok: "services_ok (profiles_of m) (fst ?r)"
    using services_ok_map [of "profiles_of m" "mg_services m"] f assms by (auto simp: mgr_inv_def)
  consider "Manager_AutoConnect P m = m"
    | "mg_services (Manager_AutoConnect P m) = fst ?r" "mg_world (Manager_AutoConnect P m) = snd ?r"
      "mg_next_profile (Manager_AutoConnect P m) = mg_next_profile m"
    by (cases "Manager_AutoConnect P m = m") (auto simp: Manager_AutoConnect_def Let_def split_def split: if_splits)
  then show "mgr_inv (Manager_AutoConnect P m)"
    "map fixed_fields (mg_services (Manager_AutoConnect P m)) = map fixed_fields (mg_services m)"
    using assms f(1) mgr_inv_services [OF assms f(2) ok] by (cases; simp)+
qed

lemma sort_and_mark_simps [simp]:
  "mset (mg_services (snd (sort_and_mark m))) = mset (mg_services m)"
  "frame (mg_world (snd (sort_and_mark m))) = frame (mg_world m)"
  "mg_next_profile (snd (sort_and_mark m)) = mg_next_profile m"
  by (simp_all add: sort_and_mark_def Let_def split_def frame_def env_def)

lemma SortServicesTask_inv:
  assumes "mgr_inv m" shows "mgr_inv (SortServicesTask P subnet m)"
proof -
  let ?m = "snd (sort_and_mark m)"
  have "mgr_inv ?m"
    using mgr_inv_step [of m ?m] assms services_ok_mset [of "mg_services ?m" "mg_services m"]
    by (simp add: mgr_inv_def)
  then show ?thesis
    by (auto simp: SortServicesTask_def Let_def split_def intro!: Manager_AutoConnect_inv(1)
        mgr_inv_services [of ?m "mg_world ?m" "mg_services ?m"]) (simp_all add: mgr_inv_def)
qed

lemma best_loop_facts:
  assumes "wd_profiles w = ps" "services_ok ps svs"
    and "\<forall>sv \<in> set copy. profile_valid ps sv \<and> (\<exists>sv0 \<in> set svs. fixed_fields sv0 = fixed_fields sv)"
  shows "frame (snd (snd (best_loop P copy techs svs w))) = frame w \<and>
    services_ok ps (fst (snd (best_loop P copy techs svs w)))"
  using assms
proof (induction copy arbitrary: techs svs w)
  case (Cons sv copy)
  have copy: "\<forall>sv \<in> set copy. profile_valid ps sv \<and> (\<exists>sv0 \<in> set svs. fixed_fields sv0 = fixed_fields sv)"
    using Cons.prems(3) by simp
  note IH = Cons.IH [OF Cons.prems(1,2) copy]
  let ?c = "Connect P sv w"
  let ?svs = "map (\<lambda>x. if sv_serial_number x = sv_serial_number sv then fst ?c else x) svs"
  obtain sv0 where sv0: "sv0 \<in> set svs" "fixed_fields sv0 = fixed_fields sv" using Cons.prems(3) by auto
  have serial: "sv_serial_number (fst ?c) = sv_serial_number sv" by (rule fixed_fieldsD [OF fixed_Connect])
  have valid: "profile_valid ps (fst ?c)"
    using same_or_top_valid [OF Connect_profile [of w sv P]] Cons.prems(1,3) by simp
  have ok: "services_ok ps ?svs"
    using set_service_ok [OF Cons.prems(2) sv0(1), of "fst ?c"] sv0(2) valid serial by simp
  have "\<exists>x \<in> set ?svs. fixed_fields x = fixed_fields sv'" if "sv' \<in> set copy" for sv'
  proof -
    from copy that obtain y where y: "y \<in> set svs" "fixed_fields y = fixed_fields sv'" by auto
    show ?thesis
    proof (cases "sv_serial_number y = sv_serial_number sv")
      case True
      then have "y = sv0"
        using y sv0 Cons.prems(2) fixed_fieldsD(2) [OF sv0(2)]
        by (auto simp: services_ok_def distinct_map inj_on_def)
      then show ?thesis using y sv0 True by (auto intro!: bexI [of _ "fst ?c"] simp: image_iff)
    next
      case False
      then show ?thesis using y by (auto intro!: bexI [of _ y] simp: image_iff)
    qed
  qed
  then have "\<forall>sv \<in> set copy. profile_valid ps sv \<and> (\<exists>sv0 \<in> set ?svs. fixed_fields sv0 = fixed_fields sv)"
    using copy by blast
  moreover have "wd_profiles (snd ?c) = ps" using frameD(1) [OF frame_Connect] Cons.prems(1) by metis
  ultimately have "frame (snd (snd (best_loop P copy t ?svs (snd ?c)))) = frame w \<and>
      services_ok ps (fst (snd (best_loop P copy t ?svs (snd ?c))))" for t
    using Cons.IH [OF _ ok] by simp
  then show ?case using IH Cons.prems(2) by (simp add: split_def)
qed simp

lemma ConnectToBestServicesTask_inv:
  assumes "mgr_inv m" shows "mgr_inv (snd (ConnectToBestServicesTask P m))"
proof -
  let ?r = "best_loop P (std_sort (ServiceSorter (mg_world m) False (mg_technology_order m)) (mg_services m))
    {} (mg_services m) (mg_world m)"
  have "frame (snd (snd ?r)) = frame (mg_world m) \<and> services_ok (profiles_of m) (fst (snd ?r))"
    by (rule best_loop_facts) (use assms in \<open>auto simp: mgr_inv_def services_ok_def\<close>)
  then show ?thesis
    using mgr_inv_services [OF assms, of "snd (snd ?r)" "fst (snd ?r)"]
    by (simp add: ConnectToBestServicesTask_def split_def)
qed

lemma resume_selected_facts [simp]:
  "fixed_fields (resume_selected d sv) = fixed_fields sv" "sv_profile (resume_selected d sv) = sv_profile sv"
  by (simp_all add: resume_selected_def Device_OnAfterResume_def RenewDHCPLease_def Let_def note_event_def
      fixed_fields_def split: option.split)

lemma resume_devices_facts:
  "map fixed_fields (snd (resume_devices ds svs)) = map fixed_fields svs"
  "map sv_profile (snd (resume_devices ds svs)) = map sv_profile svs"
  by (induction ds arbitrary: svs) (simp_all add: split_def comp_def)

lemma resume_devices_inv:
  assumes "mgr_inv m"
  shows "mgr_inv (case resume_devices (mg_devices m) (mg_services m) of
    (ds, svs) \<Rightarrow> m\<lparr>mg_devices := ds, mg_services := svs\<rparr>)"
proof -
  let ?svs = "snd (resume_devices (mg_devices m) (mg_services m))"
  have ok: "services_ok (profiles_of m) (mg_services m)" using assms by (simp add: mgr_inv_def)
  have "sv_profile ` set ?svs = sv_profile ` set (mg_services m)"
    using arg_cong [OF resume_devices_facts(2), of set] by simp
  then have "profile_valid (profiles_of m) sv" if "sv \<in> set ?svs" for sv
    using that ok by (force simp: services_ok_def profile_valid_def)
  then have "services_ok (profiles_of m) ?svs"
    using services_ok_map [of "profiles_of m" "mg_services m" ?svs] ok resume_devices_facts(1) by simp
  then show ?thesis using mgr_inv_services [OF assms] by (simp add: split_def)
qed

lemma OnSuspendDone_inv:
  assumes "mgr_inv m" shows "mgr_inv (OnSuspendDone P m)"
proof -
  let ?r = "each_service (OnAfterResume P) (mg_services m) (mg_world m)"
  have facts: "map fixed_fields (fst ?r) = map fixed_fields (mg_services m) \<and>
      (\<forall>sv \<in> set (fst ?r). profile_valid (profiles_of m) sv)"
  proof (rule each_service_facts)
    show "profile_valid (profiles_of m) (fst (OnAfterResume P sv w))"
      if "wd_profiles w = profiles_of m" "profile_valid (profiles_of m) sv" for sv w
      using same_or_top_valid [OF OnAfterResume_facts(3) [of w sv P]] that by simp
  qed (use assms in \<open>simp_all add: OnAfterResume_facts mgr_inv_def services_ok_def\<close>)
  then have "services_ok (profiles_of m) (fst ?r)"
    using services_ok_map [of "profiles_of m" "mg_services m"] assms by (auto simp: mgr_inv_def)
  moreover have "frame (snd ?r) = frame (mg_world m)" by (rule frame_each) (rule OnAfterResume_facts)
  ultimately show ?thesis
    using resume_devices_inv [OF mgr_inv_sort [OF mgr_inv_services [OF assms, of "snd ?r" "fst ?r"]]]
    by (simp add: OnSuspendDone_def split_def Let_def)
qed

lemma SetTechnologyOrder_inv: "mgr_inv m \<Longrightarrow> mgr_inv (snd (SetTechnologyOrder P order m))"
proof -
  assume inv: "mgr_inv m"
  have "mgr_inv (m\<lparr>mg_technology_order := t\<rparr>)" for t
    using mgr_inv_services [OF inv, of "mg_world m" "mg_services m"] inv by (simp add: mgr_inv_def)
  with inv show ?thesis by (auto simp: SetTechnologyOrder_def Let_def mgr_inv_sort split: sum.split)
qed

subsection \<open>All sequences of operations\<close>

text \<open>A service that was changed on its own, or moved to a profile of the stack, replaces the registered one.\<close>

lemma set_service_inv:
  assumes inv: "mgr_inv m" and w: "frame w = frame (mg_world m)" and sv: "sv \<in> set (mg_services m)"
    and same: "sv_unique_name sv' = sv_unique_name sv" "sv_serial_number sv' = sv_serial_number sv"
    and valid: "profile_valid (profiles_of m) sv'"
  shows "mgr_inv (set_service sv' (m\<lparr>mg_world := w\<rparr>))"
proof -
  let ?svs = "map (\<lambda>x. if sv_serial_number x = sv_serial_number sv' then sv' else x) (mg_services m)"
  have ok: "services_ok (profiles_of m) (mg_services m)" using inv by (simp add: mgr_inv_def)
  have "x = sv" if "x \<in> set (mg_services m)" "sv_serial_number x = sv_serial_number sv'" for x
    using that sv same ok by (auto simp: services_ok_def distinct_map inj_on_def)
  then have "map sv_unique_name ?svs = map sv_unique_name (mg_services m)"
    "map sv_serial_number ?svs = map sv_serial_number (mg_services m)"
    using same by auto
  moreover have "\<forall>x \<in> set ?svs. profile_valid (profiles_of m) x"
    using ok valid by (auto simp: services_ok_def)
  ultimately have "services_ok (profiles_of m) ?svs" using ok unfolding services_ok_def by metis
  then show ?thesis
    by (rule mgr_inv_services [OF inv w]) (simp_all add: set_service_def)
qed

lemma own_step_inv:
  assumes "mgr_inv m" "sv \<in> set (mg_services m)" "own_step (mg_world m) sv (sv', w')"
  shows "mgr_inv (set_service sv' (m\<lparr>mg_world := w'\<rparr>))"
proof (rule set_service_inv [OF assms(1) _ assms(2)])
  have "profile_valid (profiles_of m) sv" using assms(1,2) by (simp add: mgr_inv_def services_ok_def)
  then show "profile_valid (profiles_of m) sv'"
    using same_or_top_valid [of "mg_world m" sv sv'] assms(3) by (simp add: own_step_def)
qed (use assms(3) in \<open>simp_all add: own_step_def\<close>)

lemma Abandon_sv:
  "fst (snd (AbandonService P from sv w)) = (if sv_profile sv = Some from then sv\<lparr>sv_profile := None\<rparr> else sv)"
  by (auto simp: AbandonService_def Let_def split_def split: profile_ref.split)

lemma Move_sv:
  assumes "from \<noteq> StackProfile i"
  shows "fst (snd (MoveServiceToProfile P from (StackProfile i) sv w)) = sv\<lparr>sv_profile := Some (StackProfile i)\<rparr>"
  using assms by (auto simp: MoveServiceToProfile_def split_def Abandon_sv split: bool.split)

lemma move_inv:
  assumes "mgr_inv m" "sv \<in> set (mg_services m)" "i \<in> set (profiles_of m)" "sv_profile sv \<noteq> Some (StackProfile i)"
    and "sv_profile sv = Some from" "MoveServiceToProfile P from (StackProfile i) sv (mg_world m) = (moved, sv', w')"
  shows "mgr_inv (set_service sv' (m\<lparr>mg_world := w'\<rparr>))"
proof (rule set_service_inv [OF assms(1) _ assms(2)])
  have sv': "sv' = sv\<lparr>sv_profile := Some (StackProfile i)\<rparr>"
    using Move_sv [of "from" i P sv "mg_world m"] assms(4-6) by simp
  then show "sv_unique_name sv' = sv_unique_name sv" "sv_serial_number sv' = sv_serial_number sv"
    "profile_valid (profiles_of m) sv'" using assms(3) by simp_all
  show "frame w' = frame (mg_world m)" using frame_Move [of P "from" "StackProfile i" sv "mg_world m"] assms(6) by simp
qed

lemma LookupProfile_stack: "LookupProfileByRpcIdentifier rpcid m = Some i \<Longrightarrow> i \<in> set (profiles_of m)"
  by (auto simp: LookupProfileByRpcIdentifier_def find_Some_iff)

lemma SetProfileForService_inv:
  assumes inv: "mgr_inv m" and r: "SetProfileForService P sv rpcid m = Some (e, m')"
    and sv: "sv \<in> set (mg_services m) \<or>
      sv_profile sv = None \<and> sv_serial_number sv \<notin> sv_serial_number ` set (mg_services m)"
  shows "mgr_inv m'"
proof (cases "LookupProfileByRpcIdentifier rpcid m")
  case None
  then show ?thesis using r inv by (simp add: SetProfileForService_def)
next
  case (Some i)
  define reg where "reg = (if sv_profile sv = None
    then map_option (\<lambda>m. (last (mg_services m), m)) (RegisterService P sv m) else Some (sv, m))"
  obtain sv1 m1 where reg1: "reg = Some (sv1, m1)"
    using r Some by (cases reg) (auto simp: SetProfileForService_def reg_def [symmetric])
  have reg2: "mgr_inv m1 \<and> sv1 \<in> set (mg_services m1) \<and> i \<in> set (profiles_of m1)"
  proof (cases "sv_profile sv = None")
    case True
    have "sv \<notin> set (mg_services m)" using True inv by (auto simp: mgr_inv_def services_ok_def profile_valid_def)
    then have fresh: "sv_serial_number sv \<notin> sv_serial_number ` set (mg_services m)" using sv by blast
    have m1: "RegisterService P sv m = Some m1" "sv1 = last (mg_services m1)" using reg1 True by (auto simp: reg_def)
    have "mg_services m1 \<noteq> []" using m1(1) by (auto simp: RegisterService_def split_def split: if_splits)
    then show ?thesis
      using RegisterService_inv [OF inv m1(1) fresh] m1(2) LookupProfile_stack [OF Some]
        frameD(1) [of "mg_world m1" "mg_world m"] by simp
  next
    case False
    then show ?thesis using reg1 inv sv LookupProfile_stack [OF Some] by (auto simp: reg_def)
  qed
  show ?thesis
  proof (cases "sv_profile sv1 = Some (StackProfile i)")
    case True
    then show ?thesis using r Some reg1 reg2 by (simp add: SetProfileForService_def reg_def [symmetric])
  next
    case False
    obtain p where p: "sv_profile sv1 = Some p"
      using r Some reg1 False by (auto simp: SetProfileForService_def reg_def [symmetric] split: option.splits)
    obtain moved sv' w' where mv: "MoveServiceToProfile P p (StackProfile i) sv1 (mg_world m1) = (moved, sv', w')"
      by (rule prod_cases3)
    have "m' = set_service sv' (m1\<lparr>mg_world := w'\<rparr>)"
      using r Some reg1 False p mv by (simp add: SetProfileForService_def reg_def [symmetric])
    then show ?thesis using move_inv [OF _ _ _ False p mv] reg2 by simp
  qed
qed

text \<open>
  A step of the manager: a call from the RPC interface, from a provider or from the event loop, or
  whatever else changes its state. Services that are registered are new objects; a service that is removed is a
  registered one. A registered service changes by any of its own operations (\<open>svc_call\<close>: a new state, a failure, a
  user's request, a setter, \<open>Load\<close>, ...), is given another profile by \<open>SetProfileForService\<close>, or is moved
  or assigned to one by \<open>ConfigureService\<close> and \<open>ConfigureServiceForProfile\<close>. Devices and the settings of the
  manager change in any way, and so do the clock, the power state and what the profiles have stored.
\<close>

inductive mgr_step :: "'s platform \<Rightarrow> 's manager \<Rightarrow> 's manager \<Rightarrow> bool" for P where
  push: "PushProfile P E name m = Some (r, m') \<Longrightarrow> env_ok E m \<Longrightarrow> mgr_step P m m'"
| push_internal: "PushProfileInternal P E ident m = Some (r, m') \<Longrightarrow> env_ok E m \<Longrightarrow> mgr_step P m m'"
| insert: "InsertUserProfile P E name user_hash m = Some (r, m') \<Longrightarrow> env_ok E m \<Longrightarrow> mgr_step P m m'"
| pop: "PopProfile P E name m = Some (e, m') \<Longrightarrow> mgr_step P m m'"
| pop_any: "PopAnyProfile P E m = Some (e, m') \<Longrightarrow> mgr_step P m m'"
| pop_all: "mgr_step P m (PopAllUserProfiles P E m)"
| register: "RegisterService P sv m = Some m' \<Longrightarrow>
    sv_serial_number sv \<notin> sv_serial_number ` set (mg_services m) \<Longrightarrow> mgr_step P m m'"
| deregister: "mgr_step P m (DeregisterService P sv m)"
| remove: "RemoveService P E sv m = Some m' \<Longrightarrow> sv \<in> set (mg_services m) \<Longrightarrow> mgr_step P m m'"
| delete: "mgr_step P m (snd (DeleteEntry P E i entry m))"
| sort: "mgr_step P m (SortServicesTask P subnet m)"
| connect_best: "mgr_step P m (snd (ConnectToBestServicesTask P m))"
| order: "mgr_step P m (snd (SetTechnologyOrder P order m))"
| resume: "mgr_step P m (OnSuspendDone P m)"
| service: "sv \<in> set (mg_services m) \<Longrightarrow> svc_call P texts (sv, mg_world m) (sv', w') \<Longrightarrow>
    mgr_step P m (set_service sv' (m\<lparr>mg_world := w'\<rparr>))"
| set_profile: "SetProfileForService P sv rpcid m = Some (e, m') \<Longrightarrow>
    sv \<in> set (mg_services m) \<or>
      sv_profile sv = None \<and> sv_serial_number sv \<notin> sv_serial_number ` set (mg_services m) \<Longrightarrow>
    mgr_step P m m'"
| move: "sv \<in> set (mg_services m) \<Longrightarrow> i \<in> set (profiles_of m) \<Longrightarrow> sv_profile sv \<noteq> Some (StackProfile i) \<Longrightarrow>
    sv_profile sv = Some from \<Longrightarrow>
    MoveServiceToProfile P from (StackProfile i) sv (mg_world m) = (moved, sv', w') \<Longrightarrow>
    mgr_step P m (set_service sv' (m\<lparr>mg_world := w'\<rparr>))"
| assign: "sv \<in> set (mg_services m) \<Longrightarrow> i \<in> set (profiles_of m) \<Longrightarrow>
    SetProfile (Some (StackProfile i)) sv (mg_world m) = (sv', w') \<Longrightarrow>
    mgr_step P m (set_service sv' (m\<lparr>mg_world := w'\<rparr>))"
| devices: "mgr_step P m (m\<lparr>mg_devices := ds\<rparr>)"
| settings: "mgr_step P m (m\<lparr>mg_props := props, mg_dhcp_properties := dhcp, mg_ignored_search_list := ignored,
    mg_suppress_autoconnect := suppress, mg_in_dark_resume := dark, mg_default_service := default_sv,
    mg_connection_is_default := is_default, mg_connection_state := cs, mg_is_connected_state := ics,
    mg_watched_service_states := watched, mg_events := evs\<rparr>)"
| surroundings: "wd_profiles w' = profiles_of m \<Longrightarrow>
    (\<And>i. pr_name (wd_profile w' i) = pr_name (profile_at m i)) \<Longrightarrow> mgr_step P m (m\<lparr>mg_world := w'\<rparr>)"

inductive mgr_reach :: "'s platform \<Rightarrow> 's manager \<Rightarrow> bool" for P where
  start: "profiles_of m = [] \<Longrightarrow> mg_services m = [] \<Longrightarrow> mgr_reach P m"
| step: "mgr_reach P m \<Longrightarrow> mgr_step P m m' \<Longrightarrow> mgr_reach P m'"

lemma push_inv:
  assumes "mgr_inv m" "PushProfileInternal P E ident m = Some (r, m')" "env_ok E m"
  shows "mgr_inv m'"
  using PushProfileInternal_inv [OF assms] assms(1) by (cases r) auto

lemma mgr_inv_same:
  assumes "mgr_inv m" "wd_profiles (mg_world m') = profiles_of m" "mg_services m' = mg_services m"
    "mg_next_profile m' = mg_next_profile m" "\<And>i. pr_name (profile_at m' i) = pr_name (profile_at m i)"
  shows "mgr_inv m'"
proof -
  have "profile_key m' = profile_key m" "user_profile m' = user_profile m"
    using assms(5) by (simp_all add: profile_key_def user_profile_def fun_eq_iff)
  then show ?thesis using assms(1-4) by (simp add: mgr_inv_def stack_ok_def)
qed

lemma mgr_step_inv: "mgr_step P m m' \<Longrightarrow> mgr_inv m \<Longrightarrow> mgr_inv m'"
proof (induction rule: mgr_step.induct)
  case (push E name m r m')
  then show ?case using push_inv by (fastforce simp: PushProfile_def split: option.splits)
next
  case (insert E name user_hash m r m')
  then show ?case using push_inv by (fastforce simp: InsertUserProfile_def split: option.splits if_splits)
next
  case (pop E name m e m')
  then show ?case using PopProfileInternal_inv by (fastforce simp: PopProfile_def split: option.splits if_splits)
next
  case (pop_any E m e m')
  then show ?case using PopProfileInternal_inv by (fastforce simp: PopAnyProfile_def split: if_splits)
next
  case (register sv m m')
  then show ?case using RegisterService_inv by blast
next
  case (remove E sv m m')
  then show ?case using RemoveService_inv by blast
next
  case (push_internal E ident m r m')
  then show ?case using push_inv by blast
next
  case (service sv m texts sv' w')
  then show ?case using own_step_inv [OF _ _ own_call] by blast
next
  case (set_profile sv rpcid m e m')
  then show ?case using SetProfileForService_inv by blast
next
  case (move sv m i p moved sv' w')
  then show ?case using move_inv by blast
next
  case (assign sv m i sv' w')
  have "sv' = sv\<lparr>sv_profile := Some (StackProfile i)\<rparr>" "frame w' = frame (mg_world m)"
    using SetProfile_fst [of "Some (StackProfile i)" sv "mg_world m"]
      frame_SetProfile [of "Some (StackProfile i)" sv "mg_world m"] assign.hyps(3) by simp_all
  then show ?case using set_service_inv [OF assign.prems _ assign.hyps(1), of w' sv'] assign.hyps(2) by simp
next
  case (devices m ds)
  then show ?case by (simp add: mgr_inv_same)
next
  case (settings m)
  then show ?case by (simp add: mgr_inv_same)
next
  case (surroundings w' m)
  then show ?case by (simp add: mgr_inv_same)
qed (simp_all add: PopAllUserProfiles_inv DeregisterService_inv DeleteEntry_inv SortServicesTask_inv
    ConnectToBestServicesTask_inv SetTechnologyOrder_inv OnSuspendDone_inv)

lemma mgr_inv_reach: "mgr_reach P m \<Longrightarrow> mgr_inv m"
proof (induction rule: mgr_reach.induct)
  case (start m)
  then show ?case by (simp add: mgr_inv_def stack_ok_def services_ok_def)
next
  case (step m m')
  then show ?case using mgr_step_inv by blast
qed

text \<open>
  C2: in every state the manager can reach, whatever calls are made in whatever order (the operations of the manager
  on profiles and services, the services' own changes of state, failures, settings and profiles,
  any change of the devices, the settings, the clock and the stored data): no profile is on the
  stack twice, neither as an object nor by its user and name; no machine-wide profile is above a user's; every
  registered service belongs to a profile that is on the stack or to the ephemeral one, never to a popped or
  to no profile; and registered services have distinct names.
\<close>

theorem manager_invariant:
  assumes "mgr_reach P m"
  shows "distinct (profiles_of m) \<and>
    distinct (map (\<lambda>i. (id_user (pr_name (profile_at m i)), id_identifier (pr_name (profile_at m i)))) (profiles_of m)) \<and>
    sorted_wrt (\<lambda>i j. id_user (pr_name (profile_at m i)) \<noteq> [] \<longrightarrow> id_user (pr_name (profile_at m j)) \<noteq> [])
      (profiles_of m) \<and>
    (\<forall>sv \<in> set (mg_services m). sv_profile sv = Some EphemeralProfile \<or>
       (\<exists>i \<in> set (profiles_of m). sv_profile sv = Some (StackProfile i))) \<and>
    distinct (map sv_unique_name (mg_services m))"
proof -
  have "profile_valid ps sv \<longleftrightarrow> sv_profile sv = Some EphemeralProfile \<or>
      (\<exists>i \<in> set ps. sv_profile sv = Some (StackProfile i))" for ps sv
    by (auto simp: profile_valid_def split: option.splits profile_ref.splits)
  with mgr_inv_reach [OF assms] show ?thesis
    by (simp add: mgr_inv_def stack_ok_def services_ok_def profile_key_def [abs_def] user_profile_def)
qed

definition demo_env :: "json_store environment" where
  "demo_env = \<lparr>en_exists = (\<lambda>_. True), en_open = (\<lambda>_. Some demo_store), en_set_header = (\<lambda>_ st. st),
     en_stub = demo_store, en_fixup = (\<lambda>st. st), en_rpc = (\<lambda>ident. id_user ident @ ''-'' @ id_identifier ident),
     en_unload = (\<lambda>_. True), en_counts = (\<lambda>_. (0, 0)), en_created = [], en_string_to_int = (\<lambda>_. None),
     en_int_to_string = (\<lambda>_. ''0''), en_salt = 0\<rparr>"

definition demo_manager :: "json_store manager" where
  "demo_manager = \<lparr>mg_world = demo_world\<lparr>wd_profiles := []\<rparr>, mg_services = [], mg_next_profile = 0,
     mg_devices = [], mg_props = demo_properties, mg_dhcp_properties = [], mg_ignored_search_list = [],
     mg_technology_order = [], mg_suppress_autoconnect = False, mg_in_dark_resume = False,
     mg_watched_service_states = Map.empty, mg_default_service = None,
     mg_connection_is_default = (\<lambda>_. False), mg_connection_state = [], mg_is_connected_state = False,
     mg_events = []\<rparr>"

lemma finish_push_total: "en_created E = [] \<Longrightarrow> finish_push P E pr m \<noteq> None"
  by (simp add: finish_push_def offer_profile_def Let_def split_def)

lemma PushProfileInternal_total:
  assumes "en_created E = []" shows "PushProfileInternal P E ident m \<noteq> None"
  using finish_push_total [OF assms]
  by (auto simp: PushProfileInternal_def Let_def split: sum.split)

theorem manager_invariant_witness:
  "\<exists>r m'. PushProfile demo_platform demo_env ''~alice/shill'' demo_manager = Some (r, m') \<and>
     distinct (profiles_of m') \<and> distinct (map sv_unique_name (mg_services m'))"
proof -
  have parse: "ParseIdentifier ''~alice/shill'' =
      Some \<lparr>id_user = ''alice'', id_identifier = ''shill'', id_user_hash = []\<rparr>"
    by (simp add: ParseIdentifier_def IsValidIdentifierToken_def ascii_alnum_def)
  obtain r m' where push: "PushProfile demo_platform demo_env ''~alice/shill'' demo_manager = Some (r, m')"
    using PushProfileInternal_total [of demo_env demo_platform
        "\<lparr>id_user = ''alice'', id_identifier = ''shill'', id_user_hash = []\<rparr>" demo_manager]
    by (auto simp: PushProfile_def parse demo_env_def)
  have "mgr_reach demo_platform demo_manager"
    by (rule mgr_reach.start) (simp_all add: demo_manager_def)
  moreover have "env_ok demo_env demo_manager" by (simp add: env_ok_def demo_env_def)
  ultimately have "mgr_reach demo_platform m'"
    using push by (blast intro: mgr_reach.step mgr_step.push)
  from manager_invariant [OF this] push show ?thesis by blast
qed

end
