(* ===== verification/Manager_Theorems.thy ===== *)
theory Manager_Theorems
  imports Manager_Proofs
begin

text \<open>
  What the operations of the manager achieve: pushes and pops of profiles with their errors, the ranking
  after \<open>SortServicesTask\<close>, the choice made by \<open>ConnectToBestServicesTask\<close>, the service list as an abstract
  map, the detection of multi-homed devices, and two places where the code does not do what it says.
\<close>

subsection \<open>Pushing and popping\<close>

lemma push_top:
  assumes "mgr_inv m" "PushProfileInternal P E ident m = Some (Inr path, m')" "env_ok E m"
  shows "profiles_of m' = profiles_of m @ [mg_next_profile m] \<and>
    pr_name (profile_at m' (mg_next_profile m)) = ident"
proof -
  have fin: "pr_name (profile_at m' (mg_next_profile m)) = ident"
    if h: "finish_push P E pr m0 = Some (Inr path, m')" "pr_name pr = ident" "mgr_inv m0" "env_ok E m0"
      "mg_next_profile m0 = mg_next_profile m" "\<not> HasProfile ident m0"
      "id_user ident = [] \<Longrightarrow> \<forall>i \<in> set (profiles_of m0). \<not> user_profile m0 i" for pr m0
  proof -
    let ?p = "push_profile pr m0"
    obtain m1 where m1: "offer_profile P E (mg_next_profile m0) ?p = Some m1" "m' = OnProfilesChanged (mg_sort m1)"
      using h(1) by (auto simp: finish_push_def Let_def)
    have "services_ok (profiles_of ?p) (mg_services ?p)"
      using h(3) by (auto simp: mgr_inv_def services_ok_def push_profile_def intro: profile_valid_mono)
    then have "mgr_inv ?p" using h stack_ok_push [of m0 pr] by (simp add: mgr_inv_def)
    then have "frame (mg_world m1) = frame (mg_world ?p)"
      using offer_inv [OF _ m1(1)] h(4) by (simp add: push_profile_def env_ok_def)
    then have "frame (mg_world m') = frame (mg_world ?p)" by (simp add: m1(2))
    then show ?thesis using frameD(2) [of "mg_world m'" "mg_world ?p"] h(2,5) by (simp add: push_profile_def)
  qed
  have new: "\<not> HasProfile ident m" using assms(2) by (auto simp: PushProfileInternal_def)
  show ?thesis
  proof (cases "id_user ident = []")
    case True
    then obtain pr st where "finish_push P E pr (LoadProperties P E st m) = Some (Inr path, m')" "pr_name pr = ident"
      and top: "profiles_of m = [] \<or> \<not> user_profile m (last (profiles_of m))"
      using assms(2) new by (auto simp: PushProfileInternal_def Let_def user_profile_def split: if_splits)
    moreover have "mgr_inv (LoadProperties P E st m)"
      using assms(1) by (simp add: mgr_inv_def stack_ok_def profile_key_def [abs_def] user_profile_def)
    ultimately show ?thesis
      using fin [of pr "LoadProperties P E st m"] assms(1,3) new stack_ok_top [OF _ top]
        PushProfileInternal_inv [OF assms]
      by (simp add: env_ok_def HasProfile_def mgr_inv_def user_profile_def)
  next
    case False
    then obtain pr where "finish_push P E pr m = Some (Inr path, m')" "pr_name pr = ident"
      using assms(2) new by (auto simp: PushProfileInternal_def Let_def split: sum.splits)
    then show ?thesis using fin [of pr m] assms new False PushProfileInternal_inv [OF assms] by simp
  qed
qed

text \<open>
  C5: \<open>PushProfile\<close> is all or nothing: when it reports an error (a bad name, a profile already on the stack, a
  machine profile above a user profile, storage that is missing or does not open) the manager is
  unchanged; otherwise the stack is the old one with the named profile on top.
\<close>

theorem PushProfile_all_or_nothing:
  assumes "mgr_reach P m" "env_ok E m" "PushProfile P E name m = Some (r, m')"
  shows "case r of
    Inl e \<Rightarrow> m' = m
  | Inr path \<Rightarrow> \<exists>i. profiles_of m' = profiles_of m @ [i] \<and>
      ParseIdentifier name = Some (pr_name (profile_at m' i))"
proof (cases "ParseIdentifier name")
  case None
  then show ?thesis using assms(3) by (auto simp: PushProfile_def)
next
  case (Some ident)
  then have push: "PushProfileInternal P E ident m = Some (r, m')" using assms(3) by (simp add: PushProfile_def)
  show ?thesis
    using PushProfileInternal_inv [OF mgr_inv_reach [OF assms(1)] push assms(2)]
      push_top [OF mgr_inv_reach [OF assms(1)] _ assms(2), where ident = ident] push Some
    by (cases r) auto
qed

lemma demo_reach: "mgr_reach demo_platform demo_manager"
  by (rule mgr_reach.start) (simp_all add: demo_manager_def)

lemma demo_env_ok: "env_ok demo_env m"
  by (simp add: env_ok_def demo_env_def)

theorem PushProfile_all_or_nothing_witness:
  "PushProfile demo_platform demo_env ''bad name'' demo_manager =
     Some (Inl (kInvalidArguments, ''Invalid profile name bad name''), demo_manager)"
proof -
  have "ParseIdentifier ''bad name'' = None"
    by (simp add: ParseIdentifier_def IsValidIdentifierToken_def ascii_alnum_def)
  then obtain m' where "PushProfile demo_platform demo_env ''bad name'' demo_manager =
      Some (Inl (kInvalidArguments, ''Invalid profile name bad name''), m')"
    by (simp add: PushProfile_def)
  with PushProfile_all_or_nothing [OF demo_reach demo_env_ok this] show ?thesis by simp
qed

text \<open>
  C6: popping by name the profile that was just pushed succeeds and gives back the old stack, and it
  leaves no service in the profile that is gone.
\<close>

theorem PushProfile_PopProfile:
  assumes "mgr_reach P m" "env_ok E m" "PushProfile P E name m = Some (Inr path, m1)"
  shows "\<exists>m2. PopProfile P E name m1 = Some (None, m2) \<and> profiles_of m2 = profiles_of m \<and>
    (\<forall>sv \<in> set (mg_services m2). sv_profile sv \<noteq> Some (StackProfile (last (profiles_of m1))))"
proof -
  obtain ident where parse: "ParseIdentifier name = Some ident"
    and push: "PushProfileInternal P E ident m = Some (Inr path, m1)"
    using assms(3) by (auto simp: PushProfile_def split: option.splits)
  note inv = mgr_inv_reach [OF assms(1)]
  have top: "profiles_of m1 = profiles_of m @ [mg_next_profile m]"
    "pr_name (profile_at m1 (mg_next_profile m)) = ident"
    using push_top [OF inv push assms(2)] by simp_all
  have inv1: "mgr_inv m1" using PushProfileInternal_inv [OF inv push assms(2)] by simp
  obtain m2 where m2: "PopProfileInternal P E m1 = Some m2"
    using PopProfileInternal_total [of m1 P E] top by auto
  have stack: "profiles_of m2 = profiles_of m" using PopProfileInternal_stack(1) [OF m2] top by simp
  have "mgr_inv m2" by (rule PopProfileInternal_inv [OF inv1 m2])
  moreover have "mg_next_profile m \<notin> set (profiles_of m)" using inv1 top by (auto simp: mgr_inv_def stack_ok_def)
  ultimately have "\<forall>sv \<in> set (mg_services m2). sv_profile sv \<noteq> Some (StackProfile (mg_next_profile m))"
    by (auto simp: mgr_inv_def services_ok_def stack)
  moreover have "PopProfile P E name m1 = Some (None, m2)"
    using top m2 parse by (simp add: PopProfile_def MatchesIdentifier_def)
  ultimately show ?thesis using stack top by auto
qed

lemma demo_push:
  obtains path m1 where "PushProfile demo_platform demo_env ''~alice/shill'' demo_manager = Some (Inr path, m1)"
proof -
  let ?id = "\<lparr>id_user = ''alice'', id_identifier = ''shill'', id_user_hash = []\<rparr>"
  have parse: "ParseIdentifier ''~alice/shill'' = Some ?id"
    by (simp add: ParseIdentifier_def IsValidIdentifierToken_def ascii_alnum_def)
  obtain r m1 where push: "PushProfileInternal demo_platform demo_env ?id demo_manager = Some (r, m1)"
    using PushProfileInternal_total [of demo_env demo_platform ?id demo_manager] by (auto simp: demo_env_def)
  moreover have "\<exists>path. r = Inr path"
    using push by (auto simp: PushProfileInternal_def HasProfile_def demo_manager_def demo_env_def InitStorage_def
        finish_push_def Let_def)
  ultimately show thesis using that parse by (auto simp: PushProfile_def)
qed

theorem PushProfile_PopProfile_witness:
  "\<exists>path m1 m2. PushProfile demo_platform demo_env ''~alice/shill'' demo_manager = Some (Inr path, m1) \<and>
     PopProfile demo_platform demo_env ''~alice/shill'' m1 = Some (None, m2) \<and> profiles_of m2 = []"
proof -
  obtain path m1 where p: "PushProfile demo_platform demo_env ''~alice/shill'' demo_manager = Some (Inr path, m1)"
    by (rule demo_push)
  from PushProfile_PopProfile [OF demo_reach demo_env_ok this] p show ?thesis
    by (auto simp: demo_manager_def)
qed

text \<open>
  C7: logging out pops exactly the user profiles: \<open>PopAllUserProfiles\<close> terminates and leaves the machine
  profiles, all of them and in their order.
\<close>

theorem PopAllUserProfiles_leaves_machine:
  assumes "mgr_reach P m"
  shows "profiles_of (PopAllUserProfiles P E m) =
    filter (\<lambda>i. id_user (pr_name (profile_at m i)) = []) (profiles_of m)"
  using mgr_inv_reach [OF assms]
proof (induction P E m rule: PopAllUserProfiles.induct)
  case (1 P E m)
  show ?case
  proof (cases "profiles_of m = [] \<or> \<not> user_profile m (last (profiles_of m))")
    case True
    then have "\<forall>i \<in> set (profiles_of m). id_user (pr_name (profile_at m i)) = []"
      using stack_ok_top [OF _ True] 1(2) by (simp add: mgr_inv_def user_profile_def)
    with True show ?thesis by (subst PopAllUserProfiles.simps) (simp add: user_profile_def)
  next
    case False
    then obtain m' where pop: "PopProfileInternal P E m = Some m'"
      using PopProfileInternal_total by blast
    have stack: "profiles_of m' = butlast (profiles_of m)" by (rule PopProfileInternal_stack [OF pop])
    have "pr_name (profile_at m' i) = pr_name (profile_at m i)" for i
      using frameD(2) [OF conjunct1 [OF PopProfileInternal_frame [OF pop]]] by (simp add: pop_stack_def)
    moreover have "profiles_of (PopAllUserProfiles P E m') =
        filter (\<lambda>i. id_user (pr_name (profile_at m' i)) = []) (profiles_of m')"
      using 1(1) [OF _ pop] False PopProfileInternal_inv [OF 1(2) pop] by (simp add: user_profile_def)
    moreover obtain ps p where ps: "profiles_of m = ps @ [p]" using False by (cases "profiles_of m" rule: rev_cases) auto
    ultimately show ?thesis
      using False pop by (subst PopAllUserProfiles.simps) (simp add: user_profile_def stack)
  qed
qed

theorem PopAllUserProfiles_leaves_machine_witness:
  "\<exists>path m1. PushProfile demo_platform demo_env ''~alice/shill'' demo_manager = Some (Inr path, m1) \<and>
     length (profiles_of m1) = 1 \<and> profiles_of (PopAllUserProfiles demo_platform demo_env m1) = []"
proof -
  obtain path m1 where p: "PushProfile demo_platform demo_env ''~alice/shill'' demo_manager = Some (Inr path, m1)"
    by (rule demo_push)
  then have reach: "mgr_reach demo_platform m1"
    by (rule mgr_reach.step [OF demo_reach mgr_step.push [OF _ demo_env_ok]])
  obtain ident where ident: "ParseIdentifier ''~alice/shill'' = Some ident"
    "PushProfileInternal demo_platform demo_env ident demo_manager = Some (Inr path, m1)"
    using p by (auto simp: PushProfile_def split: option.splits)
  have "id_user ident = ''alice''"
    using ident(1) by (simp add: ParseIdentifier_def IsValidIdentifierToken_def ascii_alnum_def) auto
  with push_top [OF mgr_inv_reach [OF demo_reach] ident(2) demo_env_ok]
    PopAllUserProfiles_leaves_machine [OF reach, of demo_env] p
  show ?thesis by (auto simp: demo_manager_def)
qed

subsection \<open>The ranking after a sort\<close>

lemma Connect_state:
  "sv_state (fst (Connect P sv w)) = (if sv_state sv = kStateFailure then kStateIdle else sv_state sv)"
  by (simp add: Connect_def Let_def split_def SetState_state Clear_sv)

lemma AutoConnect_connected:
  "IsConnected (fst (AutoConnect P b sv w)) = IsConnected sv" "IsOnline (fst (AutoConnect P b sv w)) = IsOnline sv"
  by (auto simp: AutoConnect_def ThrottleFutureAutoConnects_def Let_def split_def Connect_state state_preds
      split: option.split)

lemma auto_connect_loop_state:
  "map (\<lambda>sv. (IsConnected sv, IsOnline sv)) (fst (auto_connect_loop P done svs w)) =
     map (\<lambda>sv. (IsConnected sv, IsOnline sv)) (done @ svs)"
proof (induction svs arbitrary: "done" w)
  case (Cons sv svs)
  let ?b = "IsConnected (hd (done @ sv # svs))"
  show ?case
  proof (cases "sv_auto_connect sv")
    case True
    have "auto_connect_loop P done (sv # svs) w =
        auto_connect_loop P (done @ [fst (AutoConnect P ?b sv w)]) svs (snd (AutoConnect P ?b sv w))"
      using True by (simp add: split_def)
    then show ?thesis using Cons.IH by (simp add: AutoConnect_connected)
  next
    case False
    then show ?thesis using Cons.IH by simp
  qed
qed simp

text \<open>The list of services right after the sort inside \<open>SortServicesTask\<close>.\<close>

definition ranked :: "'s manager \<Rightarrow> service list" where
  "ranked m = std_sort (ServiceSorter ((mg_world m)\<lparr>wd_sort_pending := False\<rparr>) True (mg_technology_order m))
     (mg_services m)"

lemma SortServicesTask_states:
  "map (\<lambda>sv. (IsConnected sv, IsOnline sv)) (mg_services (SortServicesTask P subnet m)) =
     map (\<lambda>sv. (IsConnected sv, IsOnline sv)) (ranked m)"
proof -
  have "\<exists>m1. SortServicesTask P subnet m = Manager_AutoConnect P m1 \<and> mg_services m1 = ranked m"
    by (rule exI [where x = "let r = sort_and_mark m;
          m' = RefreshConnectionState P (notify_default_service (fst r) (emit_services P (snd r))) in
          m'\<lparr>mg_devices := DetectMultiHomedDevices subnet (mg_devices m')\<rparr>"])
      (simp add: SortServicesTask_def Let_def split_def sort_and_mark_def ranked_def)
  then obtain m1 where m1: "SortServicesTask P subnet m = Manager_AutoConnect P m1" "mg_services m1 = ranked m"
    by blast
  have "map (\<lambda>sv. (IsConnected sv, IsOnline sv)) (mg_services (Manager_AutoConnect P m1)) =
      map (\<lambda>sv. (IsConnected sv, IsOnline sv)) (mg_services m1)"
    using auto_connect_loop_state [of P "[]" "mg_services m1" "mg_world m1"]
    by (simp add: Manager_AutoConnect_def Let_def split_def)
  with m1 show ?thesis by simp
qed

lemma rankable_sort_pending [simp]: "rankable (w\<lparr>wd_sort_pending := b\<rparr>) sv = rankable w sv"
  by (simp add: rankable_def split: option.split profile_ref.split)

lemma ranked_head:
  assumes "mgr_inv m" "\<forall>sv \<in> set (mg_services m). rankable (mg_world m) sv"
    and "\<And>a b. rankable (mg_world m) a \<Longrightarrow> rankable (mg_world m) b \<Longrightarrow>
      ServiceSorter ((mg_world m)\<lparr>wd_sort_pending := False\<rparr>) True (mg_technology_order m) a b \<Longrightarrow> Q b \<Longrightarrow> Q a"
  shows "(ranked m \<noteq> [] \<and> Q (hd (ranked m))) = (\<exists>sv \<in> set (mg_services m). Q sv)"
proof -
  let ?w = "(mg_world m)\<lparr>wd_sort_pending := False\<rparr>"
  have set: "set (ranked m) = set (mg_services m)" by (simp add: ranked_def)
  have sub: "set (ranked m) \<subseteq> {sv. rankable ?w sv}" using assms(2) set by auto
  have sorted: "sorted_wrt (ServiceSorter ?w True (mg_technology_order m)) (ranked m)"
    unfolding ranked_def
    by (rule svc.sorted_std_sort) (use assms(1,2) in \<open>auto simp: mgr_inv_def services_ok_def\<close>)
  show ?thesis
  proof
    assume "ranked m \<noteq> [] \<and> Q (hd (ranked m))"
    then show "\<exists>sv \<in> set (mg_services m). Q sv" using set hd_in_set by blast
  next
    assume "\<exists>sv \<in> set (mg_services m). Q sv"
    then obtain sv where "sv \<in> set (ranked m)" "Q sv" using set by blast
    then show "ranked m \<noteq> [] \<and> Q (hd (ranked m))"
      using svc.sorted_head [OF sorted sub, of sv Q] assms(3) by auto
  qed
qed

lemma hd_map_iff:
  assumes "map f xs = map f ys" shows "(xs \<noteq> [] \<and> f (hd xs)) = (ys \<noteq> [] \<and> f (hd ys))"
  using assms by (cases xs; cases ys) auto

text \<open>
  C9: after \<open>SortServicesTask\<close> the manager reports the right connectivity although it looks only at the
  first service: \<open>IsConnected\<close> holds exactly when some registered service is connected, and \<open>IsOnline\<close>
  exactly when some service is online. The condition, \<open>rankable\<close>, is the one under which the comparison is an order
  at all: no registered service runs on top of another one's connection, and none has a failure time while it is in a
  state other than failure, as a silent failure leaves behind (\<open>ServiceSorter_cycle\<close>); otherwise the
  behaviour of \<open>std::sort\<close> is undefined.
\<close>

theorem SortServicesTask_connectivity:
  assumes "mgr_reach P m" "\<forall>sv \<in> set (mg_services m). rankable (mg_world m) sv"
  shows "Manager_IsConnected (SortServicesTask P subnet m) = (\<exists>sv \<in> set (mg_services m). IsConnected sv) \<and>
    Manager_IsOnline (SortServicesTask P subnet m) = (\<exists>sv \<in> set (mg_services m). IsOnline sv)"
proof -
  let ?m = "SortServicesTask P subnet m"
  note states = SortServicesTask_states [of P subnet m]
  have "map IsConnected (mg_services ?m) = map IsConnected (ranked m)"
    "map IsOnline (mg_services ?m) = map IsOnline (ranked m)"
    using arg_cong [OF states, of "map fst"] arg_cong [OF states, of "map snd"] by (simp_all add: comp_def)
  then have "Manager_IsConnected ?m = (ranked m \<noteq> [] \<and> IsConnected (hd (ranked m)))"
    "Manager_IsOnline ?m = (ranked m \<noteq> [] \<and> IsOnline (hd (ranked m)))"
    using hd_map_iff [of IsConnected "mg_services ?m"] hd_map_iff [of IsOnline "mg_services ?m"]
    by (auto simp: Manager_IsConnected_def Manager_IsOnline_def split: list.splits)
  moreover have "IsConnected a"
    if "ServiceSorter w True t a b" "IsConnected b" for a b and w :: "'a world" and t
    using that by (auto simp: ServiceSorter_def Compare_def Let_def state_preds split: if_splits)
  moreover have "IsOnline a"
    if "ServiceSorter w True t a b" "IsOnline b" for a b and w :: "'a world" and t
    using that by (auto simp: ServiceSorter_def Compare_def Let_def state_preds split: if_splits)
  ultimately show ?thesis
    using ranked_head [OF mgr_inv_reach [OF assms(1)] assms(2), of IsConnected]
      ranked_head [OF mgr_inv_reach [OF assms(1)] assms(2), of IsOnline] by blast
qed

definition demo_registered :: "nat \<Rightarrow> connect_state \<Rightarrow> service" where
  "demo_registered n s = (demo_ranked n s)\<lparr>sv_profile := Some EphemeralProfile\<rparr>"

lemma demo_register:
  "RegisterService demo_platform (demo_ranked n s) demo_manager =
     Some (mg_sort (demo_manager\<lparr>mg_services := [demo_registered n s],
       mg_world := snd (SetProfile (Some EphemeralProfile) (demo_ranked n s) (demo_world\<lparr>wd_profiles := []\<rparr>))\<rparr>))"
  by (simp add: RegisterService_def MatchProfileWithService_def demo_manager_def AdoptService_def HasService_def
      split_def demo_registered_def)

lemma demo_register_reach:
  "mgr_reach demo_platform (the (RegisterService demo_platform (demo_ranked n s) demo_manager))"
  "mg_services (the (RegisterService demo_platform (demo_ranked n s) demo_manager)) = [demo_registered n s]"
  by (auto intro!: mgr_reach.step [OF demo_reach] mgr_step.register [OF demo_register] simp: demo_register)
    (simp add: demo_manager_def)

theorem SortServicesTask_connectivity_witness:
  "Manager_IsOnline (SortServicesTask demo_platform (\<lambda>_. [])
     (the (RegisterService demo_platform (demo_ranked 1 kStateOnline) demo_manager)))"
proof -
  let ?m = "the (RegisterService demo_platform (demo_ranked 1 kStateOnline) demo_manager)"
  have "\<forall>sv \<in> set (mg_services ?m). rankable (mg_world ?m) sv"
    unfolding demo_register_reach(2)
    by (simp add: rankable_def demo_registered_def demo_ranked_def Service_new_def)
  from SortServicesTask_connectivity [OF demo_register_reach(1) this] show ?thesis
    unfolding demo_register_reach(2) by (simp add: demo_registered_def demo_ranked_def state_preds)
qed

subsection \<open>Whether WiFi is idle\<close>

lemma ServiceSorter_active_first:
  assumes "ServiceSorter w True t a b" "IsConnected b \<or> IsConnecting b"
  shows "IsConnected a \<or> IsConnecting a"
proof (rule ccontr)
  assume "\<not> ?thesis"
  then have a: "\<not> IsConnected a" "\<not> IsConnecting a" by simp_all
  then have "sv_state a \<noteq> sv_state b" "\<not> IsOnline a" "\<not> IsPortalled a" using assms(2) by (auto simp: state_preds)
  moreover have "\<not> IsConnected b \<Longrightarrow> \<not> IsPortalled b \<and> \<not> IsOnline b" by (auto simp: state_preds)
  ultimately show False using assms a by (auto simp: ServiceSorter_def Compare_def Let_def of_bool_def split: if_splits)
qed

lemma IsWifiIdle_sorted:
  assumes "sorted_wrt (\<lambda>a b. IsConnected b \<or> IsConnecting b \<longrightarrow> IsConnected a \<or> IsConnecting a) svs"
  shows "IsWifiIdle svs \<longleftrightarrow> (\<exists>sv \<in> set svs. sv_technology sv = kWifi) \<and>
    (\<forall>sv \<in> set svs. sv_technology sv = kWifi \<longrightarrow> \<not> IsConnected sv \<and> \<not> IsConnecting sv)"
  using assms by (induction svs) auto

text \<open>
  On the sorted list \<open>IsWifiIdle\<close>, which inspects only the first WiFi service, decides whether there is a
  WiFi service and none of them is connected or connecting.
\<close>

theorem IsWifiIdle_correct:
  assumes "mgr_reach P m" "\<forall>sv \<in> set (mg_services m). rankable (mg_world m) sv"
  shows "IsWifiIdle (ranked m) \<longleftrightarrow> (\<exists>sv \<in> set (mg_services m). sv_technology sv = kWifi) \<and>
    (\<forall>sv \<in> set (mg_services m). sv_technology sv = kWifi \<longrightarrow> \<not> IsConnected sv \<and> \<not> IsConnecting sv)"
proof -
  let ?w = "(mg_world m)\<lparr>wd_sort_pending := False\<rparr>"
  have "sorted_wrt (ServiceSorter ?w True (mg_technology_order m)) (ranked m)"
    unfolding ranked_def
    by (rule svc.sorted_std_sort)
      (use assms(2) mgr_inv_reach [OF assms(1)] in \<open>auto simp: mgr_inv_def services_ok_def\<close>)
  then have "sorted_wrt (\<lambda>a b. IsConnected b \<or> IsConnecting b \<longrightarrow> IsConnected a \<or> IsConnecting a) (ranked m)"
    by (rule sorted_wrt_mono_rel [rotated]) (use ServiceSorter_active_first in blast)
  from IsWifiIdle_sorted [OF this] show ?thesis by (simp add: ranked_def)
qed

theorem IsWifiIdle_correct_witness:
  "IsWifiIdle (ranked (the (RegisterService demo_platform (demo_ranked 1 kStateIdle) demo_manager)))"
proof -
  let ?m = "the (RegisterService demo_platform (demo_ranked 1 kStateIdle) demo_manager)"
  have "\<forall>sv \<in> set (mg_services ?m). rankable (mg_world ?m) sv"
    unfolding demo_register_reach(2)
    by (simp add: rankable_def demo_registered_def demo_ranked_def Service_new_def)
  from IsWifiIdle_correct [OF demo_register_reach(1) this] show ?thesis
    unfolding demo_register_reach(2) by (simp add: demo_registered_def demo_ranked_def Service_new_def state_preds)
qed

subsection \<open>Connecting to the best services\<close>

text \<open>What \<open>ConnectToBestServicesTask\<close> asks of a service besides its technology being free.\<close>

definition eligible :: "bool \<Rightarrow> service \<Rightarrow> bool" where
  "eligible manager_connected sv \<longleftrightarrow> sv_connectable sv \<and> sv_auto_connect sv \<and> sv_visible sv \<and>
     \<not> sv_explicitly_disconnected sv \<and>
     (IsPrimaryConnectivityTechnology (sv_technology sv) \<or> manager_connected)"

definition same_objects :: "service list \<Rightarrow> service list \<Rightarrow> bool" where
  "same_objects copy svs \<longleftrightarrow> (\<forall>x \<in> set svs. \<forall>sv \<in> set copy.
     sv_serial_number x = sv_serial_number sv \<longrightarrow> IsConnected x = IsConnected sv)"

text \<open>\<open>Connect\<close> on one service does not change what \<open>IsConnected()\<close> reports.\<close>

lemma connect_keeps_head:
  assumes "same_objects (sv # copy) svs" "\<not> IsConnected sv"
    and svs'_def: "svs' = map (\<lambda>x. if sv_serial_number x = sv_serial_number sv then fst (Connect P sv w) else x) svs"
  shows "same_objects copy svs'" "(svs' \<noteq> [] \<and> IsConnected (hd svs')) = (svs \<noteq> [] \<and> IsConnected (hd svs))"
proof -
  have c: "\<not> IsConnected (fst (Connect P sv w))"
    "sv_serial_number (fst (Connect P sv w)) = sv_serial_number sv"
    using assms(2) fixed_fieldsD(2) [OF fixed_Connect] by (auto simp: state_preds Connect_state)
  have same: "\<not> IsConnected x" if "x \<in> set svs" "sv_serial_number x = sv_serial_number sv" for x
    using assms(1,2) that by (auto simp: same_objects_def)
  show "same_objects copy svs'"
    using assms(1) c same unfolding same_objects_def svs'_def by (auto split: if_splits)
  show "(svs' \<noteq> [] \<and> IsConnected (hd svs')) = (svs \<noteq> [] \<and> IsConnected (hd svs))"
    using c same by (cases svs) (auto simp: svs'_def)
qed

lemma best_loop_sound:
  assumes "same_objects copy svs" and "con = (svs \<noteq> [] \<and> IsConnected (hd svs))"
  shows "set (fst (best_loop P copy techs svs w)) \<subseteq>
      {sv \<in> set copy. eligible con sv \<and> \<not> IsConnected sv \<and> \<not> IsConnecting sv} \<and>
    distinct (map sv_technology (fst (best_loop P copy techs svs w))) \<and>
    sv_technology ` set (fst (best_loop P copy techs svs w)) \<inter> techs = {}"
  using assms
proof (induction copy arbitrary: techs svs w)
  case (Cons sv copy)
  have same: "same_objects copy svs" using Cons.prems(1) by (simp add: same_objects_def)
  let ?c = "Connect P sv w"
  let ?svs = "map (\<lambda>x. if sv_serial_number x = sv_serial_number sv then fst ?c else x) svs"
  have connect_IH: "set (fst (best_loop P copy t ?svs (snd ?c))) \<subseteq>
        {sv \<in> set copy. eligible con sv \<and> \<not> IsConnected sv \<and> \<not> IsConnecting sv} \<and>
      distinct (map sv_technology (fst (best_loop P copy t ?svs (snd ?c)))) \<and>
      sv_technology ` set (fst (best_loop P copy t ?svs (snd ?c))) \<inter> t = {}"
    if "\<not> IsConnected sv" for t
  proof (rule Cons.IH)
    show "same_objects copy ?svs" by (rule connect_keeps_head(1) [OF Cons.prems(1) that refl])
    show "con = (?svs \<noteq> [] \<and> IsConnected (hd ?svs))"
      unfolding connect_keeps_head(2) [OF Cons.prems(1) that refl] by (rule Cons.prems(2))
  qed
  consider (stop) "\<not> sv_connectable sv"
    | (skip) "sv_connectable sv" "\<not> (eligible con sv \<and> sv_technology sv \<notin> techs)"
    | (connect) "eligible con sv" "sv_technology sv \<notin> techs" "\<not> IsConnected sv" "\<not> IsConnecting sv"
    | (active) "eligible con sv" "sv_technology sv \<notin> techs" "IsConnected sv \<or> IsConnecting sv"
    by blast
  then show ?case
  proof cases
    case stop then show ?thesis by simp
  next
    case skip
    then have "best_loop P (sv # copy) techs svs w = best_loop P copy techs svs w"
      using Cons.prems(2) by (auto simp: eligible_def)
    then show ?thesis using Cons.IH [OF same Cons.prems(2), of techs w] by auto
  next
    case connect
    then have "fst (best_loop P (sv # copy) techs svs w) =
        sv # fst (best_loop P copy (insert (sv_technology sv) techs) ?svs (snd ?c))"
      using Cons.prems(2) by (auto simp: eligible_def split_def)
    with connect connect_IH [of "insert (sv_technology sv) techs"] show ?thesis by auto
  next
    case active
    then have "best_loop P (sv # copy) techs svs w = best_loop P copy (insert (sv_technology sv) techs) svs w"
      using Cons.prems(2) by (auto simp: eligible_def)
    then show ?thesis using Cons.IH [OF same Cons.prems(2), of "insert (sv_technology sv) techs" w] by auto
  qed
qed simp

text \<open>The \<open>break\<close> at the first service that is not connectable skips no candidate.\<close>

abbreviation connectable_first :: "service list \<Rightarrow> bool" where
  "connectable_first \<equiv> sorted_wrt (\<lambda>a b. sv_connectable b \<longrightarrow> sv_connectable a)"

lemma best_loop_complete:
  assumes "same_objects copy svs" and "con = (svs \<noteq> [] \<and> IsConnected (hd svs))"
    and "connectable_first copy" "sv \<in> set copy" "eligible con sv"
  shows "sv_technology sv \<in> techs \<or>
    (\<exists>sv' \<in> set copy. sv_technology sv' = sv_technology sv \<and> eligible con sv' \<and>
       (sv' \<in> set (fst (best_loop P copy techs svs w)) \<or> IsConnected sv' \<or> IsConnecting sv'))"
  using assms
proof (induction copy arbitrary: techs svs w)
  case (Cons x copy)
  have same: "same_objects copy svs" using Cons.prems(1) by (simp add: same_objects_def)
  have x: "sv_connectable x" using Cons.prems(3-5) by (auto simp: eligible_def)
  let ?c = "Connect P x w"
  let ?svs = "map (\<lambda>y. if sv_serial_number y = sv_serial_number x then fst ?c else y) svs"
  consider (skip) "\<not> (eligible con x \<and> sv_technology x \<notin> techs)"
    | (connect) "eligible con x" "sv_technology x \<notin> techs" "\<not> IsConnected x" "\<not> IsConnecting x"
    | (active) "eligible con x" "sv_technology x \<notin> techs" "IsConnected x \<or> IsConnecting x"
    by blast
  then show ?case
  proof cases
    case skip
    then have step: "best_loop P (x # copy) techs svs w = best_loop P copy techs svs w"
      using Cons.prems(2) x by (auto simp: eligible_def)
    show ?thesis
    proof (cases "sv = x")
      case True then show ?thesis using skip Cons.prems(5) by simp
    next
      case False
      then show ?thesis
        using Cons.IH [OF same Cons.prems(2), of techs w] Cons.prems(3-5) unfolding step by auto
    qed
  next
    case connect
    then have step: "fst (best_loop P (x # copy) techs svs w) =
        x # fst (best_loop P copy (insert (sv_technology x) techs) ?svs (snd ?c))"
      using Cons.prems(2) by (auto simp: eligible_def split_def)
    have "con = (?svs \<noteq> [] \<and> IsConnected (hd ?svs))"
      unfolding connect_keeps_head(2) [OF Cons.prems(1) connect(3) refl] by (rule Cons.prems(2))
    note IH = Cons.IH [OF connect_keeps_head(1) [OF Cons.prems(1) connect(3) refl] this,
        of "insert (sv_technology x) techs" "snd ?c"]
    show ?thesis
    proof (cases "sv_technology sv = sv_technology x")
      case True then show ?thesis using connect(1) unfolding step by auto
    next
      case False
      then show ?thesis using IH Cons.prems(3-5) unfolding step by auto
    qed
  next
    case active
    then have step: "best_loop P (x # copy) techs svs w = best_loop P copy (insert (sv_technology x) techs) svs w"
      using Cons.prems(2) by (auto simp: eligible_def)
    show ?thesis
    proof (cases "sv_technology sv = sv_technology x")
      case True then show ?thesis using active by auto
    next
      case False
      then show ?thesis
        using Cons.IH [OF same Cons.prems(2), of "insert (sv_technology x) techs" w] Cons.prems(3-5)
        unfolding step by auto
    qed
  qed
qed simp

lemma insert_by_first:
  assumes lt: "\<And>a b. Q a \<Longrightarrow> \<not> Q b \<Longrightarrow> lt a b \<and> \<not> lt b a" and "sorted_wrt (\<lambda>a b. Q b \<longrightarrow> Q a) ys"
  shows "sorted_wrt (\<lambda>a b. Q b \<longrightarrow> Q a) (insert_by lt x ys)"
  using assms(2)
proof (induction ys)
  case (Cons y ys)
  show ?case
  proof (cases "lt y x")
    case True
    then have "Q x \<longrightarrow> Q y" using lt by blast
    with True Cons show ?thesis by auto
  next
    case False
    then have "Q y \<longrightarrow> Q x" using lt by blast
    with False Cons.prems show ?thesis by auto
  qed
qed simp

lemma std_sort_first:
  assumes "\<And>a b. Q a \<Longrightarrow> \<not> Q b \<Longrightarrow> lt a b \<and> \<not> lt b a"
  shows "sorted_wrt (\<lambda>a b. Q b \<longrightarrow> Q a) (std_sort lt xs)"
  unfolding std_sort_def by (induction xs) (simp_all add: insert_by_first [OF assms])

lemma connectable_sorter:
  "sv_connectable a \<Longrightarrow> \<not> sv_connectable b \<Longrightarrow>
     ServiceSorter w False t a b \<and> \<not> ServiceSorter w False t b a"
  by (simp add: ServiceSorter_def Compare_def Let_def)

text \<open>
  C10: \<open>ConnectToBestServicesTask\<close> calls \<open>Connect\<close> for at most one service of each technology, and only on
  services that are connectable, visible, set to connect automatically, not explicitly disconnected by the user
  and not already connected or connecting, and for a technology that needs another connection only when
  there is one; and it forgets none: every technology with such a candidate ends up with a service
  that is connected, connecting or asked to connect. The condition is what \<open>std::sort\<close> needs: without connectivity, the
  comparison is a strict total order on the registered services. Then the sorted copy is the only list that
  \<open>std::sort\<close> can leave, and \<open>ServiceSorter_plain_total\<close> says when the condition holds: when the services are rankable
  and those that are connected agree on automatic connection with those that are not. It can fail
  (\<open>ServiceSorter_asymmetry_fails\<close>), and then the behaviour is undefined.
\<close>

theorem ConnectToBestServicesTask_choice:
  assumes "mgr_reach P m"
    and "strict_total (ServiceSorter (mg_world m) False (mg_technology_order m)) (mg_services m)"
  shows "(\<forall>copy. mset copy = mset (mg_services m) \<and>
       sorted_wrt (\<lambda>a b. \<not> ServiceSorter (mg_world m) False (mg_technology_order m) b a) copy \<longrightarrow>
       copy = std_sort (ServiceSorter (mg_world m) False (mg_technology_order m)) (mg_services m)) \<and>
    (case ConnectToBestServicesTask P m of (connected, m') \<Rightarrow>
      distinct (map sv_technology connected) \<and>
      set connected \<subseteq> {sv \<in> set (mg_services m).
        eligible (Manager_IsConnected m) sv \<and> \<not> IsConnected sv \<and> \<not> IsConnecting sv} \<and>
      (\<forall>sv \<in> set (mg_services m). eligible (Manager_IsConnected m) sv \<longrightarrow>
         (\<exists>sv' \<in> set (mg_services m). sv_technology sv' = sv_technology sv \<and>
            (sv' \<in> set connected \<or> IsConnected sv' \<or> IsConnecting sv'))))"
proof -
  define copy where "copy = std_sort (ServiceSorter (mg_world m) False (mg_technology_order m)) (mg_services m)"
  have set: "set copy = set (mg_services m)" by (simp add: copy_def)
  have dist: "distinct (map sv_serial_number (mg_services m))"
    using mgr_inv_reach [OF assms(1)] by (simp add: mgr_inv_def services_ok_def)
  then have same: "same_objects copy (mg_services m)"
    by (auto simp: same_objects_def set distinct_map inj_on_def)
  have con: "Manager_IsConnected m = (mg_services m \<noteq> [] \<and> IsConnected (hd (mg_services m)))"
    by (simp add: Manager_IsConnected_def split: list.split)
  have first: "connectable_first copy"
    unfolding copy_def by (rule std_sort_first) (rule connectable_sorter)
  let ?r = "best_loop P copy {} (mg_services m) (mg_world m)"
  have all: "\<exists>sv' \<in> set (mg_services m). sv_technology sv' = sv_technology sv \<and>
      (sv' \<in> set (fst ?r) \<or> IsConnected sv' \<or> IsConnecting sv')"
    if "sv \<in> set (mg_services m)" "eligible (Manager_IsConnected m) sv" for sv
    using best_loop_complete [OF same con first, of sv "{}" P "mg_world m"] that set by auto
  have only: "\<forall>ys. mset ys = mset (mg_services m) \<and>
      sorted_wrt (\<lambda>a b. \<not> ServiceSorter (mg_world m) False (mg_technology_order m) b a) ys \<longrightarrow> ys = copy"
    unfolding copy_def using std_sort_determined [OF assms(2)] dist by (auto simp: distinct_map)
  from best_loop_sound [OF same con, of P "{}" "mg_world m"] all only show ?thesis
    by (simp add: ConnectToBestServicesTask_def copy_def [symmetric] split_def set)
qed

theorem ConnectToBestServicesTask_choice_witness:
  "\<exists>connected m'. ConnectToBestServicesTask demo_platform
       (the (RegisterService demo_platform (demo_ranked 1 kStateIdle) demo_manager)) = (connected, m') \<and>
     distinct (map sv_technology connected) \<and> set connected \<subseteq> {demo_registered 1 kStateIdle}"
proof -
  let ?m = "the (RegisterService demo_platform (demo_ranked 1 kStateIdle) demo_manager)"
  have "strict_total (ServiceSorter (mg_world ?m) False (mg_technology_order ?m)) (mg_services ?m)"
    unfolding demo_register_reach(2)
    by (rule ServiceSorter_plain_total)
      (simp_all add: rankable_def demo_registered_def demo_ranked_def Service_new_def auto_agrees_def)
  from ConnectToBestServicesTask_choice [OF demo_register_reach(1) this] show ?thesis
    unfolding demo_register_reach(2) by (auto simp: split_def intro!: exI prod.collapse [symmetric])
qed

subsection \<open>The service list as a registry\<close>

text \<open>The abstract state: which service, by its serial number, is registered under a name.\<close>

definition registry :: "'s manager \<Rightarrow> (string, nat) map" where
  "registry m = map_of (map (\<lambda>sv. (sv_unique_name sv, sv_serial_number sv)) (mg_services m))"

lemma registry_dom: "dom (registry m) = sv_unique_name ` set (mg_services m)"
  by (simp add: registry_def dom_map_of_conv_image_fst image_image)

lemma registry_fixed:
  assumes "map fixed_fields (mg_services m') = map fixed_fields (mg_services m)"
  shows "registry m' = registry m"
proof -
  have "map (\<lambda>sv. (sv_unique_name sv, sv_serial_number sv)) svs =
      map (\<lambda>f. (fst (fst f), fst (snd (fst f)))) (map fixed_fields svs)" for svs
    by (simp add: fixed_fields_def)
  with assms show ?thesis by (simp only: registry_def)
qed

lemma registry_mset:
  assumes "mset (mg_services m') = mset (mg_services m)" "distinct (map sv_unique_name (mg_services m))"
  shows "registry m' = registry m"
proof -
  let ?f = "\<lambda>sv. (sv_unique_name sv, sv_serial_number sv)"
  have d: "distinct (map fst (map ?f (mg_services m)))" using assms(2) by (simp add: comp_def)
  have "mset (map ?f (mg_services m')) = mset (map ?f (mg_services m))" using assms(1) by simp
  then have "set (map ?f (mg_services m')) = set (map ?f (mg_services m))" by (rule mset_eq_setD)
  moreover have "distinct (map sv_unique_name (mg_services m'))"
    using assms by (metis mset_eq_imp_distinct_iff mset_map)
  then have "distinct (map fst (map ?f (mg_services m')))" by (simp add: comp_def)
  ultimately show ?thesis unfolding registry_def using d by (simp only: map_of_inject_set)
qed

lemma registry_register:
  assumes "RegisterService P sv m = Some m'"
  shows "registry m' = (registry m)(sv_unique_name sv \<mapsto> sv_serial_number sv)"
proof -
  let ?sv = "fst (snd (MatchProfileWithService P sv (mg_world m)))"
  note id = fixed_fieldsD(1,2) [OF Match_facts(1) [of P sv "mg_world m"]]
  have "mg_services m' = mg_services m @ [?sv]" "sv_unique_name sv \<notin> dom (registry m)"
    using assms id by (auto simp: RegisterService_def HasService_def registry_dom split_def split: if_splits)
  then show ?thesis
    by (auto simp: registry_def id map_add_def fun_eq_iff dom_def split: option.splits)
qed

lemma deregister_registry:
  assumes "distinct (map sv_unique_name svs)"
  shows "case deregister P name svs w of
    None \<Rightarrow> name \<notin> sv_unique_name ` set svs
  | Some (svs', w') \<Rightarrow> map_of (map (\<lambda>sv. (sv_unique_name sv, sv_serial_number sv)) svs') =
      (map_of (map (\<lambda>sv. (sv_unique_name sv, sv_serial_number sv)) svs))(name := None)"
  using assms
proof (induction svs)
  case (Cons sv svs)
  have "map_of (map (\<lambda>sv. (sv_unique_name sv, sv_serial_number sv)) svs) (sv_unique_name sv) = None"
    using Cons.prems by (simp add: map_of_eq_None_iff image_image)
  with Cons show ?case
    by (cases "deregister P name svs w") (auto simp: split_def fun_upd_twist)
qed simp

lemma registry_deregister:
  assumes "mgr_inv m"
  shows "registry (DeregisterService P sv m) = (registry m)(sv_unique_name sv := None)"
proof -
  have "distinct (map sv_unique_name (mg_services m))" using assms by (simp add: mgr_inv_def services_ok_def)
  note d = deregister_registry [OF this, where P = P and name = "sv_unique_name sv" and w = "mg_world m"]
  show ?thesis
  proof (cases "deregister P (sv_unique_name sv) (mg_services m) (mg_world m)")
    case None
    then have "sv_unique_name sv \<notin> dom (registry m)" using d by (simp add: registry_dom)
    with None show ?thesis by (simp add: DeregisterService_def dom_def fun_upd_idem)
  next
    case (Some r)
    then show ?thesis using d by (cases r) (simp add: DeregisterService_def registry_def)
  qed
qed

lemma map_fixed_each:
  assumes "\<And>sv w. fixed_fields (fst (f sv w)) = fixed_fields sv"
  shows "map fixed_fields (fst (each_service f svs w)) = map fixed_fields svs"
  by (induction svs arbitrary: w) (simp_all add: split_def assms)

lemma find_registry:
  "map_option sv_serial_number (List.find (\<lambda>sv. sv_unique_name sv = name) svs) =
     map_of (map (\<lambda>sv. (sv_unique_name sv, sv_serial_number sv)) svs) name"
  by (induction svs) auto

lemma registry_sort:
  assumes "mgr_inv m" shows "registry (SortServicesTask P subnet m) = registry m"
proof -
  let ?m = "snd (sort_and_mark m)"
  have inv: "mgr_inv ?m"
    using mgr_inv_step [of m ?m] assms services_ok_mset [of "mg_services ?m" "mg_services m"]
    by (simp add: mgr_inv_def)
  obtain m1 where m1: "SortServicesTask P subnet m = Manager_AutoConnect P m1"
      "mg_services m1 = mg_services ?m" "mg_world m1 = mg_world ?m" "mg_next_profile m1 = mg_next_profile ?m"
    by (rule that [of "let r = sort_and_mark m;
          m' = RefreshConnectionState P (notify_default_service (fst r) (emit_services P (snd r))) in
          m'\<lparr>mg_devices := DetectMultiHomedDevices subnet (mg_devices m')\<rparr>"])
      (simp_all add: SortServicesTask_def Let_def split_def)
  have "frame (mg_world m1) = frame (mg_world ?m)" by (simp only: m1(3))
  with inv have "mgr_inv m1" using mgr_inv_step [of ?m m1] m1 by (simp add: mgr_inv_def)
  then have "registry (Manager_AutoConnect P m1) = registry m1"
    by (intro registry_fixed Manager_AutoConnect_inv(2))
  also have "\<dots> = registry m"
    using registry_mset [of m1 m] m1(2) assms by (simp add: mgr_inv_def services_ok_def)
  finally show ?thesis by (simp add: m1(1))
qed

lemma registry_resume: "registry (OnSuspendDone P m) = registry m"
proof (rule registry_fixed)
  show "map fixed_fields (mg_services (OnSuspendDone P m)) = map fixed_fields (mg_services m)"
    using map_fixed_each [of "OnAfterResume P", OF OnAfterResume_facts(1)]
    by (simp add: OnSuspendDone_def split_def Let_def resume_devices_facts mg_sort_def)
qed

text \<open>
  C8: the manager's service list refines a map from unique names to service objects. \<open>RegisterService\<close>
  refuses a name of the map and otherwise adds exactly the new entry; \<open>DeregisterService\<close> removes exactly the
  entry of the service; \<open>FindService\<close> is the lookup; ranking the services, connecting
  them automatically and resuming leave the map unchanged.
\<close>

theorem registry_refinement:
  assumes "mgr_reach P m"
  shows "(RegisterService P sv m = None \<longleftrightarrow> registry m (sv_unique_name sv) \<noteq> None) \<and>
    (\<forall>m'. RegisterService P sv m = Some m' \<longrightarrow>
       registry m' = (registry m)(sv_unique_name sv \<mapsto> sv_serial_number sv)) \<and>
    registry (DeregisterService P sv m) = (registry m)(sv_unique_name sv := None) \<and>
    map_option sv_serial_number (FindService name m) = registry m name \<and>
    registry (SortServicesTask P subnet m) = registry m \<and>
    registry (OnSuspendDone P m) = registry m"
proof -
  note inv = mgr_inv_reach [OF assms]
  have "RegisterService P sv m = None \<longleftrightarrow> registry m (sv_unique_name sv) \<noteq> None"
    using registry_dom [of m] fixed_fieldsD(1) [OF Match_facts(1) [of P sv "mg_world m"]]
    by (auto simp: RegisterService_def HasService_def split_def dom_def image_def)
  moreover have "map_option sv_serial_number (FindService name m) = registry m name"
    by (simp add: FindService_def registry_def find_registry)
  ultimately show ?thesis
    using registry_deregister [OF inv] registry_sort [OF inv] registry_resume registry_register by blast
qed

theorem registry_refinement_witness:
  "registry (DeregisterService demo_platform (demo_registered 1 kStateIdle)
     (the (RegisterService demo_platform (demo_ranked 1 kStateIdle) demo_manager))) = Map.empty"
proof -
  let ?m = "the (RegisterService demo_platform (demo_ranked 1 kStateIdle) demo_manager)"
  have "registry ?m = [sv_unique_name (demo_registered 1 kStateIdle) \<mapsto> sv_serial_number (demo_registered 1 kStateIdle)]"
    by (simp only: registry_def demo_register_reach(2) list.map map_of.simps fst_conv snd_conv)
  then show ?thesis
    using registry_refinement [OF demo_register_reach(1), of "demo_registered 1 kStateIdle" 1 kStateIdle] by simp
qed

subsection \<open>Devices on the same subnet\<close>

lemma SetIsMultiHomed_simps [simp]:
  "dv_is_multi_homed (SetIsMultiHomed b d) = b" "subnet_of g (SetIsMultiHomed b d) = subnet_of g d"
  by (simp_all add: SetIsMultiHomed_def subnet_of_def Let_def)

lemma add_bucket_names: "fst ` set (add_bucket n i bs) = insert n (fst ` set bs)"
  by (induction n i bs rule: add_bucket.induct) auto

lemma add_bucket_distinct: "distinct (map fst bs) \<Longrightarrow> distinct (map fst (add_bucket n i bs))"
  by (induction n i bs rule: add_bucket.induct) (simp_all add: add_bucket_names, blast)

lemma map_of_add_bucket:
  "map_of (add_bucket n i bs) =
     (map_of bs)(n \<mapsto> (case map_of bs n of None \<Rightarrow> [i] | Some is \<Rightarrow> is @ [i]))"
  by (induction n i bs rule: add_bucket.induct) auto

text \<open>The positions before \<open>k\<close> of the devices on a subnet.\<close>

definition on_subnet :: "(nat \<Rightarrow> string) \<Rightarrow> device list \<Rightarrow> nat \<Rightarrow> string \<Rightarrow> nat list" where
  "on_subnet g ds k n = filter (\<lambda>i. subnet_of g (ds ! i) = n) [0..<k]"

lemma bucket_fold:
  assumes "k \<le> length ds"
  shows "case foldl (bucket_step g) ([], ds) [0..<k] of (bs, ds') \<Rightarrow>
    distinct (map fst bs) \<and> length ds' = length ds \<and>
    (\<forall>n. map_of bs n = (if n = [] \<or> on_subnet g ds k n = [] then None else Some (on_subnet g ds k n))) \<and>
    (\<forall>i < length ds. ds' ! i =
       (if i < k \<and> subnet_of g (ds ! i) = [] then SetIsMultiHomed False (ds ! i) else ds ! i))"
  using assms
proof (induction k)
  case (Suc k)
  obtain bs ds' where r: "foldl (bucket_step g) ([], ds) [0..<k] = (bs, ds')" by (rule prod.exhaust)
  have k: "k < length ds" using Suc.prems by simp
  have IH: "distinct (map fst bs)" "length ds' = length ds"
    "map_of bs n = (if n = [] \<or> on_subnet g ds k n = [] then None else Some (on_subnet g ds k n))"
    "\<And>i. i < length ds \<Longrightarrow> ds' ! i =
      (if i < k \<and> subnet_of g (ds ! i) = [] then SetIsMultiHomed False (ds ! i) else ds ! i)" for n
    using Suc.IH Suc.prems r by simp_all
  have at_k: "ds' ! k = ds ! k" using IH(4) [OF k] by simp
  have on: "on_subnet g ds (Suc k) n = on_subnet g ds k n @ (if subnet_of g (ds ! k) = n then [k] else [])" for n
    by (simp add: on_subnet_def)
  have step: "foldl (bucket_step g) ([], ds) [0..<Suc k] =
      (if subnet_of g (ds ! k) = [] then (bs, ds'[k := SetIsMultiHomed False (ds ! k)])
       else (add_bucket (subnet_of g (ds ! k)) k bs, ds'))"
    by (simp add: r bucket_step_def at_k Let_def)
  show ?case
  proof (cases "subnet_of g (ds ! k) = []")
    case True
    then show ?thesis unfolding step by (auto simp: IH on k nth_list_update less_Suc_eq)
  next
    case False
    then show ?thesis
      unfolding step by (auto simp: IH on add_bucket_distinct map_of_add_bucket less_Suc_eq)
  qed
qed (simp add: on_subnet_def)

lemma set_all_multi_homed:
  assumes "set is \<subseteq> {..<length ds}"
  shows "length (foldl (\<lambda>ds i. ds[i := SetIsMultiHomed b (ds ! i)]) ds is) = length ds \<and>
    (\<forall>i < length ds. dv_is_multi_homed (foldl (\<lambda>ds i. ds[i := SetIsMultiHomed b (ds ! i)]) ds is ! i) =
       (if i \<in> set is then b else dv_is_multi_homed (ds ! i)))"
  using assms by (induction "is" arbitrary: ds) (auto simp: nth_list_update)

lemma apply_bucket_facts:
  assumes "is \<noteq> []" "set is \<subseteq> {..<length ds}"
  shows "length (apply_bucket ds is) = length ds"
    and "i < length ds \<Longrightarrow> dv_is_multi_homed (apply_bucket ds is ! i) =
      (if i \<in> set is then length is > 1 else dv_is_multi_homed (ds ! i))"
proof -
  have one: "set is = {last is}" if "\<not> length is > 1" using that assms(1) by (cases "is") auto
  show "length (apply_bucket ds is) = length ds"
    "i < length ds \<Longrightarrow> dv_is_multi_homed (apply_bucket ds is ! i) =
      (if i \<in> set is then length is > 1 else dv_is_multi_homed (ds ! i))"
    using set_all_multi_homed [OF assms(2), of True] one
    by (auto simp: apply_bucket_def nth_list_update)
qed

lemma apply_buckets:
  assumes "\<forall>is \<in> set iss. is \<noteq> [] \<and> set is \<subseteq> {..<length ds} \<and> (\<forall>i \<in> set is. P i = (length is > 1))"
  shows "length (foldl apply_bucket ds iss) = length ds \<and>
    (\<forall>i < length ds. dv_is_multi_homed (foldl apply_bucket ds iss ! i) =
       (if \<exists>is \<in> set iss. i \<in> set is then P i else dv_is_multi_homed (ds ! i)))"
  using assms
proof (induction iss arbitrary: ds)
  case (Cons "is" iss)
  have "is": "is \<noteq> []" "set is \<subseteq> {..<length ds}" "\<forall>i \<in> set is. P i = (length is > 1)"
    using Cons.prems by simp_all
  have "length (apply_bucket ds is) = length ds" by (rule apply_bucket_facts [OF "is"(1,2)])
  then show ?case
    using Cons.IH [of "apply_bucket ds is"] Cons.prems apply_bucket_facts(2) [OF "is"(1,2)] "is"(3) by simp
qed simp

lemma on_subnet_more:
  assumes "i \<in> set (on_subnet g ds k n)"
  shows "length (on_subnet g ds k n) > 1 \<longleftrightarrow> (\<exists>j < k. j \<noteq> i \<and> subnet_of g (ds ! j) = n)"
proof -
  let ?s = "set (on_subnet g ds k n)"
  have set: "?s = {j. j < k \<and> subnet_of g (ds ! j) = n}" by (auto simp: on_subnet_def)
  have card: "length (on_subnet g ds k n) = card ?s"
    by (rule distinct_card [symmetric]) (simp add: on_subnet_def)
  have "card ?s = Suc (card (?s - {i}))" using assms by (intro card.remove) simp
  then have "length (on_subnet g ds k n) > 1 \<longleftrightarrow> ?s - {i} \<noteq> {}" using card by (simp add: card_gt_0_iff)
  then show ?thesis unfolding set by auto
qed

text \<open>
  C25: \<open>DetectMultiHomedDevices\<close> computes what it is named after, whatever the flags were before: a device is
  multi-homed exactly when it has a connection on a named subnet and another device has one on the same subnet.
\<close>

theorem DetectMultiHomedDevices_correct:
  "map dv_is_multi_homed (DetectMultiHomedDevices g ds) =
     map (\<lambda>i. subnet_of g (ds ! i) \<noteq> [] \<and>
              (\<exists>j \<in> {..<length ds} - {i}. subnet_of g (ds ! j) = subnet_of g (ds ! i))) [0..<length ds]"
proof -
  define P where "P i \<longleftrightarrow> subnet_of g (ds ! i) \<noteq> [] \<and>
    (\<exists>j \<in> {..<length ds} - {i}. subnet_of g (ds ! j) = subnet_of g (ds ! i))" for i
  obtain bs ds' where r: "foldl (bucket_step g) ([], ds) [0..<length ds] = (bs, ds')" by (rule prod.exhaust)
  let ?on = "on_subnet g ds (length ds)"
  have bs: "distinct (map fst bs)" "length ds' = length ds"
    "map_of bs n = (if n = [] \<or> ?on n = [] then None else Some (?on n))"
    "\<And>i. i < length ds \<Longrightarrow> ds' ! i =
      (if subnet_of g (ds ! i) = [] then SetIsMultiHomed False (ds ! i) else ds ! i)" for n
    using bucket_fold [of "length ds" ds g] r by simp_all
  have mem: "(n, is) \<in> set bs \<longleftrightarrow> n \<noteq> [] \<and> ?on n \<noteq> [] \<and> is = ?on n" for n "is"
    using bs(3) [of n] map_of_eq_Some_iff [OF bs(1), of n "is"] by (auto split: if_splits)
  have iss: "is \<in> set (map snd bs) \<longleftrightarrow> (\<exists>n. n \<noteq> [] \<and> ?on n \<noteq> [] \<and> is = ?on n)" for "is"
  proof -
    have "is \<in> set (map snd bs) \<longleftrightarrow> (\<exists>n. (n, is) \<in> set bs)" by force
    then show ?thesis by (simp only: mem)
  qed
  have "P i = (length (?on n) > 1)" if "i \<in> set (?on n)" "n \<noteq> []" for i n
    unfolding P_def on_subnet_more [OF that(1)] using that by (auto simp: on_subnet_def)
  then have "is \<noteq> [] \<and> set is \<subseteq> {..<length ds'} \<and> (\<forall>i \<in> set is. P i = (length is > 1))"
    if "is \<in> set (map snd bs)" for "is"
    using that unfolding iss bs(2) by (auto simp: on_subnet_def)
  then have "\<forall>is \<in> set (map snd bs).
      is \<noteq> [] \<and> set is \<subseteq> {..<length ds'} \<and> (\<forall>i \<in> set is. P i = (length is > 1))" by blast
  note app = apply_buckets [OF this]
  have some: "(\<exists>is \<in> set (map snd bs). i \<in> set is) \<longleftrightarrow> subnet_of g (ds ! i) \<noteq> []" if "i < length ds" for i
  proof -
    have "i \<in> set (?on n) \<longleftrightarrow> subnet_of g (ds ! i) = n" for n using that by (auto simp: on_subnet_def)
    then show ?thesis unfolding Bex_def iss by (metis empty_iff empty_set)
  qed
  show ?thesis
  proof (rule nth_equalityI)
    show "length (map dv_is_multi_homed (DetectMultiHomedDevices g ds)) = length (map (\<lambda>i.
        subnet_of g (ds ! i) \<noteq> [] \<and>
        (\<exists>j \<in> {..<length ds} - {i}. subnet_of g (ds ! j) = subnet_of g (ds ! i))) [0..<length ds])"
      using app by (simp add: DetectMultiHomedDevices_def r bs(2))
    fix i assume "i < length (map dv_is_multi_homed (DetectMultiHomedDevices g ds))"
    then have i: "i < length ds" using app by (simp add: DetectMultiHomedDevices_def r bs(2))
    then have "dv_is_multi_homed (DetectMultiHomedDevices g ds ! i) = P i"
      using app some [OF i] bs(4) [OF i] by (simp add: DetectMultiHomedDevices_def r bs(2)) (simp add: P_def)
    with i app show "map dv_is_multi_homed (DetectMultiHomedDevices g ds) ! i = map (\<lambda>i.
        subnet_of g (ds ! i) \<noteq> [] \<and>
        (\<exists>j \<in> {..<length ds} - {i}. subnet_of g (ds ! j) = subnet_of g (ds ! i))) [0..<length ds] ! i"
      by (simp add: DetectMultiHomedDevices_def r bs(2) P_def)
  qed
qed

subsection \<open>Two slips of the code\<close>

text \<open>
  Loading the default profile never reaches the resolver: \<open>LoadManagerProperties\<close> has already stored the
  new search paths when \<open>SetIgnoredDNSSearchPaths\<close> compares them with the stored ones, so the call in
  \<open>LoadProperties\<close> returns early and the resolver keeps its list, whatever the profile says.
\<close>

theorem LoadProperties_keeps_resolver:
  "mg_ignored_search_list (LoadProperties P E storage m) = mg_ignored_search_list m"
  by (simp add: LoadProperties_def SetIgnoredDNSSearchPaths_def Let_def split_def)

text \<open>
  \<open>VerifyDestination\<close> refuses long identifiers of a hotspot with the message about its SSID, but it measures
  the BSSID: an SSID of any length goes through, and the check applies to the BSSID alone.
\<close>

theorem VerifyDestination_length_check:
  "(VerifyDestination ids hotspot_ssid hotspot_bssid m =
      Inl (kOperationFailed, ''Invalid SSID given for verification.'')) = (length hotspot_bssid > 32) \<and>
   VerifyDestination ids (replicate (Suc n) c) [] m = Inr (replicate (Suc n) c, [])"
  by (simp add: VerifyDestination_def split: option.split)

end
