(* ===== verification/Http_Request.thy ===== *)
theory Http_Request
  imports IP_Address Eap_Credentials
begin

text \<open>
  Models of \<open>http_url.cc\<close> and \<open>http_request.cc\<close>. A request is a state machine driven by the DNS client,
  the asynchronous connection, the socket handlers and a timeout; each handler returns the new state
  and, if it runs one of the two installed callbacks, what it passes to it. The string functions of
  libchrome and the outcome of starting the DNS client and the connection are arguments. \<open>None\<close> is a
  failed \<open>CHECK\<close> or \<open>DCHECK\<close>.
\<close>

subsection \<open>URLs\<close>

datatype http_protocol = kProtocolUnknown | kProtocolHTTP | kProtocolHTTPS

record http_url =
  hu_host :: string
  hu_path :: string
  hu_port :: int
  hu_protocol :: http_protocol

definition kDefaultHTTPPort :: int where "kDefaultHTTPPort = 80"
definition kDefaultHTTPSPort :: int where "kDefaultHTTPSPort = 443"
definition kDelimiters :: string where "kDelimiters = '' /#?''"
definition kPrefixHTTP :: string where "kPrefixHTTP = ''http://''"
definition kPrefixHTTPS :: string where "kPrefixHTTPS = ''https://''"

definition HTTPURL_new :: http_url where
  "HTTPURL_new = \<lparr>hu_host = [], hu_path = [], hu_port = kDefaultHTTPPort, hu_protocol = kProtocolHTTP\<rparr>"

text \<open>\<open>None\<close> when the function returns false; \<open>split_port\<close> splits at colons and trims the parts.\<close>

definition ParseFromString ::
    "(string \<Rightarrow> string list) \<Rightarrow> (string \<Rightarrow> int option) \<Rightarrow> string \<Rightarrow> http_url option" where
  "ParseFromString split_port string_to_int url_string =
     (case (if take (length kPrefixHTTP) url_string = kPrefixHTTP
            then Some (length kPrefixHTTP, kDefaultHTTPPort, kProtocolHTTP)
            else if take (length kPrefixHTTPS) url_string = kPrefixHTTPS
            then Some (length kPrefixHTTPS, kDefaultHTTPSPort, kProtocolHTTPS)
            else None) of
        None \<Rightarrow> None
      | Some (host_start, default_port, protocol) \<Rightarrow>
          let rest = drop host_start url_string;
              host_part = takeWhile (\<lambda>c. c \<notin> set kDelimiters) rest;
              path = dropWhile (\<lambda>c. c \<notin> set kDelimiters) rest;
              path = (if path = [] \<or> hd path \<noteq> CHR ''/'' then CHR ''/'' # path else path);
              url = (\<lambda>host port. \<lparr>hu_host = host, hu_path = path, hu_port = port, hu_protocol = protocol\<rparr>)
          in case split_port host_part of
               [host] \<Rightarrow> if host = [] then None else Some (url host default_port)
             | [host, port] \<Rightarrow> if host = [] then None else map_option (url host) (string_to_int port)
             | _ \<Rightarrow> None)"

subsection \<open>Requests\<close>

datatype http_result =
    kResultUnknown | kResultInProgress | kResultDNSFailure | kResultDNSTimeout
  | kResultConnectionFailure | kResultConnectionTimeout | kResultRequestFailure | kResultRequestTimeout
  | kResultResponseFailure | kResultResponseTimeout | kResultSuccess

text \<open>
  \<open>hr_timeout\<close> is the delay of the posted timeout, \<open>hr_callbacks\<close> whether the two callbacks are
  installed, \<open>hr_dns\<close> and \<open>hr_connecting\<close> whether the DNS client and the asynchronous connection are
  working, \<open>hr_reader\<close> and \<open>hr_writer\<close> whether the socket handlers are active, and \<open>hr_routing\<close> counts
  \<open>RequestRouting\<close> minus \<open>ReleaseRouting\<close>.
\<close>

record http_request =
  hr_running :: bool
  hr_request_data :: bytes
  hr_response_data :: bytes
  hr_server_hostname :: string
  hr_server_port :: int
  hr_server_socket :: int
  hr_timeout :: "int option"
  hr_timeout_result :: http_result
  hr_callbacks :: bool
  hr_reader :: bool
  hr_writer :: bool
  hr_dns :: bool
  hr_connecting :: bool
  hr_routing :: int

datatype http_out = HttpRead bytes | HttpResult http_result bytes

datatype async_start = AsyncFailed | AsyncPending | AsyncConnected nat

definition kConnectTimeoutSeconds :: int where "kConnectTimeoutSeconds = 10"
definition kInputTimeoutSeconds :: int where "kInputTimeoutSeconds = 10"

definition HTTPRequest_new :: http_request where
  "HTTPRequest_new =
     \<lparr>hr_running = False, hr_request_data = [], hr_response_data = [], hr_server_hostname = [],
      hr_server_port = -1, hr_server_socket = -1, hr_timeout = None, hr_timeout_result = kResultUnknown,
      hr_callbacks = False, hr_reader = False, hr_writer = False, hr_dns = False, hr_connecting = False,
      hr_routing = 0\<rparr>"

definition Http_Stop :: "http_request \<Rightarrow> http_request" where
  "Http_Stop r =
     (if \<not> hr_running r then r
      else r\<lparr>hr_writer := False, hr_reader := False, hr_routing := hr_routing r - 1, hr_dns := False,
             hr_running := False, hr_callbacks := False, hr_request_data := [], hr_response_data := [],
             hr_connecting := False, hr_server_hostname := [], hr_server_port := -1,
             hr_server_socket := -1, hr_timeout := None, hr_timeout_result := kResultUnknown\<rparr>)"

definition StartIdleTimeout :: "int \<Rightarrow> http_result \<Rightarrow> http_request \<Rightarrow> http_request" where
  "StartIdleTimeout timeout_seconds timeout_result r =
     r\<lparr>hr_timeout_result := timeout_result, hr_timeout := Some timeout_seconds\<rparr>"

definition SendStatus :: "http_result \<Rightarrow> http_request \<Rightarrow> http_request \<times> http_out option" where
  "SendStatus result r =
     (Http_Stop r, if hr_callbacks r then Some (HttpResult result (hr_response_data r)) else None)"

definition OnConnectCompletion :: "nat option \<Rightarrow> http_request \<Rightarrow> http_request \<times> http_out option" where
  "OnConnectCompletion fd r =
     (let r = r\<lparr>hr_connecting := False\<rparr>
      in case fd of
           None \<Rightarrow> SendStatus kResultConnectionFailure r
         | Some fd \<Rightarrow>
             (StartIdleTimeout kInputTimeoutSeconds kResultRequestTimeout
                (r\<lparr>hr_server_socket := int fd, hr_writer := True\<rparr>), None))"

definition ConnectServer :: "async_start \<Rightarrow> http_request \<Rightarrow> bool \<times> http_request \<times> http_out option" where
  "ConnectServer st r =
     (case st of
        AsyncFailed \<Rightarrow> (False, SendStatus kResultConnectionFailure r)
      | AsyncConnected fd \<Rightarrow> (True, OnConnectCompletion (Some fd) r)
      | AsyncPending \<Rightarrow>
          (True, (if hr_server_socket r = -1
                  then StartIdleTimeout kConnectTimeoutSeconds kResultConnectionTimeout
                         (r\<lparr>hr_connecting := True\<rparr>)
                  else r\<lparr>hr_connecting := True\<rparr>), None))"

text \<open>\<open>printf\<close>'s \<open>%d\<close>.\<close>

fun nat_string :: "nat \<Rightarrow> string" where
  "nat_string n =
     (if n < 10 then [char_of (48 + n)] else nat_string (n div 10) @ [char_of (48 + n mod 10)])"

definition int_string :: "int \<Rightarrow> string" where
  "int_string i = (if i < 0 then CHR ''-'' # nat_string (nat (- i)) else nat_string (nat i))"

definition crlf :: string where "crlf = [CHR 0x0D, CHR 0x0A]"

definition request_text :: "http_url \<Rightarrow> string" where
  "request_text url =
     ''GET '' @ c_str (hu_path url) @ '' HTTP/1.1'' @ crlf @
     ''Host: '' @ c_str (hu_host url) @ '':'' @ int_string (hu_port url) @ crlf @
     ''Connection: Close'' @ crlf @ crlf"

text \<open>
  \<open>dns_ok\<close> is the result of starting the DNS client. The callbacks are installed last, so none runs
  inside \<open>Start\<close>.
\<close>

definition Http_Start ::
    "(family \<Rightarrow> string \<Rightarrow> bytes option) \<Rightarrow> bool \<Rightarrow> bool \<Rightarrow> async_start \<Rightarrow> http_url \<Rightarrow> http_request \<Rightarrow>
      (http_result \<times> http_request) option" where
  "Http_Start inet_pton is_ipv6 dns_ok st url r =
     (if hr_running r then None
      else
        let r = r\<lparr>hr_running := True, hr_request_data := map of_char (request_text url),
                  hr_server_hostname := hu_host url, hr_server_port := hu_port url,
                  hr_routing := hr_routing r + 1\<rparr>;
            addr = \<lparr>family = (if is_ipv6 then kFamilyIPv6 else kFamilyIPv4), address = [], ip_prefix = 0\<rparr>
        in if fst (SetAddressFromString inet_pton addr (hu_host url))
           then (case ConnectServer st r of (ok, r, _) \<Rightarrow>
                   if \<not> ok then Some (kResultConnectionFailure, r)
                   else Some (kResultInProgress, r\<lparr>hr_callbacks := True\<rparr>))
           else if \<not> dns_ok then Some (kResultDNSFailure, Http_Stop r)
           else Some (kResultInProgress, r\<lparr>hr_dns := True, hr_callbacks := True\<rparr>))"

text \<open>The answer of the DNS client: whether it timed out, or what connecting to the address does.\<close>

definition GetDNSResult :: "bool + async_start \<Rightarrow> http_request \<Rightarrow> http_request \<times> http_out option" where
  "GetDNSResult answer r =
     (let r = r\<lparr>hr_dns := False\<rparr>
      in case answer of
           Inl timed_out \<Rightarrow> SendStatus (if timed_out then kResultDNSTimeout else kResultDNSFailure) r
         | Inr st \<Rightarrow> snd (ConnectServer st r))"

definition OnServerReadError :: "http_request \<Rightarrow> http_request \<times> http_out option" where
  "OnServerReadError r = SendStatus kResultResponseFailure r"

definition ReadFromServer :: "bytes \<Rightarrow> http_request \<Rightarrow> http_request \<times> http_out option" where
  "ReadFromServer data r =
     (if data = [] then SendStatus kResultSuccess r
      else let r = StartIdleTimeout kInputTimeoutSeconds kResultResponseTimeout
                     (r\<lparr>hr_response_data := hr_response_data r @ data\<rparr>)
           in (r, if hr_callbacks r then Some (HttpRead (hr_response_data r)) else None))"

definition TimeoutTask :: "http_request \<Rightarrow> http_request \<times> http_out option" where
  "TimeoutTask r = SendStatus (hr_timeout_result r) (r\<lparr>hr_timeout := None\<rparr>)"

text \<open>\<open>ret\<close> is what \<open>send\<close> returned.\<close>

definition WriteToServer :: "int \<Rightarrow> http_request \<Rightarrow> (http_request \<times> http_out option) option" where
  "WriteToServer ret r =
     (if ret > int (length (hr_request_data r)) then None
      else if ret < 0 then Some (SendStatus kResultRequestFailure r)
      else let r = r\<lparr>hr_request_data := drop (nat ret) (hr_request_data r)\<rparr>
           in if hr_request_data r = []
              then Some (StartIdleTimeout kInputTimeoutSeconds kResultResponseTimeout
                           (r\<lparr>hr_writer := False, hr_reader := True\<rparr>), None)
              else Some (StartIdleTimeout kInputTimeoutSeconds kResultRequestTimeout r, None))"

subsection \<open>The events that reach a request\<close>

datatype http_env =
    EnvDNS "bool + async_start"
  | EnvConnect "nat option"
  | EnvWrite int
  | EnvRead bytes
  | EnvReadError
  | EnvTimeout

text \<open>Which events can occur: a client, handler or timer that is not there reports nothing.\<close>

fun http_enabled :: "http_env \<Rightarrow> http_request \<Rightarrow> bool" where
  "http_enabled (EnvDNS _) r = hr_dns r"
| "http_enabled (EnvConnect _) r = hr_connecting r"
| "http_enabled (EnvWrite ret) r = (hr_writer r \<and> ret \<le> int (length (hr_request_data r)))"
| "http_enabled (EnvRead _) r = hr_reader r"
| "http_enabled EnvReadError r = hr_reader r"
| "http_enabled EnvTimeout r = (hr_timeout r \<noteq> None)"

fun http_handle :: "http_env \<Rightarrow> http_request \<Rightarrow> (http_request \<times> http_out option) option" where
  "http_handle (EnvDNS answer) r = Some (GetDNSResult answer r)"
| "http_handle (EnvConnect fd) r = Some (OnConnectCompletion fd r)"
| "http_handle (EnvWrite ret) r = WriteToServer ret r"
| "http_handle (EnvRead data) r = Some (ReadFromServer data r)"
| "http_handle EnvReadError r = Some (OnServerReadError r)"
| "http_handle EnvTimeout r = Some (TimeoutTask r)"

subsection \<open>The life of a request\<close>

text \<open>Nothing is held: no timer, handler, socket, callback or route.\<close>

definition http_idle :: "http_request \<Rightarrow> bool" where
  "http_idle r \<longleftrightarrow> \<not> hr_running r \<and> \<not> hr_dns r \<and> \<not> hr_connecting r \<and> \<not> hr_reader r \<and> \<not> hr_writer r \<and>
     hr_timeout r = None \<and> hr_server_socket r = -1 \<and> \<not> hr_callbacks r \<and> hr_request_data r = [] \<and>
     hr_response_data r = [] \<and> hr_routing r = 0"

text \<open>
  A request under way is resolving, connecting, or exchanging data on an open socket; it holds one
  route, and unless it is resolving it has a timeout.
\<close>

definition http_busy :: "http_request \<Rightarrow> bool" where
  "http_busy r \<longleftrightarrow> hr_running r \<and> hr_callbacks r \<and> hr_routing r = 1 \<and>
     (hr_dns r \<and> \<not> hr_connecting r \<and> \<not> hr_reader r \<and> \<not> hr_writer r \<and> hr_server_socket r = -1 \<and>
        hr_response_data r = [] \<and> hr_timeout r = None
      \<or> \<not> hr_dns r \<and> hr_timeout r \<noteq> None \<and>
        hr_timeout_result r \<in> {kResultConnectionTimeout, kResultRequestTimeout, kResultResponseTimeout} \<and>
        (hr_connecting r \<and> \<not> hr_reader r \<and> \<not> hr_writer r \<and> hr_server_socket r = -1 \<and> hr_response_data r = []
         \<or> \<not> hr_connecting r \<and> hr_reader r \<noteq> hr_writer r \<and> hr_server_socket r \<ge> 0))"

definition http_ok :: "http_request \<Rightarrow> bool" where
  "http_ok r \<longleftrightarrow> http_idle r \<or> http_busy r"

lemma http_idle_new: "http_idle HTTPRequest_new"
  by (simp add: http_idle_def HTTPRequest_new_def)

lemma http_busy_running: "http_busy r \<Longrightarrow> hr_running r"
  by (simp add: http_busy_def)

lemma http_idle_not_running: "http_idle r \<Longrightarrow> \<not> hr_running r"
  by (simp add: http_idle_def)

lemma http_idle_Stop: "http_ok r \<Longrightarrow> http_idle (Http_Stop r)"
  by (auto simp: http_ok_def http_idle_def http_busy_def Http_Stop_def)

lemma Stop_idle [simp]: "http_idle r \<Longrightarrow> Http_Stop r = r"
  by (simp add: http_idle_def Http_Stop_def)

lemma http_idle_disabled: "http_idle r \<Longrightarrow> \<not> http_enabled ev r"
  by (cases ev) (auto simp: http_idle_def)

text \<open>A failed start leaves the request as it was before, and one that is accepted makes it busy.\<close>

lemmas http_defs = ConnectServer_def SendStatus_def Http_Stop_def OnConnectCompletion_def StartIdleTimeout_def
  http_idle_def http_busy_def Let_def

lemma Http_Start_idle:
  assumes "http_idle r"
  shows "case Http_Start inet_pton v6 dns_ok st url r of
    None \<Rightarrow> False
  | Some (res, r') \<Rightarrow> if res = kResultInProgress then http_busy r'
      else http_idle r' \<and> res \<in> {kResultConnectionFailure, kResultDNSFailure}"
  using assms by (cases st) (simp_all add: Http_Start_def http_defs)

text \<open>
  Whatever happens to a busy request, it stays busy and says at most that it read something, or it is
  idle again and reports its result.
\<close>

lemma SendStatus_busy:
  assumes "http_busy r"
  shows "SendStatus res r = (Http_Stop r, Some (HttpResult res (hr_response_data r)))" "http_idle (Http_Stop r)"
  using assms http_idle_Stop [of r] by (simp_all add: SendStatus_def http_busy_def http_ok_def)

lemma http_handle_busy:
  assumes "http_busy r" "http_enabled ev r"
  shows "case http_handle ev r of
    None \<Rightarrow> False
  | Some (r', Some (HttpResult res d)) \<Rightarrow> http_idle r' \<and> res \<notin> {kResultUnknown, kResultInProgress}
  | Some (r', Some (HttpRead d)) \<Rightarrow> http_busy r' \<and> d = hr_response_data r'
  | Some (r', None) \<Rightarrow> http_busy r'"
proof (cases ev)
  case (EnvDNS answer)
  then show ?thesis
    using assms by (cases answer; cases "projr answer") (auto simp: GetDNSResult_def http_defs)
next
  case (EnvConnect fd)
  then show ?thesis using assms by (cases fd) (auto simp: http_defs)
next
  case (EnvWrite ret)
  then show ?thesis using assms by (auto simp: WriteToServer_def http_defs)
next
  case (EnvRead data)
  then show ?thesis using assms by (auto simp: ReadFromServer_def http_defs)
next
  case EnvReadError
  then show ?thesis using assms by (auto simp: OnServerReadError_def http_defs)
next
  case EnvTimeout
  then show ?thesis using assms by (auto simp: TimeoutTask_def http_defs)
qed

text \<open>A busy request is never stuck: its DNS client or its timeout will report, and a failure there ends it.\<close>

lemma http_progress:
  assumes "http_busy r"
  shows "\<exists>ev. http_enabled ev r \<and> (ev = EnvTimeout \<or> ev = EnvDNS (Inl True)) \<and>
    (\<exists>r' res d. http_handle ev r = Some (r', Some (HttpResult res d)) \<and> http_idle r')"
proof (cases "hr_dns r")
  case True
  then show ?thesis
    using assms by (intro exI [of _ "EnvDNS (Inl True)"]) (auto simp: GetDNSResult_def http_defs)
next
  case False
  then show ?thesis
    using assms by (intro exI [of _ EnvTimeout]) (auto simp: TimeoutTask_def http_defs)
qed

inductive http_reach :: "http_request \<Rightarrow> bool" where
  created: "http_reach HTTPRequest_new"
| started: "http_reach r \<Longrightarrow> Http_Start inet_pton v6 dns_ok st url r = Some (res, r') \<Longrightarrow> http_reach r'"
| stopped: "http_reach r \<Longrightarrow> http_reach (Http_Stop r)"
| event: "http_reach r \<Longrightarrow> http_enabled ev r \<Longrightarrow> http_handle ev r = Some (r', out) \<Longrightarrow> http_reach r'"

lemma http_ok_reach: "http_reach r \<Longrightarrow> http_ok r"
proof (induction rule: http_reach.induct)
  case created
  then show ?case by (simp add: http_ok_def http_idle_new)
next
  case (started r inet_pton v6 dns_ok st url res r')
  have "\<not> http_busy r" using started.hyps(2) by (auto simp: Http_Start_def dest: http_busy_running)
  then have "http_idle r" using started.IH by (simp add: http_ok_def)
  from Http_Start_idle [OF this, of inet_pton v6 dns_ok st url] started.hyps(2) show ?case
    by (simp add: http_ok_def split: if_splits)
next
  case (stopped r)
  then show ?case by (simp add: http_idle_Stop http_ok_def)
next
  case (event r ev r' out)
  then have "http_busy r" using http_idle_disabled by (auto simp: http_ok_def)
  from http_handle_busy [OF this event.hyps(2)] event.hyps(3) show ?case
    by (auto simp: http_ok_def split: option.splits http_out.splits)
qed

text \<open>
  C27: an HTTP request leaks nothing and never hangs. In every reachable state a request that is not
  running holds no timer, handler, socket, callback or route. A running one holds exactly one route and cannot fail a
  \<open>CHECK\<close>: each event leaves it running without a result or ends it with exactly one result and
  everything released; and its DNS client or its timeout can always end it.
\<close>

theorem http_request_lifecycle:
  assumes "http_reach r"
  shows "(\<not> hr_running r \<longrightarrow> http_idle r) \<and>
    (hr_running r \<longrightarrow> hr_routing r = 1 \<and>
      (\<forall>ev. http_enabled ev r \<longrightarrow>
         (case http_handle ev r of
            None \<Rightarrow> False
          | Some (r', Some (HttpResult res d)) \<Rightarrow> http_idle r' \<and> res \<notin> {kResultUnknown, kResultInProgress}
          | Some (r', _) \<Rightarrow> hr_running r' \<and> hr_routing r' = 1)) \<and>
      (\<exists>ev. http_enabled ev r \<and> (ev = EnvTimeout \<or> ev = EnvDNS (Inl True)) \<and>
         (\<exists>r' res d. http_handle ev r = Some (r', Some (HttpResult res d)))))"
proof (cases "hr_running r")
  case True
  then have busy: "http_busy r" using http_ok_reach [OF assms] by (auto simp: http_ok_def http_idle_def)
  have "case http_handle ev r of
      None \<Rightarrow> False
    | Some (r', Some (HttpResult res d)) \<Rightarrow> http_idle r' \<and> res \<notin> {kResultUnknown, kResultInProgress}
    | Some (r', _) \<Rightarrow> hr_running r' \<and> hr_routing r' = 1" if "http_enabled ev r" for ev
    using http_handle_busy [OF busy that]
    by (auto simp: http_busy_def split: option.splits http_out.splits prod.splits)
  moreover have "hr_routing r = 1" using busy by (simp add: http_busy_def)
  ultimately show ?thesis using True http_progress [OF busy] by blast
next
  case False
  then show ?thesis using http_ok_reach [OF assms] by (auto simp: http_ok_def http_busy_def)
qed

theorem http_request_lifecycle_witness:
  "let r = snd (the (Http_Start (\<lambda>_ _. None) False True AsyncPending HTTPURL_new HTTPRequest_new))
   in \<exists>ev r' res d. http_enabled ev r \<and> http_handle ev r = Some (r', Some (HttpResult res d))"
proof -
  let ?s = "Http_Start (\<lambda>_ _. None) False True AsyncPending HTTPURL_new HTTPRequest_new"
  have s: "?s = Some (kResultInProgress, snd (the ?s))" "hr_running (snd (the ?s))"
    by (simp_all add: Http_Start_def HTTPRequest_new_def HTTPURL_new_def SetAddressFromString_def Let_def)
  from http_request_lifecycle [OF http_reach.started [OF http_reach.created s(1)]] s(2) show ?thesis
    unfolding Let_def by blast
qed

end
