(* ===== verification/Connectivity_Trial.thy ===== *)
theory Connectivity_Trial
  imports Http_Request
begin

text \<open>
  Model of \<open>connectivity_trial.cc\<close>: one attempt to fetch a URL and to recognise the expected answer. A
  trial owns an HTTP request; \<open>ct_trial\<close> is the delay of the posted start, \<open>ct_timeout\<close> that of the
  posted timeout. A handler returns the new state and the result it passes to the trial's callback, if
  the trial is complete. \<open>None\<close> is a failed \<open>DCHECK\<close> or the use of a null request.
\<close>

datatype trial_phase = kPhaseConnection | kPhaseDNS | kPhaseHTTP | kPhaseContent | kPhaseUnknown

datatype trial_status = kStatusFailure | kStatusSuccess | kStatusTimeout

record trial_result =
  tr_phase :: trial_phase
  tr_status :: trial_status

record trial =
  ct_url :: http_url
  ct_request :: "http_request option"
  ct_trial :: "int option"
  ct_timeout :: "int option"
  ct_active :: bool
  ct_timeout_seconds :: int

text \<open>
  What a trial depends on: the functions of libchrome, \<open>inet_pton\<close>, and the family of its connection.
\<close>

record trial_env =
  te_split_port :: "string \<Rightarrow> string list"
  te_string_to_int :: "string \<Rightarrow> int option"
  te_match_pattern :: "string \<Rightarrow> string \<Rightarrow> bool"
  te_inet_pton :: "family \<Rightarrow> string \<Rightarrow> bytes option"
  te_is_ipv6 :: bool

definition kResponseExpected :: string where "kResponseExpected = ''HTTP/?.? 204''"

definition mk_result :: "trial_phase \<Rightarrow> trial_status \<Rightarrow> trial_result" where
  "mk_result phase status = \<lparr>tr_phase = phase, tr_status = status\<rparr>"

definition ConnectivityTrial_new :: "int \<Rightarrow> trial" where
  "ConnectivityTrial_new timeout_seconds =
     \<lparr>ct_url = HTTPURL_new, ct_request = None, ct_trial = None, ct_timeout = None, ct_active = False,
      ct_timeout_seconds = timeout_seconds\<rparr>"

definition CleanupTrial :: "bool \<Rightarrow> trial \<Rightarrow> trial" where
  "CleanupTrial reset_request t =
     t\<lparr>ct_timeout := None, ct_active := False,
       ct_request := (if reset_request then None else map_option Http_Stop (ct_request t))\<rparr>"

definition StartTrialAfterDelay :: "int \<Rightarrow> trial \<Rightarrow> trial" where
  "StartTrialAfterDelay start_delay_milliseconds t = t\<lparr>ct_trial := Some start_delay_milliseconds\<rparr>"

definition Trial_Start :: "trial_env \<Rightarrow> string \<Rightarrow> int \<Rightarrow> trial \<Rightarrow> bool \<times> trial" where
  "Trial_Start E url_string start_delay_milliseconds t =
     (case ParseFromString (te_split_port E) (te_string_to_int E) url_string of
        None \<Rightarrow> (False, t)
      | Some url \<Rightarrow>
          let t = t\<lparr>ct_url := url\<rparr>;
              t = (if ct_request t \<noteq> None then CleanupTrial False t
                   else t\<lparr>ct_request := Some HTTPRequest_new\<rparr>)
          in (True, StartTrialAfterDelay start_delay_milliseconds t))"

definition Trial_Retry :: "int \<Rightarrow> trial \<Rightarrow> bool \<times> trial" where
  "Trial_Retry start_delay_milliseconds t =
     (if ct_request t \<noteq> None then (True, StartTrialAfterDelay start_delay_milliseconds (CleanupTrial False t))
      else (False, t))"

definition Trial_Stop :: "trial \<Rightarrow> trial" where
  "Trial_Stop t = (if ct_request t = None then t else CleanupTrial True t)"

fun GetPortalResultForRequestResult :: "http_result \<Rightarrow> trial_result" where
  "GetPortalResultForRequestResult kResultSuccess = mk_result kPhaseContent kStatusFailure"
| "GetPortalResultForRequestResult kResultDNSFailure = mk_result kPhaseDNS kStatusFailure"
| "GetPortalResultForRequestResult kResultDNSTimeout = mk_result kPhaseDNS kStatusTimeout"
| "GetPortalResultForRequestResult kResultConnectionFailure = mk_result kPhaseConnection kStatusFailure"
| "GetPortalResultForRequestResult kResultConnectionTimeout = mk_result kPhaseConnection kStatusTimeout"
| "GetPortalResultForRequestResult kResultRequestFailure = mk_result kPhaseHTTP kStatusFailure"
| "GetPortalResultForRequestResult kResultResponseFailure = mk_result kPhaseHTTP kStatusFailure"
| "GetPortalResultForRequestResult kResultRequestTimeout = mk_result kPhaseHTTP kStatusTimeout"
| "GetPortalResultForRequestResult kResultResponseTimeout = mk_result kPhaseHTTP kStatusTimeout"
| "GetPortalResultForRequestResult kResultUnknown = mk_result kPhaseUnknown kStatusFailure"
| "GetPortalResultForRequestResult kResultInProgress = mk_result kPhaseUnknown kStatusFailure"

definition CompleteTrial :: "trial_result \<Rightarrow> trial \<Rightarrow> trial \<times> trial_result option" where
  "CompleteTrial result t = (CleanupTrial False t, Some result)"

text \<open>The task posted by \<open>StartTrialAfterDelay\<close>.\<close>

definition StartTrialTask ::
    "trial_env \<Rightarrow> bool \<Rightarrow> async_start \<Rightarrow> trial \<Rightarrow> (trial \<times> trial_result option) option" where
  "StartTrialTask E dns_ok st t =
     (let t = t\<lparr>ct_trial := None\<rparr>
      in case ct_request t of
           None \<Rightarrow> None
         | Some r \<Rightarrow>
             (case Http_Start (te_inet_pton E) (te_is_ipv6 E) dns_ok st (ct_url t) r of
                None \<Rightarrow> None
              | Some (result, r) \<Rightarrow>
                  let t = t\<lparr>ct_request := Some r\<rparr>
                  in if result \<noteq> kResultInProgress
                     then Some (CompleteTrial (GetPortalResultForRequestResult result) t)
                     else Some (t\<lparr>ct_active := True, ct_timeout := Some (ct_timeout_seconds t * 1000)\<rparr>, None)))"

definition RequestReadCallback :: "trial_env \<Rightarrow> bytes \<Rightarrow> trial \<Rightarrow> trial \<times> trial_result option" where
  "RequestReadCallback E response_data t =
     (let expected_length_received = (length response_data \<ge> length kResponseExpected);
          compare_length =
            (if expected_length_received then length kResponseExpected else length response_data)
      in if te_match_pattern E (map (\<lambda>b. char_of (unat b)) (take compare_length response_data))
              (take compare_length kResponseExpected)
         then if expected_length_received then CompleteTrial (mk_result kPhaseContent kStatusSuccess) t
              else (t, None)
         else CompleteTrial (mk_result kPhaseContent kStatusFailure) t)"

definition RequestResultCallback :: "http_result \<Rightarrow> trial \<Rightarrow> trial \<times> trial_result option" where
  "RequestResultCallback result t = CompleteTrial (GetPortalResultForRequestResult result) t"

definition TimeoutTrialTask :: "trial \<Rightarrow> (trial \<times> trial_result option) option" where
  "TimeoutTrialTask t =
     (let t = t\<lparr>ct_timeout := None\<rparr>
      in case ct_request t of
           None \<Rightarrow> None
         | Some r \<Rightarrow>
             Some (CompleteTrial
                     (mk_result (if hr_response_data r \<noteq> [] then kPhaseContent else kPhaseUnknown) kStatusTimeout) t))"

subsection \<open>The events that reach a trial\<close>

datatype trial_event = TrialStarts bool async_start | TrialTimeout | TrialHttp http_env

fun trial_enabled :: "trial_event \<Rightarrow> trial \<Rightarrow> bool" where
  "trial_enabled (TrialStarts _ _) t = (ct_trial t \<noteq> None)"
| "trial_enabled TrialTimeout t = (ct_timeout t \<noteq> None)"
| "trial_enabled (TrialHttp ev) t = (case ct_request t of None \<Rightarrow> False | Some r \<Rightarrow> http_enabled ev r)"

text \<open>The callbacks of the request are the two functions above; they run last in the request's handlers.\<close>

fun trial_handle :: "trial_env \<Rightarrow> trial_event \<Rightarrow> trial \<Rightarrow> (trial \<times> trial_result option) option" where
  "trial_handle E (TrialStarts dns_ok st) t = StartTrialTask E dns_ok st t"
| "trial_handle E TrialTimeout t = TimeoutTrialTask t"
| "trial_handle E (TrialHttp ev) t =
     (case ct_request t of
        None \<Rightarrow> None
      | Some r \<Rightarrow>
          (case http_handle ev r of
             None \<Rightarrow> None
           | Some (r, out) \<Rightarrow>
               let t = t\<lparr>ct_request := Some r\<rparr>
               in Some (case out of
                          None \<Rightarrow> (t, None)
                        | Some (HttpRead data) \<Rightarrow> RequestReadCallback E data t
                        | Some (HttpResult result data) \<Rightarrow> RequestResultCallback result t)))"

subsection \<open>The life of a trial\<close>

text \<open>A trial waits for its start, or runs with its request busy and a timeout posted, or rests.\<close>

definition trial_ok :: "trial \<Rightarrow> bool" where
  "trial_ok t \<longleftrightarrow>
     (case ct_request t of
        None \<Rightarrow> \<not> ct_active t \<and> ct_timeout t = None \<and> ct_trial t = None
      | Some r \<Rightarrow> (if ct_active t then http_busy r \<and> ct_timeout t \<noteq> None \<and> ct_trial t = None
                   else http_idle r \<and> ct_timeout t = None))"

lemma trial_ok_new: "trial_ok (ConnectivityTrial_new n)"
  by (simp add: trial_ok_def ConnectivityTrial_new_def)

lemma trial_ok_Cleanup: "trial_ok t \<Longrightarrow> trial_ok (CleanupTrial False t)"
  by (auto simp: trial_ok_def CleanupTrial_def http_ok_def http_idle_Stop split: option.splits if_splits)

lemma trial_ok_Start:
  assumes "trial_ok t" "Trial_Start E url delay t = (ok, t')"
  shows "if ok then trial_ok t' \<and> \<not> ct_active t' \<and> ct_trial t' = Some delay else t' = t"
  using assms trial_ok_Cleanup [of t]
  by (auto simp: Trial_Start_def Let_def StartTrialAfterDelay_def trial_ok_def CleanupTrial_def http_idle_new
      split: option.splits if_splits)

lemma trial_ok_Retry:
  assumes "trial_ok t"
  shows "case Trial_Retry delay t of (ok, t') \<Rightarrow>
    if ok then trial_ok t' \<and> \<not> ct_active t' \<and> ct_trial t' = Some delay else t' = t"
  using assms trial_ok_Cleanup [of t]
  by (auto simp: Trial_Retry_def StartTrialAfterDelay_def trial_ok_def CleanupTrial_def split: option.splits)

text \<open>Stopping is safe for a trial that is not waiting for its start.\<close>

lemma trial_ok_Stop: "trial_ok t \<Longrightarrow> ct_trial t = None \<Longrightarrow> trial_ok (Trial_Stop t) \<and> ct_request (Trial_Stop t) = None"
  by (auto simp: trial_ok_def Trial_Stop_def CleanupTrial_def)

text \<open>Every event is handled; either the trial goes on, or it rests and has reported its result.\<close>

lemma trial_handle_ok:
  assumes "trial_ok t" "trial_enabled ev t"
  shows "case trial_handle E ev t of
    None \<Rightarrow> False
  | Some (t', None) \<Rightarrow> trial_ok t' \<and> ct_active t' \<and> ct_trial t' = None
  | Some (t', Some res) \<Rightarrow> trial_ok t' \<and> \<not> ct_active t' \<and> ct_trial t' = None \<and> ct_request t' \<noteq> None"
proof (cases ev)
  case (TrialStarts dns_ok st)
  then obtain r where r: "ct_request t = Some r" "http_idle r" "\<not> ct_active t" "ct_timeout t = None"
    using assms by (auto simp: trial_ok_def split: option.splits if_splits)
  show ?thesis
    using TrialStarts r
      Http_Start_idle [OF r(2), of "te_inet_pton E" "te_is_ipv6 E" dns_ok st "ct_url t"]
    by (auto simp: StartTrialTask_def Let_def CompleteTrial_def CleanupTrial_def trial_ok_def
        split: option.splits if_splits)
next
  case TrialTimeout
  then show ?thesis
    using assms
    by (auto simp: TimeoutTrialTask_def Let_def CompleteTrial_def CleanupTrial_def trial_ok_def http_ok_def
        http_idle_Stop split: option.splits if_splits)
next
  case (TrialHttp hev)
  then obtain r where r: "ct_request t = Some r" "http_enabled hev r"
    using assms by (auto split: option.splits)
  have act: "ct_active t" "http_busy r" "ct_timeout t \<noteq> None" "ct_trial t = None"
    using assms(1) r http_idle_disabled by (auto simp: trial_ok_def split: if_splits)
  have "trial_ok (t\<lparr>ct_request := Some r'\<rparr>)" if "http_busy r'" for r'
    using that act by (simp add: trial_ok_def)
  then show ?thesis
    using TrialHttp r act http_handle_busy [OF act(2) r(2)]
    by (auto simp: RequestReadCallback_def RequestResultCallback_def Let_def CompleteTrial_def
        CleanupTrial_def trial_ok_def http_ok_def http_idle_Stop split: option.splits http_out.splits)
qed

text \<open>
  \<open>Stop\<close> does not cancel a posted start, although its documentation says that it cancels every
  scheduled task: when the task runs, the request it uses is gone.
\<close>

lemma Trial_Stop_pending_start:
  assumes "ct_trial t \<noteq> None" "ct_request t \<noteq> None"
  shows "trial_enabled (TrialStarts dns_ok st) (Trial_Stop t) \<and>
    trial_handle E (TrialStarts dns_ok st) (Trial_Stop t) = None"
  using assms by (auto simp: Trial_Stop_def CleanupTrial_def StartTrialTask_def)

text \<open>A waiting or running trial is never stuck.\<close>

lemma trial_progress:
  assumes "trial_ok t" "ct_trial t \<noteq> None \<or> ct_active t"
  shows "\<exists>ev. trial_enabled ev t \<and> (\<exists>t' res. trial_handle E ev t = Some (t', Some res))"
proof (cases "ct_active t")
  case True
  then show ?thesis
    using assms(1) by (intro exI [of _ TrialTimeout])
      (auto simp: trial_ok_def TimeoutTrialTask_def CompleteTrial_def split: option.splits)
next
  case False
  then obtain r where r: "ct_request t = Some r" "http_idle r" "ct_trial t \<noteq> None"
    using assms by (auto simp: trial_ok_def split: option.splits)
  have "\<exists>t' res. StartTrialTask E False AsyncFailed t = Some (t', Some res)"
    using r by (auto simp: StartTrialTask_def Http_Start_def CompleteTrial_def ConnectServer_def http_idle_def
        SendStatus_def Let_def)
  then show ?thesis using r by (intro exI [of _ "TrialStarts False AsyncFailed"]) auto
qed

end
