(* ===== verification/Portal_Detector.thy ===== *)
theory Portal_Detector
  imports Connectivity_Trial Event_History
begin

text \<open>
  Model of \<open>portal_detector.cc\<close>: up to three trials, spaced by at least three seconds, ended by a success or by
  a second failure in the content phase. A handler returns the new state and the result it passes to the
  callback of the device. Readings of the monotonic clock are arguments.
\<close>

record detector_result =
  dr_trial_result :: trial_result
  dr_num_attempts :: int
  dr_final :: bool

record detector =
  pd_attempt_count :: int
  pd_attempt_start_time :: timeval
  pd_failures_in_content_phase :: int
  pd_trial :: trial

definition kMaxRequestAttempts :: int where "kMaxRequestAttempts = 3"
definition kMinTimeBetweenAttemptsSeconds :: int where "kMinTimeBetweenAttemptsSeconds = 3"
definition kRequestTimeoutSeconds :: int where "kRequestTimeoutSeconds = 10"
definition kMaxFailuresInContentPhase :: int where "kMaxFailuresInContentPhase = 2"

definition PortalDetector_new :: detector where
  "PortalDetector_new =
     \<lparr>pd_attempt_count = 0, pd_attempt_start_time = (0, 0), pd_failures_in_content_phase = 0,
      pd_trial = ConnectivityTrial_new kRequestTimeoutSeconds\<rparr>"

text \<open>The macro \<open>timeradd\<close>.\<close>

definition timeradd :: "timeval \<Rightarrow> timeval \<Rightarrow> timeval" where
  "timeradd a b =
     (let usec = snd a + snd b
      in if usec \<ge> 1000000 then (fst a + fst b + 1, usec - 1000000) else (fst a + fst b, usec))"

definition UpdateAttemptTime :: "timeval \<Rightarrow> int \<Rightarrow> detector \<Rightarrow> detector" where
  "UpdateAttemptTime now delay_seconds d = d\<lparr>pd_attempt_start_time := timeradd now (delay_seconds, 0)\<rparr>"

text \<open>\<open>None\<close> is the \<open>LOG(FATAL)\<close>.\<close>

definition AdjustStartDelay :: "timeval \<Rightarrow> detector \<Rightarrow> int option" where
  "AdjustStartDelay now d =
     (if pd_attempt_count d > 0
      then let elapsed_time = timersub now (pd_attempt_start_time d)
           in Some (if fst elapsed_time < kMinTimeBetweenAttemptsSeconds
                    then kMinTimeBetweenAttemptsSeconds - fst elapsed_time else 0)
      else None)"

definition StartAfterDelay :: "trial_env \<Rightarrow> timeval \<Rightarrow> string \<Rightarrow> int \<Rightarrow> detector \<Rightarrow> bool \<times> detector" where
  "StartAfterDelay E now url_string delay_seconds d =
     (case Trial_Start E url_string (delay_seconds * 1000) (pd_trial d) of
        (False, t) \<Rightarrow> (False, d\<lparr>pd_trial := t\<rparr>)
      | (True, t) \<Rightarrow>
          (True, (UpdateAttemptTime now delay_seconds (d\<lparr>pd_trial := t, pd_attempt_count := 1\<rparr>))
                   \<lparr>pd_failures_in_content_phase := 0\<rparr>))"

definition Detector_Start :: "trial_env \<Rightarrow> timeval \<Rightarrow> string \<Rightarrow> detector \<Rightarrow> bool \<times> detector" where
  "Detector_Start E now url_string d = StartAfterDelay E now url_string 0 d"

definition Detector_Stop :: "detector \<Rightarrow> detector" where
  "Detector_Stop d =
     d\<lparr>pd_attempt_count := 0, pd_failures_in_content_phase := 0, pd_trial := Trial_Stop (pd_trial d)\<rparr>"

definition IsInProgress :: "detector \<Rightarrow> bool" where
  "IsInProgress d =
     (if pd_attempt_count d > 1 then True
      else if pd_attempt_count d = 1 then ct_active (pd_trial d) else False)"

definition CompleteAttempt ::
    "timeval \<Rightarrow> trial_result \<Rightarrow> detector \<Rightarrow> (detector \<times> detector_result) option" where
  "CompleteAttempt now trial_result d =
     (let result = \<lparr>dr_trial_result = trial_result, dr_num_attempts = 0, dr_final = False\<rparr>;
          d = (if tr_status trial_result = kStatusFailure \<and> tr_phase trial_result = kPhaseContent
               then d\<lparr>pd_failures_in_content_phase := pd_failures_in_content_phase d + 1\<rparr> else d)
      in if tr_status trial_result = kStatusSuccess \<or> pd_attempt_count d \<ge> kMaxRequestAttempts \<or>
            pd_failures_in_content_phase d \<ge> kMaxFailuresInContentPhase
         then Some (Detector_Stop d, result\<lparr>dr_num_attempts := pd_attempt_count d, dr_final := True\<rparr>)
         else let d = d\<lparr>pd_attempt_count := pd_attempt_count d + 1\<rparr>
              in case AdjustStartDelay now d of
                   None \<Rightarrow> None
                 | Some retry_delay_seconds \<Rightarrow>
                     Some (UpdateAttemptTime now retry_delay_seconds
                             (d\<lparr>pd_trial := snd (Trial_Retry (retry_delay_seconds * 1000) (pd_trial d))\<rparr>),
                           result))"

text \<open>An event of the trial, with the clock at that time; the trial's callback is \<open>CompleteAttempt\<close>.\<close>

definition detector_handle ::
    "trial_env \<Rightarrow> timeval \<Rightarrow> trial_event \<Rightarrow> detector \<Rightarrow> (detector \<times> detector_result option) option" where
  "detector_handle E now ev d =
     (case trial_handle E ev (pd_trial d) of
        None \<Rightarrow> None
      | Some (t, None) \<Rightarrow> Some (d\<lparr>pd_trial := t\<rparr>, None)
      | Some (t, Some result) \<Rightarrow> map_option (apsnd Some) (CompleteAttempt now result (d\<lparr>pd_trial := t\<rparr>)))"

subsection \<open>The life of a detection\<close>

text \<open>
  Between the start and the final result a trial is waiting or running, at most three attempts
  are made and at most one of them has failed in the content phase.
\<close>

definition detector_ok :: "detector \<Rightarrow> bool" where
  "detector_ok d \<longleftrightarrow> trial_ok (pd_trial d) \<and>
     (if pd_attempt_count d = 0
      then ct_request (pd_trial d) = None \<and> pd_failures_in_content_phase d = 0
      else 1 \<le> pd_attempt_count d \<and> pd_attempt_count d \<le> 3 \<and>
        0 \<le> pd_failures_in_content_phase d \<and> pd_failures_in_content_phase d \<le> 1 \<and>
        pd_failures_in_content_phase d < pd_attempt_count d \<and>
        (ct_trial (pd_trial d) \<noteq> None \<or> ct_active (pd_trial d)))"

lemma detector_ok_new: "detector_ok PortalDetector_new"
  by (simp add: detector_ok_def PortalDetector_new_def trial_ok_new) (simp add: ConnectivityTrial_new_def)

lemma detector_ok_Start:
  assumes "detector_ok d" "StartAfterDelay E now url delay d = (ok, d')"
  shows "if ok then detector_ok d' \<and> pd_attempt_count d' = 1 \<and> pd_failures_in_content_phase d' = 0 else d' = d"
  using assms trial_ok_Start [of "pd_trial d" E url "delay * 1000"]
  by (auto simp: StartAfterDelay_def detector_ok_def UpdateAttemptTime_def split: prod.splits bool.splits if_splits)

text \<open>When a detection ends with this result of an attempt.\<close>

definition ends_with :: "detector \<Rightarrow> trial_result \<Rightarrow> bool" where
  "ends_with d res \<longleftrightarrow> tr_status res = kStatusSuccess \<or> pd_attempt_count d = 3 \<or>
     tr_status res = kStatusFailure \<and> tr_phase res = kPhaseContent \<and> pd_failures_in_content_phase d = 1"

definition content_failure :: "trial_result \<Rightarrow> bool" where
  "content_failure res \<longleftrightarrow> tr_status res = kStatusFailure \<and> tr_phase res = kPhaseContent"

lemma detector_idle_disabled:
  assumes "detector_ok d" "pd_attempt_count d = 0" shows "\<not> trial_enabled ev (pd_trial d)"
  using assms by (cases ev) (auto simp: detector_ok_def trial_ok_def)

lemma CompleteAttempt_cases:
  assumes ok: "trial_ok t" "ct_trial t = None" "ct_request t \<noteq> None"
    and count: "1 \<le> pd_attempt_count d" "pd_attempt_count d \<le> 3" "0 \<le> pd_failures_in_content_phase d"
      "pd_failures_in_content_phase d \<le> 1" "pd_failures_in_content_phase d < pd_attempt_count d"
  shows "case CompleteAttempt now res (d\<lparr>pd_trial := t\<rparr>) of
    None \<Rightarrow> False
  | Some (d', r) \<Rightarrow> detector_ok d' \<and> dr_trial_result r = res \<and> (dr_final r \<longleftrightarrow> ends_with d res) \<and>
      (if dr_final r then pd_attempt_count d' = 0 \<and> dr_num_attempts r = pd_attempt_count d
       else pd_attempt_count d' = pd_attempt_count d + 1 \<and>
         pd_failures_in_content_phase d' = pd_failures_in_content_phase d + of_bool (content_failure res))"
proof (cases "ends_with d res")
  case True
  have "trial_ok (Trial_Stop t) \<and> ct_request (Trial_Stop t) = None" by (rule trial_ok_Stop [OF ok(1,2)])
  with True count show ?thesis
    by (auto simp: CompleteAttempt_def Detector_Stop_def detector_ok_def ends_with_def Let_def
        kMaxRequestAttempts_def kMaxFailuresInContentPhase_def)
next
  case False
  define delay where "delay = (if fst (timersub now (pd_attempt_start_time d)) < kMinTimeBetweenAttemptsSeconds
    then kMinTimeBetweenAttemptsSeconds - fst (timersub now (pd_attempt_start_time d)) else 0)"
  obtain t' where t': "Trial_Retry (delay * 1000) t = (True, t')" "trial_ok t'" "ct_trial t' \<noteq> None"
    using trial_ok_Retry [OF ok(1), of "delay * 1000"] ok(3) by (auto simp: Trial_Retry_def)
  show ?thesis
    using False count t'
    by (auto simp: CompleteAttempt_def AdjustStartDelay_def UpdateAttemptTime_def detector_ok_def ends_with_def
        content_failure_def Let_def kMaxRequestAttempts_def kMaxFailuresInContentPhase_def delay_def [symmetric])
qed

lemma detector_handle_ok:
  assumes "detector_ok d" "trial_enabled ev (pd_trial d)"
  shows "case detector_handle E now ev d of
    None \<Rightarrow> False
  | Some (d', None) \<Rightarrow> detector_ok d' \<and> pd_attempt_count d' = pd_attempt_count d \<and>
      pd_failures_in_content_phase d' = pd_failures_in_content_phase d
  | Some (d', Some r) \<Rightarrow> detector_ok d' \<and> (dr_final r \<longleftrightarrow> ends_with d (dr_trial_result r)) \<and>
      (if dr_final r then pd_attempt_count d' = 0 \<and> dr_num_attempts r = pd_attempt_count d
       else pd_attempt_count d' = pd_attempt_count d + 1 \<and>
         pd_failures_in_content_phase d' =
           pd_failures_in_content_phase d + of_bool (content_failure (dr_trial_result r)))"
proof -
  have busy: "pd_attempt_count d \<noteq> 0" using detector_idle_disabled assms by blast
  have t: "trial_ok (pd_trial d)" using assms(1) by (simp add: detector_ok_def)
  from assms(1) busy have count: "1 \<le> pd_attempt_count d" "pd_attempt_count d \<le> 3"
      "0 \<le> pd_failures_in_content_phase d" "pd_failures_in_content_phase d \<le> 1"
      "pd_failures_in_content_phase d < pd_attempt_count d"
    by (simp_all add: detector_ok_def)
  obtain t' out where h: "trial_handle E ev (pd_trial d) = Some (t', out)"
    using trial_handle_ok [OF t assms(2), of E] by (cases "trial_handle E ev (pd_trial d)") auto
  show ?thesis
  proof (cases out)
    case None
    then have "trial_ok t'" "ct_active t'" using trial_handle_ok [OF t assms(2), of E] h by simp_all
    with None h count show ?thesis by (simp add: detector_handle_def detector_ok_def)
  next
    case (Some res)
    then have "trial_ok t'" "ct_trial t' = None" "ct_request t' \<noteq> None"
      using trial_handle_ok [OF t assms(2), of E] h by simp_all
    from CompleteAttempt_cases [OF this count, where now = now and res = res] Some h show ?thesis
      by (cases "CompleteAttempt now res (d\<lparr>pd_trial := t'\<rparr>)") (auto simp: detector_handle_def)
  qed
qed

subsection \<open>Runs of a detection\<close>

text \<open>A run: events of the trial in any order that the trial allows, and the results they give.\<close>

inductive pd_run :: "trial_env \<Rightarrow> detector \<Rightarrow> detector_result list \<Rightarrow> detector \<Rightarrow> bool" for E d0 where
  start: "pd_run E d0 [] d0"
| silent: "pd_run E d0 rs d \<Longrightarrow> trial_enabled ev (pd_trial d) \<Longrightarrow>
    detector_handle E now ev d = Some (d', None) \<Longrightarrow> pd_run E d0 rs d'"
| result: "pd_run E d0 rs d \<Longrightarrow> trial_enabled ev (pd_trial d) \<Longrightarrow>
    detector_handle E now ev d = Some (d', Some r) \<Longrightarrow> pd_run E d0 (rs @ [r]) d'"

text \<open>The results of the attempts made so far, and whether they end the detection.\<close>

definition content_failures :: "detector_result list \<Rightarrow> nat" where
  "content_failures rs = length (filter (\<lambda>r. content_failure (dr_trial_result r)) rs)"

definition is_final :: "detector_result list \<Rightarrow> bool" where
  "is_final rs \<longleftrightarrow> rs \<noteq> [] \<and>
     (tr_status (dr_trial_result (last rs)) = kStatusSuccess \<or> length rs = 3 \<or> content_failures rs = 2)"

lemma pd_run_inv:
  assumes "pd_run E d0 rs d" "detector_ok d0" "pd_attempt_count d0 = 1" "pd_failures_in_content_phase d0 = 0"
  shows "detector_ok d \<and> length rs \<le> 3 \<and> (\<forall>i < length rs. dr_final (rs ! i) \<longleftrightarrow> is_final (take (Suc i) rs)) \<and>
    (if is_final rs then pd_attempt_count d = 0 \<and> dr_num_attempts (last rs) = int (length rs)
     else pd_attempt_count d = int (length rs) + 1 \<and> pd_failures_in_content_phase d = int (content_failures rs)) \<and>
    (\<forall>i < length rs. i \<noteq> length rs - 1 \<longrightarrow> \<not> dr_final (rs ! i))"
  using assms
proof (induction rule: pd_run.induct)
  case start
  then show ?case by (simp add: is_final_def content_failures_def)
next
  case (silent rs d ev now d')
  then show ?case
    using detector_handle_ok [of d ev E now] detector_idle_disabled [of d ev] by (auto split: if_splits)
next
  case (result rs d ev now d' r)
  have ok: "detector_ok d" using result by simp
  have "pd_attempt_count d \<noteq> 0" using detector_idle_disabled [OF ok] result.hyps(2) by blast
  then have nf: "\<not> is_final rs" and c: "pd_attempt_count d = int (length rs) + 1"
    "pd_failures_in_content_phase d = int (content_failures rs)"
    using result by (auto split: if_splits)
  note h = detector_handle_ok [OF ok result.hyps(2), of E now, unfolded result.hyps(3)]
  have bounds: "pd_attempt_count d \<le> 3" "pd_failures_in_content_phase d \<le> 1"
    using ok \<open>pd_attempt_count d \<noteq> 0\<close> by (simp_all add: detector_ok_def)
  have cf: "content_failures (rs @ [r]) = content_failures rs + of_bool (content_failure (dr_trial_result r))"
    by (simp add: content_failures_def)
  have fin: "dr_final r \<longleftrightarrow> is_final (rs @ [r])"
    using h c bounds unfolding is_final_def cf by (auto simp: ends_with_def content_failure_def)
  have "\<not> dr_final (rs ! i)" if i: "i < length rs" for i
  proof (cases "i = length rs - 1")
    case True
    then have "is_final (take (Suc i) rs) = is_final rs" using i by simp
    then show ?thesis using result.IH result.prems nf i by blast
  qed (use result.IH result.prems i in blast)
  moreover have "\<forall>i < length (rs @ [r]). dr_final ((rs @ [r]) ! i) \<longleftrightarrow> is_final (take (Suc i) (rs @ [r]))"
    using result.IH result.prems fin by (auto simp: nth_append less_Suc_eq)
  ultimately show ?case
    using h c bounds fin cf by (auto simp: nth_append less_Suc_eq)
qed

text \<open>The states of a detector under the calls of a device (\<open>Start\<close> and \<open>StartAfterDelay\<close>) and its trial's events.\<close>

inductive pd_reach :: "trial_env \<Rightarrow> detector \<Rightarrow> bool" for E where
  created: "pd_reach E PortalDetector_new"
| started: "pd_reach E d \<Longrightarrow> StartAfterDelay E now url delay d = (ok, d') \<Longrightarrow> pd_reach E d'"
| event: "pd_reach E d \<Longrightarrow> trial_enabled ev (pd_trial d) \<Longrightarrow>
    detector_handle E now ev d = Some (d', out) \<Longrightarrow> pd_reach E d'"

lemma detector_ok_reach: "pd_reach E d \<Longrightarrow> detector_ok d"
proof (induction rule: pd_reach.induct)
  case created
  then show ?case by (rule detector_ok_new)
next
  case (started d now url delay ok d')
  then show ?case using detector_ok_Start by (metis (full_types))
next
  case (event d ev now d' out)
  then show ?case using detector_handle_ok [of d ev E now] by (cases out) auto
qed

lemma detector_progress:
  assumes "detector_ok d" "pd_attempt_count d \<noteq> 0"
  shows "\<exists>ev. trial_enabled ev (pd_trial d) \<and> (\<exists>d' r. detector_handle E now ev d = Some (d', Some r))"
proof -
  obtain ev t res where ev: "trial_enabled ev (pd_trial d)" "trial_handle E ev (pd_trial d) = Some (t, Some res)"
    using trial_progress [of "pd_trial d" E] assms by (auto simp: detector_ok_def)
  then have "detector_handle E now ev d = map_option (apsnd Some) (CompleteAttempt now res (d\<lparr>pd_trial := t\<rparr>))"
    by (simp add: detector_handle_def)
  then show ?thesis
    using ev(1) detector_handle_ok [OF assms(1) ev(1), of E now]
    by (cases "CompleteAttempt now res (d\<lparr>pd_trial := t\<rparr>)") auto
qed

text \<open>
  C26: a portal detection always comes to an end with exactly one final result. Whatever the network does and
  in whatever order, at most three attempts are made; a result is final exactly when the attempt succeeded, was
  the third, or was the second failure on the content; it is the last one and counts the attempts; no event is left
  afterwards. Before the final result a timer or the network can always bring the next result.
\<close>

theorem portal_detection_ends:
  assumes "pd_reach E d1" "StartAfterDelay E now url delay d1 = (True, d0)" "pd_run E d0 rs d"
  shows "length rs \<le> 3 \<and> (\<forall>i < length rs. dr_final (rs ! i) \<longleftrightarrow> is_final (take (Suc i) rs)) \<and>
    (\<forall>i. Suc i < length rs \<longrightarrow> \<not> dr_final (rs ! i)) \<and>
    (if is_final rs
     then dr_num_attempts (last rs) = int (length rs) \<and> (\<forall>ev. \<not> trial_enabled ev (pd_trial d))
     else \<exists>ev. trial_enabled ev (pd_trial d) \<and> (\<exists>d' r. detector_handle E now' ev d = Some (d', Some r)))"
proof -
  have "detector_ok d0 \<and> pd_attempt_count d0 = 1 \<and> pd_failures_in_content_phase d0 = 0"
    using detector_ok_Start [OF detector_ok_reach [OF assms(1)] assms(2)] by simp
  then have inv: "detector_ok d" "length rs \<le> 3"
    "\<forall>i < length rs. dr_final (rs ! i) \<longleftrightarrow> is_final (take (Suc i) rs)"
    "if is_final rs then pd_attempt_count d = 0 \<and> dr_num_attempts (last rs) = int (length rs)
     else pd_attempt_count d = int (length rs) + 1 \<and> pd_failures_in_content_phase d = int (content_failures rs)"
    "\<forall>i < length rs. i \<noteq> length rs - 1 \<longrightarrow> \<not> dr_final (rs ! i)"
    using pd_run_inv [OF assms(3)] by blast+
  then have "\<forall>i. Suc i < length rs \<longrightarrow> \<not> dr_final (rs ! i)" by auto
  moreover have "is_final rs \<Longrightarrow> \<forall>ev. \<not> trial_enabled ev (pd_trial d)"
    using detector_idle_disabled [OF inv(1)] inv(4) by simp
  moreover have "\<not> is_final rs \<Longrightarrow>
      \<exists>ev. trial_enabled ev (pd_trial d) \<and> (\<exists>d' r. detector_handle E now' ev d = Some (d', Some r))"
    using inv(4) by (intro detector_progress [OF inv(1)]) simp
  ultimately show ?thesis using inv(2-4) by presburger
qed

definition demo_trial_env :: trial_env where
  "demo_trial_env = \<lparr>te_split_port = (\<lambda>s. [s]), te_string_to_int = (\<lambda>_. None), te_match_pattern = (=),
     te_inet_pton = (\<lambda>_ _. None), te_is_ipv6 = False\<rparr>"

lemma demo_detection:
  "\<exists>d0 d. StartAfterDelay demo_trial_env (100, 0) ''http://a/'' 0 PortalDetector_new = (True, d0) \<and>
     pd_run demo_trial_env d0
       [\<lparr>dr_trial_result = mk_result kPhaseDNS kStatusFailure, dr_num_attempts = 0, dr_final = False\<rparr>] d"
proof -
  obtain d0 where d0: "StartAfterDelay demo_trial_env (100, 0) ''http://a/'' 0 PortalDetector_new = (True, d0)"
    "pd_attempt_count d0 = 1" "pd_failures_in_content_phase d0 = 0" "ct_trial (pd_trial d0) = Some 0"
    "ct_request (pd_trial d0) = Some HTTPRequest_new"
    by (simp add: StartAfterDelay_def Trial_Start_def ParseFromString_def demo_trial_env_def kPrefixHTTP_def
        kDelimiters_def PortalDetector_new_def ConnectivityTrial_new_def StartTrialAfterDelay_def Let_def
        UpdateAttemptTime_def)
  then have "\<exists>d. detector_handle demo_trial_env (101, 0) (TrialStarts False AsyncFailed) d0 =
      Some (d, Some \<lparr>dr_trial_result = mk_result kPhaseDNS kStatusFailure, dr_num_attempts = 0, dr_final = False\<rparr>)"
    by (simp add: detector_handle_def StartTrialTask_def Http_Start_def HTTPRequest_new_def demo_trial_env_def
        SetAddressFromString_def CompleteTrial_def CompleteAttempt_def AdjustStartDelay_def mk_result_def
        kMaxRequestAttempts_def kMaxFailuresInContentPhase_def Let_def)
  then obtain d where "detector_handle demo_trial_env (101, 0) (TrialStarts False AsyncFailed) d0 =
      Some (d, Some \<lparr>dr_trial_result = mk_result kPhaseDNS kStatusFailure, dr_num_attempts = 0, dr_final = False\<rparr>)"
    by blast
  from pd_run.result [OF pd_run.start _ this] d0 show ?thesis by auto
qed

theorem portal_detection_ends_witness:
  "\<exists>d ev d' r. trial_enabled ev (pd_trial d) \<and>
     detector_handle demo_trial_env (103, 0) ev d = Some (d', Some r)"
proof -
  obtain d0 d where "StartAfterDelay demo_trial_env (100, 0) ''http://a/'' 0 PortalDetector_new = (True, d0)"
    "pd_run demo_trial_env d0
       [\<lparr>dr_trial_result = mk_result kPhaseDNS kStatusFailure, dr_num_attempts = 0, dr_final = False\<rparr>] d"
    using demo_detection by blast
  from portal_detection_ends [OF pd_reach.created this, of "(103, 0)"] show ?thesis
    by (auto simp: is_final_def content_failures_def content_failure_def mk_result_def)
qed

subsection \<open>The spacing of the attempts\<close>

definition usecs :: "timeval \<Rightarrow> int" where
  "usecs t = fst t * 1000000 + snd t"

text \<open>
  The next attempt of a detection is scheduled for the future, and at least three seconds
  after the scheduled start of the attempt that just failed, however short or long that one took.
\<close>

theorem portal_attempts_spaced:
  assumes "CompleteAttempt now res d = Some (d', r)" "\<not> dr_final r"
    and "0 \<le> snd now" "snd now < 1000000" "0 \<le> snd (pd_attempt_start_time d)"
      "snd (pd_attempt_start_time d) < 1000000"
  shows "usecs (pd_attempt_start_time d') \<ge> usecs now \<and>
    usecs (pd_attempt_start_time d') \<ge> usecs (pd_attempt_start_time d) + 3 * 1000000 \<and>
    ct_trial (pd_trial d') = (if ct_request (pd_trial d) = None then ct_trial (pd_trial d)
      else Some ((fst (pd_attempt_start_time d') - fst now) * 1000))"
  using assms
  by (auto simp: CompleteAttempt_def AdjustStartDelay_def UpdateAttemptTime_def timeradd_def timersub_def usecs_def
      kMinTimeBetweenAttemptsSeconds_def Trial_Retry_def StartTrialAfterDelay_def CleanupTrial_def Let_def
      split: if_splits)

theorem portal_attempts_spaced_witness:
  "usecs (pd_attempt_start_time (fst (the (CompleteAttempt (11, 400000)
     (mk_result kPhaseDNS kStatusFailure)
     (PortalDetector_new\<lparr>pd_attempt_count := 1, pd_attempt_start_time := (10, 900000)\<rparr>))))) \<ge> 13900000"
  using portal_attempts_spaced [where now = "(11, 400000)" and res = "mk_result kPhaseDNS kStatusFailure"
      and d = "PortalDetector_new\<lparr>pd_attempt_count := 1, pd_attempt_start_time := (10, 900000)\<rparr>"]
  by (simp add: CompleteAttempt_def AdjustStartDelay_def mk_result_def usecs_def PortalDetector_new_def
      kMaxRequestAttempts_def kMaxFailuresInContentPhase_def Let_def)

end
