(* ===== verification/Arp_Packet.thy ===== *)
theory Arp_Packet
  imports IP_Address
begin

text \<open>
  Model of \<open>arp_packet.cc\<close>: the ARP payload the link monitors send and receive. The header \<open>struct
  arphdr\<close> is copied to and from memory, with \<open>htons\<close> on its 16-bit fields.
\<close>

record arp_packet =
  ap_operation :: u16
  ap_local_ip_address :: ip_addr
  ap_remote_ip_address :: ip_addr
  ap_local_mac_address :: byte_string
  ap_remote_mac_address :: byte_string

definition ARPHRD_ETHER :: u16 where "ARPHRD_ETHER = 1"
definition ETHERTYPE_IP :: u16 where "ETHERTYPE_IP = 0x0800"
definition ETHERTYPE_IPV6 :: u16 where "ETHERTYPE_IPV6 = 0x86dd"
definition ARPOP_REQUEST :: u16 where "ARPOP_REQUEST = 1"
definition ARPOP_REPLY :: u16 where "ARPOP_REPLY = 2"
definition ETH_ALEN :: nat where "ETH_ALEN = 6"
definition kMinPayloadSize :: nat where "kMinPayloadSize = 60 - 14"

text \<open>\<open>sizeof(arphdr)\<close>, and the header at the start of a packet.\<close>

definition arphdr_size :: nat where "arphdr_size = 8"

record arphdr =
  ar_hrd :: u16
  ar_pro :: u16
  ar_hln :: u8
  ar_pln :: u8
  ar_op :: u16

definition load_arphdr :: "endian \<Rightarrow> byte_string \<Rightarrow> arphdr" where
  "load_arphdr e p =
     \<lparr>ar_hrd = load16 e (take 2 p), ar_pro = load16 e (take 2 (drop 2 p)), ar_hln = p ! 4, ar_pln = p ! 5,
      ar_op = load16 e (take 2 (drop 6 p))\<rparr>"

definition mem_arphdr :: "endian \<Rightarrow> arphdr \<Rightarrow> bytes" where
  "mem_arphdr e h =
     mem16 e (ar_hrd h) @ mem16 e (ar_pro h) @ [ar_hln h, ar_pln h] @ mem16 e (ar_op h)"

text \<open>The constructor leaves \<open>operation_\<close> uninitialised; it is zero here, and \<open>FormatRequest\<close> does not read it.\<close>

definition ArpPacket_new :: "ip_addr \<Rightarrow> ip_addr \<Rightarrow> byte_string \<Rightarrow> byte_string \<Rightarrow> arp_packet" where
  "ArpPacket_new local_ip remote_ip local_mac remote_mac =
     \<lparr>ap_operation = 0, ap_local_ip_address = local_ip, ap_remote_ip_address = remote_ip,
      ap_local_mac_address = local_mac, ap_remote_mac_address = remote_mac\<rparr>"

text \<open>\<open>None\<close> when the function returns false; the object is then unchanged.\<close>

definition Arp_Parse :: "endian \<Rightarrow> byte_string \<Rightarrow> arp_packet option" where
  "Arp_Parse e p =
     (if GetLength p < arphdr_size then None
      else
        let h = load_arphdr e p;
            protocol = ntohs e (ar_pro h);
            fam = (if protocol = ETHERTYPE_IP then Some kFamilyIPv4
                   else if protocol = ETHERTYPE_IPV6 then Some kFamilyIPv6 else None);
            operation = ntohs e (ar_op h)
        in if ntohs e (ar_hrd h) \<noteq> ARPHRD_ETHER then None
           else case fam of
                  None \<Rightarrow> None
                | Some fam \<Rightarrow>
                    let len = GetAddressLength fam
                    in if unat (ar_hln h) \<noteq> ETH_ALEN then None
                       else if unat (ar_pln h) \<noteq> len then None
                       else if operation \<noteq> ARPOP_REPLY \<and> operation \<noteq> ARPOP_REQUEST then None
                       else if GetLength p < arphdr_size + 2 * len + 2 * ETH_ALEN then None
                       else Some
                         \<lparr>ap_operation = operation,
                          ap_local_ip_address = IPAddress_bytes fam (GetSubstring p (arphdr_size + ETH_ALEN) len),
                          ap_remote_ip_address =
                            IPAddress_bytes fam (GetSubstring p (arphdr_size + ETH_ALEN * 2 + len) len),
                          ap_local_mac_address = GetSubstring p arphdr_size ETH_ALEN,
                          ap_remote_mac_address = GetSubstring p (arphdr_size + ETH_ALEN + len) ETH_ALEN\<rparr>)"

definition FormatRequest :: "endian \<Rightarrow> arp_packet \<Rightarrow> byte_string option" where
  "FormatRequest e a =
     (if \<not> IsValid (ap_local_ip_address a) \<or> \<not> IsValid (ap_remote_ip_address a) then None
      else if family (ap_local_ip_address a) \<noteq> family (ap_remote_ip_address a) then None
      else
        let fam = family (ap_local_ip_address a);
            protocol = (if fam = kFamilyIPv4 then Some ETHERTYPE_IP
                        else if fam = kFamilyIPv6 then Some ETHERTYPE_IPV6 else None)
        in case protocol of
             None \<Rightarrow> None
           | Some protocol \<Rightarrow>
               if GetLength (ap_local_mac_address a) \<noteq> ETH_ALEN \<or> GetLength (ap_remote_mac_address a) \<noteq> ETH_ALEN
               then None
               else
                 let p = mem_arphdr e \<lparr>ar_hrd = htons e ARPHRD_ETHER, ar_pro = htons e protocol,
                           ar_hln = of_nat ETH_ALEN, ar_pln = of_nat (GetAddressLength fam),
                           ar_op = htons e ARPOP_REQUEST\<rparr>;
                     p = Append p (ap_local_mac_address a);
                     p = Append p (address (ap_local_ip_address a));
                     p = Append p (ap_remote_mac_address a);
                     p = Append p (address (ap_remote_ip_address a))
                 in Some (if GetLength p < kMinPayloadSize
                          then Append p (replicate (kMinPayloadSize - GetLength p) 0) else p))"

definition IsReply :: "arp_packet \<Rightarrow> bool" where
  "IsReply a \<longleftrightarrow> ap_operation a = ARPOP_REPLY"

subsection \<open>Parsing what was formatted\<close>

lemma length_mem_arphdr [simp]: "length (mem_arphdr e h) = 8"
  by (simp add: mem_arphdr_def)

lemma load_mem_arphdr: "load_arphdr e (mem_arphdr e h @ rest) = h"
proof -
  obtain a b where a: "mem16 e (ar_hrd h) = [a, b]" by (rule length_2E [of "mem16 e (ar_hrd h)"]) auto
  obtain c d where c: "mem16 e (ar_pro h) = [c, d]" by (rule length_2E [of "mem16 e (ar_pro h)"]) auto
  obtain f g where f: "mem16 e (ar_op h) = [f, g]" by (rule length_2E [of "mem16 e (ar_op h)"]) auto
  have "load16 e [a, b] = ar_hrd h" "load16 e [c, d] = ar_pro h" "load16 e [f, g] = ar_op h"
    by (metis a load16_mem16, metis c load16_mem16, metis f load16_mem16)
  then show ?thesis by (simp add: load_arphdr_def mem_arphdr_def a c f numeral_eq_Suc)
qed

lemma FormatRequest_SomeE:
  assumes "FormatRequest e a = Some p"
  obtains protocol len pad where
    "(family (ap_local_ip_address a) = kFamilyIPv4 \<and> protocol = ETHERTYPE_IP \<and> len = 4 \<or>
      family (ap_local_ip_address a) = kFamilyIPv6 \<and> protocol = ETHERTYPE_IPV6 \<and> len = 16)"
    "family (ap_remote_ip_address a) = family (ap_local_ip_address a)"
    "length (address (ap_local_ip_address a)) = len" "length (address (ap_remote_ip_address a)) = len"
    "length (ap_local_mac_address a) = 6" "length (ap_remote_mac_address a) = 6"
    "p = mem_arphdr e \<lparr>ar_hrd = htons e ARPHRD_ETHER, ar_pro = htons e protocol, ar_hln = 6,
           ar_pln = of_nat len, ar_op = htons e ARPOP_REQUEST\<rparr> @
         ap_local_mac_address a @ address (ap_local_ip_address a) @ ap_remote_mac_address a @
         address (ap_remote_ip_address a) @ pad"
    "length p \<ge> kMinPayloadSize"
  using assms
  by (auto simp: FormatRequest_def Let_def IsValid_def GetAddressLength_def GetLength_def Append_def
      kFamilyIPv4_def kFamilyIPv6_def ETH_ALEN_def kMinPayloadSize_def split: if_splits)

text \<open>
  An ARP request that \<open>FormatRequest\<close> writes is at least as long as the smallest Ethernet payload and
  \<open>Parse\<close> reads back the same addresses as a request, on a host of either byte order; the padding is ignored.
\<close>

theorem Arp_Parse_FormatRequest:
  assumes "FormatRequest e a = Some p"
  shows "GetLength p \<ge> kMinPayloadSize \<and>
    Arp_Parse e p = Some (a\<lparr>ap_operation := ARPOP_REQUEST,
      ap_local_ip_address := (ap_local_ip_address a)\<lparr>ip_prefix := 0\<rparr>,
      ap_remote_ip_address := (ap_remote_ip_address a)\<lparr>ip_prefix := 0\<rparr>\<rparr>)"
proof -
  from assms obtain protocol len pad where fam:
      "family (ap_local_ip_address a) = kFamilyIPv4 \<and> protocol = ETHERTYPE_IP \<and> len = 4 \<or>
       family (ap_local_ip_address a) = kFamilyIPv6 \<and> protocol = ETHERTYPE_IPV6 \<and> len = 16"
      "family (ap_remote_ip_address a) = family (ap_local_ip_address a)"
    and len: "length (address (ap_local_ip_address a)) = len" "length (address (ap_remote_ip_address a)) = len"
      "length (ap_local_mac_address a) = 6" "length (ap_remote_mac_address a) = 6"
    and p: "p = mem_arphdr e \<lparr>ar_hrd = htons e ARPHRD_ETHER, ar_pro = htons e protocol, ar_hln = 6,
           ar_pln = of_nat len, ar_op = htons e ARPOP_REQUEST\<rparr> @
         ap_local_mac_address a @ address (ap_local_ip_address a) @ ap_remote_mac_address a @
         address (ap_remote_ip_address a) @ pad"
    and min: "length p \<ge> kMinPayloadSize"
    by (rule FormatRequest_SomeE)
  have ip: "family ip = f \<Longrightarrow> IPAddress_bytes f (address ip) = ip\<lparr>ip_prefix := 0\<rparr>" for ip f
    by (simp add: IPAddress_bytes_def)
  show ?thesis
    using fam len min unfolding p
    by (elim disjE conjE; cases a)
      (simp_all add: ip Arp_Parse_def load_mem_arphdr GetLength_def arphdr_size_def ETH_ALEN_def GetSubstring_eq
        GetAddressLength_def ARPOP_REQUEST_def ARPOP_REPLY_def ETHERTYPE_IP_def ETHERTYPE_IPV6_def
        kFamilyIPv4_def kFamilyIPv6_def)
qed

theorem Arp_Parse_FormatRequest_witness:
  "Arp_Parse LittleEndian (the (FormatRequest LittleEndian
     (ArpPacket_new (IPAddress_bytes kFamilyIPv4 [10, 0, 0, 2]) (IPAddress_bytes kFamilyIPv4 [10, 0, 0, 1])
       [1, 2, 3, 4, 5, 6] [0, 0, 0, 0, 0, 0]))) \<noteq> None"
proof -
  let ?a = "ArpPacket_new (IPAddress_bytes kFamilyIPv4 [10, 0, 0, 2]) (IPAddress_bytes kFamilyIPv4 [10, 0, 0, 1])
       [1, 2, 3, 4, 5, 6] [0, 0, 0, 0, 0, 0]"
  have "FormatRequest LittleEndian ?a = Some (the (FormatRequest LittleEndian ?a))"
    by (simp add: FormatRequest_def ArpPacket_new_def IPAddress_bytes_def IsValid_def GetAddressLength_def
        GetLength_def kFamilyIPv4_def kFamilyUnknown_def ETH_ALEN_def Let_def)
  from Arp_Parse_FormatRequest [OF this] show ?thesis by simp
qed

end
