(* ===== verification/Link_Monitor.thy ===== *)
theory Link_Monitor
  imports Arp_Packet Event_History
begin

text \<open>
  Models of \<open>active_link_monitor.cc\<close>, \<open>passive_link_monitor.cc\<close> and \<open>link_monitor.cc\<close>. The active
  monitor sends ARP requests to the gateway and counts replies and misses; after a reply the passive monitor
  counts the ARP requests it overhears for up to forty cycles; then the active one takes over again. A handler
  returns the new state and what it reports to its owner. What the system answers is in the record
  \<open>link_env\<close>.
\<close>

subsection \<open>The active monitor\<close>

definition kDefaultTestPeriodMilliseconds :: int where "kDefaultTestPeriodMilliseconds = 5000"
definition kFailureThreshold :: int where "kFailureThreshold = 5"
definition kFastTestPeriodMilliseconds :: int where "kFastTestPeriodMilliseconds = 200"
definition kMaxResponseSampleFilterDepth :: int where "kMaxResponseSampleFilterDepth = 5"
definition kUnicastReplyReliabilityThreshold :: int where "kUnicastReplyReliabilityThreshold = 10"

datatype link_failure =
    kLinkMonitorMacAddressNotFound | kLinkMonitorClientStartFailure | kLinkMonitorTransmitFailure
  | kLinkMonitorFailureThresholdReached

datatype active_out = ActiveSuccess | ActiveFailure link_failure int int

text \<open>
  \<open>al_listening\<close>: the ARP client and its handler; \<open>al_pending\<close>: the delay of the posted
  \<open>SendRequest\<close>; \<open>al_sent_request_at\<close> is zero when no request is unanswered.
\<close>

record active_monitor =
  al_test_period :: int
  al_broadcast_failure_count :: int
  al_unicast_failure_count :: int
  al_broadcast_success_count :: int
  al_unicast_success_count :: int
  al_is_unicast :: bool
  al_gateway_supports_unicast_arp :: bool
  al_response_sample_count :: int
  al_response_sample_bucket :: int
  al_local_mac_address :: byte_string
  al_gateway_mac_address :: byte_string
  al_sent_request_at :: timeval
  al_listening :: bool
  al_pending :: "int option"

record link_env =
  le_mac_address :: "byte_string option"
  le_listen_ok :: bool
  le_transmit_ok :: bool
  le_local :: ip_addr
  le_gateway :: ip_addr
  le_now :: timeval

definition ActiveLinkMonitor_new :: active_monitor where
  "ActiveLinkMonitor_new =
     \<lparr>al_test_period = kDefaultTestPeriodMilliseconds, al_broadcast_failure_count = 0,
      al_unicast_failure_count = 0, al_broadcast_success_count = 0, al_unicast_success_count = 0,
      al_is_unicast = False, al_gateway_supports_unicast_arp = False, al_response_sample_count = 0,
      al_response_sample_bucket = 0, al_local_mac_address = [], al_gateway_mac_address = [],
      al_sent_request_at = (0, 0), al_listening = False, al_pending = None\<rparr>"

definition StopMonitorCycle :: "active_monitor \<Rightarrow> active_monitor" where
  "StopMonitorCycle a = a\<lparr>al_listening := False, al_pending := None, al_sent_request_at := (0, 0)\<rparr>"

definition Active_Stop :: "active_monitor \<Rightarrow> active_monitor" where
  "Active_Stop a =
     (StopMonitorCycle a)
       \<lparr>al_local_mac_address := [], al_gateway_mac_address := [], al_broadcast_success_count := 0,
        al_unicast_success_count := 0, al_broadcast_failure_count := 0, al_unicast_failure_count := 0,
        al_is_unicast := False, al_gateway_supports_unicast_arp := False, al_response_sample_bucket := 0,
        al_response_sample_count := 0\<rparr>"

text \<open>Integer division of C++, which truncates.\<close>

definition quot :: "int \<Rightarrow> int \<Rightarrow> int" where
  "quot a b = (if a \<ge> 0 then a div b else - ((- a) div b))"

definition GetResponseTimeMilliseconds :: "active_monitor \<Rightarrow> int" where
  "GetResponseTimeMilliseconds a =
     (if al_response_sample_count a \<noteq> 0
      then quot (al_response_sample_bucket a) (al_response_sample_count a) else 0)"

definition IsGatewayFound :: "byte_string \<Rightarrow> bool" where
  "IsGatewayFound gateway_mac_address \<longleftrightarrow> \<not> IsZero gateway_mac_address"

definition StartInternal :: "link_env \<Rightarrow> int \<Rightarrow> active_monitor \<Rightarrow> bool \<times> active_monitor" where
  "StartInternal E probe_period_milliseconds a =
     (let a = a\<lparr>al_test_period := probe_period_milliseconds\<rparr>
      in case le_mac_address E of
           None \<Rightarrow> (False, Active_Stop a)
         | Some mac \<Rightarrow>
             let a = a\<lparr>al_local_mac_address := mac\<rparr>
             in if \<not> le_listen_ok E then (False, Active_Stop a)
                else let a = a\<lparr>al_listening := True\<rparr>;
                         a = (if al_gateway_mac_address a = []
                              then a\<lparr>al_gateway_mac_address := replicate (GetLength mac) 0\<rparr> else a)
                     in (True, a\<lparr>al_pending := Some 0\<rparr>))"

definition Active_Start :: "link_env \<Rightarrow> int \<Rightarrow> active_monitor \<Rightarrow> bool \<times> active_monitor" where
  "Active_Start E test_period a = StartInternal E test_period (StopMonitorCycle a)"

definition AddResponseTimeSample :: "int \<Rightarrow> active_monitor \<Rightarrow> active_monitor" where
  "AddResponseTimeSample response_time_milliseconds a =
     (let bucket = al_response_sample_bucket a + response_time_milliseconds
      in if al_response_sample_count a < kMaxResponseSampleFilterDepth
         then a\<lparr>al_response_sample_bucket := bucket, al_response_sample_count := al_response_sample_count a + 1\<rparr>
         else a\<lparr>al_response_sample_bucket :=
                  quot (bucket * kMaxResponseSampleFilterDepth) (kMaxResponseSampleFilterDepth + 1)\<rparr>)"

definition AddMissedResponse :: "active_monitor \<Rightarrow> active_monitor \<times> active_out option" where
  "AddMissedResponse a =
     (let a = AddResponseTimeSample (al_test_period a) a;
          a = (if al_is_unicast a
               then a\<lparr>al_unicast_failure_count :=
                        al_unicast_failure_count a + (if al_gateway_supports_unicast_arp a then 1 else 0),
                      al_unicast_success_count := 0\<rparr>
               else a\<lparr>al_broadcast_failure_count := al_broadcast_failure_count a + 1,
                      al_broadcast_success_count := 0\<rparr>)
      in if al_unicast_failure_count a + al_broadcast_failure_count a \<ge> kFailureThreshold
         then (Active_Stop a,
               Some (ActiveFailure kLinkMonitorFailureThresholdReached (al_broadcast_failure_count a)
                       (al_unicast_failure_count a)))
         else (a\<lparr>al_is_unicast := \<not> al_is_unicast a\<rparr>, None))"

text \<open>The packet is what the ARP client has received and parsed, \<open>None\<close> if that failed.\<close>

definition ReceiveResponse :: "link_env \<Rightarrow> arp_packet option \<Rightarrow> active_monitor \<Rightarrow> active_monitor \<times> active_out option" where
  "ReceiveResponse E packet a =
     (case packet of
        None \<Rightarrow> (a, None)
      | Some p \<Rightarrow>
          if \<not> IsReply p \<or> \<not> Equals (address (le_local E)) (address (ap_remote_ip_address p)) \<or>
             \<not> Equals (al_local_mac_address a) (ap_remote_mac_address p) \<or>
             \<not> Equals (address (le_gateway E)) (address (ap_local_ip_address p))
          then (a, None)
          else
            let elapsed_time = timersub (le_now E) (al_sent_request_at a);
                a = AddResponseTimeSample (fst elapsed_time * 1000 + quot (snd elapsed_time) 1000) a;
                a = (if al_is_unicast a
                     then let a = a\<lparr>al_unicast_success_count := al_unicast_success_count a + 1,
                                    al_unicast_failure_count := 0\<rparr>
                          in if al_unicast_success_count a \<ge> kUnicastReplyReliabilityThreshold
                             then a\<lparr>al_gateway_supports_unicast_arp := True\<rparr> else a
                     else a\<lparr>al_broadcast_success_count := al_broadcast_success_count a + 1,
                            al_broadcast_failure_count := 0\<rparr>);
                a = (if \<not> Equals (al_gateway_mac_address a) (ap_local_mac_address p)
                     then a\<lparr>al_gateway_mac_address := ap_local_mac_address p\<rparr> else a);
                a = a\<lparr>al_is_unicast := \<not> al_is_unicast a\<rparr>
            in (StopMonitorCycle a, Some ActiveSuccess))"

text \<open>The posted task: \<open>al_pending\<close> is consumed. The third component is the request that is sent.\<close>

definition SendRequest :: "link_env \<Rightarrow> active_monitor \<Rightarrow> active_monitor \<times> active_out option \<times> arp_packet option" where
  "SendRequest E a =
     (let a = a\<lparr>al_pending := None\<rparr>;
          (a, missed) = (if al_sent_request_at a \<noteq> (0, 0) then AddMissedResponse a else (a, None))
      in if missed \<noteq> None then (a, missed, None)
         else
           let (a, destination) =
                 (if \<not> IsGatewayFound (al_gateway_mac_address a)
                  then (a\<lparr>al_is_unicast := False\<rparr>, replicate (GetLength (al_gateway_mac_address a)) 0)
                  else if al_is_unicast a then (a, al_gateway_mac_address a)
                  else (a, replicate (GetLength (al_gateway_mac_address a)) 0));
               request = ArpPacket_new (le_local E) (le_gateway E) (al_local_mac_address a) destination
           in if \<not> le_transmit_ok E
              then (Active_Stop a,
                    Some (ActiveFailure kLinkMonitorTransmitFailure (al_broadcast_failure_count a)
                            (al_unicast_failure_count a)), Some request)
              else (a\<lparr>al_sent_request_at := le_now E, al_pending := Some (al_test_period a)\<rparr>, None,
                    Some request))"

subsection \<open>The passive monitor\<close>

definition kDefaultMonitorCycles :: int where "kDefaultMonitorCycles = 40"
definition kCyclePeriodMilliseconds :: int where "kCyclePeriodMilliseconds = 25000"
definition kMinArpRequestsPerCycle :: int where "kMinArpRequestsPerCycle = 5"

record passive_monitor =
  pl_num_cycles_to_monitor :: int
  pl_num_requests_received :: int
  pl_num_cycles_passed :: int
  pl_listening :: bool
  pl_cycle_timeout :: "int option"
  pl_completed :: "bool option"

definition PassiveLinkMonitor_new :: passive_monitor where
  "PassiveLinkMonitor_new =
     \<lparr>pl_num_cycles_to_monitor = kDefaultMonitorCycles, pl_num_requests_received = 0, pl_num_cycles_passed = 0,
      pl_listening = False, pl_cycle_timeout = None, pl_completed = None\<rparr>"

definition Passive_Stop :: "passive_monitor \<Rightarrow> passive_monitor" where
  "Passive_Stop p =
     p\<lparr>pl_listening := False, pl_num_requests_received := 0, pl_num_cycles_passed := 0,
       pl_cycle_timeout := None, pl_completed := None\<rparr>"

definition Passive_StartArpClient :: "link_env \<Rightarrow> passive_monitor \<Rightarrow> bool \<times> passive_monitor" where
  "Passive_StartArpClient E p = (if le_listen_ok E then (True, p\<lparr>pl_listening := True\<rparr>) else (False, p))"

definition Passive_Start :: "link_env \<Rightarrow> int \<Rightarrow> passive_monitor \<Rightarrow> bool \<times> passive_monitor" where
  "Passive_Start E num_cycles p =
     (case Passive_StartArpClient E (Passive_Stop p) of
        (False, p) \<Rightarrow> (False, p)
      | (True, p) \<Rightarrow>
          (True, p\<lparr>pl_cycle_timeout := Some kCyclePeriodMilliseconds, pl_num_cycles_to_monitor := num_cycles\<rparr>))"

definition ReceiveRequest :: "arp_packet option \<Rightarrow> passive_monitor \<Rightarrow> passive_monitor" where
  "ReceiveRequest packet p =
     (case packet of
        None \<Rightarrow> p
      | Some a \<Rightarrow>
          if IsReply a then p
          else let p = p\<lparr>pl_num_requests_received := pl_num_requests_received p + 1\<rparr>
               in if pl_num_requests_received p \<ge> kMinArpRequestsPerCycle then p\<lparr>pl_listening := False\<rparr> else p)"

definition CycleTimeoutHandler :: "link_env \<Rightarrow> passive_monitor \<Rightarrow> passive_monitor" where
  "CycleTimeoutHandler E p =
     (let p = p\<lparr>pl_cycle_timeout := None\<rparr>
      in if pl_num_requests_received p \<ge> kMinArpRequestsPerCycle
         then let p = p\<lparr>pl_num_requests_received := 0, pl_num_cycles_passed := pl_num_cycles_passed p + 1\<rparr>
              in if pl_num_cycles_passed p < pl_num_cycles_to_monitor p
                 then (snd (Passive_StartArpClient E p))\<lparr>pl_cycle_timeout := Some kCyclePeriodMilliseconds\<rparr>
                 else p\<lparr>pl_completed := Some True\<rparr>
         else p\<lparr>pl_completed := Some False\<rparr>)"

text \<open>\<open>MonitorCompleted\<close>: the result is what is passed to the callback.\<close>

definition MonitorCompleted :: "passive_monitor \<Rightarrow> passive_monitor \<times> bool option" where
  "MonitorCompleted p = (Passive_Stop p, pl_completed p)"

subsection \<open>The link monitor\<close>

record link_monitor =
  lm_active :: active_monitor
  lm_passive :: passive_monitor
  lm_gateway_mac_address :: byte_string
  lm_started_monitoring_at :: timeval

datatype link_out = LinkFailure | GatewayChange

definition LinkMonitor_new :: link_monitor where
  "LinkMonitor_new =
     \<lparr>lm_active = ActiveLinkMonitor_new, lm_passive = PassiveLinkMonitor_new, lm_gateway_mac_address = [],
      lm_started_monitoring_at = (0, 0)\<rparr>"

definition LinkMonitor_Stop :: "link_monitor \<Rightarrow> link_monitor" where
  "LinkMonitor_Stop m =
     m\<lparr>lm_started_monitoring_at := (0, 0), lm_active := Active_Stop (lm_active m),
       lm_passive := Passive_Stop (lm_passive m), lm_gateway_mac_address := []\<rparr>"

definition LinkMonitor_Start :: "link_env \<Rightarrow> link_monitor \<Rightarrow> bool \<times> link_monitor" where
  "LinkMonitor_Start E m =
     (let m = (LinkMonitor_Stop m)\<lparr>lm_started_monitoring_at := le_now E\<rparr>
      in case Active_Start E kDefaultTestPeriodMilliseconds (lm_active m) of
           (ok, a) \<Rightarrow> (ok, m\<lparr>lm_active := a\<rparr>))"

definition LinkMonitor_OnAfterResume :: "link_env \<Rightarrow> link_monitor \<Rightarrow> link_monitor" where
  "LinkMonitor_OnAfterResume E m =
     (let prior = lm_gateway_mac_address m;
          unicast = al_gateway_supports_unicast_arp (lm_active m);
          m = (LinkMonitor_Stop m)\<lparr>lm_gateway_mac_address := prior\<rparr>;
          a = (lm_active m)\<lparr>al_gateway_mac_address := prior, al_gateway_supports_unicast_arp := unicast\<rparr>
      in m\<lparr>lm_active := snd (Active_Start E kFastTestPeriodMilliseconds a)\<rparr>)"

definition OnActiveLinkMonitorFailure :: "link_monitor \<Rightarrow> link_monitor \<times> link_out list" where
  "OnActiveLinkMonitorFailure m = (LinkMonitor_Stop m, [LinkFailure])"

definition OnActiveLinkMonitorSuccess :: "link_env \<Rightarrow> link_monitor \<Rightarrow> link_monitor \<times> link_out list" where
  "OnActiveLinkMonitorSuccess E m =
     (let changed = \<not> Equals (lm_gateway_mac_address m) (al_gateway_mac_address (lm_active m));
          m = (if changed then m\<lparr>lm_gateway_mac_address := al_gateway_mac_address (lm_active m)\<rparr> else m)
      in (m\<lparr>lm_passive := snd (Passive_Start E kDefaultMonitorCycles (lm_passive m))\<rparr>,
          if changed then [GatewayChange] else []))"

definition OnPassiveLinkMonitorResultCallback :: "link_env \<Rightarrow> link_monitor \<Rightarrow> link_monitor" where
  "OnPassiveLinkMonitorResultCallback E m =
     m\<lparr>lm_active := snd (Active_Start E kDefaultTestPeriodMilliseconds (lm_active m))\<rparr>"

text \<open>What a monitor reports is handed to the link monitor, the owner of both.\<close>

definition deliver_active :: "link_env \<Rightarrow> link_monitor \<Rightarrow> active_monitor \<times> active_out option \<Rightarrow> link_monitor \<times> link_out list" where
  "deliver_active E m r =
     (case r of
        (a, None) \<Rightarrow> (m\<lparr>lm_active := a\<rparr>, [])
      | (a, Some ActiveSuccess) \<Rightarrow> OnActiveLinkMonitorSuccess E (m\<lparr>lm_active := a\<rparr>)
      | (a, Some (ActiveFailure _ _ _)) \<Rightarrow> OnActiveLinkMonitorFailure (m\<lparr>lm_active := a\<rparr>))"

datatype link_event =
    LinkSendRequest | LinkReceiveResponse "arp_packet option" | LinkReceiveRequest "arp_packet option"
  | LinkCycleTimeout | LinkPassiveCompleted

fun link_enabled :: "link_event \<Rightarrow> link_monitor \<Rightarrow> bool" where
  "link_enabled LinkSendRequest m = (al_pending (lm_active m) \<noteq> None)"
| "link_enabled (LinkReceiveResponse _) m = al_listening (lm_active m)"
| "link_enabled (LinkReceiveRequest _) m = pl_listening (lm_passive m)"
| "link_enabled LinkCycleTimeout m = (pl_cycle_timeout (lm_passive m) \<noteq> None)"
| "link_enabled LinkPassiveCompleted m = (pl_completed (lm_passive m) \<noteq> None)"

fun link_handle :: "link_env \<Rightarrow> link_event \<Rightarrow> link_monitor \<Rightarrow> link_monitor \<times> link_out list" where
  "link_handle E LinkSendRequest m =
     (case SendRequest E (lm_active m) of (a, out, _) \<Rightarrow> deliver_active E m (a, out))"
| "link_handle E (LinkReceiveResponse p) m = deliver_active E m (ReceiveResponse E p (lm_active m))"
| "link_handle E (LinkReceiveRequest p) m = (m\<lparr>lm_passive := ReceiveRequest p (lm_passive m)\<rparr>, [])"
| "link_handle E LinkCycleTimeout m = (m\<lparr>lm_passive := CycleTimeoutHandler E (lm_passive m)\<rparr>, [])"
| "link_handle E LinkPassiveCompleted m =
     (OnPassiveLinkMonitorResultCallback E (m\<lparr>lm_passive := fst (MonitorCompleted (lm_passive m))\<rparr>), [])"

end
