(* ===== verification/Link_Monitor_Proofs.thy ===== *)
theory Link_Monitor_Proofs
  imports Link_Monitor
begin

text \<open>
  Properties of the link monitors: the two monitors take turns and one of them is always at work, a dead
  link is noticed after a bounded number of unanswered requests, and the averaged response time stays
  within the range of the samples, far from overflow.
\<close>

subsection \<open>Taking turns\<close>

definition counts_ok :: "active_monitor \<Rightarrow> bool" where
  "counts_ok a \<longleftrightarrow> 0 \<le> al_broadcast_failure_count a \<and> 0 \<le> al_unicast_failure_count a \<and>
     al_broadcast_failure_count a + al_unicast_failure_count a < 5"

definition active_ok :: "active_monitor \<Rightarrow> bool" where
  "active_ok a \<longleftrightarrow> counts_ok a \<and> al_listening a = (al_pending a \<noteq> None) \<and>
     (al_sent_request_at a \<noteq> (0, 0) \<longrightarrow> al_pending a \<noteq> None)"

definition passive_idle :: "passive_monitor \<Rightarrow> bool" where
  "passive_idle p \<longleftrightarrow> \<not> pl_listening p \<and> pl_cycle_timeout p = None \<and> pl_completed p = None"

text \<open>Some timer or task of the monitors is posted.\<close>

definition watching :: "link_monitor \<Rightarrow> bool" where
  "watching m \<longleftrightarrow> al_pending (lm_active m) \<noteq> None \<or> pl_cycle_timeout (lm_passive m) \<noteq> None \<or>
     pl_completed (lm_passive m) \<noteq> None"

definition link_ok :: "link_monitor \<Rightarrow> bool" where
  "link_ok m \<longleftrightarrow> active_ok (lm_active m) \<and> (al_pending (lm_active m) = None \<or> passive_idle (lm_passive m)) \<and>
     (pl_cycle_timeout (lm_passive m) = None \<or> pl_completed (lm_passive m) = None) \<and>
     (pl_listening (lm_passive m) \<longrightarrow> pl_cycle_timeout (lm_passive m) \<noteq> None \<or> pl_completed (lm_passive m) \<noteq> None)"

lemmas active_defs = active_ok_def counts_ok_def StopMonitorCycle_def Active_Stop_def Let_def

lemma active_ok_Stop [simp]: "active_ok (Active_Stop a)" "al_pending (Active_Stop a) = None"
  by (simp_all add: active_defs)

lemma active_ok_cycle: "active_ok a \<Longrightarrow> active_ok (StopMonitorCycle a)"
  by (simp add: active_defs)

lemma active_ok_Start:
  assumes "active_ok a"
  shows "active_ok (snd (Active_Start E period a))"
    "fst (Active_Start E period a) = (le_mac_address E \<noteq> None \<and> le_listen_ok E)"
    "(al_pending (snd (Active_Start E period a)) \<noteq> None) = fst (Active_Start E period a)"
  using assms by (auto simp: Active_Start_def StartInternal_def active_defs split: option.splits)

lemma sample_simps [simp]:
  "al_broadcast_failure_count (AddResponseTimeSample t a) = al_broadcast_failure_count a"
  "al_unicast_failure_count (AddResponseTimeSample t a) = al_unicast_failure_count a"
  "al_is_unicast (AddResponseTimeSample t a) = al_is_unicast a"
  "al_gateway_supports_unicast_arp (AddResponseTimeSample t a) = al_gateway_supports_unicast_arp a"
  "al_pending (AddResponseTimeSample t a) = al_pending a"
  "al_listening (AddResponseTimeSample t a) = al_listening a"
  "al_sent_request_at (AddResponseTimeSample t a) = al_sent_request_at a"
  "al_gateway_mac_address (AddResponseTimeSample t a) = al_gateway_mac_address a"
  "al_test_period (AddResponseTimeSample t a) = al_test_period a"
  by (simp_all add: AddResponseTimeSample_def Let_def)

text \<open>How far the counters are from the threshold; every miss brings them closer.\<close>

definition slack :: "active_monitor \<Rightarrow> int" where
  "slack a = 2 * (5 - (al_broadcast_failure_count a + al_unicast_failure_count a)) + of_bool (al_is_unicast a)"

lemma slack_simps [simp]:
  "slack (a\<lparr>al_sent_request_at := t\<rparr>) = slack a" "slack (a\<lparr>al_pending := q\<rparr>) = slack a"
  "counts_ok (a\<lparr>al_sent_request_at := t\<rparr>) = counts_ok a" "counts_ok (a\<lparr>al_pending := q\<rparr>) = counts_ok a"
  "counts_ok (a\<lparr>al_is_unicast := b\<rparr>) = counts_ok a"
  by (simp_all add: slack_def counts_ok_def)

lemma slack_broadcast: "slack (a\<lparr>al_is_unicast := False\<rparr>) \<le> slack a"
  by (simp add: slack_def)

lemma AddMissedResponse_cases:
  assumes "counts_ok a"
  shows "case AddMissedResponse a of
    (a', None) \<Rightarrow> counts_ok a' \<and> slack a' < slack a \<and>
      al_listening a' = al_listening a \<and> al_gateway_mac_address a' = al_gateway_mac_address a
  | (a', Some out) \<Rightarrow> (\<exists>b. a' = Active_Stop b) \<and>
      (\<exists>bc uc. out = ActiveFailure kLinkMonitorFailureThresholdReached bc uc \<and> bc + uc \<ge> 5)"
  using assms
  by (auto simp: AddMissedResponse_def counts_ok_def slack_def Let_def kFailureThreshold_def)

lemma SendRequest_cases:
  assumes "active_ok a" "al_pending a \<noteq> None" "SendRequest E a = (a', out, req)"
  shows "case out of
    None \<Rightarrow> active_ok a' \<and> al_pending a' \<noteq> None \<and> al_sent_request_at a' = le_now E \<and>
      (al_sent_request_at a \<noteq> (0, 0) \<longrightarrow> slack a' < slack a)
  | Some out \<Rightarrow> (\<exists>b. a' = Active_Stop b) \<and> (\<exists>f bc uc. out = ActiveFailure f bc uc)"
proof -
  let ?b = "a\<lparr>al_pending := None\<rparr>"
  have c: "counts_ok ?b" "slack ?b = slack a" "al_listening ?b"
    using assms(1,2) by (simp_all add: active_ok_def counts_ok_def slack_def)
  obtain a1 missed where a1: "(if al_sent_request_at ?b \<noteq> (0, 0) then AddMissedResponse ?b else (?b, None)) = (a1, missed)"
    by (rule prod.exhaust)
  show ?thesis
  proof (cases missed)
    case None
    then have n: "counts_ok a1" "al_listening a1" "al_sent_request_at a \<noteq> (0, 0) \<longrightarrow> slack a1 < slack a"
      using a1 AddMissedResponse_cases [OF c(1)] c by (auto split: if_splits)
    show ?thesis
      using assms(3) a1 None n slack_broadcast [of a1]
      by (auto simp: SendRequest_def Let_def active_ok_def split: if_splits)
  next
    case (Some o1)
    then show ?thesis
      using assms(3) a1 AddMissedResponse_cases [OF c(1)]
      by (auto simp: SendRequest_def Let_def split: if_splits)
  qed
qed

lemma ReceiveResponse_cases:
  assumes "active_ok a" "ReceiveResponse E p a = (a', out)"
  shows "out = None \<and> a' = a \<or> out = Some ActiveSuccess \<and> active_ok a' \<and> al_pending a' = None"
  using assms
  by (auto simp: ReceiveResponse_def Let_def StopMonitorCycle_def active_ok_def counts_ok_def split: option.splits if_splits)

lemma link_ok_new: "link_ok LinkMonitor_new"
  by (simp add: link_ok_def LinkMonitor_new_def active_defs ActiveLinkMonitor_new_def PassiveLinkMonitor_new_def
      passive_idle_def)

lemma link_ok_Stop: "link_ok (LinkMonitor_Stop m)" "\<not> watching (LinkMonitor_Stop m)"
  by (simp_all add: link_ok_def LinkMonitor_Stop_def passive_idle_def Passive_Stop_def watching_def)

lemma link_ok_Start: "link_ok (snd (LinkMonitor_Start E m))"
  using active_ok_Start [of "Active_Stop (lm_active m)" E kDefaultTestPeriodMilliseconds] link_ok_Stop(1) [of m]
  by (simp add: LinkMonitor_Start_def Let_def split_def link_ok_def LinkMonitor_Stop_def passive_idle_def
      Passive_Stop_def)

lemma link_ok_resume: "link_ok (LinkMonitor_OnAfterResume E m)"
proof -
  let ?a = "(Active_Stop (lm_active m))\<lparr>al_gateway_mac_address := lm_gateway_mac_address m,
    al_gateway_supports_unicast_arp := al_gateway_supports_unicast_arp (lm_active m)\<rparr>"
  have "active_ok ?a" by (simp add: active_defs)
  from active_ok_Start [OF this, of E kFastTestPeriodMilliseconds] show ?thesis
    by (simp add: LinkMonitor_OnAfterResume_def Let_def link_ok_def LinkMonitor_Stop_def passive_idle_def
        Passive_Stop_def)
qed

lemma Passive_Start_facts:
  "pl_completed (snd (Passive_Start E n p)) = None"
  "(pl_cycle_timeout (snd (Passive_Start E n p)) \<noteq> None) = le_listen_ok E"
  "pl_listening (snd (Passive_Start E n p)) = le_listen_ok E"
  by (simp_all add: Passive_Start_def Passive_StartArpClient_def Passive_Stop_def)

lemma ReceiveRequest_facts:
  "pl_cycle_timeout (ReceiveRequest q p) = pl_cycle_timeout p" "pl_completed (ReceiveRequest q p) = pl_completed p"
  "pl_listening (ReceiveRequest q p) \<Longrightarrow> pl_listening p"
  by (simp_all add: ReceiveRequest_def Let_def split: option.splits if_splits)

lemma CycleTimeoutHandler_facts:
  "pl_completed p = None \<Longrightarrow>
     (pl_cycle_timeout (CycleTimeoutHandler E p) = None) = (pl_completed (CycleTimeoutHandler E p) \<noteq> None)"
  by (auto simp: CycleTimeoutHandler_def Passive_StartArpClient_def Let_def)

lemma link_handle_ok:
  assumes "link_ok m" "link_enabled ev m" "link_handle E ev m = (m', outs)"
  shows "link_ok m' \<and> (le_mac_address E \<noteq> None \<and> le_listen_ok E \<longrightarrow> (LinkFailure \<in> set outs \<longleftrightarrow> \<not> watching m'))"
proof (cases ev)
  case LinkSendRequest
  have a: "active_ok (lm_active m)" "al_pending (lm_active m) \<noteq> None" "passive_idle (lm_passive m)"
    using assms(1,2) LinkSendRequest by (auto simp: link_ok_def)
  obtain a' out req where r: "SendRequest E (lm_active m) = (a', out, req)" by (rule prod_cases3)
  show ?thesis
    using SendRequest_cases [OF a(1,2) r] assms(3) LinkSendRequest r a(3) link_ok_Stop [of "m\<lparr>lm_active := a'\<rparr>"]
    by (cases out) (auto simp: deliver_active_def OnActiveLinkMonitorFailure_def link_ok_def watching_def passive_idle_def)
next
  case (LinkReceiveResponse p)
  have a: "active_ok (lm_active m)" "al_pending (lm_active m) \<noteq> None" "passive_idle (lm_passive m)"
    using assms(1,2) LinkReceiveResponse by (auto simp: link_ok_def active_ok_def)
  obtain a' out where r: "ReceiveResponse E p (lm_active m) = (a', out)" by (rule prod.exhaust)
  consider "out = None" "a' = lm_active m" | "out = Some ActiveSuccess" "active_ok a'" "al_pending a' = None"
    using ReceiveResponse_cases [OF a(1) r] by auto
  then show ?thesis
  proof cases
    case 1
    then have "m' = m" "outs = []" using assms(3) LinkReceiveResponse r by (simp_all add: deliver_active_def)
    then show ?thesis using assms(1) a(2) by (simp add: watching_def)
  next
    case 2
    then have "m' = fst (OnActiveLinkMonitorSuccess E (m\<lparr>lm_active := a'\<rparr>))" "LinkFailure \<notin> set outs"
      using assms(3) LinkReceiveResponse r
      by (auto simp: deliver_active_def OnActiveLinkMonitorSuccess_def Let_def split: if_splits)
    then show ?thesis
      using 2 Passive_Start_facts [of E kDefaultMonitorCycles "lm_passive m"]
      by (auto simp: OnActiveLinkMonitorSuccess_def Let_def link_ok_def watching_def)
  qed
next
  case (LinkReceiveRequest q)
  have "pl_listening (lm_passive m)" using assms(2) LinkReceiveRequest by simp
  then have "al_pending (lm_active m) = None"
    "pl_cycle_timeout (lm_passive m) \<noteq> None \<or> pl_completed (lm_passive m) \<noteq> None"
    using assms(1) by (auto simp: link_ok_def passive_idle_def)
  then show ?thesis
    using assms(1,3) LinkReceiveRequest ReceiveRequest_facts(3) [of q "lm_passive m"]
    by (auto simp: link_ok_def watching_def ReceiveRequest_facts(1,2))
next
  case LinkCycleTimeout
  have t: "pl_cycle_timeout (lm_passive m) \<noteq> None" using assms(2) LinkCycleTimeout by simp
  then have "pl_completed (lm_passive m) = None" "al_pending (lm_active m) = None"
    using assms(1) by (auto simp: link_ok_def passive_idle_def)
  then show ?thesis
    using assms(1,3) LinkCycleTimeout CycleTimeoutHandler_facts [of "lm_passive m" E]
    by (auto simp: link_ok_def watching_def)
next
  case LinkPassiveCompleted
  have "active_ok (lm_active m)" using assms(1) by (simp add: link_ok_def)
  note start = active_ok_Start [OF this, of E kDefaultTestPeriodMilliseconds]
  show ?thesis
    using assms(3) LinkPassiveCompleted start
    by (auto simp: OnPassiveLinkMonitorResultCallback_def MonitorCompleted_def link_ok_def watching_def
        passive_idle_def Passive_Stop_def)
qed

inductive link_reach :: "link_monitor \<Rightarrow> bool" where
  created: "link_reach LinkMonitor_new"
| started: "link_reach m \<Longrightarrow> link_reach (snd (LinkMonitor_Start E m))"
| stopped: "link_reach m \<Longrightarrow> link_reach (LinkMonitor_Stop m)"
| resumed: "link_reach m \<Longrightarrow> link_reach (LinkMonitor_OnAfterResume E m)"
| event: "link_reach m \<Longrightarrow> link_enabled ev m \<Longrightarrow> link_handle E ev m = (m', outs) \<Longrightarrow> link_reach m'"

lemma link_ok_reach: "link_reach m \<Longrightarrow> link_ok m"
proof (induction rule: link_reach.induct)
  case (event m ev E m' outs)
  then show ?case using link_handle_ok by blast
qed (simp_all add: link_ok_new link_ok_Start link_ok_Stop(1) link_ok_resume)

text \<open>
  C29: the active and the passive monitor take turns: never are both at work. And the monitoring does not die
  silently: as long as the MAC address of the interface is known and ARP listeners can be started, every event
  leaves one of them at work unless the failure of the link is reported, and then both have stopped. Without
  these two conditions it can end silently: the result of \<open>PassiveLinkMonitor::Start\<close> is dropped, and when it
  fails nothing watches the link and no failure is reported (\<open>link_monitor_silent\<close>).
\<close>

theorem link_monitor_watches:
  assumes "link_reach m" "link_enabled ev m" "link_handle E ev m = (m', outs)"
    and "le_mac_address E \<noteq> None" "le_listen_ok E"
  shows "(al_pending (lm_active m') = None \<or>
      pl_cycle_timeout (lm_passive m') = None \<and> pl_completed (lm_passive m') = None \<and> \<not> pl_listening (lm_passive m')) \<and>
    (LinkFailure \<in> set outs \<longleftrightarrow> \<not> watching m')"
  using link_handle_ok [OF link_ok_reach [OF assms(1)] assms(2,3)] assms(4,5)
  by (auto simp: link_ok_def passive_idle_def)

definition demo_link_env :: link_env where
  "demo_link_env = \<lparr>le_mac_address = Some [1, 2, 3, 4, 5, 6], le_listen_ok = True, le_transmit_ok = True,
     le_local = IPAddress_bytes kFamilyIPv4 [10, 0, 0, 2], le_gateway = IPAddress_bytes kFamilyIPv4 [10, 0, 0, 1],
     le_now = (7, 0)\<rparr>"

lemma demo_link_started:
  "al_pending (lm_active (snd (LinkMonitor_Start demo_link_env LinkMonitor_new))) = Some 0"
  by (simp add: LinkMonitor_Start_def Active_Start_def StartInternal_def demo_link_env_def Let_def split_def)

theorem link_monitor_watches_witness:
  "case link_handle demo_link_env LinkSendRequest (snd (LinkMonitor_Start demo_link_env LinkMonitor_new)) of
     (m', outs) \<Rightarrow> LinkFailure \<in> set outs \<longleftrightarrow> \<not> watching m'"
proof -
  let ?m = "snd (LinkMonitor_Start demo_link_env LinkMonitor_new)"
  obtain m' outs where r: "link_handle demo_link_env LinkSendRequest ?m = (m', outs)" by (rule prod.exhaust)
  have "link_enabled LinkSendRequest ?m" by (simp add: demo_link_started)
  from link_monitor_watches [OF link_reach.started [OF link_reach.created] this r] r show ?thesis
    by (simp add: demo_link_env_def)
qed

text \<open>
  The start of the passive monitor can fail, and its result is dropped: then nothing watches the link any
  more and no failure is reported.
\<close>

lemma link_monitor_silent:
  assumes "ReceiveResponse E p (lm_active m) = (a, Some ActiveSuccess)" "\<not> le_listen_ok E"
    and "active_ok (lm_active m)"
  shows "\<not> watching (fst (link_handle E (LinkReceiveResponse p) m)) \<and>
    LinkFailure \<notin> set (snd (link_handle E (LinkReceiveResponse p) m))"
  using ReceiveResponse_cases [OF assms(3,1)] assms(1,2) Passive_Start_facts [of E kDefaultMonitorCycles "lm_passive m"]
  by (auto simp: deliver_active_def OnActiveLinkMonitorSuccess_def Let_def watching_def)

subsection \<open>Noticing a dead link\<close>

text \<open>Requests sent one period after the other, with no reply in between, until a failure is reported.\<close>

fun unanswered :: "link_env list \<Rightarrow> active_monitor \<Rightarrow> active_monitor \<times> active_out option" where
  "unanswered [] a = (a, None)"
| "unanswered (E # Es) a =
     (case SendRequest E a of
        (a, None, _) \<Rightarrow> unanswered Es a
      | (a, Some out, _) \<Rightarrow> (a, Some out))"

lemma slack_pos: "counts_ok a \<Longrightarrow> slack a \<ge> 2"
  by (auto simp: counts_ok_def slack_def)

lemma unanswered_slack:
  assumes "active_ok a" "al_pending a \<noteq> None" "al_sent_request_at a \<noteq> (0, 0)" "\<forall>E \<in> set Es. le_now E \<noteq> (0, 0)"
    and "unanswered Es a = (a', None)"
  shows "slack a \<ge> 2 + int (length Es)"
  using assms
proof (induction Es arbitrary: a)
  case Nil
  then show ?case using slack_pos by (simp add: active_ok_def)
next
  case (Cons E Es)
  obtain a1 out req where r: "SendRequest E a = (a1, out, req)" by (rule prod_cases3)
  then have "out = None" using Cons.prems(5) by (cases out) auto
  then have n: "active_ok a1" "al_pending a1 \<noteq> None" "al_sent_request_at a1 = le_now E" "slack a1 < slack a"
    using SendRequest_cases [OF Cons.prems(1,2) r] Cons.prems(3) by simp_all
  have "slack a1 \<ge> 2 + int (length Es)"
    using Cons.IH [OF n(1,2)] n(3) Cons.prems(4,5) r \<open>out = None\<close> by simp
  with n(4) show ?case by simp
qed

lemma unanswered_out: "snd (unanswered Es a) = Some out \<Longrightarrow> active_ok a \<Longrightarrow> al_pending a \<noteq> None \<Longrightarrow>
  \<exists>f bc uc. out = ActiveFailure f bc uc"
proof (induction Es arbitrary: a)
  case (Cons E Es)
  obtain a1 o1 req where r: "SendRequest E a = (a1, o1, req)" by (rule prod_cases3)
  then show ?case using Cons SendRequest_cases [OF Cons.prems(2,3) r] by (cases o1) auto
qed simp

text \<open>
  C28: a dead link is noticed. Once a request is out and nothing answers any more, the failure is reported after at
  most ten further periods, in every reachable state: also when unicast requests do not count because the
  gateway has not proved to answer them, and whatever was counted before.
\<close>

theorem link_failure_noticed:
  assumes "link_reach m" "al_sent_request_at (lm_active m) \<noteq> (0, 0)"
    and "length Es \<ge> 10" "\<forall>E \<in> set Es. le_now E \<noteq> (0, 0)"
  shows "\<exists>f bc uc. snd (unanswered Es (lm_active m)) = Some (ActiveFailure f bc uc)"
proof -
  have ok: "active_ok (lm_active m)" using link_ok_reach [OF assms(1)] by (simp add: link_ok_def)
  then have p: "al_pending (lm_active m) \<noteq> None" using assms(2) by (simp add: active_ok_def)
  have "slack (lm_active m) \<le> 11" using ok by (simp add: active_ok_def counts_ok_def slack_def)
  then have "snd (unanswered Es (lm_active m)) \<noteq> None"
    using unanswered_slack [OF ok p assms(2,4)] assms(3) by (cases "unanswered Es (lm_active m)") fastforce
  then show ?thesis using unanswered_out [OF _ ok p] by blast
qed

lemma SendRequest_first:
  "al_sent_request_at a = (0, 0) \<Longrightarrow> le_transmit_ok E \<Longrightarrow>
     \<exists>a' req. SendRequest E a = (a', None, req) \<and> al_sent_request_at a' = le_now E"
  by (simp add: SendRequest_def Let_def)

theorem link_failure_noticed_witness:
  "\<exists>f bc uc. snd (unanswered (replicate 10 demo_link_env)
     (lm_active (fst (link_handle demo_link_env LinkSendRequest
        (snd (LinkMonitor_Start demo_link_env LinkMonitor_new)))))) = Some (ActiveFailure f bc uc)"
proof -
  let ?m = "snd (LinkMonitor_Start demo_link_env LinkMonitor_new)"
  have "al_sent_request_at (lm_active ?m) = (0, 0)"
    by (simp add: LinkMonitor_Start_def Active_Start_def StartInternal_def demo_link_env_def Let_def split_def
        StopMonitorCycle_def)
  then obtain a1 req where send: "SendRequest demo_link_env (lm_active ?m) = (a1, None, req)"
      "al_sent_request_at a1 = le_now demo_link_env"
    using SendRequest_first [of "lm_active ?m" demo_link_env] by (auto simp: demo_link_env_def)
  obtain m' outs where r: "link_handle demo_link_env LinkSendRequest ?m = (m', outs)" by (rule prod.exhaust)
  have "link_enabled LinkSendRequest ?m" by (simp add: demo_link_started)
  then have "link_reach m'" using link_reach.event [OF link_reach.started [OF link_reach.created] _ r] by blast
  moreover have "al_sent_request_at (lm_active m') = (7, 0)"
    using r send by (auto simp: deliver_active_def demo_link_env_def)
  ultimately show ?thesis
    using link_failure_noticed [of m' "replicate 10 demo_link_env"] r by (simp add: demo_link_env_def)
qed

subsection \<open>The averaged response time\<close>

lemma quot_bounds: "0 \<le> a \<Longrightarrow> 0 < b \<Longrightarrow> a \<le> b * c \<Longrightarrow> 0 \<le> quot a b \<and> quot a b \<le> c"
  using zdiv_mono1 [of a "b * c" b] by (simp add: quot_def pos_imp_zdiv_nonneg_iff)

lemma sample_bounds:
  assumes "0 \<le> hi" "\<forall>s \<in> set samples. 0 \<le> s \<and> s \<le> hi"
    and "0 \<le> al_response_sample_bucket a" "al_response_sample_bucket a \<le> al_response_sample_count a * hi"
      "0 \<le> al_response_sample_count a" "al_response_sample_count a \<le> 5"
  shows "let b = foldl (\<lambda>a s. AddResponseTimeSample s a) a samples
    in 0 \<le> al_response_sample_bucket b \<and> al_response_sample_bucket b \<le> al_response_sample_count b * hi \<and>
       0 \<le> al_response_sample_count b \<and> al_response_sample_count b \<le> 5"
  using assms(2-)
proof (induction samples arbitrary: a)
  case (Cons s samples)
  let ?b = "AddResponseTimeSample s a"
  have s: "0 \<le> s" "s \<le> hi" using Cons.prems(1) by simp_all
  have "0 \<le> al_response_sample_bucket ?b \<and> al_response_sample_bucket ?b \<le> al_response_sample_count ?b * hi \<and>
      0 \<le> al_response_sample_count ?b \<and> al_response_sample_count ?b \<le> 5"
  proof (cases "al_response_sample_count a < 5")
    case True
    then show ?thesis
      using s Cons.prems(2-) by (simp add: AddResponseTimeSample_def kMaxResponseSampleFilterDepth_def Let_def
          distrib_right)
  next
    case False
    then have "al_response_sample_count a = 5" using Cons.prems(5) by simp
    then show ?thesis
      using s Cons.prems(2-) quot_bounds [of "(al_response_sample_bucket a + s) * 5" 6 "5 * hi"]
      by (simp add: AddResponseTimeSample_def kMaxResponseSampleFilterDepth_def Let_def)
  qed
  then show ?case using Cons.IH [of ?b] Cons.prems(1) by simp
qed simp

text \<open>
  The reported response time is never above the slowest sample nor negative, and neither is any intermediate
  sum larger than what a 32-bit integer holds, for samples up to twenty hours.
\<close>

theorem response_time_bounds:
  assumes "\<forall>s \<in> set samples. 0 \<le> s \<and> s \<le> hi" "0 \<le> hi" "hi \<le> 71000000"
  shows "let a = foldl (\<lambda>a s. AddResponseTimeSample s a) ActiveLinkMonitor_new samples
    in 0 \<le> GetResponseTimeMilliseconds a \<and> GetResponseTimeMilliseconds a \<le> hi \<and>
       (al_response_sample_bucket a + hi) * kMaxResponseSampleFilterDepth < 2 ^ 31"
proof -
  let ?a = "foldl (\<lambda>a s. AddResponseTimeSample s a) ActiveLinkMonitor_new samples"
  have b: "0 \<le> al_response_sample_bucket ?a" "al_response_sample_bucket ?a \<le> al_response_sample_count ?a * hi"
      "0 \<le> al_response_sample_count ?a" "al_response_sample_count ?a \<le> 5"
    using sample_bounds [OF assms(2,1), of ActiveLinkMonitor_new] by (simp_all add: ActiveLinkMonitor_new_def Let_def)
  have "al_response_sample_count ?a * hi \<le> 5 * hi" using b(4) assms(2) by (rule mult_right_mono)
  then have "(al_response_sample_bucket ?a + hi) * 5 < 2 ^ 31" using b(2) assms(3) by simp
  moreover have "0 \<le> GetResponseTimeMilliseconds ?a \<and> GetResponseTimeMilliseconds ?a \<le> hi"
    using quot_bounds [OF b(1) _ b(2)] b(3) assms(2) by (simp add: GetResponseTimeMilliseconds_def)
  ultimately show ?thesis by (simp add: Let_def kMaxResponseSampleFilterDepth_def)
qed

theorem response_time_bounds_witness:
  "let a = foldl (\<lambda>a s. AddResponseTimeSample s a) ActiveLinkMonitor_new [3, 9, 5000]
   in 0 \<le> GetResponseTimeMilliseconds a \<and> GetResponseTimeMilliseconds a \<le> 5000"
  using response_time_bounds [of "[3, 9, 5000]" 5000] by (simp add: Let_def)

end
