(* ===== verification/Rtnl_Message.thy ===== *)
theory Rtnl_Message
  imports IP_Address "HOL-Library.AList"
begin

text \<open>
  Model of \<open>net/rtnl_message.cc\<close>: messages of the kernel's route netlink, decoded from and encoded to
  bytes. The structures of \<open>linux/netlink.h\<close> and \<open>linux/rtnetlink.h\<close> are read and written at their
  offsets in host byte order; a read outside the buffer is the value \<open>None\<close>. The attributes of a
  message are an \<open>unordered_map\<close>: they are an association list with distinct keys here, and the order in which
  \<open>Encode\<close> meets them is an argument.
\<close>

subsection \<open>The message object\<close>

datatype rtnl_type = kTypeUnknown | kTypeLink | kTypeAddress | kTypeRoute | kTypeRdnss | kTypeDnssl | kTypeNeighbor

datatype rtnl_mode = kModeUnknown | kModeGet | kModeAdd | kModeDelete | kModeQuery

record link_status =
  ls_type :: u32
  ls_flags :: u32
  ls_change :: u32

record address_status =
  as_prefix_len :: u8
  as_flags :: u8
  as_scope :: u8

record route_status =
  rs_dst_prefix :: u8
  rs_src_prefix :: u8
  rs_table :: u8
  rs_protocol :: u8
  rs_scope :: u8
  rs_type :: u8
  rs_flags :: u8

record neighbor_status =
  ns_state :: u16
  ns_flags :: u8
  ns_type :: u8

record rdnss_option =
  rd_lifetime :: u32
  rd_addresses :: "ip_addr list"

definition LinkStatus_new :: link_status where
  "LinkStatus_new = \<lparr>ls_type = 0, ls_flags = 0, ls_change = 0\<rparr>"

definition AddressStatus_new :: address_status where
  "AddressStatus_new = \<lparr>as_prefix_len = 0, as_flags = 0, as_scope = 0\<rparr>"

definition RouteStatus_new :: route_status where
  "RouteStatus_new = \<lparr>rs_dst_prefix = 0, rs_src_prefix = 0, rs_table = 0, rs_protocol = 0, rs_scope = 0,
     rs_type = 0, rs_flags = 0\<rparr>"

definition NeighborStatus_new :: neighbor_status where
  "NeighborStatus_new = \<lparr>ns_state = 0, ns_flags = 0, ns_type = 0\<rparr>"

definition RdnssOption_new :: rdnss_option where
  "RdnssOption_new = \<lparr>rd_lifetime = 0, rd_addresses = []\<rparr>"

type_synonym attributes = "(u16 \<times> byte_string) list"

record rtnl_message =
  rm_type :: rtnl_type
  rm_mode :: rtnl_mode
  rm_flags :: u16
  rm_seq :: u32
  rm_pid :: u32
  rm_interface_index :: u32
  rm_family :: family
  rm_link_status :: link_status
  rm_address_status :: address_status
  rm_route_status :: route_status
  rm_neighbor_status :: neighbor_status
  rm_rdnss_option :: rdnss_option
  rm_attributes :: attributes

text \<open>The constructors. The flags are an \<open>unsigned int\<close> kept in 16 bits, and an \<open>int\<close> index its 32 bits.\<close>

definition RTNLMessage_new :: "rtnl_type \<Rightarrow> rtnl_mode \<Rightarrow> u32 \<Rightarrow> u32 \<Rightarrow> u32 \<Rightarrow> u32 \<Rightarrow> family \<Rightarrow> rtnl_message" where
  "RTNLMessage_new ty md flags sequence pid interface_index fam =
     \<lparr>rm_type = ty, rm_mode = md, rm_flags = ucast flags, rm_seq = sequence, rm_pid = pid,
      rm_interface_index = interface_index, rm_family = fam, rm_link_status = LinkStatus_new,
      rm_address_status = AddressStatus_new, rm_route_status = RouteStatus_new,
      rm_neighbor_status = NeighborStatus_new, rm_rdnss_option = RdnssOption_new, rm_attributes = []\<rparr>"

definition RTNLMessage_empty :: rtnl_message where
  "RTNLMessage_empty = RTNLMessage_new kTypeUnknown kModeUnknown 0 0 0 0 kFamilyUnknown"

definition HasAttribute :: "rtnl_message \<Rightarrow> u16 \<Rightarrow> bool" where
  "HasAttribute m k = (map_of (rm_attributes m) k \<noteq> None)"

definition GetAttribute :: "rtnl_message \<Rightarrow> u16 \<Rightarrow> byte_string" where
  "GetAttribute m k = (case map_of (rm_attributes m) k of Some v \<Rightarrow> v | None \<Rightarrow> [])"

definition SetAttribute :: "rtnl_message \<Rightarrow> u16 \<Rightarrow> byte_string \<Rightarrow> rtnl_message" where
  "SetAttribute m k v = m\<lparr>rm_attributes := AList.update k v (rm_attributes m)\<rparr>"

definition Rtnl_Reset :: "rtnl_message \<Rightarrow> rtnl_message" where
  "Rtnl_Reset m = m\<lparr>rm_mode := kModeUnknown, rm_type := kTypeUnknown, rm_flags := 0, rm_seq := 0, rm_pid := 0,
     rm_interface_index := 0, rm_family := kFamilyUnknown, rm_link_status := LinkStatus_new,
     rm_address_status := AddressStatus_new, rm_route_status := RouteStatus_new, rm_attributes := []\<rparr>"

subsection \<open>Netlink constants and macros\<close>

definition RTM_NEWLINK :: u16 where "RTM_NEWLINK = 16"
definition RTM_DELLINK :: u16 where "RTM_DELLINK = 17"
definition RTM_GETLINK :: u16 where "RTM_GETLINK = 18"
definition RTM_NEWADDR :: u16 where "RTM_NEWADDR = 20"
definition RTM_DELADDR :: u16 where "RTM_DELADDR = 21"
definition RTM_GETADDR :: u16 where "RTM_GETADDR = 22"
definition RTM_NEWROUTE :: u16 where "RTM_NEWROUTE = 24"
definition RTM_DELROUTE :: u16 where "RTM_DELROUTE = 25"
definition RTM_GETROUTE :: u16 where "RTM_GETROUTE = 26"
definition RTM_NEWNEIGH :: u16 where "RTM_NEWNEIGH = 28"
definition RTM_DELNEIGH :: u16 where "RTM_DELNEIGH = 29"
definition RTM_GETNEIGH :: u16 where "RTM_GETNEIGH = 30"
definition RTM_NEWNDUSEROPT :: u16 where "RTM_NEWNDUSEROPT = 68"

definition NLM_F_REQUEST :: u16 where "NLM_F_REQUEST = 1"
definition NLM_F_DUMP :: u16 where "NLM_F_DUMP = 0x300"

definition ND_OPT_RDNSS :: u8 where "ND_OPT_RDNSS = 25"
definition ND_OPT_DNSSL :: u8 where "ND_OPT_DNSSL = 31"

text \<open>The sizes of \<open>nlmsghdr\<close>, \<open>rtattr\<close>, \<open>NDUserOptionHeader\<close> and of the members of the union.\<close>

abbreviation (input) "sizeof_nlmsghdr \<equiv> 16 :: nat"
abbreviation (input) "sizeof_rtattr \<equiv> 4 :: nat"
abbreviation (input) "sizeof_ifinfomsg \<equiv> 16 :: nat"
abbreviation (input) "sizeof_ifaddrmsg \<equiv> 8 :: nat"
abbreviation (input) "sizeof_rtmsg \<equiv> 12 :: nat"
abbreviation (input) "sizeof_ndmsg \<equiv> 12 :: nat"
abbreviation (input) "sizeof_nduseroptmsg \<equiv> 16 :: nat"
abbreviation (input) "sizeof_NDUserOptionHeader \<equiv> 8 :: nat"

text \<open>\<open>NLMSG_ALIGN\<close> and \<open>RTA_ALIGN\<close> round up to four bytes.\<close>

definition align4 :: "nat \<Rightarrow> nat" where
  "align4 n = (n + 3) div 4 * 4"

abbreviation (input) "NLMSG_LENGTH n \<equiv> n + sizeof_nlmsghdr"
abbreviation (input) "RTA_LENGTH n \<equiv> n + sizeof_rtattr"

text \<open>\<open>NLMSG_PAYLOAD\<close> is computed in unsigned arithmetic and stored in an \<open>int\<close>.\<close>

definition NLMSG_PAYLOAD :: "u32 \<Rightarrow> nat \<Rightarrow> int" where
  "NLMSG_PAYLOAD nlmsg_len n = sint (nlmsg_len - of_nat (align4 (NLMSG_LENGTH n)))"

text \<open>Reads through a pointer into a buffer.\<close>

definition read_mem :: "nat \<Rightarrow> nat \<Rightarrow> bytes \<Rightarrow> bytes option" where
  "read_mem off n p = (if off + n \<le> length p then Some (take n (drop off p)) else None)"

definition read_u8 :: "nat \<Rightarrow> bytes \<Rightarrow> u8 option" where
  "read_u8 off p = map_option hd (read_mem off 1 p)"

definition read_u16 :: "endian \<Rightarrow> nat \<Rightarrow> bytes \<Rightarrow> u16 option" where
  "read_u16 e off p = map_option (load16 e) (read_mem off 2 p)"

definition read_u32 :: "endian \<Rightarrow> nat \<Rightarrow> bytes \<Rightarrow> u32 option" where
  "read_u32 e off p = map_option (load32 e) (read_mem off 4 p)"

subsection \<open>Decoding\<close>

text \<open>
  The decoder of each message body returns whether it succeeded, the object, and the two output parameters
  \<open>attr_data\<close> (an offset, \<open>None\<close> for the null pointer) and \<open>attr_length\<close>.
\<close>

type_synonym decoded = "bool \<times> rtnl_message \<times> nat option \<times> int"

definition DecodeLink :: "endian \<Rightarrow> bytes \<Rightarrow> rtnl_mode \<Rightarrow> rtnl_message \<Rightarrow> decoded option" where
  "DecodeLink e p md m = do {
     len \<leftarrow> read_u32 e 0 p;
     if unat len < NLMSG_LENGTH sizeof_ifinfomsg then Some (False, m, None, 0)
     else do {
       fam \<leftarrow> read_u8 16 p;
       ty \<leftarrow> read_u16 e 18 p;
       index \<leftarrow> read_u32 e 20 p;
       flags \<leftarrow> read_u32 e 24 p;
       change \<leftarrow> read_u32 e 28 p;
       Some (True,
         m\<lparr>rm_mode := md, rm_type := kTypeLink, rm_family := fam, rm_interface_index := index,
           rm_link_status := \<lparr>ls_type = ucast ty, ls_flags = flags, ls_change = change\<rparr>\<rparr>,
         Some (align4 (NLMSG_LENGTH sizeof_ifinfomsg)), NLMSG_PAYLOAD len sizeof_ifinfomsg)
     }
   }"

definition DecodeAddress :: "endian \<Rightarrow> bytes \<Rightarrow> rtnl_mode \<Rightarrow> rtnl_message \<Rightarrow> decoded option" where
  "DecodeAddress e p md m = do {
     len \<leftarrow> read_u32 e 0 p;
     if unat len < NLMSG_LENGTH sizeof_ifaddrmsg then Some (False, m, None, 0)
     else do {
       fam \<leftarrow> read_u8 16 p;
       prefix_len \<leftarrow> read_u8 17 p;
       flags \<leftarrow> read_u8 18 p;
       scope \<leftarrow> read_u8 19 p;
       index \<leftarrow> read_u32 e 20 p;
       Some (True,
         m\<lparr>rm_mode := md, rm_type := kTypeAddress, rm_family := fam, rm_interface_index := index,
           rm_address_status := \<lparr>as_prefix_len = prefix_len, as_flags = flags, as_scope = scope\<rparr>\<rparr>,
         Some (align4 (NLMSG_LENGTH sizeof_ifaddrmsg)), NLMSG_PAYLOAD len sizeof_ifaddrmsg)
     }
   }"

definition DecodeRoute :: "endian \<Rightarrow> bytes \<Rightarrow> rtnl_mode \<Rightarrow> rtnl_message \<Rightarrow> decoded option" where
  "DecodeRoute e p md m = do {
     len \<leftarrow> read_u32 e 0 p;
     if unat len < NLMSG_LENGTH sizeof_rtmsg then Some (False, m, None, 0)
     else do {
       fam \<leftarrow> read_u8 16 p;
       dst_len \<leftarrow> read_u8 17 p;
       src_len \<leftarrow> read_u8 18 p;
       table \<leftarrow> read_u8 20 p;
       protocol \<leftarrow> read_u8 21 p;
       scope \<leftarrow> read_u8 22 p;
       ty \<leftarrow> read_u8 23 p;
       flags \<leftarrow> read_u32 e 24 p;
       Some (True,
         m\<lparr>rm_mode := md, rm_type := kTypeRoute, rm_family := fam,
           rm_route_status := \<lparr>rs_dst_prefix = dst_len, rs_src_prefix = src_len, rs_table = table,
             rs_protocol = protocol, rs_scope = scope, rs_type = ty, rs_flags = ucast flags\<rparr>\<rparr>,
         Some (align4 (NLMSG_LENGTH sizeof_rtmsg)), NLMSG_PAYLOAD len sizeof_rtmsg)
     }
   }"

definition DecodeNeighbor :: "endian \<Rightarrow> bytes \<Rightarrow> rtnl_mode \<Rightarrow> rtnl_message \<Rightarrow> decoded option" where
  "DecodeNeighbor e p md m = do {
     len \<leftarrow> read_u32 e 0 p;
     if unat len < NLMSG_LENGTH sizeof_ndmsg then Some (False, m, None, 0)
     else do {
       index \<leftarrow> read_u32 e 20 p;
       fam \<leftarrow> read_u8 16 p;
       state \<leftarrow> read_u16 e 24 p;
       flags \<leftarrow> read_u8 26 p;
       ty \<leftarrow> read_u8 27 p;
       Some (True,
         m\<lparr>rm_mode := md, rm_interface_index := index, rm_family := fam, rm_type := kTypeNeighbor,
           rm_neighbor_status := \<lparr>ns_state = state, ns_flags = flags, ns_type = ty\<rparr>\<rparr>,
         Some (align4 (NLMSG_LENGTH sizeof_rtmsg)), NLMSG_PAYLOAD len sizeof_rtmsg)
     }
   }"

text \<open>
  \<open>ParseRdnssOption\<close>: \<open>off\<close> is the offset of \<open>data\<close> in the buffer. The loop runs while \<open>0 < length\<close>.
\<close>

function rdnss_addresses :: "bytes \<Rightarrow> nat \<Rightarrow> int \<Rightarrow> ip_addr list option" where
  "rdnss_addresses p off len =
     (if len > 0 then do {
        a \<leftarrow> read_mem off (GetAddressLength kFamilyIPv6) p;
        rest \<leftarrow> rdnss_addresses p (off + GetAddressLength kFamilyIPv6) (len - int (GetAddressLength kFamilyIPv6));
        Some (IPAddress_bytes kFamilyIPv6 a # rest)
      } else Some [])"
  by pat_completeness auto
termination
  by (relation "measure (\<lambda>(p, off, len). nat len)") (auto simp: GetAddressLength_def kFamilyIPv6_def kFamilyIPv4_def)

declare rdnss_addresses.simps [simp del]

definition ParseRdnssOption :: "bytes \<Rightarrow> nat \<Rightarrow> int \<Rightarrow> u32 \<Rightarrow> rtnl_message \<Rightarrow> (bool \<times> rtnl_message) option" where
  "ParseRdnssOption p off len lifetime m =
     (if len mod int (GetAddressLength kFamilyIPv6) \<noteq> 0 then Some (False, m)
      else do {
        addrs \<leftarrow> rdnss_addresses p off len;
        Some (True, m\<lparr>rm_rdnss_option := \<lparr>rd_lifetime = lifetime, rd_addresses = addrs\<rparr>\<rparr>)
      })"

definition DecodeNdUserOption :: "endian \<Rightarrow> bytes \<Rightarrow> rtnl_mode \<Rightarrow> rtnl_message \<Rightarrow> decoded option" where
  "DecodeNdUserOption e p md m = do {
     len \<leftarrow> read_u32 e 0 p;
     if unat len < NLMSG_LENGTH sizeof_nduseroptmsg then Some (False, m, None, 0)
     else do {
       index \<leftarrow> read_u32 e 20 p;
       fam \<leftarrow> read_u8 16 p;
       let m = m\<lparr>rm_mode := md, rm_interface_index := index, rm_family := fam\<rparr>;
       if fam \<noteq> kFamilyIPv6 then Some (False, m, None, 0)
       else do {
         opts_len \<leftarrow> read_u16 e 18 p;
         if unat opts_len < sizeof_NDUserOptionHeader then Some (False, m, None, 0)
         else do {
           lifetime \<leftarrow> read_u32 e 36 p;
           units \<leftarrow> read_u8 33 p;
           if unat units * 8 \<noteq> unat opts_len then Some (False, m, None, 0)
           else do {
             ty \<leftarrow> read_u8 32 p;
             if ty = ND_OPT_DNSSL then Some (True, m\<lparr>rm_type := kTypeDnssl\<rparr>, None, 0)
             else if ty = ND_OPT_RDNSS then do {
               (ret, m) \<leftarrow> ParseRdnssOption p 40 (int (unat units * 8) - int sizeof_NDUserOptionHeader)
                             (ntohl e lifetime) (m\<lparr>rm_type := kTypeRdnss\<rparr>);
               Some (ret, m, None, 0)
             }
             else Some (False, m, None, 0)
           }
         }
       }
     }
   }"

text \<open>The loop over the attributes: \<open>RTA_OK\<close>, \<open>SetAttribute\<close>, \<open>RTA_NEXT\<close>.\<close>

function decode_attributes ::
    "endian \<Rightarrow> bytes \<Rightarrow> nat \<Rightarrow> int \<Rightarrow> rtnl_message \<Rightarrow> (rtnl_message \<times> int) option" where
  "decode_attributes e p off attr_length m =
     (if attr_length < int sizeof_rtattr then Some (m, attr_length)
      else do {
        rta_len \<leftarrow> read_u16 e off p;
        if unat rta_len < sizeof_rtattr \<or> int (unat rta_len) > attr_length then Some (m, attr_length)
        else do {
          rta_type \<leftarrow> read_u16 e (off + 2) p;
          v \<leftarrow> read_mem (off + 4) (unat rta_len - RTA_LENGTH 0) p;
          decode_attributes e p (off + align4 (unat rta_len)) (attr_length - int (align4 (unat rta_len)))
            (SetAttribute m rta_type v)
        }
      })"
  by pat_completeness auto
termination
  by (relation "measure (\<lambda>(e, p, off, len, m). nat len)") (auto simp: align4_def)

declare decode_attributes.simps [simp del]

text \<open>The two \<open>switch\<close> statements on \<open>nlmsg_type\<close>.\<close>

definition body_decoder ::
    "u16 \<Rightarrow> endian \<Rightarrow> bytes \<Rightarrow> rtnl_mode \<Rightarrow> rtnl_message \<Rightarrow> decoded option" where
  "body_decoder ty =
     (if ty \<in> {RTM_NEWLINK, RTM_DELLINK} then DecodeLink
      else if ty \<in> {RTM_NEWADDR, RTM_DELADDR} then DecodeAddress
      else if ty \<in> {RTM_NEWROUTE, RTM_DELROUTE} then DecodeRoute
      else if ty = RTM_NEWNDUSEROPT then DecodeNdUserOption
      else DecodeNeighbor)"

definition mode_of :: "u16 \<Rightarrow> rtnl_mode" where
  "mode_of ty =
     (if ty \<in> {RTM_NEWLINK, RTM_NEWADDR, RTM_NEWROUTE, RTM_NEWNDUSEROPT, RTM_NEWNEIGH} then kModeAdd
      else if ty \<in> {RTM_DELLINK, RTM_DELADDR, RTM_DELROUTE, RTM_DELNEIGH} then kModeDelete
      else kModeUnknown)"

definition DecodeInternal :: "endian \<Rightarrow> bytes \<Rightarrow> rtnl_message \<Rightarrow> (bool \<times> rtnl_message) option" where
  "DecodeInternal e p m =
     (if GetLength p < sizeof_nlmsghdr then Some (False, m)
      else do {
        len \<leftarrow> read_u32 e 0 p;
        if GetLength p < unat len then Some (False, m)
        else do {
          ty \<leftarrow> read_u16 e 4 p;
          flags \<leftarrow> read_u16 e 6 p;
          sequence \<leftarrow> read_u32 e 8 p;
          pid \<leftarrow> read_u32 e 12 p;
          let md = mode_of ty;
          if md = kModeUnknown then Some (False, m)
          else do {
            (ret, m, attr_data, attr_length) \<leftarrow> body_decoder ty e p md m;
            if \<not> ret then Some (False, m)
            else do {
              let m = m\<lparr>rm_flags := flags, rm_seq := sequence, rm_pid := pid\<rparr>;
              (m, attr_length) \<leftarrow>
                (case attr_data of
                   None \<Rightarrow> Some (m, attr_length)
                 | Some off \<Rightarrow> decode_attributes e p off attr_length m);
              if attr_length \<noteq> 0 then Some (False, m\<lparr>rm_attributes := []\<rparr>)
              else Some (True, m)
            }
          }
        }
      })"

definition Rtnl_Decode :: "endian \<Rightarrow> bytes \<Rightarrow> rtnl_message \<Rightarrow> (bool \<times> rtnl_message) option" where
  "Rtnl_Decode e p m = do {
     (ret, m) \<leftarrow> DecodeInternal e p m;
     Some (ret, if ret then m else Rtnl_Reset m)
   }"

subsection \<open>Encoding\<close>

text \<open>
  The request codes per type. The body of a message follows its header in the union of \<open>RTNLHeader\<close>, which
  is zero where nothing is stored. \<open>encode_body\<close> is \<open>nlmsg_type\<close>, the flags and the body that \<open>Encode\<close>
  fills in; \<open>None\<close> when the message cannot be sent.
\<close>

definition EncodeLink :: "endian \<Rightarrow> rtnl_message \<Rightarrow> (u16 \<times> bytes) option" where
  "EncodeLink e m =
     (let body = [rm_family m, 0] @ mem16 e (ucast (ls_type (rm_link_status m))) @ mem32 e (rm_interface_index m)
          @ mem32 e (ls_flags (rm_link_status m)) @ mem32 e (ls_change (rm_link_status m))
      in case rm_mode m of
           kModeAdd \<Rightarrow> Some (RTM_NEWLINK, body)
         | kModeDelete \<Rightarrow> Some (RTM_DELLINK, body)
         | kModeQuery \<Rightarrow> Some (RTM_GETLINK, body)
         | _ \<Rightarrow> None)"

definition EncodeAddress :: "endian \<Rightarrow> rtnl_message \<Rightarrow> (u16 \<times> bytes) option" where
  "EncodeAddress e m =
     (let body = [rm_family m, as_prefix_len (rm_address_status m), as_flags (rm_address_status m),
            as_scope (rm_address_status m)] @ mem32 e (rm_interface_index m)
      in case rm_mode m of
           kModeAdd \<Rightarrow> Some (RTM_NEWADDR, body)
         | kModeDelete \<Rightarrow> Some (RTM_DELADDR, body)
         | kModeQuery \<Rightarrow> Some (RTM_GETADDR, body)
         | _ \<Rightarrow> None)"

definition EncodeRoute :: "endian \<Rightarrow> rtnl_message \<Rightarrow> (u16 \<times> bytes) option" where
  "EncodeRoute e m =
     (let s = rm_route_status m;
          body = [rm_family m, rs_dst_prefix s, rs_src_prefix s, 0, rs_table s, rs_protocol s, rs_scope s, rs_type s]
            @ mem32 e (ucast (rs_flags s))
      in case rm_mode m of
           kModeAdd \<Rightarrow> Some (RTM_NEWROUTE, body)
         | kModeDelete \<Rightarrow> Some (RTM_DELROUTE, body)
         | kModeQuery \<Rightarrow> Some (RTM_GETROUTE, body)
         | _ \<Rightarrow> None)"

definition EncodeNeighbor :: "endian \<Rightarrow> rtnl_message \<Rightarrow> (u16 \<times> bytes) option" where
  "EncodeNeighbor e m =
     (let s = rm_neighbor_status m;
          body = [rm_family m, 0, 0, 0] @ mem32 e (rm_interface_index m) @ mem16 e (ns_state s) @ [ns_flags s, ns_type s]
      in case rm_mode m of
           kModeAdd \<Rightarrow> Some (RTM_NEWNEIGH, body)
         | kModeDelete \<Rightarrow> Some (RTM_DELNEIGH, body)
         | kModeQuery \<Rightarrow> Some (RTM_GETNEIGH, body)
         | _ \<Rightarrow> None)"

definition encode_body :: "endian \<Rightarrow> rtnl_message \<Rightarrow> (u16 \<times> u16 \<times> bytes) option" where
  "encode_body e m =
     (if rm_type m \<notin> {kTypeLink, kTypeAddress, kTypeRoute, kTypeNeighbor} then None
      else if rm_mode m = kModeGet then
        Some (if rm_type m = kTypeLink then RTM_GETLINK
              else if rm_type m = kTypeAddress then RTM_GETADDR
              else if rm_type m = kTypeRoute then RTM_GETROUTE
              else RTM_GETNEIGH,
              NLM_F_REQUEST OR NLM_F_DUMP, [rm_family m])
      else map_option (\<lambda>(ty, body). (ty, rm_flags m, body))
        (case rm_type m of
           kTypeLink \<Rightarrow> EncodeLink e m
         | kTypeAddress \<Rightarrow> EncodeAddress e m
         | kTypeRoute \<Rightarrow> EncodeRoute e m
         | _ \<Rightarrow> EncodeNeighbor e m))"

text \<open>One attribute: its header and its padded value; and \<open>nlmsg_len\<close> after it.\<close>

definition encode_attribute :: "endian \<Rightarrow> u16 \<times> byte_string \<Rightarrow> bytes" where
  "encode_attribute e a =
     (let header = mem16 e (of_nat (RTA_LENGTH (GetLength (snd a)))) @ mem16 e (fst a)
      in Resize header (align4 (GetLength header)) @ Resize (snd a) (align4 (GetLength (snd a))))"

definition add_attribute_length :: "u32 \<Rightarrow> u16 \<times> byte_string \<Rightarrow> u32" where
  "add_attribute_length nlmsg_len a =
     of_nat (align4 (unat nlmsg_len) + align4 (RTA_LENGTH (GetLength (snd a))))"

text \<open>\<open>order\<close> is the order in which the map is traversed; the empty result is a failure.\<close>

definition Rtnl_Encode :: "endian \<Rightarrow> (attributes \<Rightarrow> attributes) \<Rightarrow> rtnl_message \<Rightarrow> byte_string" where
  "Rtnl_Encode e order m =
     (case encode_body e m of
        None \<Rightarrow> []
      | Some (ty, flags, body) \<Rightarrow>
          let attrs = order (rm_attributes m);
              nlmsg_len = foldl add_attribute_length (of_nat (NLMSG_LENGTH (length body))) attrs
          in mem32 e nlmsg_len @ mem16 e ty @ mem16 e flags @ mem32 e (rm_seq m) @ mem32 e (rm_pid m) @ body
             @ concat (map (encode_attribute e) attrs))"

subsection \<open>Decoding what was encoded\<close>

lemma unat_small: "n < 2 ^ LENGTH('a) \<Longrightarrow> unat (of_nat n :: 'a :: len word) = n"
  by (simp add: unsigned_of_nat take_bit_nat_eq_self_iff)

lemma sint_small: "n < 2 ^ 31 \<Longrightarrow> sint (of_nat n :: u32) = int n"
  by (simp add: signed_of_nat signed_take_bit_int_eq_self)

lemma read_mem_append_skip [simp]: "length a \<le> off \<Longrightarrow> read_mem off n (a @ b) = read_mem (off - length a) n b"
  by (auto simp: read_mem_def)

lemma read_mem_append_here: "off + n \<le> length a \<Longrightarrow> read_mem off n (a @ b) = read_mem off n a"
  by (auto simp: read_mem_def)

lemma read_mem_Cons_skip [simp]: "0 < off \<Longrightarrow> read_mem off n (x # b) = read_mem (off - 1) n b"
  by (cases off) (auto simp: read_mem_def)

lemma read_mem_whole: "length a = n \<Longrightarrow> read_mem 0 n (a @ b) = Some a"
  by (auto simp: read_mem_def)

lemma read_u32_skip [simp]:
  "length a \<le> off \<Longrightarrow> read_u32 e off (a @ b) = read_u32 e (off - length a) b"
  "0 < off \<Longrightarrow> read_u32 e off (x # b) = read_u32 e (off - 1) b"
  by (simp_all add: read_u32_def)

lemma read_u32_mem32 [simp]: "read_u32 e 0 (mem32 e w @ b) = Some w" "read_u32 e 0 (mem32 e w) = Some w"
  using read_mem_whole [of "mem32 e w" 4 "[]"] by (simp_all add: read_u32_def read_mem_whole)

lemma read_u16_skip [simp]:
  "length a \<le> off \<Longrightarrow> read_u16 e off (a @ b) = read_u16 e (off - length a) b"
  "0 < off \<Longrightarrow> read_u16 e off (x # b) = read_u16 e (off - 1) b"
  by (simp_all add: read_u16_def)

lemma read_u16_mem16 [simp]: "read_u16 e 0 (mem16 e w @ b) = Some w"
  by (simp add: read_u16_def read_mem_whole)

lemma read_u8_skip [simp]:
  "length a \<le> off \<Longrightarrow> read_u8 off (a @ b) = read_u8 (off - length a) b"
  "0 < off \<Longrightarrow> read_u8 off (x # b) = read_u8 (off - 1) b"
  by (simp_all add: read_u8_def)

lemma read_u8_here [simp]: "read_u8 0 (x # b) = Some x"
  by (simp add: read_u8_def read_mem_def)

lemma align4_ge: "n \<le> align4 n" "align4 n < n + 4" "4 dvd align4 n"
  unfolding align4_def by presburger+

lemma align4_add4: "align4 (4 + n) = 4 + align4 n" "align4 (n + 4) = align4 n + 4"
  unfolding align4_def by presburger+

lemma align4_id: "4 dvd n \<Longrightarrow> align4 n = n"
  by (auto simp: align4_def elim!: dvdE)

lemma length_Resize_ge: "length a \<le> n \<Longrightarrow> Resize a n = a @ replicate (n - length a) 0"
  by (simp add: Resize_def GetLength_def)

lemma encode_attribute_eq:
  "encode_attribute e (k, v) =
     mem16 e (of_nat (length v + 4)) @ mem16 e k @ v @ replicate (align4 (length v) - length v) 0"
  by (simp add: encode_attribute_def length_Resize_ge align4_ge(1) GetLength_def align4_id Let_def)

lemma length_encode_attribute [simp]: "length (encode_attribute e a) = align4 (length (snd a)) + 4"
  by (cases a) (simp add: encode_attribute_eq align4_ge(1))

definition attribute_fits :: "u16 \<times> byte_string \<Rightarrow> bool" where
  "attribute_fits a \<longleftrightarrow> length (snd a) + 4 < 2 ^ 16"

lemma decode_attributes_encoded:
  assumes "\<forall>a \<in> set attrs. attribute_fits a" "off = length pre"
    "len = int (length (concat (map (encode_attribute e) attrs)))"
  shows "decode_attributes e (pre @ concat (map (encode_attribute e) attrs)) off len m =
     Some (fold (\<lambda>(k, v) m. SetAttribute m k v) attrs m, 0)"
  using assms
proof (induction attrs arbitrary: pre off len m)
  case Nil
  then show ?case by (simp add: decode_attributes.simps)
next
  case (Cons a attrs)
  obtain k v where a: "a = (k, v)" by (cases a)
  let ?rest = "concat (map (encode_attribute e) attrs)"
  obtain L :: u16 where L: "L = of_nat (length v + 4)" by simp
  have unat_L: "unat L = length v + 4"
    unfolding L using Cons.prems(1) by (intro unat_small) (simp add: a attribute_fits_def)
  have uint_L: "uint L = int (length v) + 4" using arg_cong [OF unat_L, of int] by simp
  have enc: "encode_attribute e a = mem16 e L @ mem16 e k @ v @ replicate (align4 (length v) - length v) 0"
    by (simp only: a encode_attribute_eq L)
  have len: "len = int (align4 (length v) + 4 + length ?rest)"
    using Cons.prems(3) by (simp add: a)
  have le: "length v \<le> align4 (length v)" by (rule align4_ge)
  have IH: "decode_attributes e ((pre @ encode_attribute e a) @ ?rest) (length (pre @ encode_attribute e a))
      (int (length ?rest)) (SetAttribute m k v) =
    Some (fold (\<lambda>(k, v) m. SetAttribute m k v) attrs (SetAttribute m k v), 0)"
    using Cons.prems(1) by (intro Cons.IH) auto
  have off: "length (pre @ encode_attribute e a) = off + align4 (length v + 4)"
    using Cons.prems(2) by (simp add: a align4_add4)
  have rest: "len - int (align4 (length v + 4)) = int (length ?rest)"
    by (simp add: len align4_add4)
  have step: "decode_attributes e (pre @ encode_attribute e a @ ?rest) off len m =
     decode_attributes e (pre @ encode_attribute e a @ ?rest) (off + align4 (length v + 4))
       (len - int (align4 (length v + 4))) (SetAttribute m k v)"
    using Cons.prems(2) le
    by (subst decode_attributes.simps) (simp add: enc unat_L uint_L len read_mem_whole)
  have "concat (map (encode_attribute e) (a # attrs)) = encode_attribute e a @ ?rest" by simp
  moreover have "fold (\<lambda>(k, v) m. SetAttribute m k v) (a # attrs) m =
      fold (\<lambda>(k, v) m. SetAttribute m k v) attrs (SetAttribute m k v)" by (simp add: a)
  ultimately show ?case using IH step off rest by (simp only: append_assoc)
qed

lemma fold_SetAttribute:
  assumes "distinct (map fst (rm_attributes m @ attrs))"
  shows "fold (\<lambda>(k, v) m. SetAttribute m k v) attrs m = m\<lparr>rm_attributes := rm_attributes m @ attrs\<rparr>"
  using assms
proof (induction attrs arbitrary: m)
  case (Cons a attrs)
  have new: "AList.update k v xs = xs @ [(k, v)]" if "k \<notin> fst ` set xs" for k v and xs :: attributes
    using that by (induction xs) auto
  show ?case using Cons.prems
    by (cases a) (subst fold_Cons, simp, subst Cons.IH, auto simp: SetAttribute_def new)
qed simp

lemma add_attribute_lengths:
  assumes "4 dvd n" "n + length (concat (map (encode_attribute e) attrs)) < 2 ^ 32"
  shows "foldl add_attribute_length (of_nat n) attrs = of_nat (n + length (concat (map (encode_attribute e) attrs)))"
  using assms
proof (induction attrs arbitrary: n)
  case (Cons a attrs)
  have "unat (of_nat n :: u32) = n" using Cons.prems(2) by (simp add: unat_small)
  then have "add_attribute_length (of_nat n) a = of_nat (n + (align4 (length (snd a)) + 4))"
    using Cons.prems(1) by (simp add: add_attribute_length_def align4_id align4_add4 GetLength_def)
  moreover have "4 dvd n + (align4 (length (snd a)) + 4)" using Cons.prems(1) align4_ge(3) by simp
  ultimately show ?case using Cons.IH [of "n + (align4 (length (snd a)) + 4)"] Cons.prems(2)
    by (simp add: add.assoc del: of_nat_add)
qed simp

text \<open>
  What \<open>Decode\<close> recovers from a message with a body: everything but the fields the body of this type does
  not carry. The device type of a link is 16 bits wide in the kernel's structure; routes carry no interface.
\<close>

definition encodable :: "(attributes \<Rightarrow> attributes) \<Rightarrow> rtnl_message \<Rightarrow> bool" where
  "encodable order m \<longleftrightarrow>
     rm_type m \<in> {kTypeLink, kTypeAddress, kTypeRoute, kTypeNeighbor} \<and> rm_mode m \<in> {kModeAdd, kModeDelete} \<and>
     unat (ls_type (rm_link_status m)) < 2 ^ 16 \<and>
     distinct (map fst (order (rm_attributes m))) \<and> (\<forall>a \<in> set (order (rm_attributes m)). attribute_fits a) \<and>
     (\<Sum>a\<leftarrow>order (rm_attributes m). length (snd a) + 8) + 32 < 2 ^ 31"

definition carried :: "(attributes \<Rightarrow> attributes) \<Rightarrow> rtnl_message \<Rightarrow> rtnl_message" where
  "carried order m =
     (let m' = RTNLMessage_empty\<lparr>rm_type := rm_type m, rm_mode := rm_mode m, rm_flags := rm_flags m,
            rm_seq := rm_seq m, rm_pid := rm_pid m, rm_family := rm_family m,
            rm_attributes := order (rm_attributes m)\<rparr>
      in case rm_type m of
           kTypeLink \<Rightarrow> m'\<lparr>rm_interface_index := rm_interface_index m, rm_link_status := rm_link_status m\<rparr>
         | kTypeAddress \<Rightarrow> m'\<lparr>rm_interface_index := rm_interface_index m, rm_address_status := rm_address_status m\<rparr>
         | kTypeRoute \<Rightarrow> m'\<lparr>rm_route_status := rm_route_status m\<rparr>
         | _ \<Rightarrow> m'\<lparr>rm_interface_index := rm_interface_index m, rm_neighbor_status := rm_neighbor_status m\<rparr>)"

lemma length_encoded_attributes:
  "length (concat (map (encode_attribute e) attrs)) \<le> (\<Sum>a\<leftarrow>attrs. length (snd a) + 8)"
proof (induction attrs)
  case (Cons a attrs)
  then show ?case using align4_ge(2) [of "length (snd a)"] by simp
qed simp

lemmas rtm_defs = RTM_NEWLINK_def RTM_DELLINK_def RTM_GETLINK_def RTM_NEWADDR_def RTM_DELADDR_def RTM_GETADDR_def
  RTM_NEWROUTE_def RTM_DELROUTE_def RTM_GETROUTE_def RTM_NEWNEIGH_def RTM_DELNEIGH_def RTM_GETNEIGH_def
  RTM_NEWNDUSEROPT_def

text \<open>The fixed part of a message, followed by its attributes.\<close>

lemma decode_frame:
  assumes len: "length body = n" "4 dvd n" "n + length attrs + 16 < 2 ^ 31"
    and p: "p = mem32 e (of_nat (n + 16 + length attrs)) @ mem16 e ty @ mem16 e flags @ mem32 e sequence @ mem32 e pid
      @ body @ attrs"
  shows "read_u32 e 0 p = Some (of_nat (n + 16 + length attrs))" "read_u16 e 4 p = Some ty"
    "read_u16 e 6 p = Some flags" "read_u32 e 8 p = Some sequence" "read_u32 e 12 p = Some pid"
    "16 \<le> off \<Longrightarrow> read_u8 off p = read_u8 (off - 16) (body @ attrs)"
    "16 \<le> off \<Longrightarrow> read_u16 e off p = read_u16 e (off - 16) (body @ attrs)"
    "16 \<le> off \<Longrightarrow> read_u32 e off p = read_u32 e (off - 16) (body @ attrs)"
    "GetLength p = n + 16 + length attrs" "unat (of_nat (n + 16 + length attrs) :: u32) = n + 16 + length attrs"
    "NLMSG_PAYLOAD (of_nat (n + 16 + length attrs)) n = int (length attrs)"
proof -
  have "of_nat (n + 16 + length attrs) - of_nat (n + 16) = (of_nat (length attrs) :: u32)" by simp
  moreover have "align4 (n + 16) = n + 16" using len(2) by (intro align4_id) simp
  moreover have "sint (of_nat (length attrs) :: u32) = int (length attrs)"
    using len(3) by (intro sint_small) simp
  ultimately show "NLMSG_PAYLOAD (of_nat (n + 16 + length attrs)) n = int (length attrs)"
    by (simp only: NLMSG_PAYLOAD_def)
  show "unat (of_nat (n + 16 + length attrs) :: u32) = n + 16 + length attrs"
    using len(3) by (intro unat_small) simp
qed (use len(1) in \<open>simp_all add: p GetLength_def\<close>)

lemma Rtnl_Encode_frame:
  assumes enc: "encode_body e m = Some (ty, flags, body)" and ok: "encodable order m"
    and n: "length body = n" "4 dvd n" "n \<le> 16"
  defines "attrs \<equiv> concat (map (encode_attribute e) (order (rm_attributes m)))"
  shows "n + length attrs + 16 < 2 ^ 31"
    "Rtnl_Encode e order m = mem32 e (of_nat (n + 16 + length attrs)) @ mem16 e ty @ mem16 e flags @
       mem32 e (rm_seq m) @ mem32 e (rm_pid m) @ body @ attrs"
proof -
  show bound: "n + length attrs + 16 < 2 ^ 31"
    using ok n(3) length_encoded_attributes [of e "order (rm_attributes m)"]
    by (simp add: encodable_def attrs_def)
  then have "foldl add_attribute_length (of_nat (n + 16)) (order (rm_attributes m)) = of_nat (n + 16 + length attrs)"
    using n(2) unfolding attrs_def by (intro add_attribute_lengths) simp_all
  then show "Rtnl_Encode e order m = mem32 e (of_nat (n + 16 + length attrs)) @ mem16 e ty @ mem16 e flags @
       mem32 e (rm_seq m) @ mem32 e (rm_pid m) @ body @ attrs"
    using n(1) by (simp add: Rtnl_Encode_def enc attrs_def Let_def del: of_nat_add)
qed

lemma decode_frame_attributes:
  fixes e :: endian
  assumes ok: "encodable order m" and m': "rm_attributes m' = []"
    and pre: "length pre = off"
  defines "attrs \<equiv> concat (map (encode_attribute e) (order (rm_attributes m)))"
  shows "decode_attributes e (pre @ attrs) off (int (length attrs)) m' =
    Some (m'\<lparr>rm_attributes := order (rm_attributes m)\<rparr>, 0)"
  using ok m' pre decode_attributes_encoded [of "order (rm_attributes m)" off pre "int (length attrs)" e m']
  by (simp add: attrs_def encodable_def fold_SetAttribute)

text \<open>One lemma per type of message: what is read back from its body.\<close>

lemma ucast_ucast_16:
  assumes "unat (w :: u32) < 2 ^ 16" shows "ucast (ucast w :: u16) = w"
proof -
  have "take_bit 16 (unat w) = unat w" using assms by (simp add: take_bit_nat_eq_self_iff)
  then have "unat (ucast (ucast w :: u16) :: u32) = unat w"
    by (simp add: unsigned_ucast_eq unsigned_take_bit_eq)
  then show ?thesis by (simp only: word_unat_eq_iff)
qed

lemma DecodeInternal_body:
  assumes "read_u32 e 0 p = Some len" "unat len = length p" "16 \<le> length p" "read_u16 e 4 p = Some ty"
    "read_u16 e 6 p = Some flags" "read_u32 e 8 p = Some sequence" "read_u32 e 12 p = Some pid"
    "mode_of ty \<noteq> kModeUnknown" "body_decoder ty e p (mode_of ty) m = Some (True, m', Some off, n)"
    "decode_attributes e p off n (m'\<lparr>rm_flags := flags, rm_seq := sequence, rm_pid := pid\<rparr>) = Some (m'', 0)"
  shows "Rtnl_Decode e p m = Some (True, m'')"
  using assms by (simp add: Rtnl_Decode_def DecodeInternal_def GetLength_def Let_def)

lemma Rtnl_Decode_Encode_aux:
  assumes ok: "encodable order m" and enc: "encode_body e m = Some (ty, rm_flags m, body)"
    and n: "length body = n" "4 dvd n" "n \<le> 16"
    and md: "mode_of ty = rm_mode m"
    and dec: "\<And>p attrs. p = Rtnl_Encode e order m \<Longrightarrow> attrs = concat (map (encode_attribute e) (order (rm_attributes m))) \<Longrightarrow>
      read_u32 e 0 p = Some (of_nat (n + 16 + length attrs)) \<Longrightarrow>
      (\<And>off. 16 \<le> off \<Longrightarrow> read_u8 off p = read_u8 (off - 16) (body @ attrs)) \<Longrightarrow>
      (\<And>off. 16 \<le> off \<Longrightarrow> read_u16 e off p = read_u16 e (off - 16) (body @ attrs)) \<Longrightarrow>
      (\<And>off. 16 \<le> off \<Longrightarrow> read_u32 e off p = read_u32 e (off - 16) (body @ attrs)) \<Longrightarrow>
      unat (of_nat (n + 16 + length attrs) :: u32) = n + 16 + length attrs \<Longrightarrow>
      NLMSG_PAYLOAD (of_nat (n + 16 + length attrs)) n = int (length attrs) \<Longrightarrow>
      body_decoder ty e p (rm_mode m) RTNLMessage_empty = Some (True, m', Some (n + 16), int (length attrs))"
    and m': "m'\<lparr>rm_flags := rm_flags m, rm_seq := rm_seq m, rm_pid := rm_pid m,
        rm_attributes := order (rm_attributes m)\<rparr> = carried order m" "rm_attributes m' = []"
  shows "Rtnl_Decode e (Rtnl_Encode e order m) RTNLMessage_empty = Some (True, carried order m)"
proof -
  define attrs where "attrs = concat (map (encode_attribute e) (order (rm_attributes m)))"
  let ?pre = "mem32 e (of_nat (n + 16 + length attrs)) @ mem16 e ty @ mem16 e (rm_flags m) @
       mem32 e (rm_seq m) @ mem32 e (rm_pid m) @ body"
  note frame = Rtnl_Encode_frame [OF enc ok n, folded attrs_def]
  note reads = decode_frame [OF n(1,2) frame]
  have "decode_attributes e (?pre @ attrs) (n + 16) (int (length attrs))
      (m'\<lparr>rm_flags := rm_flags m, rm_seq := rm_seq m, rm_pid := rm_pid m\<rparr>) =
    Some (m'\<lparr>rm_flags := rm_flags m, rm_seq := rm_seq m, rm_pid := rm_pid m,
        rm_attributes := order (rm_attributes m)\<rparr>, 0)"
    unfolding attrs_def by (rule decode_frame_attributes [OF ok]) (simp_all add: m' n(1))
  then have attributes: "decode_attributes e (Rtnl_Encode e order m) (n + 16) (int (length attrs))
      (m'\<lparr>rm_flags := rm_flags m, rm_seq := rm_seq m, rm_pid := rm_pid m\<rparr>) = Some (carried order m, 0)"
    by (simp only: frame(2) append_assoc m')
  have "rm_mode m \<noteq> kModeUnknown" using ok by (auto simp: encodable_def)
  with md dec [OF refl attrs_def reads(1,6-8) reads(10,11)] show ?thesis
    using reads(9,10) by (intro DecodeInternal_body [OF reads(1) _ _ reads(2-5) _ _ attributes]) (simp_all add: GetLength_def)
qed

lemma carried_simps:
  "rm_type m = kTypeLink \<Longrightarrow> carried order m = (RTNLMessage_empty\<lparr>rm_type := rm_type m, rm_mode := rm_mode m,
      rm_flags := rm_flags m, rm_seq := rm_seq m, rm_pid := rm_pid m, rm_family := rm_family m,
      rm_attributes := order (rm_attributes m)\<rparr>)\<lparr>rm_interface_index := rm_interface_index m, rm_link_status := rm_link_status m\<rparr>"
  "rm_type m = kTypeAddress \<Longrightarrow> carried order m = (RTNLMessage_empty\<lparr>rm_type := rm_type m, rm_mode := rm_mode m,
      rm_flags := rm_flags m, rm_seq := rm_seq m, rm_pid := rm_pid m, rm_family := rm_family m,
      rm_attributes := order (rm_attributes m)\<rparr>)\<lparr>rm_interface_index := rm_interface_index m, rm_address_status := rm_address_status m\<rparr>"
  "rm_type m = kTypeRoute \<Longrightarrow> carried order m = (RTNLMessage_empty\<lparr>rm_type := rm_type m, rm_mode := rm_mode m,
      rm_flags := rm_flags m, rm_seq := rm_seq m, rm_pid := rm_pid m, rm_family := rm_family m,
      rm_attributes := order (rm_attributes m)\<rparr>)\<lparr>rm_route_status := rm_route_status m\<rparr>"
  "rm_type m = kTypeNeighbor \<Longrightarrow> carried order m = (RTNLMessage_empty\<lparr>rm_type := rm_type m, rm_mode := rm_mode m,
      rm_flags := rm_flags m, rm_seq := rm_seq m, rm_pid := rm_pid m, rm_family := rm_family m,
      rm_attributes := order (rm_attributes m)\<rparr>)\<lparr>rm_interface_index := rm_interface_index m, rm_neighbor_status := rm_neighbor_status m\<rparr>"
  by (simp_all add: carried_def Let_def)

lemma add_delete_codes [simp]:
  "mode_of RTM_NEWLINK = kModeAdd" "mode_of RTM_DELLINK = kModeDelete"
  "mode_of RTM_NEWADDR = kModeAdd" "mode_of RTM_DELADDR = kModeDelete"
  "mode_of RTM_NEWROUTE = kModeAdd" "mode_of RTM_DELROUTE = kModeDelete"
  "mode_of RTM_NEWNEIGH = kModeAdd" "mode_of RTM_DELNEIGH = kModeDelete"
  "body_decoder RTM_NEWLINK = DecodeLink" "body_decoder RTM_DELLINK = DecodeLink"
  "body_decoder RTM_NEWADDR = DecodeAddress" "body_decoder RTM_DELADDR = DecodeAddress"
  "body_decoder RTM_NEWROUTE = DecodeRoute" "body_decoder RTM_DELROUTE = DecodeRoute"
  "body_decoder RTM_NEWNEIGH = DecodeNeighbor" "body_decoder RTM_DELNEIGH = DecodeNeighbor"
  by (simp_all add: mode_of_def body_decoder_def rtm_defs)

lemma decode_encode_link:
  assumes ok: "encodable order m" and t: "rm_type m = kTypeLink"
  shows "Rtnl_Decode e (Rtnl_Encode e order m) RTNLMessage_empty = Some (True, carried order m)"
proof -
  have md: "rm_mode m \<in> {kModeAdd, kModeDelete}" and w: "ucast (ucast (ls_type (rm_link_status m)) :: u16) = ls_type (rm_link_status m)"
    using ok by (auto simp: encodable_def intro!: ucast_ucast_16)
  obtain ty body where enc: "encode_body e m = Some (ty, rm_flags m, body)" "mode_of ty = rm_mode m"
    "body_decoder ty = DecodeLink"
    "body = [rm_family m, 0] @ mem16 e (ucast (ls_type (rm_link_status m))) @ mem32 e (rm_interface_index m)
          @ mem32 e (ls_flags (rm_link_status m)) @ mem32 e (ls_change (rm_link_status m))"
    using md t by (auto simp: encode_body_def EncodeLink_def Let_def)
  show ?thesis
  proof (rule Rtnl_Decode_Encode_aux [OF ok enc(1) _ _ _ enc(2)])
    show "length body = 16" using enc(4) by simp
    fix p attrs
    assume "read_u32 e 0 p = Some (of_nat (16 + 16 + length attrs))"
      "\<And>off. 16 \<le> off \<Longrightarrow> read_u8 off p = read_u8 (off - 16) (body @ attrs)"
      "\<And>off. 16 \<le> off \<Longrightarrow> read_u16 e off p = read_u16 e (off - 16) (body @ attrs)"
      "\<And>off. 16 \<le> off \<Longrightarrow> read_u32 e off p = read_u32 e (off - 16) (body @ attrs)"
      "unat (of_nat (16 + 16 + length attrs) :: u32) = 16 + 16 + length attrs"
      "NLMSG_PAYLOAD (of_nat (16 + 16 + length attrs)) 16 = int (length attrs)"
    then show "body_decoder ty e p (rm_mode m) RTNLMessage_empty =
      Some (True, RTNLMessage_empty\<lparr>rm_mode := rm_mode m, rm_type := kTypeLink, rm_family := rm_family m,
        rm_interface_index := rm_interface_index m, rm_link_status := rm_link_status m\<rparr>, Some (16 + 16), int (length attrs))"
      by (simp add: enc(3,4) DecodeLink_def w align4_id del: of_nat_add of_nat_numeral)
  qed (simp_all add: carried_simps t RTNLMessage_empty_def RTNLMessage_new_def)
qed

lemma decode_encode_address:
  assumes ok: "encodable order m" and t: "rm_type m = kTypeAddress"
  shows "Rtnl_Decode e (Rtnl_Encode e order m) RTNLMessage_empty = Some (True, carried order m)"
proof -
  have md: "rm_mode m \<in> {kModeAdd, kModeDelete}" using ok by (auto simp: encodable_def)
  obtain ty body where enc: "encode_body e m = Some (ty, rm_flags m, body)" "mode_of ty = rm_mode m"
    "body_decoder ty = DecodeAddress"
    "body = [rm_family m, as_prefix_len (rm_address_status m), as_flags (rm_address_status m),
      as_scope (rm_address_status m)] @ mem32 e (rm_interface_index m)"
    using md t by (auto simp: encode_body_def EncodeAddress_def Let_def)
  show ?thesis
  proof (rule Rtnl_Decode_Encode_aux [OF ok enc(1) _ _ _ enc(2)])
    show "length body = 8" using enc(4) by simp
    fix p attrs
    assume "read_u32 e 0 p = Some (of_nat (8 + 16 + length attrs))"
      "\<And>off. 16 \<le> off \<Longrightarrow> read_u8 off p = read_u8 (off - 16) (body @ attrs)"
      "\<And>off. 16 \<le> off \<Longrightarrow> read_u16 e off p = read_u16 e (off - 16) (body @ attrs)"
      "\<And>off. 16 \<le> off \<Longrightarrow> read_u32 e off p = read_u32 e (off - 16) (body @ attrs)"
      "unat (of_nat (8 + 16 + length attrs) :: u32) = 8 + 16 + length attrs"
      "NLMSG_PAYLOAD (of_nat (8 + 16 + length attrs)) 8 = int (length attrs)"
    then show "body_decoder ty e p (rm_mode m) RTNLMessage_empty =
      Some (True, RTNLMessage_empty\<lparr>rm_mode := rm_mode m, rm_type := kTypeAddress, rm_family := rm_family m,
        rm_interface_index := rm_interface_index m, rm_address_status := rm_address_status m\<rparr>, Some (8 + 16), int (length attrs))"
      by (simp add: enc(3,4) DecodeAddress_def align4_id del: of_nat_add of_nat_numeral)
  qed (simp_all add: carried_simps t RTNLMessage_empty_def RTNLMessage_new_def)
qed

lemma decode_encode_route:
  assumes ok: "encodable order m" and t: "rm_type m = kTypeRoute"
  shows "Rtnl_Decode e (Rtnl_Encode e order m) RTNLMessage_empty = Some (True, carried order m)"
proof -
  have md: "rm_mode m \<in> {kModeAdd, kModeDelete}" using ok by (auto simp: encodable_def)
  have w: "ucast (ucast (rs_flags (rm_route_status m)) :: u32) = rs_flags (rm_route_status m)"
    by (simp add: bit_eq_iff bit_simps)
  obtain ty body where enc: "encode_body e m = Some (ty, rm_flags m, body)" "mode_of ty = rm_mode m"
    "body_decoder ty = DecodeRoute"
    "body = [rm_family m, rs_dst_prefix (rm_route_status m), rs_src_prefix (rm_route_status m), 0,
      rs_table (rm_route_status m), rs_protocol (rm_route_status m), rs_scope (rm_route_status m),
      rs_type (rm_route_status m)] @ mem32 e (ucast (rs_flags (rm_route_status m)))"
    using md t by (auto simp: encode_body_def EncodeRoute_def Let_def)
  show ?thesis
  proof (rule Rtnl_Decode_Encode_aux [OF ok enc(1) _ _ _ enc(2)])
    show "length body = 12" using enc(4) by simp
    fix p attrs
    assume "read_u32 e 0 p = Some (of_nat (12 + 16 + length attrs))"
      "\<And>off. 16 \<le> off \<Longrightarrow> read_u8 off p = read_u8 (off - 16) (body @ attrs)"
      "\<And>off. 16 \<le> off \<Longrightarrow> read_u16 e off p = read_u16 e (off - 16) (body @ attrs)"
      "\<And>off. 16 \<le> off \<Longrightarrow> read_u32 e off p = read_u32 e (off - 16) (body @ attrs)"
      "unat (of_nat (12 + 16 + length attrs) :: u32) = 12 + 16 + length attrs"
      "NLMSG_PAYLOAD (of_nat (12 + 16 + length attrs)) 12 = int (length attrs)"
    then show "body_decoder ty e p (rm_mode m) RTNLMessage_empty =
      Some (True, RTNLMessage_empty\<lparr>rm_mode := rm_mode m, rm_type := kTypeRoute, rm_family := rm_family m,
        rm_route_status := rm_route_status m\<rparr>, Some (12 + 16), int (length attrs))"
      by (simp add: enc(3,4) DecodeRoute_def w align4_id del: of_nat_add of_nat_numeral)
  qed (simp_all add: carried_simps t RTNLMessage_empty_def RTNLMessage_new_def)
qed

lemma decode_encode_neighbor:
  assumes ok: "encodable order m" and t: "rm_type m = kTypeNeighbor"
  shows "Rtnl_Decode e (Rtnl_Encode e order m) RTNLMessage_empty = Some (True, carried order m)"
proof -
  have md: "rm_mode m \<in> {kModeAdd, kModeDelete}" using ok by (auto simp: encodable_def)
  obtain ty body where enc: "encode_body e m = Some (ty, rm_flags m, body)" "mode_of ty = rm_mode m"
    "body_decoder ty = DecodeNeighbor"
    "body = [rm_family m, 0, 0, 0] @ mem32 e (rm_interface_index m) @ mem16 e (ns_state (rm_neighbor_status m)) @
      [ns_flags (rm_neighbor_status m), ns_type (rm_neighbor_status m)]"
    using md t by (auto simp: encode_body_def EncodeNeighbor_def Let_def)
  show ?thesis
  proof (rule Rtnl_Decode_Encode_aux [OF ok enc(1) _ _ _ enc(2)])
    show "length body = 12" using enc(4) by simp
    fix p attrs
    assume "read_u32 e 0 p = Some (of_nat (12 + 16 + length attrs))"
      "\<And>off. 16 \<le> off \<Longrightarrow> read_u8 off p = read_u8 (off - 16) (body @ attrs)"
      "\<And>off. 16 \<le> off \<Longrightarrow> read_u16 e off p = read_u16 e (off - 16) (body @ attrs)"
      "\<And>off. 16 \<le> off \<Longrightarrow> read_u32 e off p = read_u32 e (off - 16) (body @ attrs)"
      "unat (of_nat (12 + 16 + length attrs) :: u32) = 12 + 16 + length attrs"
      "NLMSG_PAYLOAD (of_nat (12 + 16 + length attrs)) 12 = int (length attrs)"
    then show "body_decoder ty e p (rm_mode m) RTNLMessage_empty =
      Some (True, RTNLMessage_empty\<lparr>rm_mode := rm_mode m, rm_type := kTypeNeighbor, rm_family := rm_family m,
        rm_interface_index := rm_interface_index m, rm_neighbor_status := rm_neighbor_status m\<rparr>, Some (12 + 16), int (length attrs))"
      by (simp add: enc(3,4) DecodeNeighbor_def align4_id del: of_nat_add of_nat_numeral)
  qed (simp_all add: carried_simps t RTNLMessage_empty_def RTNLMessage_new_def)
qed

lemma Rtnl_Decode_Encode_all:
  assumes "encodable order m"
  shows "Rtnl_Decode e (Rtnl_Encode e order m) RTNLMessage_empty = Some (True, carried order m)"
proof -
  have "rm_type m \<in> {kTypeLink, kTypeAddress, kTypeRoute, kTypeNeighbor}" using assms by (simp add: encodable_def)
  then consider "rm_type m = kTypeLink" | "rm_type m = kTypeAddress" | "rm_type m = kTypeRoute" | "rm_type m = kTypeNeighbor"
    by auto
  then show ?thesis
    using decode_encode_link decode_encode_address decode_encode_route decode_encode_neighbor assms by cases auto
qed

text \<open>
  C16: a link, address, route or neighbour message to be added or deleted, encoded with its attributes in any
  order, is decoded to the same message: type, mode, sequence number, status and every attribute with its
  exact bytes, on machines of either byte order. Messages are those whose attributes fit their 16-bit lengths.
\<close>

theorem Rtnl_Decode_Encode:
  assumes "encodable order m"
  shows "Rtnl_Decode e (Rtnl_Encode e order m) RTNLMessage_empty = Some (True, carried order m)"
  using assms by (rule Rtnl_Decode_Encode_all)

definition sample_route :: rtnl_message where
  "sample_route = SetAttribute (SetAttribute
     ((RTNLMessage_new kTypeRoute kModeAdd 0x601 7 0 0 kFamilyIPv4)
        \<lparr>rm_route_status := RouteStatus_new\<lparr>rs_dst_prefix := 24, rs_table := 254, rs_protocol := 3\<rparr>\<rparr>)
       1 [192, 168, 1, 0]) 5 [10, 0, 0, 1, 7]"

lemma Rtnl_Decode_Encode_witness:
  "Rtnl_Decode LittleEndian (Rtnl_Encode LittleEndian rev sample_route) RTNLMessage_empty =
     Some (True, carried rev sample_route)"
  by (rule Rtnl_Decode_Encode)
    (simp add: encodable_def sample_route_def SetAttribute_def RTNLMessage_new_def attribute_fits_def LinkStatus_new_def)

subsection \<open>Decoding arbitrary bytes\<close>

lemma read_mem_Some [simp]: "off + n \<le> length p \<Longrightarrow> read_mem off n p = Some (take n (drop off p))"
  by (simp add: read_mem_def)

lemma read_in_bounds:
  "off < length p \<Longrightarrow> \<exists>v. read_u8 off p = Some v"
  "off + 2 \<le> length p \<Longrightarrow> \<exists>v. read_u16 e off p = Some v"
  "off + 4 \<le> length p \<Longrightarrow> \<exists>v. read_u32 e off p = Some v"
  by (auto simp: read_u8_def read_u16_def read_u32_def)

lemma read_in_boundsE:
  "off < length p \<Longrightarrow> (\<And>v. read_u8 off p = Some v \<Longrightarrow> P) \<Longrightarrow> P"
  "off + 2 \<le> length p \<Longrightarrow> (\<And>v. read_u16 e off p = Some v \<Longrightarrow> P) \<Longrightarrow> P"
  "off + 4 \<le> length p \<Longrightarrow> (\<And>v. read_u32 e off p = Some v \<Longrightarrow> P) \<Longrightarrow> P"
  using read_in_bounds by blast+

lemma decode_attributes_in_bounds:
  assumes "int off + n \<le> int (length p)"
  shows "\<exists>attrs n'. decode_attributes e p off n m = Some (m\<lparr>rm_attributes := attrs\<rparr>, n')"
  using assms
proof (induction e p off n m rule: decode_attributes.induct)
  case (1 e p off n m)
  have keep: "\<exists>attrs. m = m\<lparr>rm_attributes := attrs\<rparr>" by (rule exI [of _ "rm_attributes m"]) simp
  show ?case
  proof (cases "n < 4")
    case True
    with keep show ?thesis by (simp add: decode_attributes.simps)
  next
    case False
    with 1(2) have "off + 2 \<le> length p" "off + 2 + 2 \<le> length p" by simp_all
    then obtain l t where l: "read_u16 e off p = Some l" and t: "read_u16 e (off + 2) p = Some t"
      using read_in_bounds(2) by meson
    show ?thesis
    proof (cases "unat l < 4 \<or> int (unat l) > n")
      case True
      with keep show ?thesis using False l by (auto simp: decode_attributes.simps [of e p off n m])
    next
      case l_ok: False
      then have "off + 4 + (unat l - 4) \<le> length p" using 1(2) False by linarith
      then have v: "read_mem (off + 4) (unat l - (0 + 4)) p = Some (take (unat l - 4) (drop (off + 4) p))" by simp
      from l_ok have l_ok: "\<not> (unat l < 4 \<or> n < int (unat l))" by simp
      have "int (off + align4 (unat l)) + (n - int (align4 (unat l))) \<le> int (length p)" using 1(2) by simp
      from 1(1) [OF _ l l_ok t v this] False
      show ?thesis using l l_ok t v
        by (subst decode_attributes.simps) (auto simp: SetAttribute_def simp del: read_mem_Some)
    qed
  qed
qed

lemma rdnss_addresses_in_bounds:
  assumes "int off + n \<le> int (length p)" "n mod 16 = 0"
  shows "\<exists>addrs. rdnss_addresses p off n = Some addrs \<and> (0 \<le> n \<longrightarrow> int (length addrs) * 16 = n)"
  using assms
proof (induction p off n rule: rdnss_addresses.induct)
  case (1 p off n)
  have l: "GetAddressLength kFamilyIPv6 = 16" by (simp add: GetAddressLength_def kFamilyIPv6_def kFamilyIPv4_def)
  show ?case
  proof (cases "0 < n")
    case True
    with 1(3) have "16 \<le> n" by presburger
    moreover have "(n - 16) mod 16 = 0" using 1(3) by presburger
    ultimately show ?thesis using 1 True by (subst rdnss_addresses.simps) (auto simp: l)
  qed (simp add: rdnss_addresses.simps)
qed

lemma NLMSG_PAYLOAD_eq:
  assumes "4 dvd n" "n + 16 \<le> unat len" "unat len < 2 ^ 31"
  shows "NLMSG_PAYLOAD len n = int (unat len) - int (n + 16)"
proof -
  have "len - of_nat (n + 16) = (of_nat (unat len - (n + 16)) :: u32)"
    using assms(2) by (simp add: of_nat_diff)
  moreover have "align4 (n + 16) = n + 16" using assms(1) by (intro align4_id) simp
  moreover have "sint (of_nat (unat len - (n + 16)) :: u32) = int (unat len - (n + 16))"
    using assms(3) by (intro sint_small) simp
  ultimately show ?thesis using assms(2) by (simp add: NLMSG_PAYLOAD_def of_nat_diff)
qed

text \<open>What the body decoders return: the attributes they announce lie inside the buffer.\<close>

definition body_ok :: "bytes \<Rightarrow> rtnl_mode \<Rightarrow> decoded \<Rightarrow> bool" where
  "body_ok p md r \<longleftrightarrow>
     (case r of (ret, m, attr_data, n) \<Rightarrow>
        ret \<longrightarrow> rm_mode m = md \<and> rm_type m \<noteq> kTypeUnknown \<and>
          (case attr_data of None \<Rightarrow> n = 0 | Some off \<Rightarrow> int off + n \<le> int (length p)))"

definition nd_option_fits :: "endian \<Rightarrow> bytes \<Rightarrow> bool" where
  "nd_option_fits e p \<longleftrightarrow>
     (read_u16 e 4 p = Some RTM_NEWNDUSEROPT \<longrightarrow>
        (case read_u16 e 18 p of Some opts_len \<Rightarrow> 32 + unat opts_len \<le> length p | None \<Rightarrow> True))"

lemma body_decoders_in_bounds:
  assumes "read_u32 e 0 p = Some len" "unat len \<le> length p" "length p < 2 ^ 31"
  shows "\<exists>r. DecodeLink e p md m = Some r \<and> body_ok p md r"
    "\<exists>r. DecodeAddress e p md m = Some r \<and> body_ok p md r"
    "\<exists>r. DecodeRoute e p md m = Some r \<and> body_ok p md r"
    "\<exists>r. DecodeNeighbor e p md m = Some r \<and> body_ok p md r"
proof -
  have payload: "NLMSG_PAYLOAD len n = int (unat len) - int (n + 16)" if "n + 16 \<le> unat len" "4 dvd n" for n
    using NLMSG_PAYLOAD_eq that assms(2,3) by simp
  have u: "uint len \<le> int (length p)" using assms(2) by (simp add: le_nat_iff [symmetric] nat_le_iff [symmetric])
  note bounds = read_in_bounds(1) [where p = p] read_in_bounds(2,3) [where p = p and e = e]
  show "\<exists>r. DecodeLink e p md m = Some r \<and> body_ok p md r"
    using assms(1,2) u bounds(1) [of 16] bounds(2) [of 18] bounds(3) [of 20] bounds(3) [of 24] bounds(3) [of 28] payload [of 16]
    by (cases "unat len < 32") (auto simp: DecodeLink_def body_ok_def align4_id)
  show "\<exists>r. DecodeAddress e p md m = Some r \<and> body_ok p md r"
    using assms(1,2) u bounds(1) [of 16] bounds(1) [of 17] bounds(1) [of 18] bounds(1) [of 19] bounds(3) [of 20] payload [of 8]
    by (cases "unat len < 24") (auto simp: DecodeAddress_def body_ok_def align4_id)
  show "\<exists>r. DecodeRoute e p md m = Some r \<and> body_ok p md r"
    using assms(1,2) u bounds(1) [of 16] bounds(1) [of 17] bounds(1) [of 18] bounds(1) [of 20] bounds(1) [of 21]
      bounds(1) [of 22] bounds(1) [of 23] bounds(3) [of 24] payload [of 12]
    by (cases "unat len < 28") (auto simp: DecodeRoute_def body_ok_def align4_id)
  show "\<exists>r. DecodeNeighbor e p md m = Some r \<and> body_ok p md r"
    using assms(1,2) u bounds(1) [of 16] bounds(3) [of 20] bounds(2) [of 24] bounds(1) [of 26] bounds(1) [of 27] payload [of 12]
    by (cases "unat len < 28") (auto simp: DecodeNeighbor_def body_ok_def align4_id)
qed

lemma DecodeNdUserOption_in_bounds:
  assumes "read_u32 e 0 p = Some len" "unat len \<le> length p" "read_u16 e 4 p = Some RTM_NEWNDUSEROPT" "nd_option_fits e p"
  shows "\<exists>r. DecodeNdUserOption e p md m = Some r \<and> body_ok p md r"
proof (cases "unat len < 32")
  case True
  then show ?thesis using assms(1) by (simp add: DecodeNdUserOption_def body_ok_def)
next
  case False
  with assms(2) obtain opts index fam where r: "read_u16 e 18 p = Some opts" "read_u32 e 20 p = Some index" "read_u8 16 p = Some fam"
    using read_in_bounds(1) [of 16 p] read_in_bounds(2) [of 18 p e] read_in_bounds(3) [of 20 p e] by auto
  then have fits: "32 + unat opts \<le> length p" using assms(3,4) by (simp add: nd_option_fits_def)
  show ?thesis
  proof (cases "fam = kFamilyIPv6 \<and> 8 \<le> unat opts")
    case True
    with fits obtain lifetime units ty where r': "read_u32 e 36 p = Some lifetime" "read_u8 33 p = Some units" "read_u8 32 p = Some ty"
      using read_in_bounds(1) [of 32 p] read_in_bounds(1) [of 33 p] read_in_bounds(3) [of 36 p e] by auto
    have parse: "\<exists>ret m''. ParseRdnssOption p 40 (uint opts - 8) l m' = Some (ret, m'') \<and>
        rm_type m'' = rm_type m' \<and> rm_mode m'' = rm_mode m'" for l m'
    proof -
      have "int 40 + (uint opts - 8) \<le> int (length p)" using of_nat_mono [OF fits, where 'a = int] by simp
      then show ?thesis using rdnss_addresses_in_bounds [of 40 "uint opts - 8" p]
        by (auto simp: ParseRdnssOption_def GetAddressLength_def kFamilyIPv6_def kFamilyIPv4_def ex_bool_eq)
    qed
    let ?l = "htonl e lifetime"
    let ?m = "m\<lparr>rm_mode := md, rm_interface_index := index, rm_family := kFamilyIPv6, rm_type := kTypeRdnss\<rparr>"
    show ?thesis using assms(1) False r r' True parse [of ?l ?m]
      by (cases "unat units * 8 = unat opts") (auto simp: DecodeNdUserOption_def body_ok_def Let_def)
  qed (use assms(1) False r in \<open>auto simp: DecodeNdUserOption_def body_ok_def Let_def\<close>)
qed

text \<open>
  Whatever the kernel sends, decoding a message that is no neighbour discovery option never reads
  outside of it, nor does decoding such an option whose announced length fits the message; a message that is
  accepted has a type and is an addition or a deletion, and after a failure no header field and no attribute
  is left in the object.
\<close>

theorem Rtnl_Decode_in_bounds:
  assumes "length p < 2 ^ 31" "nd_option_fits e p"
  shows "\<exists>ret m'. Rtnl_Decode e p m = Some (ret, m') \<and>
    (if ret then rm_type m' \<noteq> kTypeUnknown \<and> rm_mode m' \<in> {kModeAdd, kModeDelete}
     else rm_type m' = kTypeUnknown \<and> rm_mode m' = kModeUnknown \<and> rm_seq m' = 0 \<and> rm_attributes m' = [])"
proof -
  have "\<exists>ret m'. DecodeInternal e p m = Some (ret, m') \<and>
    (ret \<longrightarrow> rm_type m' \<noteq> kTypeUnknown \<and> rm_mode m' \<in> {kModeAdd, kModeDelete})"
  proof (cases "length p < 16")
    case False
    then obtain len ty flags sequence pid where r: "read_u32 e 0 p = Some len" "read_u16 e 4 p = Some ty"
      "read_u16 e 6 p = Some flags" "read_u32 e 8 p = Some sequence" "read_u32 e 12 p = Some pid"
      using read_in_bounds(2) [of 4 p e] read_in_bounds(2) [of 6 p e] read_in_bounds(3) [of 0 p e]
        read_in_bounds(3) [of 8 p e] read_in_bounds(3) [of 12 p e] by auto
    show ?thesis
    proof (cases "length p < unat len \<or> mode_of ty = kModeUnknown")
      case True
      then show ?thesis using False r by (auto simp: DecodeInternal_def GetLength_def Let_def)
    next
      case ok: False
      then have len: "unat len \<le> length p" by simp
      note bodies = body_decoders_in_bounds [OF r(1) len assms(1), of "mode_of ty" m]
      have "\<exists>x. body_decoder ty e p (mode_of ty) m = Some x \<and> body_ok p (mode_of ty) x"
      proof (cases "ty = RTM_NEWNDUSEROPT")
        case True
        then have "body_decoder ty = DecodeNdUserOption" by (simp add: body_decoder_def rtm_defs)
        then show ?thesis using DecodeNdUserOption_in_bounds [OF r(1) len _ assms(2)] r(2) True by simp
      next
        case False
        then have "body_decoder ty \<in> {DecodeLink, DecodeAddress, DecodeRoute, DecodeNeighbor}"
          by (simp add: body_decoder_def)
        then show ?thesis using bodies by auto
      qed
      then obtain ret m1 ad n where d: "body_decoder ty e p (mode_of ty) m = Some (ret, m1, ad, n)" "body_ok p (mode_of ty) (ret, m1, ad, n)"
        by (metis prod_cases4)
      have md: "mode_of ty \<in> {kModeAdd, kModeDelete}" using ok by (auto simp: mode_of_def split: if_splits)
      let ?m = "m1\<lparr>rm_flags := flags, rm_seq := sequence, rm_pid := pid\<rparr>"
      have "\<exists>attrs n'. (case ad of None \<Rightarrow> Some (?m, n) | Some off \<Rightarrow> decode_attributes e p off n ?m) =
          Some (?m\<lparr>rm_attributes := attrs\<rparr>, n')" if ret
        using that d(2) decode_attributes_in_bounds [of _ n p e ?m]
        by (cases ad) (auto simp: body_ok_def intro: exI [of _ "rm_attributes m1"])
      then show ?thesis using False ok r d md
        by (cases ret) (auto simp: DecodeInternal_def GetLength_def Let_def body_ok_def)
    qed
  qed (simp add: DecodeInternal_def GetLength_def ex_bool_eq)
  then obtain ret m' where d: "DecodeInternal e p m = Some (ret, m')"
    "ret \<longrightarrow> rm_type m' \<noteq> kTypeUnknown \<and> rm_mode m' \<in> {kModeAdd, kModeDelete}" by blast
  show ?thesis
    by (rule exI [of _ ret], rule exI [of _ "if ret then m' else Rtnl_Reset m'"])
      (use d in \<open>simp add: Rtnl_Decode_def Rtnl_Reset_def\<close>)
qed

lemma Rtnl_Decode_in_bounds_witness:
  "\<exists>ret m'. Rtnl_Decode BigEndian [0, 0, 0, 16, 0, 68, 0, 0, 0, 0, 0, 0, 0, 0, 0, 0] RTNLMessage_empty = Some (ret, m') \<and>
    (if ret then rm_type m' \<noteq> kTypeUnknown \<and> rm_mode m' \<in> {kModeAdd, kModeDelete}
     else rm_type m' = kTypeUnknown \<and> rm_mode m' = kModeUnknown \<and> rm_seq m' = 0 \<and> rm_attributes m' = [])"
  by (rule Rtnl_Decode_in_bounds) (simp_all add: nd_option_fits_def read_u16_def read_mem_def)

text \<open>
  Two places where the code falls short: the length of a neighbour discovery option is compared with the
  option's own header but not with the message, so the parser reads past the end of a message that announces
  more than it carries; and \<open>Reset\<close> leaves the neighbour status and the RDNSS option of an earlier
  \<open>Decode\<close> in place.
\<close>

lemma DecodeNdUserOption_overread:
  "Rtnl_Decode LittleEndian
     ([40, 0, 0, 0, 68, 0, 0, 0, 0, 0, 0, 0, 0, 0, 0, 0] @ [10, 0, 24, 0, 0, 0, 0, 0, 0, 0, 0, 0, 0, 0, 0, 0] @
      [25, 3, 0, 0, 0, 0, 0, 60]) RTNLMessage_empty = None"
  by (simp add: Rtnl_Decode_def DecodeInternal_def GetLength_def read_u32_def read_u16_def read_u8_def read_mem_def
      load32_def load16_def mode_of_def body_decoder_def rtm_defs DecodeNdUserOption_def kFamilyIPv6_def
      kFamilyIPv4_def ND_OPT_RDNSS_def ND_OPT_DNSSL_def ParseRdnssOption_def GetAddressLength_def
      rdnss_addresses.simps)

lemma Rtnl_Reset_keeps_neighbor:
  "rm_neighbor_status (Rtnl_Reset m) = rm_neighbor_status m \<and> rm_rdnss_option (Rtnl_Reset m) = rm_rdnss_option m"
  by (simp add: Rtnl_Reset_def)

end
