(* ===== verification/Rtnl_Handler.thy ===== *)
theory Rtnl_Handler
  imports Rtnl_Message
begin

text \<open>
  Models of \<open>net/rtnl_handler.cc\<close> and \<open>net/rtnl_listener.cc\<close>: the object that talks to the kernel over one
  route netlink socket. It numbers the requests it sends, issues the dumps that clients ask for one at a
  time, remembers for the latest sixteen requests which errors are expected, and hands decoded messages to
  its listeners. What is sent on the socket and which errors are reported in the log are recorded in the state.
\<close>

definition kRequestLink :: u32 where "kRequestLink = 1"
definition kRequestAddr :: u32 where "kRequestAddr = 2"
definition kRequestRoute :: u32 where "kRequestRoute = 4"
definition kRequestRdnss :: u32 where "kRequestRdnss = 8"
definition kRequestNeighbor :: u32 where "kRequestNeighbor = 16"
definition kRequestBridgeNeighbor :: u32 where "kRequestBridgeNeighbor = 32"

definition kInvalidSocket :: int where "kInvalidSocket = -1"
definition kErrorWindowSize :: nat where "kErrorWindowSize = 16"

definition AF_BRIDGE :: family where "AF_BRIDGE = 7"
definition NLM_F_ECHO :: u32 where "NLM_F_ECHO = 8"
definition NLM_F_REPLACE :: u32 where "NLM_F_REPLACE = 0x100"
definition NLM_F_EXCL :: u32 where "NLM_F_EXCL = 0x200"
definition NLM_F_CREATE :: u32 where "NLM_F_CREATE = 0x400"
definition NLMSG_NOOP :: u16 where "NLMSG_NOOP = 1"
definition NLMSG_ERROR :: u16 where "NLMSG_ERROR = 2"
definition NLMSG_DONE :: u16 where "NLMSG_DONE = 3"
definition NLMSG_OVERRUN :: u16 where "NLMSG_OVERRUN = 4"
definition ESRCH :: int where "ESRCH = 3"
definition EEXIST :: int where "EEXIST = 17"
definition ENODEV :: int where "ENODEV = 19"
definition EADDRNOTAVAIL :: int where "EADDRNOTAVAIL = 99"
definition IFF_UP :: u32 where "IFF_UP = 1"
definition ARPHRD_VOID :: u32 where "ARPHRD_VOID = 0xFFFF"
definition IFA_ADDRESS :: u16 where "IFA_ADDRESS = 1"
definition IFA_LOCAL :: u16 where "IFA_LOCAL = 2"
definition IFA_BROADCAST :: u16 where "IFA_BROADCAST = 4"
definition IFLA_MTU :: u16 where "IFLA_MTU = 4"

text \<open>
  A listener is known by a number; its callback is an argument of the operations that run it. The
  record \<open>rtnl_env\<close> holds the byte order, the order in which attribute maps are traversed, and
  whether the n-th send on the socket succeeds.
\<close>

record rtnl_env =
  re_endian :: endian
  re_order :: "attributes \<Rightarrow> attributes"
  re_send :: "nat \<Rightarrow> byte_string \<Rightarrow> bool"

record rtnl_listener =
  rl_listener :: nat
  rl_listen_flags :: u32

type_synonym error_mask = "int set"

record rtnl_handler =
  rh_in_request :: bool
  rh_rtnl_socket :: int
  rh_request_flags :: u32
  rh_request_sequence :: u32
  rh_last_dump_sequence :: u32
  rh_listeners :: "rtnl_listener list"
  rh_error_mask_window :: "error_mask list"
  rh_sent :: "byte_string list"
  rh_log :: "(u32 \<times> int) list"

definition RTNLHandler_new :: rtnl_handler where
  "RTNLHandler_new = \<lparr>rh_in_request = False, rh_rtnl_socket = kInvalidSocket, rh_request_flags = 0,
     rh_request_sequence = 0, rh_last_dump_sequence = 0, rh_listeners = [],
     rh_error_mask_window = replicate kErrorWindowSize {}, rh_sent = [], rh_log = []\<rparr>"

subsection \<open>Expected errors\<close>

definition IsSequenceInErrorMaskWindow :: "u32 \<Rightarrow> rtnl_handler \<Rightarrow> bool" where
  "IsSequenceInErrorMaskWindow sequence h \<longleftrightarrow> rh_request_sequence h - sequence < of_nat kErrorWindowSize"

definition SetErrorMask :: "u32 \<Rightarrow> error_mask \<Rightarrow> rtnl_handler \<Rightarrow> rtnl_handler" where
  "SetErrorMask sequence error_mask h =
     (if IsSequenceInErrorMaskWindow sequence h
      then h\<lparr>rh_error_mask_window := (rh_error_mask_window h)[unat sequence mod kErrorWindowSize := error_mask]\<rparr>
      else h)"

definition GetAndClearErrorMask :: "u32 \<Rightarrow> rtnl_handler \<Rightarrow> error_mask \<times> rtnl_handler" where
  "GetAndClearErrorMask sequence h =
     (if IsSequenceInErrorMaskWindow sequence h
      then (rh_error_mask_window h ! (unat sequence mod kErrorWindowSize),
            h\<lparr>rh_error_mask_window := (rh_error_mask_window h)[unat sequence mod kErrorWindowSize := {}]\<rparr>)
      else ({}, h))"

subsection \<open>Sending\<close>

text \<open>The result, the message with its sequence number, and the handler.\<close>

definition SendMessageWithErrorMask ::
    "rtnl_env \<Rightarrow> rtnl_message \<Rightarrow> error_mask \<Rightarrow> rtnl_handler \<Rightarrow> bool \<times> rtnl_message \<times> rtnl_handler" where
  "SendMessageWithErrorMask E m error_mask h =
     (let h = SetErrorMask (rh_request_sequence h) error_mask h;
          m = m\<lparr>rm_seq := rh_request_sequence h\<rparr>;
          msgdata = Rtnl_Encode (re_endian E) (re_order E) m
      in if GetLength msgdata = 0 then (False, m, h)
         else
           let h = h\<lparr>rh_request_sequence := rh_request_sequence h + 1\<rparr>;
               ok = re_send E (length (rh_sent h)) msgdata
           in (ok, m, h\<lparr>rh_sent := rh_sent h @ [msgdata]\<rparr>))"

definition expected_errors :: "rtnl_message \<Rightarrow> error_mask" where
  "expected_errors m =
     (if rm_mode m = kModeAdd then {EEXIST}
      else if rm_mode m = kModeDelete
      then {ESRCH, ENODEV} \<union> (if rm_type m = kTypeAddress then {EADDRNOTAVAIL} else {})
      else {})"

definition SendMessage :: "rtnl_env \<Rightarrow> rtnl_message \<Rightarrow> rtnl_handler \<Rightarrow> bool \<times> rtnl_message \<times> rtnl_handler" where
  "SendMessage E m h = SendMessageWithErrorMask E m (expected_errors m) h"

subsection \<open>Dumps\<close>

text \<open>\<open>None\<close> is the failed \<open>CHECK(SendMessage(&msg))\<close>.\<close>

definition send_dump :: "rtnl_env \<Rightarrow> u32 \<Rightarrow> rtnl_type \<Rightarrow> family \<Rightarrow> rtnl_handler \<Rightarrow> rtnl_handler option" where
  "send_dump E flag ty fam h =
     (let (ok, m, h) = SendMessage E (RTNLMessage_new ty kModeGet 0 0 0 0 fam) h
      in if \<not> ok then None
         else Some (h\<lparr>rh_last_dump_sequence := rm_seq m, rh_request_flags := rh_request_flags h AND NOT flag,
                      rh_in_request := True\<rparr>))"

definition NextRequest :: "rtnl_env \<Rightarrow> u32 \<Rightarrow> rtnl_handler \<Rightarrow> rtnl_handler option" where
  "NextRequest E sequence h =
     (if sequence \<noteq> rh_last_dump_sequence h then Some h
      else if rh_request_flags h AND kRequestAddr \<noteq> 0 then send_dump E kRequestAddr kTypeAddress kFamilyUnknown h
      else if rh_request_flags h AND kRequestRoute \<noteq> 0 then send_dump E kRequestRoute kTypeRoute kFamilyUnknown h
      else if rh_request_flags h AND kRequestLink \<noteq> 0 then send_dump E kRequestLink kTypeLink kFamilyUnknown h
      else if rh_request_flags h AND kRequestNeighbor \<noteq> 0 then send_dump E kRequestNeighbor kTypeNeighbor kFamilyUnknown h
      else if rh_request_flags h AND kRequestBridgeNeighbor \<noteq> 0
      then send_dump E kRequestBridgeNeighbor kTypeNeighbor AF_BRIDGE h
      else Some (h\<lparr>rh_in_request := False\<rparr>))"

definition RequestDump :: "rtnl_env \<Rightarrow> u32 \<Rightarrow> rtnl_handler \<Rightarrow> rtnl_handler option" where
  "RequestDump E request_flags h =
     (if rh_rtnl_socket h = kInvalidSocket then Some h
      else
        let h = h\<lparr>rh_request_flags := rh_request_flags h OR request_flags\<rparr>
        in if \<not> rh_in_request h then NextRequest E (rh_last_dump_sequence h) h else Some h)"

text \<open>
  \<open>sock\<close> is what \<open>socket\<close> returns and \<open>bound\<close> whether \<open>bind\<close> succeeds. When \<open>socket\<close> fails the negative
  value it returned stays in \<open>rtnl_socket_\<close>; it is -1, the invalid socket.
\<close>

definition Rtnl_Start :: "rtnl_env \<Rightarrow> int \<Rightarrow> bool \<Rightarrow> rtnl_handler \<Rightarrow> rtnl_handler option" where
  "Rtnl_Start E sock bound h =
     (if rh_rtnl_socket h \<noteq> kInvalidSocket then Some h
      else
        let h = h\<lparr>rh_rtnl_socket := sock\<rparr>
        in if sock < 0 then Some h
           else if \<not> bound then Some (h\<lparr>rh_rtnl_socket := kInvalidSocket\<rparr>)
           else NextRequest E (rh_last_dump_sequence h) h)"

definition Rtnl_Stop :: "rtnl_handler \<Rightarrow> rtnl_handler" where
  "Rtnl_Stop h = h\<lparr>rh_rtnl_socket := kInvalidSocket, rh_in_request := False, rh_request_flags := 0\<rparr>"

subsection \<open>Listeners\<close>

definition AddListener :: "rtnl_listener \<Rightarrow> rtnl_handler \<Rightarrow> rtnl_handler" where
  "AddListener to_add h =
     (if rl_listener to_add \<in> rl_listener ` set (rh_listeners h) then h
      else h\<lparr>rh_listeners := rh_listeners h @ [to_add]\<rparr>)"

fun remove_listener :: "nat \<Rightarrow> rtnl_listener list \<Rightarrow> rtnl_listener list" where
  "remove_listener to_remove [] = []"
| "remove_listener to_remove (l # ls) = (if to_remove = rl_listener l then ls else l # remove_listener to_remove ls)"

definition RemoveListener :: "nat \<Rightarrow> rtnl_handler \<Rightarrow> rtnl_handler" where
  "RemoveListener to_remove h = h\<lparr>rh_listeners := remove_listener to_remove (rh_listeners h)\<rparr>"

text \<open>
  The callback \<open>cb\<close> of a listener takes the message and runs on the state of the listeners' owners together
  with the handler, to which it may send messages. It does not add or remove listeners.
\<close>

type_synonym 's callback = "nat \<Rightarrow> rtnl_message \<Rightarrow> 's \<times> rtnl_handler \<Rightarrow> ('s \<times> rtnl_handler) option"

definition NotifyEvent :: "'s callback \<Rightarrow> u32 \<Rightarrow> rtnl_message \<Rightarrow> rtnl_listener \<Rightarrow> 's \<times> rtnl_handler \<Rightarrow>
    ('s \<times> rtnl_handler) option" where
  "NotifyEvent cb ty m l s = (if ty AND rl_listen_flags l \<noteq> 0 then cb (rl_listener l) m s else Some s)"

fun dispatch_loop :: "'s callback \<Rightarrow> u32 \<Rightarrow> rtnl_message \<Rightarrow> rtnl_listener list \<Rightarrow> 's \<times> rtnl_handler \<Rightarrow>
    ('s \<times> rtnl_handler) option" where
  "dispatch_loop cb ty m [] s = Some s"
| "dispatch_loop cb ty m (l # ls) s =
     (case NotifyEvent cb ty m l s of None \<Rightarrow> None | Some s \<Rightarrow> dispatch_loop cb ty m ls s)"

definition DispatchEvent :: "'s callback \<Rightarrow> u32 \<Rightarrow> rtnl_message \<Rightarrow> 's \<times> rtnl_handler \<Rightarrow> ('s \<times> rtnl_handler) option" where
  "DispatchEvent cb ty m s = dispatch_loop cb ty m (rh_listeners (snd s)) s"

subsection \<open>Receiving\<close>

text \<open>The two branches of the loop body: a message that \<open>Decode\<close> refuses, and one it accepts.\<close>

definition handle_control ::
    "rtnl_env \<Rightarrow> bytes \<Rightarrow> nat \<Rightarrow> u16 \<Rightarrow> u32 \<Rightarrow> rtnl_handler \<Rightarrow> rtnl_handler option" where
  "handle_control E buf off ty sequence h =
     (if ty = NLMSG_DONE then NextRequest E sequence (snd (GetAndClearErrorMask sequence h))
      else if ty = NLMSG_ERROR then do {
        err \<leftarrow> read_u32 (re_endian E) (off + 16) buf;
        let error_number = - sint err;
        let (mask, h) = GetAndClearErrorMask sequence h;
        Some (if error_number \<notin> mask then h\<lparr>rh_log := rh_log h @ [(sequence, error_number)]\<rparr> else h)
      }
      else Some h)"

definition handle_message :: "'s callback \<Rightarrow> rtnl_message \<Rightarrow> 's \<times> rtnl_handler \<Rightarrow> ('s \<times> rtnl_handler) option" where
  "handle_message cb m s =
     (case rm_type m of
        kTypeLink \<Rightarrow> DispatchEvent cb kRequestLink m s
      | kTypeAddress \<Rightarrow> DispatchEvent cb kRequestAddr m s
      | kTypeRoute \<Rightarrow> DispatchEvent cb kRequestRoute m s
      | kTypeRdnss \<Rightarrow> DispatchEvent cb kRequestRdnss m s
      | kTypeNeighbor \<Rightarrow> DispatchEvent cb kRequestNeighbor m s
      | _ \<Rightarrow> Some s)"

text \<open>
  \<open>buf\<close> is the datagram and \<open>off\<close> the offset of the pointer of the same name. The loop ends at the end of the
  datagram or where \<open>NLMSG_OK\<close> fails.
\<close>

function ParseRTNL :: "rtnl_env \<Rightarrow> 's callback \<Rightarrow> bytes \<Rightarrow> nat \<Rightarrow> 's \<times> rtnl_handler \<Rightarrow> ('s \<times> rtnl_handler) option" where
  "ParseRTNL E cb buf off s =
     (if off < length buf then
        if length buf - off < sizeof_nlmsghdr then Some s
        else do {
          len \<leftarrow> read_u32 (re_endian E) off buf;
          ty \<leftarrow> read_u16 (re_endian E) (off + 4) buf;
          sequence \<leftarrow> read_u32 (re_endian E) (off + 8) buf;
          if unat len < sizeof_nlmsghdr \<or> unat len > length buf - off then Some s
          else do {
            payload \<leftarrow> read_mem off (unat len) buf;
            (ok, m) \<leftarrow> Rtnl_Decode (re_endian E) payload RTNLMessage_empty;
            s \<leftarrow> (if \<not> ok then map_option (Pair (fst s)) (handle_control E buf off ty sequence (snd s))
                  else handle_message cb m s);
            ParseRTNL E cb buf (off + unat len) s
          }
        }
      else Some s)"
  by pat_completeness auto
termination
  by (relation "measure (\<lambda>(E, cb, buf, off, s). length buf - off)") auto

declare ParseRTNL.simps [simp del]

subsection \<open>Requests of the clients\<close>

definition SetInterfaceFlags :: "rtnl_env \<Rightarrow> u32 \<Rightarrow> u32 \<Rightarrow> u32 \<Rightarrow> rtnl_handler \<Rightarrow> rtnl_handler" where
  "SetInterfaceFlags E interface_index flags change h =
     (if rh_rtnl_socket h = kInvalidSocket then h
      else
        let m = RTNLMessage_new kTypeLink kModeAdd (ucast NLM_F_REQUEST) 0 0 interface_index kFamilyUnknown;
            m = m\<lparr>rm_link_status := \<lparr>ls_type = ARPHRD_VOID, ls_flags = flags, ls_change = change\<rparr>\<rparr>;
            error_mask = (if flags AND IFF_UP = 0 then {ENODEV} else {})
        in snd (snd (SendMessageWithErrorMask E m error_mask h)))"

definition SetInterfaceMTU :: "rtnl_env \<Rightarrow> u32 \<Rightarrow> u32 \<Rightarrow> rtnl_handler \<Rightarrow> rtnl_handler option" where
  "SetInterfaceMTU E interface_index mtu h =
     (let m = RTNLMessage_new kTypeLink kModeAdd (ucast NLM_F_REQUEST) 0 0 interface_index kFamilyUnknown;
          (ok, m, h) = SendMessage E (SetAttribute m IFLA_MTU (mem32 (re_endian E) mtu)) h
      in if ok then Some h else None)"

definition AddressRequest ::
    "rtnl_env \<Rightarrow> u32 \<Rightarrow> rtnl_mode \<Rightarrow> u32 \<Rightarrow> ip_addr \<Rightarrow> ip_addr \<Rightarrow> ip_addr \<Rightarrow> rtnl_handler \<Rightarrow>
      (bool \<times> rtnl_handler) option" where
  "AddressRequest E interface_index md flags local broadcast peer h =
     (if family local \<noteq> family broadcast \<or> family local \<noteq> family peer then None
      else
        let m = RTNLMessage_new kTypeAddress md (ucast NLM_F_REQUEST OR flags) 0 0 interface_index (family local);
            m = m\<lparr>rm_address_status := \<lparr>as_prefix_len = of_nat (ip_prefix local), as_flags = 0, as_scope = 0\<rparr>\<rparr>;
            m = SetAttribute m IFA_LOCAL (address local);
            m = (if \<not> IsDefault broadcast then SetAttribute m IFA_BROADCAST (address broadcast) else m);
            m = (if \<not> IsDefault peer then SetAttribute m IFA_ADDRESS (address peer) else m);
            (ok, m, h) = SendMessage E m h
        in Some (ok, h))"

definition AddInterfaceAddress ::
    "rtnl_env \<Rightarrow> u32 \<Rightarrow> ip_addr \<Rightarrow> ip_addr \<Rightarrow> ip_addr \<Rightarrow> rtnl_handler \<Rightarrow> (bool \<times> rtnl_handler) option" where
  "AddInterfaceAddress E interface_index local broadcast peer h =
     AddressRequest E interface_index kModeAdd (NLM_F_CREATE OR NLM_F_EXCL OR NLM_F_ECHO) local broadcast peer h"

definition RemoveInterfaceAddress :: "rtnl_env \<Rightarrow> u32 \<Rightarrow> ip_addr \<Rightarrow> rtnl_handler \<Rightarrow> (bool \<times> rtnl_handler) option" where
  "RemoveInterfaceAddress E interface_index local h =
     AddressRequest E interface_index kModeDelete NLM_F_ECHO local (IPAddress_family (family local))
       (IPAddress_family (family local)) h"

definition RemoveInterface :: "rtnl_env \<Rightarrow> u32 \<Rightarrow> rtnl_handler \<Rightarrow> bool \<times> rtnl_handler" where
  "RemoveInterface E interface_index h =
     (let (ok, m, h) = SendMessage E
        (RTNLMessage_new kTypeLink kModeDelete (ucast NLM_F_REQUEST) 0 0 interface_index kFamilyUnknown) h
      in (ok, h))"

text \<open>\<open>sock\<close> is what \<open>socket\<close> returns, \<open>siocgifindex\<close> what the \<open>ioctl\<close> finds for a name of at most 15 bytes.\<close>

definition GetInterfaceIndex :: "int \<Rightarrow> (string \<Rightarrow> int option) \<Rightarrow> string \<Rightarrow> int" where
  "GetInterfaceIndex sock siocgifindex interface_name =
     (if interface_name = [] then -1
      else if length interface_name \<ge> 16 then -1
      else if sock < 0 then -1
      else case siocgifindex interface_name of None \<Rightarrow> -1 | Some i \<Rightarrow> i)"

subsection \<open>The window of expected errors\<close>

lemma mem32_not_Nil [simp]: "mem32 e w \<noteq> []"
  using length_mem32 [of e w] by (metis length_0_conv zero_neq_numeral)

lemma length_Rtnl_Encode: "Rtnl_Encode e order m = [] \<longleftrightarrow> encode_body e m = None"
  by (cases "encode_body e m") (auto simp: Rtnl_Encode_def Let_def)

definition sendable :: "rtnl_message \<Rightarrow> bool" where
  "sendable m \<longleftrightarrow> rm_type m \<in> {kTypeLink, kTypeAddress, kTypeRoute, kTypeNeighbor} \<and> rm_mode m \<noteq> kModeUnknown"

lemma sendable_encodes: "sendable m \<longleftrightarrow> Rtnl_Encode e order m \<noteq> []"
proof -
  have modes: "EncodeLink e m = None \<longleftrightarrow> rm_mode m \<in> {kModeUnknown, kModeGet}"
    "EncodeAddress e m = None \<longleftrightarrow> rm_mode m \<in> {kModeUnknown, kModeGet}"
    "EncodeRoute e m = None \<longleftrightarrow> rm_mode m \<in> {kModeUnknown, kModeGet}"
    "EncodeNeighbor e m = None \<longleftrightarrow> rm_mode m \<in> {kModeUnknown, kModeGet}"
    by (cases "rm_mode m";
        simp add: EncodeLink_def EncodeAddress_def EncodeRoute_def EncodeNeighbor_def Let_def)+
  have "encode_body e m = None \<longleftrightarrow> \<not> sendable m"
    by (cases "rm_type m") (simp_all add: encode_body_def sendable_def modes del: not_None_eq)
  then show ?thesis by (simp add: length_Rtnl_Encode)
qed

lemma sendable_seq [simp]: "sendable (m\<lparr>rm_seq := n\<rparr>) = sendable m"
  by (simp add: sendable_def)

lemma in_window_now [simp]: "IsSequenceInErrorMaskWindow (rh_request_sequence h) h"
  by (simp add: IsSequenceInErrorMaskWindow_def kErrorWindowSize_def)

lemma SendMessageWithErrorMask_effect:
  "SendMessageWithErrorMask E m expected h =
     (let m' = m\<lparr>rm_seq := rh_request_sequence h\<rparr>;
          p = Rtnl_Encode (re_endian E) (re_order E) m';
          h' = h\<lparr>rh_error_mask_window := (rh_error_mask_window h)[unat (rh_request_sequence h) mod 16 := expected]\<rparr>
      in if sendable m
         then (re_send E (length (rh_sent h)) p, m',
               h'\<lparr>rh_request_sequence := rh_request_sequence h + 1, rh_sent := rh_sent h @ [p]\<rparr>)
         else (False, m', h'))"
  using sendable_encodes [of "m\<lparr>rm_seq := rh_request_sequence h\<rparr>" "re_endian E" "re_order E"]
  by (auto simp: SendMessageWithErrorMask_def SetErrorMask_def Let_def GetLength_def kErrorWindowSize_def)

definition send_with_mask :: "rtnl_env \<Rightarrow> rtnl_message \<times> error_mask \<Rightarrow> rtnl_handler \<Rightarrow> rtnl_handler" where
  "send_with_mask E r h = snd (snd (SendMessageWithErrorMask E (fst r) (snd r) h))"

lemma send_with_mask_fields:
  "rh_error_mask_window (send_with_mask E r h) =
     (rh_error_mask_window h)[unat (rh_request_sequence h) mod 16 := snd r]"
  "rh_request_sequence (send_with_mask E r h) = rh_request_sequence h + (if sendable (fst r) then 1 else 0)"
  "rh_log (send_with_mask E r h) = rh_log h"
  by (simp_all add: send_with_mask_def SendMessageWithErrorMask_effect Let_def)

lemma unat_add_mod_16: "unat (s + of_nat j :: u32) mod 16 = (unat s + j) mod 16"
proof -
  have "unat (s + of_nat j :: u32) = (unat s + unat (of_nat j :: u32)) mod 2 ^ 32"
    by (simp add: unat_word_ariths)
  moreover have "unat (of_nat j :: u32) = j mod 2 ^ 32" by (simp add: unsigned_of_nat take_bit_eq_mod)
  ultimately have "unat (s + of_nat j :: u32) = (unat s + j) mod 2 ^ 32" by (simp add: mod_add_right_eq)
  then show ?thesis by (simp add: mod_mod_cancel)
qed

lemma add_mod_16_neq: "1 \<le> j \<Longrightarrow> j < 16 \<Longrightarrow> (n + j) mod 16 \<noteq> n mod (16 :: nat)"
  using mod_eq_dvd_iff_nat [of n "n + j" 16] dvd_imp_le [of 16 j] by auto

lemma slots_differ: "1 \<le> j \<Longrightarrow> j < 16 \<Longrightarrow> unat (s + of_nat j :: u32) mod 16 \<noteq> unat s mod 16"
  using add_mod_16_neq [of j "unat s"] by (simp only: unat_add_mod_16 not_False_eq_True)

text \<open>After sequence number \<open>s\<close> was used, \<open>j\<close> more have been.\<close>

definition mask_pending :: "u32 \<Rightarrow> nat \<Rightarrow> error_mask \<Rightarrow> rtnl_handler \<Rightarrow> bool" where
  "mask_pending s j expected h \<longleftrightarrow> length (rh_error_mask_window h) = 16 \<and> rh_request_sequence h = s + of_nat j \<and>
     rh_error_mask_window h ! (unat s mod 16) = expected"

lemma mask_pending_send:
  assumes "mask_pending s j expected h" "1 \<le> j" "j < 16"
  shows "mask_pending s (if sendable (fst r) then Suc j else j) expected (send_with_mask E r h)"
  using assms slots_differ [OF assms(2,3), of s]
  by (auto simp: mask_pending_def send_with_mask_fields nth_list_update)

lemma mask_pending_sends:
  assumes "mask_pending s j expected h" "1 \<le> j" "j + length rs \<le> 16"
  shows "\<exists>j'. mask_pending s j' expected (fold (send_with_mask E) rs h) \<and> j \<le> j' \<and> j' \<le> j + length rs"
  using assms
proof (induction rs arbitrary: j h)
  case (Cons r rs)
  have "mask_pending s (if sendable (fst r) then Suc j else j) expected (send_with_mask E r h)"
    using Cons.prems by (intro mask_pending_send) auto
  from Cons.IH [OF this] Cons.prems
  obtain j' where "mask_pending s j' expected (fold (send_with_mask E) rs (send_with_mask E r h))"
    "(if sendable (fst r) then Suc j else j) \<le> j' \<and> j' \<le> (if sendable (fst r) then Suc j else j) + length rs"
    by (cases "sendable (fst r)") (simp_all, blast+)
  then show ?case using Cons.prems by (intro exI [of _ j']) (auto split: if_splits)
qed auto

lemma mask_pending_found:
  assumes "mask_pending s j expected h" "j < 16"
  shows "GetAndClearErrorMask s h = (expected, h\<lparr>rh_error_mask_window := (rh_error_mask_window h)[unat s mod 16 := {}]\<rparr>)"
proof -
  have "unat (of_nat j :: u32) = j" using assms(2) by (intro unat_small) simp
  then have "(of_nat j :: u32) < 16" using assms(2) by (simp add: word_less_nat_alt)
  then show ?thesis using assms
    by (simp add: GetAndClearErrorMask_def mask_pending_def IsSequenceInErrorMaskWindow_def kErrorWindowSize_def)
qed

text \<open>Two sequence numbers in one window have different places in it.\<close>

lemma window_slots:
  fixes c s q :: u32
  assumes "c - s < 16" "c - q < 16" "q \<noteq> s"
  shows "unat q mod 16 \<noteq> unat s mod 16"
proof -
  have ne: "unat b mod 16 \<noteq> unat a mod 16" if "b - a < 16" "b \<noteq> a" for a b :: u32
  proof -
    have "1 \<le> unat (b - a)" using that(2) by (metis One_nat_def Suc_leI eq_iff_diff_eq_0 unat_gt_0)
    moreover have "unat (b - a) < 16" using that(1) by (simp add: word_less_nat_alt)
    ultimately show ?thesis using slots_differ [of "unat (b - a)" a] by simp
  qed
  have "q - s < 16 \<or> s - q < 16"
  proof (cases "unat (c - q) \<le> unat (c - s)")
    case True
    then have "unat ((c - s) - (c - q)) = unat (c - s) - unat (c - q)"
      by (intro unat_sub) (simp only: word_le_nat_alt)
    then show ?thesis using assms(1) by (simp add: word_less_nat_alt less_imp_diff_less)
  next
    case False
    then have "unat ((c - q) - (c - s)) = unat (c - q) - unat (c - s)"
      by (intro unat_sub) (simp add: word_le_nat_alt)
    then show ?thesis using assms(2) by (simp add: word_less_nat_alt less_imp_diff_less)
  qed
  then show ?thesis using ne [of q s] ne [of s q] assms(3) by auto
qed

lemma report_late:
  assumes "read_u32 (re_endian E) (off + 16) buf = Some err" "\<not> rh_request_sequence h - q < 16"
  shows "handle_control E buf off NLMSG_ERROR q h = Some (h\<lparr>rh_log := rh_log h @ [(q, - sint err)]\<rparr>)"
  using assms by (simp add: handle_control_def NLMSG_ERROR_def NLMSG_DONE_def GetAndClearErrorMask_def
      IsSequenceInErrorMaskWindow_def kErrorWindowSize_def)

lemma mask_pending_report:
  assumes "mask_pending s j expected h" "j < 16" "handle_control E buf off NLMSG_ERROR q h = Some h'" "q \<noteq> s"
  shows "mask_pending s j expected h'"
proof -
  have c: "rh_request_sequence h - s < 16"
  proof -
    have "unat (of_nat j :: u32) = j" using assms(2) by (intro unat_small) simp
    then show ?thesis using assms(1,2) by (simp add: mask_pending_def word_less_nat_alt)
  qed
  have fields: "rh_request_sequence h' = rh_request_sequence h" "length (rh_error_mask_window h') = length (rh_error_mask_window h)"
    "rh_error_mask_window h' ! (unat s mod 16) = rh_error_mask_window h ! (unat s mod 16)"
    using assms(3) window_slots [OF c _ assms(4)]
    by (auto simp: handle_control_def NLMSG_ERROR_def NLMSG_DONE_def GetAndClearErrorMask_def
        IsSequenceInErrorMaskWindow_def kErrorWindowSize_def Let_def split: Option.bind_splits if_splits)
  then show ?thesis using assms(1) by (simp add: mask_pending_def)
qed

text \<open>
  C17: an error the caller of a request declared as expected is kept out of the log when the kernel reports
  it before fifteen more requests have gone out; any other error for that request is logged, and a second report for the
  same request is always logged. An error for a sequence number outside the window of the latest sixteen, a
  late one or one that was never used, is always logged, whatever its number. And reports for other requests in between,
  logged or not, do not change what is expected for this one. Sequence numbers wrap around at 2^32.
\<close>

theorem expected_error_not_logged:
  assumes "length (rh_error_mask_window h) = 16" "sendable m" "length rs \<le> 14"
    and "read_u32 (re_endian E) (off + 16) buf = Some err"
    and "h' = fold (send_with_mask E) rs (send_with_mask E (m, expected) h)"
  shows "(\<exists>h''. handle_control E buf off NLMSG_ERROR (rh_request_sequence h) h' = Some h'' \<and>
    rh_log h'' = rh_log h' @ (if - sint err \<in> expected then [] else [(rh_request_sequence h, - sint err)]) \<and>
    (\<exists>h3. handle_control E buf off NLMSG_ERROR (rh_request_sequence h) h'' = Some h3 \<and>
       rh_log h3 = rh_log h'' @ [(rh_request_sequence h, - sint err)])) \<and>
    (\<forall>q. rh_request_sequence h' - q \<ge> 16 \<longrightarrow>
       (\<exists>h4. handle_control E buf off NLMSG_ERROR q h' = Some h4 \<and> rh_log h4 = rh_log h' @ [(q, - sint err)])) \<and>
    (\<forall>q h5. q \<noteq> rh_request_sequence h \<and> handle_control E buf off NLMSG_ERROR q h' = Some h5 \<longrightarrow>
       (\<exists>h6. handle_control E buf off NLMSG_ERROR (rh_request_sequence h) h5 = Some h6 \<and>
          rh_log h6 = rh_log h5 @ (if - sint err \<in> expected then [] else [(rh_request_sequence h, - sint err)])))"
proof -
  let ?s = "rh_request_sequence h"
  have "mask_pending ?s 1 expected (send_with_mask E (m, expected) h)"
    using assms(1,2) by (simp add: mask_pending_def send_with_mask_fields)
  then obtain j where j: "mask_pending ?s j expected h'" "1 \<le> j" "j \<le> 15"
    using mask_pending_sends [of ?s 1 expected "send_with_mask E (m, expected) h" rs E] assms(3,5) by auto
  have report: "\<exists>g'. handle_control E buf off NLMSG_ERROR ?s g = Some g' \<and>
      rh_log g' = rh_log g @ (if - sint err \<in> ex then [] else [(?s, - sint err)]) \<and> mask_pending ?s j {} g'"
    if "mask_pending ?s j ex g" for g ex
    using mask_pending_found [OF that] j(3) assms(4) that
    by (auto simp: handle_control_def NLMSG_ERROR_def NLMSG_DONE_def Let_def mask_pending_def)
  obtain h'' where h'': "handle_control E buf off NLMSG_ERROR ?s h' = Some h''"
    "rh_log h'' = rh_log h' @ (if - sint err \<in> expected then [] else [(?s, - sint err)])" "mask_pending ?s j {} h''"
    using report [OF j(1)] by blast
  have second: "\<exists>h3. handle_control E buf off NLMSG_ERROR ?s h'' = Some h3 \<and> rh_log h3 = rh_log h'' @ [(?s, - sint err)]"
    using report [OF h''(3)] by auto
  have late: "\<exists>h4. handle_control E buf off NLMSG_ERROR q h' = Some h4 \<and> rh_log h4 = rh_log h' @ [(q, - sint err)]"
    if "rh_request_sequence h' - q \<ge> 16" for q
    using report_late [OF assms(4), of h' q] that by (simp add: not_less)
  have others: "\<exists>h6. handle_control E buf off NLMSG_ERROR ?s h5 = Some h6 \<and>
      rh_log h6 = rh_log h5 @ (if - sint err \<in> expected then [] else [(?s, - sint err)])"
    if "q \<noteq> ?s" "handle_control E buf off NLMSG_ERROR q h' = Some h5" for q h5
    using report [OF mask_pending_report [OF j(1) _ that(2,1)]] j(3) by auto
  show ?thesis using h''(1,2) second late others by blast
qed

definition sample_env :: rtnl_env where
  "sample_env = \<lparr>re_endian = LittleEndian, re_order = (\<lambda>attrs. attrs), re_send = (\<lambda>n p. True)\<rparr>"

definition sample_removal :: rtnl_message where
  "sample_removal = RTNLMessage_new kTypeLink kModeDelete 1 0 0 3 kFamilyUnknown"

definition sample_sends :: rtnl_handler where
  "sample_sends = fold (send_with_mask sample_env) [(sample_removal, {})]
     (send_with_mask sample_env (sample_removal, {ESRCH}) RTNLHandler_new)"

lemma expected_error_not_logged_witness:
  "\<exists>h''. handle_control sample_env (replicate 16 (0 :: u8) @ mem32 LittleEndian (- 3)) 0 NLMSG_ERROR 0 sample_sends = Some h'' \<and>
     rh_log h'' = []"
proof -
  have h: "length (rh_error_mask_window RTNLHandler_new) = 16" "rh_request_sequence RTNLHandler_new = 0"
    by (simp_all add: RTNLHandler_new_def kErrorWindowSize_def)
  have m: "sendable sample_removal" by (simp add: sample_removal_def sendable_def RTNLMessage_new_def)
  have err: "read_u32 (re_endian sample_env) (0 + 16) (replicate 16 (0 :: u8) @ mem32 LittleEndian (- 3)) = Some (- 3)"
    by (simp add: sample_env_def)
  have "length [(sample_removal, {} :: error_mask)] \<le> 14" by simp
  from expected_error_not_logged [OF h(1) m this err sample_sends_def]
  obtain h'' where "handle_control sample_env (replicate 16 (0 :: u8) @ mem32 LittleEndian (- 3)) 0 NLMSG_ERROR 0
      sample_sends = Some h''"
    "rh_log h'' = rh_log sample_sends @ (if - sint (- 3 :: u32) \<in> {ESRCH} then [] else [(0, - sint (- 3 :: u32))])"
    unfolding h(2) by blast
  moreover have "- sint (- 3 :: u32) \<in> {ESRCH}" by (simp add: ESRCH_def)
  moreover have "rh_log sample_sends = []" by (simp add: sample_sends_def send_with_mask_fields RTNLHandler_new_def)
  ultimately show ?thesis by simp
qed

subsection \<open>Dumps, one at a time\<close>

text \<open>The kinds of dump in the order of \<open>NextRequest\<close>, those pending in a set of flags, and their requests.\<close>

definition dump_order :: "(u32 \<times> rtnl_type \<times> family) list" where
  "dump_order = [(kRequestAddr, kTypeAddress, kFamilyUnknown), (kRequestRoute, kTypeRoute, kFamilyUnknown),
     (kRequestLink, kTypeLink, kFamilyUnknown), (kRequestNeighbor, kTypeNeighbor, kFamilyUnknown),
     (kRequestBridgeNeighbor, kTypeNeighbor, AF_BRIDGE)]"

definition pending_dumps :: "u32 \<Rightarrow> (u32 \<times> rtnl_type \<times> family) list" where
  "pending_dumps flags = filter (\<lambda>k. flags AND fst k \<noteq> 0) dump_order"

definition dump_request :: "rtnl_env \<Rightarrow> u32 \<Rightarrow> u32 \<times> rtnl_type \<times> family \<Rightarrow> byte_string" where
  "dump_request E sequence k =
     Rtnl_Encode (re_endian E) (re_order E)
       ((RTNLMessage_new (fst (snd k)) kModeGet 0 0 0 0 (snd (snd k)))\<lparr>rm_seq := sequence\<rparr>)"

fun dump_requests :: "rtnl_env \<Rightarrow> u32 \<Rightarrow> (u32 \<times> rtnl_type \<times> family) list \<Rightarrow> byte_string list" where
  "dump_requests E sequence [] = []"
| "dump_requests E sequence (k # ks) = dump_request E sequence k # dump_requests E (sequence + 1) ks"

lemmas request_flag_defs = kRequestAddr_def kRequestRoute_def kRequestLink_def kRequestNeighbor_def
  kRequestBridgeNeighbor_def kRequestRdnss_def

lemma clear_flag:
  assumes "k \<in> set dump_order" "k' \<in> set dump_order"
  shows "(flags AND NOT (fst k)) AND fst k' \<noteq> 0 \<longleftrightarrow> flags AND fst k' \<noteq> 0 \<and> k \<noteq> k'"
  using assms by (auto simp: dump_order_def request_flag_defs and.assoc)

lemma pending_dumps_next:
  assumes "pending_dumps flags = (f, ty, fam) # ks"
  shows "pending_dumps (flags AND NOT f) = ks"
proof -
  let ?k = "(f, ty, fam)"
  have "?k \<in> set (pending_dumps flags)" using assms by simp
  then have k: "?k \<in> set dump_order" by (simp add: pending_dumps_def)
  have "pending_dumps (flags AND NOT f) = filter (\<lambda>k. k \<noteq> ?k) (pending_dumps flags)"
    using clear_flag [OF k] by (auto simp: pending_dumps_def intro!: filter_cong)
  moreover have "distinct (pending_dumps flags)"
    by (simp add: pending_dumps_def) (simp add: dump_order_def request_flag_defs)
  ultimately show ?thesis using assms by (auto simp: filter_id_conv)
qed

lemma pending_dumps_bound: "length (pending_dumps flags) \<le> 5"
  using length_filter_le [of _ dump_order] by (simp add: pending_dumps_def dump_order_def)

lemma NextRequest_pending:
  "NextRequest E (rh_last_dump_sequence h) h =
     (case pending_dumps (rh_request_flags h) of
        [] \<Rightarrow> Some (h\<lparr>rh_in_request := False\<rparr>)
      | (f, ty, fam) # ks \<Rightarrow> send_dump E f ty fam h)"
  by (simp add: NextRequest_def pending_dumps_def dump_order_def)

definition sends_succeed :: "rtnl_env \<Rightarrow> bool" where
  "sends_succeed E \<longleftrightarrow> (\<forall>n p. re_send E n p)"

lemma send_dump_effect:
  assumes "sends_succeed E" "(f, ty, fam) \<in> set dump_order"
  shows "\<exists>h'. send_dump E f ty fam h = Some h' \<and> rh_in_request h' \<and>
    rh_request_flags h' = rh_request_flags h AND NOT f \<and>
    rh_sent h' = rh_sent h @ [dump_request E (rh_request_sequence h) (f, ty, fam)] \<and>
    rh_request_sequence h' = rh_request_sequence h + 1 \<and> rh_rtnl_socket h' = rh_rtnl_socket h"
proof -
  have "sendable (RTNLMessage_new ty kModeGet 0 0 0 0 fam)"
    using assms(2) by (auto simp: dump_order_def sendable_def RTNLMessage_new_def)
  then show ?thesis using assms(1)
    by (simp add: send_dump_def SendMessage_def SendMessageWithErrorMask_effect Let_def dump_request_def sends_succeed_def)
qed

text \<open>The kernel ends the dump in progress, n times: a message \<open>NLMSG_DONE\<close> with the sequence number of the dump.\<close>

fun end_dumps :: "rtnl_env \<Rightarrow> nat \<Rightarrow> rtnl_handler \<Rightarrow> rtnl_handler option" where
  "end_dumps E 0 h = Some h"
| "end_dumps E (Suc n) h = do {
     h \<leftarrow> handle_control E [] 0 NLMSG_DONE (rh_last_dump_sequence h) h;
     end_dumps E n h
   }"

text \<open>Forgetting the expected errors of the ended dump changes nothing that matters for the next one.\<close>

definition same_dumps :: "rtnl_handler \<Rightarrow> rtnl_handler \<Rightarrow> bool" where
  "same_dumps h g \<longleftrightarrow> rh_request_flags g = rh_request_flags h \<and> rh_sent g = rh_sent h \<and>
     rh_request_sequence g = rh_request_sequence h \<and> rh_last_dump_sequence g = rh_last_dump_sequence h \<and>
     rh_in_request g = rh_in_request h"

lemma end_one:
  "\<exists>g. handle_control E [] 0 NLMSG_DONE (rh_last_dump_sequence h) h = NextRequest E (rh_last_dump_sequence g) g \<and> same_dumps h g"
proof -
  let ?g = "snd (GetAndClearErrorMask (rh_last_dump_sequence h) h)"
  have "same_dumps h ?g" by (simp add: same_dumps_def GetAndClearErrorMask_def)
  then show ?thesis by (intro exI [of _ ?g]) (simp add: handle_control_def same_dumps_def)
qed

lemma NextRequest_serves:
  assumes "sends_succeed E" "pending_dumps (rh_request_flags h) = k # ks"
  shows "\<exists>h1. NextRequest E (rh_last_dump_sequence h) h = Some h1 \<and> rh_in_request h1 \<and>
    pending_dumps (rh_request_flags h1) = ks \<and> rh_sent h1 = rh_sent h @ [dump_request E (rh_request_sequence h) k] \<and>
    rh_request_sequence h1 = rh_request_sequence h + 1"
proof -
  obtain f ty fam where k: "k = (f, ty, fam)" by (cases k)
  have "(f, ty, fam) \<in> set (pending_dumps (rh_request_flags h))" using assms(2) k by simp
  then have "(f, ty, fam) \<in> set dump_order" by (simp add: pending_dumps_def)
  from send_dump_effect [OF assms(1) this] obtain h1 where h1: "send_dump E f ty fam h = Some h1" "rh_in_request h1"
    "rh_request_flags h1 = rh_request_flags h AND NOT f"
    "rh_sent h1 = rh_sent h @ [dump_request E (rh_request_sequence h) (f, ty, fam)]"
    "rh_request_sequence h1 = rh_request_sequence h + 1" by blast
  moreover have "pending_dumps (rh_request_flags h1) = ks"
    using pending_dumps_next [of "rh_request_flags h" f ty fam ks] assms(2) k h1(3) by simp
  ultimately show ?thesis using assms(2) k by (simp add: NextRequest_pending)
qed

text \<open>What the handler has sent after i replies, and when it is idle, with the kinds \<open>ks\<close> pending at first.\<close>

lemma end_dumps_serves:
  assumes "sends_succeed E" "pending_dumps (rh_request_flags h) = ks" "rh_in_request h" "i \<le> Suc (length ks)"
  shows "\<exists>h'. end_dumps E i h = Some h' \<and> rh_in_request h' = (i \<le> length ks) \<and>
    pending_dumps (rh_request_flags h') = drop i ks \<and>
    rh_sent h' = rh_sent h @ dump_requests E (rh_request_sequence h) (take i ks)"
  using assms(2-4)
proof (induction i arbitrary: h ks)
  case (Suc i)
  from end_one obtain g where g: "handle_control E [] 0 NLMSG_DONE (rh_last_dump_sequence h) h =
      NextRequest E (rh_last_dump_sequence g) g" "same_dumps h g" by blast
  show ?case
  proof (cases ks)
    case Nil
    then show ?thesis using Suc.prems g by (simp add: NextRequest_pending same_dumps_def)
  next
    case (Cons k ks')
    with Suc.prems(1) g(2) have "pending_dumps (rh_request_flags g) = k # ks'" by (simp add: same_dumps_def)
    from NextRequest_serves [OF assms(1) this] obtain h1 where h1: "NextRequest E (rh_last_dump_sequence g) g = Some h1"
      "rh_in_request h1" "pending_dumps (rh_request_flags h1) = ks'"
      "rh_sent h1 = rh_sent h @ [dump_request E (rh_request_sequence h) k]"
      "rh_request_sequence h1 = rh_request_sequence h + 1"
      using g(2) by (auto simp: same_dumps_def)
    from Suc.IH [OF h1(3,2)] Suc.prems(3) Cons h1 g(1) show ?thesis by auto
  qed
qed simp

lemma RequestDump_starts:
  assumes "sends_succeed E" "rh_rtnl_socket h \<noteq> kInvalidSocket" "ks = pending_dumps (rh_request_flags h OR flags)"
  shows "\<exists>h1. RequestDump E flags h = Some h1 \<and> rh_in_request h1 = (rh_in_request h \<or> ks \<noteq> []) \<and>
    pending_dumps (rh_request_flags h1) = (if rh_in_request h then ks else tl ks) \<and>
    rh_sent h1 = rh_sent h @ dump_requests E (rh_request_sequence h) (if rh_in_request h then [] else take 1 ks) \<and>
    rh_request_sequence h1 = rh_request_sequence h + (if rh_in_request h \<or> ks = [] then 0 else 1)"
proof (cases "rh_in_request h")
  case False
  let ?h = "h\<lparr>rh_request_flags := rh_request_flags h OR flags\<rparr>"
  show ?thesis
  proof (cases ks)
    case Nil
    then show ?thesis using False assms(2,3) NextRequest_pending [of E ?h] by (simp add: RequestDump_def Let_def)
  next
    case (Cons k ks')
    then show ?thesis using NextRequest_serves [OF assms(1), of ?h k ks'] assms(2,3) False by (auto simp: RequestDump_def Let_def)
  qed
qed (use assms in \<open>simp add: RequestDump_def Let_def\<close>)

text \<open>
  C18: whatever dumps a client asks for, they are requested one at a time, each pending kind exactly once and in
  a fixed order, the next when the kernel ends the one before. While one is in progress a client's request sends nothing;
  after \<open>i\<close> replies \<open>NLMSG_DONE\<close> exactly the first \<open>i\<close> of the waiting kinds have been sent (one more if the
  handler was idle at first); a reply for any other sequence number sends nothing and changes nothing of the dumps; and
  after at most six such replies the handler is idle and nothing dumpable is left pending. Sends are assumed to succeed,
  as the code checks, and every dump to be ended by the kernel: one that the kernel refuses with an error is never ended
  (\<open>refused_dump_blocks\<close>).
\<close>

theorem dumps_served:
  assumes "sends_succeed E" "rh_rtnl_socket h \<noteq> kInvalidSocket"
    and "ks = pending_dumps (rh_request_flags h OR flags)"
    and "n = length ks + (if rh_in_request h then 1 else 0)" and "start = (if rh_in_request h then 0 else 1)"
  shows "n \<le> 6 \<and> (\<exists>h1. RequestDump E flags h = Some h1 \<and> (rh_in_request h \<longrightarrow> rh_sent h1 = rh_sent h) \<and>
    (\<forall>i \<le> n. \<exists>h2. end_dumps E i h1 = Some h2 \<and> rh_in_request h2 = (i < n) \<and>
       rh_sent h2 = rh_sent h @ dump_requests E (rh_request_sequence h) (take (start + i) ks) \<and>
       pending_dumps (rh_request_flags h2) = drop (start + i) ks \<and>
       (\<forall>q. q \<noteq> rh_last_dump_sequence h2 \<longrightarrow>
          (\<exists>h3. handle_control E [] 0 NLMSG_DONE q h2 = Some h3 \<and> same_dumps h2 h3))))"
proof -
  have n: "n \<le> 6" using pending_dumps_bound [of "rh_request_flags h OR flags"] assms(3,4) by auto
  have other: "\<exists>h3. handle_control E [] 0 NLMSG_DONE q h2 = Some h3 \<and> same_dumps h2 h3" if "q \<noteq> rh_last_dump_sequence h2" for q h2
    using that by (simp add: handle_control_def NextRequest_def GetAndClearErrorMask_def same_dumps_def)
  from RequestDump_starts [OF assms(1-3)] obtain h1 where h1: "RequestDump E flags h = Some h1"
    "rh_in_request h1 = (rh_in_request h \<or> ks \<noteq> [])"
    "pending_dumps (rh_request_flags h1) = (if rh_in_request h then ks else tl ks)"
    "rh_sent h1 = rh_sent h @ dump_requests E (rh_request_sequence h) (if rh_in_request h then [] else take 1 ks)"
    "rh_request_sequence h1 = rh_request_sequence h + (if rh_in_request h \<or> ks = [] then 0 else 1)" by blast
  have "\<exists>h2. end_dumps E i h1 = Some h2 \<and> rh_in_request h2 = (i < n) \<and>
      rh_sent h2 = rh_sent h @ dump_requests E (rh_request_sequence h) (take (start + i) ks) \<and>
      pending_dumps (rh_request_flags h2) = drop (start + i) ks" if i: "i \<le> n" for i
  proof (cases "rh_in_request h1")
    case True
    show ?thesis
      using end_dumps_serves [OF assms(1) h1(3) True, of i] i h1(2,4,5) True assms(4,5)
      by (cases ks) (auto split: if_splits)
  next
    case False
    then show ?thesis using i h1(2-4) assms(4,5) by auto
  qed
  with n h1(1,4) other show ?thesis by auto
qed

lemma dumps_served_witness:
  "\<exists>h1 h2. RequestDump sample_env (kRequestLink OR kRequestAddr) (RTNLHandler_new\<lparr>rh_rtnl_socket := 5\<rparr>) = Some h1 \<and>
     end_dumps sample_env 1 h1 = Some h2 \<and> rh_in_request h2 \<and>
     rh_sent h2 = [] @ dump_requests sample_env 0
       [(kRequestAddr, kTypeAddress, kFamilyUnknown), (kRequestLink, kTypeLink, kFamilyUnknown)]"
proof -
  let ?h = "RTNLHandler_new\<lparr>rh_rtnl_socket := 5\<rparr>"
  have fields: "rh_sent ?h = []" "rh_request_sequence ?h = 0" "rh_request_flags ?h = 0" "\<not> rh_in_request ?h"
    by (simp_all add: RTNLHandler_new_def)
  have ks: "pending_dumps (rh_request_flags ?h OR (kRequestLink OR kRequestAddr)) =
      [(kRequestAddr, kTypeAddress, kFamilyUnknown), (kRequestLink, kTypeLink, kFamilyUnknown)]"
    by (simp add: fields pending_dumps_def dump_order_def request_flag_defs)
  have env: "sends_succeed sample_env" "rh_rtnl_socket ?h \<noteq> kInvalidSocket"
    by (simp_all add: sends_succeed_def sample_env_def kInvalidSocket_def)
  let ?ks = "[(kRequestAddr, kTypeAddress, kFamilyUnknown), (kRequestLink, kTypeLink, kFamilyUnknown)]"
  have "\<exists>h1. RequestDump sample_env (kRequestLink OR kRequestAddr) ?h = Some h1 \<and>
      (\<exists>h2. end_dumps sample_env 1 h1 = Some h2 \<and> rh_in_request h2 = (1 < (2 :: nat)) \<and>
         rh_sent h2 = rh_sent ?h @ dump_requests sample_env (rh_request_sequence ?h) (take 2 ?ks))"
    using dumps_served [OF env ks [symmetric] refl refl] fields(4)
    by (elim conjE exE allE [of _ 1]) (auto simp: numeral_2_eq_2)
  then show ?thesis by (auto simp: fields)
qed

text \<open>
  A dump that the kernel refuses with an error never ends: the handler stays in a request, and further
  calls of \<open>RequestDump\<close> only note the flags.
\<close>

lemma refused_dump_blocks:
  assumes "rh_in_request h" "handle_control E buf off NLMSG_ERROR (rh_last_dump_sequence h) h = Some h'"
  shows "rh_in_request h' \<and> (\<exists>h''. RequestDump E flags h' = Some h'' \<and> rh_in_request h'' \<and> rh_sent h'' = rh_sent h)"
proof -
  have "rh_in_request h' \<and> rh_sent h' = rh_sent h"
    using assms by (auto simp: handle_control_def NLMSG_ERROR_def NLMSG_DONE_def GetAndClearErrorMask_def Let_def
        split: Option.bind_splits if_splits)
  then show ?thesis by (auto simp: RequestDump_def Let_def)
qed

subsection \<open>Receiving\<close>

lemma encode_body_length:
  assumes "encodable order m"
  obtains ty body where "encode_body e m = Some (ty, rm_flags m, body)" "4 dvd length body" "length body \<le> 16"
proof -
  have md: "rm_mode m \<in> {kModeAdd, kModeDelete}" and "rm_type m \<in> {kTypeLink, kTypeAddress, kTypeRoute, kTypeNeighbor}"
    using assms by (auto simp: encodable_def)
  then have "\<exists>ty body. encode_body e m = Some (ty, rm_flags m, body) \<and> 4 dvd length body \<and> length body \<le> 16"
    by (auto simp: encode_body_def EncodeLink_def EncodeAddress_def EncodeRoute_def EncodeNeighbor_def Let_def)
  then show thesis using that by blast
qed

lemma encoded_header:
  assumes ok: "encodable order m" and p: "p = Rtnl_Encode e order m"
  shows "\<exists>len ty. read_u32 e 0 (p @ rest) = Some len \<and> unat len = length p \<and> 16 \<le> length p \<and>
    read_u16 e 4 (p @ rest) = Some ty \<and> read_u32 e 8 (p @ rest) = Some (rm_seq m)"
proof -
  obtain ty body where enc: "encode_body e m = Some (ty, rm_flags m, body)" "4 dvd length body" "length body \<le> 16"
    using encode_body_length [OF ok] by blast
  define attrs where "attrs = concat (map (encode_attribute e) (order (rm_attributes m)))"
  note frame = Rtnl_Encode_frame [OF enc(1) ok refl enc(2,3), folded attrs_def]
  let ?len = "of_nat (length body + 16 + length attrs) :: u32"
  have "unat ?len = length body + 16 + length attrs" using frame(1) by (intro unat_small) simp
  moreover have "length p = length body + 16 + length attrs" by (simp add: p frame(2))
  moreover have "read_u32 e 0 (p @ rest) = Some ?len" "read_u16 e 4 (p @ rest) = Some ty"
      "read_u32 e 8 (p @ rest) = Some (rm_seq m)"
    by (simp_all add: p frame(2))
  ultimately show ?thesis by auto
qed

text \<open>The messages of one datagram, handed on in order.\<close>

fun handle_all :: "'s callback \<Rightarrow> rtnl_message list \<Rightarrow> 's \<times> rtnl_handler \<Rightarrow> ('s \<times> rtnl_handler) option" where
  "handle_all cb [] s = Some s"
| "handle_all cb (m # ms) s = do {
     s \<leftarrow> handle_message cb m s;
     handle_all cb ms s
   }"

lemma ParseRTNL_messages_aux:
  assumes "\<forall>m \<in> set ms. encodable order m" "off = length pre"
  shows "ParseRTNL E cb (pre @ concat (map (Rtnl_Encode (re_endian E) order) ms)) off s =
    handle_all cb (map (carried order) ms) s"
  using assms
proof (induction ms arbitrary: pre off s)
  case Nil
  then show ?case by (simp add: ParseRTNL.simps)
next
  case (Cons m ms)
  let ?e = "re_endian E"
  define p where "p = Rtnl_Encode ?e order m"
  define rest where "rest = concat (map (Rtnl_Encode ?e order) ms)"
  have ok: "encodable order m" using Cons.prems(1) by simp
  obtain len ty where hdr: "read_u32 ?e 0 (p @ rest) = Some len" "unat len = length p" "16 \<le> length p"
    "read_u16 ?e 4 (p @ rest) = Some ty" "read_u32 ?e 8 (p @ rest) = Some (rm_seq m)"
    using encoded_header [OF ok p_def] by blast
  have IH: "ParseRTNL E cb (pre @ p @ rest) (off + length p) s' = handle_all cb (map (carried order) ms) s'" for s'
    using Cons.IH [of "off + length p" "pre @ p" s'] Cons.prems by (simp add: rest_def)
  have nonempty: "p \<noteq> []" using hdr(3) by auto
  have dec: "Rtnl_Decode ?e p RTNLMessage_empty = Some (True, carried order m)"
    unfolding p_def by (rule Rtnl_Decode_Encode_all [OF ok])
  have "ParseRTNL E cb (pre @ p @ rest) off s =
      handle_message cb (carried order m) s \<bind> (\<lambda>s. ParseRTNL E cb (pre @ p @ rest) (off + length p) s)"
    using hdr nonempty Cons.prems(2)
    by (subst ParseRTNL.simps) (simp add: read_mem_whole dec del: read_mem_Some)
  then have "ParseRTNL E cb (pre @ p @ rest) off s = handle_all cb (map (carried order) (m # ms)) s"
    by (simp add: IH)
  then show ?case by (simp add: p_def rest_def)
qed

text \<open>
  Who is to be told what: the bit of a listener's flags for a kind of message, and the calls for a list of messages, each
  to the listeners that have set its bit, in the order of the listeners.
\<close>

fun wants :: "u32 \<Rightarrow> rtnl_type \<Rightarrow> bool" where
  "wants flags kTypeLink = bit flags 0"
| "wants flags kTypeAddress = bit flags 1"
| "wants flags kTypeRoute = bit flags 2"
| "wants flags kTypeRdnss = bit flags 3"
| "wants flags kTypeNeighbor = bit flags 4"
| "wants flags _ = False"

definition calls_for :: "rtnl_listener list \<Rightarrow> rtnl_message list \<Rightarrow> (nat \<times> rtnl_message) list" where
  "calls_for ls ms = concat (map (\<lambda>m. map (\<lambda>l. (rl_listener l, m)) (filter (\<lambda>l. wants (rl_listen_flags l) (rm_type m)) ls)) ms)"

fun run_calls :: "'s callback \<Rightarrow> (nat \<times> rtnl_message) list \<Rightarrow> 's \<times> rtnl_handler \<Rightarrow> ('s \<times> rtnl_handler) option" where
  "run_calls cb [] s = Some s"
| "run_calls cb ((i, m) # cs) s = do {
     s \<leftarrow> cb i m s;
     run_calls cb cs s
   }"

lemma run_calls_append: "run_calls cb (cs @ cs') s = do { s \<leftarrow> run_calls cb cs s; run_calls cb cs' s }"
  by (induction cs arbitrary: s) (auto split: Option.bind_split)

lemma and_bit: "flags AND (2 ^ n :: u32) \<noteq> 0 \<longleftrightarrow> n < 32 \<and> bit flags n"
  by (auto simp: and_exp_eq_0_iff_not_bit bit_word.rep_eq intro: ccontr dest: bit_imp_le_length)

lemma request_bits:
  "kRequestLink AND flags \<noteq> 0 \<longleftrightarrow> bit flags 0" "kRequestAddr AND flags \<noteq> 0 \<longleftrightarrow> bit flags 1"
  "kRequestRoute AND flags \<noteq> 0 \<longleftrightarrow> bit flags 2" "kRequestRdnss AND flags \<noteq> 0 \<longleftrightarrow> bit flags 3"
  "kRequestNeighbor AND flags \<noteq> 0 \<longleftrightarrow> bit flags 4"
  using and_bit [of flags 0] and_bit [of flags 1] and_bit [of flags 2] and_bit [of flags 3] and_bit [of flags 4]
  by (simp_all add: request_flag_defs and.commute)

lemma handle_message_calls: "handle_message cb m s = run_calls cb (calls_for (rh_listeners (snd s)) [m]) s"
proof -
  have "dispatch_loop cb ty m ls s =
      run_calls cb (map (\<lambda>l. (rl_listener l, m)) (filter (\<lambda>l. ty AND rl_listen_flags l \<noteq> 0) ls)) s" for ty ls s
    by (induction ls arbitrary: s) (auto simp: NotifyEvent_def split: option.split)
  then show ?thesis
    by (cases "rm_type m") (simp_all add: handle_message_def DispatchEvent_def calls_for_def request_bits)
qed

definition keeps_listeners :: "'s callback \<Rightarrow> bool" where
  "keeps_listeners cb \<longleftrightarrow> (\<forall>i m s s'. cb i m s = Some s' \<longrightarrow> rh_listeners (snd s') = rh_listeners (snd s))"

lemma run_calls_listeners:
  assumes "keeps_listeners cb"
  shows "run_calls cb cs s = Some s' \<Longrightarrow> rh_listeners (snd s') = rh_listeners (snd s)"
proof (induction cs arbitrary: s)
  case (Cons c cs)
  then show ?case using assms unfolding keeps_listeners_def by (cases c) (fastforce split: Option.bind_splits)
qed simp

lemma handle_all_calls:
  assumes "keeps_listeners cb"
  shows "handle_all cb ms s = run_calls cb (calls_for (rh_listeners (snd s)) ms) s"
proof (induction ms arbitrary: s)
  case (Cons m ms)
  have split: "calls_for ls (m # ms) = calls_for ls [m] @ calls_for ls ms" for ls by (simp add: calls_for_def)
  show ?case
    using run_calls_listeners [OF assms, of "calls_for (rh_listeners (snd s)) [m]" s] Cons
    by (cases "run_calls cb (calls_for (rh_listeners (snd s)) [m]) s")
      (simp_all add: handle_message_calls split run_calls_append)
qed (simp add: calls_for_def)

text \<open>
  C19: a datagram that is a sequence of encoded messages is taken apart into exactly those messages, and the listeners
  are called for them and for nothing else: message by message in the order of the datagram, and for each message
  once every listener that set the bit of its kind (links 0, addresses 1, routes 2, RDNSS 3, neighbours 4),
  in the order in which the listeners were added. Callbacks do not add or remove listeners.
\<close>

theorem ParseRTNL_messages:
  assumes "\<forall>m \<in> set ms. encodable order m"
    and "keeps_listeners cb"
  shows "ParseRTNL E cb (concat (map (Rtnl_Encode (re_endian E) order) ms)) 0 s =
    run_calls cb (calls_for (rh_listeners (snd s)) (map (carried order) ms)) s"
  by (simp add: ParseRTNL_messages_aux [OF assms(1), of 0 "[]", simplified] handle_all_calls [OF assms(2)])

text \<open>A callback that counts the messages of each listener.\<close>

definition count_messages :: "(nat \<Rightarrow> nat) callback" where
  "count_messages i m s = Some ((fst s)(i := Suc (fst s i)), snd s)"

definition sample_listeners :: rtnl_handler where
  "sample_listeners = AddListener \<lparr>rl_listener = 7, rl_listen_flags = kRequestRoute OR kRequestLink\<rparr>
     (AddListener \<lparr>rl_listener = 3, rl_listen_flags = kRequestLink\<rparr> RTNLHandler_new)"

lemma ParseRTNL_messages_witness:
  "ParseRTNL sample_env count_messages
      (concat (map (Rtnl_Encode LittleEndian rev) [sample_route, sample_removal])) 0 ((\<lambda>_. 0), sample_listeners) =
    Some ((\<lambda>_. 0)(7 := 2, 3 := 1), sample_listeners)"
proof -
  have ms: "\<forall>m \<in> set [sample_route, sample_removal]. encodable rev m"
    by (simp add: encodable_def sample_route_def sample_removal_def SetAttribute_def RTNLMessage_new_def
        attribute_fits_def LinkStatus_new_def)
  have "keeps_listeners count_messages" by (auto simp: keeps_listeners_def count_messages_def)
  from ParseRTNL_messages [OF ms this, of sample_env "((\<lambda>_. 0), sample_listeners)"]
  have "ParseRTNL sample_env count_messages
      (concat (map (Rtnl_Encode LittleEndian rev) [sample_route, sample_removal])) 0 ((\<lambda>_. 0), sample_listeners) =
    run_calls count_messages (calls_for (rh_listeners sample_listeners) (map (carried rev) [sample_route, sample_removal]))
      ((\<lambda>_. 0), sample_listeners)"
    by (simp add: sample_env_def)
  also have "\<dots> = Some ((\<lambda>_. 0)(7 := 2, 3 := 1), sample_listeners)"
  proof -
    have types: "rm_type (carried rev sample_route) = kTypeRoute" "rm_type (carried rev sample_removal) = kTypeLink"
      by (simp_all add: carried_def Let_def sample_route_def sample_removal_def SetAttribute_def RTNLMessage_new_def)
    have listeners: "rh_listeners sample_listeners = [\<lparr>rl_listener = 3, rl_listen_flags = 1\<rparr>, \<lparr>rl_listener = 7, rl_listen_flags = 5\<rparr>]"
      by (simp add: sample_listeners_def AddListener_def RTNLHandler_new_def request_flag_defs)
    show ?thesis
      by (simp add: calls_for_def types listeners count_messages_def bit_numeral_rec bit_0) (auto simp: fun_eq_iff)
  qed
  finally show ?thesis .
qed

end
