(* ===== verification/Routing_Table.thy ===== *)
theory Routing_Table
  imports Rtnl_Handler IP_Config
begin

text \<open>
  Models of \<open>routing_table_entry.h\<close> and \<open>routing_table.cc\<close>: the in-process copy of the kernel's routing
  tables, one list of entries per interface. Changes are sent to the kernel through \<open>Rtnl_Handler\<close>; the
  kernel's own announcements, among them the echoes of those changes, arrive at \<open>RouteMsgHandler\<close>.
  An operation takes and returns the tables and the handler. \<open>None\<close> is a failed \<open>CHECK\<close>. Interface
  indices are the 32 bits of an \<open>int\<close>.
\<close>

subsection \<open>State\<close>

definition RT_TABLE_MAIN :: u8 where "RT_TABLE_MAIN = 254"
definition RT_SCOPE_UNIVERSE :: u8 where "RT_SCOPE_UNIVERSE = 0"
definition RT_SCOPE_LINK :: u8 where "RT_SCOPE_LINK = 253"
definition RTPROT_UNSPEC :: u8 where "RTPROT_UNSPEC = 0"
definition RTPROT_BOOT :: u8 where "RTPROT_BOOT = 3"
definition RTN_UNICAST :: u8 where "RTN_UNICAST = 1"
definition RTN_BLACKHOLE :: u8 where "RTN_BLACKHOLE = 6"
definition RTA_DST :: u16 where "RTA_DST = 1"
definition RTA_SRC :: u16 where "RTA_SRC = 2"
definition RTA_OIF :: u16 where "RTA_OIF = 4"
definition RTA_GATEWAY :: u16 where "RTA_GATEWAY = 5"
definition RTA_PRIORITY :: u16 where "RTA_PRIORITY = 6"

definition kDefaultTag :: int where "kDefaultTag = -1"

record route_entry =
  te_dst :: ip_addr
  te_src :: ip_addr
  te_gateway :: ip_addr
  te_metric :: u32
  te_scope :: u8
  te_from_rtnl :: bool
  te_table :: u8
  te_tag :: int

definition RoutingTableEntry_empty :: route_entry where
  "RoutingTableEntry_empty =
     \<lparr>te_dst = IPAddress_family kFamilyUnknown, te_src = IPAddress_family kFamilyUnknown,
      te_gateway = IPAddress_family kFamilyUnknown, te_metric = 0, te_scope = 0, te_from_rtnl = False,
      te_table = RT_TABLE_MAIN, te_tag = kDefaultTag\<rparr>"

definition RoutingTableEntry_new ::
    "ip_addr \<Rightarrow> ip_addr \<Rightarrow> ip_addr \<Rightarrow> u32 \<Rightarrow> u8 \<Rightarrow> bool \<Rightarrow> u8 \<Rightarrow> int \<Rightarrow> route_entry" where
  "RoutingTableEntry_new dst src gateway metric scope from_rtnl table tag =
     \<lparr>te_dst = dst, te_src = src, te_gateway = gateway, te_metric = metric, te_scope = scope,
      te_from_rtnl = from_rtnl, te_table = table, te_tag = tag\<rparr>"

definition Entry_Equals :: "route_entry \<Rightarrow> route_entry \<Rightarrow> bool" where
  "Entry_Equals a b \<longleftrightarrow> IP_Equals (te_dst a) (te_dst b) \<and> IP_Equals (te_src a) (te_src b) \<and>
     IP_Equals (te_gateway a) (te_gateway b) \<and> te_metric a = te_metric b \<and> te_scope a = te_scope b \<and>
     te_from_rtnl a = te_from_rtnl b \<and> te_table a = te_table b \<and> te_tag a = te_tag b"

text \<open>A pending query for the route to a host; a callback is known by a number.\<close>

record route_query =
  rq_sequence :: u32
  rq_tag :: int
  rq_callback :: "nat option"
  rq_table_id :: u8

text \<open>
  \<open>tables_\<close> is an \<open>unordered_map\<close>: a list of pairs in the order of its traversal. \<open>tb_writes\<close> records
  what is written to files under \<open>/proc\<close>.
\<close>

record routing_table =
  tb_tables :: "(u32 \<times> route_entry list) list"
  tb_route_queries :: "route_query list"
  tb_writes :: "(string \<times> string) list"

definition RoutingTable_new :: routing_table where
  "RoutingTable_new = \<lparr>tb_tables = [], tb_route_queries = [], tb_writes = []\<rparr>"

text \<open>\<open>tables_[index]\<close>, which makes an empty table when there is none, and storing a table.\<close>

definition table_of :: "routing_table \<Rightarrow> u32 \<Rightarrow> route_entry list" where
  "table_of t index = (case map_of (tb_tables t) index of Some es \<Rightarrow> es | None \<Rightarrow> [])"

definition set_table :: "u32 \<Rightarrow> route_entry list \<Rightarrow> routing_table \<Rightarrow> routing_table" where
  "set_table index es t = t\<lparr>tb_tables := AList.update index es (tb_tables t)\<rparr>"

subsection \<open>Requests to the kernel\<close>

definition route_message :: "endian \<Rightarrow> u32 \<Rightarrow> route_entry \<Rightarrow> rtnl_mode \<Rightarrow> u32 \<Rightarrow> rtnl_message" where
  "route_message e interface_index entry md flags =
     (let m = RTNLMessage_new kTypeRoute md (ucast NLM_F_REQUEST OR flags) 0 0 0 (family (te_dst entry));
          m = m\<lparr>rm_route_status := \<lparr>rs_dst_prefix = of_nat (ip_prefix (te_dst entry)),
                  rs_src_prefix = of_nat (ip_prefix (te_src entry)), rs_table = te_table entry,
                  rs_protocol = RTPROT_BOOT, rs_scope = te_scope entry, rs_type = RTN_UNICAST, rs_flags = 0\<rparr>\<rparr>;
          m = SetAttribute m RTA_DST (address (te_dst entry));
          m = (if \<not> IsDefault (te_src entry) then SetAttribute m RTA_SRC (address (te_src entry)) else m);
          m = (if \<not> IsDefault (te_gateway entry) then SetAttribute m RTA_GATEWAY (address (te_gateway entry)) else m);
          m = SetAttribute m RTA_PRIORITY (CreateFromCPUUInt32 e (te_metric entry))
      in SetAttribute m RTA_OIF (CreateFromCPUUInt32 e interface_index))"

definition ApplyRoute ::
    "rtnl_env \<Rightarrow> u32 \<Rightarrow> route_entry \<Rightarrow> rtnl_mode \<Rightarrow> u32 \<Rightarrow> rtnl_handler \<Rightarrow> bool \<times> rtnl_handler" where
  "ApplyRoute E interface_index entry md flags h =
     (let (ok, m, h) = SendMessage E (route_message (re_endian E) interface_index entry md flags) h in (ok, h))"

definition AddRoute ::
    "rtnl_env \<Rightarrow> u32 \<Rightarrow> route_entry \<Rightarrow> routing_table \<times> rtnl_handler \<Rightarrow> (bool \<times> routing_table \<times> rtnl_handler) option" where
  "AddRoute E interface_index entry = (\<lambda>(t, h).
     if te_from_rtnl entry then None
     else
       let (ok, h) = ApplyRoute E interface_index entry kModeAdd (NLM_F_CREATE OR NLM_F_EXCL) h
       in if \<not> ok then Some (False, t, h)
          else Some (True, set_table interface_index (table_of t interface_index @ [entry]) t, h))"

subsection \<open>Default routes\<close>

text \<open>The pointer that \<open>GetDefaultRouteInternal\<close> returns is a position in the interface's table.\<close>

fun find_default :: "family \<Rightarrow> route_entry list \<Rightarrow> nat option" where
  "find_default fam [] = None"
| "find_default fam (nent # es) =
     (if IsDefault (te_dst nent) \<and> family (te_dst nent) = fam then Some 0
      else map_option Suc (find_default fam es))"

definition GetDefaultRouteInternal :: "routing_table \<Rightarrow> u32 \<Rightarrow> family \<Rightarrow> nat option" where
  "GetDefaultRouteInternal t interface_index fam =
     (case map_of (tb_tables t) interface_index of None \<Rightarrow> None | Some es \<Rightarrow> find_default fam es)"

definition GetDefaultRoute :: "routing_table \<Rightarrow> u32 \<Rightarrow> family \<Rightarrow> route_entry option" where
  "GetDefaultRoute t interface_index fam =
     map_option (\<lambda>i. table_of t interface_index ! i) (GetDefaultRouteInternal t interface_index fam)"

text \<open>The results of its two calls of \<open>ApplyRoute\<close> are ignored.\<close>

definition ReplaceMetric ::
    "rtnl_env \<Rightarrow> u32 \<Rightarrow> nat \<Rightarrow> u32 \<Rightarrow> routing_table \<times> rtnl_handler \<Rightarrow> routing_table \<times> rtnl_handler" where
  "ReplaceMetric E interface_index i metric = (\<lambda>(t, h).
     let entry = table_of t interface_index ! i;
         new_entry = entry\<lparr>te_metric := metric\<rparr>;
         (_, h) = ApplyRoute E interface_index new_entry kModeAdd (NLM_F_CREATE OR NLM_F_REPLACE) h;
         (_, h) = ApplyRoute E interface_index entry kModeDelete 0 h
     in (set_table interface_index ((table_of t interface_index)[i := new_entry]) t, h))"

definition default_address :: "family \<Rightarrow> ip_addr" where
  "default_address fam = SetAddressToDefault (IPAddress_family fam)"

definition SetDefaultRoute ::
    "rtnl_env \<Rightarrow> u32 \<Rightarrow> ip_addr \<Rightarrow> u32 \<Rightarrow> u8 \<Rightarrow> routing_table \<times> rtnl_handler \<Rightarrow>
      (bool \<times> routing_table \<times> rtnl_handler) option" where
  "SetDefaultRoute E interface_index gateway_address metric table_id = (\<lambda>(t, h).
     let add = AddRoute E interface_index
           (RoutingTableEntry_new (default_address (family gateway_address)) (default_address (family gateway_address))
              gateway_address metric RT_SCOPE_UNIVERSE False table_id kDefaultTag)
     in case GetDefaultRouteInternal t interface_index (family gateway_address) of
          None \<Rightarrow> add (t, h)
        | Some i \<Rightarrow>
            let old_entry = table_of t interface_index ! i
            in if IP_Equals (te_gateway old_entry) gateway_address then
                 Some (True, if te_metric old_entry \<noteq> metric then ReplaceMetric E interface_index i metric (t, h) else (t, h))
               else
                 let (_, h) = ApplyRoute E interface_index old_entry kModeDelete 0 h
                 in add (t, h))"

definition SetDefaultMetric_family ::
    "rtnl_env \<Rightarrow> u32 \<Rightarrow> u32 \<Rightarrow> family \<Rightarrow> routing_table \<times> rtnl_handler \<Rightarrow> routing_table \<times> rtnl_handler" where
  "SetDefaultMetric_family E interface_index metric fam = (\<lambda>(t, h).
     case GetDefaultRouteInternal t interface_index fam of
       None \<Rightarrow> (t, h)
     | Some i \<Rightarrow>
         if te_metric (table_of t interface_index ! i) \<noteq> metric
         then ReplaceMetric E interface_index i metric (t, h) else (t, h))"

definition SetDefaultMetric ::
    "rtnl_env \<Rightarrow> u32 \<Rightarrow> u32 \<Rightarrow> routing_table \<times> rtnl_handler \<Rightarrow> routing_table \<times> rtnl_handler" where
  "SetDefaultMetric E interface_index metric s =
     SetDefaultMetric_family E interface_index metric kFamilyIPv6
       (SetDefaultMetric_family E interface_index metric kFamilyIPv4 s)"

subsection \<open>Routes of an IP configuration\<close>

definition ConfigureRoute ::
    "rtnl_env \<Rightarrow> (family \<Rightarrow> string \<Rightarrow> bytes option) \<Rightarrow> (string \<Rightarrow> u32) \<Rightarrow> u32 \<Rightarrow> family \<Rightarrow> u32 \<Rightarrow> u8 \<Rightarrow> ip_route \<Rightarrow>
      routing_table \<times> rtnl_handler \<Rightarrow> (bool \<times> routing_table \<times> rtnl_handler) option" where
  "ConfigureRoute E inet_pton inet_network interface_index fam metric table_id route s =
     (let (ok, destination_address) = SetAddressFromString inet_pton (IPAddress_family fam) (rt_host route);
          source_address = IPAddress_family fam
      in if \<not> ok then Some (False, s)
         else
           let (ok, gateway_address) = SetAddressFromString inet_pton (IPAddress_family fam) (rt_gateway route)
           in if \<not> ok then Some (False, s)
              else AddRoute E interface_index
                (RoutingTableEntry_new
                   (destination_address\<lparr>ip_prefix := GetPrefixLengthFromMask inet_network fam (rt_netmask route)\<rparr>)
                   source_address gateway_address metric RT_SCOPE_UNIVERSE False table_id kDefaultTag) s)"

fun configure_loop ::
    "(ip_route \<Rightarrow> routing_table \<times> rtnl_handler \<Rightarrow> (bool \<times> routing_table \<times> rtnl_handler) option) \<Rightarrow> ip_route list \<Rightarrow>
      bool \<Rightarrow> routing_table \<times> rtnl_handler \<Rightarrow> (bool \<times> routing_table \<times> rtnl_handler) option" where
  "configure_loop add [] ret s = Some (ret, s)"
| "configure_loop add (route # routes) ret s =
     (case add route s of
        None \<Rightarrow> None
      | Some (ok, s) \<Rightarrow> configure_loop add routes (if ok then ret else False) s)"

definition ConfigureRoutes ::
    "rtnl_env \<Rightarrow> (family \<Rightarrow> string \<Rightarrow> bytes option) \<Rightarrow> (string \<Rightarrow> u32) \<Rightarrow> u32 \<Rightarrow> ip_properties \<Rightarrow> u32 \<Rightarrow> u8 \<Rightarrow>
      routing_table \<times> rtnl_handler \<Rightarrow> (bool \<times> routing_table \<times> rtnl_handler) option" where
  "ConfigureRoutes E inet_pton inet_network interface_index ipconfig metric table_id s =
     configure_loop (ConfigureRoute E inet_pton inet_network interface_index (address_family ipconfig) metric table_id)
       (p_routes ipconfig) True s"

subsection \<open>Flushing\<close>

definition delete_route :: "rtnl_env \<Rightarrow> u32 \<Rightarrow> route_entry \<Rightarrow> rtnl_handler \<Rightarrow> rtnl_handler" where
  "delete_route E interface_index nent h = snd (ApplyRoute E interface_index nent kModeDelete 0 h)"

definition FlushRoutes :: "rtnl_env \<Rightarrow> u32 \<Rightarrow> routing_table \<times> rtnl_handler \<Rightarrow> routing_table \<times> rtnl_handler" where
  "FlushRoutes E interface_index = (\<lambda>(t, h).
     case map_of (tb_tables t) interface_index of
       None \<Rightarrow> (t, h)
     | Some es \<Rightarrow> (set_table interface_index [] t, fold (delete_route E interface_index) es h))"

fun flush_tag :: "rtnl_env \<Rightarrow> int \<Rightarrow> u32 \<Rightarrow> route_entry list \<Rightarrow> rtnl_handler \<Rightarrow> route_entry list \<times> rtnl_handler" where
  "flush_tag E tag interface_index [] h = ([], h)"
| "flush_tag E tag interface_index (nent # es) h =
     (if te_tag nent = tag then flush_tag E tag interface_index es (delete_route E interface_index nent h)
      else let (es', h) = flush_tag E tag interface_index es h in (nent # es', h))"

fun flush_tag_tables ::
    "rtnl_env \<Rightarrow> int \<Rightarrow> (u32 \<times> route_entry list) list \<Rightarrow> rtnl_handler \<Rightarrow> (u32 \<times> route_entry list) list \<times> rtnl_handler" where
  "flush_tag_tables E tag [] h = ([], h)"
| "flush_tag_tables E tag ((interface_index, es) # tables) h =
     (let (es', h) = flush_tag E tag interface_index es h;
          (tables', h) = flush_tag_tables E tag tables h
      in ((interface_index, es') # tables', h))"

definition FlushRoutesWithTag :: "rtnl_env \<Rightarrow> int \<Rightarrow> routing_table \<times> rtnl_handler \<Rightarrow> routing_table \<times> rtnl_handler" where
  "FlushRoutesWithTag E tag = (\<lambda>(t, h).
     let (tables, h) = flush_tag_tables E tag (tb_tables t) h in (t\<lparr>tb_tables := tables\<rparr>, h))"

definition ResetTable :: "u32 \<Rightarrow> routing_table \<Rightarrow> routing_table" where
  "ResetTable interface_index t = t\<lparr>tb_tables := AList.delete interface_index (tb_tables t)\<rparr>"

definition kRouteFlushPath4 :: string where "kRouteFlushPath4 = ''/proc/sys/net/ipv4/route/flush''"
definition kRouteFlushPath6 :: string where "kRouteFlushPath6 = ''/proc/sys/net/ipv6/route/flush''"

text \<open>\<open>write_file\<close> is the number of bytes that \<open>base::WriteFile\<close> returns.\<close>

definition FlushCache :: "(string \<Rightarrow> string \<Rightarrow> int) \<Rightarrow> routing_table \<Rightarrow> bool \<times> routing_table" where
  "FlushCache write_file t =
     (write_file kRouteFlushPath4 ''-1'' = 2 \<and> write_file kRouteFlushPath6 ''-1'' = 2,
      t\<lparr>tb_writes := tb_writes t @ [(kRouteFlushPath4, ''-1''), (kRouteFlushPath6, ''-1'')]\<rparr>)"

subsection \<open>Announcements of the kernel\<close>

definition ParseRoutingTableMessage :: "endian \<Rightarrow> rtnl_message \<Rightarrow> (u32 \<times> route_entry) option" where
  "ParseRoutingTableMessage e m =
     (if rm_type m \<noteq> kTypeRoute \<or> rm_family m = kFamilyUnknown \<or> \<not> HasAttribute m RTA_OIF then None
      else
        let route_status = rm_route_status m
        in if rs_type route_status \<noteq> RTN_UNICAST then None
           else case ConvertToCPUUInt32 e (GetAttribute m RTA_OIF) of
             None \<Rightarrow> None
           | Some interface_index \<Rightarrow>
               let metric = (if HasAttribute m RTA_PRIORITY
                             then case ConvertToCPUUInt32 e (GetAttribute m RTA_PRIORITY) of Some v \<Rightarrow> v | None \<Rightarrow> 0
                             else 0);
                   default_addr = default_address (rm_family m);
                   dst_bytes = (if HasAttribute m RTA_DST then GetAttribute m RTA_DST else address default_addr);
                   src_bytes = (if HasAttribute m RTA_SRC then GetAttribute m RTA_SRC else address default_addr);
                   gateway_bytes = (if HasAttribute m RTA_GATEWAY then GetAttribute m RTA_GATEWAY
                                    else address default_addr)
               in Some (interface_index, RoutingTableEntry_empty
                    \<lparr>te_dst := IPAddress_prefix (rm_family m) dst_bytes (unat (rs_dst_prefix route_status)),
                     te_src := IPAddress_prefix (rm_family m) src_bytes (unat (rs_src_prefix route_status)),
                     te_gateway := IPAddress_bytes (rm_family m) gateway_bytes, te_metric := metric,
                     te_scope := rs_scope route_status, te_from_rtnl := True, te_table := rs_table route_status\<rparr>))"

text \<open>The loop that drops expired queries; the subtraction is modulo 2^32.\<close>

fun purge_queries :: "u32 \<Rightarrow> route_query list \<Rightarrow> route_query list" where
  "purge_queries sequence [] = []"
| "purge_queries sequence (q # qs) =
     (if rq_sequence q - sequence > 0x7fffffff then purge_queries sequence qs else q # qs)"

text \<open>
  \<open>run\<close> runs the callback of a query; it may use the routing table and the handler. The query is popped
  afterwards.
\<close>

type_synonym query_runner =
  "nat \<Rightarrow> u32 \<Rightarrow> route_entry \<Rightarrow> routing_table \<times> rtnl_handler \<Rightarrow> (routing_table \<times> rtnl_handler) option"

definition answer_query ::
    "rtnl_env \<Rightarrow> query_runner \<Rightarrow> rtnl_message \<Rightarrow> u32 \<Rightarrow> route_entry \<Rightarrow> routing_table \<times> rtnl_handler \<Rightarrow>
      (routing_table \<times> rtnl_handler) option" where
  "answer_query E run m interface_index entry = (\<lambda>(t, h).
     let t = t\<lparr>tb_route_queries := purge_queries (rm_seq m) (tb_route_queries t)\<rparr>
     in case tb_route_queries t of
          [] \<Rightarrow> Some (t, h)
        | query # _ \<Rightarrow>
            if rq_sequence query = rm_seq m then
              let add_entry = entry\<lparr>te_from_rtnl := False, te_tag := rq_tag query, te_table := rq_table_id query\<rparr>
              in do {
                (added, s) \<leftarrow> (if IsDefault (te_gateway add_entry) then Some (True, t, h)
                               else AddRoute E interface_index add_entry (t, h));
                (t, h) \<leftarrow> (case rq_callback query of
                   Some cb \<Rightarrow> if added then run cb interface_index add_entry s else Some s
                 | None \<Rightarrow> Some s);
                Some (t\<lparr>tb_route_queries := tl (tb_route_queries t)\<rparr>, h)
              }
            else Some (t, h))"

definition same_route :: "route_entry \<Rightarrow> route_entry \<Rightarrow> bool" where
  "same_route nent entry \<longleftrightarrow> IP_Equals (te_dst nent) (te_dst entry) \<and> IP_Equals (te_src nent) (te_src entry) \<and>
     IP_Equals (te_gateway nent) (te_gateway entry) \<and> te_scope nent = te_scope entry"

fun update_table :: "rtnl_mode \<Rightarrow> route_entry \<Rightarrow> route_entry list \<Rightarrow> route_entry list" where
  "update_table md entry [] = (if md = kModeAdd then [entry] else [])"
| "update_table md entry (nent # es) =
     (if same_route nent entry then
        if md = kModeDelete \<and> te_metric nent = te_metric entry then es
        else if md = kModeAdd then nent\<lparr>te_from_rtnl := True, te_metric := te_metric entry\<rparr> # es
        else nent # es
      else nent # update_table md entry es)"

definition RouteMsgHandler ::
    "rtnl_env \<Rightarrow> query_runner \<Rightarrow> rtnl_message \<Rightarrow> routing_table \<times> rtnl_handler \<Rightarrow> (routing_table \<times> rtnl_handler) option" where
  "RouteMsgHandler E run m = (\<lambda>(t, h).
     case ParseRoutingTableMessage (re_endian E) m of
       None \<Rightarrow> Some (t, h)
     | Some (interface_index, entry) \<Rightarrow>
         if tb_route_queries t \<noteq> [] \<and> rs_protocol (rm_route_status m) = RTPROT_UNSPEC
         then answer_query E run m interface_index entry (t, h)
         else if rs_protocol (rm_route_status m) \<noteq> RTPROT_BOOT then Some (t, h)
         else Some (set_table interface_index (update_table (rm_mode m) entry (table_of t interface_index)) t, h))"

subsection \<open>Routes to hosts\<close>

definition RequestRouteToHost ::
    "rtnl_env \<Rightarrow> (string \<Rightarrow> string \<Rightarrow> int) \<Rightarrow> ip_addr \<Rightarrow> u32 \<Rightarrow> int \<Rightarrow> nat option \<Rightarrow> u8 \<Rightarrow>
      routing_table \<times> rtnl_handler \<Rightarrow> bool \<times> routing_table \<times> rtnl_handler" where
  "RequestRouteToHost E write_file addr interface_index tag callback table_id = (\<lambda>(t, h).
     let (_, t) = FlushCache write_file t;
         m = RTNLMessage_new kTypeRoute kModeQuery (ucast NLM_F_REQUEST) 0 0 interface_index (family addr);
         m = m\<lparr>rm_route_status := RouteStatus_new\<lparr>rs_dst_prefix := of_nat (ip_prefix addr)\<rparr>\<rparr>;
         m = SetAttribute m RTA_DST (address addr);
         m = (if interface_index \<noteq> -1 then SetAttribute m RTA_OIF (CreateFromCPUUInt32 (re_endian E) interface_index)
              else m);
         (ok, m, h) = SendMessage E m h
     in if \<not> ok then (False, t, h)
        else (True, t\<lparr>tb_route_queries := tb_route_queries t @
                [\<lparr>rq_sequence = rm_seq m, rq_tag = tag, rq_callback = callback, rq_table_id = table_id\<rparr>]\<rparr>, h))"

definition CreateBlackholeRoute ::
    "rtnl_env \<Rightarrow> u32 \<Rightarrow> family \<Rightarrow> u32 \<Rightarrow> u8 \<Rightarrow> rtnl_handler \<Rightarrow> bool \<times> rtnl_handler" where
  "CreateBlackholeRoute E interface_index fam metric table_id h =
     (let m = RTNLMessage_new kTypeRoute kModeAdd (ucast NLM_F_REQUEST OR NLM_F_CREATE OR NLM_F_EXCL) 0 0 0 fam;
          m = m\<lparr>rm_route_status := \<lparr>rs_dst_prefix = 0, rs_src_prefix = 0, rs_table = table_id,
                  rs_protocol = RTPROT_BOOT, rs_scope = RT_SCOPE_UNIVERSE, rs_type = RTN_BLACKHOLE, rs_flags = 0\<rparr>\<rparr>;
          m = SetAttribute m RTA_PRIORITY (CreateFromCPUUInt32 (re_endian E) metric);
          m = SetAttribute m RTA_OIF (CreateFromCPUUInt32 (re_endian E) interface_index);
          (ok, m, h) = SendMessage E m h
      in (ok, h))"

definition CreateLinkRoute ::
    "rtnl_env \<Rightarrow> u32 \<Rightarrow> ip_addr \<Rightarrow> ip_addr \<Rightarrow> u8 \<Rightarrow> routing_table \<times> rtnl_handler \<Rightarrow>
      (bool \<times> routing_table \<times> rtnl_handler) option" where
  "CreateLinkRoute E interface_index local_address remote_address table_id s = do {
     reachable \<leftarrow> CanReachAddress local_address remote_address;
     if \<not> reachable then Some (False, s)
     else AddRoute E interface_index
       (RoutingTableEntry_new (remote_address\<lparr>ip_prefix := GetMaxPrefixLength (family remote_address)\<rparr>) local_address
          (default_address (family local_address)) 0 RT_SCOPE_LINK False table_id kDefaultTag) s
   }"

text \<open>\<open>Start\<close> registers the table for route messages and asks for a dump; \<open>Stop\<close> removes the listener.\<close>

definition RoutingTable_Start :: "rtnl_env \<Rightarrow> nat \<Rightarrow> rtnl_handler \<Rightarrow> rtnl_handler option" where
  "RoutingTable_Start E listener h =
     RequestDump E kRequestRoute (AddListener \<lparr>rl_listener = listener, rl_listen_flags = kRequestRoute\<rparr> h)"

definition RoutingTable_Stop :: "nat \<Rightarrow> rtnl_handler \<Rightarrow> rtnl_handler" where
  "RoutingTable_Stop listener h = RemoveListener listener h"

end
