(* ===== verification/Connection.thy ===== *)
theory Connection
  imports Routing_Table
begin

text \<open>
  Models of \<open>resolver.cc\<close> and \<open>connection.cc\<close> (the branches compiled off Android): a connection installs the
  addresses, routes and name servers of an IP configuration on its interface, pins routes to hosts that must stay
  reachable outside of it, and tells the clients and connections bound to it when it goes away. All connections
  live in one record, \<open>conn_world\<close>, with the routing table, the route netlink handler and the resolver they
  share. A connection is known by a number. Calls into devices, \<open>DeviceInfo\<close> and the firewall proxy are
  recorded as events. \<open>None\<close> is a failed \<open>CHECK\<close>.
\<close>

subsection \<open>The resolver\<close>

text \<open>\<open>rv_file\<close> is the content of the file at \<open>path_\<close>, \<open>None\<close> when there is none.\<close>

record resolver =
  rv_path :: string
  rv_ignored_search_list :: "string list"
  rv_file :: "string option"

text \<open>\<open>base::JoinString\<close> and the outcomes of writing and deleting the file are arguments.\<close>

record resolver_env =
  rv_join :: "string list \<Rightarrow> string \<Rightarrow> string"
  rv_write :: "string \<Rightarrow> int"
  rv_delete :: bool

definition ClearDNS :: "resolver_env \<Rightarrow> resolver \<Rightarrow> (bool \<times> resolver) option" where
  "ClearDNS R r =
     (if rv_path r = [] then None
      else Some (rv_delete R, if rv_delete R then r\<lparr>rv_file := None\<rparr> else r))"

definition resolv_lines :: "resolver_env \<Rightarrow> string list \<Rightarrow> string list \<Rightarrow> string list \<Rightarrow> string list" where
  "resolv_lines R ignored servers search =
     (let filtered = filter (\<lambda>d. d \<notin> set ignored) search
      in map (\<lambda>s. ''nameserver '' @ s) servers
         @ (if filtered \<noteq> [] then [''search '' @ rv_join R filtered '' ''] else [])
         @ [''options single-request timeout:1 attempts:5'', []])"

definition SetDNSFromLists ::
    "resolver_env \<Rightarrow> string list \<Rightarrow> string list \<Rightarrow> resolver \<Rightarrow> (bool \<times> resolver) option" where
  "SetDNSFromLists R servers search r =
     (if servers = [] \<and> search = [] then ClearDNS R r
      else
        let contents = rv_join R (resolv_lines R (rv_ignored_search_list r) servers search) [CHR 0x0A];
            count = rv_write R contents
        in if count = int (length contents) then Some (True, r\<lparr>rv_file := Some contents\<rparr>)
           else Some (False, r))"

subsection \<open>Connections and binders\<close>

definition kDefaultMetric :: u32 where "kDefaultMetric = 1"
definition kNonDefaultMetricBase :: u32 where "kNonDefaultMetricBase = 10"
definition kSecondaryTableId :: u8 where "kSecondaryTableId = 1"
definition kDefaultMTU :: int where "kDefaultMTU = 1500"
definition kMinIPv4MTU :: int where "kMinIPv4MTU = 576"
definition kMinIPv6MTU :: int where "kMinIPv6MTU = 1280"

text \<open>
  A binder is the \<open>lower_binder_\<close> of a connection or belongs to a client. What it is bound to is kept in its
  connection, or in the list \<open>cw_clients\<close>.
\<close>

datatype conn_binder = LowerBinder nat | ClientBinder nat

record connection =
  cn_is_default :: bool
  cn_has_broadcast_domain :: bool
  cn_routing_request_count :: int
  cn_interface_index :: u32
  cn_dns_servers :: "string list"
  cn_dns_domain_search :: "string list"
  cn_excluded_ips_cidr :: "string list"
  cn_dns_domain_name :: string
  cn_ipconfig_rpc_identifier :: string
  cn_user_traffic_only :: bool
  cn_table_id :: u8
  cn_local :: ip_addr
  cn_gateway :: ip_addr
  cn_lower :: "nat option"
  cn_binders :: "conn_binder list"
  cn_firewall_proxy :: bool

definition Connection_new :: "u32 \<Rightarrow> connection" where
  "Connection_new interface_index =
     \<lparr>cn_is_default = False, cn_has_broadcast_domain = False, cn_routing_request_count = 0,
      cn_interface_index = interface_index, cn_dns_servers = [], cn_dns_domain_search = [], cn_excluded_ips_cidr = [],
      cn_dns_domain_name = [], cn_ipconfig_rpc_identifier = [], cn_user_traffic_only = False,
      cn_table_id = RT_TABLE_MAIN, cn_local = IPAddress_family kFamilyUnknown,
      cn_gateway = IPAddress_family kFamilyUnknown, cn_lower = None, cn_binders = [], cn_firewall_proxy = False\<rparr>"

datatype conn_event =
    FlushAddresses u32
  | RequestVpnSetup
  | RemoveVpnSetup
  | DeviceRequestPortalDetection u32
  | DeviceSetLooseRouting u32 bool
  | DeviceOnConnectionUpdated u32
  | ClientDisconnected nat

record conn_world =
  cw_connections :: "(nat \<times> connection) list"
  cw_clients :: "(nat \<times> nat) list"
  cw_table :: routing_table
  cw_rtnl :: rtnl_handler
  cw_resolver :: resolver
  cw_events :: "conn_event list"

text \<open>
  The functions of the C library and of libchrome, \<open>DeviceInfo::HasOtherAddress\<close>, and for an interface index
  the device with its connection, if any.
\<close>

record conn_env =
  ce_rtnl :: rtnl_env
  ce_resolver :: resolver_env
  ce_inet_pton :: "family \<Rightarrow> string \<Rightarrow> bytes option"
  ce_inet_network :: "string \<Rightarrow> u32"
  ce_split_slash :: "string \<Rightarrow> string list"
  ce_string_to_size_t :: "string \<Rightarrow> nat option"
  ce_write_file :: "string \<Rightarrow> string \<Rightarrow> int"
  ce_has_other_address :: "u32 \<Rightarrow> ip_addr \<Rightarrow> bool"
  ce_device :: "u32 \<Rightarrow> nat option option"
  ce_setup_vpn :: bool
  ce_remove_vpn :: bool

definition conn :: "conn_world \<Rightarrow> nat \<Rightarrow> connection" where
  "conn w c = (case map_of (cw_connections w) c of Some x \<Rightarrow> x | None \<Rightarrow> Connection_new 0)"

definition upd_conn :: "nat \<Rightarrow> (connection \<Rightarrow> connection) \<Rightarrow> conn_world \<Rightarrow> conn_world" where
  "upd_conn c f w = w\<lparr>cw_connections := AList.map_entry c f (cw_connections w)\<rparr>"

definition emit :: "conn_event \<Rightarrow> conn_world \<Rightarrow> conn_world" where
  "emit ev w = w\<lparr>cw_events := cw_events w @ [ev]\<rparr>"

text \<open>\<open>connection_\<close> of a binder.\<close>

definition bound :: "conn_world \<Rightarrow> conn_binder \<Rightarrow> nat option" where
  "bound w b = (case b of LowerBinder c \<Rightarrow> cn_lower (conn w c) | ClientBinder n \<Rightarrow> map_of (cw_clients w) n)"

definition set_bound :: "conn_binder \<Rightarrow> nat option \<Rightarrow> conn_world \<Rightarrow> conn_world" where
  "set_bound b target w =
     (case b of
        LowerBinder c \<Rightarrow> upd_conn c (cn_lower_update (\<lambda>_. target)) w
      | ClientBinder n \<Rightarrow>
          w\<lparr>cw_clients := (case target of Some c \<Rightarrow> AList.update n c (cw_clients w) | None \<Rightarrow> AList.delete n (cw_clients w))\<rparr>)"

definition AttachBinder :: "nat \<Rightarrow> conn_binder \<Rightarrow> conn_world \<Rightarrow> conn_world" where
  "AttachBinder c b w = upd_conn c (cn_binders_update (\<lambda>bs. bs @ [b])) w"

definition DetachBinder :: "nat \<Rightarrow> conn_binder \<Rightarrow> conn_world \<Rightarrow> conn_world" where
  "DetachBinder c b w = upd_conn c (cn_binders_update (remove1 b)) w"

definition Binder_Attach :: "conn_binder \<Rightarrow> nat option \<Rightarrow> conn_world \<Rightarrow> conn_world" where
  "Binder_Attach b to_connection w =
     (let w = (case bound w b of Some c \<Rightarrow> set_bound b None (DetachBinder c b w) | None \<Rightarrow> w)
      in case to_connection of Some c \<Rightarrow> AttachBinder c b (set_bound b (Some c) w) | None \<Rightarrow> w)"

text \<open>
  The loop of \<open>NotifyBindersOnDisconnect\<close>, with \<open>Binder::OnDisconnect\<close> and, for the binder of another
  connection, its callback \<open>OnLowerDisconnect\<close>, which notifies that connection's binders in turn. Each
  turn takes one binder out of some queue.
\<close>

definition binder_count :: "conn_world \<Rightarrow> nat" where
  "binder_count w = (\<Sum>kc\<leftarrow>cw_connections w. length (cn_binders (snd kc)))"

lemma binder_count_upd_le:
  assumes "\<And>x. length (cn_binders (f x)) \<le> length (cn_binders x)"
  shows "binder_count (upd_conn c f w) \<le> binder_count w"
proof -
  have "(\<Sum>kc\<leftarrow>AList.map_entry c f xs. length (cn_binders (snd kc))) \<le> (\<Sum>kc\<leftarrow>xs. length (cn_binders (snd kc)))" for xs
    using assms by (induction xs) auto
  then show ?thesis by (simp add: binder_count_def upd_conn_def)
qed

lemma binder_count_set_bound [simp]: "binder_count (set_bound b t w) \<le> binder_count w"
  by (cases b) (auto simp: set_bound_def intro!: binder_count_upd_le, auto simp: binder_count_def)

lemma binder_count_emit [simp]: "binder_count (emit ev w) = binder_count w"
  by (simp add: binder_count_def emit_def)

lemma binder_count_detach [simp]: "binder_count (DetachBinder c b w) \<le> binder_count w"
  unfolding DetachBinder_def by (rule binder_count_upd_le) (simp add: length_remove1)

lemma binder_count_attach_none [simp]: "binder_count (Binder_Attach b None w) \<le> binder_count w"
  by (auto simp: Binder_Attach_def Let_def split: option.split intro: order_trans [OF binder_count_set_bound])

lemma binder_count_pop:
  assumes "cn_binders (conn w c) = b # bs"
  shows "binder_count (upd_conn c (cn_binders_update (\<lambda>_. bs)) w) < binder_count w"
proof -
  have "(\<Sum>kc\<leftarrow>AList.map_entry c (cn_binders_update (\<lambda>_. bs)) xs. length (cn_binders (snd kc)))
      < (\<Sum>kc\<leftarrow>xs. length (cn_binders (snd kc)))" if "map_of xs c = Some x" "cn_binders x = b # bs" for xs x
    using that by (induction xs) auto
  then show ?thesis using assms
    by (auto simp: binder_count_def upd_conn_def conn_def Connection_new_def split: option.splits)
qed

function notify_loop :: "nat \<Rightarrow> conn_world \<Rightarrow> conn_world" where
  "notify_loop c w =
     (case cn_binders (conn w c) of
        [] \<Rightarrow> w
      | b # bs \<Rightarrow>
          let w = set_bound b None (upd_conn c (cn_binders_update (\<lambda>_. bs)) w)
          in case b of
               ClientBinder n \<Rightarrow> notify_loop c (emit (ClientDisconnected n) w)
             | LowerBinder c' \<Rightarrow> notify_loop c (notify_loop c' (Binder_Attach (LowerBinder c') None w)))"
  by pat_completeness auto
termination
proof -
  have count: "binder_count (notify_loop c w) \<le> binder_count w" if "notify_loop_dom (c, w)" for c w
    using that
  proof (induction rule: notify_loop.pinduct)
    case (1 c w)
    show ?case
    proof (cases "cn_binders (conn w c)")
      case Nil
      then show ?thesis using 1(1) by (simp add: notify_loop.psimps)
    next
      case (Cons b bs)
      let ?w = "set_bound b None (upd_conn c (cn_binders_update (\<lambda>_. bs)) w)"
      have w: "binder_count ?w \<le> binder_count w"
        using binder_count_pop [OF Cons] order_trans [OF binder_count_set_bound] by fastforce
      show ?thesis
      proof (cases b)
        case (ClientBinder n)
        then show ?thesis using 1(1) 1(4) [OF Cons refl] w Cons
          by (simp add: notify_loop.psimps Let_def)
      next
        case (LowerBinder c')
        have "binder_count (notify_loop c' (Binder_Attach (LowerBinder c') None ?w)) \<le> binder_count w"
          using 1(2) [OF Cons refl LowerBinder] binder_count_attach_none [of "LowerBinder c'" ?w] w by linarith
        then show ?thesis using 1(1) 1(3) [OF Cons refl LowerBinder] Cons LowerBinder
          by (simp add: notify_loop.psimps Let_def)
      qed
    qed
  qed
  show ?thesis
  proof (relation "measure (\<lambda>(c, w). binder_count w)", goal_cases)
    case 1
    show ?case by simp
  next
    case (2 c w b bs x c')
    then show ?case using binder_count_pop [OF 2(1)] order_trans [OF binder_count_attach_none]
      by (simp, metis binder_count_set_bound le_less_trans)
  next
    case (3 c w b bs x c')
    then show ?case using binder_count_pop [OF 3(1)] count [OF 3(4)]
      by (simp, metis binder_count_set_bound binder_count_attach_none le_less_trans)
  next
    case (4 c w b bs x n)
    then show ?case using binder_count_pop [OF 4(1)]
      by (simp, metis binder_count_set_bound le_less_trans)
  qed
qed

declare notify_loop.simps [simp del]

definition NotifyBindersOnDisconnect :: "nat \<Rightarrow> conn_world \<Rightarrow> conn_world" where
  "NotifyBindersOnDisconnect c w = notify_loop c (Binder_Attach (LowerBinder c) None w)"

text \<open>The loop over the lower connections, with the set of those visited.\<close>

definition lower :: "conn_world \<Rightarrow> nat \<Rightarrow> nat option" where
  "lower w c = bound w (LowerBinder c)"

function carrier_loop :: "conn_world \<Rightarrow> nat set \<Rightarrow> nat \<Rightarrow> nat option" where
  "carrier_loop w visited carrier =
     (case lower w carrier of
        None \<Rightarrow> Some carrier
      | Some next \<Rightarrow> if carrier \<in> visited then None else carrier_loop w (insert carrier visited) next)"
  by pat_completeness auto
termination
proof (relation "measure (\<lambda>(w, visited, carrier). card (fst ` set (cw_connections w) - visited))", goal_cases)
  case 1
  show ?case by simp
next
  case (2 w visited carrier next')
  have "carrier \<in> fst ` set (cw_connections w)"
  proof (rule ccontr)
    assume "carrier \<notin> fst ` set (cw_connections w)"
    then have "map_of (cw_connections w) carrier = None" by (simp add: map_of_eq_None_iff)
    with 2(1) show False by (simp add: lower_def bound_def conn_def Connection_new_def)
  qed
  with 2(2) have "fst ` set (cw_connections w) - insert carrier visited \<subset> fst ` set (cw_connections w) - visited"
    by auto
  then show ?case by (simp add: psubset_card_mono)
qed

declare carrier_loop.simps [simp del]

definition GetCarrierConnection :: "nat \<Rightarrow> conn_world \<Rightarrow> nat option" where
  "GetCarrierConnection c w = carrier_loop w {} c"

subsection \<open>Routing state of a connection\<close>

definition lift_route ::
    "(routing_table \<times> rtnl_handler \<Rightarrow> routing_table \<times> rtnl_handler) \<Rightarrow> conn_world \<Rightarrow> conn_world" where
  "lift_route f w = (case f (cw_table w, cw_rtnl w) of (t, h) \<Rightarrow> w\<lparr>cw_table := t, cw_rtnl := h\<rparr>)"

definition lift_route_opt ::
    "(routing_table \<times> rtnl_handler \<Rightarrow> (bool \<times> routing_table \<times> rtnl_handler) option) \<Rightarrow> conn_world \<Rightarrow>
      (bool \<times> conn_world) option" where
  "lift_route_opt f w = map_option (\<lambda>(ok, t, h). (ok, w\<lparr>cw_table := t, cw_rtnl := h\<rparr>)) (f (cw_table w, cw_rtnl w))"

definition GetMetric :: "connection \<Rightarrow> bool \<Rightarrow> u32" where
  "GetMetric cn is_default = (if is_default then kDefaultMetric else kNonDefaultMetricBase + cn_interface_index cn)"

definition IsIPv6 :: "connection \<Rightarrow> bool" where
  "IsIPv6 cn \<longleftrightarrow> family (cn_local cn) = kFamilyIPv6"

definition SetMTU :: "conn_env \<Rightarrow> nat \<Rightarrow> int \<Rightarrow> conn_world \<Rightarrow> conn_world option" where
  "SetMTU E c mtu w =
     (let cn = conn w c;
          mtu = (if mtu = kUndefinedMTU then kDefaultMTU
                 else let min_mtu = (if IsIPv6 cn then kMinIPv6MTU else kMinIPv4MTU)
                      in if mtu < min_mtu then min_mtu else mtu)
      in map_option (\<lambda>h. w\<lparr>cw_rtnl := h\<rparr>) (SetInterfaceMTU (ce_rtnl E) (cn_interface_index cn) (word_of_int mtu) (cw_rtnl w)))"

definition RequestHostRoute :: "conn_env \<Rightarrow> nat \<Rightarrow> ip_addr \<Rightarrow> conn_world \<Rightarrow> bool \<times> conn_world" where
  "RequestHostRoute E c addr w =
     (let cn = conn w c;
          (ok, t, h) = RequestRouteToHost (ce_rtnl E) (ce_write_file E) addr (-1) (sint (cn_interface_index cn)) (Some c)
            (cn_table_id cn) (cw_table w, cw_rtnl w)
      in (ok, w\<lparr>cw_table := t, cw_rtnl := h\<rparr>))"

definition PinHostRoute :: "conn_env \<Rightarrow> nat \<Rightarrow> ip_addr \<Rightarrow> ip_addr \<Rightarrow> conn_world \<Rightarrow> bool \<times> conn_world" where
  "PinHostRoute E c trusted_ip gateway w =
     (if \<not> IsValid trusted_ip then (False, w)
      else if \<not> IsValid gateway then (True, w)
      else RequestHostRoute E c trusted_ip w)"

text \<open>The routes to the remaining excluded addresses; the entry's destination is overwritten in turn.\<close>

fun pin_loop :: "conn_env \<Rightarrow> u32 \<Rightarrow> string list \<Rightarrow> route_entry \<Rightarrow> conn_world \<Rightarrow> conn_world option" where
  "pin_loop E interface_index [] entry w = Some w"
| "pin_loop E interface_index (excluded_ip # rest) entry w =
     (let (ok, dst) = SetAddressAndPrefixFromString (ce_inet_pton E) (ce_split_slash E) (ce_string_to_size_t E)
            (te_dst entry) excluded_ip;
          entry = entry\<lparr>te_dst := dst\<rparr>
      in if \<not> ok \<or> \<not> IsValid dst then pin_loop E interface_index rest entry w
         else do {
           (_, w) \<leftarrow> lift_route_opt (AddRoute (ce_rtnl E) interface_index entry) w;
           pin_loop E interface_index rest entry w
         })"

definition PinPendingRoutes :: "conn_env \<Rightarrow> nat \<Rightarrow> u32 \<Rightarrow> route_entry \<Rightarrow> conn_world \<Rightarrow> conn_world option" where
  "PinPendingRoutes E c interface_index entry w =
     pin_loop E interface_index (cn_excluded_ips_cidr (conn w c)) entry w"

definition CreateGatewayRoute :: "conn_env \<Rightarrow> nat \<Rightarrow> conn_world \<Rightarrow> (bool \<times> conn_world) option" where
  "CreateGatewayRoute E c w =
     (let cn = conn w c
      in if \<not> cn_has_broadcast_domain cn then Some (False, w)
         else if \<not> IsValid (cn_gateway cn) then Some (False, w)
         else lift_route_opt (CreateLinkRoute (ce_rtnl E) (cn_interface_index cn) (cn_local cn) (cn_gateway cn) (cn_table_id cn)) w)"

definition OnRouteQueryResponse :: "conn_env \<Rightarrow> nat \<Rightarrow> u32 \<Rightarrow> route_entry \<Rightarrow> conn_world \<Rightarrow> conn_world option" where
  "OnRouteQueryResponse E c interface_index entry w =
     (let w = Binder_Attach (LowerBinder c) None w
      in case ce_device E interface_index of
           None \<Rightarrow> Some w
         | Some None \<Rightarrow> Some w
         | Some (Some c') \<Rightarrow>
             if c' = c then Some w
             else do {
               (_, w) \<leftarrow> CreateGatewayRoute E c' (Binder_Attach (LowerBinder c) (Some c') w);
               PinPendingRoutes E c interface_index entry (emit (DeviceOnConnectionUpdated interface_index) w)
             })"

text \<open>Result, peer and gateway.\<close>

definition FixGatewayReachability ::
    "conn_env \<Rightarrow> nat \<Rightarrow> ip_addr \<Rightarrow> ip_addr \<Rightarrow> ip_addr \<Rightarrow> ip_addr \<Rightarrow> conn_world \<Rightarrow>
      ((bool \<times> ip_addr \<times> ip_addr) \<times> conn_world) option" where
  "FixGatewayReachability E c local peer gateway trusted_ip w =
     (if \<not> IsValid gateway then Some ((False, peer, gateway), w)
      else if IsValid peer then
        if \<not> HasSameAddressAs gateway peer then Some ((False, peer, gateway), w)
        else if HasSameAddressAs gateway trusted_ip
        then Some ((True, SetAddressToDefault peer, SetAddressToDefault gateway), w)
        else Some ((True, peer, gateway), w)
      else do {
        reachable \<leftarrow> CanReachAddress local gateway;
        if reachable then Some ((True, peer, gateway), w)
        else
          let cn = conn w c;
              default_addr = IPAddress_family (family gateway);
              entry = RoutingTableEntry_new (gateway\<lparr>ip_prefix := GetMaxPrefixLength (family gateway)\<rparr>) default_addr
                default_addr 0 RT_SCOPE_LINK False (cn_table_id cn) kDefaultTag
          in do {
            (ok, w) \<leftarrow> lift_route_opt (AddRoute (ce_rtnl E) (cn_interface_index cn) entry) w;
            Some ((ok, peer, gateway), w)
          }
      })"

subsection \<open>Name servers and the default connection\<close>

definition PushDNSConfig :: "conn_env \<Rightarrow> nat \<Rightarrow> conn_world \<Rightarrow> conn_world option" where
  "PushDNSConfig E c w =
     (let cn = conn w c
      in if \<not> cn_is_default cn then Some w
         else
           let search = (if cn_dns_domain_search cn = [] \<and> cn_dns_domain_name cn \<noteq> []
                         then [cn_dns_domain_name cn @ ''.''] else cn_dns_domain_search cn)
           in map_option (\<lambda>(_, r). w\<lparr>cw_resolver := r\<rparr>)
                (SetDNSFromLists (ce_resolver E) (cn_dns_servers cn) search (cw_resolver w)))"

definition UpdateDNSServers :: "conn_env \<Rightarrow> nat \<Rightarrow> string list \<Rightarrow> conn_world \<Rightarrow> conn_world option" where
  "UpdateDNSServers E c servers w = PushDNSConfig E c (upd_conn c (cn_dns_servers_update (\<lambda>_. servers)) w)"

definition flush_cache :: "conn_env \<Rightarrow> conn_world \<Rightarrow> conn_world" where
  "flush_cache E w = w\<lparr>cw_table := snd (FlushCache (ce_write_file E) (cw_table w))\<rparr>"

definition SetIsDefault :: "conn_env \<Rightarrow> nat \<Rightarrow> bool \<Rightarrow> conn_world \<Rightarrow> conn_world option" where
  "SetIsDefault E c is_default w =
     (let cn = conn w c
      in if is_default = cn_is_default cn then Some w
         else
           let w = lift_route (SetDefaultMetric (ce_rtnl E) (cn_interface_index cn) (GetMetric cn is_default)) w;
               w = upd_conn c (cn_is_default_update (\<lambda>_. is_default)) w
           in do {
             w \<leftarrow> PushDNSConfig E c w;
             let w = (if is_default \<and> ce_device E (cn_interface_index cn) \<noteq> None
                      then emit (DeviceRequestPortalDetection (cn_interface_index cn)) w else w);
             Some (flush_cache E w)
           })"

text \<open>The \<open>DCHECK\<close>s of the routing requests: the device exists and the count is positive.\<close>

definition RequestRouting :: "conn_env \<Rightarrow> nat \<Rightarrow> conn_world \<Rightarrow> conn_world option" where
  "RequestRouting E c w =
     (let cn = conn w c;
          w = upd_conn c (cn_routing_request_count_update (\<lambda>n. n + 1)) w
      in if cn_routing_request_count cn = 0 then
           if ce_device E (cn_interface_index cn) = None then None
           else Some (emit (DeviceSetLooseRouting (cn_interface_index cn) True) w)
         else Some w)"

definition ReleaseRouting :: "conn_env \<Rightarrow> nat \<Rightarrow> conn_world \<Rightarrow> conn_world option" where
  "ReleaseRouting E c w =
     (let cn = conn w c;
          w = upd_conn c (cn_routing_request_count_update (\<lambda>n. n - 1)) w
      in if cn_routing_request_count cn \<le> 0 then None
         else if cn_routing_request_count cn - 1 = 0 then
           if ce_device E (cn_interface_index cn) = None then None
           else Some (flush_cache E (emit (DeviceSetLooseRouting (cn_interface_index cn) False) w))
         else Some w)"

definition SetupIptableEntries :: "conn_env \<Rightarrow> nat \<Rightarrow> conn_world \<Rightarrow> bool \<times> conn_world" where
  "SetupIptableEntries E c w =
     (ce_setup_vpn E, emit RequestVpnSetup (upd_conn c (cn_firewall_proxy_update (\<lambda>_. True)) w))"

definition TearDownIptableEntries :: "conn_env \<Rightarrow> nat \<Rightarrow> conn_world \<Rightarrow> bool \<times> conn_world" where
  "TearDownIptableEntries E c w =
     (if cn_firewall_proxy (conn w c) then (ce_remove_vpn E, emit RemoveVpnSetup w) else (True, w))"

text \<open>The destructor. The object is gone afterwards.\<close>

definition Connection_destroy :: "conn_env \<Rightarrow> nat \<Rightarrow> conn_world \<Rightarrow> conn_world option" where
  "Connection_destroy E c w =
     (let w = NotifyBindersOnDisconnect c w;
          index = cn_interface_index (conn w c)
      in if cn_routing_request_count (conn w c) \<noteq> 0 then None
         else
           let w = lift_route (FlushRoutes (ce_rtnl E) index) w;
               w = lift_route (FlushRoutesWithTag (ce_rtnl E) (sint index)) w;
               w = emit (FlushAddresses index) w;
               w = snd (TearDownIptableEntries E c w)
           in Some (w\<lparr>cw_connections := AList.delete c (cw_connections w)\<rparr>))"

subsection \<open>Installing an IP configuration\<close>

text \<open>
  The last part of \<open>UpdateFromIPConfig\<close>, from \<open>ConfigureRoutes\<close> on: routes, MTU, name servers, and what the
  connection remembers.
\<close>

definition remember_dns :: "ip_properties \<Rightarrow> connection \<Rightarrow> connection" where
  "remember_dns props cn =
     cn\<lparr>cn_dns_servers := (if dns_servers props \<noteq> [] then dns_servers props else cn_dns_servers cn),
        cn_dns_domain_search := (if domain_search props \<noteq> [] then domain_search props else cn_dns_domain_search cn),
        cn_dns_domain_name := (if domain_name props \<noteq> [] then domain_name props else cn_dns_domain_name cn)\<rparr>"

definition finish_update ::
    "conn_env \<Rightarrow> nat \<Rightarrow> ip_properties \<Rightarrow> string \<Rightarrow> ip_addr \<Rightarrow> ip_addr \<Rightarrow> ip_addr \<Rightarrow> conn_world \<Rightarrow> conn_world option" where
  "finish_update E c props rpc_identifier local peer gateway w =
     (let cn = conn w c in do {
        (_, w) \<leftarrow> lift_route_opt (ConfigureRoutes (ce_rtnl E) (ce_inet_pton E) (ce_inet_network E) (cn_interface_index cn)
                   props kDefaultMetric (cn_table_id cn)) w;
        w \<leftarrow> SetMTU E c (p_mtu props) w;
        let w = (if blackhole_ipv6 props
                 then w\<lparr>cw_rtnl := snd (CreateBlackholeRoute (ce_rtnl E) (cn_interface_index cn) kFamilyIPv6 kDefaultMetric
                        (cn_table_id cn) (cw_rtnl w))\<rparr>
                 else w);
        let w = upd_conn c (\<lambda>cn. (remember_dns props cn)\<lparr>cn_ipconfig_rpc_identifier := rpc_identifier\<rparr>) w;
        w \<leftarrow> PushDNSConfig E c w;
        Some (upd_conn c (\<lambda>cn. cn\<lparr>cn_local := local, cn_gateway := gateway,
                cn_has_broadcast_domain := \<not> IsValid peer\<rparr>) w)
      })"

text \<open>The middle part: the addresses are known; the interface gets its address and its default route.\<close>

definition install_addresses ::
    "conn_env \<Rightarrow> nat \<Rightarrow> ip_properties \<Rightarrow> string \<Rightarrow> ip_addr \<Rightarrow> ip_addr \<Rightarrow> ip_addr \<Rightarrow> ip_addr \<Rightarrow> ip_addr \<Rightarrow> conn_world \<Rightarrow>
      conn_world option" where
  "install_addresses E c props rpc_identifier local broadcast peer gateway trusted_ip w = do {
     ((_, peer, gateway), w) \<leftarrow> FixGatewayReachability E c local peer gateway trusted_ip w;
     let cn = conn w c;
     let index = cn_interface_index cn;
     let w = (if ce_has_other_address E index local
              then emit (FlushAddresses index) (lift_route (FlushRoutes (ce_rtnl E) index) w) else w);
     (_, h) \<leftarrow> AddInterfaceAddress (ce_rtnl E) index local broadcast peer (cw_rtnl w);
     let w = w\<lparr>cw_rtnl := h\<rparr>;
     w \<leftarrow> (if IsValid gateway \<and> default_route props
          then map_option snd (lift_route_opt (SetDefaultRoute (ce_rtnl E) index gateway (GetMetric cn (cn_is_default cn))
                 (cn_table_id cn)) w)
          else Some w);
     let w = (if cn_user_traffic_only cn then snd (SetupIptableEntries E c w) else w);
     finish_update E c props rpc_identifier local peer gateway w
   }"

definition UpdateFromIPConfig ::
    "conn_env \<Rightarrow> nat \<Rightarrow> ip_properties \<Rightarrow> string \<Rightarrow> conn_world \<Rightarrow> conn_world option" where
  "UpdateFromIPConfig E c props rpc_identifier w =
     (let fam = address_family props;
          empty = IPAddress_family fam;
          parse = SetAddressFromString (ce_inet_pton E) empty;
          w = upd_conn c (\<lambda>cn. cn\<lparr>cn_user_traffic_only := user_traffic_only props,
                cn_table_id := (if user_traffic_only props then kSecondaryTableId else RT_TABLE_MAIN)\<rparr>) w;
          (gateway_ok, gateway) = (if p_gateway props = [] then (True, empty) else parse (p_gateway props))
      in if \<not> gateway_ok then Some w
         else
           let w = upd_conn c (cn_excluded_ips_cidr_update (\<lambda>_. exclusion_list props)) w;
               (pinned, trusted_ip, w) =
                 (case exclusion_list props of
                    [] \<Rightarrow> (True, empty, w)
                  | first_excluded_ip # rest \<Rightarrow>
                      let w = upd_conn c (cn_excluded_ips_cidr_update (\<lambda>_. rest)) w;
                          (ok, trusted_ip) = SetAddressAndPrefixFromString (ce_inet_pton E) (ce_split_slash E)
                            (ce_string_to_size_t E) empty first_excluded_ip
                      in if \<not> ok then (False, trusted_ip, w)
                         else let (ok, w) = PinHostRoute E c trusted_ip gateway w in (ok, trusted_ip, w));
               (local_ok, local) = parse (p_address props)
           in if \<not> pinned \<or> \<not> local_ok then Some w
              else
                let local = local\<lparr>ip_prefix := unat (word_of_int (subnet_prefix props) :: u32)\<rparr>;
                    (peer_ok, peer) = (if peer_address props = [] then (True, empty) else parse (peer_address props))
                in do {
                  (broadcast_ok, broadcast) \<leftarrow>
                    (if broadcast_address props = [] then
                       if peer_address props = [] then map_option (Pair True) (GetDefaultBroadcast local)
                       else Some (True, empty)
                     else Some (parse (broadcast_address props)));
                  if \<not> broadcast_ok \<or> \<not> peer_ok then Some w
                  else install_addresses E c props rpc_identifier local broadcast peer gateway trusted_ip w
                })"

end
