(* ===== verification/Routing_Proofs.thy ===== *)
theory Routing_Proofs
  imports Routing_Table "HOL-Library.Multiset"
begin

text \<open>
  Properties of the routing table: what is sent for an entry is parsed back to that entry, the kernel's echoes
  bring the table in line with what was asked for, flushing removes and deletes exactly the entries it
  should, a metric is replaced without a gap, and replies reach the query they belong to.
\<close>

subsection \<open>Tables\<close>

lemma table_of_set_table [simp]: "table_of (set_table i es t) j = (if i = j then es else table_of t j)"
  by (simp add: table_of_def set_table_def update_conv')

lemma set_table_queries [simp]: "tb_route_queries (set_table i es t) = tb_route_queries t"
  by (simp add: set_table_def)

subsection \<open>From an entry to bytes and back\<close>

text \<open>A traversal of a map visits each element once, in some order.\<close>

definition map_order :: "(attributes \<Rightarrow> attributes) \<Rightarrow> bool" where
  "map_order order \<longleftrightarrow> (\<forall>attrs. mset (order attrs) = mset attrs)"

lemma map_order_set: "map_order order \<Longrightarrow> set (order attrs) = set attrs"
  by (metis map_order_def set_mset_mset)

lemma map_order_distinct:
  assumes "map_order order" "distinct (map fst attrs)" shows "distinct (map fst (order attrs))"
proof -
  have "mset (map fst (order attrs)) = mset (map fst attrs)" using assms(1) by (simp add: map_order_def)
  then show ?thesis using assms(2) by (metis distinct_count_atmost_1 set_mset_mset)
qed

lemma map_order_map_of:
  assumes "map_order order" "distinct (map fst attrs)" shows "map_of (order attrs) = map_of attrs"
  using assms map_order_set [OF assms(1), of attrs] map_order_distinct [OF assms]
  by (intro ext) (metis map_of_eq_Some_iff not_None_eq)

lemma map_order_sum: "map_order order \<Longrightarrow> (\<Sum>a\<leftarrow>order attrs. f a) = (\<Sum>a\<leftarrow>attrs. f a :: nat)"
  by (metis map_order_def mset_map sum_mset_sum_list)

lemma distinct_SetAttribute: "distinct (map fst (rm_attributes m)) \<Longrightarrow> distinct (map fst (rm_attributes (SetAttribute m k v)))"
  by (simp add: SetAttribute_def distinct_update)

text \<open>The entries shill makes and receives: addresses of one family and of its length, prefixes of a byte.\<close>

definition route_ok :: "route_entry \<Rightarrow> bool" where
  "route_ok entry \<longleftrightarrow>
     (let fam = family (te_dst entry) in
        fam \<in> {kFamilyIPv4, kFamilyIPv6} \<and> family (te_src entry) = fam \<and> family (te_gateway entry) = fam \<and>
        length (address (te_dst entry)) = GetAddressLength fam \<and>
        length (address (te_src entry)) = GetAddressLength fam \<and>
        length (address (te_gateway entry)) = GetAddressLength fam \<and>
        ip_prefix (te_dst entry) < 256 \<and> ip_prefix (te_src entry) < 256 \<and> ip_prefix (te_gateway entry) = 0)"

lemma IsZero_replicate: "IsZero bs \<longleftrightarrow> bs = replicate (length bs) 0"
  by (induction bs) auto

lemmas rta_defs = RTA_DST_def RTA_SRC_def RTA_OIF_def RTA_GATEWAY_def RTA_PRIORITY_def

lemma route_message_fields:
  "rm_type (route_message e i entry md flags) = kTypeRoute" "rm_mode (route_message e i entry md flags) = md"
  "rm_family (route_message e i entry md flags) = family (te_dst entry)"
  "rm_route_status (route_message e i entry md flags) =
     \<lparr>rs_dst_prefix = of_nat (ip_prefix (te_dst entry)), rs_src_prefix = of_nat (ip_prefix (te_src entry)),
      rs_table = te_table entry, rs_protocol = RTPROT_BOOT, rs_scope = te_scope entry, rs_type = RTN_UNICAST, rs_flags = 0\<rparr>"
  "rm_link_status (route_message e i entry md flags) = LinkStatus_new"
  "rm_attributes (route_message e i entry md flags) =
     [(RTA_DST, address (te_dst entry))] @
     (if IsDefault (te_src entry) then [] else [(RTA_SRC, address (te_src entry))]) @
     (if IsDefault (te_gateway entry) then [] else [(RTA_GATEWAY, address (te_gateway entry))]) @
     [(RTA_PRIORITY, mem32 e (te_metric entry)), (RTA_OIF, mem32 e i)]"
  by (auto simp: route_message_def Let_def SetAttribute_def RTNLMessage_new_def rta_defs CreateFromCPUUInt32_def)

lemma route_message_encodable:
  assumes "map_order order" "route_ok entry" "md \<in> {kModeAdd, kModeDelete}"
  shows "encodable order ((route_message e i entry md flags)\<lparr>rm_seq := s\<rparr>)"
proof -
  let ?attrs = "rm_attributes (route_message e i entry md flags)"
  have len: "GetAddressLength (family (te_dst entry)) \<le> 16"
    by (simp add: GetAddressLength_def)
  have dist: "distinct (map fst ?attrs)" by (simp add: route_message_fields rta_defs)
  have fits: "\<forall>a \<in> set ?attrs. attribute_fits a"
    using assms(2) len by (auto simp: route_message_fields attribute_fits_def route_ok_def Let_def)
  have total: "(\<Sum>a\<leftarrow>?attrs. length (snd a) + 8) + 32 < 2 ^ 31"
    using assms(2) len by (simp add: route_message_fields route_ok_def Let_def)
  have sum: "(\<Sum>a\<leftarrow>order ?attrs. length (snd a) + 8) = (\<Sum>a\<leftarrow>?attrs. length (snd a) + 8)"
    by (rule map_order_sum [OF assms(1)])
  show ?thesis
    using map_order_distinct [OF assms(1) dist] fits total sum assms(3)
    by (simp add: encodable_def map_order_set [OF assms(1)] route_message_fields(1,2,5) LinkStatus_new_def)
qed

lemma route_message_parsed:
  assumes "route_ok entry" "map_of (rm_attributes m) = map_of (rm_attributes (route_message e i entry md flags))"
    "rm_type m = kTypeRoute" "rm_family m = family (te_dst entry)"
    "rm_route_status m = rm_route_status (route_message e i entry md flags)"
  shows "ParseRoutingTableMessage e m = Some (i, entry\<lparr>te_from_rtnl := True, te_tag := kDefaultTag\<rparr>)"
proof -
  have zero: "IsDefault a \<Longrightarrow> length (address a) = n \<Longrightarrow> address a = replicate n 0" for a n
    by (metis IsDefault_def IsZero_replicate)
  have "unat (of_nat (ip_prefix (te_dst entry)) :: u8) = ip_prefix (te_dst entry)"
    "unat (of_nat (ip_prefix (te_src entry)) :: u8) = ip_prefix (te_src entry)"
    using assms(1) by (auto simp: route_ok_def Let_def intro!: unat_small)
  moreover have "family (te_dst entry) \<noteq> kFamilyUnknown"
    using assms(1) by (auto simp: route_ok_def family_consts)
  moreover have "address (te_dst entry) = address (te_dst entry)" by simp
  ultimately show ?thesis
    using assms zero [of "te_src entry"] zero [of "te_gateway entry"]
    by (cases "IsDefault (te_src entry)"; cases "IsDefault (te_gateway entry)")
      (simp_all add: ParseRoutingTableMessage_def HasAttribute_def GetAttribute_def route_message_fields rta_defs
        RTN_UNICAST_def ConvertToCPUUInt32_def GetLength_def RoutingTableEntry_empty_def route_ok_def Let_def
        default_address_def SetAddressToDefault_def IPAddress_family_def IPAddress_prefix_def IPAddress_bytes_def)
qed

text \<open>What is sent for an entry, and the message the kernel's copy of it is decoded to.\<close>

definition route_bytes :: "rtnl_env \<Rightarrow> u32 \<Rightarrow> route_entry \<Rightarrow> rtnl_mode \<Rightarrow> u32 \<Rightarrow> u32 \<Rightarrow> byte_string" where
  "route_bytes E i entry md flags sequence =
     Rtnl_Encode (re_endian E) (re_order E) ((route_message (re_endian E) i entry md flags)\<lparr>rm_seq := sequence\<rparr>)"

definition route_echo :: "rtnl_env \<Rightarrow> u32 \<Rightarrow> route_entry \<Rightarrow> rtnl_mode \<Rightarrow> u32 \<Rightarrow> u32 \<Rightarrow> rtnl_message" where
  "route_echo E i entry md flags sequence =
     carried (re_order E) ((route_message (re_endian E) i entry md flags)\<lparr>rm_seq := sequence\<rparr>)"

lemma ApplyRoute_effect:
  assumes "md \<in> {kModeAdd, kModeDelete}"
  shows "ApplyRoute E i entry md flags h =
    (let p = route_bytes E i entry md flags (rh_request_sequence h)
     in (re_send E (length (rh_sent h)) p,
         h\<lparr>rh_error_mask_window := (rh_error_mask_window h)
              [unat (rh_request_sequence h) mod 16 := expected_errors (route_message (re_endian E) i entry md flags)],
           rh_request_sequence := rh_request_sequence h + 1, rh_sent := rh_sent h @ [p]\<rparr>))"
proof -
  have "sendable (route_message (re_endian E) i entry md flags)"
    using assms by (auto simp: sendable_def route_message_fields)
  then show ?thesis
    by (simp add: ApplyRoute_def SendMessage_def SendMessageWithErrorMask_effect route_bytes_def Let_def)
qed

lemma ApplyRoute_sent:
  assumes "md \<in> {kModeAdd, kModeDelete}"
  shows "rh_sent (snd (ApplyRoute E i entry md flags h)) = rh_sent h @ [route_bytes E i entry md flags (rh_request_sequence h)]"
    "rh_request_sequence (snd (ApplyRoute E i entry md flags h)) = rh_request_sequence h + 1"
    "fst (ApplyRoute E i entry md flags h) =
       re_send E (length (rh_sent h)) (route_bytes E i entry md flags (rh_request_sequence h))"
  using assms by (simp_all add: ApplyRoute_effect Let_def)

lemma route_echo_decoded:
  assumes "map_order (re_order E)" "route_ok entry" "md \<in> {kModeAdd, kModeDelete}"
  shows "Rtnl_Decode (re_endian E) (route_bytes E i entry md flags s) RTNLMessage_empty = Some (True, route_echo E i entry md flags s)"
  unfolding route_bytes_def route_echo_def
  by (rule Rtnl_Decode_Encode_all [OF route_message_encodable [OF assms]])

lemma route_echo_fields:
  assumes "map_order (re_order E)"
  shows "rm_mode (route_echo E i entry md flags s) = md" "rm_type (route_echo E i entry md flags s) = kTypeRoute"
    "rm_family (route_echo E i entry md flags s) = family (te_dst entry)"
    "rm_route_status (route_echo E i entry md flags s) = rm_route_status (route_message (re_endian E) i entry md flags)"
    "map_of (rm_attributes (route_echo E i entry md flags s)) =
       map_of (rm_attributes (route_message (re_endian E) i entry md flags))"
proof -
  have "distinct (map fst (rm_attributes (route_message (re_endian E) i entry md flags)))"
    by (simp add: route_message_fields rta_defs)
  from map_order_map_of [OF assms this]
  show "map_of (rm_attributes (route_echo E i entry md flags s)) =
       map_of (rm_attributes (route_message (re_endian E) i entry md flags))"
    by (simp add: route_echo_def carried_simps(3) route_message_fields(1))
qed (simp_all add: route_echo_def carried_simps(3) route_message_fields RTNLMessage_empty_def RTNLMessage_new_def)

lemma route_echo_parsed:
  assumes "map_order (re_order E)" "route_ok entry"
  shows "ParseRoutingTableMessage (re_endian E) (route_echo E i entry md flags s) =
    Some (i, entry\<lparr>te_from_rtnl := True, te_tag := kDefaultTag\<rparr>)"
  by (rule route_message_parsed [OF assms(2) route_echo_fields(5,2,3,4) [OF assms(1)]])

text \<open>
  What the kernel's copy of an entry says: a source or a gateway that names no address, whether it was left
  empty as the source in \<open>ConfigureRoutes\<close> or set to zeros as everywhere else, is not sent and is read
  back as zeros of the destination's family; the prefix of a gateway is not sent. The entries that can be sent:
  a destination of a known family and of its length, a source and a gateway without an address or of that length,
  prefixes of a byte.
\<close>

definition filled :: "family \<Rightarrow> ip_addr \<Rightarrow> nat \<Rightarrow> ip_addr" where
  "filled fam a pre = IPAddress_prefix fam (if IsDefault a then replicate (GetAddressLength fam) 0 else address a) pre"

definition kernel_copy :: "route_entry \<Rightarrow> route_entry" where
  "kernel_copy entry = (let fam = family (te_dst entry) in
     entry\<lparr>te_src := filled fam (te_src entry) (ip_prefix (te_src entry)), te_gateway := filled fam (te_gateway entry) 0\<rparr>)"

definition route_sendable :: "route_entry \<Rightarrow> bool" where
  "route_sendable entry \<longleftrightarrow>
     (let fam = family (te_dst entry) in
        fam \<in> {kFamilyIPv4, kFamilyIPv6} \<and> length (address (te_dst entry)) = GetAddressLength fam \<and>
        (\<forall>a \<in> {te_src entry, te_gateway entry}. IsDefault a \<or> length (address a) = GetAddressLength fam) \<and>
        ip_prefix (te_dst entry) < 256 \<and> ip_prefix (te_src entry) < 256)"

lemma IsDefault_filled [simp]: "IsDefault (filled fam a pre) = IsDefault a"
  by (simp add: filled_def IPAddress_prefix_def IsDefault_def IsZero_replicate)

lemma address_filled: "\<not> IsDefault a \<Longrightarrow> address (filled fam a pre) = address a"
  by (simp add: filled_def IPAddress_prefix_def)

lemma filled_prefix [simp]: "ip_prefix (filled fam a pre) = pre" "family (filled fam a pre) = fam"
  by (simp_all add: filled_def IPAddress_prefix_def)

lemma route_message_kernel_copy: "route_message en i (kernel_copy entry) md flags = route_message en i entry md flags"
  by (simp add: route_message_def kernel_copy_def Let_def address_filled)

lemma kernel_copy_ok: "route_sendable entry \<Longrightarrow> route_ok (kernel_copy entry)"
  by (auto simp: route_sendable_def route_ok_def kernel_copy_def filled_def IPAddress_prefix_def Let_def)

lemma filled_same:
  assumes "family a = fam" "length (address a) = GetAddressLength fam"
  shows "filled fam a (ip_prefix a) = a"
  using assms by (cases a) (auto simp: filled_def IPAddress_prefix_def IsDefault_def IsZero_replicate)

lemma kernel_copy_same: "route_ok entry \<Longrightarrow> kernel_copy entry = entry"
  using filled_same [of "te_gateway entry"] filled_same [of "te_src entry"]
  by (auto simp: route_ok_def kernel_copy_def Let_def)

text \<open>
  C20: the bytes that \<open>ApplyRoute\<close> puts on the socket for an entry are decoded to a message of the same mode
  from which \<open>ParseRoutingTableMessage\<close> reads the same interface and the same destination, metric, scope and
  table, marked as coming from the kernel and without the tag; source and gateway come back as they are when they
  are addresses of the destination's family and length, and as zeros of that family when they name no address, so
  an empty source, which \<open>ConfigureRoutes\<close> makes, is not the source read back
  (\<open>ConfigureRoutes_echo_duplicates\<close> is what follows from that). The entry must be one that can be sent
  (\<open>route_sendable\<close>): a destination of IPv4 or IPv6 and of that family's length, a source and a gateway
  without an address or of that length, prefixes below 256. This holds for either byte order and any traversal of
  the attributes.
\<close>

theorem ApplyRoute_parsed:
  assumes "map_order (re_order E)" "route_sendable entry" "md \<in> {kModeAdd, kModeDelete}"
    and "ApplyRoute E i entry md flags h = (ok, h')"
  shows "\<exists>p m. rh_sent h' = rh_sent h @ [p] \<and> Rtnl_Decode (re_endian E) p RTNLMessage_empty = Some (True, m) \<and>
    rm_mode m = md \<and>
    ParseRoutingTableMessage (re_endian E) m =
      Some (i, (kernel_copy entry)\<lparr>te_from_rtnl := True, te_tag := kDefaultTag\<rparr>) \<and>
    (route_ok entry \<longrightarrow> kernel_copy entry = entry) \<and>
    (te_src entry = IPAddress_family (family (te_dst entry)) \<longrightarrow>
      te_src (kernel_copy entry) = default_address (family (te_dst entry)))"
proof -
  have bytes: "route_bytes E i (kernel_copy entry) md flags s = route_bytes E i entry md flags s" for s
    by (simp add: route_bytes_def route_message_kernel_copy)
  have src: "te_src entry = IPAddress_family (family (te_dst entry)) \<longrightarrow>
      te_src (kernel_copy entry) = default_address (family (te_dst entry))"
    by (simp add: kernel_copy_def filled_def Let_def IsDefault_def IPAddress_family_def IPAddress_prefix_def
        default_address_def SetAddressToDefault_def)
  note ok = kernel_copy_ok [OF assms(2)]
  let ?p = "route_bytes E i entry md flags (rh_request_sequence h)"
  let ?m = "route_echo E i (kernel_copy entry) md flags (rh_request_sequence h)"
  note ok = kernel_copy_ok [OF assms(2)]
  have "rh_sent h' = rh_sent h @ [?p]" using ApplyRoute_sent(1) [OF assms(3), of E i entry flags h] assms(4) by simp
  moreover have "Rtnl_Decode (re_endian E) ?p RTNLMessage_empty = Some (True, ?m)"
    using route_echo_decoded [OF assms(1) ok assms(3), of i flags "rh_request_sequence h"] by (simp only: bytes)
  ultimately show ?thesis
    using route_echo_fields(1) [OF assms(1)] route_echo_parsed [OF assms(1) ok] kernel_copy_same src by blast
qed

text \<open>A host route and a default route of interface 2.\<close>

definition sample_host :: route_entry where
  "sample_host = RoutingTableEntry_new (IPAddress_prefix kFamilyIPv4 [10, 0, 0, 7] 32)
     (IPAddress_prefix kFamilyIPv4 [0, 0, 0, 0] 0) (IPAddress_bytes kFamilyIPv4 [10, 0, 0, 1]) 10 RT_SCOPE_UNIVERSE False
     RT_TABLE_MAIN 5"

definition sample_default :: route_entry where
  "sample_default = RoutingTableEntry_new (default_address kFamilyIPv4) (default_address kFamilyIPv4)
     (IPAddress_bytes kFamilyIPv4 [10, 0, 0, 1]) 10 RT_SCOPE_UNIVERSE False RT_TABLE_MAIN kDefaultTag"

lemma sample_routes_ok: "route_ok sample_host" "route_ok sample_default"
  by (simp_all add: sample_host_def sample_default_def RoutingTableEntry_new_def route_ok_def Let_def
      IPAddress_prefix_def IPAddress_bytes_def default_address_def SetAddressToDefault_def IPAddress_family_def
      GetAddressLength_def family_consts)

lemma sample_order [simp]: "map_order (re_order sample_env)"
  by (simp add: map_order_def sample_env_def)

text \<open>A host route as \<open>ConfigureRoutes\<close> makes it, its source left empty.\<close>

definition sample_configured :: route_entry where
  "sample_configured = sample_host\<lparr>te_src := IPAddress_family kFamilyIPv4\<rparr>"

lemma ApplyRoute_parsed_witness:
  "\<exists>p m. rh_sent (snd (ApplyRoute sample_env 2 sample_configured kModeAdd 0 RTNLHandler_new)) = rh_sent RTNLHandler_new @ [p] \<and>
    Rtnl_Decode (re_endian sample_env) p RTNLMessage_empty = Some (True, m) \<and> rm_mode m = kModeAdd \<and>
    ParseRoutingTableMessage (re_endian sample_env) m =
      Some (2, sample_host\<lparr>te_from_rtnl := True, te_tag := kDefaultTag\<rparr>)"
proof -
  note sample = sample_configured_def sample_host_def RoutingTableEntry_new_def IPAddress_prefix_def IPAddress_bytes_def
    IPAddress_family_def IsDefault_def GetAddressLength_def family_consts
  have "route_sendable sample_configured" by (simp add: route_sendable_def sample)
  moreover have "kernel_copy sample_configured = sample_host"
    by (simp add: kernel_copy_def filled_def sample eval_nat_numeral)
  ultimately show ?thesis
    using ApplyRoute_parsed [OF sample_order, of sample_configured kModeAdd 2 0 RTNLHandler_new
        "fst (ApplyRoute sample_env 2 sample_configured kModeAdd 0 RTNLHandler_new)"
        "snd (ApplyRoute sample_env 2 sample_configured kModeAdd 0 RTNLHandler_new)"]
    by auto
qed

subsection \<open>Echoes of the kernel\<close>

lemma IP_Equals_eq [simp]: "IP_Equals a b \<longleftrightarrow> a = b"
proof -
  have "equals_loop xs ys \<longleftrightarrow> xs = ys" if "length xs = length ys" for xs ys
    using that by (induction xs ys rule: list_induct2) auto
  then have "Equals x y \<longleftrightarrow> x = y" for x y by (auto simp: Equals_def GetLength_def)
  then show ?thesis by (cases a; cases b) (auto simp: IP_Equals_def)
qed

lemma RouteMsgHandler_echo:
  assumes "map_order (re_order E)" "route_ok entry"
  shows "RouteMsgHandler E run (route_echo E i entry md flags s) (t, h) =
    Some (set_table i (update_table md (entry\<lparr>te_from_rtnl := True, te_tag := kDefaultTag\<rparr>) (table_of t i)) t, h)"
  by (simp add: RouteMsgHandler_def route_echo_parsed [OF assms] route_echo_fields [OF assms(1)] route_message_fields
      RTPROT_UNSPEC_def RTPROT_BOOT_def)

lemma parse_ignores_mode: "ParseRoutingTableMessage e (m\<lparr>rm_mode := md\<rparr>) = ParseRoutingTableMessage e m"
  by (simp add: ParseRoutingTableMessage_def HasAttribute_def GetAttribute_def cong: if_cong option.case_cong)

lemma update_table_append:
  assumes "\<forall>e \<in> set es. \<not> same_route e entry"
  shows "update_table md entry (es @ es') = es @ update_table md entry es'"
  using assms by (induction es) auto

lemma AddRoute_sent:
  assumes "AddRoute E i entry (t, h) = Some (True, t', h')"
  shows "\<not> te_from_rtnl entry" "t' = set_table i (table_of t i @ [entry]) t"
    "rh_sent h' = rh_sent h @ [route_bytes E i entry kModeAdd (NLM_F_CREATE OR NLM_F_EXCL) (rh_request_sequence h)]"
    "rh_request_sequence h' = rh_request_sequence h + 1"
  using assms ApplyRoute_sent [of kModeAdd E i entry "NLM_F_CREATE OR NLM_F_EXCL" h]
  by (auto simp: AddRoute_def Let_def split: prod.splits if_splits)

lemma AddRoute_succeeds:
  assumes "sends_succeed E" "\<not> te_from_rtnl entry"
  shows "\<exists>t' h'. AddRoute E i entry (t, h) = Some (True, t', h')"
  using assms ApplyRoute_sent(3) [of kModeAdd E i entry "NLM_F_CREATE OR NLM_F_EXCL" h]
  by (auto simp: AddRoute_def Let_def sends_succeed_def split: prod.splits)

text \<open>
  A route that \<open>AddRoute\<close> sent and no entry of its interface equals is appended to the table; when the
  kernel announces it, that entry is recognised and only marked as confirmed: nothing is duplicated, its metric
  and its tag stay, and other interfaces are untouched. When the kernel announces its removal it is gone again.
\<close>

theorem AddRoute_echo:
  assumes "map_order (re_order E)" "route_ok entry" "AddRoute E i entry (t, h) = Some (True, t', h')"
    and "\<forall>e \<in> set (table_of t i). \<not> same_route e entry"
    and "p = last (rh_sent h')"
  shows "\<exists>m t2 t3. Rtnl_Decode (re_endian E) p RTNLMessage_empty = Some (True, m) \<and>
    RouteMsgHandler E run m (t', h') = Some (t2, h') \<and>
    table_of t2 i = table_of t i @ [entry\<lparr>te_from_rtnl := True\<rparr>] \<and>
    RouteMsgHandler E run (m\<lparr>rm_mode := kModeDelete\<rparr>) (t2, h') = Some (t3, h') \<and>
    (\<forall>j. table_of t3 j = table_of t j) \<and> (\<forall>j. j \<noteq> i \<longrightarrow> table_of t2 j = table_of t j)"
proof -
  let ?flags = "NLM_F_CREATE OR NLM_F_EXCL" and ?s = "rh_request_sequence h"
  let ?parsed = "entry\<lparr>te_from_rtnl := True, te_tag := kDefaultTag\<rparr>"
  note sent = AddRoute_sent [OF assms(3)]
  have p: "p = route_bytes E i entry kModeAdd ?flags ?s" using assms(5) sent(3) by simp
  let ?m = "route_echo E i entry kModeAdd ?flags ?s"
  have other: "\<forall>e \<in> set (table_of t i). \<not> same_route e ?parsed"
    using assms(4) by (simp add: same_route_def)
  have "update_table kModeAdd ?parsed (table_of t' i) = table_of t i @ [entry\<lparr>te_from_rtnl := True\<rparr>]"
    using update_table_append [OF other] by (simp add: sent(2) same_route_def)
  note add = RouteMsgHandler_echo [OF assms(1,2), of run i kModeAdd ?flags ?s t' h', unfolded this]
  let ?t2 = "set_table i (table_of t i @ [entry\<lparr>te_from_rtnl := True\<rparr>]) t'"
  have "ParseRoutingTableMessage (re_endian E) (?m\<lparr>rm_mode := kModeDelete\<rparr>) = Some (i, ?parsed)"
    using route_echo_parsed [OF assms(1,2), of i kModeAdd ?flags ?s] by (simp only: parse_ignores_mode)
  moreover have "update_table kModeDelete ?parsed (table_of ?t2 i) = table_of t i"
    using update_table_append [OF other] by (simp add: same_route_def)
  ultimately have "RouteMsgHandler E run (?m\<lparr>rm_mode := kModeDelete\<rparr>) (?t2, h') =
      Some (set_table i (table_of t i) ?t2, h')"
    by (simp add: RouteMsgHandler_def route_echo_fields(4) [OF assms(1)] route_message_fields(4)
        RTPROT_UNSPEC_def RTPROT_BOOT_def)
  with add route_echo_decoded [OF assms(1,2), of kModeAdd i ?flags ?s] show ?thesis
    by (intro exI [of _ ?m] exI [of _ ?t2] exI [of _ "set_table i (table_of t i) ?t2"])
      (simp add: p sent(2))
qed

definition sample_added :: "routing_table \<times> rtnl_handler" where
  "sample_added = snd (the (AddRoute sample_env 2 sample_host (RoutingTable_new, RTNLHandler_new)))"

lemma AddRoute_echo_witness:
  "\<exists>m t2 t3. Rtnl_Decode (re_endian sample_env) (last (rh_sent (snd sample_added))) RTNLMessage_empty = Some (True, m) \<and>
    RouteMsgHandler sample_env (\<lambda>_ _ _. Some) m sample_added = Some (t2, snd sample_added) \<and>
    table_of t2 2 = [sample_host\<lparr>te_from_rtnl := True\<rparr>] \<and>
    RouteMsgHandler sample_env (\<lambda>_ _ _. Some) (m\<lparr>rm_mode := kModeDelete\<rparr>) (t2, snd sample_added) =
      Some (t3, snd sample_added) \<and>
    (\<forall>j. table_of t3 j = [])"
proof -
  have "sends_succeed sample_env" "\<not> te_from_rtnl sample_host"
    by (simp_all add: sends_succeed_def sample_env_def sample_host_def RoutingTableEntry_new_def)
  then obtain t' h' where r: "AddRoute sample_env 2 sample_host (RoutingTable_new, RTNLHandler_new) = Some (True, t', h')"
    using AddRoute_succeeds by blast
  then have s: "sample_added = (t', h')" by (simp add: sample_added_def)
  have new: "table_of RoutingTable_new j = []" for j by (simp add: table_of_def RoutingTable_new_def)
  then have "\<forall>e \<in> set (table_of RoutingTable_new 2). \<not> same_route e sample_host" by simp
  from AddRoute_echo [OF sample_order sample_routes_ok(1) r this refl, of "\<lambda>_ _ _. Some"]
  show ?thesis unfolding s snd_conv new append_Nil by blast
qed

subsection \<open>The default route\<close>

abbreviation is_default_of :: "family \<Rightarrow> route_entry \<Rightarrow> bool" where
  "is_default_of fam e \<equiv> IsDefault (te_dst e) \<and> family (te_dst e) = fam"

lemma find_default_Some:
  assumes "find_default fam es = Some j"
  shows "j < length es" "is_default_of fam (es ! j)" "\<forall>e \<in> set (take j es). \<not> is_default_of fam e"
  using assms by (induction es arbitrary: j) (auto split: if_splits)

lemma find_default_append:
  assumes "\<forall>e \<in> set xs. \<not> is_default_of fam e" "is_default_of fam e"
  shows "find_default fam (xs @ e # ys) = Some (length xs)"
  using assms by (induction xs) auto

lemma GetDefaultRoute_table:
  "GetDefaultRoute t i fam = map_option (\<lambda>j. table_of t i ! j) (find_default fam (table_of t i))"
  by (simp add: GetDefaultRoute_def GetDefaultRouteInternal_def table_of_def split: option.split)

lemma GetDefaultRouteInternal_table: "GetDefaultRouteInternal t i fam = find_default fam (table_of t i)"
  by (simp add: GetDefaultRouteInternal_def table_of_def split: option.split)

lemma IsDefault_default_address [simp]: "IsDefault (default_address fam)" "family (default_address fam) = fam"
  by (simp_all add: default_address_def SetAddressToDefault_def IPAddress_family_def IsDefault_def IsZero_replicate)

lemma default_route_ok:
  assumes "family gw \<in> {kFamilyIPv4, kFamilyIPv6}" "IsValid gw" "ip_prefix gw = 0"
  shows "route_ok (RoutingTableEntry_new (default_address (family gw)) (default_address (family gw)) gw metric scope
    from_rtnl table_id tag)"
  using assms by (simp add: RoutingTableEntry_new_def route_ok_def Let_def default_address_def SetAddressToDefault_def
      IPAddress_family_def IsValid_def GetLength_def)

text \<open>
  C21: when the gateway of an interface changes, the old default route is deleted before the new one is
  added, and until the kernel answers the table still answers with the old one; once the two announcements are
  handled, the default route of the interface is the new one and the old one is gone.
\<close>

theorem SetDefaultRoute_settles:
  assumes "map_order (re_order E)" "table_of t i = xs @ old # ys" "route_ok old" "is_default_of fam old"
    and "\<forall>e \<in> set xs \<union> set ys. \<not> is_default_of fam e"
    and "family gw = fam" "IsValid gw" "ip_prefix gw = 0" "te_gateway old \<noteq> gw"
    and "SetDefaultRoute E i gw metric table_id (t, h) = Some (True, t', h')"
  shows "\<exists>new p1 p2 m1 m2 t1 t2. te_gateway new = gw \<and> te_metric new = metric \<and> te_table new = table_id \<and>
    rh_sent h' = rh_sent h @ [p1, p2] \<and> GetDefaultRoute t' i fam = Some old \<and>
    Rtnl_Decode (re_endian E) p1 RTNLMessage_empty = Some (True, m1) \<and> rm_mode m1 = kModeDelete \<and>
    Rtnl_Decode (re_endian E) p2 RTNLMessage_empty = Some (True, m2) \<and> rm_mode m2 = kModeAdd \<and>
    RouteMsgHandler E run m1 (t', h') = Some (t1, h') \<and> RouteMsgHandler E run m2 (t1, h') = Some (t2, h') \<and>
    GetDefaultRoute t2 i fam = Some new \<and> table_of t2 i = xs @ ys @ [new]"
proof -
  define new where "new = RoutingTableEntry_new (default_address fam) (default_address fam) gw metric RT_SCOPE_UNIVERSE
      False table_id kDefaultTag"
  have fam: "fam \<in> {kFamilyIPv4, kFamilyIPv6}" using assms(3,4) by (auto simp: route_ok_def Let_def)
  have new_ok: "route_ok new" using default_route_ok [of gw metric] fam assms(6-8) by (simp add: new_def)
  have new: "is_default_of fam new" "te_gateway new = gw" "te_tag new = kDefaultTag" "te_metric new = metric" "te_table new = table_id"
    by (simp_all add: new_def RoutingTableEntry_new_def)
  have found: "find_default fam (table_of t i) = Some (length xs)"
    using assms(2,4,5) by (simp add: find_default_append)
  define h1 where "h1 = snd (ApplyRoute E i old kModeDelete 0 h)"
  have "AddRoute E i new (t, h1) = Some (True, t', h')"
    using assms(2,9,10) found
    by (simp add: SetDefaultRoute_def GetDefaultRouteInternal_table assms(6) nth_append new_def h1_def Let_def split: prod.splits)
  note add = AddRoute_sent [OF this]
  define s where "s = rh_request_sequence h"
  let ?add = "NLM_F_CREATE OR NLM_F_EXCL"
  let ?p1 = "route_bytes E i old kModeDelete 0 s" and ?p2 = "route_bytes E i new kModeAdd ?add (s + 1)"
  let ?m1 = "route_echo E i old kModeDelete 0 s" and ?m2 = "route_echo E i new kModeAdd ?add (s + 1)"
  have sent: "rh_sent h' = rh_sent h @ [?p1, ?p2]"
    using add(3) ApplyRoute_sent(1,2) [of kModeDelete E i old 0 h] by (simp add: h1_def s_def)
  have t': "table_of t' i = xs @ old # ys @ [new]" using add(2) assms(2) by simp
  let ?old = "old\<lparr>te_from_rtnl := True, te_tag := kDefaultTag\<rparr>" and ?new = "new\<lparr>te_from_rtnl := True, te_tag := kDefaultTag\<rparr>"
  have no_match: "\<forall>e \<in> set xs \<union> set ys. \<not> same_route e ?old \<and> \<not> same_route e ?new"
  proof
    fix e assume "e \<in> set xs \<union> set ys"
    then have "\<not> is_default_of fam e" using assms(5) by (rule bspec [rotated])
    then have "te_dst e \<noteq> te_dst old" "te_dst e \<noteq> te_dst new" using assms(4) new(1) by metis+
    then show "\<not> same_route e ?old \<and> \<not> same_route e ?new" by (simp add: same_route_def)
  qed
  have del: "update_table kModeDelete ?old (table_of t' i) = xs @ ys @ [new]"
    using update_table_append [of xs ?old] no_match by (simp add: t' same_route_def)
  note echo1 = RouteMsgHandler_echo [OF assms(1,3), of run i kModeDelete 0 s t' h', unfolded del]
  let ?t1 = "set_table i (xs @ ys @ [new]) t'"
  have "update_table kModeAdd ?new (table_of ?t1 i) = (xs @ ys) @ [new\<lparr>te_from_rtnl := True\<rparr>]"
    using update_table_append [of "xs @ ys" ?new] no_match by (auto simp: same_route_def)
  note echo2 = RouteMsgHandler_echo [OF assms(1) new_ok, of run i kModeAdd ?add "s + 1" ?t1 h', unfolded this]
  have final: "find_default fam ((xs @ ys) @ [new\<lparr>te_from_rtnl := True\<rparr>]) = Some (length (xs @ ys))"
    using assms(5) new(1) by (intro find_default_append) auto
  have before: "GetDefaultRoute t' i fam = Some old"
    using find_default_append [of xs fam old "ys @ [new]"] assms(4,5) by (simp add: GetDefaultRoute_table t')
  let ?t2 = "set_table i ((xs @ ys) @ [new\<lparr>te_from_rtnl := True\<rparr>]) ?t1"
  have "GetDefaultRoute ?t2 i fam = Some (new\<lparr>te_from_rtnl := True\<rparr>)"
    using final by (simp add: GetDefaultRoute_table nth_append)
  then show ?thesis
    using new sent before echo1 echo2 route_echo_decoded [OF assms(1,3), of kModeDelete i 0 s]
      route_echo_decoded [OF assms(1) new_ok, of kModeAdd i ?add "s + 1"] route_echo_fields(1) [OF assms(1)]
    by (intro exI [of _ "new\<lparr>te_from_rtnl := True\<rparr>"] exI [of _ ?p1] exI [of _ ?p2] exI [of _ ?m1] exI [of _ ?m2]
        exI [of _ ?t1] exI [of _ ?t2]) simp
qed

definition sample_table :: routing_table where
  "sample_table = set_table 2 [sample_host, sample_default] RoutingTable_new"

definition new_gateway :: ip_addr where
  "new_gateway = IPAddress_bytes kFamilyIPv4 [10, 0, 0, 2]"

lemma SetDefaultRoute_settles_witness:
  "\<exists>new t' h' m1 m2 t1 t2. SetDefaultRoute sample_env 2 new_gateway 7 RT_TABLE_MAIN (sample_table, RTNLHandler_new) =
      Some (True, t', h') \<and> te_gateway new = new_gateway \<and>
    RouteMsgHandler sample_env (\<lambda>_ _ _. Some) m1 (t', h') = Some (t1, h') \<and>
    RouteMsgHandler sample_env (\<lambda>_ _ _. Some) m2 (t1, h') = Some (t2, h') \<and>
    GetDefaultRoute t2 2 kFamilyIPv4 = Some new \<and> table_of t2 2 = [sample_host, new]"
proof -
  have table: "table_of sample_table 2 = [sample_host] @ sample_default # []"
    by (simp add: sample_table_def)
  have d: "is_default_of kFamilyIPv4 sample_default" "\<forall>e \<in> set [sample_host] \<union> set []. \<not> is_default_of kFamilyIPv4 e"
    by (simp add: sample_default_def RoutingTableEntry_new_def)
      (simp add: sample_host_def RoutingTableEntry_new_def IPAddress_prefix_def IsDefault_def)
  have gw: "family new_gateway = kFamilyIPv4" "IsValid new_gateway" "ip_prefix new_gateway = 0" "te_gateway sample_default \<noteq> new_gateway"
    by (simp_all add: new_gateway_def IPAddress_bytes_def IsValid_def GetLength_def GetAddressLength_def family_consts
        sample_default_def RoutingTableEntry_new_def)
  have "find_default kFamilyIPv4 (table_of sample_table 2) = Some 1"
    using d by (simp add: table)
  then have found: "GetDefaultRouteInternal sample_table 2 (family new_gateway) = Some 1"
    by (simp add: GetDefaultRouteInternal_table gw(1))
  let ?new = "RoutingTableEntry_new (default_address (family new_gateway)) (default_address (family new_gateway))
      new_gateway 7 RT_SCOPE_UNIVERSE False RT_TABLE_MAIN kDefaultTag"
  have "sends_succeed sample_env" "\<not> te_from_rtnl ?new"
    by (simp_all add: sends_succeed_def sample_env_def RoutingTableEntry_new_def)
  then obtain t' h' where "AddRoute sample_env 2 ?new
      (sample_table, snd (ApplyRoute sample_env 2 sample_default kModeDelete 0 RTNLHandler_new)) = Some (True, t', h')"
    using AddRoute_succeeds by blast
  then have set: "SetDefaultRoute sample_env 2 new_gateway 7 RT_TABLE_MAIN (sample_table, RTNLHandler_new) =
      Some (True, t', h')"
    using gw(4) by (simp add: SetDefaultRoute_def found table Let_def case_prod_unfold)
  from SetDefaultRoute_settles [OF sample_order table sample_routes_ok(2) d gw(1-4) set, of "\<lambda>_ _ _. Some"]
  obtain new m1 m2 t1 t2 where "te_gateway new = new_gateway"
    "RouteMsgHandler sample_env (\<lambda>_ _ _. Some) m1 (t', h') = Some (t1, h')"
    "RouteMsgHandler sample_env (\<lambda>_ _ _. Some) m2 (t1, h') = Some (t2, h')"
    "GetDefaultRoute t2 2 kFamilyIPv4 = Some new" "table_of t2 2 = [sample_host] @ [] @ [new]"
    by (elim exE conjE)
  with set show ?thesis by (intro exI conjI) simp_all
qed

subsection \<open>Metrics\<close>

text \<open>What is sent for the default route of one family: nothing, or the new route and then the removal of the old.\<close>

definition metric_requests :: "rtnl_env \<Rightarrow> u32 \<Rightarrow> u32 \<Rightarrow> u32 \<Rightarrow> route_entry option \<Rightarrow> byte_string list" where
  "metric_requests E i metric s found =
     (case found of
        None \<Rightarrow> []
      | Some e \<Rightarrow> if te_metric e = metric then []
                  else [route_bytes E i (e\<lparr>te_metric := metric\<rparr>) kModeAdd (NLM_F_CREATE OR NLM_F_REPLACE) s,
                        route_bytes E i e kModeDelete 0 (s + 1)])"

lemma ReplaceMetric_effect:
  assumes "ReplaceMetric E i j metric (t, h) = (t', h')" "j < length (table_of t i)"
  shows "t' = set_table i ((table_of t i)[j := (table_of t i ! j)\<lparr>te_metric := metric\<rparr>]) t"
    "rh_sent h' = rh_sent h @
      [route_bytes E i ((table_of t i ! j)\<lparr>te_metric := metric\<rparr>) kModeAdd (NLM_F_CREATE OR NLM_F_REPLACE) (rh_request_sequence h),
       route_bytes E i (table_of t i ! j) kModeDelete 0 (rh_request_sequence h + 1)]"
    "rh_request_sequence h' = rh_request_sequence h + 2"
  using assms
    ApplyRoute_sent(1,2) [of kModeAdd E i "(table_of t i ! j)\<lparr>te_metric := metric\<rparr>" "NLM_F_CREATE OR NLM_F_REPLACE" h]
    ApplyRoute_sent(1,2) [of kModeDelete E i "table_of t i ! j" 0
      "snd (ApplyRoute E i ((table_of t i ! j)\<lparr>te_metric := metric\<rparr>) kModeAdd (NLM_F_CREATE OR NLM_F_REPLACE) h)"]
  by (auto simp: ReplaceMetric_def Let_def case_prod_unfold)

text \<open>The default entry of a family with a new metric; everything else stays.\<close>

definition with_metric :: "u32 \<Rightarrow> family \<Rightarrow> route_entry list \<Rightarrow> route_entry list" where
  "with_metric metric fam es =
     (case find_default fam es of None \<Rightarrow> es | Some j \<Rightarrow> es[j := (es ! j)\<lparr>te_metric := metric\<rparr>])"

lemma SetDefaultMetric_family_effect:
  assumes "SetDefaultMetric_family E i metric fam (t, h) = (t', h')"
  shows "table_of t' i = with_metric metric fam (table_of t i)" "\<And>j. j \<noteq> i \<Longrightarrow> table_of t' j = table_of t j"
    "rh_sent h' = rh_sent h @ metric_requests E i metric (rh_request_sequence h) (GetDefaultRoute t i fam)"
    "rh_request_sequence h' = rh_request_sequence h +
       of_nat (length (metric_requests E i metric (rh_request_sequence h) (GetDefaultRoute t i fam)))"
proof -
  have "table_of t' i = with_metric metric fam (table_of t i) \<and> (\<forall>j. j \<noteq> i \<longrightarrow> table_of t' j = table_of t j) \<and>
    rh_sent h' = rh_sent h @ metric_requests E i metric (rh_request_sequence h) (GetDefaultRoute t i fam) \<and>
    rh_request_sequence h' = rh_request_sequence h +
       of_nat (length (metric_requests E i metric (rh_request_sequence h) (GetDefaultRoute t i fam)))"
  proof (cases "find_default fam (table_of t i)")
    case None
    then show ?thesis using assms
      by (simp add: SetDefaultMetric_family_def GetDefaultRouteInternal_table GetDefaultRoute_table with_metric_def
          metric_requests_def)
  next
    case (Some j)
    let ?e = "table_of t i ! j"
    show ?thesis
    proof (cases "te_metric ?e = metric")
      case True
      then have same: "?e\<lparr>te_metric := metric\<rparr> = ?e" by (cases ?e) simp
      have "with_metric metric fam (table_of t i) = table_of t i"
        unfolding with_metric_def Some option.case same by simp
      with True Some show ?thesis using assms
        by (auto simp: SetDefaultMetric_family_def GetDefaultRouteInternal_table GetDefaultRoute_table
            metric_requests_def)
    next
      case False
      with Some assms have "ReplaceMetric E i j metric (t, h) = (t', h')"
        by (simp add: SetDefaultMetric_family_def GetDefaultRouteInternal_table)
      from ReplaceMetric_effect [OF this find_default_Some(1) [OF Some]] False Some show ?thesis
        by (simp add: with_metric_def metric_requests_def GetDefaultRoute_table)
    qed
  qed
  then show "table_of t' i = with_metric metric fam (table_of t i)" "\<And>j. j \<noteq> i \<Longrightarrow> table_of t' j = table_of t j"
    "rh_sent h' = rh_sent h @ metric_requests E i metric (rh_request_sequence h) (GetDefaultRoute t i fam)"
    "rh_request_sequence h' = rh_request_sequence h +
       of_nat (length (metric_requests E i metric (rh_request_sequence h) (GetDefaultRoute t i fam)))"
    by blast+
qed

lemma find_default_with_metric: "find_default fam' (with_metric metric fam es) = find_default fam' es"
proof (cases "find_default fam es")
  case (Some j)
  have "find_default fam' (es[j := (es ! j)\<lparr>te_metric := metric\<rparr>]) = find_default fam' es" if "j < length es" for j
    using that by (induction es arbitrary: j) (auto split: nat.split)
  with find_default_Some(1) [OF Some] Some show ?thesis by (simp add: with_metric_def)
qed (simp add: with_metric_def)

lemma with_metric_other:
  assumes "find_default fam' es = Some k" "fam' \<noteq> fam"
  shows "with_metric metric fam es ! k = es ! k"
proof (cases "find_default fam es")
  case (Some j)
  with assms find_default_Some(2) [OF Some] find_default_Some(2) [OF assms(1)] have "j \<noteq> k" by auto
  with Some show ?thesis by (simp add: with_metric_def)
qed (simp add: with_metric_def)

lemma with_metric_here: "find_default fam es = Some k \<Longrightarrow> with_metric metric fam es ! k = (es ! k)\<lparr>te_metric := metric\<rparr>"
  using find_default_Some(1) by (fastforce simp: with_metric_def)

text \<open>
  \<open>SetDefaultMetric\<close> gives the default routes of both families of the interface the new metric and
  changes nothing else in any table; for each one whose metric differs it sends the route with the new metric
  before it deletes the old one, so that the interface is never without a default route, and it sends nothing
  for a route that has the metric already.
\<close>

theorem SetDefaultMetric_effect:
  assumes "SetDefaultMetric E i metric (t, h) = (t', h')"
  shows "table_of t' i = with_metric metric kFamilyIPv6 (with_metric metric kFamilyIPv4 (table_of t i)) \<and>
    (\<forall>fam \<in> {kFamilyIPv4, kFamilyIPv6}.
       GetDefaultRoute t' i fam = map_option (te_metric_update (\<lambda>_. metric)) (GetDefaultRoute t i fam)) \<and>
    (\<forall>j. j \<noteq> i \<longrightarrow> table_of t' j = table_of t j) \<and>
    (\<exists>s. rh_sent h' = rh_sent h @
       metric_requests E i metric (rh_request_sequence h) (GetDefaultRoute t i kFamilyIPv4) @
       metric_requests E i metric s (GetDefaultRoute t i kFamilyIPv6))"
proof -
  have fams: "kFamilyIPv4 \<noteq> kFamilyIPv6" by (simp add: family_consts)
  obtain t1 h1 where s1: "SetDefaultMetric_family E i metric kFamilyIPv4 (t, h) = (t1, h1)" by fastforce
  then have s2: "SetDefaultMetric_family E i metric kFamilyIPv6 (t1, h1) = (t', h')"
    using assms by (simp add: SetDefaultMetric_def)
  note e1 = SetDefaultMetric_family_effect [OF s1] and e2 = SetDefaultMetric_family_effect [OF s2]
  have v6: "GetDefaultRoute t1 i kFamilyIPv6 = GetDefaultRoute t i kFamilyIPv6"
    using fams with_metric_other [of kFamilyIPv6 "table_of t i" _ kFamilyIPv4 metric]
    by (auto simp: GetDefaultRoute_table e1(1) find_default_with_metric intro!: map_option_cong)
  have "GetDefaultRoute t' i fam = map_option (te_metric_update (\<lambda>_. metric)) (GetDefaultRoute t i fam)"
    if "fam \<in> {kFamilyIPv4, kFamilyIPv6}" for fam
  proof (cases "find_default fam (table_of t i)")
    case (Some k)
    let ?es = "with_metric metric kFamilyIPv4 (table_of t i)"
    have found: "find_default fam ?es = Some k" by (simp add: find_default_with_metric Some)
    have "with_metric metric kFamilyIPv6 ?es ! k = (table_of t i ! k)\<lparr>te_metric := metric\<rparr>"
    proof (cases "fam = kFamilyIPv4")
      case True
      then show ?thesis using with_metric_other [OF found, of kFamilyIPv6 metric] fams with_metric_here [of fam] Some by simp
    next
      case False
      with that have "fam = kFamilyIPv6" by simp
      then show ?thesis using with_metric_here [of fam ?es k metric] found with_metric_other [OF Some, of kFamilyIPv4 metric] fams
        by simp
    qed
    then show ?thesis by (simp add: GetDefaultRoute_table e2(1) e1(1) find_default_with_metric Some)
  qed (simp add: GetDefaultRoute_table e2(1) e1(1) find_default_with_metric)
  then show ?thesis using e1 e2 by (auto simp: v6)
qed

lemma SetDefaultMetric_effect_witness:
  "\<exists>t' h'. SetDefaultMetric sample_env 2 77 (sample_table, RTNLHandler_new) = (t', h') \<and>
    GetDefaultRoute t' 2 kFamilyIPv4 = Some (sample_default\<lparr>te_metric := 77\<rparr>) \<and> length (rh_sent h') = 2"
proof -
  obtain t' h' where s: "SetDefaultMetric sample_env 2 77 (sample_table, RTNLHandler_new) = (t', h')" by fastforce
  have "table_of sample_table 2 = [sample_host, sample_default]" by (simp add: sample_table_def)
  moreover have "\<not> IsDefault (te_dst sample_host)"
    by (simp add: sample_host_def RoutingTableEntry_new_def IPAddress_prefix_def IsDefault_def)
  ultimately have "GetDefaultRoute sample_table 2 kFamilyIPv4 = Some sample_default"
      "GetDefaultRoute sample_table 2 kFamilyIPv6 = None" "te_metric sample_default \<noteq> 77"
    by (simp_all add: GetDefaultRoute_table sample_default_def RoutingTableEntry_new_def family_consts)
  with SetDefaultMetric_effect [OF s] s show ?thesis
    by (auto simp: metric_requests_def RTNLHandler_new_def)
qed

subsection \<open>Flushing\<close>

text \<open>The deletions sent for a list of entries.\<close>

fun delete_requests :: "rtnl_env \<Rightarrow> u32 \<Rightarrow> (u32 \<times> route_entry) list \<Rightarrow> byte_string list" where
  "delete_requests E s [] = []"
| "delete_requests E s ((i, e) # ies) = route_bytes E i e kModeDelete 0 s # delete_requests E (s + 1) ies"

lemma delete_route_sent:
  "rh_sent (delete_route E i e h) = rh_sent h @ [route_bytes E i e kModeDelete 0 (rh_request_sequence h)]"
  "rh_request_sequence (delete_route E i e h) = rh_request_sequence h + 1"
  using ApplyRoute_sent(1,2) [of kModeDelete E i e 0 h] by (simp_all add: delete_route_def)

definition delete_all :: "rtnl_env \<Rightarrow> (u32 \<times> route_entry) list \<Rightarrow> rtnl_handler \<Rightarrow> rtnl_handler" where
  "delete_all E ies = fold (\<lambda>(i, e). delete_route E i e) ies"

lemma delete_all_sent: "rh_sent (delete_all E ies h) = rh_sent h @ delete_requests E (rh_request_sequence h) ies"
  by (induction ies arbitrary: h) (auto simp: delete_all_def delete_route_sent)

lemma delete_all_append: "delete_all E (xs @ ys) h = delete_all E ys (delete_all E xs h)"
  by (simp add: delete_all_def)

lemma fold_delete_route: "fold (delete_route E i) es h = delete_all E (map (Pair i) es) h"
  by (induction es arbitrary: h) (simp_all add: delete_all_def)

lemma flush_tag_eq:
  "flush_tag E tag i es h = (filter (\<lambda>e. te_tag e \<noteq> tag) es, delete_all E (map (Pair i) (filter (\<lambda>e. te_tag e = tag) es)) h)"
  by (induction es arbitrary: h) (simp_all add: delete_all_def Let_def)

definition tagged :: "int \<Rightarrow> routing_table \<Rightarrow> (u32 \<times> route_entry) list" where
  "tagged tag t = concat (map (\<lambda>(i, es). map (Pair i) (filter (\<lambda>e. te_tag e = tag) es)) (tb_tables t))"

lemma flush_tag_tables_eq:
  "flush_tag_tables E tag tables h =
     (map (\<lambda>(i, es). (i, filter (\<lambda>e. te_tag e \<noteq> tag) es)) tables,
      delete_all E (concat (map (\<lambda>(i, es). map (Pair i) (filter (\<lambda>e. te_tag e = tag) es)) tables)) h)"
  by (induction E tag tables h rule: flush_tag_tables.induct)
    (simp_all add: flush_tag_eq Let_def delete_all_append, simp add: delete_all_def)

lemma map_of_map_snd: "map_of (map (\<lambda>(k, v). (k, f v)) xs) k = map_option f (map_of xs k)"
  by (induction xs) auto

lemma FlushRoutes_effect:
  assumes "FlushRoutes E i (t, h) = (t', h')"
  shows "table_of t' i = []" "\<And>j. j \<noteq> i \<Longrightarrow> table_of t' j = table_of t j" "tb_route_queries t' = tb_route_queries t"
    "rh_sent h' = rh_sent h @ delete_requests E (rh_request_sequence h) (map (Pair i) (table_of t i))"
proof -
  have "table_of t' i = [] \<and> (\<forall>j. j \<noteq> i \<longrightarrow> table_of t' j = table_of t j) \<and> tb_route_queries t' = tb_route_queries t \<and>
    rh_sent h' = rh_sent h @ delete_requests E (rh_request_sequence h) (map (Pair i) (table_of t i))"
  proof (cases "map_of (tb_tables t) i")
    case None
    then show ?thesis using assms by (auto simp: FlushRoutes_def table_of_def)
  next
    case (Some es)
    then have "t' = set_table i [] t" "h' = delete_all E (map (Pair i) (table_of t i)) h"
      using assms by (auto simp: FlushRoutes_def table_of_def fold_delete_route)
    then show ?thesis by (simp add: delete_all_sent)
  qed
  then show "table_of t' i = []" "\<And>j. j \<noteq> i \<Longrightarrow> table_of t' j = table_of t j" "tb_route_queries t' = tb_route_queries t"
    "rh_sent h' = rh_sent h @ delete_requests E (rh_request_sequence h) (map (Pair i) (table_of t i))" by blast+
qed

lemma FlushRoutesWithTag_effect:
  assumes "FlushRoutesWithTag E tag (t, h) = (t', h')"
  shows "table_of t' j = filter (\<lambda>e. te_tag e \<noteq> tag) (table_of t j)" "tb_route_queries t' = tb_route_queries t"
    "rh_sent h' = rh_sent h @ delete_requests E (rh_request_sequence h) (tagged tag t)"
  using assms
  by (auto simp: FlushRoutesWithTag_def flush_tag_tables_eq tagged_def delete_all_sent table_of_def map_of_map_snd
      split: option.split)

text \<open>
  C22: flushing deletes from the kernel exactly what it removes from the tables, once each and in the order of
  the tables: \<open>FlushRoutes\<close> every entry of one interface, \<open>FlushRoutesWithTag\<close> every entry with the
  tag, of whatever interface. All other entries stay, in their order, and so do the pending queries.
\<close>

theorem Flush_exact:
  assumes "FlushRoutes E i (t, h) = (t1, h1)" "FlushRoutesWithTag E tag (t, h) = (t2, h2)"
  shows "table_of t1 i = [] \<and> (\<forall>j. j \<noteq> i \<longrightarrow> table_of t1 j = table_of t j) \<and>
    rh_sent h1 = rh_sent h @ delete_requests E (rh_request_sequence h) (map (Pair i) (table_of t i)) \<and>
    (\<forall>j. table_of t2 j = filter (\<lambda>e. te_tag e \<noteq> tag) (table_of t j)) \<and>
    rh_sent h2 = rh_sent h @ delete_requests E (rh_request_sequence h) (tagged tag t) \<and>
    tb_route_queries t1 = tb_route_queries t \<and> tb_route_queries t2 = tb_route_queries t"
  using FlushRoutes_effect [OF assms(1)] FlushRoutesWithTag_effect [OF assms(2)] by simp

lemma Flush_exact_witness:
  "\<exists>t1 h1 t2 h2. FlushRoutes sample_env 2 (sample_table, RTNLHandler_new) = (t1, h1) \<and>
    FlushRoutesWithTag sample_env 5 (sample_table, RTNLHandler_new) = (t2, h2) \<and>
    table_of t1 2 = [] \<and> length (rh_sent h1) = 2 \<and> table_of t2 2 = [sample_default] \<and> length (rh_sent h2) = 1"
proof -
  obtain t1 h1 t2 h2 where f: "FlushRoutes sample_env 2 (sample_table, RTNLHandler_new) = (t1, h1)"
    "FlushRoutesWithTag sample_env 5 (sample_table, RTNLHandler_new) = (t2, h2)" by fastforce
  have "tb_tables sample_table = [(2, [sample_host, sample_default])]"
    by (simp add: sample_table_def set_table_def RoutingTable_new_def)
  moreover have "te_tag sample_host = 5" "te_tag sample_default = -1"
    by (simp_all add: sample_host_def sample_default_def RoutingTableEntry_new_def kDefaultTag_def)
  ultimately show ?thesis using Flush_exact [OF f] f
    by (simp add: table_of_def tagged_def RTNLHandler_new_def)
qed

subsection \<open>Queries\<close>

text \<open>
  The pending queries were numbered in order, starting at some base, and fewer than 2^31 requests lie between
  the base and the next number of the handler.
\<close>

definition queries_ordered :: "u32 \<Rightarrow> u32 \<Rightarrow> route_query list \<Rightarrow> bool" where
  "queries_ordered base bound qs \<longleftrightarrow> sorted_wrt (<) (map (\<lambda>q. unat (rq_sequence q - base)) qs) \<and>
     (\<forall>q \<in> set qs. unat (rq_sequence q - base) < unat (bound - base)) \<and> unat (bound - base) \<le> 2 ^ 31"

lemma unat_diff: "unat ((x :: u32) - y) = (if unat y \<le> unat x then unat x - unat y else unat x + 2 ^ 32 - unat y)"
  by (simp add: unat_sub_if_size word_size)

lemma unat_diff_base: "unat ((a :: u32) - b) = (if unat (b - base) \<le> unat (a - base) then unat (a - base) - unat (b - base)
    else unat (a - base) + 2 ^ 32 - unat (b - base))"
proof -
  have "a - b = (a - base) - (b - base)" by simp
  then show ?thesis by (simp only: unat_diff)
qed

lemma expired_iff:
  assumes "unat (q - base) < 2 ^ 31" "unat (s - base) < 2 ^ 31"
  shows "(q :: u32) - s > 0x7fffffff \<longleftrightarrow> unat (q - base) < unat (s - base)"
proof -
  have lim: "unat (q - base) < 2147483648" "unat (s - base) < 2147483648" using assms by simp_all
  have "q - s > 0x7fffffff \<longleftrightarrow> unat (q - s) > 2147483647" by (simp add: word_less_nat_alt)
  then show ?thesis using lim unat_diff_base [of q s base] by (auto split: if_splits)
qed

lemma purge_queries_eq:
  assumes "queries_ordered base bound qs" "unat (s - base) < 2 ^ 31"
  shows "purge_queries s qs = filter (\<lambda>q. unat (s - base) \<le> unat (rq_sequence q - base)) qs"
  using assms(1)
proof (induction qs)
  case (Cons q qs)
  have q: "unat (rq_sequence q - base) < 2 ^ 31" and rest: "queries_ordered base bound qs"
    "\<forall>q' \<in> set qs. unat (rq_sequence q - base) < unat (rq_sequence q' - base)"
    using Cons.prems by (auto simp: queries_ordered_def)
  have "filter (\<lambda>q. unat (s - base) \<le> unat (rq_sequence q - base)) qs = qs" if "unat (s - base) \<le> unat (rq_sequence q - base)"
    using rest(2) that by (auto simp: filter_id_conv)
  then show ?case using Cons.IH [OF rest(1)] expired_iff [OF q assms(2)] by (simp add: not_less)
qed simp

lemma queries_ordered_suffix:
  "queries_ordered base bound (xs @ ys) \<Longrightarrow> queries_ordered base bound ys"
  by (auto simp: queries_ordered_def sorted_wrt_append)

lemma queries_ordered_find:
  assumes "queries_ordered base bound (qs1 @ q # qs2)"
  shows "purge_queries (rq_sequence q) (qs1 @ q # qs2) = q # qs2"
proof -
  have q: "unat (rq_sequence q - base) < 2 ^ 31" using assms by (auto simp: queries_ordered_def)
  have "\<forall>q' \<in> set qs1. unat (rq_sequence q' - base) < unat (rq_sequence q - base)"
    "\<forall>q' \<in> set qs2. unat (rq_sequence q - base) < unat (rq_sequence q' - base)"
    using assms by (auto simp: queries_ordered_def sorted_wrt_append)
  then show ?thesis unfolding purge_queries_eq [OF assms q]
    by (auto simp: filter_id_conv filter_empty_conv intro: less_imp_le simp flip: not_less)
qed

lemma RequestRouteToHost_effect:
  assumes "RequestRouteToHost E write_file addr i tag callback table_id (t, h) = (ok, t', h')"
  shows "rh_request_sequence h' = rh_request_sequence h + 1" "tb_tables t' = tb_tables t"
    "tb_route_queries t' = tb_route_queries t @
      (if ok then [\<lparr>rq_sequence = rh_request_sequence h, rq_tag = tag, rq_callback = callback, rq_table_id = table_id\<rparr>] else [])"
  using assms
  by (auto simp: RequestRouteToHost_def SendMessage_def SendMessageWithErrorMask_effect Let_def FlushCache_def
      sendable_def SetAttribute_def RTNLMessage_new_def split: if_splits)

lemma RequestRouteToHost_ordered:
  assumes "RequestRouteToHost E write_file addr i tag callback table_id (t, h) = (ok, t', h')"
    and "queries_ordered base (rh_request_sequence h) (tb_route_queries t)" "unat (rh_request_sequence h - base) < 2 ^ 31"
  shows "queries_ordered base (rh_request_sequence h') (tb_route_queries t')"
proof -
  have eq: "rh_request_sequence h + 1 - base = (rh_request_sequence h - base) + 1" by simp
  have "unat ((rh_request_sequence h - base) + 1) = unat (rh_request_sequence h - base) + 1"
    using assms(3) by (subst unat_word_ariths) simp
  then have "unat (rh_request_sequence h + 1 - base) = unat (rh_request_sequence h - base) + 1" by (simp only: eq)
  then show ?thesis using assms(2,3) unfolding RequestRouteToHost_effect [OF assms(1)]
    by (auto simp: queries_ordered_def sorted_wrt_append less_Suc_eq)
qed

text \<open>
  A reply to a pending query is handled exactly once: the queries before it have expired and go, the
  query itself is removed, the later ones stay, however the 32-bit sequence numbers wrap. The route is added with
  the tag and the table of its query unless it needs no gateway, and the callback runs on it if nothing failed.
\<close>

theorem route_reply_answered:
  assumes "queries_ordered base bound (tb_route_queries t)" "tb_route_queries t = qs1 @ q # qs2"
    and "rm_seq m = rq_sequence q" "rs_protocol (rm_route_status m) = RTPROT_UNSPEC"
    and "ParseRoutingTableMessage (re_endian E) m = Some (i, entry)"
    and "\<forall>cb e s. \<exists>s' new. run cb i e s = Some s' \<and> tb_route_queries (fst s') = tb_route_queries (fst s) @ new"
    and "add = entry\<lparr>te_from_rtnl := False, te_tag := rq_tag q, te_table := rq_table_id q\<rparr>"
    and "p = route_bytes E i add kModeAdd (NLM_F_CREATE OR NLM_F_EXCL) (rh_request_sequence h)"
  shows "\<exists>t' h' new. RouteMsgHandler E run m (t, h) = Some (t', h') \<and> tb_route_queries t' = qs2 @ new \<and>
    (rq_callback q = None \<longrightarrow> new = [] \<and>
      (if IsDefault (te_gateway entry) then tb_tables t' = tb_tables t \<and> h' = h
       else rh_sent h' = rh_sent h @ [p] \<and>
         table_of t' i = table_of t i @ (if re_send E (length (rh_sent h)) p then [add] else []))) \<and>
    (\<forall>cb. rq_callback q = Some cb \<longrightarrow> IsDefault (te_gateway entry) \<or> re_send E (length (rh_sent h)) p \<longrightarrow>
      (\<exists>s t1. run cb i add s = Some (t1, h') \<and> t' = t1\<lparr>tb_route_queries := tl (tb_route_queries t1)\<rparr>))"
proof -
  let ?t = "t\<lparr>tb_route_queries := q # qs2\<rparr>"
  define plumb where "plumb = (if IsDefault (te_gateway add) then Some (True, ?t, h) else AddRoute E i add (?t, h))"
  have "purge_queries (rm_seq m) (tb_route_queries t) = q # qs2"
    using queries_ordered_find [of base bound qs1 q qs2] assms(1-3) by simp
  then have handler: "RouteMsgHandler E run m (t, h) = do {
      (added, s) \<leftarrow> plumb;
      (t, h) \<leftarrow> (case rq_callback q of Some cb \<Rightarrow> if added then run cb i add s else Some s | None \<Rightarrow> Some s);
      Some (t\<lparr>tb_route_queries := tl (tb_route_queries t)\<rparr>, h) }"
    using assms(2-5) by (simp add: RouteMsgHandler_def answer_query_def plumb_def Let_def flip: assms(7))
  let ?ok = "IsDefault (te_gateway entry) \<or> re_send E (length (rh_sent h)) p"
  obtain t1 h1 where p1: "plumb = Some (?ok, t1, h1)" "tb_route_queries t1 = q # qs2"
    "IsDefault (te_gateway entry) \<Longrightarrow> tb_tables t1 = tb_tables t \<and> h1 = h"
    "\<not> IsDefault (te_gateway entry) \<Longrightarrow> rh_sent h1 = rh_sent h @ [p] \<and> table_of t1 i = table_of t i @ (if ?ok then [add] else [])"
  proof (cases "IsDefault (te_gateway entry)")
    case True
    then show thesis using that [of ?t h] by (simp add: plumb_def assms(7))
  next
    case False
    obtain ok h1 where ap: "ApplyRoute E i add kModeAdd (NLM_F_CREATE OR NLM_F_EXCL) h = (ok, h1)" by fastforce
    then have sent: "ok = re_send E (length (rh_sent h)) p" "rh_sent h1 = rh_sent h @ [p]"
      using ApplyRoute_sent [of kModeAdd E i add "NLM_F_CREATE OR NLM_F_EXCL" h] by (simp_all add: assms(8))
    have table: "table_of ?t i = table_of t i" by (simp add: table_of_def)
    show thesis
      using that [of "if ok then set_table i (table_of ?t i @ [add]) ?t else ?t" h1] False sent ap
      by (simp add: plumb_def AddRoute_def assms(7) table)
  qed
  show ?thesis
  proof (cases "rq_callback q")
    case None
    then show ?thesis using p1 by (auto simp: handler table_of_def)
  next
    case (Some cb)
    obtain t2 h2 new where run: "run cb i add (t1, h1) = Some (t2, h2)" "tb_route_queries t2 = q # qs2 @ new"
      using assms(6) p1(2) by (metis append_Cons fst_conv prod.exhaust)
    show ?thesis
    proof (cases ?ok)
      case True
      let ?t' = "t2\<lparr>tb_route_queries := tl (tb_route_queries t2)\<rparr>"
      have "RouteMsgHandler E run m (t, h) = Some (?t', h2)"
        using True p1(1) run Some by (simp add: handler)
      moreover have "\<exists>s t1. run cb i add s = Some (t1, h2) \<and> ?t' = t1\<lparr>tb_route_queries := tl (tb_route_queries t1)\<rparr>"
        using run(1) by blast
      ultimately show ?thesis using run(2) Some by (intro exI [of _ ?t'] exI [of _ h2] exI [of _ new]) simp
    next
      case False
      then show ?thesis using p1(1,2) Some by (auto simp: handler)
    qed
  qed
qed

text \<open>Two queries around the wrap of the sequence numbers, and a reply to the second.\<close>

definition sample_queries :: routing_table where
  "sample_queries = RoutingTable_new\<lparr>tb_route_queries :=
     [\<lparr>rq_sequence = 0xffffffff, rq_tag = 4, rq_callback = None, rq_table_id = 254\<rparr>,
      \<lparr>rq_sequence = 0, rq_tag = 5, rq_callback = None, rq_table_id = 254\<rparr>]\<rparr>"

definition sample_reply :: rtnl_message where
  "sample_reply = SetAttribute (SetAttribute (SetAttribute
     ((RTNLMessage_new kTypeRoute kModeAdd 0 0 0 0 kFamilyIPv4)
       \<lparr>rm_route_status := RouteStatus_new\<lparr>rs_dst_prefix := 32, rs_type := RTN_UNICAST\<rparr>\<rparr>)
     RTA_DST [10, 1, 1, 1]) RTA_GATEWAY [10, 0, 0, 1]) RTA_OIF [2, 0, 0, 0]"

lemma sample_reply_parsed:
  "\<exists>entry. ParseRoutingTableMessage LittleEndian sample_reply = Some (2, entry) \<and> \<not> IsDefault (te_gateway entry)"
  by (simp add: sample_reply_def ParseRoutingTableMessage_def HasAttribute_def GetAttribute_def SetAttribute_def
      RTNLMessage_new_def rta_defs RouteStatus_new_def ConvertToCPUUInt32_def GetLength_def load32_def
      IPAddress_bytes_def IsDefault_def family_consts Let_def)

lemma route_reply_answered_witness:
  "\<exists>t' h' e. RouteMsgHandler sample_env (\<lambda>_ _ _. Some) sample_reply (sample_queries, RTNLHandler_new) = Some (t', h') \<and>
     tb_route_queries t' = [] \<and> table_of t' 2 = [e] \<and> te_tag e = 5"
proof -
  obtain entry where parsed: "ParseRoutingTableMessage (re_endian sample_env) sample_reply = Some (2, entry)"
      "\<not> IsDefault (te_gateway entry)"
    using sample_reply_parsed by (auto simp: sample_env_def)
  let ?q1 = "\<lparr>rq_sequence = 0xffffffff :: u32, rq_tag = 4 :: int, rq_callback = None :: nat option, rq_table_id = 254 :: u8\<rparr>"
  let ?q2 = "\<lparr>rq_sequence = 0 :: u32, rq_tag = 5 :: int, rq_callback = None :: nat option, rq_table_id = 254 :: u8\<rparr>"
  have queries: "tb_route_queries sample_queries = [?q1] @ ?q2 # []" by (simp add: sample_queries_def)
  have ordered: "queries_ordered 0xffffffff 1 (tb_route_queries sample_queries)"
    by (simp add: queries queries_ordered_def)
  have m: "rm_seq sample_reply = rq_sequence ?q2" "rs_protocol (rm_route_status sample_reply) = RTPROT_UNSPEC"
    by (simp_all add: sample_reply_def SetAttribute_def RTNLMessage_new_def RouteStatus_new_def RTPROT_UNSPEC_def)
  have run: "\<forall>cb e s. \<exists>s' new. Some s = Some s' \<and> tb_route_queries (fst s') = tb_route_queries (fst s) @ new"
    by simp
  have empty: "table_of sample_queries 2 = []" by (simp add: table_of_def sample_queries_def RoutingTable_new_def)
  let ?run = "(\<lambda>_ _ _. Some) :: query_runner"
  from route_reply_answered [OF ordered queries m parsed(1), of ?run, OF run refl refl, of RTNLHandler_new]
  show ?thesis using parsed(2) by (auto simp: empty sample_env_def)
qed

subsection \<open>A source address left empty\<close>

text \<open>
  \<open>ConfigureRoutes\<close> leaves the source of its entries without an address, where every other caller sets it
  to zeros. The request is the same, but the entry differs from the one the kernel announces, so the
  announcement is not recognised and the route is in the table twice.
\<close>

lemma route_message_empty_source:
  assumes "te_src e = IPAddress_family fam" "fam = family (te_dst e)"
  shows "route_message en i e md flags = route_message en i (e\<lparr>te_src := default_address fam\<rparr>) md flags"
proof -
  have "IsDefault (IPAddress_family fam)" by (simp add: IPAddress_family_def IsDefault_def)
  then show ?thesis using assms
    by (simp add: route_message_def Let_def) (simp add: IPAddress_family_def default_address_def SetAddressToDefault_def)
qed

lemma ConfigureRoutes_echo_duplicates:
  assumes "map_order (re_order E)" "te_src e = IPAddress_family fam" "fam = family (te_dst e)"
    and "route_ok (e\<lparr>te_src := default_address fam\<rparr>)" "table_of t i = [e]"
  shows "\<exists>e' t'. RouteMsgHandler E run (route_echo E i e kModeAdd flags s) (t, h) = Some (t', h) \<and> table_of t' i = [e, e']"
proof -
  let ?e = "e\<lparr>te_src := default_address fam\<rparr>"
  have "route_echo E i e kModeAdd flags s = route_echo E i ?e kModeAdd flags s"
    by (simp add: route_echo_def route_message_empty_source [OF assms(2,3)])
  moreover have "IPAddress_family fam \<noteq> default_address fam"
    using assms(4) by (auto simp: route_ok_def Let_def IPAddress_family_def default_address_def SetAddressToDefault_def
        GetAddressLength_def)
  then have "update_table kModeAdd (?e\<lparr>te_from_rtnl := True, te_tag := kDefaultTag\<rparr>) [e] =
      [e, ?e\<lparr>te_from_rtnl := True, te_tag := kDefaultTag\<rparr>]"
    using assms(2) by (simp add: same_route_def)
  ultimately show ?thesis using RouteMsgHandler_echo [OF assms(1,4), of run i kModeAdd flags s t h] assms(5) by simp
qed

end
