(* ===== verification/Connection_Proofs.thy ===== *)
theory Connection_Proofs
  imports Connection Routing_Proofs
begin

text \<open>
  Properties of connections: everything bound to a connection, directly or through other connections, is told
  once when it goes, even around a loop; and the search for the carrier of a connection ends and finds it.
\<close>

subsection \<open>The graph of bindings\<close>

definition known :: "conn_world \<Rightarrow> nat \<Rightarrow> bool" where
  "known w c \<longleftrightarrow> map_of (cw_connections w) c \<noteq> None"

lemma map_of_map_entry: "map_of (AList.map_entry c f xs) k = (if k = c then map_option f (map_of xs c) else map_of xs k)"
  by (induction xs) auto

lemma conn_upd_conn: "conn (upd_conn c f w) x = (if x = c \<and> known w c then f (conn w c) else conn w x)"
  by (auto simp: conn_def upd_conn_def known_def map_of_map_entry split: option.split)

lemma known_upd_conn [simp]: "known (upd_conn c f w) x = known w x"
  by (auto simp: known_def upd_conn_def map_of_map_entry)

lemma unknown_conn: "\<not> known w c \<Longrightarrow> conn w c = Connection_new 0"
  by (simp add: conn_def known_def)

lemma bound_upd_conn:
  assumes "\<And>x. cn_lower (f x) = cn_lower x" shows "bound (upd_conn c f w) = bound w"
proof
  fix b show "bound (upd_conn c f w) b = bound w b"
    using assms by (cases b) (simp_all add: bound_def conn_upd_conn, simp add: upd_conn_def)
qed

lemma conn_clients [simp]: "conn (w\<lparr>cw_clients := cl\<rparr>) c = conn w c"
  by (simp add: conn_def)

lemma bound_set_bound_None: "bound (set_bound b None w) = (bound w)(b := None)"
proof
  fix x
  have unknown: "cn_lower (conn w c) = None" if "\<not> known w c" for c
    using unknown_conn [OF that] by (simp add: Connection_new_def)
  show "bound (set_bound b None w) x = ((bound w)(b := None)) x"
  proof (cases b)
    case (LowerBinder c)
    then show ?thesis using unknown [of c]
      by (cases x) (auto simp: bound_def set_bound_def conn_upd_conn, auto simp: upd_conn_def)
  next
    case (ClientBinder n)
    then show ?thesis by (cases x) (auto simp: bound_def set_bound_def delete_conv')
  qed
qed

lemma binders_set_bound [simp]: "cn_binders (conn (set_bound b t w) x) = cn_binders (conn w x)"
  by (simp add: set_bound_def conn_upd_conn split: conn_binder.split)

text \<open>The queues and the binders agree.\<close>

definition bind_inv :: "conn_world \<Rightarrow> bool" where
  "bind_inv w \<longleftrightarrow> (\<forall>c. distinct (cn_binders (conn w c)) \<and>
     (\<forall>b. b \<in> set (cn_binders (conn w c)) \<longleftrightarrow> bound w b = Some c))"

definition pop_binder :: "nat \<Rightarrow> conn_binder \<Rightarrow> conn_binder list \<Rightarrow> conn_world \<Rightarrow> conn_world" where
  "pop_binder c b bs w = set_bound b None (upd_conn c (cn_binders_update (\<lambda>_. bs)) w)"

lemma bound_pop: "bound (pop_binder c b bs w) = (bound w)(b := None)"
  by (simp add: pop_binder_def bound_set_bound_None bound_upd_conn)

lemma bind_inv_pop:
  assumes "bind_inv w" "cn_binders (conn w c) = b # bs" shows "bind_inv (pop_binder c b bs w)"
proof -
  have k: "known w c" using assms(2) unknown_conn by (fastforce simp: Connection_new_def)
  then have q: "cn_binders (conn (pop_binder c b bs w) x) = (if x = c then bs else cn_binders (conn w x))" for x
    by (simp add: pop_binder_def conn_upd_conn)
  have inv: "distinct (cn_binders (conn w x))" "y \<in> set (cn_binders (conn w x)) \<longleftrightarrow> bound w y = Some x" for x y
    using assms(1) by (auto simp: bind_inv_def)
  show ?thesis unfolding bind_inv_def
  proof (intro allI conjI)
    fix x y
    show "distinct (cn_binders (conn (pop_binder c b bs w) x))"
      using inv(1) [of x] inv(1) [of c] assms(2) by (simp add: q)
    show "y \<in> set (cn_binders (conn (pop_binder c b bs w) x)) \<longleftrightarrow> bound (pop_binder c b bs w) y = Some x"
      using inv(2) [of y x] inv(2) [of b x] inv(2) [of b c] inv(1) [of c] assms(2) by (auto simp: q bound_pop)
  qed
qed

lemma emit_conn [simp]: "conn (emit ev w) c = conn w c" "bound (emit ev w) = bound w"
proof -
  show c: "conn (emit ev w) c = conn w c" for c by (simp add: emit_def conn_def)
  show "bound (emit ev w) = bound w"
    by (rule ext) (simp add: bound_def c split: conn_binder.split, simp add: emit_def)
qed

lemma known_clients [simp]: "known (w\<lparr>cw_clients := cl\<rparr>) c = known w c"
  by (simp add: known_def)

lemma bind_inv_emit [simp]: "bind_inv (emit ev w) = bind_inv w"
  by (simp add: bind_inv_def)

lemma attach_unbound [simp]: "bound w b = None \<Longrightarrow> Binder_Attach b None w = w"
  by (simp add: Binder_Attach_def)

lemma detach_effect:
  assumes "bind_inv w"
  shows "bound (Binder_Attach b None w) = (bound w)(b := None)" "bind_inv (Binder_Attach b None w)"
    "cw_events (Binder_Attach b None w) = cw_events w"
proof -
  have "bound (Binder_Attach b None w) = (bound w)(b := None) \<and> bind_inv (Binder_Attach b None w) \<and>
    cw_events (Binder_Attach b None w) = cw_events w"
  proof (cases "bound w b")
    case None
    then show ?thesis using assms by (auto simp: fun_upd_idem)
  next
    case (Some c)
    let ?w = "set_bound b None (DetachBinder c b w)"
    have eq: "Binder_Attach b None w = ?w" using Some by (simp add: Binder_Attach_def Let_def)
    have bd: "bound ?w = (bound w)(b := None)"
      by (simp add: bound_set_bound_None DetachBinder_def bound_upd_conn)
    have "b \<in> set (cn_binders (conn w c))" using assms Some by (simp add: bind_inv_def)
    then have "known w c" using unknown_conn by (fastforce simp: Connection_new_def)
    then have q: "cn_binders (conn ?w x) = (if x = c then remove1 b (cn_binders (conn w c)) else cn_binders (conn w x))" for x
      by (simp add: DetachBinder_def conn_upd_conn)
    have "bind_inv ?w" using assms Some unfolding bind_inv_def q bd
      by (auto simp: set_remove1_eq)
    moreover have "cw_events ?w = cw_events w"
      by (simp add: set_bound_def DetachBinder_def upd_conn_def split: conn_binder.split)
    ultimately show ?thesis using bd eq by simp
  qed
  then show "bound (Binder_Attach b None w) = (bound w)(b := None)" "bind_inv (Binder_Attach b None w)"
    "cw_events (Binder_Attach b None w) = cw_events w" by blast+
qed

text \<open>The connections that run over \<open>c\<close>, directly or not, in a given assignment of binders.\<close>

definition over :: "(conn_binder \<Rightarrow> nat option) \<Rightarrow> (nat \<times> nat) set" where
  "over B = {(x, y). B (LowerBinder x) = Some y}"

definition above :: "(conn_binder \<Rightarrow> nat option) \<Rightarrow> nat \<Rightarrow> nat set" where
  "above B c = {y. (y, c) \<in> (over B)\<^sup>*}"

definition cut :: "nat set \<Rightarrow> (conn_binder \<Rightarrow> nat option) \<Rightarrow> conn_binder \<Rightarrow> nat option" where
  "cut A B b = (case B b of Some y \<Rightarrow> if y \<in> A then None else Some y | None \<Rightarrow> None)"

lemma above_refl [simp]: "c \<in> above B c"
  by (simp add: above_def)

lemma above_mono: "over B \<subseteq> over B' \<Longrightarrow> above B c \<subseteq> above B' c"
  using rtrancl_mono by (auto simp: above_def)

lemma above_step: "B (LowerBinder x) = Some y \<Longrightarrow> y \<in> above B c \<Longrightarrow> x \<in> above B c"
  by (auto simp: above_def over_def intro: converse_rtrancl_into_rtrancl)

lemma above_split:
  assumes "B (LowerBinder c') = Some c"
  defines "B1 \<equiv> B(LowerBinder c' := None)"
  defines "B2 \<equiv> cut (above B1 c') B1"
  shows "above B c = above B1 c' \<union> above B2 c"
proof
  have "over B1 \<subseteq> over B" by (auto simp: over_def B1_def split: if_splits)
  moreover have "over B2 \<subseteq> over B1" by (auto simp: over_def B2_def cut_def split: option.splits if_splits)
  moreover have "above B c' \<subseteq> above B c"
    using assms(1) by (auto simp: above_def over_def intro: rtrancl_into_rtrancl)
  ultimately show "above B1 c' \<union> above B2 c \<subseteq> above B c"
    using above_mono [of B1 B] above_mono [of B2 B] by blast
  show "above B c \<subseteq> above B1 c' \<union> above B2 c"
  proof
    fix y assume "y \<in> above B c"
    then have "(y, c) \<in> (over B)\<^sup>*" by (simp add: above_def)
    then show "y \<in> above B1 c' \<union> above B2 c"
    proof (induction rule: converse_rtrancl_induct)
      case (step y z)
      show ?case
      proof (cases "y = c'")
        case False
        with step(1) have edge: "B1 (LowerBinder y) = Some z" by (simp add: over_def B1_def)
        show ?thesis
        proof (cases "z \<in> above B1 c'")
          case True
          with edge show ?thesis using above_step by blast
        next
          case out: False
          with edge have "B2 (LowerBinder y) = Some z" by (simp add: B2_def cut_def)
          moreover have "z \<in> above B2 c" using step(3) out by blast
          ultimately show ?thesis using above_step by blast
        qed
      qed simp
    qed simp
  qed
qed

lemma cut_split:
  assumes "B (LowerBinder c') = Some c"
  defines "B1 \<equiv> B(LowerBinder c' := None)"
  defines "B2 \<equiv> cut (above B1 c') B1"
  shows "cut (above B2 c) B2 = cut (above B c) B"
proof
  fix b
  have "c \<in> above B c" by simp
  then show "cut (above B2 c) B2 b = cut (above B c) B b"
    using above_split [of B c' c, OF assms(1)] assms(1)
    by (cases "b = LowerBinder c'") (auto simp: cut_def B1_def B2_def split: option.splits)
qed

lemma above_client: "above (B(ClientBinder n := None)) c = above B c"
  by (simp add: above_def over_def)

definition clients_of :: "nat set \<Rightarrow> (conn_binder \<Rightarrow> nat option) \<Rightarrow> nat set" where
  "clients_of A B = {n. \<exists>y \<in> A. B (ClientBinder n) = Some y}"

definition notified :: "conn_world \<Rightarrow> conn_world \<Rightarrow> nat set \<Rightarrow> bool" where
  "notified w w' N \<longleftrightarrow> (\<exists>ns. cw_events w' = cw_events w @ map ClientDisconnected ns \<and> distinct ns \<and> set ns = N)"

lemma notified_trans:
  assumes "notified w1 w2 N" "notified w2 w3 M" "N \<inter> M = {}" shows "notified w1 w3 (N \<union> M)"
proof -
  obtain ns ms where "cw_events w2 = cw_events w1 @ map ClientDisconnected ns" "distinct ns" "set ns = N"
    "cw_events w3 = cw_events w2 @ map ClientDisconnected ms" "distinct ms" "set ms = M"
    using assms(1,2) by (auto simp: notified_def)
  with assms(3) show ?thesis unfolding notified_def by (intro exI [of _ "ns @ ms"]) auto
qed

lemma cw_events_pop [simp]: "cw_events (pop_binder c b bs w) = cw_events w"
  by (simp add: pop_binder_def set_bound_def upd_conn_def split: conn_binder.split)

lemma notify_loop_effect:
  assumes "bind_inv w"
  shows "bind_inv (notify_loop c w) \<and> bound (notify_loop c w) = cut (above (bound w) c) (bound w) \<and>
    notified w (notify_loop c w) (clients_of (above (bound w) c) (bound w))"
  using assms
proof (induction c w rule: notify_loop.induct)
  case (1 c w)
  let ?B = "bound w"
  show ?case
  proof (cases "cn_binders (conn w c)")
    case Nil
    then have none: "?B b \<noteq> Some c" for b
      using 1(4) by (metis bind_inv_def empty_iff list.set(1))
    then have "above ?B c = {c}"
      by (auto simp: above_def over_def elim: converse_rtranclE rtranclE)
    then show ?thesis using Nil 1(4) none
      by (auto simp: notify_loop.simps notified_def clients_of_def cut_def fun_eq_iff split: option.split)
  next
    case (Cons b bs)
    let ?w = "pop_binder c b bs w"
    have inv: "bind_inv ?w" and bd: "bound ?w = ?B(b := None)"
      using bind_inv_pop [OF 1(4) Cons] by (simp_all add: bound_pop)
    have b: "?B b = Some c" using 1(4) Cons by (simp add: bind_inv_def) (metis list.set_intros(1))
    show ?thesis
    proof (cases b)
      case (ClientBinder n)
      let ?w1 = "emit (ClientDisconnected n) ?w"
      have step: "notify_loop c w = notify_loop c ?w1"
        using Cons ClientBinder by (subst notify_loop.simps) (simp add: pop_binder_def Let_def)
      have IH: "bind_inv (notify_loop c ?w1)" "bound (notify_loop c ?w1) = cut (above (bound ?w1) c) (bound ?w1)"
        "notified ?w1 (notify_loop c ?w1) (clients_of (above (bound ?w1) c) (bound ?w1))"
        using 1(3) [OF Cons pop_binder_def [unfolded atomize_eq] ClientBinder] inv by simp_all
      have bd1: "bound ?w1 = ?B(b := None)" using bd by simp
      have ab: "above (?B(b := None)) c = above ?B c" by (simp add: ClientBinder above_client)
      have cuts: "cut (above ?B c) (?B(b := None)) = cut (above ?B c) ?B"
        using b by (auto simp: cut_def fun_eq_iff)
      have first: "notified w ?w1 {n}" unfolding notified_def by (rule exI [of _ "[n]"]) (simp add: emit_def)
      have fresh: "{n} \<inter> clients_of (above ?B c) (?B(b := None)) = {}"
        using ClientBinder by (auto simp: clients_of_def)
      have union: "{n} \<union> clients_of (above ?B c) (?B(b := None)) = clients_of (above ?B c) ?B"
        using b ClientBinder above_refl [of c ?B] by (auto simp: clients_of_def)
      show ?thesis unfolding step
        using IH(1) IH(2) [unfolded bd1 ab cuts] notified_trans [OF first IH(3) [unfolded bd1 ab] fresh, unfolded union]
        by blast
    next
      case (LowerBinder c')
      have same: "Binder_Attach (LowerBinder c') None ?w = ?w"
        using bd LowerBinder by (intro attach_unbound) simp
      have step: "notify_loop c w = notify_loop c (notify_loop c' ?w)"
        using Cons LowerBinder same by (subst notify_loop.simps) (simp add: pop_binder_def Let_def)
      let ?w2 = "notify_loop c' ?w"
      have IH1: "bind_inv ?w2" "bound ?w2 = cut (above (bound ?w) c') (bound ?w)"
        "notified ?w ?w2 (clients_of (above (bound ?w) c') (bound ?w))"
        using 1(1) [OF Cons pop_binder_def [unfolded atomize_eq] LowerBinder] inv by (simp_all add: same)
      have IH2: "bind_inv (notify_loop c ?w2)" "bound (notify_loop c ?w2) = cut (above (bound ?w2) c) (bound ?w2)"
        "notified ?w2 (notify_loop c ?w2) (clients_of (above (bound ?w2) c) (bound ?w2))"
        using 1(2) [OF Cons pop_binder_def [unfolded atomize_eq] LowerBinder] IH1(1) by (simp_all add: same)
      have b': "?B (LowerBinder c') = Some c" using b LowerBinder by simp
      have bd': "bound ?w = ?B(LowerBinder c' := None)" using bd LowerBinder by simp
      note split = above_split [of ?B c' c, OF b', folded bd', folded IH1(2)]
      note cuts = cut_split [of ?B c' c, OF b', folded bd', folded IH1(2)]
      have disj: "clients_of (above (bound ?w) c') (bound ?w) \<inter> clients_of (above (bound ?w2) c) (bound ?w2) = {}"
        by (auto simp: clients_of_def IH1(2) cut_def split: option.splits if_splits)
      have union: "clients_of (above (bound ?w) c') (bound ?w) \<union> clients_of (above (bound ?w2) c) (bound ?w2) =
          clients_of (above ?B c) ?B"
        unfolding split by (auto simp: clients_of_def IH1(2) cut_def bd' split: option.splits if_splits)
      have "notified w ?w2 (clients_of (above (bound ?w) c') (bound ?w))"
        using IH1(3) by (simp add: notified_def)
      from notified_trans [OF this IH2(3) disj] show ?thesis
        using IH2(1,2) by (simp add: step union cuts)
    qed
  qed
qed

text \<open>
  When a connection goes away, every client bound to it or to a connection that runs over it, however
  far up, is told exactly once and no other client is told anything; all those bindings, and the connection's own
  to what it runs over, are dissolved and every other binding stays. This holds also when connections
  are bound in a circle.
\<close>

theorem disconnect_notifies_once:
  assumes "bind_inv w" "B = (bound w)(LowerBinder c := None)"
  shows "bind_inv (NotifyBindersOnDisconnect c w) \<and>
    bound (NotifyBindersOnDisconnect c w) = cut (above B c) B \<and>
    (\<exists>ns. cw_events (NotifyBindersOnDisconnect c w) = cw_events w @ map ClientDisconnected ns \<and> distinct ns \<and>
       set ns = clients_of (above B c) B)"
  using notify_loop_effect [OF detach_effect(2) [OF assms(1), of "LowerBinder c"], of c] detach_effect [OF assms(1), of "LowerBinder c"]
  by (simp add: NotifyBindersOnDisconnect_def assms(2) notified_def)

text \<open>Two connections bound to each other, a client on each of them and one on a third connection.\<close>

definition circle :: conn_world where
  "circle = \<lparr>cw_connections =
       [(1, (Connection_new 5)\<lparr>cn_lower := Some 2, cn_binders := [ClientBinder 10, LowerBinder 2]\<rparr>),
        (2, (Connection_new 6)\<lparr>cn_lower := Some 1, cn_binders := [LowerBinder 1, ClientBinder 20]\<rparr>),
        (3, (Connection_new 7)\<lparr>cn_binders := [ClientBinder 30]\<rparr>)],
     cw_clients = [(10, 1), (20, 2), (30, 3)], cw_table = RoutingTable_new, cw_rtnl = RTNLHandler_new,
     cw_resolver = \<lparr>rv_path = [], rv_ignored_search_list = [], rv_file = None\<rparr>, cw_events = []\<rparr>"

lemma circle_bound:
  "bound circle = (\<lambda>_. None)(LowerBinder 1 \<mapsto> 2, LowerBinder 2 \<mapsto> 1, ClientBinder 10 \<mapsto> 1, ClientBinder 20 \<mapsto> 2,
     ClientBinder 30 \<mapsto> 3)"
proof
  fix b show "bound circle b = ((\<lambda>_. None)(LowerBinder 1 \<mapsto> 2, LowerBinder 2 \<mapsto> 1, ClientBinder 10 \<mapsto> 1,
     ClientBinder 20 \<mapsto> 2, ClientBinder 30 \<mapsto> 3)) b"
    by (cases b) (simp_all add: bound_def circle_def conn_def Connection_new_def)
qed

lemma circle_binders:
  "cn_binders (conn circle c) = (if c = 1 then [ClientBinder 10, LowerBinder 2]
     else if c = 2 then [LowerBinder 1, ClientBinder 20] else if c = 3 then [ClientBinder 30] else [])"
  by (simp add: circle_def conn_def Connection_new_def)

lemma circle_inv: "bind_inv circle"
  unfolding bind_inv_def circle_bound circle_binders by simp

lemma disconnect_notifies_once_witness:
  "bind_inv (NotifyBindersOnDisconnect 1 circle) \<and>
   (\<exists>ns. cw_events (NotifyBindersOnDisconnect 1 circle) = map ClientDisconnected ns \<and> distinct ns \<and> set ns = {10, 20}) \<and>
   bound (NotifyBindersOnDisconnect 1 circle) (ClientBinder 30) = Some 3"
proof -
  let ?B = "(bound circle)(LowerBinder 1 := None)"
  have over: "over ?B = {(2, 1)}" by (auto simp: over_def circle_bound split: if_splits)
  have "above ?B 1 = {1, 2}"
    unfolding above_def over by (auto elim: converse_rtranclE rtranclE)
  moreover have events: "cw_events circle = []" by (simp add: circle_def)
  ultimately show ?thesis
    using disconnect_notifies_once [OF circle_inv refl, of 1] events
    by (auto simp: clients_of_def cut_def circle_bound split: if_splits)
qed

text \<open>
  Binding, rebinding and unbinding of a client or of a connection keep the queues and the binders in
  agreement: a binder stands once in the queue of the connection it is bound to, and in no other.
\<close>

theorem Binder_Attach_inv:
  assumes "bind_inv w" "\<forall>c. target = Some c \<longrightarrow> known w c" "\<forall>c. b = LowerBinder c \<longrightarrow> known w c"
  shows "bind_inv (Binder_Attach b target w) \<and> bound (Binder_Attach b target w) = (bound w)(b := target)"
proof (cases target)
  case None
  then show ?thesis using detach_effect [OF assms(1), of b] by simp
next
  case (Some c)
  let ?w = "Binder_Attach b None w"
  let ?w' = "AttachBinder c b (set_bound b (Some c) ?w)"
  have known: "known ?w x = known w x" for x
    by (auto simp: Binder_Attach_def set_bound_def DetachBinder_def split: option.split conn_binder.split)
  have eq: "Binder_Attach b target w = ?w'"
    using Some by (simp add: Binder_Attach_def Let_def)
  have bd: "bound ?w' = (bound w)(b := Some c)"
  proof
    fix x
    have "bound (set_bound b (Some c) ?w) x = ((bound ?w)(b := Some c)) x"
      using assms(3) known
      by (cases b; cases x) (auto simp: bound_def set_bound_def conn_upd_conn update_conv', auto simp: upd_conn_def)
    then show "bound ?w' x = ((bound w)(b := Some c)) x"
      by (simp add: AttachBinder_def bound_upd_conn detach_effect(1) [OF assms(1)])
  qed
  have kc: "known (set_bound b (Some c) ?w) c" using assms(2) Some known [of c]
    by (cases b) (simp_all add: set_bound_def)
  have q: "cn_binders (conn ?w' x) = cn_binders (conn ?w x) @ (if x = c then [b] else [])" for x
    using kc by (simp add: AttachBinder_def conn_upd_conn)
  have "bind_inv ?w'"
    using detach_effect(2) [OF assms(1), of b] unfolding bind_inv_def q bd detach_effect(1) [OF assms(1)]
    by (auto split: if_splits)
  then show ?thesis unfolding eq using bd Some by simp
qed

lemma Binder_Attach_inv_witness:
  "bind_inv (Binder_Attach (ClientBinder 10) (Some 3) circle) \<and>
   bound (Binder_Attach (ClientBinder 10) (Some 3) circle) (ClientBinder 10) = Some 3"
  using Binder_Attach_inv [OF circle_inv, of "Some 3" "ClientBinder 10"] by (simp add: known_def circle_def)

subsection \<open>The carrier\<close>

lemma over_functional: "(x, y) \<in> over B \<Longrightarrow> (x, z) \<in> over B \<Longrightarrow> y = z"
  by (simp add: over_def)

lemma cycle_returns:
  assumes "(c, c) \<in> (over B)\<^sup>+" "(c, r) \<in> (over B)\<^sup>*" shows "(r, c) \<in> (over B)\<^sup>+"
  using assms(2)
proof (induction rule: rtrancl_induct)
  case base
  show ?case by (rule assms(1))
next
  case (step y z)
  from tranclD [OF step(3)] obtain y' where "(y, y') \<in> over B" "(y', c) \<in> (over B)\<^sup>*" by blast
  with step(2) have "(z, c) \<in> (over B)\<^sup>*" using over_functional by metis
  then show ?case using assms(1) by (rule rtrancl_trancl_trancl)
qed

lemma carrier_loop_correct:
  assumes "\<forall>v \<in> visited. (v, c) \<in> (over (bound w))\<^sup>+"
  shows "carrier_loop w visited c = Some r \<longleftrightarrow> (c, r) \<in> (over (bound w))\<^sup>* \<and> lower w r = None"
  using assms
proof (induction w visited c rule: carrier_loop.induct)
  case (1 w visited c)
  let ?R = "over (bound w)"
  show ?case
  proof (cases "lower w c")
    case None
    then have "(c, r) \<in> ?R\<^sup>* \<longleftrightarrow> r = c"
      by (auto simp: over_def lower_def elim: converse_rtranclE)
    then show ?thesis using None by (subst carrier_loop.simps) auto
  next
    case (Some next')
    then have edge: "(c, next') \<in> ?R" by (simp add: over_def lower_def)
    show ?thesis
    proof (cases "c \<in> visited")
      case True
      then have cyc: "(c, c) \<in> ?R\<^sup>+" using 1(2) by blast
      have "lower w r \<noteq> None" if "(c, r) \<in> ?R\<^sup>*"
        using tranclD [OF cycle_returns [OF cyc that]] by (auto simp: over_def lower_def)
      then show ?thesis using True Some by (subst carrier_loop.simps) auto
    next
      case False
      have "\<forall>v \<in> insert c visited. (v, next') \<in> ?R\<^sup>+"
        using 1(2) edge by (auto intro: trancl_into_trancl)
      from 1(1) [OF Some False this] have IH: "carrier_loop w (insert c visited) next' = Some r \<longleftrightarrow>
          (next', r) \<in> ?R\<^sup>* \<and> lower w r = None" .
      have "(c, r) \<in> ?R\<^sup>* \<and> lower w r = None \<longleftrightarrow> (next', r) \<in> ?R\<^sup>* \<and> lower w r = None"
        using edge Some over_functional
        by (metis converse_rtranclE converse_rtrancl_into_rtrancl option.distinct(1))
      then show ?thesis using IH False Some by (subst carrier_loop.simps) simp
    qed
  qed
qed

text \<open>
  The search for the carrier always ends; it answers with the connection at the end of the chain of
  lower connections, and with none exactly if the chain runs in a circle.
\<close>

theorem GetCarrierConnection_correct:
  "(GetCarrierConnection c w = Some r \<longleftrightarrow> (c, r) \<in> (over (bound w))\<^sup>* \<and> lower w r = None) \<and>
   (GetCarrierConnection c w = None \<longleftrightarrow> (\<nexists>r. (c, r) \<in> (over (bound w))\<^sup>* \<and> lower w r = None))"
  using carrier_loop_correct [of "{}" c w] by (auto simp: GetCarrierConnection_def) (metis not_None_eq)

lemma GetCarrierConnection_correct_witness:
  "GetCarrierConnection 1 circle = None \<and> GetCarrierConnection 3 circle = Some 3"
proof -
  have edges: "over (bound circle) = {(1, 2), (2, 1)}" by (auto simp: over_def circle_bound split: if_splits)
  have "x \<in> {1, 2}" if "(1, x) \<in> {(1, 2), (2, 1)}\<^sup>*" for x :: nat
    using that by (induction rule: rtrancl_induct) auto
  then have "\<nexists>r. (1, r) \<in> (over (bound circle))\<^sup>* \<and> lower circle r = None"
    unfolding edges by (auto simp: lower_def circle_bound)
  then show ?thesis
    using GetCarrierConnection_correct [of 1 circle] GetCarrierConnection_correct [of 3 circle 3]
    by (auto simp: lower_def circle_bound)
qed

end
