(* ===== verification/Connection_Theorems.thy ===== *)
theory Connection_Theorems
  imports Connection_Proofs
begin

text \<open>
  What the configuration of a connection does to the routing table: the routes it installs, their metric and
  table, and that nothing of it is left once the connection is gone.
\<close>

subsection \<open>What the operations leave alone\<close>

lemma upd_conn_world [simp]:
  "cw_table (upd_conn c f w) = cw_table w" "cw_rtnl (upd_conn c f w) = cw_rtnl w"
  "cw_resolver (upd_conn c f w) = cw_resolver w" "cw_events (upd_conn c f w) = cw_events w"
  by (simp_all add: upd_conn_def)

lemma emit_world [simp]:
  "cw_table (emit ev w) = cw_table w" "cw_rtnl (emit ev w) = cw_rtnl w" "cw_resolver (emit ev w) = cw_resolver w"
  "cw_connections (emit ev w) = cw_connections w" "cw_events (emit ev w) = cw_events w @ [ev]"
  by (simp_all add: emit_def)

lemma set_bound_table [simp]: "cw_table (set_bound b t w) = cw_table w"
  by (simp add: set_bound_def split: conn_binder.split)

lemma attach_none_table [simp]: "cw_table (Binder_Attach b None w) = cw_table w"
  by (simp add: Binder_Attach_def DetachBinder_def split: option.split)

lemma conn_world_table [simp]: "conn (w\<lparr>cw_table := t\<rparr>) c = conn w c" "conn (w\<lparr>cw_rtnl := h\<rparr>) c = conn w c"
  "conn (w\<lparr>cw_resolver := r\<rparr>) c = conn w c"
  by (simp_all add: conn_def)

definition same_but_binding :: "connection \<Rightarrow> connection \<Rightarrow> bool" where
  "same_but_binding x y \<longleftrightarrow> x\<lparr>cn_lower := None, cn_binders := []\<rparr> = y\<lparr>cn_lower := None, cn_binders := []\<rparr>"

lemma same_but_bindingD:
  assumes "same_but_binding x y"
  shows "cn_interface_index x = cn_interface_index y" "cn_routing_request_count x = cn_routing_request_count y"
    "cn_firewall_proxy x = cn_firewall_proxy y"
  using assms by (simp_all add: same_but_binding_def, (cases x; cases y; simp)+)

lemma same_but_binding_trans: "same_but_binding x y \<Longrightarrow> same_but_binding y z \<Longrightarrow> same_but_binding x z"
  by (simp add: same_but_binding_def)

lemma same_set_bound: "same_but_binding (conn (set_bound b t w) x) (conn w x)"
  by (cases b) (simp_all add: set_bound_def conn_upd_conn same_but_binding_def)

lemma same_pop: "same_but_binding (conn (pop_binder c b bs w) x) (conn w x)"
  unfolding pop_binder_def
  by (rule same_but_binding_trans [OF same_set_bound]) (simp add: conn_upd_conn same_but_binding_def)

lemma same_attach_none: "same_but_binding (conn (Binder_Attach b None w) x) (conn w x)"
proof (cases "bound w b")
  case None
  then show ?thesis by (simp add: same_but_binding_def)
next
  case (Some c)
  have "same_but_binding (conn (set_bound b None (DetachBinder c b w)) x) (conn w x)"
    by (rule same_but_binding_trans [OF same_set_bound])
      (simp add: DetachBinder_def conn_upd_conn same_but_binding_def)
  with Some show ?thesis by (simp add: Binder_Attach_def Let_def)
qed

lemma notify_loop_frame:
  "cw_table (notify_loop c w) = cw_table w \<and> same_but_binding (conn (notify_loop c w) x) (conn w x)"
proof (induction c w rule: notify_loop.induct)
  case (1 c w)
  show ?case
  proof (cases "cn_binders (conn w c)")
    case Nil
    then show ?thesis by (subst (1 2) notify_loop.simps) (simp add: same_but_binding_def)
  next
    case (Cons b bs)
    let ?w = "pop_binder c b bs w"
    have tb: "cw_table ?w = cw_table w" by (simp add: pop_binder_def)
    show ?thesis
    proof (cases b)
      case (ClientBinder n)
      have step: "notify_loop c w = notify_loop c (emit (ClientDisconnected n) ?w)"
        using Cons ClientBinder by (subst notify_loop.simps) (simp add: pop_binder_def Let_def)
      show ?thesis unfolding step
        using 1(3) [OF Cons pop_binder_def [unfolded atomize_eq] ClientBinder] same_pop [of c b bs w x] tb
        by (auto intro: same_but_binding_trans)
    next
      case (LowerBinder c')
      have step: "notify_loop c w = notify_loop c (notify_loop c' (Binder_Attach (LowerBinder c') None ?w))"
        using Cons LowerBinder by (subst notify_loop.simps) (simp add: pop_binder_def Let_def)
      show ?thesis unfolding step
        using 1(1) [OF Cons pop_binder_def [unfolded atomize_eq] LowerBinder]
          1(2) [OF Cons pop_binder_def [unfolded atomize_eq] LowerBinder]
          same_attach_none [of "LowerBinder c'" ?w x] same_pop [of c b bs w x] tb
        by (auto intro: same_but_binding_trans)
    qed
  qed
qed

text \<open>
  C24: when a connection is destroyed it has no routing request left, no route of its interface stays in the
  table, and no route anywhere that was installed on its behalf; all other routes stay. Its addresses are
  flushed, its firewall rules are taken back if it had set any up, and the connection itself is gone.
\<close>

theorem Connection_destroy_clean:
  assumes "Connection_destroy E c w = Some w'" "i = cn_interface_index (conn w c)"
  shows "cn_routing_request_count (conn w c) = 0 \<and> \<not> known w' c \<and> table_of (cw_table w') i = [] \<and>
    (\<forall>j. j \<noteq> i \<longrightarrow> table_of (cw_table w') j = filter (\<lambda>e. te_tag e \<noteq> sint i) (table_of (cw_table w) j)) \<and>
    (\<exists>told. cw_events w' = told @ FlushAddresses i # (if cn_firewall_proxy (conn w c) then [RemoveVpnSetup] else []))"
proof -
  let ?w = "NotifyBindersOnDisconnect c w"
  have frame: "cw_table ?w = cw_table w" and same: "same_but_binding (conn ?w c) (conn w c)"
    using notify_loop_frame [of c "Binder_Attach (LowerBinder c) None w" c] same_attach_none [of "LowerBinder c" w c]
    by (auto simp: NotifyBindersOnDisconnect_def intro: same_but_binding_trans)
  obtain t1 h1 t2 h2 where f: "FlushRoutes (ce_rtnl E) i (cw_table ?w, cw_rtnl ?w) = (t1, h1)"
    "FlushRoutesWithTag (ce_rtnl E) (sint i) (t1, h1) = (t2, h2)" by fastforce
  note e = FlushRoutes_effect [OF f(1), unfolded frame] FlushRoutesWithTag_effect [OF f(2)]
  note fields = same_but_bindingD [OF same]
  have count: "cn_routing_request_count (conn w c) = 0"
    using assms(1) fields by (simp add: Connection_destroy_def Let_def split: if_splits)
  let ?w1 = "emit (FlushAddresses i) (?w\<lparr>cw_table := t2, cw_rtnl := h2\<rparr>)"
  let ?w2 = "snd (TearDownIptableEntries E c ?w1)"
  have w': "w' = ?w2\<lparr>cw_connections := AList.delete c (cw_connections ?w2)\<rparr>"
    using assms fields f by (simp add: Connection_destroy_def Let_def lift_route_def split: if_splits)
  have "cw_table ?w2 = t2" "cw_events ?w2 = cw_events ?w @ FlushAddresses i # (if cn_firewall_proxy (conn w c) then [RemoveVpnSetup] else [])"
    using fields by (simp_all add: TearDownIptableEntries_def)
  then show ?thesis using count e w' by (auto simp: known_def delete_conv')
qed
lemma NotifyBinders_frame:
  "cw_table (NotifyBindersOnDisconnect c w) = cw_table w" "same_but_binding (conn (NotifyBindersOnDisconnect c w) x) (conn w x)"
  using notify_loop_frame [of c "Binder_Attach (LowerBinder c) None w" x] same_attach_none [of "LowerBinder c" w x]
  by (auto simp: NotifyBindersOnDisconnect_def intro: same_but_binding_trans)

text \<open>Interface 2 with the two routes of \<open>sample_table\<close>, and an environment.\<close>

definition sample_conn_env :: conn_env where
  "sample_conn_env = \<lparr>ce_rtnl = sample_env,
     ce_resolver = \<lparr>rv_join = \<lambda>xs sep. concat xs, rv_write = \<lambda>s. int (length s), rv_delete = True\<rparr>,
     ce_inet_pton = (\<lambda>fam s. if s = ''10.0.0.2'' then Some [10, 0, 0, 2] else if s = ''10.0.0.1'' then Some [10, 0, 0, 1]
       else None),
     ce_inet_network = (\<lambda>_. 0), ce_split_slash = (\<lambda>s. [s]), ce_string_to_size_t = (\<lambda>_. None),
     ce_write_file = (\<lambda>_ _. 2), ce_has_other_address = (\<lambda>_ _. False), ce_device = (\<lambda>_. None),
     ce_setup_vpn = True, ce_remove_vpn = True\<rparr>"

definition sample_world :: conn_world where
  "sample_world = circle\<lparr>cw_connections := [(4, Connection_new 2)], cw_clients := [], cw_table := sample_table\<rparr>"

lemma Connection_destroy_clean_witness:
  "\<exists>w'. Connection_destroy sample_conn_env 4 sample_world = Some w' \<and> table_of (cw_table w') 2 = [] \<and>
     table_of sample_table 2 \<noteq> [] \<and> \<not> known w' 4"
proof -
  have new: "conn sample_world 4 = Connection_new 2" by (simp add: sample_world_def conn_def)
  have "cn_routing_request_count (conn (NotifyBindersOnDisconnect 4 sample_world) 4) = 0"
    using same_but_bindingD(2) [OF NotifyBinders_frame(2) [of 4 sample_world 4]] by (simp add: new Connection_new_def)
  then obtain w' where w': "Connection_destroy sample_conn_env 4 sample_world = Some w'"
    by (simp add: Connection_destroy_def Let_def)
  show ?thesis using Connection_destroy_clean [OF w' refl] w' by (simp add: new Connection_new_def sample_table_def)
qed

subsection \<open>Installing a configuration\<close>

lemma AddRoute_table:
  assumes "AddRoute E i entry (t, h) = Some (ok, t', h')"
  shows "table_of t' i = table_of t i @ (if ok then [entry] else [])" "\<And>j. j \<noteq> i \<Longrightarrow> table_of t' j = table_of t j"
  using assms by (auto simp: AddRoute_def Let_def split: if_splits prod.splits)

text \<open>Routes of an interface are only appended.\<close>

definition extends :: "u32 \<Rightarrow> routing_table \<Rightarrow> routing_table \<Rightarrow> bool" where
  "extends i t t' \<longleftrightarrow> (\<exists>es. table_of t' i = table_of t i @ es)"

lemma extends_refl [simp]: "extends i t t"
  by (simp add: extends_def)

lemma extends_trans: "extends i t1 t2 \<Longrightarrow> extends i t2 t3 \<Longrightarrow> extends i t1 t3"
  by (auto simp: extends_def)

lemma AddRoute_extends: "AddRoute E i entry (t, h) = Some (ok, t', h') \<Longrightarrow> extends i t t'"
  unfolding extends_def by (drule AddRoute_table(1)) (rule exI)

lemma ConfigureRoute_extends:
  "ConfigureRoute E pton net i fam metric tid route (t, h) = Some (ok, t', h') \<Longrightarrow> extends i t t'"
  using AddRoute_extends by (auto simp: ConfigureRoute_def Let_def split: prod.splits if_splits)

lemma configure_loop_extends:
  assumes "configure_loop (ConfigureRoute E pton net i fam metric tid) routes ret (t, h) = Some (ok, t', h')"
  shows "extends i t t'"
  using assms
proof (induction routes arbitrary: ret t h)
  case (Cons route routes)
  then obtain ok1 t1 h1 where s: "ConfigureRoute E pton net i fam metric tid route (t, h) = Some (ok1, t1, h1)"
    "configure_loop (ConfigureRoute E pton net i fam metric tid) routes (if ok1 then ret else False) (t1, h1) = Some (ok, t', h')"
    by (auto split: option.splits prod.splits)
  show ?case by (rule extends_trans [OF ConfigureRoute_extends [OF s(1)] Cons.IH [OF s(2)]])
qed simp

lemma default_route_extended:
  assumes "extends i t t'" "GetDefaultRoute t i fam = Some e" shows "GetDefaultRoute t' i fam = Some e"
proof -
  obtain es where es: "table_of t' i = table_of t i @ es" using assms(1) by (auto simp: extends_def)
  have found: "find_default fam (xs @ ys) = Some j" if "find_default fam xs = Some j" for xs ys j
    using that by (induction xs arbitrary: j) (auto split: if_splits)
  from assms(2) obtain j where j: "find_default fam (table_of t i) = Some j" "e = table_of t i ! j"
    by (auto simp: GetDefaultRoute_table)
  show ?thesis using found [OF j(1), of es] find_default_Some(1) [OF j(1)] j(2)
    by (simp add: GetDefaultRoute_table es nth_append)
qed

lemma SetMTU_table: "SetMTU E c mtu w = Some w' \<Longrightarrow> cw_table w' = cw_table w"
  by (auto simp: SetMTU_def Let_def)

lemma PushDNSConfig_frame:
  "PushDNSConfig E c w = Some w' \<Longrightarrow> cw_table w' = cw_table w \<and> conn w' x = conn w x \<and> cw_connections w' = cw_connections w"
  by (auto simp: PushDNSConfig_def Let_def split: if_splits)

lemma SetMTU_frame: "SetMTU E c mtu w = Some w' \<Longrightarrow> cw_connections w' = cw_connections w"
  by (auto simp: SetMTU_def Let_def)

lemma finish_update_effect:
  assumes "finish_update E c props rpc local peer gateway w = Some w'" "known w c"
  shows "extends (cn_interface_index (conn w c)) (cw_table w) (cw_table w')"
    "cn_local (conn w' c) = local" "cn_gateway (conn w' c) = gateway"
    "cn_has_broadcast_domain (conn w' c) \<longleftrightarrow> \<not> IsValid peer" "cn_ipconfig_rpc_identifier (conn w' c) = rpc"
proof -
  let ?cn = "conn w c"
  obtain ok w1 where w1: "lift_route_opt (ConfigureRoutes (ce_rtnl E) (ce_inet_pton E) (ce_inet_network E) (cn_interface_index ?cn)
      props kDefaultMetric (cn_table_id ?cn)) w = Some (ok, w1)"
    using assms(1) by (auto simp: finish_update_def Let_def bind_eq_Some_conv)
  then obtain t h where t: "w1 = w\<lparr>cw_table := t, cw_rtnl := h\<rparr>" "extends (cn_interface_index ?cn) (cw_table w) t"
    using configure_loop_extends by (auto simp: lift_route_opt_def ConfigureRoutes_def)
  obtain w2 where w2: "SetMTU E c (p_mtu props) w1 = Some w2"
    using assms(1) w1 by (auto simp: finish_update_def Let_def bind_eq_Some_conv)
  define w3 where "w3 = (if blackhole_ipv6 props
                 then w2\<lparr>cw_rtnl := snd (CreateBlackholeRoute (ce_rtnl E) (cn_interface_index ?cn) kFamilyIPv6 kDefaultMetric
                        (cn_table_id ?cn) (cw_rtnl w2))\<rparr>
                 else w2)"
  define w4 where "w4 = upd_conn c (\<lambda>cn. (remember_dns props cn)\<lparr>cn_ipconfig_rpc_identifier := rpc\<rparr>) w3"
  obtain w5 where w5: "PushDNSConfig E c w4 = Some w5" and
      w': "w' = upd_conn c (\<lambda>cn. cn\<lparr>cn_local := local, cn_gateway := gateway, cn_has_broadcast_domain := \<not> IsValid peer\<rparr>) w5"
    using assms(1) w1 w2 by (auto simp: finish_update_def Let_def bind_eq_Some_conv w3_def w4_def)
  have tables: "cw_table w' = t"
    using SetMTU_table [OF w2] PushDNSConfig_frame [OF w5] t(1) by (simp add: w' w4_def w3_def)
  have conns: "cw_connections w3 = cw_connections w" using SetMTU_frame [OF w2] t(1) by (simp add: w3_def)
  have k3: "known w3 c" "conn w3 c = conn w c" using conns assms(2) by (simp_all add: known_def conn_def)
  have k5: "known w5 c" "conn w5 c = conn w4 c" using PushDNSConfig_frame [OF w5] k3(1) by (auto simp: known_def w4_def upd_conn_def map_of_map_entry)
  show "extends (cn_interface_index ?cn) (cw_table w) (cw_table w')" using t(2) tables by simp
  show "cn_local (conn w' c) = local" "cn_gateway (conn w' c) = gateway"
    "cn_has_broadcast_domain (conn w' c) \<longleftrightarrow> \<not> IsValid peer" "cn_ipconfig_rpc_identifier (conn w' c) = rpc"
    using k3 k5 by (simp_all add: w' conn_upd_conn w4_def)
qed

text \<open>
  The gateway the default route goes over: the configured one, or no address when the configuration is that of a
  VPN whose gateway is its peer and the first excluded address at once.
\<close>

definition used_gateway :: "ip_addr \<Rightarrow> ip_addr \<Rightarrow> ip_addr \<Rightarrow> ip_addr" where
  "used_gateway gateway peer trusted_ip =
     (if IsValid peer \<and> HasSameAddressAs gateway peer \<and> HasSameAddressAs gateway trusted_ip
      then SetAddressToDefault gateway else gateway)"

lemma used_gateway_simps [simp]:
  "family (used_gateway gateway peer trusted_ip) = family gateway"
  "IsValid gateway \<Longrightarrow> IsValid (used_gateway gateway peer trusted_ip)"
  by (auto simp: used_gateway_def SetAddressToDefault_def IsValid_def GetLength_def)

lemma IsValid_SetAddressToDefault [simp]: "IsValid (SetAddressToDefault a) \<longleftrightarrow> family a \<noteq> kFamilyUnknown"
  by (simp add: SetAddressToDefault_def IsValid_def GetLength_def)

lemma FixGatewayReachability_effect:
  assumes "FixGatewayReachability E c local peer gateway trusted_ip w = Some ((ok, peer', gateway'), w')"
    and "IsValid gateway"
  shows "IsValid peer' \<longleftrightarrow> IsValid peer" "gateway' = used_gateway gateway peer trusted_ip"
    "cw_connections w' = cw_connections w"
    "\<exists>es. table_of (cw_table w') (cn_interface_index (conn w c)) = table_of (cw_table w) (cn_interface_index (conn w c)) @ es \<and>
       (\<forall>e \<in> set es. address (te_dst e) = address gateway)"
proof -
  let ?i = "cn_interface_index (conn w c)"
  let ?entry = "RoutingTableEntry_new (gateway\<lparr>ip_prefix := GetMaxPrefixLength (family gateway)\<rparr>)
    (IPAddress_family (family gateway)) (IPAddress_family (family gateway)) 0 RT_SCOPE_LINK False (cn_table_id (conn w c)) kDefaultTag"
  consider (peer) "IsValid peer" "w' = w"
      "peer' \<in> {peer, SetAddressToDefault peer}" "gateway' = used_gateway gateway peer trusted_ip"
    | (reachable) "\<not> IsValid peer" "w' = w" "peer' = peer" "gateway' = gateway"
    | (route) t h where "\<not> IsValid peer" "peer' = peer" "gateway' = gateway"
      "AddRoute (ce_rtnl E) ?i ?entry (cw_table w, cw_rtnl w) = Some (ok, t, h)" "w' = w\<lparr>cw_table := t, cw_rtnl := h\<rparr>"
    using assms
    by (auto simp: FixGatewayReachability_def Let_def used_gateway_def lift_route_opt_def bind_eq_Some_conv
        split: if_splits prod.splits)
  note cases = this
  have valid: "IsValid a \<Longrightarrow> family a \<noteq> kFamilyUnknown" for a by (simp add: IsValid_def)
  from cases show "IsValid peer' \<longleftrightarrow> IsValid peer" by cases (auto dest: valid)
  from cases show "gateway' = used_gateway gateway peer trusted_ip" by cases (auto simp: used_gateway_def)
  from cases show "cw_connections w' = cw_connections w" by cases auto
  from cases show "\<exists>es. table_of (cw_table w') ?i = table_of (cw_table w) ?i @ es \<and> (\<forall>e \<in> set es. address (te_dst e) = address gateway)"
  proof cases
    case (route t h)
    show ?thesis using AddRoute_table(1) [OF route(4)]
      by (intro exI [of _ "if ok then [?entry] else []"]) (simp add: route(5) RoutingTableEntry_new_def)
  qed auto
qed

lemma find_default_append_None:
  "find_default fam xs = None \<Longrightarrow> \<forall>e \<in> set ys. \<not> is_default_of fam e \<Longrightarrow> find_default fam (xs @ ys) = None"
  by (induction xs) (auto split: if_splits, induction ys, auto)

lemma SetDefaultRoute_installs:
  assumes "SetDefaultRoute E i gw metric tid (t, h) = Some (ok, t', h')" "sends_succeed E"
    and "find_default (family gw) (table_of t i) = None"
  shows "\<exists>e. GetDefaultRoute t' i (family gw) = Some e \<and> te_gateway e = gw \<and> te_metric e = metric \<and> te_table e = tid"
proof -
  let ?e = "RoutingTableEntry_new (default_address (family gw)) (default_address (family gw)) gw metric RT_SCOPE_UNIVERSE
      False tid kDefaultTag"
  have add: "AddRoute E i ?e (t, h) = Some (ok, t', h')"
    using assms(1,3) by (simp add: SetDefaultRoute_def GetDefaultRouteInternal_table)
  moreover have "\<exists>t1 h1. AddRoute E i ?e (t, h) = Some (True, t1, h1)"
    by (rule AddRoute_succeeds [OF assms(2)]) (simp add: RoutingTableEntry_new_def)
  ultimately have tb: "table_of t' i = table_of t i @ ?e # []" using AddRoute_table(1) [OF add] by auto
  have none: "\<forall>e \<in> set xs. \<not> is_default_of (family gw) e" if "find_default (family gw) xs = None" for xs
    using that by (induction xs) (auto split: if_splits)
  have e: "is_default_of (family gw) ?e" by (simp add: RoutingTableEntry_new_def)
  have "GetDefaultRoute t' i (family gw) = Some ?e"
    by (simp add: GetDefaultRoute_table tb find_default_append [OF none [OF assms(3)] e])
  then show ?thesis by (simp add: RoutingTableEntry_new_def)
qed

lemma install_addresses_effect:
  assumes "install_addresses E c props rpc local broadcast peer gateway trusted_ip w = Some w'" "known w c"
    and "IsValid gateway" "\<not> IsDefault gateway" "default_route props" "sends_succeed (ce_rtnl E)"
    and "i = cn_interface_index (conn w c)" "used = used_gateway gateway peer trusted_ip"
    and "ce_has_other_address E i local \<or> find_default (family gateway) (table_of (cw_table w) i) = None"
  shows "\<exists>e. GetDefaultRoute (cw_table w') i (family gateway) = Some e \<and> te_gateway e = used \<and>
      te_metric e = GetMetric (conn w c) (cn_is_default (conn w c)) \<and> te_table e = cn_table_id (conn w c)"
    "cn_local (conn w' c) = local" "cn_gateway (conn w' c) = used"
    "cn_has_broadcast_domain (conn w' c) \<longleftrightarrow> \<not> IsValid peer"
proof -
  obtain ok peer1 gateway1 w1 where fix1: "FixGatewayReachability E c local peer gateway trusted_ip w = Some ((ok, peer1, gateway1), w1)"
    using assms(1) by (auto simp: install_addresses_def bind_eq_Some_conv)
  note f = FixGatewayReachability_effect [OF fix1 assms(3)]
  have fam: "family used = family gateway" "IsValid used" using assms(3,8) by simp_all
  define w2 where "w2 = (if ce_has_other_address E i local
     then emit (FlushAddresses i) (lift_route (FlushRoutes (ce_rtnl E) i) w1) else w1)"
  have conns2: "cw_connections w2 = cw_connections w"
    using f(3) by (simp add: w2_def lift_route_def split: prod.split)
  have none2: "find_default (family gateway) (table_of (cw_table w2) i) = None"
  proof (cases "ce_has_other_address E i local")
    case True
    obtain t h where "FlushRoutes (ce_rtnl E) i (cw_table w1, cw_rtnl w1) = (t, h)" by fastforce
    with True FlushRoutes_effect(1) [OF this] show ?thesis by (simp add: w2_def lift_route_def)
  next
    case False
    have nd: "\<not> is_default_of (family gateway) e" if "address (te_dst e) = address gateway" for e
      using that assms(4) by (simp add: IsDefault_def)
    obtain es where "table_of (cw_table w1) i = table_of (cw_table w) i @ es" "\<forall>e \<in> set es. address (te_dst e) = address gateway"
      using f(4) assms(7) by blast
    with False nd assms(9) show ?thesis by (simp add: w2_def find_default_append_None)
  qed
  have conn1: "conn w1 c = conn w c" using f(3) by (simp add: conn_def)
  have eq: "install_addresses E c props rpc local broadcast peer gateway trusted_ip w = do {
      (_, h) \<leftarrow> AddInterfaceAddress (ce_rtnl E) i local broadcast peer1 (cw_rtnl w2);
      w4 \<leftarrow> map_option snd (lift_route_opt (SetDefaultRoute (ce_rtnl E) i used
        (GetMetric (conn w c) (cn_is_default (conn w c))) (cn_table_id (conn w c))) (w2\<lparr>cw_rtnl := h\<rparr>));
      finish_update E c props rpc local peer1 used
        (if cn_user_traffic_only (conn w c) then snd (SetupIptableEntries E c w4) else w4) }"
    using fix1 [unfolded f(2), folded assms(8)] fam(2) assms(5)
    by (simp add: install_addresses_def w2_def Let_def conn1 flip: assms(7) cong: if_cong)
  obtain ok3 h3 where add: "AddInterfaceAddress (ce_rtnl E) i local broadcast peer1 (cw_rtnl w2) = Some (ok3, h3)"
    using assms(1) unfolding eq by (auto simp: bind_eq_Some_conv)
  define w3 where "w3 = w2\<lparr>cw_rtnl := h3\<rparr>"
  obtain ok4 w4 where set: "lift_route_opt (SetDefaultRoute (ce_rtnl E) i used
      (GetMetric (conn w c) (cn_is_default (conn w c))) (cn_table_id (conn w c))) w3 = Some (ok4, w4)" and
    rest: "finish_update E c props rpc local peer1 used
      (if cn_user_traffic_only (conn w c) then snd (SetupIptableEntries E c w4) else w4) = Some w'"
    using assms(1) unfolding eq add w3_def by (auto simp: bind_eq_Some_conv)
  obtain t4 h4 where t4: "SetDefaultRoute (ce_rtnl E) i used (GetMetric (conn w c) (cn_is_default (conn w c)))
      (cn_table_id (conn w c)) (cw_table w3, cw_rtnl w3) = Some (ok4, t4, h4)" "w4 = w3\<lparr>cw_table := t4, cw_rtnl := h4\<rparr>"
    using set by (auto simp: lift_route_opt_def)
  have none3: "find_default (family gateway) (table_of (cw_table w3) i) = None" using none2 by (simp add: w3_def)
  obtain e where e: "GetDefaultRoute t4 i (family gateway) = Some e" "te_gateway e = used"
    "te_metric e = GetMetric (conn w c) (cn_is_default (conn w c))" "te_table e = cn_table_id (conn w c)"
    using SetDefaultRoute_installs [OF t4(1) assms(6), unfolded fam(1), OF none3] by blast
  let ?w5 = "if cn_user_traffic_only (conn w c) then snd (SetupIptableEntries E c w4) else w4"
  have w4: "cw_connections w4 = cw_connections w" using conns2 t4(2) by (simp add: w3_def)
  have k4: "known w4 c" "conn w4 c = conn w c" using w4 assms(2) by (simp_all add: known_def conn_def)
  have k5: "known ?w5 c" using k4(1) by (simp add: SetupIptableEntries_def known_def upd_conn_def map_of_map_entry)
  have i5: "cn_interface_index (conn ?w5 c) = i"
    using k4 assms(7) by (simp add: SetupIptableEntries_def conn_upd_conn)
  have t5: "cw_table ?w5 = t4" using t4(2) by (simp add: SetupIptableEntries_def)
  note fin = finish_update_effect [OF rest k5, unfolded i5 t5]
  show "cn_local (conn w' c) = local" "cn_gateway (conn w' c) = used"
    "cn_has_broadcast_domain (conn w' c) \<longleftrightarrow> \<not> IsValid peer"
    using fin f(1) by simp_all
  show "\<exists>e. GetDefaultRoute (cw_table w') i (family gateway) = Some e \<and> te_gateway e = used \<and>
      te_metric e = GetMetric (conn w c) (cn_is_default (conn w c)) \<and> te_table e = cn_table_id (conn w c)"
    using default_route_extended [OF fin(1) e(1)] e by blast
qed

text \<open>The addresses a configuration names, all of which have to parse for it to be accepted.\<close>

definition names_addresses :: "conn_env \<Rightarrow> ip_properties \<Rightarrow> ip_addr \<Rightarrow> ip_addr \<Rightarrow> ip_addr \<Rightarrow> ip_addr \<Rightarrow> bool" where
  "names_addresses E props gateway local peer trusted_ip \<longleftrightarrow>
     (let empty = IPAddress_family (address_family props); parse = SetAddressFromString (ce_inet_pton E) empty
      in p_gateway props \<noteq> [] \<and> parse (p_gateway props) = (True, gateway) \<and> IsValid gateway \<and>
         (\<exists>l. parse (p_address props) = (True, l) \<and> local = l\<lparr>ip_prefix := unat (word_of_int (subnet_prefix props) :: u32)\<rparr>) \<and>
         (if peer_address props = [] then (True, empty) else parse (peer_address props)) = (True, peer) \<and>
         (broadcast_address props = [] \<or> fst (parse (broadcast_address props))) \<and>
         (case exclusion_list props of [] \<Rightarrow> trusted_ip = empty
          | first # rest \<Rightarrow> IsValid trusted_ip \<and>
              SetAddressAndPrefixFromString (ce_inet_pton E) (ce_split_slash E) (ce_string_to_size_t E) empty first =
                (True, trusted_ip)))"

lemma PinHostRoute_effect:
  assumes "sends_succeed (ce_rtnl E)" "IsValid trusted_ip"
  shows "fst (PinHostRoute E c trusted_ip gateway w)"
    "cw_connections (snd (PinHostRoute E c trusted_ip gateway w)) = cw_connections w"
    "table_of (cw_table (snd (PinHostRoute E c trusted_ip gateway w))) j = table_of (cw_table w) j"
proof -
  let ?r = "RequestRouteToHost (ce_rtnl E) (ce_write_file E) trusted_ip (-1) (sint (cn_interface_index (conn w c))) (Some c)
      (cn_table_id (conn w c)) (cw_table w, cw_rtnl w)"
  obtain ok t h where r: "?r = (ok, t, h)" by (cases ?r)
  moreover from r have ok: "ok" using assms(1)
    by (auto simp: RequestRouteToHost_def SendMessage_def SendMessageWithErrorMask_effect Let_def sendable_def
        SetAttribute_def RTNLMessage_new_def sends_succeed_def split: if_splits prod.splits)
  ultimately show "fst (PinHostRoute E c trusted_ip gateway w)"
    "cw_connections (snd (PinHostRoute E c trusted_ip gateway w)) = cw_connections w"
    using assms(2) by (simp_all add: PinHostRoute_def RequestHostRoute_def Let_def split: prod.split)
  show "table_of (cw_table (snd (PinHostRoute E c trusted_ip gateway w))) j = table_of (cw_table w) j"
    using r RequestRouteToHost_effect(2) [OF r] assms(2)
    by (simp add: PinHostRoute_def RequestHostRoute_def Let_def table_of_def)
qed

text \<open>
  An accepted configuration reaches the middle part with the connection as \<open>UpdateFromIPConfig\<close> leaves it before:
  the table of the interface is unchanged, only its own flags and excluded addresses are set.
\<close>

lemma UpdateFromIPConfig_installs:
  assumes "UpdateFromIPConfig E c props rpc w = Some w'" "known w c" "i = cn_interface_index (conn w c)"
    and "names_addresses E props gateway local peer trusted_ip" "sends_succeed (ce_rtnl E)"
  shows "\<exists>broadcast w3. install_addresses E c props rpc local broadcast peer gateway trusted_ip w3 = Some w' \<and>
    cn_interface_index (conn w3 c) = i \<and> cn_is_default (conn w3 c) = cn_is_default (conn w c) \<and>
    cn_table_id (conn w3 c) = (if user_traffic_only props then kSecondaryTableId else RT_TABLE_MAIN) \<and> known w3 c \<and>
    table_of (cw_table w3) i = table_of (cw_table w) i"
proof -
  define empty where "empty = IPAddress_family (address_family props)"
  define w1 where "w1 = upd_conn c (\<lambda>cn. cn\<lparr>cn_user_traffic_only := user_traffic_only props,
                cn_table_id := (if user_traffic_only props then kSecondaryTableId else RT_TABLE_MAIN)\<rparr>) w"
  define w2 where "w2 = upd_conn c (cn_excluded_ips_cidr_update (\<lambda>_. exclusion_list props)) w1"
  define w3 where "w3 = (case exclusion_list props of [] \<Rightarrow> w2
    | first # rest \<Rightarrow> snd (PinHostRoute E c trusted_ip gateway (upd_conn c (cn_excluded_ips_cidr_update (\<lambda>_. rest)) w2)))"
  note named = assms(4) [unfolded names_addresses_def Let_def, folded empty_def]
  obtain l where l: "SetAddressFromString (ce_inet_pton E) empty (p_address props) = (True, l)"
    "local = l\<lparr>ip_prefix := unat (word_of_int (subnet_prefix props) :: u32)\<rparr>" using named by blast
  let ?wp = "upd_conn c (cn_excluded_ips_cidr_update (\<lambda>_. tl (exclusion_list props))) w2"
  have "cw_connections w3 \<in> {cw_connections w2, cw_connections ?wp}" and
    table3: "table_of (cw_table w3) i = table_of (cw_table w) i"
    using named PinHostRoute_effect(2,3) [OF assms(5)] by (auto simp: w3_def w2_def w1_def split: list.splits)
  then have same3: "conn w3 c \<in> {conn w2 c, conn ?wp c}" "known w3 c \<in> {known w2 c, known ?wp c}"
    by (auto simp: conn_def known_def simp del: map_of_map_entry)
  have known2: "known w2 c" "known w1 c" using assms(2) by (simp_all add: w2_def w1_def)
  have conn3: "cn_interface_index (conn w3 c) = i" "cn_is_default (conn w3 c) = cn_is_default (conn w c)"
    "cn_table_id (conn w3 c) = (if user_traffic_only props then kSecondaryTableId else RT_TABLE_MAIN)" "known w3 c"
    "table_of (cw_table w3) i = table_of (cw_table w) i"
    using same3 known2 assms(2,3) table3 by (auto simp: w2_def w1_def conn_upd_conn)
  let ?broadcast = "if broadcast_address props = [] then
      if peer_address props = [] then map_option (Pair True) (GetDefaultBroadcast local) else Some (True, empty)
    else Some (SetAddressFromString (ce_inet_pton E) empty (broadcast_address props))"
  have pin: "\<exists>v. PinHostRoute E c trusted_ip gateway v' = (True, v)" if "IsValid trusted_ip" for v'
    using PinHostRoute_effect(1) [OF assms(5) that, of c gateway v'] by (metis prod.collapse)
  have peer: "(if peer_address props = [] then (True, empty)
      else SetAddressFromString (ce_inet_pton E) empty (peer_address props)) = (True, peer)" using named by blast
  have eq: "UpdateFromIPConfig E c props rpc w = do {
      (broadcast_ok, broadcast) \<leftarrow> ?broadcast;
      if \<not> broadcast_ok then Some w3 else install_addresses E c props rpc local broadcast peer gateway trusted_ip w3 }"
  proof (cases "exclusion_list props")
    case Nil
    then show ?thesis using named
      by (simp add: UpdateFromIPConfig_def Let_def peer l w3_def w2_def w1_def flip: empty_def cong: if_cong)
  next
    case (Cons first rest)
    moreover from this named obtain v where "PinHostRoute E c trusted_ip gateway
        (upd_conn c (cn_excluded_ips_cidr_update (\<lambda>_. rest)) w2) = (True, v)" using pin by fastforce
    ultimately show ?thesis using named
      by (simp add: UpdateFromIPConfig_def Let_def peer l w3_def w2_def w1_def flip: empty_def cong: if_cong)
  qed
  obtain broadcast where inst: "install_addresses E c props rpc local broadcast peer gateway trusted_ip w3 = Some w'"
  proof -
    obtain ok broadcast where "?broadcast = Some (ok, broadcast)" "ok"
      using assms(1) named unfolding eq by (cases "broadcast_address props = []")
        (auto simp: bind_eq_Some_conv split: if_splits prod.splits)
    with assms(1) that [of broadcast] show thesis unfolding eq by simp
  qed
  with conn3 show ?thesis by blast
qed

text \<open>
  C23: let a configuration be accepted (its gateway, its address and whatever peer, broadcast and first excluded
  address it names can be parsed: \<open>names_addresses\<close>; with or without an exclusion list), let it ask for a default
  route, over a gateway that is not the zero address, and let the kernel take what is sent. If the interface has no
  default route of that family yet, or its old addresses have to be flushed, then its default route goes over that
  gateway (over no address when the gateway of a VPN is its peer and excluded address: \<open>used_gateway\<close>), with the
  metric of the connection (1 for the default connection, 10 plus the interface index otherwise) and in the table of
  the configuration, and none of the routes that the configuration adds replaces it; the connection remembers its
  address and that gateway, and that it has a broadcast domain exactly if the configuration names no peer.
  (Where a default route is already there and stays, \<open>SetDefaultRoute_settles\<close> says what becomes of it.)
\<close>

theorem UpdateFromIPConfig_default_route:
  assumes "UpdateFromIPConfig E c props rpc w = Some w'" "known w c" "i = cn_interface_index (conn w c)"
    and "names_addresses E props gateway local peer trusted_ip"
    and "\<not> IsDefault gateway" "default_route props" "sends_succeed (ce_rtnl E)"
    and "ce_has_other_address E i local \<or> find_default (family gateway) (table_of (cw_table w) i) = None"
  shows "(\<exists>e. GetDefaultRoute (cw_table w') i (family gateway) = Some e \<and>
      te_gateway e = used_gateway gateway peer trusted_ip \<and>
      te_metric e = (if cn_is_default (conn w c) then 1 else 10 + i) \<and>
      te_table e = (if user_traffic_only props then kSecondaryTableId else RT_TABLE_MAIN)) \<and>
    cn_local (conn w' c) = local \<and> cn_gateway (conn w' c) = used_gateway gateway peer trusted_ip \<and>
    (cn_has_broadcast_domain (conn w' c) \<longleftrightarrow> \<not> IsValid peer)"
proof -
  obtain broadcast w3 where inst: "install_addresses E c props rpc local broadcast peer gateway trusted_ip w3 = Some w'"
    and w3: "cn_interface_index (conn w3 c) = i" "cn_is_default (conn w3 c) = cn_is_default (conn w c)"
      "cn_table_id (conn w3 c) = (if user_traffic_only props then kSecondaryTableId else RT_TABLE_MAIN)" "known w3 c"
      "table_of (cw_table w3) i = table_of (cw_table w) i"
    using UpdateFromIPConfig_installs [OF assms(1-4,7)] by blast
  have "IsValid gateway" using assms(4) by (simp add: names_addresses_def Let_def)
  note inst = install_addresses_effect [OF inst w3(4) this assms(5-7) w3(1) [symmetric] refl, unfolded w3(5),
      OF assms(8), unfolded GetMetric_def kDefaultMetric_def kNonDefaultMetricBase_def w3(1-3)]
  show ?thesis using inst by blast
qed

definition sample_props :: ip_properties where
  "sample_props = default_properties\<lparr>address_family := kFamilyIPv4, p_address := ''10.0.0.2'', subnet_prefix := 24,
     p_gateway := ''10.0.0.1'', peer_address := ''10.0.0.1''\<rparr>"

definition new_world :: conn_world where
  "new_world = sample_world\<lparr>cw_table := RoutingTable_new\<rparr>"

lemma new_world_updates: "\<not> Option.is_none (UpdateFromIPConfig sample_conn_env 4 sample_props [] new_world)"
  by code_simp

lemma UpdateFromIPConfig_default_route_witness:
  "\<exists>w' e. UpdateFromIPConfig sample_conn_env 4 sample_props [] new_world = Some w' \<and>
     GetDefaultRoute (cw_table w') 2 kFamilyIPv4 = Some e \<and> address (te_gateway e) = [10, 0, 0, 1] \<and> te_metric e = 12 \<and>
     te_table e = RT_TABLE_MAIN \<and> \<not> cn_has_broadcast_domain (conn w' 4)"
proof -
  obtain w' where w': "UpdateFromIPConfig sample_conn_env 4 sample_props [] new_world = Some w'"
    using new_world_updates by (cases "UpdateFromIPConfig sample_conn_env 4 sample_props [] new_world") auto
  have new: "conn new_world 4 = Connection_new 2" "known new_world 4" "table_of (cw_table new_world) 2 = []"
    by (simp_all add: new_world_def sample_world_def conn_def known_def RoutingTable_new_def table_of_def)
  let ?blank = "IPAddress_family kFamilyIPv4"
  let ?gateway = "?blank\<lparr>address := [10, 0, 0, 1]\<rparr>"
  have valid: "IsValid ?gateway" "\<not> IsDefault ?gateway" "\<not> IsValid ?blank" "\<not> HasSameAddressAs ?gateway ?blank"
    "family ?gateway = kFamilyIPv4"
    by (simp_all add: IsValid_def IPAddress_family_def GetLength_def GetAddressLength_def family_consts IsDefault_def
        HasSameAddressAs_def Equals_def)
  have props: "default_route sample_props" "user_traffic_only sample_props = False"
    by (simp_all add: sample_props_def default_properties_def)
  have sends: "sends_succeed (ce_rtnl sample_conn_env)" by (simp add: sends_succeed_def sample_conn_env_def sample_env_def)
  have named: "names_addresses sample_conn_env sample_props ?gateway
      (?blank\<lparr>address := [10, 0, 0, 2], ip_prefix := 24\<rparr>) ?gateway ?blank"
    using valid(1)
    by (simp add: names_addresses_def sample_props_def default_properties_def SetAddressFromString_def
        sample_conn_env_def IPAddress_family_def GetAddressLength_def family_consts)
  have "find_default kFamilyIPv4 (table_of (cw_table new_world) 2) = None" by (simp add: new)
  then show ?thesis
    using UpdateFromIPConfig_default_route [OF w' new(2) _ named valid(2) props(1) sends, of 2] w' valid
    by (auto simp: new Connection_new_def props used_gateway_def)
qed

text \<open>
  \<open>SetMTU\<close> asks for the family of the address the connection had before this configuration: a new connection
  that gets an IPv6 configuration keeps an MTU of 600, which is below the IPv6 minimum.
\<close>

lemma SetMTU_old_family:
  assumes "conn w c = Connection_new i"
  shows "SetMTU E c 600 w = map_option (\<lambda>h. w\<lparr>cw_rtnl := h\<rparr>) (SetInterfaceMTU (ce_rtnl E) i 600 (cw_rtnl w))"
  by (simp add: SetMTU_def assms Connection_new_def IsIPv6_def IPAddress_family_def family_consts kUndefinedMTU_def
      kMinIPv4MTU_def)

end
