(* ===== verification/Hook_Table.thy ===== *)
theory Hook_Table
  imports Prelude Shill_Error "HOL-Library.List_Lexorder" "HOL-Library.Char_ord"
begin

text \<open>
  Models of \<open>hook_table.cc\<close> and \<open>result_aggregator.cc\<close>: two ways to wait for several asynchronous actions with
  a time limit. Callbacks are numbers; what a callback does to the table when it is run is an argument,
  \<open>start\<close> for the actions and \<open>done_cb\<close> for the final callback, because both may call back into the table. Runs
  of the final callback are recorded in the state.
\<close>

subsection \<open>The hook table\<close>

record hook_action =
  ha_start_callback :: nat
  ha_started :: bool
  ha_completed :: bool

definition HookAction_new :: "nat \<Rightarrow> hook_action" where
  "HookAction_new f = \<lparr>ha_start_callback = f, ha_started = False, ha_completed = False\<rparr>"

text \<open>The map is in the order of its keys; \<open>ht_timeout\<close> is the delay of the pending timeout task.\<close>

record hook_table =
  ht_hook_table :: "(string \<times> hook_action) list"
  ht_done_callback :: "nat option"
  ht_timeout :: "int option"
  ht_results :: "(nat \<times> error_type) list"

definition HookTable_new :: hook_table where
  "HookTable_new = \<lparr>ht_hook_table = [], ht_done_callback = None, ht_timeout = None, ht_results = []\<rparr>"

definition Hook_Remove :: "string \<Rightarrow> hook_table \<Rightarrow> hook_table" where
  "Hook_Remove name h = h\<lparr>ht_hook_table := filter (\<lambda>a. fst a \<noteq> name) (ht_hook_table h)\<rparr>"

definition Hook_Add :: "string \<Rightarrow> nat \<Rightarrow> hook_table \<Rightarrow> hook_table" where
  "Hook_Add name start_callback h =
     (let h = Hook_Remove name h
      in h\<lparr>ht_hook_table := insort_key fst (name, HookAction_new start_callback) (ht_hook_table h)\<rparr>)"

definition AllActionsComplete :: "hook_table \<Rightarrow> bool" where
  "AllActionsComplete h \<longleftrightarrow> (\<forall>a \<in> set (ht_hook_table h). ha_started (snd a) \<longrightarrow> ha_completed (snd a))"

type_synonym done_runner = "nat \<Rightarrow> error_type \<Rightarrow> hook_table \<Rightarrow> hook_table"

text \<open>\<open>done_callback_.Run(error)\<close>: it is recorded, then it does what it does.\<close>

definition run_done :: "done_runner \<Rightarrow> nat \<Rightarrow> error_type \<Rightarrow> hook_table \<Rightarrow> hook_table" where
  "run_done done_cb d e h = done_cb d e (h\<lparr>ht_results := ht_results h @ [(d, e)]\<rparr>)"

definition mark_completed :: "string \<Rightarrow> hook_table \<Rightarrow> hook_table" where
  "mark_completed name h =
     h\<lparr>ht_hook_table := map (\<lambda>(n, a).
         if n = name \<and> ha_started a \<and> \<not> ha_completed a then (n, a\<lparr>ha_completed := True\<rparr>) else (n, a)) (ht_hook_table h)\<rparr>"

definition ActionComplete :: "done_runner \<Rightarrow> string \<Rightarrow> hook_table \<Rightarrow> hook_table" where
  "ActionComplete done_cb name h =
     (let h = mark_completed name h
      in case ht_done_callback h of
           Some d \<Rightarrow>
             if AllActionsComplete h
             then (run_done done_cb d kSuccess (h\<lparr>ht_timeout := None\<rparr>))\<lparr>ht_done_callback := None\<rparr>
             else h
         | None \<Rightarrow> h)"

text \<open>Marking all actions as started, and starting them in the order of their names.\<close>

definition mark_started :: "int \<Rightarrow> nat \<Rightarrow> hook_table \<Rightarrow> hook_table" where
  "mark_started timeout_ms d h =
     h\<lparr>ht_done_callback := Some d, ht_timeout := Some timeout_ms,
       ht_hook_table := map (\<lambda>(n, a). (n, a\<lparr>ha_started := True, ha_completed := False\<rparr>)) (ht_hook_table h)\<rparr>"

definition Hook_Run :: "(nat \<Rightarrow> hook_table \<Rightarrow> hook_table) \<Rightarrow> done_runner \<Rightarrow> int \<Rightarrow> nat \<Rightarrow> hook_table \<Rightarrow> hook_table" where
  "Hook_Run start done_cb timeout_ms d h =
     (if ht_hook_table h = [] then run_done done_cb d kSuccess h
      else fold start (map (\<lambda>a. ha_start_callback (snd a)) (ht_hook_table h)) (mark_started timeout_ms d h))"

text \<open>The timeout task; \<open>None\<close> is a run of the null callback.\<close>

definition ActionsTimedOut :: "done_runner \<Rightarrow> hook_table \<Rightarrow> hook_table option" where
  "ActionsTimedOut done_cb h =
     map_option (\<lambda>d. (run_done done_cb d kOperationTimeout (h\<lparr>ht_timeout := None\<rparr>))\<lparr>ht_done_callback := None\<rparr>)
       (ht_done_callback h)"

text \<open>What may happen to a table between two calls of \<open>Run\<close>.\<close>

inductive edit :: "hook_table \<Rightarrow> hook_table \<Rightarrow> bool" where
  "edit h (Hook_Add name f h)"
| "edit h (Hook_Remove name h)"

inductive hook_call :: "done_runner \<Rightarrow> hook_table \<Rightarrow> hook_table \<Rightarrow> bool" for done_cb where
  "edit h h' \<Longrightarrow> hook_call done_cb h h'"
| "hook_call done_cb h (ActionComplete done_cb name h)"

inductive hook_step :: "done_runner \<Rightarrow> hook_table \<Rightarrow> hook_table \<Rightarrow> bool" for done_cb where
  "hook_call done_cb h h' \<Longrightarrow> hook_step done_cb h h'"
| "ht_timeout h \<noteq> None \<Longrightarrow> ActionsTimedOut done_cb h = Some h' \<Longrightarrow> hook_step done_cb h h'"

text \<open>
  The final callback only adds and removes actions, and the start callbacks may also complete actions: no
  callback runs the table again.
\<close>

definition callbacks_ok :: "(nat \<Rightarrow> hook_table \<Rightarrow> hook_table) \<Rightarrow> done_runner \<Rightarrow> bool" where
  "callbacks_ok start done_cb \<longleftrightarrow>
     (\<forall>d e h. edit\<^sup>*\<^sup>* h (done_cb d e h)) \<and> (\<forall>f h. (hook_call done_cb)\<^sup>*\<^sup>* h (start f h))"

lemma edits_keep:
  assumes "edit\<^sup>*\<^sup>* h h'"
  shows "ht_done_callback h' = ht_done_callback h \<and> ht_timeout h' = ht_timeout h \<and> ht_results h' = ht_results h"
  using assms by induction (auto elim!: edit.cases simp: Hook_Add_def Hook_Remove_def Let_def)

text \<open>The run with final callback \<open>d\<close> that began in state \<open>h0\<close> with results \<open>rs\<close> is pending or answered.\<close>

definition run_state :: "done_runner \<Rightarrow> hook_table \<Rightarrow> nat \<Rightarrow> (nat \<times> error_type) list \<Rightarrow> hook_table \<Rightarrow> bool" where
  "run_state done_cb h0 d rs h \<longleftrightarrow> (hook_step done_cb)\<^sup>*\<^sup>* h0 h \<and>
     (ht_done_callback h = Some d \<and> ht_timeout h \<noteq> None \<and> ht_results h = rs \<or>
      ht_done_callback h = None \<and> ht_timeout h = None \<and>
        (ht_results h = rs @ [(d, kOperationTimeout)] \<or>
         ht_results h = rs @ [(d, kSuccess)] \<and>
           (\<exists>h1 name. (hook_step done_cb)\<^sup>*\<^sup>* h0 h1 \<and> ht_results h1 = rs \<and>
              AllActionsComplete (mark_completed name h1))))"

lemma mark_completed_fields [simp]:
  "ht_done_callback (mark_completed name h) = ht_done_callback h" "ht_timeout (mark_completed name h) = ht_timeout h"
  "ht_results (mark_completed name h) = ht_results h"
  by (simp_all add: mark_completed_def)

lemma run_state_step:
  assumes "run_state done_cb h0 d rs h" "hook_step done_cb h h'" "\<forall>d e h. edit\<^sup>*\<^sup>* h (done_cb d e h)"
  shows "run_state done_cb h0 d rs h'"
proof -
  have reach: "(hook_step done_cb)\<^sup>*\<^sup>* h0 h" and reach': "(hook_step done_cb)\<^sup>*\<^sup>* h0 h'"
    using assms(1,2) by (auto simp: run_state_def intro: rtranclp.rtrancl_into_rtrancl)
  note keep = edits_keep [OF assms(3) [rule_format]]
  show ?thesis using assms(2)
  proof (cases rule: hook_step.cases)
    case 1
    then show ?thesis
    proof (cases rule: hook_call.cases)
      case 1
      then have "edit\<^sup>*\<^sup>* h h'" by blast
      from edits_keep [OF this] assms(1) reach' show ?thesis by (auto simp: run_state_def)
    next
      case (2 name)
      show ?thesis
      proof (cases "ht_done_callback h = Some d \<and> AllActionsComplete (mark_completed name h)")
        case True
        then have "ht_results h = rs" using assms(1) by (auto simp: run_state_def)
        then show ?thesis using True 2 reach reach' keep
          by (simp add: run_state_def ActionComplete_def Let_def run_done_def) blast
      next
        case False
        then show ?thesis using assms(1) 2 reach'
          by (auto simp: run_state_def ActionComplete_def Let_def)
      qed
    qed
  next
    case 2
    then show ?thesis using assms(1) reach' keep
      by (auto simp: run_state_def ActionsTimedOut_def run_done_def)
  qed
qed

lemma run_state_steps:
  assumes "(hook_step done_cb)\<^sup>*\<^sup>* h h'" "run_state done_cb h0 d rs h" "\<forall>d e h. edit\<^sup>*\<^sup>* h (done_cb d e h)"
  shows "run_state done_cb h0 d rs h'"
  using assms by induction (auto intro: run_state_step)

lemma calls_are_steps: "(hook_call done_cb)\<^sup>*\<^sup>* h h' \<Longrightarrow> (hook_step done_cb)\<^sup>*\<^sup>* h h'"
  by (induction rule: rtranclp_induct) (auto intro: hook_step.intros rtranclp.rtrancl_into_rtrancl)

lemma starts_are_steps:
  assumes "\<forall>f h. (hook_call done_cb)\<^sup>*\<^sup>* h (start f h)"
  shows "(hook_step done_cb)\<^sup>*\<^sup>* h (fold start fs h)"
proof (induction fs arbitrary: h)
  case (Cons f fs)
  have "(hook_step done_cb)\<^sup>*\<^sup>* h (start f h)" using assms calls_are_steps by blast
  with Cons.IH [of "start f h"] show ?case by simp
qed simp

text \<open>
  However the actions complete, in line or later, in any order and with actions added and removed in
  between, \<open>Run\<close> with a nonempty table answers its caller at most once; it stays pending with its timer set
  until it has answered, so that the timer answers it otherwise; and the answer is success only when every
  started action that is still in the table has completed.
\<close>

theorem hook_run_answers_once:
  assumes "callbacks_ok start done_cb" "ht_hook_table h \<noteq> []"
    and "(hook_step done_cb)\<^sup>*\<^sup>* (Hook_Run start done_cb timeout_ms d h) h'"
  shows "run_state done_cb (mark_started timeout_ms d h) d (ht_results h) h' \<and>
    (ht_done_callback h' = Some d \<longrightarrow>
      (\<exists>h''. ActionsTimedOut done_cb h' = Some h'' \<and> ht_results h'' = ht_results h @ [(d, kOperationTimeout)]))"
proof -
  let ?m = "mark_started timeout_ms d h"
  have "run_state done_cb ?m d (ht_results h) ?m" by (simp add: run_state_def mark_started_def)
  moreover have "(hook_step done_cb)\<^sup>*\<^sup>* ?m (Hook_Run start done_cb timeout_ms d h)"
    using starts_are_steps [of done_cb start] assms(1,2) by (simp add: Hook_Run_def callbacks_ok_def)
  ultimately have "run_state done_cb ?m d (ht_results h) h'"
    using run_state_steps assms(1,3) by (meson callbacks_ok_def rtranclp_trans)
  moreover from this have "\<exists>h''. ActionsTimedOut done_cb h' = Some h'' \<and> ht_results h'' = ht_results h @ [(d, kOperationTimeout)]"
    if "ht_done_callback h' = Some d"
  proof -
    have "edit\<^sup>*\<^sup>* h (done_cb d e h)" for d e h using assms(1) by (simp add: callbacks_ok_def)
    from edits_keep [OF this] show ?thesis
      using that \<open>run_state done_cb ?m d (ht_results h) h'\<close>
      by (auto simp: run_state_def ActionsTimedOut_def run_done_def)
  qed
  ultimately show ?thesis by blast
qed

text \<open>Two actions, the first of which completes while it is started.\<close>

definition sample_hooks :: hook_table where
  "sample_hooks = Hook_Add ''network'' 1 (Hook_Add ''modem'' 2 HookTable_new)"

definition sample_start :: "nat \<Rightarrow> hook_table \<Rightarrow> hook_table" where
  "sample_start f h = (if f = 1 then ActionComplete (\<lambda>_ _ h. h) ''network'' h else h)"

definition sample_finished :: hook_table where
  "sample_finished = ActionComplete (\<lambda>_ _ h. h) ''modem'' (Hook_Run sample_start (\<lambda>_ _ h. h) 5000 9 sample_hooks)"

lemma hook_run_answers_once_witness:
  "run_state (\<lambda>_ _ h. h) (mark_started 5000 9 sample_hooks) 9 (ht_results sample_hooks) sample_finished \<and>
   ht_results sample_finished = [(9, kSuccess)]"
proof -
  have ok: "callbacks_ok sample_start (\<lambda>_ _ h. h)"
    by (auto simp: callbacks_ok_def sample_start_def intro: hook_call.intros)
  have ne: "ht_hook_table sample_hooks \<noteq> []" by (simp add: sample_hooks_def Hook_Add_def Let_def)
  have "(hook_step (\<lambda>_ _ h. h))\<^sup>*\<^sup>* (Hook_Run sample_start (\<lambda>_ _ h. h) 5000 9 sample_hooks) sample_finished"
    unfolding sample_finished_def by (intro r_into_rtranclp hook_step.intros(1) hook_call.intros(2))
  moreover have "ht_results sample_finished = [(9, kSuccess)]" by code_simp
  ultimately show ?thesis using hook_run_answers_once [OF ok ne] by blast
qed

subsection \<open>The result aggregator\<close>

text \<open>
  \<open>ra_calls\<close> records the runs of the callback. Losing the last reference runs the destructor. \<open>None\<close> is a
  failed \<open>CHECK\<close>.
\<close>

record result_aggregator =
  ra_got_result :: bool
  ra_timed_out :: bool
  ra_error :: shill_error
  ra_calls :: "shill_error list"

definition ResultAggregator_new :: result_aggregator where
  "ResultAggregator_new = \<lparr>ra_got_result = False, ra_timed_out = False, ra_error = no_error, ra_calls = []\<rparr>"

definition ReportResult :: "shill_error \<Rightarrow> result_aggregator \<Rightarrow> result_aggregator option" where
  "ReportResult e r =
     (if err_type e = kOperationInitiated then None
      else
        let r = r\<lparr>ra_got_result := True\<rparr>
        in if IsSuccess (ra_error r) then map_option (\<lambda>x. r\<lparr>ra_error := x\<rparr>) (CopyFrom (ra_error r) e) else Some r)"

definition Aggregator_Timeout :: "result_aggregator \<Rightarrow> result_aggregator option" where
  "Aggregator_Timeout r = do {
     e \<leftarrow> Populate kOperationTimeout (ra_error r);
     Some (r\<lparr>ra_timed_out := True, ra_error := e, ra_calls := ra_calls r @ [e]\<rparr>)
   }"

definition Aggregator_destroy :: "result_aggregator \<Rightarrow> result_aggregator" where
  "Aggregator_destroy r =
     (if ra_got_result r \<and> \<not> ra_timed_out r then r\<lparr>ra_calls := ra_calls r @ [ra_error r]\<rparr> else r)"

fun report_all :: "shill_error list \<Rightarrow> result_aggregator \<Rightarrow> result_aggregator option" where
  "report_all [] r = Some r"
| "report_all (e # es) r = do {
     r \<leftarrow> ReportResult e r;
     report_all es r
   }"

text \<open>The results that may be reported, and the first failure among them.\<close>

definition reportable :: "shill_error \<Rightarrow> bool" where
  "reportable e \<longleftrightarrow> err_type e \<notin> {kOperationInitiated, kNumErrors}"

definition first_failure :: "shill_error list \<Rightarrow> shill_error option" where
  "first_failure es = find (\<lambda>e. \<not> IsSuccess e) es"

lemma report_all_effect:
  assumes "\<forall>e \<in> set es. reportable e"
  shows "\<exists>r'. report_all es r = Some r' \<and> ra_got_result r' = (ra_got_result r \<or> es \<noteq> []) \<and>
    ra_timed_out r' = ra_timed_out r \<and> ra_calls r' = ra_calls r \<and>
    (if IsSuccess (ra_error r)
     then (case first_failure es of Some e \<Rightarrow> ra_error r' = e | None \<Rightarrow> IsSuccess (ra_error r'))
     else ra_error r' = ra_error r)"
  using assms
proof (induction es arbitrary: r)
  case Nil
  then show ?case by (simp add: first_failure_def)
next
  case (Cons e es)
  have e: "err_type e \<noteq> kOperationInitiated" "err_type e \<noteq> kNumErrors" using Cons.prems by (auto simp: reportable_def)
  let ?r = "(r\<lparr>ra_got_result := True\<rparr>)\<lparr>ra_error := (if IsSuccess (ra_error r) then e else ra_error r)\<rparr>"
  have "ReportResult e r = Some ?r"
    using e by (simp add: ReportResult_def CopyFrom_def Populate_message_def Let_def)
  moreover obtain r' where "report_all es ?r = Some r'" "ra_got_result r'" "ra_timed_out r' = ra_timed_out r"
    "ra_calls r' = ra_calls r"
    "if IsSuccess (ra_error ?r)
     then (case first_failure es of Some e \<Rightarrow> ra_error r' = e | None \<Rightarrow> IsSuccess (ra_error r'))
     else ra_error r' = ra_error ?r"
    using Cons.IH [of ?r] Cons.prems by auto
  ultimately show ?case by (auto simp: first_failure_def split: if_splits)
qed

text \<open>
  The callback of an aggregator runs exactly once when anything is reported: when the time is up, with
  the timeout and never again; otherwise when the last reference goes, with the first failure reported,
  or with success if there is none. If nothing was reported and the time was not up, it does not run.
\<close>

theorem aggregator_runs_once:
  assumes "\<forall>e \<in> set (es @ late). reportable e"
    and "report_all es ResultAggregator_new = Some r"
  shows "(es = [] \<longrightarrow> ra_calls (Aggregator_destroy r) = []) \<and>
    (es \<noteq> [] \<longrightarrow> (\<exists>e. ra_calls (Aggregator_destroy r) = [e] \<and>
       (case first_failure es of Some f \<Rightarrow> e = f | None \<Rightarrow> IsSuccess e))) \<and>
    (\<exists>r1 r2 e. Aggregator_Timeout r = Some r1 \<and> report_all late r1 = Some r2 \<and>
       ra_calls (Aggregator_destroy r2) = [e] \<and> err_type e = kOperationTimeout)"
proof -
  have new: "\<not> ra_got_result ResultAggregator_new" "\<not> ra_timed_out ResultAggregator_new" "ra_calls ResultAggregator_new = []"
    "IsSuccess (ra_error ResultAggregator_new)"
    by (simp_all add: ResultAggregator_new_def IsSuccess_def no_error_def)
  have r: "ra_got_result r = (es \<noteq> [])" "\<not> ra_timed_out r" "ra_calls r = []"
    "case first_failure es of Some e \<Rightarrow> ra_error r = e | None \<Rightarrow> IsSuccess (ra_error r)"
    using report_all_effect [of es ResultAggregator_new] assms new by auto
  obtain e where e: "Populate kOperationTimeout (ra_error r) = Some e" "err_type e = kOperationTimeout"
    by (simp add: Populate_def Populate_message_def)
  let ?r1 = "r\<lparr>ra_timed_out := True, ra_error := e, ra_calls := [e]\<rparr>"
  have "Aggregator_Timeout r = Some ?r1" using e(1) r(3) by (simp add: Aggregator_Timeout_def)
  moreover obtain r2 where "report_all late ?r1 = Some r2" "ra_timed_out r2" "ra_calls r2 = [e]"
    using report_all_effect [of late ?r1] assms(1) by auto
  ultimately show ?thesis using r e(2) by (auto simp: Aggregator_destroy_def)
qed

lemma aggregator_runs_once_witness:
  "\<exists>r. report_all [no_error, \<lparr>err_type = kNotConnected, err_message = []\<rparr>, \<lparr>err_type = kInternalError, err_message = []\<rparr>]
     ResultAggregator_new = Some r \<and> (\<exists>e. ra_calls (Aggregator_destroy r) = [e] \<and> err_type e = kNotConnected)"
proof -
  let ?es = "[no_error, \<lparr>err_type = kNotConnected, err_message = []\<rparr>, \<lparr>err_type = kInternalError, err_message = []\<rparr>]"
  have ok: "\<forall>e \<in> set (?es @ []). reportable e" by (simp add: reportable_def no_error_def)
  then obtain r where r: "report_all ?es ResultAggregator_new = Some r"
    using report_all_effect [of ?es ResultAggregator_new] by auto
  moreover have "first_failure ?es = Some \<lparr>err_type = kNotConnected, err_message = []\<rparr>"
    by (simp add: first_failure_def no_error_def IsSuccess_def)
  ultimately show ?thesis using aggregator_runs_once [OF ok r] by auto
qed

end
