(* ===== verification/Netlink_Attribute.thy ===== *)
theory Netlink_Attribute
  imports Byte_String
begin

text \<open>
  Models of \<open>net/netlink_attribute.cc\<close> and \<open>net/attribute_list.cc\<close>: the typed attributes that generic netlink
  messages are made of, nested to any depth, and their encoding as a sequence of \<open>struct nlattr\<close>. An
  \<open>AttributeList\<close> is a \<open>std::map\<close>: a list sorted by attribute id. The strings that only name attributes in log
  messages, and the operations that print, are left out. Strings are lists of bytes. \<open>None\<close>, of a function whose
  C++ counterpart always returns, is a read outside the buffer or a \<open>LOG(FATAL)\<close>.
\<close>

subsection \<open>Memory\<close>

definition mem64 :: "endian \<Rightarrow> u64 \<Rightarrow> bytes" where
  "mem64 e w = (let lo = ucast w :: u32; hi = ucast (drop_bit 32 w) :: u32
     in case e of LittleEndian \<Rightarrow> mem32 e lo @ mem32 e hi | BigEndian \<Rightarrow> mem32 e hi @ mem32 e lo)"

definition load64 :: "endian \<Rightarrow> bytes \<Rightarrow> u64" where
  "load64 e bs = (let a = load32 e (take 4 bs); b = load32 e (drop 4 bs); (lo, hi) = (case e of LittleEndian \<Rightarrow> (a, b) | BigEndian \<Rightarrow> (b, a))
     in push_bit 32 (ucast hi) OR ucast lo)"

lemma length_mem64 [simp]: "length (mem64 e w) = 8"
  by (simp add: mem64_def Let_def split: endian.split)

lemma load64_mem64 [simp]: "load64 e (mem64 e w) = w"
proof -
  have "push_bit 32 (ucast (ucast (drop_bit 32 w) :: u32)) OR ucast (ucast w :: u32) = w"
    by (rule bit_word_eqI) (auto simp: bit_simps)
  then show ?thesis by (cases e) (simp_all add: mem64_def load64_def Let_def)
qed

definition read_bytes :: "bytes \<Rightarrow> nat \<Rightarrow> nat \<Rightarrow> bytes option" where
  "read_bytes buf pos n = (if pos + n \<le> length buf then Some (take n (drop pos buf)) else None)"

definition read16 :: "endian \<Rightarrow> bytes \<Rightarrow> nat \<Rightarrow> u16 option" where
  "read16 e buf pos = map_option (load16 e) (read_bytes buf pos 2)"

definition NLA_HDRLEN :: nat where "NLA_HDRLEN = 4"

definition NLA_ALIGN :: "nat \<Rightarrow> nat" where "NLA_ALIGN n = 4 * ((n + 3) div 4)"

lemma NLA_ALIGN_bounds: "n \<le> NLA_ALIGN n" "NLA_ALIGN n < n + 4"
  by (simp_all add: NLA_ALIGN_def)

lemma NLA_ALIGN_simps [simp]: "NLA_ALIGN 0 = 0" "NLA_ALIGN (NLA_ALIGN n) = NLA_ALIGN n" "NLA_ALIGN (4 + n) = 4 + NLA_ALIGN n"
  unfolding NLA_ALIGN_def by presburger+

subsection \<open>Attributes\<close>

datatype nl_type = kTypeU8 | kTypeU16 | kTypeU32 | kTypeU64 | kTypeFlag | kTypeString | kTypeNested | kTypeRaw | kTypeError

text \<open>\<open>NestedData\<close>; the only custom parser in the sources is \<open>Nl80211AttributeBss::ParseInformationElements\<close>.\<close>

datatype attribute_parser = ParseIE

datatype nested_data = NestedData
  (nd_type: nl_type) (nd_is_array: bool) (nd_parser: "attribute_parser option") (nd_deeper: "(int \<times> nested_data) list")

text \<open>
  An object of a subclass of \<open>NetlinkAttribute\<close>: \<open>id_\<close>, \<open>has_a_value_\<close>, \<open>data_\<close>, and \<open>value_\<close> of the
  subclass, whose initial content is never read before \<open>has_a_value_\<close> is set and is zero here. A nested
  attribute has its \<open>nested_template_\<close> and its list.
\<close>

datatype nl_attr = NlAttr (at_id: int) (at_has_a_value: bool) (at_data: bytes) (at_value: nl_value)
and nl_value =
    NlU8 u8 | NlU16 u16 | NlU32 u32 | NlU64 u64 | NlFlag bool | NlString bytes | NlSsid bytes
  | NlNested "(int \<times> nested_data) list" "(int \<times> nl_attr) list" | NlRaw

type_synonym templates = "(int \<times> nested_data) list"
type_synonym attr_list = "(int \<times> nl_attr) list"

fun datatype_of :: "nl_value \<Rightarrow> nl_type" where
  "datatype_of (NlU8 _) = kTypeU8"
| "datatype_of (NlU16 _) = kTypeU16"
| "datatype_of (NlU32 _) = kTypeU32"
| "datatype_of (NlU64 _) = kTypeU64"
| "datatype_of (NlFlag _) = kTypeFlag"
| "datatype_of (NlString _) = kTypeString"
| "datatype_of (NlSsid _) = kTypeString"
| "datatype_of (NlNested _ _) = kTypeNested"
| "datatype_of NlRaw = kTypeRaw"

definition attr_new :: "int \<Rightarrow> nl_value \<Rightarrow> nl_attr" where
  "attr_new i v = NlAttr i False [] v"

text \<open>Getters: \<open>None\<close> is the result false, for another type or a value that was not set.\<close>

fun GetU8Value :: "nl_attr \<Rightarrow> u8 option" where
  "GetU8Value (NlAttr _ has _ (NlU8 v)) = (if has then Some v else None)"
| "GetU8Value _ = None"

fun GetU16Value :: "nl_attr \<Rightarrow> u16 option" where
  "GetU16Value (NlAttr _ has _ (NlU16 v)) = (if has then Some v else None)"
| "GetU16Value _ = None"

fun GetU32Value :: "nl_attr \<Rightarrow> u32 option" where
  "GetU32Value (NlAttr _ has _ (NlU32 v)) = (if has then Some v else None)"
| "GetU32Value _ = None"

fun GetU64Value :: "nl_attr \<Rightarrow> u64 option" where
  "GetU64Value (NlAttr _ has _ (NlU64 v)) = (if has then Some v else None)"
| "GetU64Value _ = None"

fun GetFlagValue :: "nl_attr \<Rightarrow> bool option" where
  "GetFlagValue (NlAttr _ has _ (NlFlag v)) = Some (if has then v else False)"
| "GetFlagValue _ = None"

fun GetStringValue :: "nl_attr \<Rightarrow> bytes option" where
  "GetStringValue (NlAttr _ has _ (NlString v)) = (if has then Some v else None)"
| "GetStringValue (NlAttr _ has _ (NlSsid v)) = (if has then Some v else None)"
| "GetStringValue _ = None"

fun GetRawValue :: "nl_attr \<Rightarrow> bytes option" where
  "GetRawValue (NlAttr _ has d NlRaw) = (if has then Some d else None)"
| "GetRawValue _ = None"

fun attr_GetNestedAttributeList :: "nl_attr \<Rightarrow> attr_list option" where
  "attr_GetNestedAttributeList (NlAttr _ has _ (NlNested _ l)) = Some l"
| "attr_GetNestedAttributeList _ = None"

fun attr_ConstGetNestedAttributeList :: "nl_attr \<Rightarrow> attr_list option" where
  "attr_ConstGetNestedAttributeList (NlAttr _ has _ (NlNested _ l)) = (if has then Some l else None)"
| "attr_ConstGetNestedAttributeList _ = None"

text \<open>Setters: the result and the attribute afterwards.\<close>

fun SetU8Value :: "u8 \<Rightarrow> nl_attr \<Rightarrow> bool \<times> nl_attr" where
  "SetU8Value v (NlAttr i has d (NlU8 _)) = (True, NlAttr i True d (NlU8 v))"
| "SetU8Value v a = (False, a)"

fun SetU16Value :: "u16 \<Rightarrow> nl_attr \<Rightarrow> bool \<times> nl_attr" where
  "SetU16Value v (NlAttr i has d (NlU16 _)) = (True, NlAttr i True d (NlU16 v))"
| "SetU16Value v a = (False, a)"

fun SetU32Value :: "u32 \<Rightarrow> nl_attr \<Rightarrow> bool \<times> nl_attr" where
  "SetU32Value v (NlAttr i has d (NlU32 _)) = (True, NlAttr i True d (NlU32 v))"
| "SetU32Value v a = (False, a)"

fun SetU64Value :: "u64 \<Rightarrow> nl_attr \<Rightarrow> bool \<times> nl_attr" where
  "SetU64Value v (NlAttr i has d (NlU64 _)) = (True, NlAttr i True d (NlU64 v))"
| "SetU64Value v a = (False, a)"

fun SetFlagValue :: "bool \<Rightarrow> nl_attr \<Rightarrow> bool \<times> nl_attr" where
  "SetFlagValue v (NlAttr i has d (NlFlag _)) = (True, NlAttr i True d (NlFlag v))"
| "SetFlagValue v a = (False, a)"

fun SetStringValue :: "bytes \<Rightarrow> nl_attr \<Rightarrow> bool \<times> nl_attr" where
  "SetStringValue v (NlAttr i has d (NlString _)) = (True, NlAttr i True d (NlString v))"
| "SetStringValue v (NlAttr i has d (NlSsid _)) = (True, NlAttr i True d (NlSsid v))"
| "SetStringValue v a = (False, a)"

fun SetRawValue :: "bytes \<Rightarrow> nl_attr \<Rightarrow> bool \<times> nl_attr" where
  "SetRawValue v (NlAttr i has d NlRaw) = (True, NlAttr i True v NlRaw)"
| "SetRawValue v a = (False, a)"

fun SetNestedHasAValue :: "nl_attr \<Rightarrow> bool \<times> nl_attr" where
  "SetNestedHasAValue (NlAttr i has d (NlNested t l)) = (True, NlAttr i True d (NlNested t l))"
| "SetNestedHasAValue a = (False, a)"

text \<open>What a caller does to the list it got from \<open>GetNestedAttributeList\<close>, which is shared.\<close>

fun set_nested_list :: "attr_list \<Rightarrow> nl_attr \<Rightarrow> nl_attr" where
  "set_nested_list l (NlAttr i has d (NlNested t _)) = NlAttr i has d (NlNested t l)"
| "set_nested_list l a = a"

subsection \<open>Attribute lists\<close>

fun put :: "'k::linorder \<Rightarrow> 'a \<Rightarrow> ('k \<times> 'a) list \<Rightarrow> ('k \<times> 'a) list" where
  "put k a [] = [(k, a)]"
| "put k a ((k', b) # xs) = (if k < k' then (k, a) # (k', b) # xs else if k = k' then (k, a) # xs else (k', b) # put k a xs)"

definition GetAttribute :: "int \<Rightarrow> attr_list \<Rightarrow> nl_attr option" where
  "GetAttribute i l = map_of l i"

definition create :: "int \<Rightarrow> nl_value \<Rightarrow> attr_list \<Rightarrow> bool \<times> attr_list" where
  "create i v l = (if map_of l i \<noteq> None then (False, l) else (True, put i (attr_new i v) l))"

definition CreateU8Attribute :: "int \<Rightarrow> attr_list \<Rightarrow> bool \<times> attr_list" where
  "CreateU8Attribute i = create i (NlU8 0)"

definition CreateU16Attribute :: "int \<Rightarrow> attr_list \<Rightarrow> bool \<times> attr_list" where
  "CreateU16Attribute i = create i (NlU16 0)"

definition CreateU32Attribute :: "int \<Rightarrow> attr_list \<Rightarrow> bool \<times> attr_list" where
  "CreateU32Attribute i = create i (NlU32 0)"

definition CreateU64Attribute :: "int \<Rightarrow> attr_list \<Rightarrow> bool \<times> attr_list" where
  "CreateU64Attribute i = create i (NlU64 0)"

definition CreateFlagAttribute :: "int \<Rightarrow> attr_list \<Rightarrow> bool \<times> attr_list" where
  "CreateFlagAttribute i = create i (NlFlag False)"

definition CreateStringAttribute :: "int \<Rightarrow> attr_list \<Rightarrow> bool \<times> attr_list" where
  "CreateStringAttribute i = create i (NlString [])"

definition CreateSsidAttribute :: "int \<Rightarrow> attr_list \<Rightarrow> bool \<times> attr_list" where
  "CreateSsidAttribute i = create i (NlSsid [])"

definition CreateNestedAttribute :: "int \<Rightarrow> attr_list \<Rightarrow> bool \<times> attr_list" where
  "CreateNestedAttribute i = create i (NlNested [] [])"

definition CreateRawAttribute :: "int \<Rightarrow> attr_list \<Rightarrow> bool \<times> attr_list" where
  "CreateRawAttribute i = create i NlRaw"

definition update :: "int \<Rightarrow> (nl_attr \<Rightarrow> bool \<times> nl_attr) \<Rightarrow> attr_list \<Rightarrow> bool \<times> attr_list" where
  "update i f l =
     (case GetAttribute i l of
        None \<Rightarrow> (False, l)
      | Some a \<Rightarrow> let (ok, a) = f a in (ok, put i a l))"

definition SetU8AttributeValue :: "int \<Rightarrow> u8 \<Rightarrow> attr_list \<Rightarrow> bool \<times> attr_list" where
  "SetU8AttributeValue i v = update i (SetU8Value v)"

definition SetU16AttributeValue :: "int \<Rightarrow> u16 \<Rightarrow> attr_list \<Rightarrow> bool \<times> attr_list" where
  "SetU16AttributeValue i v = update i (SetU16Value v)"

definition SetU32AttributeValue :: "int \<Rightarrow> u32 \<Rightarrow> attr_list \<Rightarrow> bool \<times> attr_list" where
  "SetU32AttributeValue i v = update i (SetU32Value v)"

definition SetU64AttributeValue :: "int \<Rightarrow> u64 \<Rightarrow> attr_list \<Rightarrow> bool \<times> attr_list" where
  "SetU64AttributeValue i v = update i (SetU64Value v)"

definition SetFlagAttributeValue :: "int \<Rightarrow> bool \<Rightarrow> attr_list \<Rightarrow> bool \<times> attr_list" where
  "SetFlagAttributeValue i v = update i (SetFlagValue v)"

definition SetStringAttributeValue :: "int \<Rightarrow> bytes \<Rightarrow> attr_list \<Rightarrow> bool \<times> attr_list" where
  "SetStringAttributeValue i v = update i (SetStringValue v)"

definition SetRawAttributeValue :: "int \<Rightarrow> bytes \<Rightarrow> attr_list \<Rightarrow> bool \<times> attr_list" where
  "SetRawAttributeValue i v = update i (SetRawValue v)"

definition SetNestedAttributeHasAValue :: "int \<Rightarrow> attr_list \<Rightarrow> bool \<times> attr_list" where
  "SetNestedAttributeHasAValue i = update i SetNestedHasAValue"

definition fetch :: "(nl_attr \<Rightarrow> 'a option) \<Rightarrow> int \<Rightarrow> attr_list \<Rightarrow> 'a option" where
  "fetch get i l = Option.bind (GetAttribute i l) get"

definition GetU8AttributeValue :: "int \<Rightarrow> attr_list \<Rightarrow> u8 option" where
  "GetU8AttributeValue = fetch GetU8Value"

definition GetU16AttributeValue :: "int \<Rightarrow> attr_list \<Rightarrow> u16 option" where
  "GetU16AttributeValue = fetch GetU16Value"

definition GetU32AttributeValue :: "int \<Rightarrow> attr_list \<Rightarrow> u32 option" where
  "GetU32AttributeValue = fetch GetU32Value"

definition GetU64AttributeValue :: "int \<Rightarrow> attr_list \<Rightarrow> u64 option" where
  "GetU64AttributeValue = fetch GetU64Value"

definition GetFlagAttributeValue :: "int \<Rightarrow> attr_list \<Rightarrow> bool option" where
  "GetFlagAttributeValue = fetch GetFlagValue"

definition IsFlagAttributeTrue :: "int \<Rightarrow> attr_list \<Rightarrow> bool" where
  "IsFlagAttributeTrue i l = (case GetFlagAttributeValue i l of None \<Rightarrow> False | Some b \<Rightarrow> b)"

definition GetStringAttributeValue :: "int \<Rightarrow> attr_list \<Rightarrow> bytes option" where
  "GetStringAttributeValue = fetch GetStringValue"

definition GetRawAttributeValue :: "int \<Rightarrow> attr_list \<Rightarrow> bytes option" where
  "GetRawAttributeValue = fetch GetRawValue"

definition GetNestedAttributeList :: "int \<Rightarrow> attr_list \<Rightarrow> attr_list option" where
  "GetNestedAttributeList = fetch attr_GetNestedAttributeList"

definition ConstGetNestedAttributeList :: "int \<Rightarrow> attr_list \<Rightarrow> attr_list option" where
  "ConstGetNestedAttributeList = fetch attr_ConstGetNestedAttributeList"

definition put_nested :: "int \<Rightarrow> attr_list \<Rightarrow> attr_list \<Rightarrow> attr_list" where
  "put_nested i inner l = snd (update i (\<lambda>a. (True, set_nested_list inner a)) l)"

subsection \<open>Decoding\<close>

text \<open>\<open>ptr\<close> is the offset from the start of the payload.\<close>

function iterate ::
    "endian \<Rightarrow> (int \<Rightarrow> bytes \<Rightarrow> 's \<Rightarrow> (bool \<times> 's) option) \<Rightarrow> bytes \<Rightarrow> nat \<Rightarrow> 's \<Rightarrow> (bool \<times> 's) option" where
  "iterate e run payload ptr s =
     (if ptr + NLA_HDRLEN \<le> length payload then
        case read16 e payload ptr of None \<Rightarrow> None
        | Some nla_len \<Rightarrow>
            if unat nla_len < NLA_HDRLEN \<or> ptr + unat nla_len > length payload then Some (False, s)
            else
              case read_bytes payload (ptr + NLA_HDRLEN) (unat nla_len - NLA_HDRLEN) of None \<Rightarrow> None
              | Some nl_bytes \<Rightarrow>
                  case read16 e payload (ptr + 2) of None \<Rightarrow> None
                  | Some nla_type \<Rightarrow>
                      case run (uint nla_type) nl_bytes s of None \<Rightarrow> None
                      | Some (ok, s) \<Rightarrow>
                          if ok then iterate e run payload (ptr + NLA_ALIGN (unat nla_len)) s else Some (False, s)
      else Some (True, s))"
  by pat_completeness auto
termination
proof (relation "measure (\<lambda>(e, run, payload, ptr, s). length payload - ptr)", goal_cases)
  case 1
  show ?case by simp
next
  case (2 e run payload ptr s nla_len nl_bytes nla_type p ok s')
  then have "4 \<le> unat nla_len" "ptr + 4 \<le> length payload" by (simp_all add: NLA_HDRLEN_def)
  then show ?case using NLA_ALIGN_bounds(1) [of "unat nla_len"] by simp
qed

declare iterate.simps [simp del]

definition IterateAttributes ::
    "endian \<Rightarrow> (int \<Rightarrow> bytes \<Rightarrow> 's \<Rightarrow> (bool \<times> 's) option) \<Rightarrow> bytes \<Rightarrow> nat \<Rightarrow> 's \<Rightarrow> (bool \<times> 's) option" where
  "IterateAttributes e run payload offset s = iterate e run payload (NLA_ALIGN offset) s"
lemma read_bytes_length: "read_bytes buf pos n = Some v \<Longrightarrow> length v = n \<and> pos + n \<le> length buf"
  by (auto simp: read_bytes_def split: if_splits)

lemma iterate_cong:
  assumes "\<And>i v s. length v + NLA_HDRLEN \<le> length payload \<Longrightarrow> run i v s = run' i v s"
  shows "iterate e run payload ptr s = iterate e run' payload ptr s"
  using assms
proof (induction e run payload ptr s rule: iterate.induct)
  case (1 e run payload ptr s)
  have eq: "run (uint ty) v s = run' (uint ty) v s"
    if "read_bytes payload (ptr + NLA_HDRLEN) n = Some v" for ty v n
    using 1(2) read_bytes_length [OF that] by simp
  show ?case
    by (subst (1 2) iterate.simps)
      (auto simp: eq 1(1) 1(2) split: option.split prod.split if_splits)
qed

lemma IterateAttributes_cong [fundef_cong]:
  assumes "e = e'" "payload = payload'" "offset = offset'" "s = s'"
    and "\<And>i v s. length v + NLA_HDRLEN \<le> length payload' \<Longrightarrow> run i v s = run' i v s"
  shows "IterateAttributes e run payload offset s = IterateAttributes e' run' payload' offset' s'"
  using assms iterate_cong unfolding IterateAttributes_def by metis

text \<open>
  \<open>ParseInformationElements\<close>: the information elements of a beacon, each a type, a length and a payload.
  \<open>sub\<close> is the offset in the data.
\<close>

definition kSsidAttributeId :: int where "kSsidAttributeId = 0"
definition kSupportedRatesAttributeId :: int where "kSupportedRatesAttributeId = 1"
definition kHtCapAttributeId :: int where "kHtCapAttributeId = 45"
definition kExtendedRatesAttributeId :: int where "kExtendedRatesAttributeId = 50"
definition kHtInfoAttributeId :: int where "kHtInfoAttributeId = 61"
definition kVhtCapAttributeId :: int where "kVhtCapAttributeId = 191"
definition kVhtInfoAttributeId :: int where "kVhtInfoAttributeId = 192"

text \<open>The rates, each an attribute whose id is its position.\<close>

fun add_rates :: "int \<Rightarrow> bytes \<Rightarrow> attr_list \<Rightarrow> attr_list" where
  "add_rates i [] l = l"
| "add_rates i (r # rs) l = add_rates (i + 1) rs (snd (SetU8AttributeValue i r (snd (CreateU8Attribute i l))))"

definition add_ie :: "int \<Rightarrow> bytes \<Rightarrow> attr_list \<Rightarrow> attr_list" where
  "add_ie ty payload l =
     (if ty = kSsidAttributeId then
        snd (SetStringAttributeValue ty payload (snd (CreateSsidAttribute ty l)))
      else if ty = kSupportedRatesAttributeId \<or> ty = kExtendedRatesAttributeId then
        let l = snd (CreateNestedAttribute ty l)
        in case GetNestedAttributeList ty l of
             None \<Rightarrow> l
           | Some rates \<Rightarrow> snd (SetNestedAttributeHasAValue ty (put_nested ty (add_rates 0 payload rates) l))
      else if ty \<in> {kHtCapAttributeId, kHtInfoAttributeId, kVhtCapAttributeId, kVhtInfoAttributeId} then
        snd (SetRawAttributeValue ty payload (snd (CreateRawAttribute ty l)))
      else l)"

function parse_ies :: "bytes \<Rightarrow> nat \<Rightarrow> attr_list \<Rightarrow> (bool \<times> attr_list) option" where
  "parse_ies data sub l =
     (if sub + 2 < length data then
        case (read_bytes data sub 1, read_bytes data (sub + 1) 1) of
          (Some [ty], Some [payload_bytes]) \<Rightarrow>
            (if sub + 2 + unat payload_bytes > length data then Some (False, l)
             else
               case read_bytes data (sub + 2) (unat payload_bytes) of
                 None \<Rightarrow> None
               | Some payload \<Rightarrow> parse_ies data (sub + 2 + unat payload_bytes) (add_ie (uint ty) payload l))
        | _ \<Rightarrow> None
      else Some (True, l))"
  by pat_completeness auto
termination by (relation "measure (\<lambda>(data, sub, l). length data - sub)") auto

declare parse_ies.simps [simp del]

definition ParseInformationElements :: "int \<Rightarrow> bytes \<Rightarrow> attr_list \<Rightarrow> (bool \<times> attr_list) option" where
  "ParseInformationElements i data l =
     (let l = snd (CreateNestedAttribute i l)
      in case GetNestedAttributeList i l of
           None \<Rightarrow> Some (False, l)
         | Some ies \<Rightarrow>
             map_option (\<lambda>(ok, ies). (ok, let l = put_nested i ies l in if ok then snd (SetNestedAttributeHasAValue i l) else l))
               (parse_ies data 0 ies))"

fun run_parser :: "attribute_parser \<Rightarrow> int \<Rightarrow> bytes \<Rightarrow> attr_list \<Rightarrow> (bool \<times> attr_list) option" where
  "run_parser ParseIE i data l = ParseInformationElements i data l"

text \<open>The values that need no nesting; the nested ones are in the next function.\<close>

definition c_string :: "bytes \<Rightarrow> bytes" where
  "c_string bs = takeWhile (\<lambda>b. b \<noteq> 0) bs"

text \<open>
  The branches of \<open>InitFromValue\<close> for strings all store the bytes up to the first NUL, or all of them.
\<close>

definition string_of_input :: "bytes \<Rightarrow> bytes" where
  "string_of_input input = (if input = [] then [] else if 0 \<in> set input then c_string input else input)"

fun init_simple :: "endian \<Rightarrow> bytes \<Rightarrow> nl_attr \<Rightarrow> bool \<times> nl_attr" where
  "init_simple e input (NlAttr i has d (NlU8 v)) =
     (case CopyData input 1 of None \<Rightarrow> (False, NlAttr i has d (NlU8 v)) | Some bs \<Rightarrow> (True, NlAttr i True input (NlU8 (hd bs))))"
| "init_simple e input (NlAttr i has d (NlU16 v)) =
     (case CopyData input 2 of None \<Rightarrow> (False, NlAttr i has d (NlU16 v)) | Some bs \<Rightarrow> (True, NlAttr i True input (NlU16 (load16 e bs))))"
| "init_simple e input (NlAttr i has d (NlU32 v)) =
     (case CopyData input 4 of None \<Rightarrow> (False, NlAttr i has d (NlU32 v)) | Some bs \<Rightarrow> (True, NlAttr i True input (NlU32 (load32 e bs))))"
| "init_simple e input (NlAttr i has d (NlU64 v)) =
     (case CopyData input 8 of None \<Rightarrow> (False, NlAttr i has d (NlU64 v)) | Some bs \<Rightarrow> (True, NlAttr i True input (NlU64 (load64 e bs))))"
| "init_simple e input (NlAttr i has d (NlFlag v)) = (True, NlAttr i True input (NlFlag True))"
| "init_simple e input (NlAttr i has d (NlString v)) = (True, NlAttr i True input (NlString (string_of_input input)))"
| "init_simple e input (NlAttr i has d (NlSsid v)) = (True, NlAttr i True input (NlSsid (string_of_input input)))"
| "init_simple e input (NlAttr i has d NlRaw) = (True, NlAttr i True input NlRaw)"
| "init_simple e input (NlAttr i has d (NlNested t l)) = (False, NlAttr i has d (NlNested t l))"

text \<open>
  \<open>AddAttributeToNestedArray\<close> and \<open>AddAttributeToNestedMap\<close> are the two callbacks of \<open>InitNestedFromValue\<close>.
\<close>

definition is_array :: "templates \<Rightarrow> bool" where
  "is_array ts = (length ts = 1 \<and> nd_is_array (snd (hd ts)))"

definition init_in_list :: "endian \<Rightarrow> int \<Rightarrow> bytes \<Rightarrow> attr_list \<Rightarrow> bool \<times> attr_list" where
  "init_in_list e i input = update i (init_simple e input)"

function (sequential) InitNestedFromValue :: "endian \<Rightarrow> templates \<Rightarrow> bytes \<Rightarrow> attr_list \<Rightarrow> (bool \<times> attr_list) option"
  and AddAttributeToNestedInner :: "endian \<Rightarrow> nested_data \<Rightarrow> int \<Rightarrow> bytes \<Rightarrow> attr_list \<Rightarrow> (bool \<times> attr_list) option" where
  "InitNestedFromValue e ts input l =
     (if ts = [] then Some (False, l)
      else if is_array ts
      then IterateAttributes e (\<lambda>i v l. AddAttributeToNestedInner e (snd (hd ts)) i v l) input 0 l
      else IterateAttributes e (\<lambda>i v l. case map_of ts i of None \<Rightarrow> Some (True, l)
             | Some t \<Rightarrow> AddAttributeToNestedInner e t i v l) input 0 l)"
| "AddAttributeToNestedInner e t i v l =
     (case nd_parser t of
        Some p \<Rightarrow> run_parser p i v l
      | None \<Rightarrow>
          (case nd_type t of
             kTypeRaw \<Rightarrow> Some (SetRawAttributeValue i v (snd (CreateRawAttribute i l)))
           | kTypeU8 \<Rightarrow> Some (init_in_list e i v (snd (CreateU8Attribute i l)))
           | kTypeU16 \<Rightarrow> Some (init_in_list e i v (snd (CreateU16Attribute i l)))
           | kTypeU32 \<Rightarrow> Some (init_in_list e i v (snd (CreateU32Attribute i l)))
           | kTypeU64 \<Rightarrow> Some (init_in_list e i v (snd (CreateU64Attribute i l)))
           | kTypeFlag \<Rightarrow> Some (SetFlagAttributeValue i True (snd (CreateFlagAttribute i l)))
           | kTypeString \<Rightarrow> Some (init_in_list e i v (snd (CreateStringAttribute i l)))
           | kTypeNested \<Rightarrow>
               if nd_deeper t = [] then Some (True, l)
               else
                 let l = snd (CreateNestedAttribute i l)
                 in (case GetNestedAttributeList i l of
                       None \<Rightarrow> None
                     | Some inner \<Rightarrow>
                         (case InitNestedFromValue e (nd_deeper t) v inner of
                            None \<Rightarrow> None
                          | Some (ok, inner) \<Rightarrow>
                              let l = put_nested i inner l
                              in Some (if ok then (True, snd (SetNestedAttributeHasAValue i l)) else (False, l))))
           | kTypeError \<Rightarrow> Some (True, l)))"
  by pat_completeness auto
termination
  by (relation "measure (\<lambda>x. case x of Inl (e, ts, input, l) \<Rightarrow> 2 * length input | Inr (e, t, i, v, l) \<Rightarrow> 2 * length v + 1)")
    (auto simp: NLA_HDRLEN_def)

declare InitNestedFromValue.simps [simp del] AddAttributeToNestedInner.simps [simp del]

fun InitFromValue :: "endian \<Rightarrow> bytes \<Rightarrow> nl_attr \<Rightarrow> (bool \<times> nl_attr) option" where
  "InitFromValue e input (NlAttr i has d (NlNested ts l)) =
     (case InitNestedFromValue e ts input l of
        None \<Rightarrow> None
      | Some (ok, l) \<Rightarrow> Some (ok, NlAttr i (if ok then True else has) d (NlNested ts l)))"
| "InitFromValue e input a = Some (init_simple e input a)"

definition InitAttributeFromValue :: "endian \<Rightarrow> int \<Rightarrow> bytes \<Rightarrow> attr_list \<Rightarrow> (bool \<times> attr_list) option" where
  "InitAttributeFromValue e i input l =
     (case GetAttribute i l of
        None \<Rightarrow> Some (False, l)
      | Some a \<Rightarrow> map_option (\<lambda>(ok, a). (ok, put i a l)) (InitFromValue e input a))"

text \<open>\<open>factory\<close> is the \<open>NewFromIdMethod\<close>.\<close>

definition CreateAttribute :: "(int \<Rightarrow> nl_attr) \<Rightarrow> int \<Rightarrow> attr_list \<Rightarrow> bool \<times> attr_list" where
  "CreateAttribute factory i l = (if map_of l i \<noteq> None then (True, l) else (True, put i (factory i) l))"

definition CreateAndInitAttribute ::
    "endian \<Rightarrow> (int \<Rightarrow> nl_attr) \<Rightarrow> int \<Rightarrow> bytes \<Rightarrow> attr_list \<Rightarrow> (bool \<times> attr_list) option" where
  "CreateAndInitAttribute e factory i input l =
     (let (ok, l) = CreateAttribute factory i l in if \<not> ok then Some (False, l) else InitAttributeFromValue e i input l)"

definition AttributeList_Decode ::
    "endian \<Rightarrow> bytes \<Rightarrow> nat \<Rightarrow> (int \<Rightarrow> nl_attr) \<Rightarrow> attr_list \<Rightarrow> (bool \<times> attr_list) option" where
  "AttributeList_Decode e payload offset factory l = IterateAttributes e (CreateAndInitAttribute e factory) payload offset l"

subsection \<open>Encoding\<close>

definition nlattr :: "endian \<Rightarrow> nat \<Rightarrow> int \<Rightarrow> bytes" where
  "nlattr e len i = mem16 e (of_nat len) @ mem16 e (word_of_int i)"

definition EncodeGeneric :: "endian \<Rightarrow> int \<Rightarrow> bool \<Rightarrow> bytes \<Rightarrow> bytes" where
  "EncodeGeneric e i has data =
     (if \<not> has then []
      else let result = nlattr e (NLA_HDRLEN + length data) i @ data in Resize result (NLA_ALIGN (length result)))"

fun Attr_Encode :: "endian \<Rightarrow> nl_attr \<Rightarrow> bytes" and AttributeList_Encode :: "endian \<Rightarrow> attr_list \<Rightarrow> bytes" where
  "Attr_Encode e (NlAttr i has d (NlU8 v)) = EncodeGeneric e i has [v]"
| "Attr_Encode e (NlAttr i has d (NlU16 v)) = EncodeGeneric e i has (mem16 e v)"
| "Attr_Encode e (NlAttr i has d (NlU32 v)) = EncodeGeneric e i has (mem32 e v)"
| "Attr_Encode e (NlAttr i has d (NlU64 v)) = EncodeGeneric e i has (mem64 e v)"
| "Attr_Encode e (NlAttr i has d (NlFlag v)) = (if has \<and> v then EncodeGeneric e i has [] else [])"
| "Attr_Encode e (NlAttr i has d (NlString v)) = EncodeGeneric e i has (v @ [0])"
| "Attr_Encode e (NlAttr i has d (NlSsid v)) = EncodeGeneric e i has (v @ [0])"
| "Attr_Encode e (NlAttr i has d NlRaw) = EncodeGeneric e i has d"
| "Attr_Encode e (NlAttr i has d (NlNested ts l)) =
     (let inner = AttributeList_Encode e l in nlattr e (NLA_HDRLEN + length inner) i @ inner)"
| "AttributeList_Encode e [] = []"
| "AttributeList_Encode e ((i, a) # l) = Attr_Encode e a @ AttributeList_Encode e l"

end
