(* ===== verification/Netlink_Proofs.thy ===== *)
theory Netlink_Proofs
  imports Netlink_Attribute
begin

text \<open>
  Properties of netlink attributes: any bytes are decoded without a read outside of them, what is encoded
  is decoded again to the same attributes at any depth of nesting, and no operation changes the type of an attribute.
\<close>

subsection \<open>Lists\<close>

lemma map_of_put [simp]: "map_of (put k a l) = (map_of l)(k \<mapsto> a)"
  by (induction k a l rule: put.induct) (auto simp: fun_eq_iff)

lemma put_above: "\<forall>k \<in> fst ` set l. k < i \<Longrightarrow> put i a l = l @ [(i, a)]"
  by (induction l) auto

lemma put_last: "\<forall>k \<in> fst ` set l. k < i \<Longrightarrow> put i a (l @ [(i, b)]) = l @ [(i, a)]"
  by (induction l) auto

lemma above_fresh: "\<forall>k \<in> fst ` set l. k < (i :: int) \<Longrightarrow> map_of l i = None"
  by (force simp: map_of_eq_None_iff)

lemma map_of_create: "map_of (snd (create i v l)) = (if map_of l i \<noteq> None then map_of l else (map_of l)(i \<mapsto> attr_new i v))"
  by (simp add: create_def)

lemma map_of_update:
  "map_of (snd (update i f l)) = (case map_of l i of None \<Rightarrow> map_of l | Some a \<Rightarrow> (map_of l)(i \<mapsto> snd (f a)))"
  by (auto simp: update_def GetAttribute_def split: option.split prod.split)

lemma create_above: "\<forall>k \<in> fst ` set l. k < i \<Longrightarrow> create i v l = (True, l @ [(i, attr_new i v)])"
  by (simp add: create_def above_fresh put_above)

lemma update_last:
  assumes "\<forall>k \<in> fst ` set l. k < i"
  shows "update i f (l @ [(i, a)]) = (fst (f a), l @ [(i, snd (f a))])"
  using assms by (simp add: update_def GetAttribute_def map_add_def above_fresh put_last split: prod.split)

lemma fetch_last:
  "\<forall>k \<in> fst ` set l. k < i \<Longrightarrow> fetch get i (l @ [(i, a)]) = get a"
  by (simp add: fetch_def GetAttribute_def map_add_def above_fresh)

subsection \<open>Decoding arbitrary bytes\<close>

lemma iterate_total:
  assumes "J s" and "\<And>i v s. length v + NLA_HDRLEN \<le> length payload \<Longrightarrow> J s \<Longrightarrow>
      \<exists>ok s'. run i v s = Some (ok, s') \<and> J s'"
  shows "\<exists>ok s'. iterate e run payload ptr s = Some (ok, s') \<and> J s'"
  using assms
proof (induction e run payload ptr s rule: iterate.induct)
  case (1 e run payload ptr s)
  show ?case
  proof (cases "ptr + NLA_HDRLEN \<le> length payload")
    case False
    then show ?thesis using 1(2) by (subst iterate.simps) auto
  next
    case True
    then obtain len ty where len: "read16 e payload ptr = Some len" and ty: "read16 e payload (ptr + 2) = Some ty"
      by (auto simp: read16_def read_bytes_def NLA_HDRLEN_def)
    show ?thesis
    proof (cases "unat len < NLA_HDRLEN \<or> ptr + unat len > length payload")
      case True
      then show ?thesis using 1(2) len \<open>ptr + NLA_HDRLEN \<le> length payload\<close> by (subst iterate.simps) auto
    next
      case False
      then obtain v where v: "read_bytes payload (ptr + NLA_HDRLEN) (unat len - NLA_HDRLEN) = Some v"
        by (auto simp: read_bytes_def)
      then have "length v + NLA_HDRLEN \<le> length payload" using read_bytes_length [OF v] False by simp
      from 1(3) [OF this 1(2)] obtain ok s' where run: "run (uint ty) v s = Some (ok, s')" "J s'" by blast
      show ?thesis
      proof (cases ok)
        case go: True
        from 1(1) [OF True len False v ty run(1) refl go run(2) 1(3)] go show ?thesis
          using True len False v ty run by (subst iterate.simps) simp
      next
        case stop: False
        then show ?thesis using True len False v ty run by (subst iterate.simps) auto
      qed
    qed
  qed
qed

lemma IterateAttributes_total:
  assumes "J s" and "\<And>i v s. length v + NLA_HDRLEN \<le> length payload \<Longrightarrow> J s \<Longrightarrow>
      \<exists>ok s'. run i v s = Some (ok, s') \<and> J s'"
  shows "\<exists>ok s'. IterateAttributes e run payload offset s = Some (ok, s') \<and> J s'"
  unfolding IterateAttributes_def by (rule iterate_total [of J, OF assms(1)]) (rule assms(2))

lemma parse_ies_total: "parse_ies data sub l \<noteq> None"
proof (induction data sub l rule: parse_ies.induct)
  case (1 data sub l)
  show ?case
  proof (cases "sub + 2 < length data")
    case True
    then have "read_bytes data sub 1 = Some [data ! sub]" "read_bytes data (sub + 1) 1 = Some [data ! (sub + 1)]"
      by (simp_all add: read_bytes_def take_Suc_conv_app_nth hd_drop_conv_nth take_Suc)
    then show ?thesis using True 1 by (subst parse_ies.simps) (auto simp: read_bytes_def)
  qed (subst parse_ies.simps, simp)
qed

lemma ParseInformationElements_total: "ParseInformationElements i data l \<noteq> None"
  using parse_ies_total [of data 0] by (auto simp: ParseInformationElements_def Let_def split: option.split)

definition template_of :: "templates \<Rightarrow> int \<Rightarrow> nested_data option" where
  "template_of ts i = (if is_array ts then Some (snd (hd ts)) else map_of ts i)"

lemma InitNested_template:
  "InitNestedFromValue e ts input l =
     (if ts = [] then Some (False, l)
      else IterateAttributes e (\<lambda>i v l. case template_of ts i of None \<Rightarrow> Some (True, l)
             | Some t \<Rightarrow> AddAttributeToNestedInner e t i v l) input 0 l)"
  by (subst InitNestedFromValue.simps) (simp add: template_of_def)

text \<open>Whether an attribute is what its template makes of it, as far as nesting goes.\<close>

inductive conforms :: "nested_data \<Rightarrow> nl_attr \<Rightarrow> bool" where
  "nd_parser t \<noteq> None \<Longrightarrow> conforms t a"
| "nd_parser t = None \<Longrightarrow> nd_type t \<noteq> kTypeNested \<Longrightarrow> conforms t a"
| "\<forall>i a. map_of l i = Some a \<longrightarrow> (\<exists>t'. template_of (nd_deeper t) i = Some t' \<and> conforms t' a) \<Longrightarrow>
     conforms t (NlAttr j has d (NlNested ts l))"

definition conform_list :: "templates \<Rightarrow> attr_list \<Rightarrow> bool" where
  "conform_list ts l \<longleftrightarrow> (\<forall>i a. map_of l i = Some a \<longrightarrow> (\<exists>t. template_of ts i = Some t \<and> conforms t a))"

inductive_cases conforms_nestedE: "conforms t a"

lemma conforms_nested:
  assumes "conforms t a" "nd_parser t = None" "nd_type t = kTypeNested"
  shows "\<exists>j has d ts l. a = NlAttr j has d (NlNested ts l) \<and> conform_list (nd_deeper t) l"
  using assms by (auto elim!: conforms_nestedE simp: conform_list_def)

lemma conform_list_upd:
  assumes "conform_list ts l" "template_of ts i = Some t" "conforms t a" "map_of l' = (map_of l)(i \<mapsto> a)"
  shows "conform_list ts l'"
  using assms by (auto simp: conform_list_def split: if_splits)

lemma conform_list_update:
  assumes "conform_list ts l" "template_of ts i = Some t"
    and "nd_parser t = None" "nd_type t \<noteq> kTypeNested"
  shows "conform_list ts (snd (update i f (snd (create i v l))))"
proof -
  have c: "conforms t a" for a using assms(3,4) by (rule conforms.intros(2))
  have "conform_list ts (snd (create i v l))"
    using assms(1,2) c by (auto simp: conform_list_def map_of_create)
  then show ?thesis using assms(2) c by (auto simp: conform_list_def map_of_update split: option.split)
qed

lemma conform_list_parser:
  assumes "conform_list ts l" "template_of ts i = Some t" "nd_parser t = Some p" "run_parser p i v l = Some (ok, l')"
  shows "conform_list ts l'"
proof -
  have c: "conforms t a" for a using assms(3) by (intro conforms.intros(1)) simp
  have "\<forall>j. j \<noteq> i \<longrightarrow> map_of l' j = map_of l j"
    using assms(4) by (cases p)
      (auto simp: ParseInformationElements_def Let_def put_nested_def SetNestedAttributeHasAValue_def
        CreateNestedAttribute_def map_of_update map_of_create split: option.splits if_splits)
  then show ?thesis using assms(1,2) c unfolding conform_list_def by (metis option.inject)
qed
lemma Inner_simple:
  assumes "nd_parser t = None" "nd_type t \<noteq> kTypeNested" "nd_type t \<noteq> kTypeError"
  shows "\<exists>v f. AddAttributeToNestedInner e t i input l = Some (update i f (snd (create i v l)))"
  using assms
  by (cases "nd_type t") (subst AddAttributeToNestedInner.simps, fastforce simp: init_in_list_def CreateU8Attribute_def
      CreateU16Attribute_def CreateU32Attribute_def CreateU64Attribute_def CreateFlagAttribute_def CreateStringAttribute_def
      CreateRawAttribute_def SetRawAttributeValue_def SetFlagAttributeValue_def)+

lemma nested_total:
  shows "conform_list ts l \<Longrightarrow> \<exists>ok l'. InitNestedFromValue e ts input l = Some (ok, l') \<and> conform_list ts l'"
    and "conform_list ts l \<Longrightarrow> template_of ts i = Some t \<Longrightarrow>
      \<exists>ok l'. AddAttributeToNestedInner e t i input l = Some (ok, l') \<and> conform_list ts l'"
proof (induction "length input" arbitrary: ts t i input l rule: less_induct)
  case (less input)
  have nested: "\<exists>ok l'. InitNestedFromValue e ts input l = Some (ok, l') \<and> conform_list ts l'" if "conform_list ts l" for ts l
  proof (cases "ts = []")
    case False
    have "\<exists>ok l'. IterateAttributes e (\<lambda>i v l. case template_of ts i of None \<Rightarrow> Some (True, l)
             | Some t \<Rightarrow> AddAttributeToNestedInner e t i v l) input 0 l = Some (ok, l') \<and> conform_list ts l'"
      using that
    proof (rule IterateAttributes_total [of "conform_list ts"])
      fix i and v :: bytes and l assume "length v + NLA_HDRLEN \<le> length input" "conform_list ts l"
      then show "\<exists>ok l'. (case template_of ts i of None \<Rightarrow> Some (True, l)
             | Some t \<Rightarrow> AddAttributeToNestedInner e t i v l) = Some (ok, l') \<and> conform_list ts l'"
        using less(2) [of v ts l i] by (auto simp: NLA_HDRLEN_def split: option.split)
    qed
    then show ?thesis using False by (simp add: InitNested_template)
  qed (use that in \<open>auto simp: InitNested_template\<close>)
  {
    case 1
    then show ?case by (rule nested)
  next
    case 2
    note two = 2
    show ?case
    proof (cases "nd_parser t")
      case (Some p)
      then obtain ok l' where r: "run_parser p i input l = Some (ok, l')"
        using ParseInformationElements_total [of i input l] by (cases p) auto
      have "AddAttributeToNestedInner e t i input l = run_parser p i input l"
        by (subst AddAttributeToNestedInner.simps) (simp add: Some)
      with r conform_list_parser [OF 2 Some r] show ?thesis by simp
    next
      case None
      consider "nd_type t = kTypeError" | "nd_type t = kTypeNested" "nd_deeper t = []" |
        "nd_type t = kTypeNested" "nd_deeper t \<noteq> []" | "nd_type t \<noteq> kTypeNested" "nd_type t \<noteq> kTypeError" by blast
      then show ?thesis
      proof cases
        case 1
        then show ?thesis using two None by (subst AddAttributeToNestedInner.simps) auto
      next
        case 2
        then show ?thesis using two None by (subst AddAttributeToNestedInner.simps) auto
      next
        case 4
        from Inner_simple [OF None this, of e i input l] obtain v f where
          "AddAttributeToNestedInner e t i input l = Some (update i f (snd (create i v l)))" by blast
        then show ?thesis using conform_list_update [OF two None 4(1), of f v] by (metis prod.collapse)
      next
        case 3
        let ?l = "snd (CreateNestedAttribute i l)"
        have new: "conforms t (attr_new i (NlNested [] []))"
          by (simp add: attr_new_def) (rule conforms.intros(3), simp)
        have cl: "conform_list ts ?l" using two new
          by (auto simp: conform_list_def CreateNestedAttribute_def map_of_create split: if_splits)
        have "map_of ?l i \<noteq> None" by (simp add: CreateNestedAttribute_def map_of_create)
        then obtain a where a: "map_of ?l i = Some a" by blast
        then have "conforms t a" using cl two(2) unfolding conform_list_def by (metis option.inject)
        from conforms_nested [OF this None 3(1)] obtain j has d tst inner where
          sh: "a = NlAttr j has d (NlNested tst inner)" "conform_list (nd_deeper t) inner" by blast
        from nested [OF sh(2)] obtain ok inner' where
          r: "InitNestedFromValue e (nd_deeper t) input inner = Some (ok, inner')" "conform_list (nd_deeper t) inner'" by blast
        have get: "GetNestedAttributeList i ?l = Some inner"
          by (simp add: GetNestedAttributeList_def fetch_def GetAttribute_def a sh(1))
        have step: "AddAttributeToNestedInner e t i input l =
          Some (if ok then (True, snd (SetNestedAttributeHasAValue i (put_nested i inner' ?l))) else (False, put_nested i inner' ?l))"
          by (subst AddAttributeToNestedInner.simps) (simp add: None 3 get r Let_def)
        have conf: "conforms t (NlAttr j h d (NlNested tst inner'))" for h
          using r(2) by (intro conforms.intros(3)) (simp add: conform_list_def)
        have p: "map_of (put_nested i inner' ?l) = (map_of ?l)(i \<mapsto> NlAttr j has d (NlNested tst inner'))"
          by (simp add: put_nested_def map_of_update a sh(1))
        have s: "map_of (snd (SetNestedAttributeHasAValue i (put_nested i inner' ?l))) =
            (map_of ?l)(i \<mapsto> NlAttr j True d (NlNested tst inner'))"
          by (simp add: SetNestedAttributeHasAValue_def map_of_update p)
        show ?thesis unfolding step
          using conform_list_upd [OF cl two(2) conf p] conform_list_upd [OF cl two(2) conf s] by auto
      qed
    qed
  }
qed

text \<open>A factory that makes an attribute with its id, without a value and with an empty list.\<close>

definition fresh_factory :: "(int \<Rightarrow> nl_attr) \<Rightarrow> bool" where
  "fresh_factory factory \<longleftrightarrow> (\<forall>i. \<exists>v. factory i = attr_new i v \<and> (\<forall>ts l. v = NlNested ts l \<longrightarrow> l = []))"

definition self_conform :: "nl_attr \<Rightarrow> bool" where
  "self_conform a \<longleftrightarrow> (\<forall>ts l. at_value a = NlNested ts l \<longrightarrow> conform_list ts l)"

lemma init_simple_value: "(\<forall>ts l. v \<noteq> NlNested ts l) \<Longrightarrow> datatype_of (at_value (snd (init_simple e input (NlAttr i has d v)))) = datatype_of v"
  by (cases v) (auto split: option.split)

lemma datatype_nested: "datatype_of v = kTypeNested \<longleftrightarrow> (\<exists>ts l. v = NlNested ts l)"
  by (cases v) auto

lemma InitFromValue_total:
  assumes "self_conform a"
  shows "\<exists>ok a'. InitFromValue e input a = Some (ok, a') \<and> self_conform a'"
proof (cases a)
  case (NlAttr i has d v)
  show ?thesis
  proof (cases "\<exists>ts l. v = NlNested ts l")
    case True
    then obtain ts l where v: "v = NlNested ts l" by blast
    then have "conform_list ts l" using assms NlAttr by (simp add: self_conform_def)
    from nested_total(1) [OF this, of e input] show ?thesis by (auto simp: NlAttr v self_conform_def)
  next
    case False
    then have "InitFromValue e input a = Some (init_simple e input a)" by (cases v) (auto simp: NlAttr)
    moreover have "self_conform (snd (init_simple e input a))"
      using False init_simple_value [of v e input i has d] datatype_nested
      unfolding self_conform_def NlAttr by (metis datatype_nested)
    ultimately show ?thesis by (metis prod.collapse)
  qed
qed

lemma CreateAndInit_total:
  assumes "fresh_factory factory" "\<forall>i a. map_of l i = Some a \<longrightarrow> self_conform a"
  shows "\<exists>ok l'. CreateAndInitAttribute e factory i input l = Some (ok, l') \<and> (\<forall>i a. map_of l' i = Some a \<longrightarrow> self_conform a)"
proof -
  have "self_conform (factory i)"
    using assms(1) unfolding fresh_factory_def self_conform_def by (metis attr_new_def conform_list_def map_of.simps(1) nl_attr.sel(4) option.distinct(1))
  define l1 where "l1 = snd (CreateAttribute factory i l)"
  have made: "CreateAttribute factory i l = (True, l1)" by (simp add: l1_def CreateAttribute_def)
  have conf: "\<forall>j a. map_of l1 j = Some a \<longrightarrow> self_conform a" "map_of l1 i \<noteq> None"
    using assms(2) \<open>self_conform (factory i)\<close> by (auto simp: l1_def CreateAttribute_def)
  then obtain a where a: "map_of l1 i = Some a" "self_conform a" by blast
  from InitFromValue_total [OF a(2), of e input] obtain ok a' where
    "InitFromValue e input a = Some (ok, a')" "self_conform a'" by blast
  then have "CreateAndInitAttribute e factory i input l = Some (ok, put i a' l1)"
    using a(1) by (simp add: CreateAndInitAttribute_def made InitAttributeFromValue_def GetAttribute_def)
  moreover have "\<forall>j b. map_of (put i a' l1) j = Some b \<longrightarrow> self_conform b"
    using conf(1) \<open>self_conform a'\<close> by simp
  ultimately show ?thesis by blast
qed

lemma Decode_total:
  assumes "fresh_factory factory" "\<forall>i a. map_of l i = Some a \<longrightarrow> self_conform a"
  shows "\<exists>ok l'. AttributeList_Decode e payload offset factory l = Some (ok, l')"
proof -
  define J :: "attr_list \<Rightarrow> bool" where "J = (\<lambda>l. \<forall>i a. map_of l i = Some a \<longrightarrow> self_conform a)"
  have step: "\<exists>ok l'. CreateAndInitAttribute e factory i v l = Some (ok, l') \<and> J l'" if "J l" for i v l
    using CreateAndInit_total [OF assms(1)] that by (simp add: J_def)
  have "J l" using assms(2) by (simp add: J_def)
  then have "\<exists>ok l'. IterateAttributes e (CreateAndInitAttribute e factory) payload offset l = Some (ok, l') \<and> J l'"
    by (rule IterateAttributes_total) (rule step)
  then show ?thesis by (auto simp: AttributeList_Decode_def)
qed

subsection \<open>What is encoded is decoded\<close>

text \<open>The bytes after the header, before the padding.\<close>

fun body :: "endian \<Rightarrow> nl_attr \<Rightarrow> bytes" where
  "body e (NlAttr i has d (NlU8 v)) = [v]"
| "body e (NlAttr i has d (NlU16 v)) = mem16 e v"
| "body e (NlAttr i has d (NlU32 v)) = mem32 e v"
| "body e (NlAttr i has d (NlU64 v)) = mem64 e v"
| "body e (NlAttr i has d (NlFlag v)) = []"
| "body e (NlAttr i has d (NlString v)) = v @ [0]"
| "body e (NlAttr i has d (NlSsid v)) = v @ [0]"
| "body e (NlAttr i has d NlRaw) = d"
| "body e (NlAttr i has d (NlNested ts l)) = AttributeList_Encode e l"

text \<open>
  Attributes that can be told from their encoding: they have a value (a nested one is encoded with or without), a set
  flag, a string without NUL, an id and a length of 16 bits; and a nested list that its templates describe, with
  ascending ids.
\<close>

fun sound_value :: "nl_value \<Rightarrow> bool" where
  "sound_value (NlFlag v) = v"
| "sound_value (NlString v) = (0 \<notin> set v)"
| "sound_value (NlSsid v) = (0 \<notin> set v)"
| "sound_value _ = True"

fun fits :: "endian \<Rightarrow> nested_data \<Rightarrow> nl_attr \<Rightarrow> bool" and fits_list :: "endian \<Rightarrow> templates \<Rightarrow> attr_list \<Rightarrow> bool" where
  "fits e t (NlAttr i has d (NlNested ts l)) =
     (nd_parser t = None \<and> nd_type t = kTypeNested \<and> nd_deeper t \<noteq> [] \<and> fits_list e (nd_deeper t) l \<and>
      length (AttributeList_Encode e l) + 4 < 65536)"
| "fits e t (NlAttr i has d v) =
     (has \<and> nd_parser t = None \<and> nd_type t = datatype_of v \<and> sound_value v \<and> (\<forall>s. v \<noteq> NlSsid s) \<and>
      length (body e (NlAttr i has d v)) + 4 < 65536)"
| "fits_list e ts [] = True"
| "fits_list e ts ((i, a) # l) =
     (at_id a = i \<and> 0 \<le> i \<and> i < 65536 \<and> (\<forall>k \<in> fst ` set l. i < k) \<and>
      (case template_of ts i of None \<Rightarrow> False | Some t \<Rightarrow> fits e t a) \<and> fits_list e ts l)"

text \<open>The attribute that decoding makes of it: the same value, \<open>data_\<close> as \<open>InitFromValue\<close> leaves it.\<close>

fun reread :: "endian \<Rightarrow> nl_attr \<Rightarrow> nl_attr" and reread_list :: "endian \<Rightarrow> attr_list \<Rightarrow> attr_list" where
  "reread e (NlAttr i has d (NlNested ts l)) = NlAttr i True [] (NlNested [] (reread_list e l))"
| "reread e (NlAttr i has d v) = NlAttr i True (body e (NlAttr i has d v)) v"
| "reread_list e [] = []"
| "reread_list e ((i, a) # l) = (i, reread e a) # reread_list e l"

lemma keys_reread [simp]: "fst ` set (reread_list e l) = fst ` set l"
proof (induction l)
  case (Cons x l)
  then show ?case by (cases x) simp
qed simp

lemma length_nlattr [simp]: "length (nlattr e n i) = 4"
  by (simp add: nlattr_def)

lemma length_Encode_aligned: "4 dvd length (Attr_Encode e a)" "4 dvd length (AttributeList_Encode e l)"
  by (induction e a and e l rule: Attr_Encode_AttributeList_Encode.induct)
    (auto simp: EncodeGeneric_def Resize_def NLA_ALIGN_def NLA_HDRLEN_def Let_def GetLength_def)

lemma NLA_ALIGN_dvd: "4 dvd n \<Longrightarrow> NLA_ALIGN n = n"
  by (auto simp: NLA_ALIGN_def)

lemma Resize_pad: "length bs \<le> n \<Longrightarrow> Resize bs n = bs @ replicate (n - length bs) 0"
  by (simp add: Resize_def GetLength_def)

lemma Encode_form:
  assumes "at_has_a_value a \<or> datatype_of (at_value a) = kTypeNested" "sound_value (at_value a)"
  shows "Attr_Encode e a = nlattr e (4 + length (body e a)) (at_id a) @ body e a @
     replicate (NLA_ALIGN (length (body e a)) - length (body e a)) 0"
proof (cases "datatype_of (at_value a) = kTypeNested")
  case True
  then obtain i has d ts l where a: "a = NlAttr i has d (NlNested ts l)" by (cases a) (auto simp: datatype_nested)
  show ?thesis using length_Encode_aligned(2) [of e l] by (simp add: a Let_def NLA_HDRLEN_def NLA_ALIGN_dvd)
next
  case False
  have g: "EncodeGeneric e i True bs = nlattr e (4 + length bs) i @ bs @ replicate (NLA_ALIGN (length bs) - length bs) 0" for i bs
    using NLA_ALIGN_bounds(1) [of "length bs"] by (simp add: EncodeGeneric_def Let_def NLA_HDRLEN_def Resize_pad)
  obtain i has d v where a: "a = NlAttr i has d v" by (cases a)
  show ?thesis using assms False by (cases v) (simp_all add: a g)
qed

lemma iterate_step:
  assumes "length bs + 4 < 65536" "0 \<le> i" "i < 65536" "length pad = NLA_ALIGN (length bs) - length bs"
    and "whole = pre @ (nlattr e (4 + length bs) i @ bs @ pad) @ rest"
  shows "iterate e run whole (length pre) s =
    (case run i bs s of None \<Rightarrow> None
     | Some (ok, s') \<Rightarrow> if ok then iterate e run whole (length (pre @ (nlattr e (4 + length bs) i @ bs @ pad))) s' else Some (False, s'))"
proof -
  define n where "n = (of_nat (4 + length bs) :: u16)"
  have n: "unat n = 4 + length bs" using assms(1) by (simp only: n_def unat_of_nat) (simp add: take_bit_nat_eq_self)
  have ty: "uint (word_of_int i :: u16) = i" using assms(2,3) by (simp add: uint_word_of_int)
  have reads: "read16 e whole (length pre) = Some n" "read16 e whole (length pre + 2) = Some (word_of_int i)"
    "read_bytes whole (length pre + NLA_HDRLEN) (unat n - NLA_HDRLEN) = Some bs"
    unfolding n by (simp_all add: assms(5) read16_def read_bytes_def nlattr_def NLA_HDRLEN_def n_def)
  have ptr: "length pre + NLA_ALIGN (unat n) = length (pre @ (nlattr e (4 + length bs) i @ bs @ pad))"
    using assms(4) NLA_ALIGN_bounds(1) [of "length bs"] unfolding n by simp
  have fitsin: "length pre + NLA_HDRLEN \<le> length whole" "\<not> (unat n < NLA_HDRLEN \<or> length pre + unat n > length whole)"
    unfolding n by (simp_all add: assms(5) NLA_HDRLEN_def)
  show ?thesis
    by (subst iterate.simps) (simp add: reads fitsin ty del: add_2_eq_Suc' length_append, simp only: ptr)
qed

lemmas list_ops = CreateU8Attribute_def CreateU16Attribute_def CreateU32Attribute_def CreateU64Attribute_def
  CreateFlagAttribute_def CreateStringAttribute_def CreateSsidAttribute_def CreateRawAttribute_def CreateNestedAttribute_def
  SetU8AttributeValue_def SetU16AttributeValue_def SetU32AttributeValue_def SetU64AttributeValue_def
  SetFlagAttributeValue_def SetStringAttributeValue_def SetRawAttributeValue_def SetNestedAttributeHasAValue_def
  GetNestedAttributeList_def put_nested_def init_in_list_def

lemma string_of_input_encoded: "0 \<notin> set v \<Longrightarrow> string_of_input (v @ [0]) = v"
  by (auto simp: string_of_input_def c_string_def takeWhile_append)

lemma c_string_Nil [simp]: "string_of_input [0] = []"
  by (simp add: string_of_input_def c_string_def)

lemma init_simple_body:
  assumes "datatype_of v \<noteq> kTypeNested" "sound_value v" "datatype_of v' = datatype_of v"
    and "(\<exists>s. v = NlSsid s) = (\<exists>s. v' = NlSsid s)"
  shows "init_simple e (body e (NlAttr j h d v)) (NlAttr i has d' v') = (True, NlAttr i True (body e (NlAttr j h d v)) (case v of NlFlag _ \<Rightarrow> NlFlag True | _ \<Rightarrow> v))"
  using assms by (cases v; cases v') (auto simp: CopyData_def GetLength_def string_of_input_encoded)

lemma Inner_body:
  assumes "datatype_of v \<noteq> kTypeNested" "fits e t (NlAttr i has d v)" "\<forall>k \<in> fst ` set acc. k < i"
  shows "AddAttributeToNestedInner e t i (body e (NlAttr i has d v)) acc = Some (True, acc @ [(i, reread e (NlAttr i has d v))])"
  using assms
  by (cases v) (subst AddAttributeToNestedInner.simps; simp add: list_ops create_above update_last attr_new_def
      CopyData_def GetLength_def string_of_input_encoded)+

lemma Inner_at:
  assumes "datatype_of (at_value a) \<noteq> kTypeNested" "fits e t a" "\<forall>k \<in> fst ` set acc. k < at_id a"
  shows "AddAttributeToNestedInner e t (at_id a) (body e a) acc = Some (True, acc @ [(at_id a, reread e a)])"
  using Inner_body assms by (cases a) simp

lemma Inner_nested:
  assumes "nd_parser t = None" "nd_type t = kTypeNested" "nd_deeper t \<noteq> []" "\<forall>k \<in> fst ` set acc. k < i"
    and "InitNestedFromValue e (nd_deeper t) input [] = Some (True, inner)"
  shows "AddAttributeToNestedInner e t i input acc = Some (True, acc @ [(i, NlAttr i True [] (NlNested [] inner))])"
  using assms
  by (subst AddAttributeToNestedInner.simps) (simp add: list_ops create_above update_last attr_new_def fetch_last Let_def)

lemma fits_value: "fits e t a \<Longrightarrow>
    (at_has_a_value a \<or> datatype_of (at_value a) = kTypeNested) \<and> sound_value (at_value a) \<and> length (body e a) + 4 < 65536"
  by (cases a; cases "at_value a") auto

definition nested_run :: "endian \<Rightarrow> templates \<Rightarrow> int \<Rightarrow> bytes \<Rightarrow> attr_list \<Rightarrow> (bool \<times> attr_list) option" where
  "nested_run e ts i v l = (case template_of ts i of None \<Rightarrow> Some (True, l) | Some t \<Rightarrow> AddAttributeToNestedInner e t i v l)"

lemma nested_roundtrip_loop:
  shows "fits e t a \<Longrightarrow> \<forall>k \<in> fst ` set acc. k < at_id a \<Longrightarrow>
      AddAttributeToNestedInner e t (at_id a) (body e a) acc = Some (True, acc @ [(at_id a, reread e a)])"
    and "fits_list e ts l \<Longrightarrow> \<forall>k \<in> fst ` set acc. \<forall>k' \<in> fst ` set l. k < k' \<Longrightarrow>
      iterate e (nested_run e ts) (pre @ AttributeList_Encode e l) (length pre) acc = Some (True, acc @ reread_list e l)"
proof (induction e t a and e ts l arbitrary: acc and acc pre rule: fits_fits_list.induct)
  case (1 e t i has d ts l)
  have "InitNestedFromValue e (nd_deeper t) (AttributeList_Encode e l) [] = Some (True, reread_list e l)"
    using 1(1) [of "[]" "[]"] 1(2) by (simp add: InitNested_template IterateAttributes_def nested_run_def [abs_def])
  from Inner_nested [OF _ _ _ _ this, of acc i] 1(2,3) show ?case by simp
next
  case (4 e ts i a l)
  obtain t where t: "template_of ts i = Some t" "fits e t a" using 4(3) by (auto split: option.splits)
  note v = fits_value [OF t(2)]
  define pad where "pad = replicate (NLA_ALIGN (length (body e a)) - length (body e a)) (0 :: u8)"
  have i: "at_id a = i" "0 \<le> i" "i < 65536" using 4(3) by simp_all
  have enc: "Attr_Encode e a = nlattr e (4 + length (body e a)) i @ body e a @ pad"
    using Encode_form [of a e] v by (simp add: pad_def i)
  have run: "nested_run e ts i (body e a) acc = Some (True, acc @ [(i, reread e a)])"
    using 4(1) [OF t(1,2), of acc] 4(4) by (simp add: nested_run_def t(1) i)
  have above: "\<forall>k \<in> fst ` set (acc @ [(i, reread e a)]). \<forall>k' \<in> fst ` set l. k < k'"
    using 4(3,4) by auto
  have "iterate e (nested_run e ts) (pre @ AttributeList_Encode e ((i, a) # l)) (length pre) acc =
      iterate e (nested_run e ts) ((pre @ Attr_Encode e a) @ AttributeList_Encode e l) (length (pre @ Attr_Encode e a))
        (acc @ [(i, reread e a)])"
    using iterate_step [of "body e a" i pad "pre @ AttributeList_Encode e ((i, a) # l)" pre e "AttributeList_Encode e l"
        "nested_run e ts" acc] v i run by (simp add: enc pad_def)
  also have "\<dots> = Some (True, (acc @ [(i, reread e a)]) @ reread_list e l)"
    by (rule 4(2) [OF _ above]) (use 4(3) in simp)
  finally show ?case by simp
next
  case (3 e ts)
  show ?case by (subst iterate.simps) (simp add: NLA_HDRLEN_def)
qed (rule Inner_at, simp, assumption, assumption)+

text \<open>
  At the top of a message the types come from a factory: each id has the type its factory gives it, and nested
  lists are described by the templates of their attribute.
\<close>

fun fits_factory :: "endian \<Rightarrow> nl_value \<Rightarrow> nl_attr \<Rightarrow> bool" where
  "fits_factory e made (NlAttr i has d (NlNested ts l)) =
     ((case made of NlNested ts' _ \<Rightarrow> ts' \<noteq> [] \<and> fits_list e ts' l | _ \<Rightarrow> False) \<and>
      length (AttributeList_Encode e l) + 4 < 65536)"
| "fits_factory e made (NlAttr i has d v) =
     (has \<and> datatype_of made = datatype_of v \<and> (\<exists>s. v = NlSsid s) = (\<exists>s. made = NlSsid s) \<and> sound_value v \<and>
      length (body e (NlAttr i has d v)) + 4 < 65536)"

definition fits_message :: "endian \<Rightarrow> (int \<Rightarrow> nl_attr) \<Rightarrow> attr_list \<Rightarrow> bool" where
  "fits_message e factory l \<longleftrightarrow> sorted_wrt (<) (map fst l) \<and>
     (\<forall>(i, a) \<in> set l. at_id a = i \<and> 0 \<le> i \<and> i < 65536 \<and> fits_factory e (at_value (factory i)) a)"

fun made_templates :: "nl_value \<Rightarrow> nl_value \<Rightarrow> nl_value" where
  "made_templates (NlNested ts _) (NlNested _ l) = NlNested ts l"
| "made_templates _ v = v"

definition received :: "endian \<Rightarrow> (int \<Rightarrow> nl_attr) \<Rightarrow> int \<times> nl_attr \<Rightarrow> int \<times> nl_attr" where
  "received e factory = (\<lambda>(i, a). (i, let b = reread e a in NlAttr i True (at_data b) (made_templates (at_value (factory i)) (at_value b))))"

lemma fits_factory_value: "fits_factory e made a \<Longrightarrow>
    (at_has_a_value a \<or> datatype_of (at_value a) = kTypeNested) \<and> sound_value (at_value a) \<and> length (body e a) + 4 < 65536"
  by (cases a; cases "at_value a") auto

lemma InitFromValue_received:
  assumes "fresh_factory factory" "fits_factory e (at_value (factory i)) a" "at_id a = i"
  shows "InitFromValue e (body e a) (factory i) = Some (True, snd (received e factory (i, a)))"
proof -
  obtain made where made: "factory i = attr_new i made" "\<forall>ts l. made = NlNested ts l \<longrightarrow> l = []"
    using assms(1) unfolding fresh_factory_def by blast
  have fit: "fits_factory e made a" using assms(2) made(1) by (simp add: attr_new_def)
  obtain has d v where a: "a = NlAttr i has d v" using assms(3) by (cases a) auto
  show ?thesis
  proof (cases "datatype_of v = kTypeNested")
    case True
    then obtain ts l where v: "v = NlNested ts l" by (auto simp: datatype_nested)
    then obtain ts' where m: "made = NlNested ts' []" "ts' \<noteq> []" "fits_list e ts' l"
      using fit made(2) a by (auto split: nl_value.splits)
    have "iterate e (nested_run e ts') ([] @ AttributeList_Encode e l) (length ([] :: bytes)) [] = Some (True, [] @ reread_list e l)"
      by (rule nested_roundtrip_loop(2) [OF m(3)]) simp
    then have "InitNestedFromValue e ts' (AttributeList_Encode e l) [] = Some (True, reread_list e l)"
      using m(2) by (simp add: InitNested_template IterateAttributes_def nested_run_def [abs_def])
    then show ?thesis using made(1) m v a by (simp add: attr_new_def received_def Let_def)
  next
    case False
    then have f: "datatype_of made = datatype_of v" "(\<exists>s. v = NlSsid s) = (\<exists>s. made = NlSsid s)" "sound_value v"
      using fit a by (cases v; auto)+
    then have "datatype_of made \<noteq> kTypeNested" using False by simp
    then have step: "InitFromValue e (body e a) (factory i) = Some (init_simple e (body e a) (factory i))"
      using made(1) by (cases made) (auto simp: attr_new_def)
    show ?thesis unfolding step
      using init_simple_body [OF False f(3) f(1) f(2), of e i has d i False "[]"] made(1) a False f
      by (cases v) (auto simp: attr_new_def received_def Let_def)
  qed
qed

lemma Decode_loop:
  assumes "fresh_factory factory" "fits_message e factory l" "\<forall>k \<in> fst ` set acc. \<forall>k' \<in> fst ` set l. k < k'"
  shows "iterate e (CreateAndInitAttribute e factory) (pre @ AttributeList_Encode e l) (length pre) acc =
    Some (True, acc @ map (received e factory) l)"
  using assms(2,3)
proof (induction l arbitrary: pre acc)
  case Nil
  show ?case by (subst iterate.simps) (simp add: NLA_HDRLEN_def)
next
  case (Cons x l)
  obtain i a where x: "x = (i, a)" by (cases x)
  have ok: "at_id a = i" "0 \<le> i" "i < 65536" "fits_factory e (at_value (factory i)) a" "fits_message e factory l"
    "\<forall>k \<in> fst ` set l. i < k"
    using Cons.prems(1) by (auto simp: fits_message_def x)
  note v = fits_factory_value [OF ok(4)]
  define pad where "pad = replicate (NLA_ALIGN (length (body e a)) - length (body e a)) (0 :: u8)"
  have enc: "Attr_Encode e a = nlattr e (4 + length (body e a)) i @ body e a @ pad"
    using Encode_form [of a e] v by (simp add: pad_def ok)
  have below: "\<forall>k \<in> fst ` set acc. k < i" using Cons.prems(2) by (simp add: x)
  have run: "CreateAndInitAttribute e factory i (body e a) acc = Some (True, acc @ [received e factory (i, a)])"
    using InitFromValue_received [OF assms(1) ok(4,1)] below
    by (simp add: CreateAndInitAttribute_def CreateAttribute_def above_fresh put_above InitAttributeFromValue_def
        GetAttribute_def map_add_def put_last) (simp add: received_def)
  have fst: "fst (received e factory (i, a)) = i" by (simp add: received_def)
  have "iterate e (CreateAndInitAttribute e factory) (pre @ AttributeList_Encode e (x # l)) (length pre) acc =
      iterate e (CreateAndInitAttribute e factory) ((pre @ Attr_Encode e a) @ AttributeList_Encode e l) (length (pre @ Attr_Encode e a))
        (acc @ [received e factory (i, a)])"
    using iterate_step [of "body e a" i pad "pre @ AttributeList_Encode e ((i, a) # l)" pre e "AttributeList_Encode e l"
        "CreateAndInitAttribute e factory" acc] v ok run by (simp add: enc pad_def x)
  also have "\<dots> = Some (True, (acc @ [received e factory (i, a)]) @ map (received e factory) l)"
    by (rule Cons.IH [OF ok(5)]) (use below ok(6) Cons.prems(2) fst in \<open>auto simp: x\<close>)
  finally show ?case by (simp add: x)
qed

text \<open>
  The attributes of a message that are encoded are decoded to the same ids, types and values, at every depth of
  nesting and in either byte order, provided every value is set, flags are true, strings have no NUL, and ids and
  lengths fit the 16 bits that \<open>struct nlattr\<close> has for them.
\<close>

theorem AttributeList_Decode_Encode:
  assumes "fresh_factory factory" "fits_message e factory l"
  shows "AttributeList_Decode e (AttributeList_Encode e l) 0 factory [] = Some (True, map (received e factory) l)"
  using Decode_loop [OF assms, of "[]" "[]"] by (simp add: AttributeList_Decode_def IterateAttributes_def)

text \<open>
  What is encoded of a list: attributes without a value and false flags are not, at any depth; a nested attribute
  always is.
\<close>

fun is_sent :: "nl_attr \<Rightarrow> bool" where
  "is_sent (NlAttr i has d (NlNested ts l)) = True"
| "is_sent (NlAttr i has d (NlFlag v)) = (has \<and> v)"
| "is_sent (NlAttr i has d v) = has"

fun sent_attr :: "nl_attr \<Rightarrow> nl_attr" and sent_list :: "attr_list \<Rightarrow> attr_list" where
  "sent_attr (NlAttr i has d (NlNested ts l)) = NlAttr i has d (NlNested ts (sent_list l))"
| "sent_attr a = a"
| "sent_list [] = []"
| "sent_list ((i, a) # l) = (if is_sent a then (i, sent_attr a) # sent_list l else sent_list l)"

lemma not_sent: "\<not> is_sent a \<Longrightarrow> Attr_Encode e a = []"
  by (cases a rule: is_sent.cases) (auto simp: EncodeGeneric_def)

lemma Encode_sent: "Attr_Encode e (sent_attr a) = Attr_Encode e a" "AttributeList_Encode e (sent_list l) = AttributeList_Encode e l"
  by (induction a and l rule: sent_attr_sent_list.induct) (simp_all add: not_sent)

text \<open>
  Decoding into a list that has attributes already, as the constructors of messages create them: those the factory
  makes for their id. A decoded attribute takes the place of the created one.
\<close>

lemma put_put: "put k a (put k b l) = put k a l"
  by (induction k b l rule: put.induct) auto

lemma sorted_put: "sorted_wrt (<) (map fst l) \<Longrightarrow> sorted_wrt (<) (map fst (put k a l))"
proof (induction k a l rule: put.induct)
  case (2 k a k' b xs)
  have "fst ` set (put k a xs) = insert k (fst ` set xs)"
    by (induction k a xs rule: put.induct) auto
  with 2 show ?case by auto
qed simp

definition created_by :: "(int \<Rightarrow> nl_attr) \<Rightarrow> attr_list \<Rightarrow> bool" where
  "created_by factory l \<longleftrightarrow> sorted_wrt (<) (map fst l) \<and> (\<forall>(i, a) \<in> set l. a = factory i)"

lemma created_by_simps: "created_by factory []" "created_by factory l \<Longrightarrow> map_of l i = Some a \<Longrightarrow> a = factory i"
  by (auto simp: created_by_def dest: map_of_SomeD)

lemma Decode_into:
  assumes "fresh_factory factory" "fits_message e factory l" "sorted_wrt (<) (map fst acc)"
    and "\<And>i a. i \<in> fst ` set l \<Longrightarrow> map_of acc i = Some a \<Longrightarrow> a = factory i"
  shows "\<exists>acc'. iterate e (CreateAndInitAttribute e factory) (pre @ AttributeList_Encode e l) (length pre) acc = Some (True, acc') \<and>
    sorted_wrt (<) (map fst acc') \<and> map_of acc' = map_of acc ++ map_of (map (received e factory) l)"
  using assms(2-4)
proof (induction l arbitrary: pre acc)
  case Nil
  show ?case by (subst iterate.simps) (simp add: NLA_HDRLEN_def Nil(2))
next
  case (Cons x l)
  obtain i a where x: "x = (i, a)" by (cases x)
  have ok: "at_id a = i" "0 \<le> i" "i < 65536" "fits_factory e (at_value (factory i)) a" "fits_message e factory l"
    "\<forall>k \<in> fst ` set l. i < k"
    using Cons.prems(1) by (auto simp: fits_message_def x)
  note v = fits_factory_value [OF ok(4)]
  define pad where "pad = replicate (NLA_ALIGN (length (body e a)) - length (body e a)) (0 :: u8)"
  have enc: "Attr_Encode e a = nlattr e (4 + length (body e a)) i @ body e a @ pad"
    using Encode_form [of a e] v by (simp add: pad_def ok)
  let ?r = "received e factory (i, a)"
  let ?acc = "put i (snd ?r) acc"
  have made: "map_of acc i = Some b \<Longrightarrow> b = factory i" for b using Cons.prems(3) [of i b] by (simp add: x)
  have run: "CreateAndInitAttribute e factory i (body e a) acc = Some (True, ?acc)"
    using InitFromValue_received [OF assms(1) ok(4,1)] made
    by (cases "map_of acc i")
      (auto simp: CreateAndInitAttribute_def CreateAttribute_def InitAttributeFromValue_def GetAttribute_def put_put)
  have fst: "fst ?r = i" by (simp add: received_def)
  have i: "i \<notin> fst ` set l" using ok(6) by auto
  have eq: "iterate e (CreateAndInitAttribute e factory) (pre @ AttributeList_Encode e (x # l)) (length pre) acc =
      iterate e (CreateAndInitAttribute e factory) ((pre @ Attr_Encode e a) @ AttributeList_Encode e l) (length (pre @ Attr_Encode e a)) ?acc"
    using iterate_step [of "body e a" i pad "pre @ AttributeList_Encode e ((i, a) # l)" pre e "AttributeList_Encode e l"
        "CreateAndInitAttribute e factory" acc] v ok run by (simp add: enc pad_def x)
  have later: "b = factory k" if "k \<in> fst ` set l" "map_of ?acc k = Some b" for k b
  proof -
    have "k \<noteq> i" using that(1) i by blast
    then show ?thesis using Cons.prems(3) [of k b] that by (simp add: x)
  qed
  obtain acc' where acc': "iterate e (CreateAndInitAttribute e factory) ((pre @ Attr_Encode e a) @ AttributeList_Encode e l)
      (length (pre @ Attr_Encode e a)) ?acc = Some (True, acc')" "sorted_wrt (<) (map fst acc')"
      "map_of acc' = map_of ?acc ++ map_of (map (received e factory) l)"
    using Cons.IH [OF ok(5) sorted_put [OF Cons.prems(2)] later, where pre = "pre @ Attr_Encode e a"] by blast
  have "fst (received e factory p) = fst p" for p by (cases p) (simp add: received_def)
  then have keys: "fst ` set (map (received e factory) l) = fst ` set l" by (simp add: image_image)
  then have "map_of (map (received e factory) l) i = None" using i by (simp add: map_of_eq_None_iff del: set_map)
  then have "map_of acc' = map_of acc ++ map_of (map (received e factory) (x # l))"
    using acc'(3) fst by (cases ?r) (auto simp: x map_add_def fun_eq_iff split: option.split)
  moreover have "iterate e (CreateAndInitAttribute e factory) (pre @ AttributeList_Encode e (x # l)) (length pre) acc = Some (True, acc')"
    unfolding eq by (rule acc'(1))
  ultimately show ?case using acc'(2) by blast
qed

subsection \<open>The control family\<close>

definition CTRL_ATTR_FAMILY_ID :: int where "CTRL_ATTR_FAMILY_ID = 1"
definition CTRL_ATTR_FAMILY_NAME :: int where "CTRL_ATTR_FAMILY_NAME = 2"
definition CTRL_ATTR_VERSION :: int where "CTRL_ATTR_VERSION = 3"
definition CTRL_ATTR_HDRSIZE :: int where "CTRL_ATTR_HDRSIZE = 4"
definition CTRL_ATTR_MAXATTR :: int where "CTRL_ATTR_MAXATTR = 5"
definition CTRL_ATTR_OPS :: int where "CTRL_ATTR_OPS = 6"
definition CTRL_ATTR_MCAST_GROUPS :: int where "CTRL_ATTR_MCAST_GROUPS = 7"

definition simple_data :: "nl_type \<Rightarrow> nested_data" where
  "simple_data ty = NestedData ty False None []"

text \<open>\<open>insert\<close> of a \<open>std::map\<close> keeps the first of two entries with the same key.\<close>

definition insert_template :: "int \<Rightarrow> nested_data \<Rightarrow> templates \<Rightarrow> templates" where
  "insert_template i t ts = (if map_of ts i \<noteq> None then ts else put i t ts)"

definition ControlAttributeAttrOps_template :: templates where
  "ControlAttributeAttrOps_template =
     [(0, NestedData kTypeNested True None
        (insert_template 0 (simple_data kTypeU32) (insert_template 1 (simple_data kTypeU32)
          (insert_template 0 (simple_data kTypeU32) []))))]"

definition ControlAttributeMcastGroups_template :: templates where
  "ControlAttributeMcastGroups_template =
     [(0, NestedData kTypeNested True None
        (insert_template 2 (simple_data kTypeU32) (insert_template 1 (simple_data kTypeString)
          (insert_template 0 (simple_data kTypeU32) []))))]"

definition NewControlAttributeFromId :: "int \<Rightarrow> nl_attr" where
  "NewControlAttributeFromId i = attr_new i
     (if i = CTRL_ATTR_FAMILY_ID then NlU16 0
      else if i = CTRL_ATTR_FAMILY_NAME then NlString []
      else if i \<in> {CTRL_ATTR_VERSION, CTRL_ATTR_HDRSIZE, CTRL_ATTR_MAXATTR} then NlU32 0
      else if i = CTRL_ATTR_OPS then NlNested ControlAttributeAttrOps_template []
      else if i = CTRL_ATTR_MCAST_GROUPS then NlNested ControlAttributeMcastGroups_template []
      else NlRaw)"

lemma fresh_NewControlAttributeFromId: "fresh_factory NewControlAttributeFromId"
  unfolding fresh_factory_def NewControlAttributeFromId_def by (intro allI exI conjI, rule refl) simp

text \<open>The flags of an operation have no template: \<open>CTRL_ATTR_OP_UNSPEC\<close> is inserted in their place.\<close>

lemma AttrOps_without_flags:
  "template_of (nd_deeper (snd (hd ControlAttributeAttrOps_template))) 2 = None"
  by (simp add: ControlAttributeAttrOps_template_def insert_template_def simple_data_def template_of_def is_array_def)

text \<open>A family with a multicast group, as the kernel describes it.\<close>

definition sample_family :: attr_list where
  "sample_family =
     [(1, NlAttr 1 True [] (NlU16 23)),
      (2, NlAttr 2 True [] (NlString [110, 108])),
      (7, NlAttr 7 True [] (NlNested []
            [(1, NlAttr 1 True [] (NlNested []
                [(1, NlAttr 1 True [] (NlString [115, 99])), (2, NlAttr 2 True [] (NlU32 5))]))]))]"

lemma AttributeList_Decode_Encode_witness:
  "\<exists>l. AttributeList_Decode BigEndian (AttributeList_Encode BigEndian sample_family) 0 NewControlAttributeFromId [] = Some (True, l) \<and>
     GetU16AttributeValue CTRL_ATTR_FAMILY_ID l = Some 23 \<and> GetStringAttributeValue CTRL_ATTR_FAMILY_NAME l = Some [110, 108] \<and>
     (\<exists>groups group. ConstGetNestedAttributeList CTRL_ATTR_MCAST_GROUPS l = Some groups \<and>
        ConstGetNestedAttributeList 1 groups = Some group \<and> GetU32AttributeValue 2 group = Some 5)"
proof -
  have "fits_message BigEndian NewControlAttributeFromId sample_family"
    by (simp add: fits_message_def sample_family_def NewControlAttributeFromId_def CTRL_ATTR_FAMILY_ID_def
        CTRL_ATTR_FAMILY_NAME_def CTRL_ATTR_VERSION_def CTRL_ATTR_HDRSIZE_def CTRL_ATTR_MAXATTR_def CTRL_ATTR_OPS_def
        CTRL_ATTR_MCAST_GROUPS_def ControlAttributeMcastGroups_template_def insert_template_def simple_data_def attr_new_def
        template_of_def is_array_def EncodeGeneric_def NLA_ALIGN_def NLA_HDRLEN_def Resize_def GetLength_def Let_def)
  from AttributeList_Decode_Encode [OF fresh_NewControlAttributeFromId this]
  show ?thesis
    by (auto simp: sample_family_def received_def GetU16AttributeValue_def GetStringAttributeValue_def
        ConstGetNestedAttributeList_def GetU32AttributeValue_def fetch_def GetAttribute_def NewControlAttributeFromId_def
        CTRL_ATTR_FAMILY_ID_def CTRL_ATTR_FAMILY_NAME_def CTRL_ATTR_VERSION_def CTRL_ATTR_HDRSIZE_def
        CTRL_ATTR_MAXATTR_def CTRL_ATTR_OPS_def CTRL_ATTR_MCAST_GROUPS_def attr_new_def Let_def)
qed

subsection \<open>Types\<close>

definition type_at :: "attr_list \<Rightarrow> int \<Rightarrow> nl_type option" where
  "type_at l i = map_option (\<lambda>a. datatype_of (at_value a)) (map_of l i)"

text \<open>The operations of an attribute list that change it, and changes through a nested list that was handed out.\<close>

inductive al_step :: "attr_list \<Rightarrow> attr_list \<Rightarrow> bool" where
  "al_step l (snd (create i v l))"
| "al_step l (snd (CreateAttribute factory i l))"
| "al_step l (snd (SetU8AttributeValue i v8 l))"
| "al_step l (snd (SetU16AttributeValue i v16 l))"
| "al_step l (snd (SetU32AttributeValue i v32 l))"
| "al_step l (snd (SetU64AttributeValue i v64 l))"
| "al_step l (snd (SetFlagAttributeValue i b l))"
| "al_step l (snd (SetStringAttributeValue i s l))"
| "al_step l (snd (SetRawAttributeValue i s l))"
| "al_step l (snd (SetNestedAttributeHasAValue i l))"
| "al_step l (put_nested i inner l)"
| "InitAttributeFromValue e i input l = Some (ok, l') \<Longrightarrow> al_step l l'"

text \<open>Access is checked: a value is written or read only at the list's type for the id, and what is written is read.\<close>

definition checked :: "nl_type \<Rightarrow> (int \<Rightarrow> 'a \<Rightarrow> attr_list \<Rightarrow> bool \<times> attr_list) \<Rightarrow> (int \<Rightarrow> attr_list \<Rightarrow> 'a option) \<Rightarrow> attr_list \<Rightarrow> bool" where
  "checked \<tau> setter getter l \<longleftrightarrow> (\<forall>i v.
     (fst (setter i v l) \<longleftrightarrow> type_at l i = Some \<tau>) \<and>
     (type_at l i = Some \<tau> \<longrightarrow> getter i (snd (setter i v l)) = Some v) \<and>
     (getter i l \<noteq> None \<longrightarrow> type_at l i = Some \<tau>))"

lemma type_at_update:
  assumes "\<And>a. datatype_of (at_value (snd (f a))) = datatype_of (at_value a)"
  shows "type_at (snd (update i f l)) = type_at l"
  by (rule ext) (simp add: type_at_def map_of_update assms split: option.split)

lemma setters_keep_type:
  "datatype_of (at_value (snd (SetU8Value v8 a))) = datatype_of (at_value a)"
  "datatype_of (at_value (snd (SetU16Value v16 a))) = datatype_of (at_value a)"
  "datatype_of (at_value (snd (SetU32Value v32 a))) = datatype_of (at_value a)"
  "datatype_of (at_value (snd (SetU64Value v64 a))) = datatype_of (at_value a)"
  "datatype_of (at_value (snd (SetFlagValue b a))) = datatype_of (at_value a)"
  "datatype_of (at_value (snd (SetStringValue s a))) = datatype_of (at_value a)"
  "datatype_of (at_value (snd (SetRawValue s a))) = datatype_of (at_value a)"
  "datatype_of (at_value (snd (SetNestedHasAValue a))) = datatype_of (at_value a)"
  "datatype_of (at_value (set_nested_list inner a)) = datatype_of (at_value a)"
  by (cases a; cases "at_value a"; simp)+

lemma InitFromValue_type: "InitFromValue e input a = Some (ok, a') \<Longrightarrow> datatype_of (at_value a') = datatype_of (at_value a)"
  by (cases a; cases "at_value a") (auto split: option.splits)

lemma al_step_types:
  assumes "al_step l l'" "type_at l i = Some \<tau>" shows "type_at l' i = Some \<tau>"
  using assms
proof (induction rule: al_step.induct)
  case (12 e j input l ok l')
  then show ?case using InitFromValue_type
    by (fastforce simp: InitAttributeFromValue_def GetAttribute_def type_at_def split: option.splits if_splits)
qed (auto simp: list_ops type_at_update setters_keep_type, auto simp: type_at_def map_of_create CreateAttribute_def)

lemma checked_update:
  assumes "\<And>i v. setter i v = update i (f v)" "getter = fetch g"
    and "\<And>v a. fst (f v a) \<longleftrightarrow> datatype_of (at_value a) = \<tau>"
    and "\<And>v a. datatype_of (at_value a) = \<tau> \<Longrightarrow> g (snd (f v a)) = Some v"
    and "\<And>a. g a \<noteq> None \<Longrightarrow> datatype_of (at_value a) = \<tau>"
  shows "checked \<tau> setter getter l"
  unfolding checked_def assms(1,2)
proof (intro allI conjI impI)
  fix i v
  show "fst (update i (f v) l) \<longleftrightarrow> type_at l i = Some \<tau>"
    by (simp add: update_def GetAttribute_def type_at_def case_prod_unfold assms(3) split: option.split)
  show "type_at l i = Some \<tau> \<Longrightarrow> fetch g i (snd (update i (f v) l)) = Some v"
    by (auto simp: fetch_def GetAttribute_def map_of_update type_at_def assms(4) split: option.split)
  show "fetch g i l \<noteq> None \<Longrightarrow> type_at l i = Some \<tau>"
    using assms(5) by (auto simp: fetch_def GetAttribute_def type_at_def bind_eq_Some_conv)
qed

lemma U8_accessors:
  "fst (SetU8Value v a) \<longleftrightarrow> datatype_of (at_value a) = kTypeU8"
  "datatype_of (at_value a) = kTypeU8 \<Longrightarrow> GetU8Value (snd (SetU8Value v a)) = Some v"
  "GetU8Value a \<noteq> None \<Longrightarrow> datatype_of (at_value a) = kTypeU8"
  by (cases a; cases "at_value a"; simp split: if_splits)+

lemma U16_accessors:
  "fst (SetU16Value v a) \<longleftrightarrow> datatype_of (at_value a) = kTypeU16"
  "datatype_of (at_value a) = kTypeU16 \<Longrightarrow> GetU16Value (snd (SetU16Value v a)) = Some v"
  "GetU16Value a \<noteq> None \<Longrightarrow> datatype_of (at_value a) = kTypeU16"
  by (cases a; cases "at_value a"; simp split: if_splits)+

lemma U32_accessors:
  "fst (SetU32Value v a) \<longleftrightarrow> datatype_of (at_value a) = kTypeU32"
  "datatype_of (at_value a) = kTypeU32 \<Longrightarrow> GetU32Value (snd (SetU32Value v a)) = Some v"
  "GetU32Value a \<noteq> None \<Longrightarrow> datatype_of (at_value a) = kTypeU32"
  by (cases a; cases "at_value a"; simp split: if_splits)+

lemma U64_accessors:
  "fst (SetU64Value v a) \<longleftrightarrow> datatype_of (at_value a) = kTypeU64"
  "datatype_of (at_value a) = kTypeU64 \<Longrightarrow> GetU64Value (snd (SetU64Value v a)) = Some v"
  "GetU64Value a \<noteq> None \<Longrightarrow> datatype_of (at_value a) = kTypeU64"
  by (cases a; cases "at_value a"; simp split: if_splits)+

lemma Flag_accessors:
  "fst (SetFlagValue v a) \<longleftrightarrow> datatype_of (at_value a) = kTypeFlag"
  "datatype_of (at_value a) = kTypeFlag \<Longrightarrow> GetFlagValue (snd (SetFlagValue v a)) = Some v"
  "GetFlagValue a \<noteq> None \<Longrightarrow> datatype_of (at_value a) = kTypeFlag"
  by (cases a; cases "at_value a"; simp split: if_splits)+

lemma String_accessors:
  "fst (SetStringValue v a) \<longleftrightarrow> datatype_of (at_value a) = kTypeString"
  "datatype_of (at_value a) = kTypeString \<Longrightarrow> GetStringValue (snd (SetStringValue v a)) = Some v"
  "GetStringValue a \<noteq> None \<Longrightarrow> datatype_of (at_value a) = kTypeString"
  by (cases a; cases "at_value a"; simp split: if_splits)+

lemma Raw_accessors:
  "fst (SetRawValue v a) \<longleftrightarrow> datatype_of (at_value a) = kTypeRaw"
  "datatype_of (at_value a) = kTypeRaw \<Longrightarrow> GetRawValue (snd (SetRawValue v a)) = Some v"
  "GetRawValue a \<noteq> None \<Longrightarrow> datatype_of (at_value a) = kTypeRaw"
  by (cases a; cases "at_value a"; simp split: if_splits)+

text \<open>
  C15: an attribute keeps its type through any sequence of operations on its list, decoding included; and every read
  and write is checked against that type: a write succeeds exactly at its own type and is then read back, and a read of
  a value of another type fails.
\<close>

theorem attribute_types:
  assumes "al_step\<^sup>*\<^sup>* l l'"
  shows "(\<forall>i \<tau>. type_at l i = Some \<tau> \<longrightarrow> type_at l' i = Some \<tau>) \<and>
    checked kTypeU8 SetU8AttributeValue GetU8AttributeValue l' \<and>
    checked kTypeU16 SetU16AttributeValue GetU16AttributeValue l' \<and>
    checked kTypeU32 SetU32AttributeValue GetU32AttributeValue l' \<and>
    checked kTypeU64 SetU64AttributeValue GetU64AttributeValue l' \<and>
    checked kTypeFlag SetFlagAttributeValue GetFlagAttributeValue l' \<and>
    checked kTypeString SetStringAttributeValue GetStringAttributeValue l' \<and>
    checked kTypeRaw SetRawAttributeValue GetRawAttributeValue l'"
proof -
  have "type_at l' i = Some \<tau>" if "type_at l i = Some \<tau>" for i \<tau>
    using assms that by (induction rule: rtranclp_induct) (auto intro: al_step_types)
  moreover have "checked kTypeU8 SetU8AttributeValue GetU8AttributeValue l'"
    by (rule checked_update [OF SetU8AttributeValue_def GetU8AttributeValue_def U8_accessors])
  moreover have "checked kTypeU16 SetU16AttributeValue GetU16AttributeValue l'"
    by (rule checked_update [OF SetU16AttributeValue_def GetU16AttributeValue_def U16_accessors])
  moreover have "checked kTypeU32 SetU32AttributeValue GetU32AttributeValue l'"
    by (rule checked_update [OF SetU32AttributeValue_def GetU32AttributeValue_def U32_accessors])
  moreover have "checked kTypeU64 SetU64AttributeValue GetU64AttributeValue l'"
    by (rule checked_update [OF SetU64AttributeValue_def GetU64AttributeValue_def U64_accessors])
  moreover have "checked kTypeFlag SetFlagAttributeValue GetFlagAttributeValue l'"
    by (rule checked_update [OF SetFlagAttributeValue_def GetFlagAttributeValue_def Flag_accessors])
  moreover have "checked kTypeString SetStringAttributeValue GetStringAttributeValue l'"
    by (rule checked_update [OF SetStringAttributeValue_def GetStringAttributeValue_def String_accessors])
  moreover have "checked kTypeRaw SetRawAttributeValue GetRawAttributeValue l'"
    by (rule checked_update [OF SetRawAttributeValue_def GetRawAttributeValue_def Raw_accessors])
  ultimately show ?thesis by blast
qed

lemma attribute_types_witness:
  "\<exists>l. al_step\<^sup>*\<^sup>* [] l \<and> type_at l 4 = Some kTypeU32 \<and> checked kTypeU32 SetU32AttributeValue GetU32AttributeValue l \<and>
     GetU32AttributeValue 4 l = Some 9 \<and> GetU16AttributeValue 4 l = None"
proof -
  let ?l1 = "snd (create 4 (NlU32 0) [])" and ?l2 = "snd (SetU32AttributeValue 4 9 (snd (create 4 (NlU32 0) [])))"
  have first: "al_step [] ?l1" and second: "al_step ?l1 ?l2" by (rule al_step.intros)+
  have reach: "al_step\<^sup>*\<^sup>* [] ?l2"
    using first second by (meson converse_rtranclp_into_rtranclp r_into_rtranclp)
  have "GetU32AttributeValue 4 ?l2 = Some 9" "GetU16AttributeValue 4 ?l2 = None" "type_at ?l2 4 = Some kTypeU32"
    by (simp_all add: create_def attr_new_def SetU32AttributeValue_def update_def GetAttribute_def GetU32AttributeValue_def
        GetU16AttributeValue_def fetch_def type_at_def)
  with attribute_types [OF reach] reach show ?thesis by blast
qed

end
