(* ===== verification/Netlink_Message.thy ===== *)
theory Netlink_Message
  imports Netlink_Proofs "HOL-Library.AList"
begin

text \<open>
  Models of \<open>net/netlink_packet.cc\<close>, \<open>net/netlink_message.cc\<close> and \<open>net/generic_netlink_message.cc\<close>: a packet
  is a header and a payload from which a message is built piece by piece. A family of generic netlink says which
  attributes its messages have; the control family is defined in \<open>Netlink_Proofs\<close>, that of nl80211 is an argument
  because its numbers are those of a kernel header. The constants are those of \<open>linux/netlink.h\<close>. \<open>None\<close> is a
  failed \<open>CHECK\<close> or a read outside the buffer.
\<close>

subsection \<open>Packets\<close>

definition read32 :: "endian \<Rightarrow> bytes \<Rightarrow> nat \<Rightarrow> u32 option" where
  "read32 e buf pos = map_option (load32 e) (read_bytes buf pos 4)"

record nlmsghdr =
  nlmsg_len :: u32
  nlmsg_type :: u16
  nlmsg_flags :: u16
  nlmsg_seq :: u32
  nlmsg_pid :: u32

definition sizeof_hdr :: nat where "sizeof_hdr = 16"

definition NLMSG_ALIGN :: "nat \<Rightarrow> nat" where "NLMSG_ALIGN n = 4 * ((n + 3) div 4)"

definition read_header :: "endian \<Rightarrow> bytes \<Rightarrow> nlmsghdr option" where
  "read_header e buf = do {
     len \<leftarrow> read32 e buf 0;
     ty \<leftarrow> read16 e buf 4;
     flags \<leftarrow> read16 e buf 6;
     seq \<leftarrow> read32 e buf 8;
     pid \<leftarrow> read32 e buf 12;
     Some \<lparr>nlmsg_len = len, nlmsg_type = ty, nlmsg_flags = flags, nlmsg_seq = seq, nlmsg_pid = pid\<rparr>
   }"

definition write_header :: "endian \<Rightarrow> nlmsghdr \<Rightarrow> bytes" where
  "write_header e h = mem32 e (nlmsg_len h) @ mem16 e (nlmsg_type h) @ mem16 e (nlmsg_flags h) @ mem32 e (nlmsg_seq h)
     @ mem32 e (nlmsg_pid h)"

record netlink_packet =
  pk_header :: nlmsghdr
  pk_payload :: "bytes option"
  pk_consumed_bytes :: nat

definition no_header :: nlmsghdr where
  "no_header = \<lparr>nlmsg_len = 0, nlmsg_type = 0, nlmsg_flags = 0, nlmsg_seq = 0, nlmsg_pid = 0\<rparr>"

text \<open>The header of a packet from a short buffer is never read.\<close>

definition NetlinkPacket_new :: "endian \<Rightarrow> bytes \<Rightarrow> netlink_packet option" where
  "NetlinkPacket_new e buf =
     (if length buf < sizeof_hdr then Some \<lparr>pk_header = no_header, pk_payload = None, pk_consumed_bytes = 0\<rparr>
      else do {
        h \<leftarrow> read_header e buf;
        Some \<lparr>pk_header = h,
          pk_payload = (if length buf < unat (nlmsg_len h) \<or> unat (nlmsg_len h) < sizeof_hdr then None
            else Some (drop sizeof_hdr buf)),
          pk_consumed_bytes = 0\<rparr>
      })"

definition pk_IsValid :: "netlink_packet \<Rightarrow> bool" where
  "pk_IsValid p \<longleftrightarrow> pk_payload p \<noteq> None"

definition GetNlMsgHeader :: "netlink_packet \<Rightarrow> nlmsghdr option" where
  "GetNlMsgHeader p = (if pk_IsValid p then Some (pk_header p) else None)"

definition pk_GetLength :: "netlink_packet \<Rightarrow> nat option" where
  "pk_GetLength p = map_option (\<lambda>h. unat (nlmsg_len h)) (GetNlMsgHeader p)"

definition GetMessageType :: "netlink_packet \<Rightarrow> u16 option" where
  "GetMessageType p = map_option nlmsg_type (GetNlMsgHeader p)"

definition GetMessageSequence :: "netlink_packet \<Rightarrow> u32 option" where
  "GetMessageSequence p = map_option nlmsg_seq (GetNlMsgHeader p)"

text \<open>The difference is of type \<open>size_t\<close>.\<close>

definition GetRemainingLength :: "netlink_packet \<Rightarrow> u64 option" where
  "GetRemainingLength p = map_option (\<lambda>payload. of_nat (length payload) - of_nat (pk_consumed_bytes p)) (pk_payload p)"

definition ConsumeAttributes ::
    "endian \<Rightarrow> (int \<Rightarrow> nl_attr) \<Rightarrow> attr_list \<Rightarrow> netlink_packet \<Rightarrow> (bool \<times> attr_list \<times> netlink_packet) option" where
  "ConsumeAttributes e factory l p = do {
     payload \<leftarrow> pk_payload p;
     (ok, l) \<leftarrow> AttributeList_Decode e payload (pk_consumed_bytes p) factory l;
     Some (ok, l, p\<lparr>pk_consumed_bytes := length payload\<rparr>)
   }"

definition ConsumeData :: "nat \<Rightarrow> netlink_packet \<Rightarrow> (bytes option \<times> netlink_packet) option" where
  "ConsumeData len p = do {
     remaining \<leftarrow> GetRemainingLength p;
     payload \<leftarrow> pk_payload p;
     if unat remaining < len then Some (None, p)
     else do {
       data \<leftarrow> read_bytes payload (pk_consumed_bytes p) len;
       Some (Some data, p\<lparr>pk_consumed_bytes := min (length payload) (pk_consumed_bytes p + NLMSG_ALIGN len)\<rparr>)
     }
   }"

text \<open>\<open>cmd\<close> of the \<open>genlmsghdr\<close>.\<close>

definition GetGenlMsgHdr :: "netlink_packet \<Rightarrow> u8 option option" where
  "GetGenlMsgHdr p = map_option (\<lambda>payload. if length payload < 4 then None else Some (hd payload)) (pk_payload p)"

definition ResetConsumedBytes :: "netlink_packet \<Rightarrow> netlink_packet" where
  "ResetConsumedBytes p = p\<lparr>pk_consumed_bytes := 0\<rparr>"

subsection \<open>Messages\<close>

definition kBroadcastSequenceNumber :: u32 where "kBroadcastSequenceNumber = 0"
definition kIllegalMessageType :: u16 where "kIllegalMessageType = 0xFFFF"
definition NLMSG_NOOP :: u16 where "NLMSG_NOOP = 1"
definition NLMSG_ERROR :: u16 where "NLMSG_ERROR = 2"
definition NLMSG_DONE :: u16 where "NLMSG_DONE = 3"
definition NLMSG_OVERRUN :: u16 where "NLMSG_OVERRUN = 4"
definition GENL_ID_CTRL :: u16 where "GENL_ID_CTRL = 16"
definition NLM_F_REQUEST :: u16 where "NLM_F_REQUEST = 1"
definition NLM_F_MULTI :: u16 where "NLM_F_MULTI = 2"
definition NLM_F_ACK :: u16 where "NLM_F_ACK = 4"
definition NLM_F_DUMP :: u16 where "NLM_F_DUMP = 0x300"

record message_context =
  nl80211_cmd :: nat
  is_broadcast :: bool

datatype message_body =
    NoopMessage
  | DoneMessage
  | OverrunMessage
  | ErrorAckMessage u32
  | UnknownMessage bytes
  | GenericMessage u8 attr_list

record nl_message =
  ms_message_type :: u16
  ms_flags :: u16
  ms_sequence_number :: u32
  ms_body :: message_body

definition message_new :: "u16 \<Rightarrow> message_body \<Rightarrow> nl_message" where
  "message_new ty b = \<lparr>ms_message_type = ty, ms_flags = 0, ms_sequence_number = kBroadcastSequenceNumber, ms_body = b\<rparr>"

text \<open>What the constructors of a family's messages create for a command, and the type of each attribute.\<close>

record nl_family =
  fa_create :: "u8 \<Rightarrow> attr_list"
  fa_attribute :: "message_context \<Rightarrow> int \<Rightarrow> nl_attr"

definition CTRL_CMD_NEWFAMILY :: u8 where "CTRL_CMD_NEWFAMILY = 1"
definition CTRL_CMD_GETFAMILY :: u8 where "CTRL_CMD_GETFAMILY = 3"

definition control_family :: nl_family where
  "control_family =
     \<lparr>fa_create = (\<lambda>cmd. if cmd = CTRL_CMD_GETFAMILY then snd (CreateStringAttribute CTRL_ATTR_FAMILY_NAME []) else []),
      fa_attribute = (\<lambda>_. NewControlAttributeFromId)\<rparr>"

text \<open>\<open>ErrorAckMessage::error\<close>.\<close>

definition ErrorAck_error :: "u32 \<Rightarrow> u32" where
  "ErrorAck_error error = - error"

definition InitAndStripHeader :: "netlink_packet \<Rightarrow> nl_message \<Rightarrow> nl_message option" where
  "InitAndStripHeader p m = map_option (\<lambda>h. m\<lparr>ms_message_type := nlmsg_type h, ms_flags := nlmsg_flags h,
     ms_sequence_number := nlmsg_seq h\<rparr>) (GetNlMsgHeader p)"

text \<open>\<open>GenericNetlinkMessage\<close>: a command that differs from the object's is only logged.\<close>

definition Generic_InitAndStripHeader :: "netlink_packet \<Rightarrow> nl_message \<Rightarrow> (bool \<times> nl_message \<times> netlink_packet) option" where
  "Generic_InitAndStripHeader p m = do {
     m \<leftarrow> InitAndStripHeader p m;
     (gnlh, p) \<leftarrow> ConsumeData 4 p;
     Some (gnlh \<noteq> None, m, p)
   }"

definition InitFromPacket ::
    "endian \<Rightarrow> (int \<Rightarrow> nl_attr) \<Rightarrow> netlink_packet \<Rightarrow> nl_message \<Rightarrow> (bool \<times> nl_message \<times> netlink_packet) option" where
  "InitFromPacket e attribute p m =
     (case ms_body m of
        ErrorAckMessage _ \<Rightarrow> do {
          m \<leftarrow> InitAndStripHeader p m;
          (data, p) \<leftarrow> ConsumeData 4 p;
          Some (data \<noteq> None, (case data of None \<Rightarrow> m | Some bs \<Rightarrow> m\<lparr>ms_body := ErrorAckMessage (load32 e bs)\<rparr>), p)
        }
      | GenericMessage cmd l \<Rightarrow> do {
          (ok, m, p) \<leftarrow> Generic_InitAndStripHeader p m;
          if \<not> ok then Some (False, m, p)
          else do {
            (ok, l, p) \<leftarrow> ConsumeAttributes e attribute l p;
            Some (ok, m\<lparr>ms_body := GenericMessage cmd l\<rparr>, p)
          }
        }
      | _ \<Rightarrow> map_option (\<lambda>m. (True, m, p)) (InitAndStripHeader p m))"

type_synonym factories = "(u16 \<times> nl_family) list"

definition AddFactoryMethod :: "u16 \<Rightarrow> nl_family \<Rightarrow> factories \<Rightarrow> bool \<times> factories" where
  "AddFactoryMethod message_type factory fs =
     (if map_of fs message_type \<noteq> None then (False, fs)
      else if message_type = kIllegalMessageType then (False, fs)
      else (True, AList.update message_type factory fs))"

text \<open>
  \<open>CreateMessage\<close>: the object for a type, with the factory of its attributes (which the plain messages do not use),
  and what it is after \<open>InitFromPacket\<close>; a message that did not initialise is \<open>None\<close> inside the result.
\<close>

definition message_for ::
    "factories \<Rightarrow> u16 \<Rightarrow> bytes \<Rightarrow> u8 option \<Rightarrow> message_context \<Rightarrow> nl_message \<times> (int \<Rightarrow> nl_attr)" where
  "message_for fs ty payload genl ctx =
     (if ty = NLMSG_NOOP then (message_new NLMSG_NOOP NoopMessage, NewControlAttributeFromId)
      else if ty = NLMSG_DONE then (message_new NLMSG_DONE DoneMessage, NewControlAttributeFromId)
      else if ty = NLMSG_OVERRUN then (message_new NLMSG_OVERRUN OverrunMessage, NewControlAttributeFromId)
      else if ty = NLMSG_ERROR then (message_new NLMSG_ERROR (ErrorAckMessage 0), NewControlAttributeFromId)
      else case (map_of fs ty, genl) of
             (Some f, Some cmd) \<Rightarrow> (message_new ty (GenericMessage cmd (fa_create f cmd)), fa_attribute f ctx)
           | _ \<Rightarrow> (message_new ty (UnknownMessage payload), NewControlAttributeFromId))"

definition CreateMessage ::
    "endian \<Rightarrow> factories \<Rightarrow> netlink_packet \<Rightarrow> message_context \<Rightarrow> (nl_message option \<times> netlink_packet) option" where
  "CreateMessage e fs p ctx = do {
     ty \<leftarrow> GetMessageType p;
     payload \<leftarrow> pk_payload p;
     genl \<leftarrow> GetGenlMsgHdr p;
     let (m, attribute) = message_for fs ty payload genl ctx;
     (ok, m, p) \<leftarrow> InitFromPacket e attribute p m;
     Some (if ok then Some m else None, p)
   }"

subsection \<open>Encoding\<close>

definition EncodeHeader :: "endian \<Rightarrow> u32 \<Rightarrow> u32 \<Rightarrow> nl_message \<Rightarrow> bytes \<times> nl_message" where
  "EncodeHeader e pid sequence_number m =
     (if ms_message_type m = kIllegalMessageType then ([], m)
      else
        let m = m\<lparr>ms_sequence_number := sequence_number\<rparr>
        in if sequence_number = kBroadcastSequenceNumber then ([], m)
           else
             let header = write_header e \<lparr>nlmsg_len = of_nat (NLMSG_ALIGN sizeof_hdr), nlmsg_type = ms_message_type m,
                    nlmsg_flags = NLM_F_REQUEST OR ms_flags m, nlmsg_seq = sequence_number, nlmsg_pid = pid\<rparr>
             in (Resize header (NLMSG_ALIGN sizeof_hdr), m))"

text \<open>\<open>pheader->nlmsg_len += n\<close> on the first four bytes.\<close>

definition add_length :: "endian \<Rightarrow> nat \<Rightarrow> bytes \<Rightarrow> bytes" where
  "add_length e n bs = mem32 e (load32 e (take 4 bs) + of_nat n) @ drop 4 bs"

definition Generic_EncodeHeader :: "endian \<Rightarrow> u32 \<Rightarrow> u32 \<Rightarrow> u8 \<Rightarrow> nl_message \<Rightarrow> bytes \<times> nl_message" where
  "Generic_EncodeHeader e pid sequence_number cmd m =
     (let (result, m) = EncodeHeader e pid sequence_number m
      in if result = [] then (result, m)
         else (add_length e (NLMSG_ALIGN 4) result @ Resize [cmd, 1, 0, 0] (NLMSG_ALIGN 4), m))"

definition Message_Encode :: "endian \<Rightarrow> u32 \<Rightarrow> u32 \<Rightarrow> nl_message \<Rightarrow> bytes \<times> nl_message" where
  "Message_Encode e pid sequence_number m =
     (case ms_body m of
        DoneMessage \<Rightarrow> EncodeHeader e pid sequence_number m
      | GenericMessage cmd l \<Rightarrow>
          (let (result, m) = Generic_EncodeHeader e pid sequence_number cmd m
           in if result = [] then (result, m)
              else let attribute_string = AttributeList_Encode e l
                   in (add_length e (length attribute_string) result @ attribute_string, m))
      | _ \<Rightarrow> ([], m))"

subsection \<open>Packets of arbitrary bytes\<close>

lemma read_header_total: "16 \<le> length buf \<Longrightarrow> read_header e buf \<noteq> None"
  by (simp add: read_header_def read32_def read16_def read_bytes_def)

definition packet_ok :: "netlink_packet \<Rightarrow> bool" where
  "packet_ok p \<longleftrightarrow> (\<exists>payload. pk_payload p = Some payload \<and> pk_consumed_bytes p \<le> length payload \<and> length payload < 2 ^ 64)"

definition family_ok :: "nl_family \<Rightarrow> bool" where
  "family_ok f \<longleftrightarrow> (\<forall>ctx. fresh_factory (fa_attribute f ctx)) \<and>
     (\<forall>cmd i a. map_of (fa_create f cmd) i = Some a \<longrightarrow> self_conform a)"

lemma GetRemainingLength_ok:
  assumes "packet_ok p" "pk_payload p = Some payload"
  shows "\<exists>r. GetRemainingLength p = Some r \<and> unat r = length payload - pk_consumed_bytes p"
proof -
  have "unat (of_nat (length payload) - of_nat (pk_consumed_bytes p) :: u64) = length payload - pk_consumed_bytes p"
    using assms by (simp only: unat_sub_if_size) (simp add: packet_ok_def unat_of_nat take_bit_nat_eq_self word_size)
  then show ?thesis using assms(2) by (simp add: GetRemainingLength_def)
qed

lemma ConsumeData_total:
  assumes "packet_ok p"
  shows "\<exists>d p'. ConsumeData n p = Some (d, p') \<and> packet_ok p' \<and> pk_header p' = pk_header p \<and>
    (\<forall>bs. d = Some bs \<longrightarrow> length bs = n)"
proof -
  obtain payload where pl: "pk_payload p = Some payload" "pk_consumed_bytes p \<le> length payload" "length payload < 2 ^ 64"
    using assms by (auto simp: packet_ok_def)
  from GetRemainingLength_ok [OF assms pl(1)] obtain r where
    r: "GetRemainingLength p = Some r" "unat r = length payload - pk_consumed_bytes p" by blast
  show ?thesis
  proof (cases "unat r < n")
    case True
    then show ?thesis using r(1) pl assms by (simp add: ConsumeData_def)
  next
    case False
    then have "read_bytes payload (pk_consumed_bytes p) n = Some (take n (drop (pk_consumed_bytes p) payload))"
      using r(2) pl(2) by (simp add: read_bytes_def)
    then show ?thesis using False r pl by (simp add: ConsumeData_def packet_ok_def)
  qed
qed

lemma ConsumeAttributes_total:
  assumes "packet_ok p" "fresh_factory factory" "\<forall>i a. map_of l i = Some a \<longrightarrow> self_conform a"
  shows "ConsumeAttributes e factory l p \<noteq> None"
proof -
  obtain payload where pl: "pk_payload p = Some payload" using assms(1) by (auto simp: packet_ok_def)
  from Decode_total [OF assms(2,3), of e payload "pk_consumed_bytes p"] pl show ?thesis
    by (auto simp: ConsumeAttributes_def)
qed

lemma InitFromPacket_total:
  assumes "packet_ok p" "fresh_factory attribute"
    and "\<And>cmd l. ms_body m = GenericMessage cmd l \<Longrightarrow> \<forall>i a. map_of l i = Some a \<longrightarrow> self_conform a"
  shows "InitFromPacket e attribute p m \<noteq> None"
proof -
  have valid: "pk_IsValid p" using assms(1) by (auto simp: packet_ok_def pk_IsValid_def)
  obtain d p' where c: "ConsumeData 4 p = Some (d, p')" "packet_ok p'" using ConsumeData_total [OF assms(1)] by blast
  have h: "\<exists>m'. InitAndStripHeader p m = Some m' \<and> ms_body m' = ms_body m"
    by (simp add: InitAndStripHeader_def GetNlMsgHeader_def valid)
  show ?thesis
  proof (cases "ms_body m")
    case (GenericMessage cmd l)
    from ConsumeAttributes_total [OF c(2) assms(2) assms(3) [OF GenericMessage]] obtain a where
      "ConsumeAttributes e attribute l p' = Some a" by blast
    with h c(1) GenericMessage show ?thesis
      by (cases a) (auto simp: InitFromPacket_def Generic_InitAndStripHeader_def)
  qed (use h c(1) in \<open>auto simp: InitFromPacket_def\<close>)
qed

text \<open>
  C14: whatever bytes a netlink socket delivers, a packet is made of them, and if its header is valid a message is made
  of the packet or refused; nothing is read outside the bytes, the count of remaining bytes never wraps, and no
  \<open>CHECK\<close> fails, for any families of messages whose attributes start out empty.
\<close>

theorem CreateMessage_in_bounds:
  assumes "length buf < 2 ^ 64" "\<forall>(ty, f) \<in> set fs. family_ok f"
  shows "\<exists>p. NetlinkPacket_new e buf = Some p \<and>
    (pk_IsValid p \<longrightarrow> (\<exists>n m p'. pk_GetLength p = Some n \<and> 16 \<le> n \<and> n \<le> length buf \<and>
      CreateMessage e fs p ctx = Some (m, p')))"
proof (cases "length buf < sizeof_hdr")
  case True
  then show ?thesis by (simp add: NetlinkPacket_new_def pk_IsValid_def)
next
  case False
  then obtain h where h: "read_header e buf = Some h" using read_header_total [of buf e] by (auto simp: sizeof_hdr_def)
  define p where "p = \<lparr>pk_header = h,
          pk_payload = (if length buf < unat (nlmsg_len h) \<or> unat (nlmsg_len h) < sizeof_hdr then None
            else Some (drop sizeof_hdr buf)), pk_consumed_bytes = 0\<rparr>"
  have new: "NetlinkPacket_new e buf = Some p" using False h by (simp add: NetlinkPacket_new_def p_def)
  show ?thesis
  proof (cases "pk_IsValid p")
    case True
    then have len: "unat (nlmsg_len h) \<le> length buf" "16 \<le> unat (nlmsg_len h)" and pl: "pk_payload p = Some (drop 16 buf)"
      by (auto simp: p_def pk_IsValid_def sizeof_hdr_def split: if_splits)
    have ok: "packet_ok p" using pl assms(1) by (simp add: packet_ok_def p_def)
    have control: "fresh_factory NewControlAttributeFromId" by (rule fresh_NewControlAttributeFromId)
    obtain ty where ty: "GetMessageType p = Some ty" using True by (simp add: GetMessageType_def GetNlMsgHeader_def)
    obtain genl where genl: "GetGenlMsgHdr p = Some genl" using pl by (simp add: GetGenlMsgHdr_def)
    obtain m attribute where sel: "message_for fs ty (drop 16 buf) genl ctx = (m, attribute)" by fastforce
    have fam: "fresh_factory (fa_attribute f ctx)" "\<forall>i a. map_of (fa_create f cmd) i = Some a \<longrightarrow> self_conform a"
      if "map_of fs ty = Some f" for f cmd
      using assms(2) map_of_SomeD [OF that] by (auto simp: family_ok_def)
    have fresh: "fresh_factory attribute"
      using sel control fam by (auto simp: message_for_def split: if_splits option.splits)
    have "\<forall>i a. map_of l i = Some a \<longrightarrow> self_conform a" if "ms_body m = GenericMessage cmd l" for cmd l
      using sel fam that by (auto simp: message_for_def message_new_def split: if_splits option.splits)
    then have "InitFromPacket e attribute p m \<noteq> None" using InitFromPacket_total [OF ok fresh] by blast
    then have "CreateMessage e fs p ctx \<noteq> None"
      by (auto simp: CreateMessage_def ty pl genl sel)
    then show ?thesis using new len True by (auto simp: pk_GetLength_def GetNlMsgHeader_def p_def)
  next
    case False
    with new show ?thesis by simp
  qed
qed

lemma control_family_ok: "family_ok control_family"
  by (auto simp: family_ok_def control_family_def fresh_NewControlAttributeFromId CreateStringAttribute_def create_def
      attr_new_def self_conform_def)

text \<open>A control message that ends in the middle of an attribute.\<close>

lemma CreateMessage_in_bounds_witness:
  "\<exists>p m p'. NetlinkPacket_new LittleEndian ([24, 0, 0, 0, 16, 0, 0, 0, 1, 0, 0, 0, 9, 0, 0, 0] @ [1, 1, 0, 0] @ [12, 0, 7, 0]) = Some p \<and>
     pk_IsValid p \<and> CreateMessage LittleEndian [(GENL_ID_CTRL, control_family)] p \<lparr>nl80211_cmd = 0, is_broadcast = False\<rparr> = Some (m, p')"
proof -
  let ?buf = "[24, 0, 0, 0, 16, 0, 0, 0, 1, 0, 0, 0, 9, 0, 0, 0] @ [1, 1, 0, 0] @ [12, 0, 7, 0] :: bytes"
  let ?fs = "[(GENL_ID_CTRL, control_family)]" and ?ctx = "\<lparr>nl80211_cmd = 0, is_broadcast = False\<rparr>"
  have ok: "\<forall>(ty, f) \<in> set ?fs. family_ok f" by (simp add: control_family_ok)
  obtain p where p: "NetlinkPacket_new LittleEndian ?buf = Some p"
    "pk_IsValid p \<longrightarrow> (\<exists>n m p'. pk_GetLength p = Some n \<and> 16 \<le> n \<and> n \<le> length ?buf \<and>
      CreateMessage LittleEndian ?fs p ?ctx = Some (m, p'))"
    using CreateMessage_in_bounds [OF _ ok, of ?buf LittleEndian ?ctx] by auto
  have "\<forall>p. NetlinkPacket_new LittleEndian ?buf = Some p \<longrightarrow> pk_IsValid p"
    by (auto simp: NetlinkPacket_new_def read_header_def read32_def read16_def read_bytes_def sizeof_hdr_def pk_IsValid_def
        load32_def load16_def)
  with p show ?thesis by blast
qed

subsection \<open>What is sent is received\<close>

lemma read_header_write: "read_header e (write_header e h @ rest) = Some h"
  by (cases h) (simp add: read_header_def write_header_def read32_def read16_def read_bytes_def)

lemma length_write_header [simp]: "length (write_header e h) = 16"
  by (simp add: write_header_def)

lemma add_length_header: "add_length e n (write_header e h @ rest) = write_header e (h\<lparr>nlmsg_len := nlmsg_len h + of_nat n\<rparr>) @ rest"
  by (simp add: add_length_def write_header_def)

lemma Resize_self [simp]: "Resize bs (length bs) = bs"
  by (simp add: Resize_def GetLength_def)

definition sent_header :: "u32 \<Rightarrow> u32 \<Rightarrow> nat \<Rightarrow> nl_message \<Rightarrow> nlmsghdr" where
  "sent_header pid seq n m = \<lparr>nlmsg_len = of_nat n, nlmsg_type = ms_message_type m, nlmsg_flags = NLM_F_REQUEST OR ms_flags m,
     nlmsg_seq = seq, nlmsg_pid = pid\<rparr>"

lemma Message_Encode_generic:
  assumes "ms_body m = GenericMessage cmd l" "ms_message_type m \<noteq> kIllegalMessageType" "seq \<noteq> kBroadcastSequenceNumber"
  shows "fst (Message_Encode e pid seq m) =
    write_header e (sent_header pid seq (20 + length (AttributeList_Encode e l)) m) @ [cmd, 1, 0, 0] @ AttributeList_Encode e l"
proof -
  have align: "NLMSG_ALIGN 4 = 4" "NLMSG_ALIGN sizeof_hdr = 16" by (simp_all add: NLMSG_ALIGN_def sizeof_hdr_def)
  have four: "Resize [cmd, 1, 0, 0] 4 = [cmd, 1, 0, 0]" by (simp add: Resize_def GetLength_def)
  let ?h = "\<lparr>nlmsg_len = 16, nlmsg_type = ms_message_type m, nlmsg_flags = NLM_F_REQUEST OR ms_flags m, nlmsg_seq = seq, nlmsg_pid = pid\<rparr>"
  have hdr: "Resize (write_header e ?h) 16 = write_header e ?h" by (metis Resize_self length_write_header)
  have header: "EncodeHeader e pid seq m = (write_header e ?h, m\<lparr>ms_sequence_number := seq\<rparr>)"
    using assms(2,3) hdr by (simp add: EncodeHeader_def align Let_def)
  have ne: "write_header e h @ xs \<noteq> []" for h xs by (simp add: write_header_def flip: length_greater_0_conv)
  have ge: "Generic_EncodeHeader e pid seq cmd m =
      (write_header e (?h\<lparr>nlmsg_len := 20\<rparr>) @ [cmd, 1, 0, 0], m\<lparr>ms_sequence_number := seq\<rparr>)"
    using ne [of ?h "[]"] add_length_header [of e 4 ?h "[]"] by (simp add: Generic_EncodeHeader_def header align four)
  show ?thesis
    using ne by (simp add: Message_Encode_def assms(1) ge Let_def add_length_header sent_header_def)
qed

text \<open>
  C13: a generic netlink message that is encoded for sending is parsed back, from the buffer it was put in, to a
  message of the same type, command and sequence number, in either byte order; the request flag is added to its flags.
  Its attributes are those that were sent (\<open>sent_list\<close>: attributes without a value and false flags are not), each with its
  type and value, besides the ones without a value that the constructor of the receiving object creates for the command
  and that were not sent. The conditions: the sequence number is not the broadcast one; the type is registered
  for a generic netlink family, not one of the plain messages; the objects for its attributes are new, and those that its
  constructors create are the family's for their id; and the attributes that are sent have the types of the family,
  ids and lengths of 16 bits and no NUL in a string (\<open>fits_message\<close>).
\<close>

theorem Message_roundtrip:
  assumes "ms_body m = GenericMessage cmd l" "ms_message_type m \<noteq> kIllegalMessageType" "seq \<noteq> kBroadcastSequenceNumber"
    and "ms_message_type m \<notin> {NLMSG_NOOP, NLMSG_DONE, NLMSG_OVERRUN, NLMSG_ERROR}"
    and "map_of fs (ms_message_type m) = Some f" "created_by (fa_attribute f ctx) (fa_create f cmd)"
    and "fresh_factory (fa_attribute f ctx)" "fits_message e (fa_attribute f ctx) (sent_list l)"
    and "20 + length (AttributeList_Encode e l) < 2 ^ 32"
  shows "\<exists>p p' l'. NetlinkPacket_new e (fst (Message_Encode e pid seq m)) = Some p \<and> pk_IsValid p \<and>
    CreateMessage e fs p ctx = Some (Some \<lparr>ms_message_type = ms_message_type m,
      ms_flags = NLM_F_REQUEST OR ms_flags m, ms_sequence_number = seq,
      ms_body = GenericMessage cmd l'\<rparr>, p') \<and> GetRemainingLength p' = Some 0 \<and> sorted_wrt (<) (map fst l') \<and>
    map_of l' = map_of (fa_create f cmd) ++ map_of (map (received e (fa_attribute f ctx)) (sent_list l))"
proof -
  let ?attrs = "AttributeList_Encode e l" and ?m = "message_new (ms_message_type m) (GenericMessage cmd (fa_create f cmd))"
  let ?h = "sent_header pid seq (20 + length ?attrs) m"
  let ?payload = "[cmd, 1, 0, 0] @ ?attrs"
  have enc: "fst (Message_Encode e pid seq m) = write_header e ?h @ ?payload"
    by (rule Message_Encode_generic [OF assms(1-3)])
  have n: "unat (of_nat (20 + length ?attrs) :: u32) = 20 + length ?attrs"
    using assms(9) by (simp only: unat_of_nat) (simp add: take_bit_nat_eq_self)
  have len: "unat (nlmsg_len ?h) = 20 + length ?attrs" using n by (simp only: sent_header_def nlmsghdr.simps)
  define p where "p = \<lparr>pk_header = ?h, pk_payload = Some ?payload, pk_consumed_bytes = 0\<rparr>"
  have new: "NetlinkPacket_new e (write_header e ?h @ ?payload) = Some p"
    by (simp add: NetlinkPacket_new_def read_header_write len p_def sizeof_hdr_def del: append.simps)
  have "unat (of_nat (length ?payload) :: u64) = length ?payload"
    using assms(9) by (simp only: unat_of_nat) (simp add: take_bit_nat_eq_self)
  then have long: "\<not> unat (of_nat (length ?payload) :: u64) < 4" by simp
  have consume: "ConsumeData 4 p = Some (Some [cmd, 1, 0, 0], p\<lparr>pk_consumed_bytes := 4\<rparr>)"
    using long by (simp add: ConsumeData_def GetRemainingLength_def p_def read_bytes_def NLMSG_ALIGN_def)
  have sel: "message_for fs (ms_message_type m) ?payload (Some cmd) ctx = (?m, fa_attribute f ctx)"
    using assms(4,5) by (simp add: message_for_def)
  have "sorted_wrt (<) (map fst (fa_create f cmd))" using assms(6) by (simp add: created_by_def)
  from Decode_into [OF assms(7,8) this created_by_simps(2) [OF assms(6)], where pre = "[cmd, 1, 0, 0]", unfolded Encode_sent]
  obtain l' where l': "iterate e (CreateAndInitAttribute e (fa_attribute f ctx)) ([cmd, 1, 0, 0] @ ?attrs)
        (length [cmd, 1, 0, 0]) (fa_create f cmd) = Some (True, l')"
      "sorted_wrt (<) (map fst l')"
      "map_of l' = map_of (fa_create f cmd) ++ map_of (map (received e (fa_attribute f ctx)) (sent_list l))"
    by blast
  have "length [cmd, 1, 0, 0 :: u8] = NLA_ALIGN 4" by (simp add: NLA_ALIGN_def)
  with l'(1) have decode: "AttributeList_Decode e ?payload 4 (fa_attribute f ctx) (fa_create f cmd) = Some (True, l')"
    by (simp only: AttributeList_Decode_def IterateAttributes_def append_Nil)
  have valid: "pk_IsValid p" by (simp add: pk_IsValid_def p_def)
  have pay: "pk_payload p = Some ?payload" by (simp add: p_def)
  have ops: "GetMessageType p = Some (ms_message_type m)" "GetGenlMsgHdr p = Some (Some cmd)" "pk_payload p = Some ?payload"
    using valid pay by (simp_all add: GetMessageType_def GetNlMsgHeader_def GetGenlMsgHdr_def) (simp add: p_def sent_header_def)
  have strip: "InitAndStripHeader p ?m = Some (?m\<lparr>ms_message_type := ms_message_type m,
      ms_flags := NLM_F_REQUEST OR ms_flags m, ms_sequence_number := seq\<rparr>)"
    by (simp add: InitAndStripHeader_def GetNlMsgHeader_def valid) (simp add: p_def sent_header_def)
  have attrs: "ConsumeAttributes e (fa_attribute f ctx) (fa_create f cmd) (p\<lparr>pk_consumed_bytes := 4\<rparr>) =
      Some (True, l', p\<lparr>pk_consumed_bytes := length ?payload\<rparr>)"
    using decode by (simp add: ConsumeAttributes_def ops(3))
  have init: "InitFromPacket e (fa_attribute f ctx) p ?m = Some (True,
      \<lparr>ms_message_type = ms_message_type m, ms_flags = NLM_F_REQUEST OR ms_flags m, ms_sequence_number = seq,
       ms_body = GenericMessage cmd l'\<rparr>, p\<lparr>pk_consumed_bytes := length ?payload\<rparr>)"
    using strip consume attrs by (simp add: InitFromPacket_def Generic_InitAndStripHeader_def message_new_def)
  have "CreateMessage e fs p ctx = Some (Some \<lparr>ms_message_type = ms_message_type m,
      ms_flags = NLM_F_REQUEST OR ms_flags m, ms_sequence_number = seq,
      ms_body = GenericMessage cmd l'\<rparr>, p\<lparr>pk_consumed_bytes := length ?payload\<rparr>)"
    by (simp add: CreateMessage_def ops(1,2) ops(3) [simplified] sel [simplified] init [simplified])
  then show ?thesis using new valid ops(3) l'(2,3) by (auto simp: enc GetRemainingLength_def)
qed

definition no_context :: message_context where
  "no_context = \<lparr>nl80211_cmd = 0, is_broadcast = False\<rparr>"

definition new_family_message :: nl_message where
  "new_family_message = message_new GENL_ID_CTRL (GenericMessage CTRL_CMD_NEWFAMILY [(1, NlAttr 1 True [] (NlU16 23))])"

text \<open>A request for a family by its name: the name is created by the constructor, the id is created but not set.\<close>

definition get_family_message :: nl_message where
  "get_family_message = message_new GENL_ID_CTRL (GenericMessage CTRL_CMD_GETFAMILY
     [(1, attr_new 1 (NlU16 0)), (2, NlAttr 2 True [] (NlString [110, 108]))])"

lemma Message_roundtrip_witness:
  "\<exists>p p' l. NetlinkPacket_new BigEndian (fst (Message_Encode BigEndian 77 5 get_family_message)) = Some p \<and>
    CreateMessage BigEndian [(GENL_ID_CTRL, control_family)] p no_context = Some (Some \<lparr>ms_message_type = GENL_ID_CTRL,
      ms_flags = NLM_F_REQUEST, ms_sequence_number = 5, ms_body = GenericMessage CTRL_CMD_GETFAMILY l\<rparr>, p') \<and>
    GetStringAttributeValue CTRL_ATTR_FAMILY_NAME l = Some [110, 108] \<and> GetU16AttributeValue CTRL_ATTR_FAMILY_ID l = None"
proof -
  let ?l = "[(1, attr_new 1 (NlU16 0)), (2, NlAttr 2 True [] (NlString [110, 108]))]"
  have m: "ms_body get_family_message = GenericMessage CTRL_CMD_GETFAMILY ?l" "ms_message_type get_family_message = GENL_ID_CTRL"
    "ms_flags get_family_message = 0"
    by (simp_all add: get_family_message_def message_new_def)
  have kinds: "GENL_ID_CTRL \<noteq> kIllegalMessageType" "GENL_ID_CTRL \<notin> {NLMSG_NOOP, NLMSG_DONE, NLMSG_OVERRUN, NLMSG_ERROR}"
    by (simp_all add: GENL_ID_CTRL_def kIllegalMessageType_def NLMSG_NOOP_def NLMSG_DONE_def NLMSG_OVERRUN_def NLMSG_ERROR_def)
  have create: "fa_create control_family CTRL_CMD_GETFAMILY = [(2, attr_new 2 (NlString []))]"
    by (simp add: control_family_def CreateStringAttribute_def create_def CTRL_ATTR_FAMILY_NAME_def)
  have fam: "created_by NewControlAttributeFromId (fa_create control_family CTRL_CMD_GETFAMILY)"
      "fa_attribute control_family no_context = NewControlAttributeFromId"
    unfolding create created_by_def
    by (simp_all add: control_family_def NewControlAttributeFromId_def CTRL_ATTR_FAMILY_ID_def CTRL_ATTR_FAMILY_NAME_def)
  have sent: "sent_list ?l = [(2, NlAttr 2 True [] (NlString [110, 108]))]" by (simp add: attr_new_def)
  have fits: "fits_message BigEndian NewControlAttributeFromId (sent_list ?l)"
    unfolding sent by (simp add: fits_message_def NewControlAttributeFromId_def CTRL_ATTR_FAMILY_ID_def
        CTRL_ATTR_FAMILY_NAME_def attr_new_def)
  have size: "20 + length (AttributeList_Encode BigEndian ?l) < 2 ^ 32"
    by (simp add: EncodeGeneric_def NLA_ALIGN_def NLA_HDRLEN_def Resize_def GetLength_def Let_def attr_new_def)
  have seq: "(5 :: u32) \<noteq> kBroadcastSequenceNumber" by (simp add: kBroadcastSequenceNumber_def)
  have reg: "map_of [(GENL_ID_CTRL, control_family)] (ms_message_type get_family_message) = Some control_family"
    by (simp add: m(2))
  note r = Message_roundtrip [OF m(1) kinds(1) [folded m(2)] seq kinds(2) [folded m(2)] reg, of no_context BigEndian 77,
      unfolded m(2,3) fam(2), OF fam(1) fresh_NewControlAttributeFromId fits size, unfolded sent create]
  from r obtain p p' l where l: "NetlinkPacket_new BigEndian (fst (Message_Encode BigEndian 77 5 get_family_message)) = Some p"
    "CreateMessage BigEndian [(GENL_ID_CTRL, control_family)] p no_context = Some (Some \<lparr>ms_message_type = GENL_ID_CTRL,
      ms_flags = NLM_F_REQUEST OR 0, ms_sequence_number = 5, ms_body = GenericMessage CTRL_CMD_GETFAMILY l\<rparr>, p')"
    "map_of l = map_of [(2, attr_new 2 (NlString []))] ++
      map_of (map (received BigEndian NewControlAttributeFromId) [(2, NlAttr 2 True [] (NlString [110, 108]))])"
    by blast
  have "GetStringAttributeValue CTRL_ATTR_FAMILY_NAME l = Some [110, 108]" "GetU16AttributeValue CTRL_ATTR_FAMILY_ID l = None"
    by (simp_all add: GetStringAttributeValue_def GetU16AttributeValue_def fetch_def GetAttribute_def l(3) received_def
        CTRL_ATTR_FAMILY_NAME_def CTRL_ATTR_FAMILY_ID_def NewControlAttributeFromId_def attr_new_def Let_def)
  with l(1,2) show ?thesis by auto
qed

text \<open>
  The payload of a packet is everything up to the end of the buffer, not to the end of the message. With two messages
  in one buffer, on a little-endian machine the second becomes an attribute 0 of the first, and on a big-endian machine
  the first is refused.
\<close>

definition first_of_two :: "endian \<Rightarrow> nl_message option" where
  "first_of_two e = do {
     p \<leftarrow> NetlinkPacket_new e (fst (Message_Encode e 77 5 new_family_message) @ fst (Message_Encode e 77 6 new_family_message));
     (m, p) \<leftarrow> CreateMessage e [(GENL_ID_CTRL, control_family)] p no_context;
     m
   }"

lemma next_message_as_attribute:
  "map_option (\<lambda>m. case ms_body m of GenericMessage cmd l \<Rightarrow> map fst l | _ \<Rightarrow> []) (first_of_two LittleEndian) = Some [0, 1]"
  "Option.is_none (first_of_two BigEndian)"
  by code_simp+

end
