(* ===== verification/Netlink_Manager.thy ===== *)
theory Netlink_Manager
  imports Netlink_Message Event_History
begin

text \<open>
  Model of \<open>net/netlink_manager.cc\<close> and of the sequence numbers of \<open>net/netlink_socket.cc\<close>: requests and the
  handlers of their replies, broadcast handlers, and the queue of dump requests, of which the kernel serves one at a
  time. Client callbacks are numbers; their runs, the messages sent and the errors reported are recorded in the state,
  in order. A callback that calls back into the manager is a further operation, after the one that runs it. The two
  delayed tasks are flags: \<open>nm_timeout_armed\<close> for \<open>OnPendingDumpTimeout\<close> and \<open>nm_resend_armed\<close> for
  \<open>ResendPendingDumpMessage\<close>. \<open>None\<close> is the use of a null callback, of an empty queue or a failed \<open>CHECK\<close>.
\<close>

subsection \<open>State\<close>

datatype aux_type = kDone | kErrorFromKernel | kTimeoutWaitingForResponse | kUnexpectedResponseType

datatype message_cb = ClientCb nat | OnNewFamily

datatype handler_class = ControlResponseHandler | Nl80211ResponseHandler

record response_handler =
  hd_class :: handler_class
  hd_ack :: "nat option"
  hd_error :: "nat option"
  hd_message :: "message_cb option"
  hd_delete_after :: timeval

record pending_message =
  pm_retries_left :: int
  pm_sequence_number :: u32
  pm_is_dump_request :: bool
  pm_message_string :: bytes
  pm_handler :: "response_handler option"
  pm_last_received_error :: u32

datatype nlm_event =
    RanMessage message_cb nl_message
  | RanError nat aux_type "nl_message option"
  | RanAck nat
  | RanBroadcast nat nl_message

record message_type =
  mt_family_id :: u16
  mt_groups :: "(bytes \<times> u32) list"

record nl_manager =
  nm_broadcast_handlers :: "nat list"
  nm_message_handlers :: "(u32 \<times> response_handler) list"
  nm_pending_messages :: "pending_message list"
  nm_dump_pending :: bool
  nm_timeout_armed :: bool
  nm_resend_armed :: bool
  nm_message_types :: "(bytes \<times> message_type) list"
  nm_factories :: factories
  nm_sock :: bool
  nm_socket_sequence :: u32
  nm_sent :: "bytes list"
  nm_events :: "nlm_event list"

text \<open>
  The outcome of the \<open>n\<close>-th \<open>NetlinkSocket::SendMessage\<close>, whether an ack callback asks for removal, the number of
  the nl80211 family, and the reading of the monotonic clock.
\<close>

record nlm_env =
  le_endian :: endian
  le_pid :: u32
  le_send :: "nat \<Rightarrow> bytes \<Rightarrow> bool"
  le_ack_removes :: "nat \<Rightarrow> bool"
  le_nl80211_type :: u16
  le_now :: timeval

definition kMaxNlMessageRetries :: int where "kMaxNlMessageRetries = 1"
definition kResponseTimeoutSeconds :: int where "kResponseTimeoutSeconds = 5"
definition kMaximumNewFamilyWaitSeconds :: int where "kMaximumNewFamilyWaitSeconds = 1"
definition EBUSY :: u32 where "EBUSY = 16"

definition timeradd :: "timeval \<Rightarrow> timeval \<Rightarrow> timeval" where
  "timeradd a b = (let usec = snd a + snd b; sec = fst a + fst b
     in if usec \<ge> 1000000 then (sec + 1, usec - 1000000) else (sec, usec))"

definition NetlinkManager_new :: nl_manager where
  "NetlinkManager_new =
     \<lparr>nm_broadcast_handlers = [], nm_message_handlers = [], nm_pending_messages = [], nm_dump_pending = False,
      nm_timeout_armed = False, nm_resend_armed = False, nm_message_types = [], nm_factories = [], nm_sock = False,
      nm_socket_sequence = 0, nm_sent = [], nm_events = []\<rparr>"

definition event :: "nlm_event \<Rightarrow> nl_manager \<Rightarrow> nl_manager" where
  "event ev n = n\<lparr>nm_events := nm_events n @ [ev]\<rparr>"

text \<open>\<open>sock_ok\<close> is the result of initialising a new socket; a new socket starts counting at zero.\<close>

definition Manager_Init :: "bool \<Rightarrow> nl_manager \<Rightarrow> bool \<times> nl_manager" where
  "Manager_Init sock_ok n =
     (let n = n\<lparr>nm_factories := snd (AddFactoryMethod GENL_ID_CTRL control_family (nm_factories n))\<rparr>
      in if nm_sock n then (True, n) else (sock_ok, n\<lparr>nm_sock := True, nm_socket_sequence := 0\<rparr>))"

definition Manager_Reset :: "bool \<Rightarrow> nl_manager \<Rightarrow> nl_manager" where
  "Manager_Reset full n =
     n\<lparr>nm_broadcast_handlers := [], nm_message_handlers := [], nm_message_types := [], nm_pending_messages := [],
       nm_timeout_armed := False, nm_resend_armed := False, nm_dump_pending := False,
       nm_sock := (if full then False else nm_sock n)\<rparr>"

subsection \<open>Handlers\<close>

definition FindBroadcastHandler :: "nat \<Rightarrow> nl_manager \<Rightarrow> bool" where
  "FindBroadcastHandler h n \<longleftrightarrow> h \<in> set (nm_broadcast_handlers n)"

text \<open>\<open>None\<close> is the null callback.\<close>

definition AddBroadcastHandler :: "nat option \<Rightarrow> nl_manager \<Rightarrow> bool \<times> nl_manager" where
  "AddBroadcastHandler handler n =
     (case handler of
        None \<Rightarrow> (False, n)
      | Some h \<Rightarrow>
          if FindBroadcastHandler h n then (False, n)
          else (True, n\<lparr>nm_broadcast_handlers := nm_broadcast_handlers n @ [h]\<rparr>))"

definition RemoveBroadcastHandler :: "nat \<Rightarrow> nl_manager \<Rightarrow> bool \<times> nl_manager" where
  "RemoveBroadcastHandler h n =
     (if FindBroadcastHandler h n then (True, n\<lparr>nm_broadcast_handlers := remove1 h (nm_broadcast_handlers n)\<rparr>) else (False, n))"

definition HandleError :: "aux_type \<Rightarrow> nl_message option \<Rightarrow> response_handler \<Rightarrow> nl_manager \<Rightarrow> nl_manager" where
  "HandleError ty m h n = (case hd_error h of None \<Rightarrow> n | Some cb \<Rightarrow> event (RanError cb ty m) n)"

definition base_HandleAck :: "nlm_env \<Rightarrow> response_handler \<Rightarrow> nl_manager \<Rightarrow> bool \<times> nl_manager" where
  "base_HandleAck E h n =
     (case hd_ack h of
        None \<Rightarrow> (False, n)
      | Some cb \<Rightarrow> (le_ack_removes E cb \<or> hd_error h = None, event (RanAck cb) n))"

definition HandleAck :: "nlm_env \<Rightarrow> response_handler \<Rightarrow> nl_manager \<Rightarrow> (bool \<times> nl_manager) option" where
  "HandleAck E h n =
     (case hd_message h of
        None \<Rightarrow> Some (base_HandleAck E h n)
      | Some _ \<Rightarrow>
          (case hd_ack h of
             None \<Rightarrow> None
           | Some cb \<Rightarrow> Some (le_ack_removes E cb, event (RanAck cb) n)))"

text \<open>The multicast groups, numbered from one without a gap.\<close>

function mcast_groups :: "attr_list \<Rightarrow> int \<Rightarrow> (bytes \<times> u32) list \<Rightarrow> (bytes \<times> u32) list" where
  "mcast_groups groups i acc =
     (case ConstGetNestedAttributeList i groups of
        None \<Rightarrow> acc
      | Some current_group \<Rightarrow>
          mcast_groups groups (i + 1)
            (case (GetStringAttributeValue 1 current_group, GetU32AttributeValue 2 current_group) of
               (Some group_name, Some group_id) \<Rightarrow> AList.update group_name group_id acc
             | _ \<Rightarrow> acc))"
  by pat_completeness auto
termination
proof (relation "measure (\<lambda>(groups, i, acc). card {k \<in> fst ` set groups. i \<le> k})", goal_cases)
  case 1
  show ?case by simp
next
  case (2 groups i acc current_group)
  then have "map_of groups i \<noteq> None"
    by (auto simp: ConstGetNestedAttributeList_def fetch_def GetAttribute_def bind_eq_Some_conv)
  then have "i \<in> fst ` set groups" by (simp add: map_of_eq_None_iff)
  then have "i \<in> {k \<in> fst ` set groups. i \<le> k}" and "i \<notin> {k \<in> fst ` set groups. i + 1 \<le> k}" by auto
  moreover have "{k \<in> fst ` set groups. i + 1 \<le> k} \<subseteq> {k \<in> fst ` set groups. i \<le> k}" by auto
  ultimately have "{k \<in> fst ` set groups. i + 1 \<le> k} \<subset> {k \<in> fst ` set groups. i \<le> k}" by blast
  then show ?case by (simp add: psubset_card_mono)
qed

declare mcast_groups.simps [simp del]

definition message_type_of :: "bytes \<Rightarrow> nl_manager \<Rightarrow> message_type" where
  "message_type_of name n =
     (case map_of (nm_message_types n) name of Some t \<Rightarrow> t | None \<Rightarrow> \<lparr>mt_family_id = kIllegalMessageType, mt_groups = []\<rparr>)"

definition OnNewFamilyMessage :: "attr_list \<Rightarrow> nl_manager \<Rightarrow> nl_manager" where
  "OnNewFamilyMessage l n =
     (case GetU16AttributeValue CTRL_ATTR_FAMILY_ID l of
        None \<Rightarrow> n
      | Some family_id \<Rightarrow>
          (case GetStringAttributeValue CTRL_ATTR_FAMILY_NAME l of
             None \<Rightarrow> n
           | Some family_name \<Rightarrow>
               let t = message_type_of family_name n;
                   groups = (case ConstGetNestedAttributeList CTRL_ATTR_MCAST_GROUPS l of
                       None \<Rightarrow> mt_groups t
                     | Some multicast_groups \<Rightarrow> mcast_groups multicast_groups 1 (mt_groups t))
               in n\<lparr>nm_message_types := AList.update family_name \<lparr>mt_family_id = family_id, mt_groups = groups\<rparr> (nm_message_types n)\<rparr>))"

text \<open>\<open>HandleMessage\<close> of the two classes of handlers.\<close>

definition HandleMessage :: "nlm_env \<Rightarrow> response_handler \<Rightarrow> nl_message \<Rightarrow> nl_manager \<Rightarrow> bool \<times> nl_manager" where
  "HandleMessage E h m n =
     (if ms_message_type m \<noteq> (case hd_class h of ControlResponseHandler \<Rightarrow> GENL_ID_CTRL | Nl80211ResponseHandler \<Rightarrow> le_nl80211_type E)
      then (False, n)
      else (True,
        case hd_message h of
          None \<Rightarrow> n
        | Some cb \<Rightarrow>
            let n = event (RanMessage cb m) n
            in (case (cb, ms_body m) of (OnNewFamily, GenericMessage cmd l) \<Rightarrow> OnNewFamilyMessage l n | _ \<Rightarrow> n)))"

definition erase_handler :: "u32 \<Rightarrow> nl_manager \<Rightarrow> nl_manager" where
  "erase_handler seq n = n\<lparr>nm_message_handlers := AList.delete seq (nm_message_handlers n)\<rparr>"

definition CallErrorHandler :: "u32 \<Rightarrow> aux_type \<Rightarrow> nl_message option \<Rightarrow> nl_manager \<Rightarrow> nl_manager" where
  "CallErrorHandler seq ty m n =
     (case map_of (nm_message_handlers n) seq of
        None \<Rightarrow> n
      | Some h \<Rightarrow> erase_handler seq (HandleError ty m h n))"

definition RemoveMessageHandler :: "nl_message \<Rightarrow> nl_manager \<Rightarrow> bool \<times> nl_manager" where
  "RemoveMessageHandler m n =
     (if map_of (nm_message_handlers n) (ms_sequence_number m) = None then (False, n)
      else (True, erase_handler (ms_sequence_number m) n))"

subsection \<open>Sending\<close>

definition GetSequenceNumber :: "nl_manager \<Rightarrow> u32 \<times> nl_manager" where
  "GetSequenceNumber n =
     (if \<not> nm_sock n then (kBroadcastSequenceNumber, n)
      else
        let s = nm_socket_sequence n + 1;
            s = (if s = kBroadcastSequenceNumber then s + 1 else s)
        in (s, n\<lparr>nm_socket_sequence := s\<rparr>))"

definition SendMessageInternal :: "nlm_env \<Rightarrow> pending_message \<Rightarrow> nl_manager \<Rightarrow> bool \<times> nl_manager" where
  "SendMessageInternal E pm n =
     (let ok = le_send E (length (nm_sent n)) (pm_message_string pm);
          n = n\<lparr>nm_sent := nm_sent n @ [pm_message_string pm]\<rparr>
      in if \<not> ok then (False, n)
         else (True, if pm_is_dump_request pm then n\<lparr>nm_dump_pending := True, nm_timeout_armed := True\<rparr> else n))"

text \<open>The loop over the handlers that drops those that timed out.\<close>

fun expire_handlers :: "timeval \<Rightarrow> (u32 \<times> response_handler) list \<Rightarrow> nl_manager \<Rightarrow> nl_manager" where
  "expire_handlers now [] n = n"
| "expire_handlers now ((seq, h) # hs) n =
     expire_handlers now hs
       (if timercmp_less (hd_delete_after h) now then erase_handler seq (HandleError kTimeoutWaitingForResponse None h n) else n)"

definition RegisterHandlersAndSendMessage :: "nlm_env \<Rightarrow> pending_message \<Rightarrow> nl_manager \<Rightarrow> bool \<times> nl_manager" where
  "RegisterHandlersAndSendMessage E pm n =
     (let now = le_now E;
          n = expire_handlers now (nm_message_handlers n) n
      in case pm_handler pm of
           None \<Rightarrow> SendMessageInternal E pm n
         | Some h \<Rightarrow>
             if map_of (nm_message_handlers n) (pm_sequence_number pm) \<noteq> None then (False, n)
             else
               let h = h\<lparr>hd_delete_after := timeradd now (kResponseTimeoutSeconds, 0)\<rparr>
               in SendMessageInternal E pm (n\<lparr>nm_message_handlers := put (pm_sequence_number pm) h (nm_message_handlers n)\<rparr>))"

definition IsDumpPending :: "nl_manager \<Rightarrow> bool" where
  "IsDumpPending n \<longleftrightarrow> nm_dump_pending n \<and> nm_pending_messages n \<noteq> []"

definition PendingDumpSequenceNumber :: "nl_manager \<Rightarrow> u32" where
  "PendingDumpSequenceNumber n = (if IsDumpPending n then pm_sequence_number (hd (nm_pending_messages n)) else 0)"

definition pending_new :: "u32 \<Rightarrow> bool \<Rightarrow> bytes \<Rightarrow> response_handler option \<Rightarrow> pending_message" where
  "pending_new seq is_dump s h =
     \<lparr>pm_retries_left = kMaxNlMessageRetries, pm_sequence_number = seq, pm_is_dump_request = is_dump,
      pm_message_string = s, pm_handler = h, pm_last_received_error = 0\<rparr>"

definition SendOrPostMessage ::
    "nlm_env \<Rightarrow> nl_message \<Rightarrow> response_handler option \<Rightarrow> nl_manager \<Rightarrow> bool \<times> nl_message \<times> nl_manager" where
  "SendOrPostMessage E m handler n =
     (let (sequence_number, n) = GetSequenceNumber n;
          is_dump_msg = (ms_flags m AND NLM_F_DUMP \<noteq> 0);
          (message_string, m) = Message_Encode (le_endian E) (le_pid E) sequence_number m;
          pm = pending_new sequence_number is_dump_msg message_string handler;
          n = (if is_dump_msg then n\<lparr>nm_pending_messages := nm_pending_messages n @ [pm]\<rparr> else n)
      in if is_dump_msg \<and> IsDumpPending n then (True, m, n)
         else let (ok, n) = RegisterHandlersAndSendMessage E pm n in (ok, m, n))"

definition new_handler :: "handler_class \<Rightarrow> nat option \<Rightarrow> nat option \<Rightarrow> message_cb option \<Rightarrow> response_handler" where
  "new_handler cls ack error message = \<lparr>hd_class = cls, hd_ack = ack, hd_error = error, hd_message = message, hd_delete_after = (0, 0)\<rparr>"

definition SendControlMessage ::
    "nlm_env \<Rightarrow> nl_message \<Rightarrow> message_cb option \<Rightarrow> nat option \<Rightarrow> nat option \<Rightarrow> nl_manager \<Rightarrow> bool \<times> nl_message \<times> nl_manager" where
  "SendControlMessage E m message ack error n =
     SendOrPostMessage E m (Some (new_handler ControlResponseHandler ack error message)) n"

definition SendNl80211Message ::
    "nlm_env \<Rightarrow> nl_message \<Rightarrow> message_cb option \<Rightarrow> nat option \<Rightarrow> nat option \<Rightarrow> nl_manager \<Rightarrow> bool \<times> nl_message \<times> nl_manager" where
  "SendNl80211Message E m message ack error n =
     SendOrPostMessage E m (Some (new_handler Nl80211ResponseHandler ack error message)) n"

subsection \<open>The queue of dumps\<close>

definition OnPendingDumpComplete :: "nlm_env \<Rightarrow> nl_manager \<Rightarrow> nl_manager option" where
  "OnPendingDumpComplete E n =
     (case nm_pending_messages n of
        [] \<Rightarrow> None
      | _ # rest \<Rightarrow>
          let n = n\<lparr>nm_dump_pending := False, nm_timeout_armed := False, nm_resend_armed := False, nm_pending_messages := rest\<rparr>
          in Some (case rest of [] \<Rightarrow> n | to_send # _ \<Rightarrow> snd (RegisterHandlersAndSendMessage E to_send n)))"

definition OnPendingDumpTimeout :: "nlm_env \<Rightarrow> nl_manager \<Rightarrow> nl_manager option" where
  "OnPendingDumpTimeout E n =
     OnPendingDumpComplete E (CallErrorHandler (PendingDumpSequenceNumber n) kTimeoutWaitingForResponse None
       (n\<lparr>nm_timeout_armed := False\<rparr>))"

definition ResendPendingDumpMessageAfterDelay :: "nl_manager \<Rightarrow> nl_manager" where
  "ResendPendingDumpMessageAfterDelay n = n\<lparr>nm_resend_armed := True\<rparr>"

definition upd_front :: "(pending_message \<Rightarrow> pending_message) \<Rightarrow> nl_manager \<Rightarrow> nl_manager" where
  "upd_front f n = n\<lparr>nm_pending_messages := (case nm_pending_messages n of [] \<Rightarrow> [] | pm # rest \<Rightarrow> f pm # rest)\<rparr>"

text \<open>The error message made here has the type, and the other fields of a new message.\<close>

definition ResendPendingDumpMessage :: "nlm_env \<Rightarrow> nl_manager \<Rightarrow> nl_manager option" where
  "ResendPendingDumpMessage E n =
     (let n = n\<lparr>nm_resend_armed := False\<rparr>
      in if \<not> IsDumpPending n then Some n
         else
           let n = upd_front (pm_retries_left_update (\<lambda>r. r - 1)) n;
               (ok, n) = SendMessageInternal E (hd (nm_pending_messages n)) n
           in if ok then Some n
              else if pm_retries_left (hd (nm_pending_messages n)) \<noteq> 0 then Some (ResendPendingDumpMessageAfterDelay n)
              else
                let err = message_new NLMSG_ERROR (ErrorAckMessage (pm_last_received_error (hd (nm_pending_messages n))))
                in OnPendingDumpComplete E (CallErrorHandler (PendingDumpSequenceNumber n) kErrorFromKernel (Some err) n))"

subsection \<open>Receiving\<close>

definition InferMessageContext :: "nlm_env \<Rightarrow> netlink_packet \<Rightarrow> nl_manager \<Rightarrow> message_context option" where
  "InferMessageContext E p n = do {
     seq \<leftarrow> GetMessageSequence p;
     ty \<leftarrow> GetMessageType p;
     genl \<leftarrow> GetGenlMsgHdr p;
     Some \<lparr>nl80211_cmd = (case genl of Some cmd \<Rightarrow> if ty = le_nl80211_type E then unat cmd else 0 | None \<Rightarrow> 0),
       is_broadcast = (map_of (nm_message_handlers n) seq = None \<and> ty \<noteq> NLMSG_ERROR)\<rparr>
   }"

definition error_code_of :: "nl_message \<Rightarrow> u32 option" where
  "error_code_of m = (case ms_body m of ErrorAckMessage err \<Rightarrow> Some (ErrorAck_error err) | _ \<Rightarrow> None)"

definition is_multi :: "nl_message \<Rightarrow> bool" where
  "is_multi m \<longleftrightarrow> ms_flags m AND NLM_F_MULTI \<noteq> 0"

text \<open>What a reply does to the pending dump; true if \<open>OnNlMessageReceived\<close> returns after it.\<close>

definition dump_reply :: "nlm_env \<Rightarrow> nl_message \<Rightarrow> nl_manager \<Rightarrow> (bool \<times> nl_manager) option" where
  "dump_reply E m n =
     (if IsDumpPending n \<and> ms_sequence_number m = PendingDumpSequenceNumber n \<and>
         \<not> (is_multi m \<and> ms_message_type m \<noteq> NLMSG_DONE) then
        if error_code_of m = Some (- EBUSY) \<and> pm_retries_left (hd (nm_pending_messages n)) \<noteq> 0 then
          Some (True, ResendPendingDumpMessageAfterDelay
            ((upd_front (pm_last_received_error_update (\<lambda>_. - EBUSY)) n)\<lparr>nm_timeout_armed := False\<rparr>))
        else map_option (Pair False) (OnPendingDumpComplete E n)
      else Some (False, n))"

definition ack_reply :: "nlm_env \<Rightarrow> u32 \<Rightarrow> nl_manager \<Rightarrow> nl_manager option" where
  "ack_reply E seq n =
     (case map_of (nm_message_handlers n) seq of
        None \<Rightarrow> Some n
      | Some h \<Rightarrow> map_option (\<lambda>(remove, n). if remove then erase_handler seq n else n) (HandleAck E h n))"

definition handler_reply :: "nlm_env \<Rightarrow> u32 \<Rightarrow> response_handler \<Rightarrow> nl_message \<Rightarrow> nl_manager \<Rightarrow> nl_manager" where
  "handler_reply E seq h m n =
     (let n = (if is_multi m \<and> ms_message_type m = NLMSG_DONE then HandleError kDone (Some m) h n
               else let (ok, n) = HandleMessage E h m n
                    in if ok then n else HandleError kUnexpectedResponseType None h n)
      in if is_multi m \<and> ms_message_type m \<noteq> NLMSG_DONE then n else erase_handler seq n)"

definition run_broadcast :: "nl_message \<Rightarrow> nl_manager \<Rightarrow> nl_manager" where
  "run_broadcast m n = fold (\<lambda>h. event (RanBroadcast h m)) (nm_broadcast_handlers n) n"

definition deliver :: "nlm_env \<Rightarrow> u32 \<Rightarrow> nl_message \<Rightarrow> nl_manager \<Rightarrow> nl_manager option" where
  "deliver E seq m n =
     (case error_code_of m of
        Some error_code \<Rightarrow>
          if error_code \<noteq> 0 then Some (CallErrorHandler seq kErrorFromKernel (Some m) n) else ack_reply E seq n
      | None \<Rightarrow>
          (case map_of (nm_message_handlers n) seq of
             Some h \<Rightarrow> Some (handler_reply E seq h m n)
           | None \<Rightarrow> Some (run_broadcast m n)))"

definition OnNlMessageReceived :: "nlm_env \<Rightarrow> netlink_packet \<Rightarrow> nl_manager \<Rightarrow> nl_manager option" where
  "OnNlMessageReceived E p n = do {
     seq \<leftarrow> GetMessageSequence p;
     ctx \<leftarrow> InferMessageContext E p n;
     (message, _) \<leftarrow> CreateMessage (le_endian E) (nm_factories n) p ctx;
     case message of
       None \<Rightarrow> Some n
     | Some m \<Rightarrow> do {
         (stop, n) \<leftarrow> dump_reply E m n;
         if stop then Some n else deliver E seq m n
       }
   }"

text \<open>\<open>pos\<close> is the offset of \<open>buf\<close> in the data.\<close>

function raw_loop :: "nlm_env \<Rightarrow> bytes \<Rightarrow> nat \<Rightarrow> nl_manager \<Rightarrow> nl_manager option" where
  "raw_loop E data pos n =
     (if pos < length data then
        case NetlinkPacket_new (le_endian E) (drop pos data) of
          None \<Rightarrow> None
        | Some p \<Rightarrow>
            if \<not> pk_IsValid p then Some n
            else case pk_GetLength p of
                   None \<Rightarrow> None
                 | Some len \<Rightarrow>
                     (case OnNlMessageReceived E p n of
                        None \<Rightarrow> None
                      | Some n \<Rightarrow> raw_loop E data (pos + len) n)
      else Some n)"
  by pat_completeness auto
termination
proof (relation "measure (\<lambda>(E, data, pos, n). length data - pos)", goal_cases)
  case 1
  show ?case by simp
next
  case (2 E data pos n p len n')
  then have "16 \<le> len"
    by (auto simp: NetlinkPacket_new_def pk_IsValid_def pk_GetLength_def GetNlMsgHeader_def sizeof_hdr_def bind_eq_Some_conv
        split: if_splits)
  then show ?case using 2(1) by simp
qed

declare raw_loop.simps [simp del]

definition OnRawNlMessageReceived :: "nlm_env \<Rightarrow> bytes \<Rightarrow> nl_manager \<Rightarrow> nl_manager option" where
  "OnRawNlMessageReceived E data n = raw_loop E data 0 n"

subsection \<open>Families\<close>

definition SubscribeToEvents :: "(u32 \<Rightarrow> bool) \<Rightarrow> bytes \<Rightarrow> bytes \<Rightarrow> nl_manager \<Rightarrow> bool option" where
  "SubscribeToEvents setsockopt_ok family_name group_name n =
     (case map_of (nm_message_types n) family_name of
        None \<Rightarrow> Some False
      | Some t \<Rightarrow>
          (case map_of (mt_groups t) group_name of
             None \<Rightarrow> Some False
           | Some group_id \<Rightarrow> if nm_sock n then Some (setsockopt_ok group_id) else None))"

text \<open>
  The loop of \<open>GetFamily\<close> that waits for the answer, over the outcomes of \<open>Select\<close> and what is received each time, with
  the clock afterwards; when no outcome is left, \<open>Select\<close> times out.
\<close>

datatype select_result = SelectFailed | SelectTimedOut | SelectReceived bytes timeval

fun family_loop ::
    "nlm_env \<Rightarrow> bytes \<Rightarrow> nl_family \<Rightarrow> timeval \<Rightarrow> select_result list \<Rightarrow> nl_manager \<Rightarrow> (u16 \<times> nl_manager) option" where
  "family_loop E name factory end_time [] n = Some (kIllegalMessageType, n)"
| "family_loop E name factory end_time (SelectFailed # rs) n = Some (kIllegalMessageType, n)"
| "family_loop E name factory end_time (SelectTimedOut # rs) n = Some (kIllegalMessageType, n)"
| "family_loop E name factory end_time (SelectReceived data now # rs) n =
     (case OnRawNlMessageReceived E data n of
        None \<Rightarrow> None
      | Some n \<Rightarrow>
          let family_id = mt_family_id (message_type_of name n)
          in if family_id \<noteq> kIllegalMessageType then
               Some (family_id, n\<lparr>nm_factories := snd (AddFactoryMethod family_id factory (nm_factories n))\<rparr>)
             else if timercmp_less now end_time then family_loop E name factory end_time rs n
             else Some (kIllegalMessageType, n))"

text \<open>\<open>OnAckDoNothing\<close> and \<open>OnNetlinkMessageError\<close> are two client callbacks.\<close>

definition GetFamily ::
    "nlm_env \<Rightarrow> nat \<Rightarrow> nat \<Rightarrow> bytes \<Rightarrow> nl_family \<Rightarrow> select_result list \<Rightarrow> nl_manager \<Rightarrow> (u16 \<times> nl_manager) option" where
  "GetFamily E OnAckDoNothing OnNetlinkMessageError name factory results n =
     (let t = message_type_of name n;
          n = n\<lparr>nm_message_types := AList.update name t (nm_message_types n)\<rparr>
      in if mt_family_id t \<noteq> kIllegalMessageType then Some (mt_family_id t, n)
         else if \<not> nm_sock n then None
         else
           let (ok, l) = SetStringAttributeValue CTRL_ATTR_FAMILY_NAME name (fa_create control_family CTRL_CMD_GETFAMILY)
           in if \<not> ok then Some (0, n)
              else
                let msg = message_new GENL_ID_CTRL (GenericMessage CTRL_CMD_GETFAMILY l);
                    (_, _, n) = SendControlMessage E msg (Some OnNewFamily) (Some OnAckDoNothing) (Some OnNetlinkMessageError) n
                in family_loop E name factory (timeradd (le_now E) (kMaximumNewFamilyWaitSeconds, 0)) results n)"

end
