(* ===== verification/Netlink_Manager_Proofs.thy ===== *)
theory Netlink_Manager_Proofs
  imports Netlink_Manager
begin

text \<open>
  The queue of dump requests of \<open>net/netlink_manager.cc\<close>. A step relation lets requests, received data and the two
  delayed tasks come in any order. In every reachable state a dump is pending exactly if one of its two tasks is armed,
  so neither task ever finds an empty queue, and as long as sending succeeds no request stays in the queue with nothing
  pending. The last lemmas show what a failed first send and an answer \<open>-EBUSY\<close> of the kernel do.
\<close>

subsection \<open>What leaves the queue alone\<close>

definition queue_of :: "nl_manager \<Rightarrow> pending_message list \<times> bool \<times> bool \<times> bool" where
  "queue_of n = (nm_pending_messages n, nm_dump_pending n, nm_timeout_armed n, nm_resend_armed n)"

definition waiting :: "nl_manager \<Rightarrow> u32 set" where
  "waiting n = dom (map_of (nm_message_handlers n))"

definition quiet :: "nl_manager \<Rightarrow> nl_manager \<Rightarrow> bool" where
  "quiet n n' \<longleftrightarrow> queue_of n' = queue_of n \<and> waiting n' \<subseteq> waiting n \<and> nm_sock n' = nm_sock n"

lemma quiet_refl [simp, intro]: "quiet n n"
  by (simp add: quiet_def)

lemma quiet_trans: "quiet a b \<Longrightarrow> quiet b c \<Longrightarrow> quiet a c"
  by (auto simp: quiet_def)

lemma quiet_event [intro]: "quiet a n \<Longrightarrow> quiet a (event ev n)"
  by (simp add: quiet_def event_def queue_of_def waiting_def)

lemma quiet_erase [intro]: "quiet a n \<Longrightarrow> quiet a (erase_handler seq n)"
  by (auto simp: quiet_def erase_handler_def queue_of_def waiting_def delete_conv' split: if_splits)

lemma quiet_types [intro]: "quiet a n \<Longrightarrow> quiet a (nm_message_types_update f n)"
  by (simp add: quiet_def queue_of_def waiting_def)

lemma quiet_HandleError [intro]: "quiet a n \<Longrightarrow> quiet a (HandleError ty m h n)"
  by (auto simp: HandleError_def split: option.split)

lemma quiet_CallErrorHandler [intro]: "quiet a n \<Longrightarrow> quiet a (CallErrorHandler seq ty m n)"
  unfolding CallErrorHandler_def by (auto split: option.split)

lemma quiet_expire [intro]: "quiet a n \<Longrightarrow> quiet a (expire_handlers now hs n)"
  by (induction now hs n rule: expire_handlers.induct) (simp_all add: quiet_erase quiet_HandleError)

lemma quiet_OnNewFamily [intro]: "quiet a n \<Longrightarrow> quiet a (OnNewFamilyMessage l n)"
  by (auto simp: OnNewFamilyMessage_def Let_def split: option.split)

lemma quiet_HandleMessage: "quiet a n \<Longrightarrow> quiet a (snd (HandleMessage E h m n))"
  by (auto simp: HandleMessage_def Let_def split: option.split message_cb.split message_body.split)

lemma quiet_HandleAck: "HandleAck E h n = Some (remove, n') \<Longrightarrow> quiet n n'"
  by (auto simp: HandleAck_def base_HandleAck_def split: if_splits option.splits)

lemma quiet_handler_reply: "quiet n (handler_reply E seq h m n)"
proof -
  obtain ok n1 where H: "HandleMessage E h m n = (ok, n1)" by fastforce
  have "quiet n n1" using quiet_HandleMessage[OF quiet_refl] H by (metis snd_conv)
  then show ?thesis unfolding handler_reply_def Let_def H by auto
qed

lemma quiet_ack_reply: "ack_reply E seq n = Some n' \<Longrightarrow> quiet n n'"
  by (auto simp: ack_reply_def split: option.splits if_splits dest!: quiet_HandleAck)

lemma quiet_run_broadcast: "quiet n (run_broadcast m n)"
proof -
  have "quiet a n \<Longrightarrow> quiet a (fold (\<lambda>h. event (RanBroadcast h m)) hs n)" for hs a
    by (induction hs arbitrary: n) auto
  then show ?thesis by (simp add: run_broadcast_def)
qed

subsection \<open>Steps\<close>

text \<open>
  A step of the manager. The parameters of \<open>nlm_env\<close> may differ from step to step. The armed tasks are the guards of
  the two delayed steps. In a \<open>good\<close> world every message is sent, and the socket does not come round to a sequence
  number that is still in use.
\<close>

definition sends :: "bool \<Rightarrow> nlm_env \<Rightarrow> bool" where
  "sends good E \<longleftrightarrow> (good \<longrightarrow> (\<forall>i s. le_send E i s))"

definition fresh :: "bool \<Rightarrow> nl_manager \<Rightarrow> bool" where
  "fresh good n \<longleftrightarrow> (good \<longrightarrow> fst (GetSequenceNumber n) \<notin> waiting n \<union> pm_sequence_number ` set (nm_pending_messages n))"

inductive nlm_step :: "bool \<Rightarrow> nl_manager \<Rightarrow> nl_manager \<Rightarrow> bool" where
  init: "nlm_step good n (snd (Manager_Init ok n))"
| reset: "nlm_step good n (Manager_Reset full n)"
| add_broadcast: "nlm_step good n (snd (AddBroadcastHandler h n))"
| remove_broadcast: "nlm_step good n (snd (RemoveBroadcastHandler b n))"
| remove_handler: "nlm_step good n (snd (RemoveMessageHandler m n))"
| send: "sends good E \<Longrightarrow> fresh good n \<Longrightarrow> nlm_step good n (snd (snd (SendOrPostMessage E m handler n)))"
| timeout: "sends good E \<Longrightarrow> nm_timeout_armed n \<Longrightarrow> OnPendingDumpTimeout E n = Some n' \<Longrightarrow> nlm_step good n n'"
| resend: "sends good E \<Longrightarrow> nm_resend_armed n \<Longrightarrow> ResendPendingDumpMessage E n = Some n' \<Longrightarrow> nlm_step good n n'"
| receive: "sends good E \<Longrightarrow> OnNlMessageReceived E p n = Some n' \<Longrightarrow> nlm_step good n n'"

inductive nlm_reach :: "bool \<Rightarrow> nl_manager \<Rightarrow> bool" where
  start: "nlm_reach good NetlinkManager_new"
| step: "nlm_reach good n \<Longrightarrow> nlm_step good n n' \<Longrightarrow> nlm_reach good n'"

text \<open>
  The invariant of the queue: it holds dumps only; one is pending exactly if a task is armed, and then the queue has a
  front; the task that sends again is only armed while tries are left.
\<close>

definition entries_ok :: "nl_manager \<Rightarrow> bool" where
  "entries_ok n \<longleftrightarrow> (\<forall>pm \<in> set (nm_pending_messages n). pm_is_dump_request pm \<and> pm_retries_left pm \<in> {0, 1})"

definition queue_ok :: "nl_manager \<Rightarrow> bool" where
  "queue_ok n \<longleftrightarrow> entries_ok n \<and>
     (nm_dump_pending n \<longleftrightarrow> nm_timeout_armed n \<or> nm_resend_armed n) \<and>
     (nm_dump_pending n \<longrightarrow> nm_pending_messages n \<noteq> []) \<and>
     (nm_resend_armed n \<longrightarrow> pm_retries_left (hd (nm_pending_messages n)) = 1)"

lemma queue_ok_quiet: "quiet n n' \<Longrightarrow> queue_ok n \<Longrightarrow> queue_ok n'"
  by (simp add: quiet_def queue_of_def queue_ok_def entries_ok_def)

lemma register_handler [simp]:
  "waiting (n\<lparr>nm_message_handlers := put s h (nm_message_handlers n)\<rparr>) = insert s (waiting n)"
  "queue_of (n\<lparr>nm_message_handlers := hs\<rparr>) = queue_of n"
  by (auto simp: waiting_def queue_of_def)

lemma Send_Internal:
  "SendMessageInternal E pm n = (ok, n') \<Longrightarrow>
     queue_of n' = (if ok \<and> pm_is_dump_request pm then (nm_pending_messages n, True, True, nm_resend_armed n) else queue_of n) \<and>
     waiting n' = waiting n \<and> ok = le_send E (length (nm_sent n)) (pm_message_string pm)"
  by (auto simp: SendMessageInternal_def queue_of_def waiting_def Let_def split: if_splits)

lemma Register:
  assumes "RegisterHandlersAndSendMessage E pm n = (ok, n')"
  shows "queue_of n' = (if ok \<and> pm_is_dump_request pm then (nm_pending_messages n, True, True, nm_resend_armed n) else queue_of n)"
    and "waiting n' \<subseteq> insert (pm_sequence_number pm) (waiting n)"
    and "\<forall>i s. le_send E i s \<Longrightarrow> pm_sequence_number pm \<notin> waiting n \<Longrightarrow> ok"
proof -
  define n1 where "n1 = expire_handlers (le_now E) (nm_message_handlers n) n"
  have "quiet n n1" unfolding n1_def by auto
  then have Q: "queue_of n1 = queue_of n" "nm_pending_messages n1 = nm_pending_messages n"
      "nm_resend_armed n1 = nm_resend_armed n" "waiting n1 \<subseteq> waiting n"
    by (auto simp: quiet_def queue_of_def)
  note R = assms[unfolded RegisterHandlersAndSendMessage_def Let_def, folded n1_def]
  consider (none) "pm_handler pm = None" "SendMessageInternal E pm n1 = (ok, n')"
    | (taken) "pm_sequence_number pm \<in> waiting n1" "ok = False" "n' = n1"
    | (new) h where "SendMessageInternal E pm
        (n1\<lparr>nm_message_handlers := put (pm_sequence_number pm) h (nm_message_handlers n1)\<rparr>) = (ok, n')"
  proof (cases "pm_handler pm")
    case None
    with R show thesis by (intro none) simp_all
  next
    case (Some h)
    show thesis
    proof (cases "map_of (nm_message_handlers n1) (pm_sequence_number pm) = None")
      case True
      with R Some show thesis by (intro new) simp
    next
      case False
      with R Some show thesis by (intro taken) (auto simp: waiting_def)
    qed
  qed
  note cases = this
  show "queue_of n' = (if ok \<and> pm_is_dump_request pm then (nm_pending_messages n, True, True, nm_resend_armed n) else queue_of n)"
    by (cases rule: cases) (use Q in \<open>auto dest!: Send_Internal\<close>)
  show "waiting n' \<subseteq> insert (pm_sequence_number pm) (waiting n)"
    by (cases rule: cases) (use Q in \<open>auto dest!: Send_Internal\<close>)
  show ok if "\<forall>i s. le_send E i s" "pm_sequence_number pm \<notin> waiting n"
    by (cases rule: cases) (use Q that in \<open>auto dest!: Send_Internal\<close>)
qed

subsection \<open>The invariant\<close>

lemma Complete_ok:
  assumes "entries_ok n" "nm_pending_messages n \<noteq> []"
  shows "\<exists>n'. OnPendingDumpComplete E n = Some n' \<and> queue_ok n'"
proof -
  obtain pm rest where P: "nm_pending_messages n = pm # rest" using assms(2) by (cases "nm_pending_messages n") auto
  define n1 where "n1 = n\<lparr>nm_dump_pending := False, nm_timeout_armed := False, nm_resend_armed := False, nm_pending_messages := rest\<rparr>"
  have Q1: "queue_of n1 = (rest, False, False, False)" by (simp add: n1_def queue_of_def)
  show ?thesis
  proof (cases rest)
    case Nil
    with P Q1 show ?thesis
      by (simp add: OnPendingDumpComplete_def queue_ok_def entries_ok_def queue_of_def n1_def)
  next
    case (Cons pm2 rest2)
    obtain ok n2 where R: "RegisterHandlersAndSendMessage E pm2 n1 = (ok, n2)" by fastforce
    have "queue_ok n2"
      using Register(1)[OF R] assms(1) P Cons Q1
      by (auto simp: queue_of_def queue_ok_def entries_ok_def split: if_splits)
    moreover have "OnPendingDumpComplete E n = Some n2"
      using P Cons R by (simp add: OnPendingDumpComplete_def n1_def Let_def)
    ultimately show ?thesis by simp
  qed
qed

lemma entries_ok_quiet: "quiet n n' \<Longrightarrow> entries_ok n \<Longrightarrow> entries_ok n'"
  by (simp add: quiet_def queue_of_def entries_ok_def)

lemma pending_quiet: "quiet n n' \<Longrightarrow> nm_pending_messages n' = nm_pending_messages n"
  by (simp add: quiet_def queue_of_def)

lemma Timeout_ok:
  assumes "queue_ok n" "nm_timeout_armed n"
  shows "\<exists>n'. OnPendingDumpTimeout E n = Some n' \<and> queue_ok n'"
proof -
  let ?n = "n\<lparr>nm_timeout_armed := False\<rparr>"
  have "quiet ?n (CallErrorHandler (PendingDumpSequenceNumber n) kTimeoutWaitingForResponse None ?n)" by auto
  moreover have "entries_ok ?n" "nm_pending_messages ?n \<noteq> []" using assms by (auto simp: queue_ok_def entries_ok_def)
  ultimately show ?thesis
    unfolding OnPendingDumpTimeout_def by (intro Complete_ok) (auto dest: entries_ok_quiet pending_quiet)
qed

lemma Resend_ok:
  assumes "queue_ok n" "nm_resend_armed n"
  shows "\<exists>n'. ResendPendingDumpMessage E n = Some n' \<and> queue_ok n'"
proof -
  have D: "nm_dump_pending n" "nm_pending_messages n \<noteq> []" "pm_retries_left (hd (nm_pending_messages n)) = 1"
    using assms by (auto simp: queue_ok_def)
  then obtain pm rest where P: "nm_pending_messages n = pm # rest" "pm_retries_left pm = 1"
    by (cases "nm_pending_messages n") auto
  define n1 where "n1 = upd_front (pm_retries_left_update (\<lambda>r. r - 1)) (n\<lparr>nm_resend_armed := False\<rparr>)"
  let ?pm = "pm\<lparr>pm_retries_left := 0\<rparr>"
  have U [simp]: "pm_retries_left_update (\<lambda>r. r - 1) pm = ?pm" using P(2) by (cases pm) simp
  have Q1: "queue_of n1 = (?pm # rest, True, nm_timeout_armed n, False)"
    using P D by (simp add: n1_def upd_front_def queue_of_def)
  have ent: "entries_ok n1" using assms P Q1 by (auto simp: queue_ok_def entries_ok_def queue_of_def)
  obtain ok n2 where S: "SendMessageInternal E ?pm n1 = (ok, n2)" by fastforce
  have Q2: "queue_of n2 = (if ok then (?pm # rest, True, True, False) else queue_of n1)"
    using Send_Internal[OF S] Q1 ent by (auto simp: queue_of_def entries_ok_def)
  show ?thesis
  proof (cases ok)
    case True
    have "ResendPendingDumpMessage E n = Some n2"
      using D P S True unfolding ResendPendingDumpMessage_def
      by (simp add: IsDumpPending_def Let_def n1_def[symmetric]) (simp add: n1_def upd_front_def)
    moreover have "queue_ok n2" using Q2 True ent Q1 by (auto simp: queue_ok_def queue_of_def entries_ok_def)
    ultimately show ?thesis by simp
  next
    case False
    have P2: "nm_pending_messages n2 = ?pm # rest" using Q2 False Q1 by (simp add: queue_of_def)
    define n3 where "n3 = CallErrorHandler (PendingDumpSequenceNumber n2) kErrorFromKernel
      (Some (message_new NLMSG_ERROR (ErrorAckMessage (pm_last_received_error (hd (nm_pending_messages n2)))))) n2"
    have "quiet n2 n3" unfolding n3_def by auto
    moreover have "entries_ok n2" using ent Q1 P2 by (simp add: queue_of_def entries_ok_def)
    ultimately have "\<exists>n'. OnPendingDumpComplete E n3 = Some n' \<and> queue_ok n'"
      using P2 by (intro Complete_ok) (auto dest: entries_ok_quiet pending_quiet)
    moreover have "ResendPendingDumpMessage E n = OnPendingDumpComplete E n3"
      using D P S False P2 unfolding ResendPendingDumpMessage_def n3_def
      by (simp add: IsDumpPending_def Let_def n1_def[symmetric]) (simp add: n1_def upd_front_def)
    ultimately show ?thesis by simp
  qed
qed

text \<open>The three outcomes of \<open>SendOrPostMessage\<close>.\<close>

lemma GetSequenceNumber_quiet: "GetSequenceNumber n = (seq, s) \<Longrightarrow> queue_of s = queue_of n \<and> waiting s = waiting n"
  by (auto simp: GetSequenceNumber_def Let_def queue_of_def waiting_def split: if_splits)

lemma SendOrPost_cases:
  assumes "SendOrPostMessage E m handler n = (ok, m', n')"
  obtains (request) seq s pm where "GetSequenceNumber n = (seq, s)" "pm_sequence_number pm = seq" "\<not> pm_is_dump_request pm"
      "ms_flags m AND NLM_F_DUMP = 0" "RegisterHandlersAndSendMessage E pm s = (ok, n')"
    | (queued) seq s pm where "GetSequenceNumber n = (seq, s)" "pm_sequence_number pm = seq"
      "pm_is_dump_request pm" "pm_retries_left pm = 1" "IsDumpPending (s\<lparr>nm_pending_messages := nm_pending_messages s @ [pm]\<rparr>)"
      "ok" "n' = s\<lparr>nm_pending_messages := nm_pending_messages s @ [pm]\<rparr>"
    | (first) seq s pm where "GetSequenceNumber n = (seq, s)" "pm_sequence_number pm = seq"
      "pm_is_dump_request pm" "pm_retries_left pm = 1" "\<not> nm_dump_pending s"
      "RegisterHandlersAndSendMessage E pm (s\<lparr>nm_pending_messages := nm_pending_messages s @ [pm]\<rparr>) = (ok, n')"
proof -
  obtain seq s where G: "GetSequenceNumber n = (seq, s)" by fastforce
  obtain str m2 where M: "Message_Encode (le_endian E) (le_pid E) seq m = (str, m2)" by fastforce
  define pm where "pm = pending_new seq (ms_flags m AND NLM_F_DUMP \<noteq> 0) str handler"
  have pm: "pm_sequence_number pm = seq" "pm_is_dump_request pm = (ms_flags m AND NLM_F_DUMP \<noteq> 0)" "pm_retries_left pm = 1"
    by (simp_all add: pm_def pending_new_def kMaxNlMessageRetries_def)
  note A = assms[unfolded SendOrPostMessage_def G Let_def, simplified, unfolded M, simplified, folded pm_def]
  let ?s = "s\<lparr>nm_pending_messages := nm_pending_messages s @ [pm]\<rparr>"
  show thesis
  proof (cases "ms_flags m AND NLM_F_DUMP = 0")
    case True
    with A have "RegisterHandlersAndSendMessage E pm s = (ok, n')" by (auto simp: pm_def split: prod.splits)
    with G pm True show thesis by (intro request) auto
  next
    case False
    show thesis
    proof (cases "IsDumpPending ?s")
      case True
      with A False have "ok" "n' = ?s" by (auto simp: pm_def)
      with G pm False True show thesis by (intro queued) auto
    next
      case F: False
      with A False have "RegisterHandlersAndSendMessage E pm ?s = (ok, n')" by (auto simp: pm_def split: prod.splits)
      moreover have "\<not> nm_dump_pending s" using F by (simp add: IsDumpPending_def)
      ultimately show thesis using G pm False by (intro first) auto
    qed
  qed
qed

lemma queue_parts:
  "queue_of n' = (ps, d, t, r) \<longleftrightarrow>
     nm_pending_messages n' = ps \<and> nm_dump_pending n' = d \<and> nm_timeout_armed n' = t \<and> nm_resend_armed n' = r"
  by (simp add: queue_of_def)

lemma SendOrPost_ok:
  assumes "queue_ok n"
  shows "queue_ok (snd (snd (SendOrPostMessage E m handler n)))"
proof -
  obtain ok m' n' where S: "SendOrPostMessage E m handler n = (ok, m', n')" by (metis prod_cases3)
  have ok_s: "queue_ok s \<and> nm_pending_messages s = nm_pending_messages n" if "GetSequenceNumber n = (seq, s)" for seq s
    using GetSequenceNumber_quiet[OF that] assms by (simp add: queue_of_def queue_ok_def entries_ok_def)
  from S have "queue_ok n'"
  proof (cases rule: SendOrPost_cases)
    case request
    then show ?thesis using Register(1) ok_s by (fastforce simp: queue_of_def queue_ok_def entries_ok_def)
  next
    case queued
    then show ?thesis using ok_s[OF queued(1)] by (auto simp: IsDumpPending_def queue_ok_def entries_ok_def)
  next
    case (first seq s pm)
    then show ?thesis
      using ok_s[OF first(1)] Register(1)[OF first(6)]
      by (auto simp: queue_of_def queue_ok_def entries_ok_def split: if_splits)
  qed
  with S show ?thesis by simp
qed

text \<open>Received messages.\<close>

lemma dump_reply_ok:
  assumes "queue_ok n"
  shows "\<exists>stop n'. dump_reply E m n = Some (stop, n') \<and> queue_ok n'"
proof (cases "IsDumpPending n \<and> ms_sequence_number m = PendingDumpSequenceNumber n \<and> \<not> (is_multi m \<and> ms_message_type m \<noteq> NLMSG_DONE)")
  case True
  then have P: "nm_dump_pending n" "nm_pending_messages n \<noteq> []" by (auto simp: IsDumpPending_def)
  then obtain pm rest where Q: "nm_pending_messages n = pm # rest" by (cases "nm_pending_messages n") auto
  show ?thesis
  proof (cases "error_code_of m = Some (- EBUSY) \<and> pm_retries_left (hd (nm_pending_messages n)) \<noteq> 0")
    case F: False
    have "dump_reply E m n = map_option (Pair False) (OnPendingDumpComplete E n)"
      by (simp only: dump_reply_def if_P[OF True] if_not_P[OF F])
    then show ?thesis using Complete_ok[OF _ P(2), of E] assms by (auto simp: queue_ok_def)
  next
    case T: True
    have "dump_reply E m n = Some (True, ResendPendingDumpMessageAfterDelay
            ((upd_front (pm_last_received_error_update (\<lambda>_. - EBUSY)) n)\<lparr>nm_timeout_armed := False\<rparr>))"
      by (simp only: dump_reply_def if_P[OF True] if_P[OF T])
    moreover have "pm_retries_left pm = 1" using T Q assms by (auto simp: queue_ok_def entries_ok_def)
    ultimately show ?thesis
      using assms P Q
      by (auto simp: queue_ok_def entries_ok_def ResendPendingDumpMessageAfterDelay_def upd_front_def)
  qed
next
  case False
  have "dump_reply E m n = Some (False, n)" by (simp only: dump_reply_def if_not_P[OF False])
  then show ?thesis using assms by blast
qed

lemma deliver_quiet: "deliver E seq m n = Some n' \<Longrightarrow> quiet n n'"
  by (auto simp: deliver_def quiet_handler_reply quiet_run_broadcast split: option.splits if_splits dest!: quiet_ack_reply)

lemma receive_cases:
  assumes "OnNlMessageReceived E p n = Some n'"
  obtains (none) "n' = n"
    | (stop) m where "dump_reply E m n = Some (True, n')"
    | (deliver) seq m n1 where "dump_reply E m n = Some (False, n1)" "deliver E seq m n1 = Some n'"
  using assms unfolding OnNlMessageReceived_def
  by (fastforce simp: bind_eq_Some_conv split: option.splits if_splits prod.splits)

lemma receive_ok:
  assumes "queue_ok n" "OnNlMessageReceived E p n = Some n'"
  shows "queue_ok n'"
  using assms(2)
proof (cases rule: receive_cases)
  case (stop m)
  then show ?thesis using dump_reply_ok[OF assms(1), of E m] by auto
next
  case (deliver seq m n1)
  then show ?thesis using dump_reply_ok[OF assms(1), of E m] by (auto dest: deliver_quiet intro: queue_ok_quiet)
qed (use assms in simp)

lemma broadcast_quiet: "quiet n (snd (AddBroadcastHandler h n))" "quiet n (snd (RemoveBroadcastHandler b n))"
    "quiet n (snd (RemoveMessageHandler m n))"
  by (auto simp: AddBroadcastHandler_def RemoveBroadcastHandler_def RemoveMessageHandler_def quiet_def queue_of_def
      waiting_def split: option.splits) (auto simp: erase_handler_def delete_conv' split: if_splits)

lemma reach_ok: "nlm_reach good n \<Longrightarrow> queue_ok n"
proof (induction rule: nlm_reach.induct)
  case start
  show ?case by (simp add: NetlinkManager_new_def queue_ok_def entries_ok_def)
next
  case (step good n n')
  from step(2) step(3) show ?case
  proof (cases rule: nlm_step.cases)
    case (init ok)
    then show ?thesis using step(3) by (simp add: Manager_Init_def queue_ok_def entries_ok_def Let_def)
  next
    case reset
    then show ?thesis by (simp add: Manager_Reset_def queue_ok_def entries_ok_def)
  next
    case (timeout E)
    then show ?thesis using Timeout_ok[OF step(3), of E] by auto
  next
    case (resend E)
    then show ?thesis using Resend_ok[OF step(3), of E] by auto
  next
    case receive
    then show ?thesis using receive_ok step(3) by blast
  qed (use step(3) SendOrPost_ok broadcast_quiet queue_ok_quiet in \<open>blast+\<close>)
qed

text \<open>
  C11: whatever is sent, received, lost or timed out, in every state the netlink manager can reach a dump is pending exactly if
  one of its two delayed tasks is armed, the queue then has a front, and the task that is armed runs to its end: neither
  ever pops an empty queue or reads its front.
\<close>

theorem dump_queue_invariant:
  assumes "nlm_reach good n"
  shows "(nm_dump_pending n \<longleftrightarrow> nm_timeout_armed n \<or> nm_resend_armed n) \<and>
    (nm_dump_pending n \<longrightarrow> nm_pending_messages n \<noteq> []) \<and>
    (nm_timeout_armed n \<longrightarrow> OnPendingDumpTimeout E n \<noteq> None) \<and>
    (nm_resend_armed n \<longrightarrow> ResendPendingDumpMessage E n \<noteq> None)"
  using reach_ok[OF assms] Timeout_ok[of n E] Resend_ok[of n E] by (auto simp: queue_ok_def)

subsection \<open>Progress\<close>

text \<open>With sends that succeed: a request waits only behind a pending one, and no handler has the number of a waiting one.\<close>

definition live_ok :: "nl_manager \<Rightarrow> bool" where
  "live_ok n \<longleftrightarrow> (nm_pending_messages n \<noteq> [] \<longrightarrow> nm_dump_pending n) \<and>
     distinct (List.map pm_sequence_number (nm_pending_messages n)) \<and>
     pm_sequence_number ` set (tl (nm_pending_messages n)) \<inter> waiting n = {}"

lemma live_ok_quiet: "quiet n n' \<Longrightarrow> live_ok n \<Longrightarrow> live_ok n'"
  by (auto simp: quiet_def queue_of_def live_ok_def)

lemma live_ok_same:
  assumes "live_ok n" "waiting n' = waiting n" "nm_dump_pending n \<longrightarrow> nm_dump_pending n'"
    and "List.map pm_sequence_number (nm_pending_messages n') = List.map pm_sequence_number (nm_pending_messages n)"
  shows "live_ok n'"
proof -
  have "set (List.map pm_sequence_number (tl (nm_pending_messages n'))) = set (List.map pm_sequence_number (tl (nm_pending_messages n)))"
    using assms(4) by (metis map_tl)
  then have "pm_sequence_number ` set (tl (nm_pending_messages n')) = pm_sequence_number ` set (tl (nm_pending_messages n))"
    by simp
  moreover have "nm_pending_messages n' \<noteq> [] \<longrightarrow> nm_pending_messages n \<noteq> []" using assms(4) by auto
  ultimately show ?thesis using assms by (simp add: live_ok_def)
qed

lemma Complete_live:
  assumes "sends True E" "entries_ok n" "live_ok n" "OnPendingDumpComplete E n = Some n'"
  shows "live_ok n'"
proof -
  obtain pm rest where P: "nm_pending_messages n = pm # rest"
    using assms(4) by (cases "nm_pending_messages n") (auto simp: OnPendingDumpComplete_def)
  define n1 where "n1 = n\<lparr>nm_dump_pending := False, nm_timeout_armed := False, nm_resend_armed := False, nm_pending_messages := rest\<rparr>"
  have W: "waiting n1 = waiting n" "queue_of n1 = (rest, False, False, False)" by (simp_all add: n1_def waiting_def queue_of_def)
  show ?thesis
  proof (cases rest)
    case Nil
    with P assms(4) show ?thesis by (auto simp: OnPendingDumpComplete_def live_ok_def)
  next
    case (Cons pm2 rest2)
    obtain ok n2 where R: "RegisterHandlersAndSendMessage E pm2 n1 = (ok, n2)" by fastforce
    have N: "n' = n2" using P Cons R assms(4) by (simp add: OnPendingDumpComplete_def n1_def Let_def)
    have "pm_sequence_number pm2 \<notin> waiting n1" using assms(3) P Cons W by (auto simp: live_ok_def)
    then have ok using Register(3)[OF R] assms(1) by (auto simp: sends_def)
    then have Q: "nm_pending_messages n2 = pm2 # rest2" "nm_dump_pending n2"
      using Register(1)[OF R] W assms(2) P Cons by (simp_all add: entries_ok_def queue_of_def)
    have "waiting n2 \<subseteq> insert (pm_sequence_number pm2) (waiting n)" using Register(2)[OF R] W by simp
    moreover have "pm_sequence_number p \<notin> insert (pm_sequence_number pm2) (waiting n)" if "p \<in> set rest2" for p
      using assms(3) P Cons imageI[OF that, of pm_sequence_number] by (auto simp: live_ok_def)
    moreover have "distinct (List.map pm_sequence_number (pm2 # rest2))"
      using assms(3) P Cons by (simp add: live_ok_def)
    ultimately show ?thesis using Q unfolding N live_ok_def by auto
  qed
qed

lemma Timeout_live:
  assumes "sends True E" "queue_ok n" "live_ok n" "nm_timeout_armed n" "OnPendingDumpTimeout E n = Some n'"
  shows "live_ok n'"
proof -
  let ?n = "n\<lparr>nm_timeout_armed := False\<rparr>"
  define n1 where "n1 = CallErrorHandler (PendingDumpSequenceNumber n) kTimeoutWaitingForResponse None ?n"
  have "quiet ?n n1" unfolding n1_def by auto
  moreover have "entries_ok ?n" using assms(2) by (simp add: queue_ok_def entries_ok_def)
  moreover have "live_ok ?n" by (rule live_ok_same[OF assms(3)]) (simp_all add: waiting_def)
  ultimately have n1: "entries_ok n1" "live_ok n1" by (auto dest: entries_ok_quiet live_ok_quiet)
  have "OnPendingDumpComplete E n1 = Some n'" using assms(5) by (simp add: OnPendingDumpTimeout_def n1_def)
  then show ?thesis by (rule Complete_live[OF assms(1) n1])
qed

lemma Resend_live:
  assumes "sends True E" "queue_ok n" "live_ok n" "nm_resend_armed n" "ResendPendingDumpMessage E n = Some n'"
  shows "live_ok n'"
proof -
  define n1 where "n1 = upd_front (pm_retries_left_update (\<lambda>r. r - 1)) (n\<lparr>nm_resend_armed := False\<rparr>)"
  have D: "IsDumpPending (n\<lparr>nm_resend_armed := False\<rparr>)" using assms by (auto simp: queue_ok_def IsDumpPending_def)
  obtain ok n2 where S: "SendMessageInternal E (hd (nm_pending_messages n1)) n1 = (ok, n2)" by fastforce
  have ok using Send_Internal[OF S] assms(1) by (auto simp: sends_def)
  with assms(5) D S have "n' = n2" unfolding ResendPendingDumpMessage_def by (simp add: Let_def n1_def[symmetric])
  moreover have "live_ok n1"
    by (rule live_ok_same[OF assms(3)]) (auto simp: n1_def upd_front_def waiting_def split: list.split)
  moreover have "nm_pending_messages n2 = nm_pending_messages n1 \<and> (nm_dump_pending n1 \<longrightarrow> nm_dump_pending n2)"
    using Send_Internal[OF S] by (auto simp: queue_of_def split: if_splits)
  ultimately show ?thesis using Send_Internal[OF S] live_ok_same[of n1 n2] by auto
qed

lemma dump_reply_live:
  assumes "sends True E" "queue_ok n" "live_ok n" "dump_reply E m n = Some (stop, n')"
  shows "live_ok n'"
proof -
  consider "n' = n" | "OnPendingDumpComplete E n = Some n'" | "n' = ResendPendingDumpMessageAfterDelay
            ((upd_front (pm_last_received_error_update (\<lambda>_. - EBUSY)) n)\<lparr>nm_timeout_armed := False\<rparr>)"
    using assms(4) by (auto simp: dump_reply_def split: if_splits)
  then show ?thesis
  proof cases
    case 2
    then show ?thesis using Complete_live assms by (auto simp: queue_ok_def)
  next
    case 3
    show ?thesis
      by (rule live_ok_same[OF assms(3)])
        (auto simp: 3 upd_front_def waiting_def ResendPendingDumpMessageAfterDelay_def split: list.split)
  qed (use assms in simp)
qed

lemma receive_live:
  assumes "sends True E" "queue_ok n" "live_ok n" "OnNlMessageReceived E p n = Some n'"
  shows "live_ok n'"
  using assms(4)
proof (cases rule: receive_cases)
  case (stop m)
  then show ?thesis using dump_reply_live assms by auto
next
  case (deliver seq m n1)
  then show ?thesis using dump_reply_live[OF assms(1-3)] by (auto dest!: deliver_quiet intro: live_ok_quiet)
qed (use assms in simp)

lemma SendOrPost_live:
  assumes "sends True E" "queue_ok n" "live_ok n" "fresh True n"
  shows "live_ok (snd (snd (SendOrPostMessage E m handler n)))"
proof -
  obtain ok m' n' where S: "SendOrPostMessage E m handler n = (ok, m', n')" by (metis prod_cases3)
  have G: "seq \<notin> waiting s \<and> seq \<notin> pm_sequence_number ` set (nm_pending_messages s) \<and> live_ok s" if "GetSequenceNumber n = (seq, s)" for seq s
    using GetSequenceNumber_quiet[OF that] that assms by (auto simp: queue_of_def live_ok_def fresh_def)
  from S have "live_ok n'"
  proof (cases rule: SendOrPost_cases)
    case (request seq s pm)
    have Q: "nm_pending_messages n' = nm_pending_messages s" "nm_dump_pending n' = nm_dump_pending s"
      using Register(1)[OF request(5)] request(3) by (simp_all add: queue_of_def)
    have "pm_sequence_number p \<notin> insert seq (waiting s)" if "p \<in> set (tl (nm_pending_messages s))" for p
      using G[OF request(1)] that list.set_sel(2)[of "nm_pending_messages s" p]
      by (cases "nm_pending_messages s") (auto simp: live_ok_def)
    then show ?thesis
      using G[OF request(1)] Register(2)[OF request(5)] request(2) unfolding live_ok_def Q by auto
  next
    case (queued seq s pm)
    then show ?thesis using G[OF queued(1)]
      by (cases "nm_pending_messages s") (auto simp: live_ok_def waiting_def IsDumpPending_def)
  next
    case (first seq s pm)
    have E: "nm_pending_messages s = []" using G[OF first(1)] first(5) by (auto simp: live_ok_def)
    have "waiting (s\<lparr>nm_pending_messages := nm_pending_messages s @ [pm]\<rparr>) = waiting s" by (simp add: waiting_def)
    then have ok using Register(3)[OF first(6)] G[OF first(1)] first(2) assms(1) by (auto simp: sends_def)
    then show ?thesis using Register(1)[OF first(6)] E first by (simp add: queue_of_def live_ok_def)
  qed
  with S show ?thesis by simp
qed

lemma reach_live: "nlm_reach good n \<Longrightarrow> good \<Longrightarrow> live_ok n"
proof (induction rule: nlm_reach.induct)
  case start
  show ?case by (simp add: NetlinkManager_new_def live_ok_def)
next
  case (step good n n')
  note ok = reach_ok[OF step(1)] and live = step(3)[OF step(4)]
  from step(2) show ?case
  proof (cases rule: nlm_step.cases)
    case (init ok)
    then show ?thesis using live by (simp add: Manager_Init_def live_ok_def Let_def waiting_def)
  next
    case reset
    then show ?thesis by (simp add: Manager_Reset_def live_ok_def)
  next
    case (timeout E)
    then show ?thesis using Timeout_live ok live step(4) by auto
  next
    case (resend E)
    then show ?thesis using Resend_live ok live step(4) by auto
  next
    case (receive E p)
    then show ?thesis using receive_live ok live step(4) by auto
  next
    case (send E m handler)
    then show ?thesis using SendOrPost_live[of E n m handler] ok live step(4) by auto
  qed (use live broadcast_quiet live_ok_quiet in \<open>blast+\<close>)
qed

text \<open>
  C12: as long as messages can be sent and the sequence numbers do not come round to one still in use, the queue of dumps
  never stands still: in every reachable state in which requests are queued, the first of them is pending and a task
  is armed that will send it again or drop it and send the next.
\<close>

theorem dump_queue_never_stuck:
  assumes "nlm_reach True n" "nm_pending_messages n \<noteq> []"
  shows "IsDumpPending n \<and> PendingDumpSequenceNumber n = pm_sequence_number (hd (nm_pending_messages n)) \<and>
    (nm_timeout_armed n \<or> nm_resend_armed n)"
  using reach_ok[OF assms(1)] reach_live[OF assms(1)] assms(2)
  by (auto simp: queue_ok_def live_ok_def IsDumpPending_def PendingDumpSequenceNumber_def)

subsection \<open>Examples\<close>

definition ex_nlm :: "(nat \<Rightarrow> bytes \<Rightarrow> bool) \<Rightarrow> nlm_env" where
  "ex_nlm ok = \<lparr>le_endian = LittleEndian, le_pid = 7, le_send = ok, le_ack_removes = (\<lambda>_. False), le_nl80211_type = 20, le_now = (0, 0)\<rparr>"

definition ex_dump :: nl_message where
  "ex_dump = (message_new 20 (GenericMessage 32 []))\<lparr>ms_flags := NLM_F_DUMP\<rparr>"

definition ex_start :: nl_manager where
  "ex_start = snd (Manager_Init True NetlinkManager_new)"

definition ex_send :: "(nat \<Rightarrow> bytes \<Rightarrow> bool) \<Rightarrow> nl_manager \<Rightarrow> nl_manager" where
  "ex_send ok n = snd (snd (SendNl80211Message (ex_nlm ok) ex_dump (Some (ClientCb 1)) (Some 2) (Some 3) n))"

lemma ex_start_fields: "nm_pending_messages ex_start = []" "\<not> nm_dump_pending ex_start" "waiting ex_start = {}"
  by (simp_all add: ex_start_def Manager_Init_def NetlinkManager_new_def Let_def waiting_def)

lemma ex_sent: "nm_pending_messages (ex_send (\<lambda>_ _. True) ex_start) \<noteq> [] \<and> nm_timeout_armed (ex_send (\<lambda>_ _. True) ex_start)"
proof -
  obtain ok m' n' where S: "SendOrPostMessage (ex_nlm (\<lambda>_ _. True)) ex_dump
      (Some (new_handler Nl80211ResponseHandler (Some 2) (Some 3) (Some (ClientCb 1)))) ex_start = (ok, m', n')"
    by (metis prod_cases3)
  have G: "nm_pending_messages s = []" "\<not> nm_dump_pending s" "waiting s = {}" if "GetSequenceNumber ex_start = (seq, s)" for seq s
    using GetSequenceNumber_quiet[OF that] ex_start_fields by (auto simp: queue_of_def)
  from S have "nm_pending_messages n' \<noteq> [] \<and> nm_timeout_armed n'"
  proof (cases rule: SendOrPost_cases)
    case (request seq s pm)
    then show ?thesis by (simp add: ex_dump_def NLM_F_DUMP_def)
  next
    case (queued seq s pm)
    then show ?thesis using G[OF queued(1)] by (simp add: IsDumpPending_def)
  next
    case (first seq s pm)
    let ?s = "s\<lparr>nm_pending_messages := nm_pending_messages s @ [pm]\<rparr>"
    have "pm_sequence_number pm \<notin> waiting ?s" using G[OF first(1)] by (simp add: waiting_def)
    then have ok using Register(3)[OF first(6)] by (simp add: ex_nlm_def)
    then show ?thesis using Register(1)[OF first(6)] first(3) by (simp add: queue_of_def)
  qed
  then show ?thesis by (simp only: ex_send_def SendNl80211Message_def S snd_conv simp_thms)
qed

lemma ex_reach: "nlm_reach True (ex_send (\<lambda>_ _. True) ex_start)"
proof -
  have "nlm_reach True ex_start" unfolding ex_start_def by (rule nlm_reach.step[OF nlm_reach.start nlm_step.init])
  moreover have "sends True (ex_nlm (\<lambda>_ _. True))" by (simp add: sends_def ex_nlm_def)
  moreover have "fresh True ex_start" by (simp add: fresh_def ex_start_fields)
  ultimately show ?thesis
    unfolding ex_send_def SendNl80211Message_def by (blast intro: nlm_reach.step nlm_step.send)
qed

lemma dump_queue_invariant_witness:
  "OnPendingDumpTimeout (ex_nlm (\<lambda>_ _. True)) (ex_send (\<lambda>_ _. True) ex_start) \<noteq> None"
  using dump_queue_invariant[OF ex_reach] ex_sent by blast

lemma dump_queue_never_stuck_witness: "IsDumpPending (ex_send (\<lambda>_ _. True) ex_start)"
  using dump_queue_never_stuck[OF ex_reach] ex_sent by blast

text \<open>
  The kernel reports that it is busy with the error \<open>-EBUSY\<close>, which \<open>ErrorAckMessage::error\<close> negates: the comparison with
  \<open>-EBUSY\<close> fails and the dump is given up. Only the error \<open>EBUSY\<close>, which the kernel does not send, has it sent again.
\<close>

lemma kernel_EBUSY_gives_up:
  assumes "ms_body m = ErrorAckMessage (- EBUSY)" "IsDumpPending n" "ms_sequence_number m = PendingDumpSequenceNumber n"
    and "ms_flags m = 0"
  shows "dump_reply E m n = map_option (Pair False) (OnPendingDumpComplete E n)"
  using assms by (simp add: dump_reply_def error_code_of_def ErrorAck_error_def EBUSY_def is_multi_def)

text \<open>
  When the first send of a dump fails, the dump stays in the queue with nothing pending. The reply that completes the next
  dump is then compared with the stale front: the next dump, complete as it is, is sent a second time after the timeout.
\<close>

definition ex_done :: bytes where
  "ex_done = write_header LittleEndian \<lparr>nlmsg_len = 20, nlmsg_type = NLMSG_DONE, nlmsg_flags = NLM_F_MULTI, nlmsg_seq = 2, nlmsg_pid = 7\<rparr>
     @ [0, 0, 0, 0]"

lemma failed_dump_is_sent_twice:
  "(let ok = \<lambda>i _. i \<noteq> 0; E = ex_nlm ok; n = ex_send ok (ex_send ok (NetlinkManager_new\<lparr>nm_sock := True\<rparr>))
    in case Option.bind (OnRawNlMessageReceived E ex_done n) (OnPendingDumpTimeout E) of
         None \<Rightarrow> False
       | Some n \<Rightarrow> length (nm_sent n) = 3 \<and> nm_sent n ! 1 = nm_sent n ! 2 \<and> length (nm_events n) = 2)"
  by code_simp

end
