(* ===== verification/Wifi_Endpoint.thy ===== *)
theory Wifi_Endpoint
  imports Key_Value_Store Device
begin

text \<open>
  Models of \<open>wifi/wifi_endpoint.cc\<close>, \<open>tethering.cc\<close> and \<open>WiFi::SanitizeSSID\<close>: one access point as
  \<open>wpa_supplicant\<close> reports it. The information elements of its beacon give the radio standard, the vendor and whether
  protected management frames are required; its properties give the mode and the security. Iterators into a vector are
  the rest of the vector. The names of modes and security are constants of \<open>service_constants.h\<close>, and an argument.
  \<open>None\<close> is a failed \<open>CHECK\<close>, or a string made of a null pointer.
\<close>

subsection \<open>Names\<close>

record wifi_names =
  kModeManaged :: string
  kModeAdhoc :: string
  kSecurityNone :: string
  kSecurityWep :: string
  kSecurityWpa :: string
  kSecurityRsn :: string
  kSecurityPsk :: string
  kSecurity8021x :: string
  kTypeWifi :: string

definition names_distinct :: "wifi_names \<Rightarrow> bool" where
  "names_distinct N \<longleftrightarrow> distinct [kSecurityNone N, kSecurityWep N, kSecurityWpa N, kSecurityRsn N, kSecurityPsk N, kSecurity8021x N] \<and>
     kModeManaged N \<noteq> kModeAdhoc N"

definition kElemIdCountry :: u8 where "kElemIdCountry = 0x07"
definition kElemIdErp :: u8 where "kElemIdErp = 0x2a"
definition kElemIdHTCap :: u8 where "kElemIdHTCap = 0x2d"
definition kElemIdHTInfo :: u8 where "kElemIdHTInfo = 0x3d"
definition kElemIdRSN :: u8 where "kElemIdRSN = 0x30"
definition kElemIdVendor :: u8 where "kElemIdVendor = 0xdd"
definition kElemIdVHTCap :: u8 where "kElemIdVHTCap = 0xbf"
definition kElemIdVHTOperation :: u8 where "kElemIdVHTOperation = 0xc0"
definition kOUIVendorEpigram :: u32 where "kOUIVendorEpigram = 0x00904c"
definition kOUIVendorMicrosoft :: u32 where "kOUIVendorMicrosoft = 0x0050f2"
definition kOUIMicrosoftWPA :: u8 where "kOUIMicrosoftWPA = 1"
definition kOUIMicrosoftWPS :: u8 where "kOUIMicrosoftWPS = 4"
definition kWPSElementManufacturer :: nat where "kWPSElementManufacturer = 0x1021"
definition kWPSElementModelName :: nat where "kWPSElementModelName = 0x1023"
definition kWPSElementModelNumber :: nat where "kWPSElementModelNumber = 0x1024"
definition kWPSElementDeviceName :: nat where "kWPSElementDeviceName = 0x1011"
definition kRSNIECipherCountOffset :: nat where "kRSNIECipherCountOffset = 6"
definition kRSNIESelectorLen :: nat where "kRSNIESelectorLen = 4"
definition kRSNIENumCiphers :: nat where "kRSNIENumCiphers = 2"
definition kRSNCapabilityFrameProtectionRequired :: u16 where "kRSNCapabilityFrameProtectionRequired = 0x0040"

datatype phy_mode = PhyModeUndef | PhyMode11a | PhyMode11b | PhyMode11g | PhyMode11n | PhyMode11ac

record vendor_information =
  vi_wps_manufacturer :: string
  vi_wps_model_name :: string
  vi_wps_model_number :: string
  vi_wps_device_name :: string
  vi_oui_set :: "u32 list"

record security_flags =
  sf_rsn_8021x :: bool
  sf_rsn_psk :: bool
  sf_wpa_8021x :: bool
  sf_wpa_psk :: bool
  sf_privacy :: bool

subsection \<open>Information elements\<close>

definition string_of_bytes :: "bytes \<Rightarrow> string" where
  "string_of_bytes bs = map (\<lambda>b. char_of (unat b)) bs"

text \<open>Two bytes as a number, least significant byte first and last.\<close>

definition le_count :: "u8 \<Rightarrow> u8 \<Rightarrow> nat" where
  "le_count a b = unat (word_of_le16 [a, b])"

definition be_count :: "u8 \<Rightarrow> u8 \<Rightarrow> nat" where
  "be_count a b = 256 * unat a + unat b"

text \<open>The loop over the cipher counts: the iterator after them, or \<open>None\<close> where the function returns.\<close>

fun skip_ciphers :: "nat \<Rightarrow> bytes \<Rightarrow> bytes option" where
  "skip_ciphers 0 ie = Some ie"
| "skip_ciphers (Suc n) ie =
     (case ie of
        a # b # _ \<Rightarrow>
          let skip_length = 2 + le_count a b * kRSNIESelectorLen
          in if length ie < skip_length then None else skip_ciphers n (drop skip_length ie)
      | _ \<Rightarrow> None)"

definition ParseWPACapabilities :: "bytes \<Rightarrow> bool \<Rightarrow> bool" where
  "ParseWPACapabilities ie ieee80211w_required =
     (if length ie < kRSNIECipherCountOffset then ieee80211w_required
      else case skip_ciphers kRSNIENumCiphers (drop kRSNIECipherCountOffset ie) of
             Some (a # b # _) \<Rightarrow>
               ieee80211w_required \<or> word_of_le16 [a, b] AND kRSNCapabilityFrameProtectionRequired \<noteq> 0
           | _ \<Rightarrow> ieee80211w_required)"

definition set_wps :: "nat \<Rightarrow> string \<Rightarrow> vendor_information \<Rightarrow> vendor_information" where
  "set_wps element_type s v =
     (if element_type = kWPSElementManufacturer then v\<lparr>vi_wps_manufacturer := s\<rparr>
      else if element_type = kWPSElementModelName then v\<lparr>vi_wps_model_name := s\<rparr>
      else if element_type = kWPSElementModelNumber then v\<lparr>vi_wps_model_number := s\<rparr>
      else if element_type = kWPSElementDeviceName then v\<lparr>vi_wps_device_name := s\<rparr>
      else v)"

text \<open>The loop over the WPS elements. \<open>IsStringASCII\<close> is true of strings of characters below 128.\<close>

fun wps_elements :: "bytes \<Rightarrow> vendor_information \<Rightarrow> vendor_information" where
  "wps_elements (t1 # t2 # l1 # l2 # ie) v =
     (let element_length = be_count l1 l2
      in if length ie < element_length then v
         else
           let s = take element_length ie
           in wps_elements (drop element_length ie)
                (if \<forall>b \<in> set s. b < 128 then set_wps (be_count t1 t2) (string_of_bytes s) v else v))"
| "wps_elements _ v = v"

definition insert_oui :: "u32 \<Rightarrow> u32 list \<Rightarrow> u32 list" where
  "insert_oui oui s = (if oui \<in> set s then s else insort oui s)"

definition ParseVendorIE :: "bytes \<Rightarrow> vendor_information \<times> bool \<Rightarrow> vendor_information \<times> bool" where
  "ParseVendorIE ie = (\<lambda>(v, w_required).
     case ie of
       a # b # c # oui_type # data \<Rightarrow>
         let oui = push_bit 16 (ucast a) OR push_bit 8 (ucast b) OR ucast c
         in if oui = kOUIVendorMicrosoft \<and> oui_type = kOUIMicrosoftWPS then (wps_elements data v, w_required)
            else if oui = kOUIVendorMicrosoft \<and> oui_type = kOUIMicrosoftWPA then (v, ParseWPACapabilities data w_required)
            else if oui \<noteq> kOUIVendorEpigram \<and> oui \<noteq> kOUIVendorMicrosoft then
              (v\<lparr>vi_oui_set := insert_oui oui (vi_oui_set v)\<rparr>, w_required)
            else (v, w_required)
     | _ \<Rightarrow> (v, w_required))"

record ie_result =
  ie_found_ht :: bool
  ie_found_vht :: bool
  ie_found_erp :: bool
  ie_vendor :: vendor_information
  ie_w_required :: bool
  ie_country :: string

text \<open>The body of the \<open>switch\<close>. The case of a country has no \<open>break\<close> and runs into the next one.\<close>

definition ie_element :: "u8 \<Rightarrow> bytes \<Rightarrow> ie_result \<Rightarrow> ie_result" where
  "ie_element ty data r =
     (if ty = kElemIdCountry then
        (if 2 \<le> length data then r\<lparr>ie_country := string_of_bytes (take 2 data)\<rparr> else r)\<lparr>ie_found_erp := True\<rparr>
      else if ty = kElemIdErp then r\<lparr>ie_found_erp := True\<rparr>
      else if ty = kElemIdHTCap \<or> ty = kElemIdHTInfo then r\<lparr>ie_found_ht := True\<rparr>
      else if ty = kElemIdVHTCap \<or> ty = kElemIdVHTOperation then r\<lparr>ie_found_vht := True\<rparr>
      else if ty = kElemIdRSN then r\<lparr>ie_w_required := ParseWPACapabilities data (ie_w_required r)\<rparr>
      else if ty = kElemIdVendor then
        let (v, w) = ParseVendorIE data (ie_vendor r, ie_w_required r) in r\<lparr>ie_vendor := v, ie_w_required := w\<rparr>
      else r)"

fun ie_loop :: "bytes \<Rightarrow> ie_result \<Rightarrow> ie_result" where
  "ie_loop (ty # len # rest) r =
     (if length rest < unat len then r
      else ie_loop (drop (unat len) rest) (ie_element ty (take (unat len) rest) r))"
| "ie_loop _ r = r"

text \<open>The radio standard is \<open>None\<close> where \<open>ParseIEs\<close> returns false.\<close>

definition ParseIEs :: "any_dict \<Rightarrow> vendor_information \<Rightarrow> bool \<Rightarrow> string \<Rightarrow>
    phy_mode option \<times> vendor_information \<times> bool \<times> string" where
  "ParseIEs properties v w_required country =
     (case KVS_GetUint8s properties ''IEs'' of
        None \<Rightarrow> (None, v, w_required, country)
      | Some ies \<Rightarrow>
          let r = ie_loop ies \<lparr>ie_found_ht = False, ie_found_vht = False, ie_found_erp = False, ie_vendor = v,
                    ie_w_required = w_required, ie_country = country\<rparr>
          in (if ie_found_vht r then Some PhyMode11ac else if ie_found_ht r then Some PhyMode11n
              else if ie_found_erp r then Some PhyMode11g else None,
              ie_vendor r, ie_w_required r, ie_country r))"

definition DeterminePhyModeFromFrequency :: "any_dict \<Rightarrow> u16 \<Rightarrow> phy_mode" where
  "DeterminePhyModeFromFrequency properties frequency =
     (let max_rate = (case KVS_GetUint32s properties ''Rates'' of Some (r # _) \<Rightarrow> r | _ \<Rightarrow> 0)
      in if frequency < 3000 then if max_rate < 24000000 then PhyMode11b else PhyMode11g
         else PhyMode11a)"


subsection \<open>Mode and security\<close>

definition ParseMode :: "wifi_names \<Rightarrow> string \<Rightarrow> string option" where
  "ParseMode N mode_string =
     (if mode_string = ''infrastructure'' then Some (kModeManaged N)
      else if mode_string = ''ad-hoc'' then Some (kModeAdhoc N)
      else None)"

datatype key_management = kKeyManagement802_1x | kKeyManagementPSK

definition EndsWith :: "string \<Rightarrow> string \<Rightarrow> bool" where
  "EndsWith s suffix \<longleftrightarrow> length suffix \<le> length s \<and> drop (length s - length suffix) s = suffix"

definition ParseKeyManagementMethods :: "any_dict \<Rightarrow> key_management set" where
  "ParseKeyManagementMethods properties =
     (case KVS_GetStrings properties ''KeyMgmt'' of
        None \<Rightarrow> {}
      | Some methods \<Rightarrow>
          fold (\<lambda>m s. if EndsWith m ''-eap'' then insert kKeyManagement802_1x s
                      else if EndsWith m ''-psk'' then insert kKeyManagementPSK s else s) methods {})"

definition merge_security_flags :: "any_dict \<Rightarrow> security_flags \<Rightarrow> security_flags" where
  "merge_security_flags properties f =
     (let f = (case KVS_GetKeyValueStore properties ''RSN'' of
                 None \<Rightarrow> f
               | Some rsn \<Rightarrow> f\<lparr>sf_rsn_8021x := kKeyManagement802_1x \<in> ParseKeyManagementMethods rsn,
                   sf_rsn_psk := kKeyManagementPSK \<in> ParseKeyManagementMethods rsn\<rparr>);
          f = (case KVS_GetKeyValueStore properties ''WPA'' of
                 None \<Rightarrow> f
               | Some wpa \<Rightarrow> f\<lparr>sf_wpa_8021x := kKeyManagement802_1x \<in> ParseKeyManagementMethods wpa,
                   sf_wpa_psk := kKeyManagementPSK \<in> ParseKeyManagementMethods wpa\<rparr>)
      in case KVS_GetBool properties ''Privacy'' of None \<Rightarrow> f | Some b \<Rightarrow> f\<lparr>sf_privacy := b\<rparr>)"

definition security_of_flags :: "wifi_names \<Rightarrow> security_flags \<Rightarrow> string" where
  "security_of_flags N f =
     (if sf_rsn_8021x f \<or> sf_wpa_8021x f then kSecurity8021x N
      else if sf_rsn_psk f then kSecurityRsn N
      else if sf_wpa_psk f then kSecurityWpa N
      else if sf_privacy f then kSecurityWep N
      else kSecurityNone N)"

definition ParseSecurity :: "wifi_names \<Rightarrow> any_dict \<Rightarrow> security_flags \<Rightarrow> string \<times> security_flags" where
  "ParseSecurity N properties flags =
     (let flags = merge_security_flags properties flags in (security_of_flags N flags, flags))"

subsection \<open>Tethering\<close>

definition kAndroidBSSIDPrefix :: bytes where "kAndroidBSSIDPrefix = [0x02, 0x1a, 0x11]"
definition kIosOui :: u32 where "kIosOui = 0x0017f2"
definition kLocallyAdministratedMACBit :: u8 where "kLocallyAdministratedMACBit = 0x02"

definition IsAndroidBSSID :: "bytes \<Rightarrow> bool" where
  "IsAndroidBSSID bssid \<longleftrightarrow> take 3 (bssid @ [0, 0, 0]) = kAndroidBSSIDPrefix"

definition IsLocallyAdministeredBSSID :: "bytes \<Rightarrow> bool" where
  "IsLocallyAdministeredBSSID bssid \<longleftrightarrow> bssid \<noteq> [] \<and> hd bssid AND kLocallyAdministratedMACBit \<noteq> 0"

definition HasIosOui :: "u32 list \<Rightarrow> bool" where
  "HasIosOui oui_set \<longleftrightarrow> kIosOui \<in> set oui_set"

subsection \<open>Endpoints\<close>

text \<open>\<open>ep_device\<close> is the WiFi device; \<open>ep_notified\<close> counts the calls of \<open>WiFi::NotifyEndpointChanged\<close>.\<close>

record wifi_endpoint =
  ep_ssid :: bytes
  ep_bssid :: bytes
  ep_ssid_string :: string
  ep_ssid_hex :: string
  ep_bssid_string :: string
  ep_bssid_hex :: string
  ep_country_code :: string
  ep_signal_strength :: int
  ep_frequency :: u16
  ep_physical_mode :: phy_mode
  ep_network_mode :: string
  ep_security_mode :: string
  ep_vendor_information :: vendor_information
  ep_ieee80211w_required :: bool
  ep_has_rsn_property :: bool
  ep_has_wpa_property :: bool
  ep_has_tethering_signature :: bool
  ep_security_flags :: security_flags
  ep_device :: nat
  ep_rpc_id :: string
  ep_notified :: nat

definition SanitizeSSID :: "string \<Rightarrow> bool \<times> string" where
  "SanitizeSSID ssid =
     (let printable = \<lambda>c. 32 \<le> (of_char c :: nat) \<and> (of_char c :: nat) \<le> 126
      in (\<not> list_all printable ssid, map (\<lambda>c. if printable c then c else CHR ''?'') ssid))"

text \<open>\<open>base::HexEncode\<close> writes upper case digits.\<close>

definition HexEncode :: "bytes \<Rightarrow> string" where
  "HexEncode bs = concat (map (\<lambda>b. map (\<lambda>n. char_of (if n < 10 then n + 48 else n + 55)) [unat b div 16, unat b mod 16]) bs)"

definition no_vendor :: vendor_information where
  "no_vendor = \<lparr>vi_wps_manufacturer = '''', vi_wps_model_name = '''', vi_wps_model_number = '''', vi_wps_device_name = '''', vi_oui_set = []\<rparr>"

definition no_flags :: security_flags where
  "no_flags = \<lparr>sf_rsn_8021x = False, sf_rsn_psk = False, sf_wpa_8021x = False, sf_wpa_psk = False, sf_privacy = False\<rparr>"

definition CheckForTetheringSignature :: "bytes \<Rightarrow> vendor_information \<Rightarrow> bool" where
  "CheckForTetheringSignature bssid v \<longleftrightarrow> IsAndroidBSSID bssid \<or> IsLocallyAdministeredBSSID bssid \<and> HasIosOui (vi_oui_set v)"

definition WiFiEndpoint_new :: "wifi_names \<Rightarrow> nat \<Rightarrow> string \<Rightarrow> any_dict \<Rightarrow> wifi_endpoint option" where
  "WiFiEndpoint_new N device rpc_id properties = do {
     ssid \<leftarrow> KVS_GetUint8s properties ''SSID'';
     bssid \<leftarrow> KVS_GetUint8s properties ''BSSID'';
     signal \<leftarrow> KVS_GetInt16 properties ''Signal'';
     let frequency = (case KVS_GetUint16 properties ''Frequency'' of None \<Rightarrow> 0 | Some f \<Rightarrow> f);
     let (phy_mode, vendor, w_required, country) = ParseIEs properties no_vendor False '''';
     mode_string \<leftarrow> KVS_GetString properties ''Mode'';
     network_mode \<leftarrow> ParseMode N mode_string;
     let (security, flags) = ParseSecurity N properties no_flags;
     bssid_string \<leftarrow> MakeStringFromHardwareAddress bssid;
     Some \<lparr>ep_ssid = ssid, ep_bssid = bssid, ep_ssid_string = snd (SanitizeSSID (string_of_bytes ssid)),
       ep_ssid_hex = HexEncode ssid, ep_bssid_string = bssid_string, ep_bssid_hex = HexEncode bssid,
       ep_country_code = country, ep_signal_strength = signal, ep_frequency = frequency,
       ep_physical_mode = (case phy_mode of Some m \<Rightarrow> m | None \<Rightarrow> DeterminePhyModeFromFrequency properties frequency),
       ep_network_mode = network_mode, ep_security_mode = security, ep_vendor_information = vendor,
       ep_ieee80211w_required = w_required,
       ep_has_rsn_property = KVS_ContainsKeyValueStore properties ''RSN'',
       ep_has_wpa_property = KVS_ContainsKeyValueStore properties ''WPA'',
       ep_has_tethering_signature = CheckForTetheringSignature bssid vendor,
       ep_security_flags = flags, ep_device = device, ep_rpc_id = rpc_id, ep_notified = 0\<rparr>
   }"

definition Endpoint_PropertiesChanged :: "wifi_names \<Rightarrow> any_dict \<Rightarrow> wifi_endpoint \<Rightarrow> wifi_endpoint option" where
  "Endpoint_PropertiesChanged N properties ep = do {
     let (notify, ep) = (case KVS_GetInt16 properties ''Signal'' of
                           None \<Rightarrow> (False, ep) | Some s \<Rightarrow> (True, ep\<lparr>ep_signal_strength := s\<rparr>));
     (notify, ep) \<leftarrow> (case KVS_GetString properties ''Mode'' of
                        None \<Rightarrow> Some (notify, ep)
                      | Some mode_string \<Rightarrow> do {
                          new_mode \<leftarrow> ParseMode N mode_string;
                          Some (if new_mode \<noteq> ep_network_mode ep then (True, ep\<lparr>ep_network_mode := new_mode\<rparr>) else (notify, ep))
                        });
     let (new_security_mode, flags) = ParseSecurity N properties (ep_security_flags ep);
     let ep = ep\<lparr>ep_security_flags := flags\<rparr>;
     let (notify, ep) = (if new_security_mode \<noteq> ep_security_mode ep then (True, ep\<lparr>ep_security_mode := new_security_mode\<rparr>)
                         else (notify, ep));
     Some (if notify then ep\<lparr>ep_notified := ep_notified ep + 1\<rparr> else ep)
   }"

definition UpdateSignalStrength :: "int \<Rightarrow> wifi_endpoint \<Rightarrow> wifi_endpoint" where
  "UpdateSignalStrength strength ep =
     (if ep_signal_strength ep = strength then ep
      else ep\<lparr>ep_signal_strength := strength, ep_notified := ep_notified ep + 1\<rparr>)"

text \<open>The numbers of \<open>WPASupplicant::kNetworkModeInfrastructureInt\<close> and \<open>kNetworkModeAdHocInt\<close>.\<close>

definition ModeStringToUint :: "wifi_names \<Rightarrow> string \<Rightarrow> u32" where
  "ModeStringToUint N mode_string =
     (if mode_string = kModeManaged N then 0 else if mode_string = kModeAdhoc N then 1 else 0)"

datatype vendor_property = kVendorWPSManufacturerProperty | kVendorWPSModelNameProperty | kVendorWPSModelNumberProperty
  | kVendorWPSDeviceNameProperty | kVendorOUIListProperty

definition oui_string :: "u32 \<Rightarrow> string" where
  "oui_string oui = hex_byte (ucast (drop_bit 16 oui)) @ ''-'' @ hex_byte (ucast (drop_bit 8 oui)) @ ''-'' @ hex_byte (ucast oui)"

fun join_with :: "string \<Rightarrow> string list \<Rightarrow> string" where
  "join_with sep [] = ''''"
| "join_with sep [s] = s"
| "join_with sep (s # t # ss) = s @ sep @ join_with sep (t # ss)"

definition GetVendorInformation :: "vendor_information \<Rightarrow> (vendor_property \<times> string) list" where
  "GetVendorInformation v =
     filter (\<lambda>(p, s). s \<noteq> '''')
       [(kVendorWPSManufacturerProperty, vi_wps_manufacturer v), (kVendorWPSModelNameProperty, vi_wps_model_name v),
        (kVendorWPSModelNumberProperty, vi_wps_model_number v), (kVendorWPSDeviceNameProperty, vi_wps_device_name v),
        (kVendorOUIListProperty, join_with '' '' (map oui_string (vi_oui_set v)))]"

subsection \<open>What the elements of a beacon say\<close>

text \<open>
  The bytes of a list of elements, what is left over at the end, and the RSN element of the standard that
  requires protected management frames: bit 6 of the capabilities, after two lists of cipher suites.
\<close>

definition ie_bytes :: "(u8 \<times> bytes) list \<Rightarrow> bytes" where
  "ie_bytes es = concat (map (\<lambda>(ty, d). ty # of_nat (length d) # d) es)"

definition ie_incomplete :: "bytes \<Rightarrow> bool" where
  "ie_incomplete rest \<longleftrightarrow> (case rest of _ # len # d \<Rightarrow> length d < unat len | _ \<Rightarrow> True)"

definition frame_protection :: "bytes \<Rightarrow> bool" where
  "frame_protection d \<longleftrightarrow> (\<exists>h n1 s1 n2 s2 caps rest. d = h @ le16 n1 @ s1 @ le16 n2 @ s2 @ le16 caps @ rest \<and>
     length h = 6 \<and> length s1 = 4 * unat n1 \<and> length s2 = 4 * unat n2 \<and> bit caps 6)"

definition element_requires_protection :: "u8 \<times> bytes \<Rightarrow> bool" where
  "element_requires_protection = (\<lambda>(ty, d). ty = kElemIdRSN \<and> frame_protection d \<or>
     ty = kElemIdVendor \<and> (\<exists>data. d = [0x00, 0x50, 0xf2, kOUIMicrosoftWPA] @ data \<and> frame_protection data))"

declare word_of_le16.simps [simp del]

lemma le_count_word: "le_count a b = unat (word_of_le16 [a, b])"
  by (simp add: le_count_def)

lemma skip_ciphers_Suc:
  "skip_ciphers (Suc n) ie = Some rest \<longleftrightarrow>
     (\<exists>k s ie'. ie = le16 k @ s @ ie' \<and> length s = 4 * unat k \<and> skip_ciphers n ie' = Some rest)"
proof
  assume L: "skip_ciphers (Suc n) ie = Some rest"
  then obtain a b t where ie: "ie = a # b # t" by (auto split: list.splits)
  let ?m = "4 * le_count a b"
  have "?m \<le> length t" "skip_ciphers n (drop ?m t) = Some rest"
    using L ie by (auto simp: Let_def kRSNIESelectorLen_def mult.commute split: if_splits)
  then have "ie = le16 (word_of_le16 [a, b]) @ take ?m t @ drop ?m t \<and>
      length (take ?m t) = 4 * unat (word_of_le16 [a, b]) \<and> skip_ciphers n (drop ?m t) = Some rest"
    by (simp add: ie le16_word_of_le16 le_count_word)
  then show "\<exists>k s ie'. ie = le16 k @ s @ ie' \<and> length s = 4 * unat k \<and> skip_ciphers n ie' = Some rest" by blast
next
  assume "\<exists>k s ie'. ie = le16 k @ s @ ie' \<and> length s = 4 * unat k \<and> skip_ciphers n ie' = Some rest"
  then obtain k s ie' where H: "ie = le16 k @ s @ ie'" "length s = 4 * unat k" "skip_ciphers n ie' = Some rest" by blast
  obtain a b where k: "le16 k = [a, b]" by (simp add: le16_def)
  have "word_of_le16 [a, b] = k" using word_of_le16_le16[of k] k by simp
  then have "le_count a b = unat k" by (simp add: le_count_word)
  then show "skip_ciphers (Suc n) ie = Some rest"
    using H k by (simp add: Let_def kRSNIESelectorLen_def mult.commute)
qed

lemma capability_bit: "(w AND kRSNCapabilityFrameProtectionRequired \<noteq> 0) = bit w 6" for w :: u16
proof -
  have "w AND 64 = 0 \<longleftrightarrow> \<not> bit w 6" using and_exp_eq_0_iff_not_bit[of w 6] by simp
  then show ?thesis by (simp add: kRSNCapabilityFrameProtectionRequired_def)
qed

lemma ParseWPACapabilities_iff: "ParseWPACapabilities ie w \<longleftrightarrow> w \<or> frame_protection ie"
proof -
  have two: "kRSNIENumCiphers = Suc (Suc 0)" by (simp add: kRSNIENumCiphers_def)
  have "frame_protection ie \<longleftrightarrow> 6 \<le> length ie \<and>
      (\<exists>a b t. skip_ciphers kRSNIENumCiphers (drop 6 ie) = Some (a # b # t) \<and> bit (word_of_le16 [a, b]) 6)"
    (is "_ \<longleftrightarrow> ?R")
  proof
    assume "frame_protection ie"
    then obtain h n1 s1 n2 s2 caps rest where
      ie: "ie = h @ le16 n1 @ s1 @ le16 n2 @ s2 @ le16 caps @ rest" "length h = 6" "length s1 = 4 * unat n1"
        "length s2 = 4 * unat n2" "bit caps 6"
      unfolding frame_protection_def by blast
    have "skip_ciphers kRSNIENumCiphers (drop 6 ie) = Some (le16 caps @ rest)"
      unfolding two skip_ciphers_Suc using ie by (auto intro!: exI)
    moreover obtain a b where "le16 caps = [a, b]" by (simp add: le16_def)
    ultimately show ?R using ie word_of_le16_le16[of caps] by auto
  next
    assume R: ?R
    then obtain a b t where "skip_ciphers kRSNIENumCiphers (drop 6 ie) = Some (a # b # t)" "bit (word_of_le16 [a, b]) 6"
      by blast
    then obtain n1 s1 n2 s2 where "drop 6 ie = le16 n1 @ s1 @ le16 n2 @ s2 @ a # b # t" "length s1 = 4 * unat n1"
        "length s2 = 4 * unat n2"
      unfolding two skip_ciphers_Suc by auto
    then have "ie = take 6 ie @ le16 n1 @ s1 @ le16 n2 @ s2 @ le16 (word_of_le16 [a, b]) @ t"
      using append_take_drop_id[of 6 ie] by (simp add: le16_word_of_le16)
    with R \<open>bit (word_of_le16 [a, b]) 6\<close> \<open>length s1 = _\<close> \<open>length s2 = _\<close> show "frame_protection ie"
      unfolding frame_protection_def by (metis length_take min.absorb2)
  qed
  then show ?thesis
    by (auto simp: ParseWPACapabilities_def kRSNIECipherCountOffset_def capability_bit split: option.split list.split)
qed

lemma ie_loop_append:
  "\<forall>(ty, d) \<in> set es. length d < 256 \<Longrightarrow> ie_loop (ie_bytes es @ rest) r = ie_loop rest (fold (\<lambda>(ty, d). ie_element ty d) es r)"
proof (induction es arbitrary: r)
  case (Cons e es)
  obtain ty d where e: "e = (ty, d)" by fastforce
  have "unat (of_nat (length d) :: u8) = length d" using Cons.prems e by (simp add: unat_of_nat)
  with Cons e show ?case by (simp add: ie_bytes_def)
qed (simp add: ie_bytes_def)

lemma ie_loop_incomplete: "ie_incomplete rest \<Longrightarrow> ie_loop rest r = r"
  by (cases "(rest, r)" rule: ie_loop.cases) (auto simp: ie_incomplete_def)

lemma ie_split: "\<exists>es rest. ies = ie_bytes es @ rest \<and> (\<forall>(ty, d) \<in> set es. length d < 256) \<and> ie_incomplete rest"
proof (induction "length ies" arbitrary: ies rule: less_induct)
  case less
  show ?case
  proof (cases "ie_incomplete ies")
    case True
    then show ?thesis by (intro exI[of _ "[]"] exI[of _ ies]) (simp add: ie_bytes_def)
  next
    case False
    then obtain ty len d where ies: "ies = ty # len # d" "unat len \<le> length d"
      by (auto simp: ie_incomplete_def split: list.splits)
    then have L: "length (drop (unat len) d) < length ies" by simp
    obtain es rest where R: "drop (unat len) d = ie_bytes es @ rest" "\<forall>(ty, d) \<in> set es. length d < 256" "ie_incomplete rest"
      using less.hyps[OF L] by blast
    have "ies = ie_bytes ((ty, take (unat len) d) # es) @ rest"
      using ies R(1) append_take_drop_id[of "unat len" d] by (simp add: ie_bytes_def min.absorb2)
    moreover have "length (take (unat len) d) < 256" using unsigned_less[of len, where 'a = nat] by simp
    ultimately show ?thesis
      using R by (intro exI[of _ "(ty, take (unat len) d) # es"] exI[of _ rest]) auto
  qed
qed

text \<open>What a list of elements means.\<close>

definition elements_phy_mode :: "(u8 \<times> bytes) list \<Rightarrow> phy_mode option" where
  "elements_phy_mode es =
     (if \<exists>(ty, d) \<in> set es. ty \<in> {kElemIdVHTCap, kElemIdVHTOperation} then Some PhyMode11ac
      else if \<exists>(ty, d) \<in> set es. ty \<in> {kElemIdHTCap, kElemIdHTInfo} then Some PhyMode11n
      else if \<exists>(ty, d) \<in> set es. ty = kElemIdErp then Some PhyMode11g
      else None)"

definition announces_country :: "(u8 \<times> bytes) list \<Rightarrow> bool" where
  "announces_country es \<longleftrightarrow> (\<exists>(ty, d) \<in> set es. ty = kElemIdCountry)"

lemmas elem_ids = kElemIdCountry_def kElemIdErp_def kElemIdHTCap_def kElemIdHTInfo_def kElemIdRSN_def kElemIdVendor_def
  kElemIdVHTCap_def kElemIdVHTOperation_def

lemma ParseVendorIE_protection:
  "snd (ParseVendorIE d (v, w)) \<longleftrightarrow> w \<or> (\<exists>data. d = [0x00, 0x50, 0xf2, kOUIMicrosoftWPA] @ data \<and> frame_protection data)"
proof -
  have oui: "push_bit 16 (ucast a) OR push_bit 8 (ucast b) OR ucast c = kOUIVendorMicrosoft \<longleftrightarrow> a = 0x00 \<and> b = 0x50 \<and> c = 0xf2"
    for a b c :: u8
  proof -
    have "(push_bit 16 (ucast a) OR push_bit 8 (ucast b) OR ucast c :: u32) = kOUIVendorMicrosoft \<longleftrightarrow>
        (push_bit 16 (ucast a) OR push_bit 8 (ucast b) OR ucast c :: u32) =
        push_bit 16 (ucast (0x00 :: u8)) OR push_bit 8 (ucast (0x50 :: u8)) OR ucast (0xf2 :: u8)"
      by (simp add: kOUIVendorMicrosoft_def)
    also have "\<dots> \<longleftrightarrow> a = 0x00 \<and> b = 0x50 \<and> c = 0xf2"
    proof
      assume H: "(push_bit 16 (ucast a) OR push_bit 8 (ucast b) OR ucast c :: u32) =
        push_bit 16 (ucast (0x00 :: u8)) OR push_bit 8 (ucast (0x50 :: u8)) OR ucast (0xf2 :: u8)"
      have B: "bit (push_bit 16 (ucast a) OR push_bit 8 (ucast b) OR ucast c :: u32) n =
          bit (push_bit 16 (ucast (0x00 :: u8)) OR push_bit 8 (ucast (0x50 :: u8)) OR ucast (0xf2 :: u8) :: u32) n" for n
        using H by simp
      have "bit c n = bit (0xf2 :: u8) n" if "n < 8" for n
        using B[of n] that by (simp only: bit_simps) (auto simp: bit_u8_ge)
      moreover have "bit b n = bit (0x50 :: u8) n" if "n < 8" for n
        using B[of "n + 8"] that by (simp only: bit_simps) (auto simp: bit_u8_ge)
      moreover have "bit a n = bit (0x00 :: u8) n" if "n < 8" for n
        using B[of "n + 16"] that by (simp only: bit_simps) (auto simp: bit_u8_ge)
      ultimately show "a = 0x00 \<and> b = 0x50 \<and> c = 0xf2" by (intro conjI bit_word_eqI) auto
    qed simp
    finally show ?thesis .
  qed
  show ?thesis
    by (auto simp: ParseVendorIE_def Let_def oui ParseWPACapabilities_iff kOUIMicrosoftWPA_def kOUIMicrosoftWPS_def split: list.split)
      (auto simp: kOUIVendorMicrosoft_def kOUIVendorEpigram_def)
qed

lemma ie_element_found:
  "ie_found_vht (ie_element ty d r) \<longleftrightarrow> ie_found_vht r \<or> ty \<in> {kElemIdVHTCap, kElemIdVHTOperation}"
  "ie_found_ht (ie_element ty d r) \<longleftrightarrow> ie_found_ht r \<or> ty \<in> {kElemIdHTCap, kElemIdHTInfo}"
  "ie_found_erp (ie_element ty d r) \<longleftrightarrow> ie_found_erp r \<or> ty \<in> {kElemIdErp, kElemIdCountry}"
  by (auto simp: ie_element_def elem_ids split: prod.split)

lemma ie_element_protection:
  "ie_w_required (ie_element ty d r) \<longleftrightarrow> ie_w_required r \<or> element_requires_protection (ty, d)"
proof (cases "ty = kElemIdVendor")
  case True
  obtain v w where P: "ParseVendorIE d (ie_vendor r, ie_w_required r) = (v, w)" by fastforce
  have "w \<longleftrightarrow> ie_w_required r \<or> (\<exists>data. d = [0x00, 0x50, 0xf2, kOUIMicrosoftWPA] @ data \<and> frame_protection data)"
    using ParseVendorIE_protection[of d "ie_vendor r" "ie_w_required r"] P by simp
  with True P show ?thesis by (simp add: ie_element_def element_requires_protection_def elem_ids)
next
  case False
  then show ?thesis by (simp add: ie_element_def element_requires_protection_def ParseWPACapabilities_iff elem_ids)
qed

lemma fold_found:
  "ie_found_vht (fold (\<lambda>(ty, d). ie_element ty d) es r) \<longleftrightarrow>
     ie_found_vht r \<or> (\<exists>(ty, d) \<in> set es. ty \<in> {kElemIdVHTCap, kElemIdVHTOperation})"
  "ie_found_ht (fold (\<lambda>(ty, d). ie_element ty d) es r) \<longleftrightarrow>
     ie_found_ht r \<or> (\<exists>(ty, d) \<in> set es. ty \<in> {kElemIdHTCap, kElemIdHTInfo})"
  "ie_found_erp (fold (\<lambda>(ty, d). ie_element ty d) es r) \<longleftrightarrow>
     ie_found_erp r \<or> (\<exists>(ty, d) \<in> set es. ty \<in> {kElemIdErp, kElemIdCountry})"
  "ie_w_required (fold (\<lambda>(ty, d). ie_element ty d) es r) \<longleftrightarrow> ie_w_required r \<or> (\<exists>e \<in> set es. element_requires_protection e)"
  by (induction es arbitrary: r) (auto simp: ie_element_found ie_element_protection)

text \<open>
  C36: \<open>WiFiEndpoint::ParseIEs\<close> takes the bytes of a beacon for the list of information elements they consist of, up to
  an element that does not fit. The radio standard it finds is the best one any element announces (802.11ac, 802.11n or
  802.11g), except that a beacon with a country element in which no element announces a standard is taken for 802.11g:
  the case of the country element has no \<open>break\<close> and runs into the one of 802.11g (wifi_endpoint.cc:448; see
  \<open>country_makes_11g\<close>). Protected management frames are required exactly if some RSN element, or some WPA element of the
  vendor Microsoft, has the bit of the standard set, or they were required already.
\<close>

theorem ParseIEs_elements:
  assumes "KVS_GetUint8s properties ''IEs'' = Some ies"
  shows "\<exists>es rest. ies = ie_bytes es @ rest \<and> (\<forall>(ty, d) \<in> set es. length d < 256) \<and> ie_incomplete rest \<and>
    (case ParseIEs properties v w country of
       (phy, v', w', country') \<Rightarrow>
         phy = (if elements_phy_mode es = None \<and> announces_country es then Some PhyMode11g else elements_phy_mode es) \<and>
         (w' \<longleftrightarrow> w \<or> (\<exists>e \<in> set es. element_requires_protection e)))"
proof -
  obtain es rest where S: "ies = ie_bytes es @ rest" "\<forall>(ty, d) \<in> set es. length d < 256" "ie_incomplete rest"
    using ie_split by blast
  define r where "r = \<lparr>ie_found_ht = False, ie_found_vht = False, ie_found_erp = False, ie_vendor = v,
                    ie_w_required = w, ie_country = country\<rparr>"
  have L: "ie_loop ies r = fold (\<lambda>(ty, d). ie_element ty d) es r"
    using ie_loop_append[OF S(2), of rest r] ie_loop_incomplete[OF S(3)] S(1) by simp
  define q where "q = fold (\<lambda>(ty, d). ie_element ty d) es r"
  have r: "\<not> ie_found_vht r" "\<not> ie_found_ht r" "\<not> ie_found_erp r" "ie_w_required r = w" by (simp_all add: r_def)
  have Q: "q = ie_loop ies r" by (simp only: q_def L)
  have P: "ParseIEs properties v w country =
      (if ie_found_vht q then Some PhyMode11ac else if ie_found_ht q then Some PhyMode11n
       else if ie_found_erp q then Some PhyMode11g else None, ie_vendor q, ie_w_required q, ie_country q)"
    unfolding ParseIEs_def Q r_def using assms by (simp add: Let_def)
  have F: "ie_found_vht q \<longleftrightarrow> (\<exists>(ty, d) \<in> set es. ty \<in> {kElemIdVHTCap, kElemIdVHTOperation})"
      "ie_found_ht q \<longleftrightarrow> (\<exists>(ty, d) \<in> set es. ty \<in> {kElemIdHTCap, kElemIdHTInfo})"
      "ie_found_erp q \<longleftrightarrow> (\<exists>(ty, d) \<in> set es. ty \<in> {kElemIdErp, kElemIdCountry})"
    unfolding q_def fold_found using r by blast+
  have W: "ie_w_required q \<longleftrightarrow> w \<or> (\<exists>e \<in> set es. element_requires_protection e)"
    unfolding q_def fold_found using r by blast
  have "(if ie_found_vht q then Some PhyMode11ac else if ie_found_ht q then Some PhyMode11n
       else if ie_found_erp q then Some PhyMode11g else None) =
      (if elements_phy_mode es = None \<and> announces_country es then Some PhyMode11g else elements_phy_mode es)"
    unfolding elements_phy_mode_def announces_country_def F by (auto split: if_splits)
  then have P': "ParseIEs properties v w country =
      (if elements_phy_mode es = None \<and> announces_country es then Some PhyMode11g else elements_phy_mode es,
       ie_vendor q, ie_w_required q, ie_country q)"
    by (simp only: P)
  have "case ParseIEs properties v w country of
       (phy, v', w', country') \<Rightarrow>
         phy = (if elements_phy_mode es = None \<and> announces_country es then Some PhyMode11g else elements_phy_mode es) \<and>
         (w' \<longleftrightarrow> w \<or> (\<exists>e \<in> set es. element_requires_protection e))"
    by (simp only: P' prod.case W simp_thms)
  then show ?thesis using S by (intro exI[of _ es] exI[of _ rest] conjI)
qed

lemma ParseIEs_elements_witness:
  "\<exists>es rest. [0x2d, 1, 0, 0x07, 9] = ie_bytes es @ rest \<and> (\<forall>(ty, d) \<in> set es. length d < 256) \<and> ie_incomplete rest \<and>
    elements_phy_mode es = Some PhyMode11n"
proof -
  let ?properties = "[(''IEs'', AnyUint8s [0x2d, 1, 0, 0x07, 9])]"
  have get: "KVS_GetUint8s ?properties ''IEs'' = Some [0x2d, 1, 0, 0x07, 9]" by (simp add: KVS_GetUint8s_def)
  have mode: "fst (ParseIEs ?properties no_vendor False '''') = Some PhyMode11n"
    by (simp add: KVS_GetUint8s_def ParseIEs_def ie_element_def elem_ids)
  obtain es rest where es: "[0x2d, 1, 0, 0x07, 9] = ie_bytes es @ rest" "\<forall>(ty, d) \<in> set es. length d < 256" "ie_incomplete rest"
    and "case ParseIEs ?properties no_vendor False '''' of (phy, v', w', country') \<Rightarrow>
      phy = (if elements_phy_mode es = None \<and> announces_country es then Some PhyMode11g else elements_phy_mode es) \<and>
      (w' \<longleftrightarrow> False \<or> (\<exists>e \<in> set es. element_requires_protection e))"
    using ParseIEs_elements [OF get, where v = no_vendor and w = False and country = "''''"] by (elim exE conjE) (rule that)
  then have "elements_phy_mode es = Some PhyMode11n" using mode by (auto simp: split_def split: if_splits)
  with es show ?thesis by blast
qed

text \<open>
  The case of a country element runs into the one for 802.11g, so an access point on 5 GHz that speaks 802.11a only and
  announces its country is taken for 802.11g.
\<close>

lemma country_makes_11g:
  "(let properties = (\<lambda>ies. [(''IEs'', AnyUint8s ies), (''Frequency'', AnyUint16 5180)])
    in (fst (ParseIEs (properties [0x07, 3, 0x55, 0x53, 0x20]) no_vendor False ''''), fst (ParseIEs (properties []) no_vendor False ''''),
        DeterminePhyModeFromFrequency (properties []) 5180)) = (Some PhyMode11g, None, PhyMode11a)"
  by code_simp

end
