(* ===== verification/Wifi_Service.thy ===== *)
theory Wifi_Service
  imports Wifi_Endpoint Json_Store
begin

text \<open>
  Model of \<open>wifi/wifi_service.cc\<close>, the part that does not call the WiFi device: the service of one network, its
  passphrases, its security, what it tells \<open>wpa_supplicant\<close>, what it stores, and how its properties follow from its
  access points. An access point is known by a handle; \<open>ws_wifi\<close> is whether the service has a WiFi device, of which
  there is one. \<open>base::HexStringToBytes\<close>, \<open>GetGroups\<close>, \<open>GetGroupsWithProperties\<close> and the path of the certificate file
  are arguments, in the record \<open>wifi_platform\<close>.
\<close>

subsection \<open>Data\<close>

record 's wifi_platform =
  wp_platform :: "'s platform"
  wp_names :: wifi_names
  wp_hex :: "string \<Rightarrow> bytes option"
  wp_groups :: "'s \<Rightarrow> string list"
  wp_groups_with :: "'s \<Rightarrow> any_dict \<Rightarrow> string list"
  wp_certfile :: "string list \<Rightarrow> string"

datatype wifi_property = kWifiFrequency u16 | kWifiBSsid string | kCountryProperty string
  | kWifiVendorInformationProperty "(vendor_property \<times> string) list" | kWifiPhyMode phy_mode
  | kWifiFrequencyListProperty "u16 list" | kDeviceProperty bool

record wifi_service =
  ws_base :: service
  ws_need_passphrase :: bool
  ws_security :: string
  ws_mode :: string
  ws_passphrase :: string
  ws_hidden_ssid :: bool
  ws_frequency :: u16
  ws_frequency_list :: "u16 list"
  ws_physical_mode :: phy_mode
  ws_raw_signal_strength :: int
  ws_cipher_8021x :: crypto_algorithm
  ws_suspected_credential_failures :: int
  ws_ssid :: bytes
  ws_hex_ssid :: string
  ws_ieee80211w_required :: bool
  ws_expecting_disconnect :: bool
  ws_roam_threshold_db :: u16
  ws_roam_threshold_db_set :: bool
  ws_preferred_device :: string
  ws_bssid :: string
  ws_country_code :: string
  ws_vendor_information :: "(vendor_property \<times> string) list"
  ws_endpoints :: "nat list"
  ws_current_endpoint :: "nat option"
  ws_wifi :: bool
  ws_emitted :: "wifi_property list"

definition kAnyDeviceAddress :: string where "kAnyDeviceAddress = ''any''"
definition kSuspectedCredentialFailureThreshold :: int where "kSuspectedCredentialFailureThreshold = 3"
definition kWEP40AsciiLen :: nat where "kWEP40AsciiLen = 5"
definition kWEP40HexLen :: nat where "kWEP40HexLen = 10"
definition kWEP104AsciiLen :: nat where "kWEP104AsciiLen = 13"
definition kWEP104HexLen :: nat where "kWEP104HexLen = 26"
definition kWPAAsciiMinLen :: nat where "kWPAAsciiMinLen = 8"
definition kWPAAsciiMaxLen :: nat where "kWPAAsciiMaxLen = 63"
definition kWPAHexLen :: nat where "kWPAHexLen = 64"
definition kStrengthMax :: int where "kStrengthMax = 100"
definition kStrengthMin :: int where "kStrengthMin = 0"

lemmas wifi_lens = kWEP40AsciiLen_def kWEP40HexLen_def kWEP104AsciiLen_def kWEP104HexLen_def
  kWPAAsciiMinLen_def kWPAAsciiMaxLen_def kWPAHexLen_def

subsection \<open>Passphrases\<close>

text \<open>The error object of a check: \<open>None\<close> is success; nothing resets it once a check has set it.\<close>

type_synonym pass_error = "error_type option"

definition bytes_of_string :: "string \<Rightarrow> bytes" where
  "bytes_of_string s = map of_char s"

definition CheckWEPIsHex :: "(string \<Rightarrow> bytes option) \<Rightarrow> string \<Rightarrow> pass_error \<Rightarrow> bool \<times> pass_error" where
  "CheckWEPIsHex hex passphrase e = (if hex passphrase \<noteq> None then (True, e) else (False, Some kInvalidPassphrase))"

definition CheckWEPKeyIndex :: "string \<Rightarrow> pass_error \<Rightarrow> bool \<times> pass_error" where
  "CheckWEPKeyIndex passphrase e =
     (if take 2 passphrase \<in> {''0:'', ''1:'', ''2:'', ''3:''} then (True, e) else (False, Some kInvalidPassphrase))"

definition CheckWEPPrefix :: "string \<Rightarrow> pass_error \<Rightarrow> bool \<times> pass_error" where
  "CheckWEPPrefix passphrase e =
     (if take 2 passphrase \<in> {''0x'', ''0X''} then (True, e) else (False, Some kInvalidPassphrase))"

text \<open>\<open>base::StringToInt\<close> of the first character, which is a digit where the code asks.\<close>

definition first_digit :: "string \<Rightarrow> nat" where
  "first_digit s = of_char (hd s) - 48"

text \<open>
  \<open>wep_key\<close> is what the \<open>switch\<close> leaves in its variables: the key index, the text of the key and whether that is
  hexadecimal; \<open>None\<close> is variables without a value.
\<close>

type_synonym wep_key = "(nat \<times> string \<times> bool) option"

definition both :: "(pass_error \<Rightarrow> bool \<times> pass_error) \<Rightarrow> (pass_error \<Rightarrow> bool \<times> pass_error) \<Rightarrow> pass_error \<Rightarrow> bool \<times> pass_error" where
  "both f g e = (case f e of (False, e) \<Rightarrow> (False, e) | (True, e) \<Rightarrow> g e)"

definition parse_wep :: "(string \<Rightarrow> bytes option) \<Rightarrow> string \<Rightarrow> pass_error \<Rightarrow> wep_key \<times> pass_error" where
  "parse_wep hex p e =
     (let n = length p
      in if n = kWEP40AsciiLen \<or> n = kWEP104AsciiLen then (Some (0, p, False), e)
         else if n = kWEP40AsciiLen + 2 \<or> n = kWEP104AsciiLen + 2 then
           (case CheckWEPKeyIndex p e of
              (True, e) \<Rightarrow> (Some (first_digit p, drop 2 p, False), e)
            | (False, e) \<Rightarrow> (None, e))
         else if n = kWEP40HexLen \<or> n = kWEP104HexLen then
           (case CheckWEPIsHex hex p e of
              (True, e) \<Rightarrow> (Some (0, p, True), e)
            | (False, e) \<Rightarrow> (None, e))
         else if n = kWEP40HexLen + 2 \<or> n = kWEP104HexLen + 2 then
           (case both (CheckWEPKeyIndex p) (CheckWEPIsHex hex (drop 2 p)) e of
              (True, e) \<Rightarrow> (Some (first_digit p, drop 2 p, True), e)
            | (False, e) \<Rightarrow>
                (case both (CheckWEPPrefix p) (CheckWEPIsHex hex (drop 2 p)) e of
                   (True, e) \<Rightarrow> (Some (0, drop 2 p, True), e)
                 | (False, e) \<Rightarrow> (None, e)))
         else if n = kWEP40HexLen + 4 \<or> n = kWEP104HexLen + 4 then
           (case both (CheckWEPKeyIndex p) (both (CheckWEPPrefix (drop 2 p)) (CheckWEPIsHex hex (drop 4 p))) e of
              (True, e) \<Rightarrow> (Some (first_digit p, drop 4 p, True), e)
            | (False, e) \<Rightarrow> (None, e))
         else (None, Some kInvalidPassphrase))"

text \<open>The error, and on success the key index and the bytes of the key.\<close>

definition ParseWEPPassphrase :: "(string \<Rightarrow> bytes option) \<Rightarrow> string \<Rightarrow> pass_error \<Rightarrow> pass_error \<times> (nat \<times> bytes) option" where
  "ParseWEPPassphrase hex passphrase e =
     (case parse_wep hex passphrase e of
        (Some (i, t, is_hex), None) \<Rightarrow> (None, Some (i, if is_hex then the (hex t) else bytes_of_string t))
      | (_, e) \<Rightarrow> (e, None))"

definition ValidateWEPPassphrase :: "(string \<Rightarrow> bytes option) \<Rightarrow> string \<Rightarrow> pass_error \<Rightarrow> pass_error" where
  "ValidateWEPPassphrase hex passphrase e = fst (ParseWEPPassphrase hex passphrase e)"

definition ValidateWPAPassphrase :: "(string \<Rightarrow> bytes option) \<Rightarrow> string \<Rightarrow> pass_error \<Rightarrow> pass_error" where
  "ValidateWPAPassphrase hex passphrase e =
     (let n = length passphrase
      in if hex passphrase \<noteq> None then
           if n \<noteq> kWPAHexLen \<and> (n < kWPAAsciiMinLen \<or> n > kWPAAsciiMaxLen) then Some kInvalidPassphrase else e
         else if n < kWPAAsciiMinLen \<or> n > kWPAAsciiMaxLen then Some kInvalidPassphrase else e)"

subsection \<open>Modes and security\<close>

definition ComputeSecurityClass :: "wifi_names \<Rightarrow> string \<Rightarrow> string" where
  "ComputeSecurityClass N security =
     (if security = kSecurityRsn N \<or> security = kSecurityWpa N then kSecurityPsk N else security)"

definition IsValidMode :: "wifi_names \<Rightarrow> string \<Rightarrow> bool" where
  "IsValidMode N mode \<longleftrightarrow> mode = kModeManaged N \<or> mode = kModeAdhoc N"

definition IsValidSecurityMethod :: "wifi_names \<Rightarrow> string \<Rightarrow> bool" where
  "IsValidSecurityMethod N method \<longleftrightarrow>
     method = kSecurityNone N \<or> method = kSecurityWep N \<or> method = kSecurityPsk N \<or> method = kSecurityWpa N \<or>
     method = kSecurityRsn N \<or> method = kSecurity8021x N"

definition IsValidSecurityClass :: "wifi_names \<Rightarrow> string \<Rightarrow> bool" where
  "IsValidSecurityClass N security_class \<longleftrightarrow>
     IsValidSecurityMethod N security_class \<and> ComputeSecurityClass N security_class = security_class"

text \<open>\<open>signal_dbm\<close> is an \<open>int16_t\<close>; \<open>strength\<close> stays in its range.\<close>

definition SignalToStrength :: "int \<Rightarrow> u8" where
  "SignalToStrength signal_dbm =
     (let strength = (if signal_dbm > 0 then signal_dbm else 120 + signal_dbm)
      in word_of_int (if strength > kStrengthMax then kStrengthMax
                      else if strength < kStrengthMin then kStrengthMin else strength))"

definition ParseStorageIdentifier :: "'s wifi_platform \<Rightarrow> string \<Rightarrow> (string \<times> string \<times> string) option" where
  "ParseStorageIdentifier W storage_name =
     (case pf_split_string (wp_platform W) storage_name ''_'' of
        [ty, addr, ssid, mode, sec] \<Rightarrow> if ty \<noteq> kTypeWifi (wp_names W) then None else Some (addr, mode, sec)
      | [ty, addr, ssid, mode, sec1, sec2] \<Rightarrow>
          if ty \<noteq> kTypeWifi (wp_names W) then None else Some (addr, mode, sec1 @ ''_'' @ sec2)
      | _ \<Rightarrow> None)"

definition add_missing :: "'s store_interface \<Rightarrow> string \<Rightarrow> string \<Rightarrow> string \<Rightarrow> bool \<times> 's \<Rightarrow> bool \<times> 's" where
  "add_missing I group_id key v = (\<lambda>(fixed_entry, st).
     if si_GetString I st group_id key = None then (True, snd (si_SetString I st group_id key v)) else (fixed_entry, st))"

definition FixupServiceEntries :: "'s wifi_platform \<Rightarrow> 's \<Rightarrow> bool \<times> 's" where
  "FixupServiceEntries W storage =
     (let I = pf_store (wp_platform W)
      in fold (\<lambda>group_id r.
            case ParseStorageIdentifier W group_id of
              None \<Rightarrow> r
            | Some (device_address, network_mode, security) \<Rightarrow>
                (add_missing I group_id ''WiFi.SecurityClass'' (ComputeSecurityClass (wp_names W) security)
                  (add_missing I group_id ''WiFi.Security'' security
                    (add_missing I group_id ''WiFi.Mode'' network_mode
                      (add_missing I group_id ''Type'' (kTypeWifi (wp_names W)) r)))))
          (wp_groups W storage) (False, storage))"

subsection \<open>Key management and security\<close>

text \<open>\<open>GetEAPKeyManagement\<close>; a constructed service has EAP credentials.\<close>

definition ws_key_management :: "wifi_service \<Rightarrow> string" where
  "ws_key_management ws = (case sv_eap (ws_base ws) of None \<Rightarrow> '''' | Some e \<Rightarrow> key_management e)"

definition Is8021x :: "wifi_names \<Rightarrow> wifi_service \<Rightarrow> bool" where
  "Is8021x N ws \<longleftrightarrow>
     ws_security ws = kSecurity8021x N \<or> ws_security ws = kSecurityWep N \<and> ws_key_management ws = ''IEEE8021X''"

definition IsSecurityMatch :: "wifi_names \<Rightarrow> string \<Rightarrow> wifi_service \<Rightarrow> bool" where
  "IsSecurityMatch N security ws \<longleftrightarrow> ComputeSecurityClass N security = ComputeSecurityClass N (ws_security ws)"

definition UpdateSecurity :: "wifi_names \<Rightarrow> wifi_service \<Rightarrow> wifi_service" where
  "UpdateSecurity N ws =
     (let s = ws_security ws;
          (algorithm, key_rotation, endpoint_auth) =
            (if s = kSecurityNone N then (kCryptoNone, False, False)
             else if s = kSecurityWep N then (kCryptoRc4, Is8021x N ws, Is8021x N ws)
             else if s = kSecurityPsk N \<or> s = kSecurityWpa N then (kCryptoRc4, True, False)
             else if s = kSecurityRsn N then (kCryptoAes, True, False)
             else if s = kSecurity8021x N then (ws_cipher_8021x ws, True, True)
             else (kCryptoNone, False, False))
      in ws\<lparr>ws_base := SetSecurity algorithm key_rotation endpoint_auth (ws_base ws)\<rparr>)"

definition SetEAPKeyManagement :: "wifi_names \<Rightarrow> string \<Rightarrow> wifi_service \<Rightarrow> wifi_service" where
  "SetEAPKeyManagement N km ws =
     UpdateSecurity N (ws\<lparr>ws_base := (ws_base ws)\<lparr>sv_eap := map_option (\<lambda>e. snd (SetKeyManagement e km)) (sv_eap (ws_base ws))\<rparr>\<rparr>)"

definition UpdateConnectable :: "'s wifi_platform \<Rightarrow> wifi_service \<Rightarrow> 's world \<Rightarrow> wifi_service \<times> 's world" where
  "UpdateConnectable W ws w =
     (let N = wp_names W; s = ws_security ws;
          (ws, is_connectable) =
            (if s = kSecurityNone N then (ws\<lparr>ws_need_passphrase := False\<rparr>, True)
             else if Is8021x N ws then (ws, Is8021xConnectable (wp_platform W) (ws_base ws))
             else if s = kSecurityWep N \<or> s = kSecurityWpa N \<or> s = kSecurityPsk N \<or> s = kSecurityRsn N then
               (ws\<lparr>ws_need_passphrase := ws_passphrase ws = []\<rparr>, ws_passphrase ws \<noteq> [])
             else (ws, False));
          (sv, w) = SetConnectable is_connectable (ws_base ws) w
      in (ws\<lparr>ws_base := sv\<rparr>, w))"

definition AddSuspectedCredentialFailure :: "wifi_service \<Rightarrow> bool \<times> wifi_service" where
  "AddSuspectedCredentialFailure ws =
     (if \<not> sv_has_ever_connected (ws_base ws) then (True, ws)
      else let ws = ws\<lparr>ws_suspected_credential_failures := ws_suspected_credential_failures ws + 1\<rparr>
           in (ws_suspected_credential_failures ws \<ge> kSuspectedCredentialFailureThreshold, ws))"

definition ResetSuspectedCredentialFailures :: "wifi_service \<Rightarrow> wifi_service" where
  "ResetSuspectedCredentialFailures ws = ws\<lparr>ws_suspected_credential_failures := 0\<rparr>"

text \<open>The weakest, over the access points, of the strongest ciphers of each.\<close>

definition min_cipher :: "crypto_algorithm \<Rightarrow> crypto_algorithm \<Rightarrow> crypto_algorithm" where
  "min_cipher a b = (if crypto_value b < crypto_value a then b else a)"

definition endpoint_cipher :: "wifi_endpoint \<Rightarrow> crypto_algorithm" where
  "endpoint_cipher ep =
     (if ep_has_rsn_property ep then kCryptoAes else if ep_has_wpa_property ep then kCryptoRc4 else kCryptoNone)"

definition ComputeCipher8021x :: "wifi_endpoint list \<Rightarrow> crypto_algorithm" where
  "ComputeCipher8021x eps =
     (if eps = [] then kCryptoNone else fold (\<lambda>ep cipher. min_cipher cipher (endpoint_cipher ep)) eps kCryptoAes)"

subsection \<open>Construction and storage\<close>

definition ToLowerASCII :: "string \<Rightarrow> string" where
  "ToLowerASCII s = map (\<lambda>c. if 65 \<le> (of_char c :: nat) \<and> (of_char c :: nat) \<le> 90 then char_of ((of_char c :: nat) + 32) else c) s"

definition GetDefaultStorageIdentifier :: "wifi_names \<Rightarrow> wifi_service \<Rightarrow> string" where
  "GetDefaultStorageIdentifier N ws =
     ToLowerASCII (join_with ''_'' [kTypeWifi N, kAnyDeviceAddress, ws_hex_ssid ws, ws_mode ws,
       ComputeSecurityClass N (ws_security ws)])"

definition WiFiService_new :: "'s wifi_platform \<Rightarrow> nat \<Rightarrow> bytes \<Rightarrow> string \<Rightarrow> string \<Rightarrow> bool \<Rightarrow> 's world \<Rightarrow> wifi_service \<times> 's world" where
  "WiFiService_new W serial ssid mode security hidden_ssid w =
     (let N = wp_names W;
          sv = (Service_new (wp_platform W) serial kWifi '''' False False)
                 \<lparr>sv_friendly_name := snd (SanitizeSSID (string_of_bytes ssid)), sv_eap := Some EapCredentials_new\<rparr>;
          ws = \<lparr>ws_base = sv, ws_need_passphrase = False, ws_security = security, ws_mode = mode, ws_passphrase = [],
             ws_hidden_ssid = hidden_ssid, ws_frequency = 0, ws_frequency_list = [], ws_physical_mode = PhyModeUndef,
             ws_raw_signal_strength = 0, ws_cipher_8021x = kCryptoNone, ws_suspected_credential_failures = 0,
             ws_ssid = ssid, ws_hex_ssid = HexEncode ssid, ws_ieee80211w_required = False,
             ws_expecting_disconnect = False, ws_roam_threshold_db = 0, ws_roam_threshold_db_set = False,
             ws_preferred_device = [], ws_bssid = [], ws_country_code = [], ws_vendor_information = [],
             ws_endpoints = [], ws_current_endpoint = None, ws_wifi = False, ws_emitted = []\<rparr>;
          ws = (if Is8021x N ws then ws\<lparr>ws_need_passphrase := False\<rparr>
                else if security = kSecurityPsk N \<or> security = kSecurityRsn N \<or> security = kSecurityWpa N
                then SetEAPKeyManagement N ''WPA-PSK'' ws
                else if security = kSecurityWep N \<or> security = kSecurityNone N then SetEAPKeyManagement N ''NONE'' ws
                else ws);
          ws = ws\<lparr>ws_base := (ws_base ws)\<lparr>sv_storage_identifier := GetDefaultStorageIdentifier N ws\<rparr>\<rparr>;
          (ws, w) = UpdateConnectable W ws w
      in (UpdateSecurity N ws, w))"

definition GetStorageProperties :: "wifi_names \<Rightarrow> wifi_service \<Rightarrow> any_dict" where
  "GetStorageProperties N ws =
     (let args = KVS_SetString [] ''Type'' (kTypeWifi N);
          args = KVS_SetString args ''SSID'' (ws_hex_ssid ws);
          args = KVS_SetString args ''WiFi.Mode'' (ws_mode ws)
      in KVS_SetString args ''WiFi.SecurityClass'' (ComputeSecurityClass N (ws_security ws)))"

definition WiFi_GetLoadableStorageIdentifier :: "'s wifi_platform \<Rightarrow> wifi_service \<Rightarrow> 's \<Rightarrow> string" where
  "WiFi_GetLoadableStorageIdentifier W ws storage =
     (case wp_groups_with W storage (GetStorageProperties (wp_names W) ws) of [] \<Rightarrow> [] | g # _ \<Rightarrow> g)"

definition WiFi_IsLoadableFrom :: "'s wifi_platform \<Rightarrow> wifi_service \<Rightarrow> 's \<Rightarrow> bool" where
  "WiFi_IsLoadableFrom W ws storage \<longleftrightarrow> wp_groups_with W storage (GetStorageProperties (wp_names W) ws) \<noteq> []"

definition WiFi_Save :: "'s wifi_platform \<Rightarrow> wifi_service \<Rightarrow> 's \<Rightarrow> 's" where
  "WiFi_Save W ws st =
     (let I = pf_store (wp_platform W); sid = sv_storage_identifier (ws_base ws);
          st = Service_Save (wp_platform W) (ws_base ws) st;
          st = snd (si_SetBool I st sid ''WiFi.HiddenSSID'' (ws_hidden_ssid ws));
          st = snd (si_SetString I st sid ''WiFi.Mode'' (ws_mode ws));
          st = snd (si_SetCryptedString I st sid ''Passphrase'' (ws_passphrase ws));
          st = snd (si_SetString I st sid ''WiFi.Security'' (ws_security ws));
          st = snd (si_SetString I st sid ''WiFi.SecurityClass'' (ComputeSecurityClass (wp_names W) (ws_security ws)));
          st = snd (si_SetString I st sid ''SSID'' (ws_hex_ssid ws));
          st = snd (si_SetUint64 I st sid ''WiFi.RoamThreshold'' (ucast (ws_roam_threshold_db ws)));
          st = snd (si_SetBool I st sid ''WiFi.RoamThresholdSet'' (ws_roam_threshold_db_set ws))
      in SaveString I sid ''WiFi.PreferredDevice'' (ws_preferred_device ws) False False st)"

subsection \<open>Visibility, tethering and simple properties\<close>

definition HasEndpoints :: "wifi_service \<Rightarrow> bool" where "HasEndpoints ws \<longleftrightarrow> ws_endpoints ws \<noteq> []"

definition IsVisible :: "wifi_service \<Rightarrow> bool" where
  "IsVisible ws \<longleftrightarrow> HasEndpoints ws \<or> IsConnected (ws_base ws) \<or> IsConnecting (ws_base ws)"

datatype tethering_state = kTetheringConfirmedState | kTetheringSuspectedState | kTetheringNotDetectedState

text \<open>\<open>via_tether\<close> is \<open>Device::IsConnectedViaTether\<close>.\<close>

definition GetTethering :: "bool \<Rightarrow> (nat \<Rightarrow> wifi_endpoint) \<Rightarrow> wifi_service \<Rightarrow> tethering_state" where
  "GetTethering via_tether ep ws =
     (if IsConnected (ws_base ws) \<and> ws_wifi ws \<and> via_tether then kTetheringConfirmedState
      else case ws_endpoints ws of
             [e] \<Rightarrow> if ep_has_tethering_signature (ep e) then kTetheringSuspectedState else kTetheringNotDetectedState
           | _ \<Rightarrow> kTetheringNotDetectedState)"

definition kInt16Min :: int where "kInt16Min = -32768"

definition SignalLevel :: "(nat \<Rightarrow> wifi_endpoint) \<Rightarrow> wifi_service \<Rightarrow> int" where
  "SignalLevel ep ws = (case ws_current_endpoint ws of None \<Rightarrow> kInt16Min | Some e \<Rightarrow> ep_signal_strength (ep e))"

definition GetSecurity :: "(nat \<Rightarrow> wifi_endpoint) \<Rightarrow> wifi_service \<Rightarrow> string" where
  "GetSecurity ep ws = (case ws_current_endpoint ws of None \<Rightarrow> ws_security ws | Some e \<Rightarrow> ep_security_mode (ep e))"

definition GetSecurityClass :: "wifi_names \<Rightarrow> (nat \<Rightarrow> wifi_endpoint) \<Rightarrow> wifi_service \<Rightarrow> string" where
  "GetSecurityClass N ep ws = ComputeSecurityClass N (GetSecurity ep ws)"

definition SetRoamThreshold :: "u16 \<Rightarrow> wifi_service \<Rightarrow> wifi_service" where
  "SetRoamThreshold threshold ws = ws\<lparr>ws_roam_threshold_db := threshold, ws_roam_threshold_db_set := True\<rparr>"

definition ClearRoamThreshold :: "wifi_service \<Rightarrow> wifi_service" where
  "ClearRoamThreshold ws = ws\<lparr>ws_roam_threshold_db := 0, ws_roam_threshold_db_set := False\<rparr>"

subsection \<open>What the supplicant is told\<close>

text \<open>\<open>None\<close> is the use of \<open>key_index\<close> without a value, for a stored WEP key that does not parse.\<close>

definition GetSupplicantConfigurationParameters :: "'s wifi_platform \<Rightarrow> wifi_service \<Rightarrow> any_dict option" where
  "GetSupplicantConfigurationParameters W ws =
     (let N = wp_names W; s = ws_security ws;
          params = KVS_SetUint [] ''mode'' (ModeStringToUint N (ws_mode ws));
          params = (if ws_mode ws = kModeAdhoc N \<and> ws_frequency ws \<noteq> 0
                    then KVS_SetInt params ''frequency'' (uint (ws_frequency ws)) else params)
      in map_option (\<lambda>params.
           let params = KVS_SetString params ''key_mgmt'' (ws_key_management ws);
               params = (if ws_ieee80211w_required ws then KVS_SetUint params ''ieee80211w'' 1 else params)
           in KVS_SetUint8s params ''ssid'' (ws_ssid ws))
         (if Is8021x N ws then
            Some (case sv_eap (ws_base ws) of
                    None \<Rightarrow> params
                  | Some e \<Rightarrow> PopulateSupplicantProperties (pf_tls (wp_platform W)) (wp_certfile W (ca_cert_pem e)) e params)
          else if s = kSecurityPsk N \<or> s = kSecurityRsn N \<or> s = kSecurityWpa N then
            Some (KVS_SetString (KVS_SetString params ''proto'' ''WPA RSN'') ''psk'' (ws_passphrase ws))
          else if s = kSecurityWep N then
            (let params = KVS_SetString params ''auth_alg'' ''OPEN SHARED''
             in case ParseWEPPassphrase (wp_hex W) (ws_passphrase ws) None of
                  (_, None) \<Rightarrow> None
                | (_, Some (key_index, password_bytes)) \<Rightarrow>
                    Some (KVS_SetUint (KVS_SetUint8s params (''wep_key'' @ [char_of (48 + key_index)]) password_bytes)
                            ''wep_tx_keyidx'' (of_nat key_index)))
          else Some params))"

subsection \<open>From access points to properties\<close>

text \<open>
  The loop that picks the representative endpoint: the best signal so far, whether an endpoint of the preferred device
  was found, and the choice. \<open>link\<close> is the name of the device of an endpoint: every endpoint has a device here, so the
  null test at wifi_service.cc:767, and the dereference of a null device that line 764 would make once an endpoint of the
  preferred device was found, do not arise.
\<close>

fun representative_loop :: "(nat \<Rightarrow> wifi_endpoint) \<Rightarrow> (nat \<Rightarrow> string) \<Rightarrow> string \<Rightarrow> nat list \<Rightarrow> int \<Rightarrow> bool \<Rightarrow> nat option \<Rightarrow> nat option" where
  "representative_loop ep link preferred [] best found r = r"
| "representative_loop ep link preferred (e # es) best found r =
     (if found \<and> link (ep_device (ep e)) \<noteq> preferred then representative_loop ep link preferred es best found r
      else
        let (best, found) =
              (if \<not> found \<and> link (ep_device (ep e)) = preferred then (kInt16Min, True) else (best, found))
        in if ep_signal_strength (ep e) \<ge> best
           then representative_loop ep link preferred es (ep_signal_strength (ep e)) found (Some e)
           else representative_loop ep link preferred es best found r)"

definition representative_endpoint :: "(nat \<Rightarrow> wifi_endpoint) \<Rightarrow> (nat \<Rightarrow> string) \<Rightarrow> wifi_service \<Rightarrow> nat option" where
  "representative_endpoint ep link ws =
     (case ws_current_endpoint ws of
        Some e \<Rightarrow> Some e
      | None \<Rightarrow> representative_loop ep link (ws_preferred_device ws) (ws_endpoints ws) kInt16Min False None)"

definition emit_wifi :: "wifi_property \<Rightarrow> wifi_service \<Rightarrow> wifi_service" where
  "emit_wifi p ws = ws\<lparr>ws_emitted := ws_emitted ws @ [p]\<rparr>"

definition set_frequency :: "u16 \<Rightarrow> wifi_service \<Rightarrow> wifi_service" where
  "set_frequency v ws =
     (if ws_frequency ws = v then ws else emit_wifi (kWifiFrequency v) (ws\<lparr>ws_frequency := v\<rparr>))"

definition set_bssid :: "string \<Rightarrow> wifi_service \<Rightarrow> wifi_service" where
  "set_bssid v ws = (if ws_bssid ws = v then ws else emit_wifi (kWifiBSsid v) (ws\<lparr>ws_bssid := v\<rparr>))"

definition set_country_code :: "string \<Rightarrow> wifi_service \<Rightarrow> wifi_service" where
  "set_country_code v ws =
     (if ws_country_code ws = v then ws else emit_wifi (kCountryProperty v) (ws\<lparr>ws_country_code := v\<rparr>))"

definition set_vendor_information :: "(vendor_property \<times> string) list \<Rightarrow> wifi_service \<Rightarrow> wifi_service" where
  "set_vendor_information v ws =
     (if ws_vendor_information ws = v then ws
      else emit_wifi (kWifiVendorInformationProperty v) (ws\<lparr>ws_vendor_information := v\<rparr>))"

definition set_physical_mode :: "phy_mode \<Rightarrow> wifi_service \<Rightarrow> wifi_service" where
  "set_physical_mode v ws =
     (if ws_physical_mode ws = v then ws else emit_wifi (kWifiPhyMode v) (ws\<lparr>ws_physical_mode := v\<rparr>))"

text \<open>\<open>UpdateFromEndpoints\<close> after \<open>SetWiFi\<close>, which is the device's part.\<close>

definition apply_endpoints :: "wifi_names \<Rightarrow> (nat \<Rightarrow> wifi_endpoint) \<Rightarrow> wifi_service \<Rightarrow> wifi_service" where
  "apply_endpoints N ep ws =
     (let ws = (if \<exists>e \<in> set (ws_endpoints ws). ep_ieee80211w_required (ep e)
                then ws\<lparr>ws_ieee80211w_required := True\<rparr> else ws);
          ws = ws\<lparr>ws_frequency_list := sort (remdups (map (\<lambda>e. ep_frequency (ep e)) (ws_endpoints ws)))\<rparr>
      in if Is8021x N ws then ws\<lparr>ws_cipher_8021x := ComputeCipher8021x (map ep (ws_endpoints ws))\<rparr> else ws)"

definition apply_representative :: "wifi_names \<Rightarrow> (nat \<Rightarrow> wifi_endpoint) \<Rightarrow> nat option \<Rightarrow> wifi_service \<Rightarrow> 's world \<Rightarrow> wifi_service \<times> 's world" where
  "apply_representative N ep rep ws w =
     (let ws = apply_endpoints N ep ws;
          (frequency, signal, raw, bssid, country, vendor, phy) =
            (case rep of
               None \<Rightarrow> (0, kInt16Min, 0, [], [], [], PhyModeUndef)
             | Some e \<Rightarrow>
                 (ep_frequency (ep e), ep_signal_strength (ep e), ep_signal_strength (ep e), ep_bssid_string (ep e),
                  ep_country_code (ep e), GetVendorInformation (ep_vendor_information (ep e)), ep_physical_mode (ep e)));
          ws = ws\<lparr>ws_raw_signal_strength := raw\<rparr>;
          ws = set_physical_mode phy (set_vendor_information vendor (set_country_code country
                 (set_bssid bssid (set_frequency frequency ws))));
          ws = emit_wifi (kWifiFrequencyListProperty (ws_frequency_list ws)) ws;
          (sv, w) = SetStrength (SignalToStrength signal) (ws_base ws) w
      in (UpdateSecurity N (ws\<lparr>ws_base := sv\<rparr>), w))"

subsection \<open>Passphrases against their grammar\<close>

text \<open>A WEP key as text or as hexadecimal digits, and a passphrase: a key, or an index, an optional prefix and a key.\<close>

definition wep_ascii :: "string \<Rightarrow> bytes \<Rightarrow> bool" where
  "wep_ascii k b \<longleftrightarrow> length k \<in> {5, 13} \<and> b = bytes_of_string k"

definition wep_hex :: "(string \<Rightarrow> bytes option) \<Rightarrow> string \<Rightarrow> bytes \<Rightarrow> bool" where
  "wep_hex hex k b \<longleftrightarrow> length k \<in> {10, 26} \<and> hex k = Some b"

definition wep_passphrase :: "(string \<Rightarrow> bytes option) \<Rightarrow> string \<Rightarrow> nat \<Rightarrow> bytes \<Rightarrow> bool" where
  "wep_passphrase hex p i b \<longleftrightarrow>
     i = 0 \<and> (wep_ascii p b \<or> wep_hex hex p b) \<or>
     (\<exists>k. i < 4 \<and> p = char_of (48 + i) # CHR '':'' # k \<and>
       (wep_ascii k b \<or> wep_hex hex k b \<or>
        (\<exists>x k'. k = CHR ''0'' # x # k' \<and> x \<in> {CHR ''x'', CHR ''X''} \<and> wep_hex hex k' b)))"

lemma take2_eq: "take 2 p = [a, b] \<longleftrightarrow> (\<exists>k. p = a # b # k)"
  by (cases p; cases "tl p") (auto simp: numeral_2_eq_2)

text \<open>The texts the checks ask for.\<close>

definition has_index :: "string \<Rightarrow> bool" where
  "has_index p \<longleftrightarrow> take 2 p \<in> {''0:'', ''1:'', ''2:'', ''3:''}"

definition has_prefix :: "string \<Rightarrow> bool" where
  "has_prefix p \<longleftrightarrow> take 2 p \<in> {''0x'', ''0X''}"

lemma has_index_iff: "has_index p \<longleftrightarrow> (\<exists>i k. i < 4 \<and> p = char_of (48 + i :: nat) # CHR '':'' # k)"
proof -
  have D: "(\<exists>i < 4. P (char_of (48 + i :: nat) :: char)) \<longleftrightarrow> P CHR ''0'' \<or> P CHR ''1'' \<or> P CHR ''2'' \<or> P CHR ''3''" for P
  proof -
    have "(char_of (48 + 0 :: nat) :: char) = CHR ''0''" "(char_of (48 + 1 :: nat) :: char) = CHR ''1''"
      "(char_of (48 + 2 :: nat) :: char) = CHR ''2''" "(char_of (48 + 3 :: nat) :: char) = CHR ''3''" by code_simp+
    moreover have "(i :: nat) < 4 \<longleftrightarrow> i = 0 \<or> i = 1 \<or> i = 2 \<or> i = 3" for i by auto
    ultimately show ?thesis by metis
  qed
  have "has_index p \<longleftrightarrow> (\<exists>k. p = ''0:'' @ k) \<or> (\<exists>k. p = ''1:'' @ k) \<or> (\<exists>k. p = ''2:'' @ k) \<or> (\<exists>k. p = ''3:'' @ k)"
    by (simp add: has_index_def take2_eq)
  also have "\<dots> \<longleftrightarrow> (\<exists>i < 4. \<exists>k. p = char_of (48 + i :: nat) # CHR '':'' # k)"
    by (subst D) simp
  finally show ?thesis by blast
qed

lemma has_prefix_iff: "has_prefix p \<longleftrightarrow> (\<exists>x k. p = CHR ''0'' # x # k \<and> x \<in> {CHR ''x'', CHR ''X''})"
  by (auto simp: has_prefix_def take2_eq)

lemma prefix_split:
  "(\<exists>x k. l = CHR ''0'' # x # k \<and> x \<in> {CHR ''x'', CHR ''X''} \<and> R k) \<longleftrightarrow> has_prefix l \<and> R (drop 2 l)"
proof (cases "2 \<le> length l")
  case True
  then obtain a b k where l: "l = a # b # k" by (metis Suc_le_length_iff numeral_2_eq_2)
  show ?thesis unfolding l has_prefix_def by (cases "b = CHR ''x''"; cases "b = CHR ''X''") simp_all
next
  case False
  then have "l \<noteq> a # b # k" for a b k by auto
  moreover have "\<not> has_prefix l" using False by (auto simp: has_prefix_def dest: arg_cong[where f = length])
  ultimately show ?thesis by simp
qed

lemma first_digit: "i < 4 \<Longrightarrow> first_digit (char_of (48 + i :: nat) # k) = i"
  by (simp add: first_digit_def)

lemma checks:
  "CheckWEPKeyIndex p e = (if has_index p then (True, e) else (False, Some kInvalidPassphrase))"
  "CheckWEPPrefix p e = (if has_prefix p then (True, e) else (False, Some kInvalidPassphrase))"
  "CheckWEPIsHex hex p e = (if hex p \<noteq> None then (True, e) else (False, Some kInvalidPassphrase))"
  by (simp_all add: CheckWEPKeyIndex_def CheckWEPPrefix_def CheckWEPIsHex_def has_index_def has_prefix_def)

text \<open>The branch that would accept a prefix without an index runs with the error of the failed test of the index.\<close>

lemma ParseWEPPassphrase_cases:
  "ParseWEPPassphrase hex p None =
     (let n = length p
      in if n = 5 \<or> n = 13 then (None, Some (0, bytes_of_string p))
         else if (n = 7 \<or> n = 15) \<and> has_index p then (None, Some (first_digit p, bytes_of_string (drop 2 p)))
         else if (n = 10 \<or> n = 26) \<and> hex p \<noteq> None then (None, Some (0, the (hex p)))
         else if (n = 12 \<or> n = 28) \<and> has_index p \<and> hex (drop 2 p) \<noteq> None
         then (None, Some (first_digit p, the (hex (drop 2 p))))
         else if (n = 14 \<or> n = 30) \<and> has_index p \<and> has_prefix (drop 2 p) \<and> hex (drop 4 p) \<noteq> None
         then (None, Some (first_digit p, the (hex (drop 4 p))))
         else (Some kInvalidPassphrase, None))"
proof -
  note defs = ParseWEPPassphrase_def parse_wep_def both_def Let_def wifi_lens checks
  consider "length p = 5 \<or> length p = 13" | "length p = 7 \<or> length p = 15" | "length p = 10 \<or> length p = 26"
    | "length p = 12 \<or> length p = 28" | "length p = 14 \<or> length p = 30"
    | "length p \<notin> {5, 13, 7, 15, 10, 26, 12, 28, 14, 30}"
    by auto
  then show ?thesis
  proof cases
    case 1 then show ?thesis unfolding defs by (elim disjE) simp_all
  next
    case 2 then show ?thesis unfolding defs by (cases "has_index p"; elim disjE) simp_all
  next
    case 3 then show ?thesis unfolding defs by (cases "hex p"; elim disjE) simp_all
  next
    case 4 then show ?thesis
      unfolding defs by (cases "has_index p"; cases "hex (drop 2 p)"; cases "has_prefix p"; elim disjE) simp_all
  next
    case 5 then show ?thesis
      unfolding defs by (cases "has_index p"; cases "hex (drop 4 p)"; cases "has_prefix (drop 2 p)"; elim disjE) simp_all
  next
    case 6
    then have N: "length p \<noteq> 5" "length p \<noteq> 13" "length p \<noteq> 7" "length p \<noteq> 15" "length p \<noteq> 10" "length p \<noteq> 26"
      "length p \<noteq> 12" "length p \<noteq> 28" "length p \<noteq> 14" "length p \<noteq> 30"
      by blast+
    show ?thesis
      by (simp only: ParseWEPPassphrase_def parse_wep_def Let_def wifi_lens arith_simps N if_False simp_thms prod.case option.case)
  qed
qed

lemma ParseWEPPassphrase_iff:
  "ParseWEPPassphrase hex p None = (None, Some (i, b)) \<longleftrightarrow>
     i = 0 \<and> (wep_ascii p b \<or> wep_hex hex p b) \<or>
     has_index p \<and> i = first_digit p \<and>
       (wep_ascii (drop 2 p) b \<or> wep_hex hex (drop 2 p) b \<or> has_prefix (drop 2 p) \<and> wep_hex hex (drop 4 p) b)"
proof -
  note defs = ParseWEPPassphrase_cases Let_def wep_ascii_def wep_hex_def
  consider "length p = 5 \<or> length p = 13" | "length p = 7 \<or> length p = 15" | "length p = 10 \<or> length p = 26"
    | "length p = 12 \<or> length p = 28" | "length p = 14 \<or> length p = 30"
    | "length p \<notin> {5, 13, 7, 15, 10, 26, 12, 28, 14, 30}"
    by auto
  then show ?thesis
  proof cases
    case 1 then show ?thesis unfolding defs by (elim disjE) auto
  next
    case 2 then show ?thesis unfolding defs by (elim disjE) auto
  next
    case 3 then show ?thesis unfolding defs by (elim disjE) auto
  next
    case 4 then show ?thesis unfolding defs by (elim disjE) auto
  next
    case 5 then show ?thesis unfolding defs by (elim disjE) auto
  next
    case 6
    then have N: "length p \<noteq> 5" "length p \<noteq> 13" "length p \<noteq> 7" "length p \<noteq> 15" "length p \<noteq> 10" "length p \<noteq> 26"
      "length p \<noteq> 12" "length p \<noteq> 28" "length p \<noteq> 14" "length p \<noteq> 30"
      by blast+
    have D: "length (drop 2 p) = 5 \<Longrightarrow> length p = 7" "length (drop 2 p) = 13 \<Longrightarrow> length p = 15"
      "length (drop 2 p) = 10 \<Longrightarrow> length p = 12" "length (drop 2 p) = 26 \<Longrightarrow> length p = 28"
      "length (drop 4 p) = 10 \<Longrightarrow> length p = 14" "length (drop 4 p) = 26 \<Longrightarrow> length p = 30"
      by simp_all
    have "\<not> wep_ascii p b" "\<not> wep_hex hex p b" "\<not> wep_ascii (drop 2 p) b" "\<not> wep_hex hex (drop 2 p) b" "\<not> wep_hex hex (drop 4 p) b"
      unfolding wep_ascii_def wep_hex_def insert_iff empty_iff using N D by blast+
    moreover have "ParseWEPPassphrase hex p None \<noteq> (None, Some (i, b))"
      by (simp only: ParseWEPPassphrase_cases Let_def N if_False simp_thms prod.inject option.distinct)
    ultimately show ?thesis by blast
  qed
qed

text \<open>
  C37: \<open>WiFiService::ParseWEPPassphrase\<close> accepts exactly the passphrases of the grammar: a key of 5 or 13 characters or of
  10 or 26 hexadecimal digits, alone or after a key index from 0 to 3 and a colon, and then also after the prefix 0x; and
  it returns that index, 0 if there is none, and the bytes of the key. Every other passphrase is refused with an error.
  The grammar is that of the code and of its unit test, not of doc/service-api.txt (1093-1096), which also lets 0x or 0X
  precede the hexadecimal digits of a key without an index: such a passphrase is refused (\<open>prefix_alone_refused\<close>).
\<close>

theorem ParseWEPPassphrase_grammar:
  "(ParseWEPPassphrase hex p None = (None, Some (i, b)) \<longleftrightarrow> wep_passphrase hex p i b) \<and>
   (fst (ParseWEPPassphrase hex p None) \<noteq> None \<longleftrightarrow> (\<nexists>i b. wep_passphrase hex p i b))"
proof -
  have A: "ParseWEPPassphrase hex p None = (None, Some (i, b)) \<longleftrightarrow> wep_passphrase hex p i b" for i b
  proof (cases "has_index p")
    case True
    then obtain j k where p: "j < 4" "p = char_of (48 + j :: nat) # CHR '':'' # k" using has_index_iff by blast
    have D: "drop 2 p = k" "drop 4 p = drop 2 k" "first_digit p = j"
      using p by (simp_all add: first_digit)
    have U: "i < 4 \<and> p = char_of (48 + i) # CHR '':'' # k' \<longleftrightarrow> k' = k \<and> i = j" for i k'
    proof
      assume "i < 4 \<and> p = char_of (48 + i) # CHR '':'' # k'"
      with D(3) show "k' = k \<and> i = j" using p(2) first_digit[of i "CHR '':'' # k'"] by simp
    qed (use p in simp)
    have E: "(\<exists>k'. i < 4 \<and> p = char_of (48 + i) # CHR '':'' # k' \<and> Q k') \<longleftrightarrow> i = j \<and> Q k" for Q
      by (simp only: conj_assoc [symmetric] U) blast
    have P: "(\<exists>x k'. l = CHR ''0'' # x # k' \<and> x \<in> {CHR ''x'', CHR ''X''} \<and> wep_hex hex k' b) \<longleftrightarrow>
        has_prefix l \<and> wep_hex hex (drop 2 l) b" for l
      by (rule prefix_split)
    have "wep_passphrase hex p i b \<longleftrightarrow> i = 0 \<and> (wep_ascii p b \<or> wep_hex hex p b) \<or>
        i = j \<and> (wep_ascii k b \<or> wep_hex hex k b \<or> has_prefix k \<and> wep_hex hex (drop 2 k) b)"
      unfolding wep_passphrase_def P E ..
    then show ?thesis unfolding ParseWEPPassphrase_iff D using True by blast
  next
    case False
    then have "wep_passphrase hex p i b \<longleftrightarrow> i = 0 \<and> (wep_ascii p b \<or> wep_hex hex p b)"
      unfolding wep_passphrase_def has_index_iff by blast
    with False show ?thesis unfolding ParseWEPPassphrase_iff by blast
  qed
  have T: "fst (ParseWEPPassphrase hex p None) = None \<longleftrightarrow> (\<exists>i b. ParseWEPPassphrase hex p None = (None, Some (i, b)))"
  proof -
    define ok :: "pass_error \<times> (nat \<times> bytes) option \<Rightarrow> bool"
      where "ok r \<longleftrightarrow> (fst r = None \<longleftrightarrow> (\<exists>i b. r = (None, Some (i, b))))" for r
    have C: "ok x \<Longrightarrow> ok y \<Longrightarrow> ok (if c then x else y)" for c x y by simp
    have B: "ok (None, Some r)" "ok (Some kInvalidPassphrase, None)" for r by (cases r; simp add: ok_def)+
    have "ok (ParseWEPPassphrase hex p None)" unfolding ParseWEPPassphrase_cases Let_def by (intro C B)
    then show ?thesis by (simp only: ok_def)
  qed
  show ?thesis by (simp only: T A simp_thms)
qed

text \<open>So ten or twenty-six digits after 0x, which the code has a branch for, are refused.\<close>

lemma prefix_alone_refused:
  "fst (ParseWEPPassphrase hex (''0x'' @ k) None) = Some kInvalidPassphrase" if "length k \<in> {10, 26}"
  using that by (auto simp: ParseWEPPassphrase_cases Let_def has_index_def)

subsection \<open>Signal, ciphers and the representative endpoint\<close>

lemma SignalToStrength_bounds:
  assumes "kInt16Min \<le> s" "s \<le> t" "t \<le> 0"
  shows "SignalToStrength s \<le> SignalToStrength t \<and> SignalToStrength t \<le> 100 \<and> (SignalToStrength s = 0 \<longleftrightarrow> s \<le> -120)"
proof -
  have u: "uint (SignalToStrength r) = (if r > -20 then 100 else if r < -120 then 0 else 120 + r)" if "r \<le> 0" for r
    using that by (simp add: SignalToStrength_def Let_def kStrengthMax_def kStrengthMin_def uint_word_of_int)
  have "uint (SignalToStrength s) \<le> uint (SignalToStrength t)" "uint (SignalToStrength t) \<le> 100"
    "uint (SignalToStrength s) = 0 \<longleftrightarrow> s \<le> -120"
    using u[of s] u[of t] assms by auto
  then show ?thesis by (simp add: word_le_def uint_0_iff)
qed

lemma ComputeCipher8021x_weakest:
  assumes "eps \<noteq> []"
  shows "(\<exists>e \<in> set eps. ComputeCipher8021x eps = endpoint_cipher e) \<and>
    (\<forall>e \<in> set eps. crypto_value (ComputeCipher8021x eps) \<le> crypto_value (endpoint_cipher e))"
proof -
  define f where "f = fold (\<lambda>ep cipher. min_cipher cipher (endpoint_cipher ep))"
  have le: "crypto_value c \<le> 2" for c by (cases c) simp_all
  have inj: "crypto_value c = crypto_value d \<Longrightarrow> c = d" for c d by (cases c; cases d) simp_all
  have F: "(f eps c = c \<or> (\<exists>e \<in> set eps. f eps c = endpoint_cipher e)) \<and> crypto_value (f eps c) \<le> crypto_value c \<and>
      (\<forall>e \<in> set eps. crypto_value (f eps c) \<le> crypto_value (endpoint_cipher e))" for c
  proof (induction eps arbitrary: c)
    case (Cons a eps)
    define m where "m = min_cipher c (endpoint_cipher a)"
    have m: "m = c \<or> m = endpoint_cipher a" "crypto_value m \<le> crypto_value c" "crypto_value m \<le> crypto_value (endpoint_cipher a)"
      by (auto simp: m_def min_cipher_def)
    have "f (a # eps) c = f eps m" by (simp add: f_def m_def)
    with Cons.IH[of m] m show ?case by (metis le_trans list.set_intros(1) list.set_intros(2) set_ConsD)
  qed (simp add: f_def)
  have C: "ComputeCipher8021x eps = f eps kCryptoAes" using assms by (simp add: ComputeCipher8021x_def f_def)
  obtain e where e: "e \<in> set eps" using assms by (cases eps) auto
  have "f eps kCryptoAes = kCryptoAes \<Longrightarrow> endpoint_cipher e = kCryptoAes"
    using F[of kCryptoAes] e le[of "endpoint_cipher e"] by (intro inj) fastforce
  then show ?thesis using F[of kCryptoAes] e unfolding C by metis
qed

text \<open>Among which endpoints the representative is the one of the strongest signal: those of the preferred device, if any.\<close>

definition candidates :: "(nat \<Rightarrow> wifi_endpoint) \<Rightarrow> (nat \<Rightarrow> string) \<Rightarrow> string \<Rightarrow> nat list \<Rightarrow> nat list" where
  "candidates ep link preferred es =
     (let own = filter (\<lambda>e. link (ep_device (ep e)) = preferred) es in if own = [] then es else own)"

definition strongest :: "(nat \<Rightarrow> wifi_endpoint) \<Rightarrow> nat list \<Rightarrow> nat \<Rightarrow> bool" where
  "strongest ep es e \<longleftrightarrow> e \<in> set es \<and> (\<forall>x \<in> set es. ep_signal_strength (ep x) \<le> ep_signal_strength (ep e))"

definition loop_result :: "(nat \<Rightarrow> wifi_endpoint) \<Rightarrow> nat list \<Rightarrow> int \<Rightarrow> nat option \<Rightarrow> nat option \<Rightarrow> bool" where
  "loop_result ep es best r r' \<longleftrightarrow>
     (\<exists>e. r' = Some e \<and> strongest ep es e \<and> best \<le> ep_signal_strength (ep e)) \<or>
     r' = r \<and> (\<forall>e \<in> set es. ep_signal_strength (ep e) < best)"

lemma loop_result_Nil [simp]: "loop_result ep [] best r r' \<longleftrightarrow> r' = r"
  by (auto simp: loop_result_def strongest_def)

lemma loop_result_Cons:
  "loop_result ep (e # es) best r r'"
  if "if best \<le> ep_signal_strength (ep e) then loop_result ep es (ep_signal_strength (ep e)) (Some e) r' else loop_result ep es best r r'"
  using that by (auto simp: loop_result_def strongest_def split: if_splits dest: less_imp_le)

lemma representative_found:
  "loop_result ep (filter (\<lambda>e. link (ep_device (ep e)) = p) es) best r (representative_loop ep link p es best True r)"
  by (induction es arbitrary: best r) (auto intro!: loop_result_Cons)

lemma representative_none:
  "filter (\<lambda>e. link (ep_device (ep e)) = p) es = [] \<Longrightarrow>
     loop_result ep es best r (representative_loop ep link p es best False r)"
  by (induction es arbitrary: best r) (auto intro!: loop_result_Cons split: if_splits)

lemma representative_own:
  "filter (\<lambda>e. link (ep_device (ep e)) = p) es \<noteq> [] \<Longrightarrow> \<forall>e \<in> set es. kInt16Min \<le> ep_signal_strength (ep e) \<Longrightarrow>
     \<exists>e. representative_loop ep link p es best False r = Some e \<and>
       strongest ep (filter (\<lambda>e. link (ep_device (ep e)) = p) es) e"
proof (induction es arbitrary: best r)
  case (Cons e es)
  show ?case
  proof (cases "link (ep_device (ep e)) = p")
    case True
    have "loop_result ep (filter (\<lambda>e. link (ep_device (ep e)) = p) es) (ep_signal_strength (ep e)) (Some e)
        (representative_loop ep link p es (ep_signal_strength (ep e)) True (Some e))"
      by (rule representative_found)
    with True Cons.prems show ?thesis by (auto simp: loop_result_def strongest_def dest!: less_imp_le)
  next
    case False
    with Cons show ?thesis by simp
  qed
qed simp

text \<open>
  C38: the representative endpoint of \<open>WiFiService::UpdateFromEndpoints\<close> is the current one, if there is one; else there is
  none exactly if the service has no endpoint; else it is one of the strongest signal among the endpoints of the preferred
  device, or among all of them if that device has none.
\<close>

theorem representative_endpoint_best:
  assumes "\<forall>e \<in> set (ws_endpoints ws). kInt16Min \<le> ep_signal_strength (ep e)"
  shows "case representative_endpoint ep link ws of
       None \<Rightarrow> ws_current_endpoint ws = None \<and> ws_endpoints ws = []
     | Some e \<Rightarrow> ws_current_endpoint ws = Some e \<or>
         ws_current_endpoint ws = None \<and> strongest ep (candidates ep link (ws_preferred_device ws) (ws_endpoints ws)) e"
proof (cases "ws_current_endpoint ws")
  case None
  define own where "own = filter (\<lambda>e. link (ep_device (ep e)) = ws_preferred_device ws) (ws_endpoints ws)"
  let ?r = "representative_loop ep link (ws_preferred_device ws) (ws_endpoints ws) kInt16Min False None"
  have "loop_result ep (ws_endpoints ws) kInt16Min None ?r" if "own = []"
    using representative_none[of link ep] that by (simp add: own_def)
  moreover have "\<exists>e. ?r = Some e \<and> strongest ep own e" if "own \<noteq> []"
    using representative_own[OF _ assms] that by (simp add: own_def)
  moreover have "own = filter (\<lambda>e. link (ep_device (ep e)) = ws_preferred_device ws) (ws_endpoints ws)" by (rule own_def)
  ultimately show ?thesis
    using None assms
    by (cases "ws_endpoints ws")
      (fastforce simp: representative_endpoint_def candidates_def Let_def loop_result_def split: option.split)+
qed (simp add: representative_endpoint_def)

lemma representative_endpoint_best_witness:
  "\<exists>ep ws. representative_endpoint ep (\<lambda>d. if d = 0 then ''wlan0'' else ''wlan1'') ws = Some 2 \<and>
     strongest ep [2] 2"
proof -
  define e where "e = (\<lambda>device signal.
    \<lparr>ep_ssid = [], ep_bssid = [], ep_ssid_string = [], ep_ssid_hex = [], ep_bssid_string = [], ep_bssid_hex = [],
     ep_country_code = [], ep_signal_strength = signal, ep_frequency = 0, ep_physical_mode = PhyModeUndef,
     ep_network_mode = [], ep_security_mode = [], ep_vendor_information = no_vendor, ep_ieee80211w_required = False,
     ep_has_rsn_property = False, ep_has_wpa_property = False, ep_has_tethering_signature = False,
     ep_security_flags = no_flags, ep_device = device, ep_rpc_id = [], ep_notified = 0\<rparr>)"
  define ep where "ep = (\<lambda>h :: nat. if h = 2 then e 1 (-70) else e 0 (-40))"
  define ws where "ws = (undefined :: wifi_service)\<lparr>ws_endpoints := [1, 2, 3], ws_current_endpoint := None,
     ws_preferred_device := ''wlan1''\<rparr>"
  let ?link = "\<lambda>d :: nat. if d = 0 then ''wlan0'' else ''wlan1''"
  have A: "\<forall>x \<in> set (ws_endpoints ws). kInt16Min \<le> ep_signal_strength (ep x)"
    by (simp add: ws_def ep_def e_def kInt16Min_def)
  have R: "representative_endpoint ep ?link ws = Some 2"
    by (simp add: representative_endpoint_def ws_def ep_def e_def kInt16Min_def)
  have C: "candidates ep ?link (ws_preferred_device ws) (ws_endpoints ws) = [2]"
    by (simp add: candidates_def ws_def ep_def e_def)
  have "strongest ep [2] 2"
    using representative_endpoint_best[OF A, of ?link] R C by (simp add: ws_def)
  with R show ?thesis by blast
qed

subsection \<open>Credentials under suspicion, and the preferred device\<close>

text \<open>
  The n-th failure in a row counts as a reason to blame the credentials if the service never connected, or from the third on.
\<close>

lemma suspected_failures:
  assumes "sv_has_ever_connected (ws_base ws)"
  shows "fst (AddSuspectedCredentialFailure (((\<lambda>ws. snd (AddSuspectedCredentialFailure ws)) ^^ n) (ResetSuspectedCredentialFailures ws)))
    \<longleftrightarrow> 2 \<le> n"
proof -
  have "((\<lambda>ws. snd (AddSuspectedCredentialFailure ws)) ^^ n) (ResetSuspectedCredentialFailures ws) =
      ws\<lparr>ws_suspected_credential_failures := int n\<rparr>"
    using assms by (induction n) (simp_all add: AddSuspectedCredentialFailure_def ResetSuspectedCredentialFailures_def Let_def)
  with assms show ?thesis by (auto simp: AddSuspectedCredentialFailure_def Let_def kSuspectedCredentialFailureThreshold_def)
qed

lemma suspected_at_once: "\<not> sv_has_ever_connected (ws_base ws) \<Longrightarrow> AddSuspectedCredentialFailure ws = (True, ws)"
  by (simp add: AddSuspectedCredentialFailure_def)

text \<open>\<open>Save\<close> asks \<open>SaveString\<close> not to save the preferred device, so the profile never has one to load.\<close>

lemma preferred_device_not_saved:
  assumes "pf_store (wp_platform W) = JsonStore_interface"
  shows "si_GetString JsonStore_interface (WiFi_Save W ws st) (sv_storage_identifier (ws_base ws)) ''WiFi.PreferredDevice'' = None"
  unfolding WiFi_Save_def Let_def assms SaveString_def by (simp add: js.get_string js.delete_key)

end
