(* ===== verification/Wifi_Scan_Session.thy ===== *)
theory Wifi_Scan_Session
  imports Byte_String
begin

text \<open>
  Model of \<open>wifi/scan_session.cc\<close>: a progressive scan, which asks the kernel for the frequencies of past connections first,
  a few at a time. Counts are natural numbers. The fraction of the connections wanted so far is a \<open>float\<close>; its arithmetic
  is an argument, the record \<open>float_ops\<close>. \<open>std::sort\<close> leaves open the order of frequencies with equal counts; the model keeps
  them in their order. The trigger messages are a list of what was asked for.
\<close>

subsection \<open>State\<close>

record 'f float_ops =
  fl_zero :: 'f
  fl_all :: 'f
  fl_add :: "'f \<Rightarrow> 'f \<Rightarrow> 'f"
  fl_times :: "'f \<Rightarrow> nat \<Rightarrow> 'f"
  fl_reached :: "nat \<Rightarrow> 'f \<Rightarrow> bool"

type_synonym frequency_count = "u16 \<times> nat"

record 'f scan_session =
  ss_frequency_list :: "frequency_count list"
  ss_total_connections :: nat
  ss_total_connects_provided :: nat
  ss_total_fraction_wanted :: 'f
  ss_current_scan_frequencies :: "u16 list"
  ss_ssids :: "bytes list"
  ss_fractions :: "'f list"
  ss_min_frequencies :: nat
  ss_max_frequencies :: nat
  ss_scan_tries_left :: nat
  ss_found_error :: bool
  ss_sent :: "(u16 list \<times> bytes list) list"

definition kScanRetryDelayMilliseconds :: nat where "kScanRetryDelayMilliseconds = 200"
definition kScanRetryCount :: nat where "kScanRetryCount = 50"

definition CompareFrequencyCount :: "frequency_count \<Rightarrow> frequency_count \<Rightarrow> bool" where
  "CompareFrequencyCount a b \<longleftrightarrow> snd a > snd b"

text \<open>Insertion sort by that order.\<close>

fun insert_count :: "frequency_count \<Rightarrow> frequency_count list \<Rightarrow> frequency_count list" where
  "insert_count x [] = [x]"
| "insert_count x (y # ys) = (if CompareFrequencyCount y x \<or> snd y = snd x then y # insert_count x ys else x # y # ys)"

definition ScanSession_new ::
    "'f float_ops \<Rightarrow> frequency_count list \<Rightarrow> u16 list \<Rightarrow> 'f list \<Rightarrow> nat \<Rightarrow> nat \<Rightarrow> 'f scan_session" where
  "ScanSession_new F previous_frequencies available_frequencies fractions min_frequencies max_frequencies =
     (let l = fold insert_count previous_frequencies [];
          total = sum_list (map snd l);
          new = filter (\<lambda>f. f \<notin> set (map fst l)) available_frequencies
      in \<lparr>ss_frequency_list = l @ map (\<lambda>f. (f, 0)) new, ss_total_connections = total, ss_total_connects_provided = 0,
          ss_total_fraction_wanted = fl_zero F, ss_current_scan_frequencies = [], ss_ssids = [], ss_fractions = fractions,
          ss_min_frequencies = min_frequencies, ss_max_frequencies = max_frequencies,
          ss_scan_tries_left = kScanRetryCount, ss_found_error = False, ss_sent = []\<rparr>)"

subsection \<open>Operations\<close>

definition HasMoreFrequencies :: "'f scan_session \<Rightarrow> bool" where
  "HasMoreFrequencies ss \<longleftrightarrow> ss_frequency_list ss \<noteq> []"

text \<open>The loop of \<open>GetScanFrequencies\<close>: the frequencies taken, the connections they stand for, and the rest of the list.\<close>

fun take_frequencies :: "(nat \<Rightarrow> bool) \<Rightarrow> nat \<Rightarrow> nat \<Rightarrow> frequency_count list \<Rightarrow> nat \<Rightarrow> u16 list \<Rightarrow> u16 list \<times> nat \<times> frequency_count list" where
  "take_frequencies enough lo hi [] provided fs = (fs, provided, [])"
| "take_frequencies enough lo hi ((f, n) # l) provided fs =
     (if lo \<le> length fs \<and> (enough provided \<or> hi \<le> length fs) then (fs, provided, (f, n) # l)
      else take_frequencies enough lo hi l (provided + n) (fs @ [f]))"

definition GetScanFrequencies :: "'f float_ops \<Rightarrow> 'f \<Rightarrow> nat \<Rightarrow> nat \<Rightarrow> 'f scan_session \<Rightarrow> u16 list \<times> 'f scan_session" where
  "GetScanFrequencies F fraction_wanted min_frequencies max_frequencies ss =
     (let wanted = fl_add F (ss_total_fraction_wanted ss) fraction_wanted;
          total_connects_wanted = fl_times F wanted (ss_total_connections ss)
      in case take_frequencies (\<lambda>p. fl_reached F p total_connects_wanted) min_frequencies max_frequencies
                (ss_frequency_list ss) (ss_total_connects_provided ss) [] of
           (fs, provided, rest) \<Rightarrow>
             (fs, ss\<lparr>ss_total_fraction_wanted := wanted, ss_total_connects_provided := provided, ss_frequency_list := rest\<rparr>))"

definition DoScan :: "u16 list \<Rightarrow> 'f scan_session \<Rightarrow> 'f scan_session" where
  "DoScan scan_frequencies ss =
     (if scan_frequencies = [] then ss
      else ss\<lparr>ss_sent := ss_sent ss @ [(scan_frequencies, if ss_ssids ss = [] then [] else ss_ssids ss @ [[]])]\<rparr>)"

definition InitiateScan :: "'f float_ops \<Rightarrow> 'f scan_session \<Rightarrow> 'f scan_session" where
  "InitiateScan F ss =
     (let (fraction_wanted, ss) =
            (case ss_fractions ss of [] \<Rightarrow> (fl_all F, ss) | f # fs \<Rightarrow> (f, ss\<lparr>ss_fractions := fs\<rparr>));
          (fs, ss) = GetScanFrequencies F fraction_wanted (ss_min_frequencies ss) (ss_max_frequencies ss) ss;
          ss = ss\<lparr>ss_current_scan_frequencies := fs\<rparr>
      in DoScan fs ss)"

definition ReInitiateScan :: "'f scan_session \<Rightarrow> 'f scan_session" where
  "ReInitiateScan ss = DoScan (ss_current_scan_frequencies ss) ss"

text \<open>A set of SSIDs, in the order of \<open>ByteString::IsLessThan\<close>.\<close>

fun insert_ssid :: "bytes \<Rightarrow> bytes list \<Rightarrow> bytes list" where
  "insert_ssid x [] = [x]"
| "insert_ssid x (y # ys) =
     (if IsLessThan x y then x # y # ys else if IsLessThan y x then y # insert_ssid x ys else y # ys)"

definition AddSsid :: "bytes \<Rightarrow> 'f scan_session \<Rightarrow> 'f scan_session" where
  "AddSsid ssid ss = ss\<lparr>ss_ssids := insert_ssid ssid (ss_ssids ss)\<rparr>"

text \<open>
  What the kernel answers: no message, one that is not an error message, an error message with its code; or the other
  kinds of auxiliary message. \<open>EBUSY\<close> is 16.
\<close>

datatype scan_answer = KernelNoMessage | KernelNotAnError | KernelError nat | UnexpectedResponse | TimeoutWaiting | OtherAnswer

datatype scan_outcome = ScanGoesOn | ScanRetriedLater | ScanFailed

definition kEBUSY :: nat where "kEBUSY = 16"

definition scan_failed :: "'f scan_session \<Rightarrow> scan_outcome \<times> 'f scan_session" where
  "scan_failed ss = (ScanFailed, ss\<lparr>ss_found_error := True\<rparr>)"

definition OnTriggerScanErrorResponse :: "scan_answer \<Rightarrow> 'f scan_session \<Rightarrow> scan_outcome \<times> 'f scan_session" where
  "OnTriggerScanErrorResponse answer ss =
     (case answer of
        KernelError e \<Rightarrow>
          if e = 0 then (ScanGoesOn, ss)
          else if e = kEBUSY then
            (if ss_scan_tries_left ss = 0
             then (case scan_failed ss of (r, ss) \<Rightarrow> (r, ss\<lparr>ss_scan_tries_left := kScanRetryCount\<rparr>))
             else (ScanRetriedLater, ss\<lparr>ss_scan_tries_left := ss_scan_tries_left ss - 1\<rparr>))
          else scan_failed ss
      | TimeoutWaiting \<Rightarrow> (ScanGoesOn, ss)
      | _ \<Rightarrow> scan_failed ss)"

subsection \<open>Every frequency once, the most used first\<close>

lemma insert_count_set [simp]: "set (insert_count x l) = insert x (set l)"
  by (induction l) auto

lemma insert_count_distinct: "fst x \<notin> fst ` set l \<Longrightarrow> distinct (map fst l) \<Longrightarrow> distinct (map fst (insert_count x l))"
  by (induction l) auto

lemma insert_count_sorted:
  "sorted_wrt (\<lambda>a b. snd a \<ge> snd b) l \<Longrightarrow> sorted_wrt (\<lambda>a b. snd a \<ge> snd b) (insert_count x l)"
  by (induction l) (auto simp: CompareFrequencyCount_def)

lemma sort_counts:
  assumes "distinct (map fst xs)"
  shows "set (fold insert_count xs []) = set xs" "distinct (map fst (fold insert_count xs []))"
    "sorted_wrt (\<lambda>a b. snd a \<ge> snd b) (fold insert_count xs [])"
proof -
  have "set (fold insert_count xs l) = set xs \<union> set l \<and>
      (distinct (map fst xs) \<and> distinct (map fst l) \<and> fst ` set xs \<inter> fst ` set l = {} \<longrightarrow> distinct (map fst (fold insert_count xs l))) \<and>
      (sorted_wrt (\<lambda>a b. snd a \<ge> snd b) l \<longrightarrow> sorted_wrt (\<lambda>a b. snd a \<ge> snd b) (fold insert_count xs l))" for l
  proof (induction xs arbitrary: l)
    case (Cons x xs)
    show ?case
      using Cons.IH[of "insert_count x l"] insert_count_sorted[of l x] insert_count_distinct[of x l] by auto
  qed simp
  from this[of "[]"] assms show "set (fold insert_count xs []) = set xs" "distinct (map fst (fold insert_count xs []))"
    "sorted_wrt (\<lambda>a b. snd a \<ge> snd b) (fold insert_count xs [])" by auto
qed

lemma new_list:
  assumes "distinct (map fst previous)" "distinct available"
  shows "distinct (map fst (ss_frequency_list (ScanSession_new F previous available fr lo hi)))"
    and "set (ss_frequency_list (ScanSession_new F previous available fr lo hi)) =
      set previous \<union> {(f, 0) |f. f \<in> set available \<and> f \<notin> fst ` set previous}"
    and "sorted_wrt (\<lambda>a b. snd a \<ge> snd b) (ss_frequency_list (ScanSession_new F previous available fr lo hi))"
proof -
  note S = sort_counts[OF assms(1)]
  show "distinct (map fst (ss_frequency_list (ScanSession_new F previous available fr lo hi)))"
    using S assms(2) by (auto simp: ScanSession_new_def Let_def comp_def)
  show "set (ss_frequency_list (ScanSession_new F previous available fr lo hi)) =
      set previous \<union> {(f, 0) |f. f \<in> set available \<and> f \<notin> fst ` set previous}"
    using S by (auto simp: ScanSession_new_def Let_def)
  show "sorted_wrt (\<lambda>a b. snd a \<ge> snd b) (ss_frequency_list (ScanSession_new F previous available fr lo hi))"
    using S by (auto simp: ScanSession_new_def Let_def sorted_wrt_append sorted_wrt_map)
qed

lemma take_frequencies_split:
  "take_frequencies enough lo hi l provided fs = (fs', provided', rest) \<Longrightarrow>
     \<exists>taken. fs' = fs @ map fst taken \<and> l = taken @ rest \<and> (l \<noteq> [] \<and> fs = [] \<and> 0 < lo \<longrightarrow> taken \<noteq> [])"
proof (induction l arbitrary: provided fs)
  case (Cons x l)
  obtain f n where x: "x = (f, n)" by fastforce
  show ?case
  proof (cases "lo \<le> length fs \<and> (enough provided \<or> hi \<le> length fs)")
    case True
    with Cons.prems show ?thesis by (auto simp: x intro!: exI[of _ "[]"])
  next
    case False
    with Cons.prems have "take_frequencies enough lo hi l (provided + n) (fs @ [f]) = (fs', provided', rest)"
      by (simp add: x)
    from Cons.IH[OF this] obtain taken where "fs' = (fs @ [f]) @ map fst taken" "l = taken @ rest" by blast
    then show ?thesis by (intro exI[of _ "x # taken"]) (simp add: x)
  qed
qed simp

lemma InitiateScan_split:
  assumes "ss_frequency_list ss \<noteq> []" "0 < ss_min_frequencies ss"
  shows "\<exists>taken. taken \<noteq> [] \<and> ss_frequency_list ss = taken @ ss_frequency_list (InitiateScan F ss) \<and>
    map fst (ss_sent (InitiateScan F ss)) = map fst (ss_sent ss) @ [map fst taken] \<and>
    ss_min_frequencies (InitiateScan F ss) = ss_min_frequencies ss"
proof -
  define fr ss1 where "fr = fst (case ss_fractions ss of [] \<Rightarrow> (fl_all F, ss) | f # fs \<Rightarrow> (f, ss\<lparr>ss_fractions := fs\<rparr>))"
    and "ss1 = snd (case ss_fractions ss of [] \<Rightarrow> (fl_all F, ss) | f # fs \<Rightarrow> (f, ss\<lparr>ss_fractions := fs\<rparr>))"
  have S1: "ss_frequency_list ss1 = ss_frequency_list ss" "ss_sent ss1 = ss_sent ss" "ss_min_frequencies ss1 = ss_min_frequencies ss"
    by (simp_all add: ss1_def split: list.split)
  obtain fs provided rest where T: "take_frequencies (\<lambda>p. fl_reached F p (fl_times F (fl_add F (ss_total_fraction_wanted ss1) fr)
      (ss_total_connections ss1))) (ss_min_frequencies ss1) (ss_max_frequencies ss1) (ss_frequency_list ss1)
      (ss_total_connects_provided ss1) [] = (fs, provided, rest)"
    by (metis prod_cases3)
  obtain taken where K: "fs = map fst taken" "ss_frequency_list ss1 = taken @ rest" "taken \<noteq> []"
    using take_frequencies_split[OF T] assms S1 by auto
  have "InitiateScan F ss = DoScan fs (ss1\<lparr>ss_total_fraction_wanted := fl_add F (ss_total_fraction_wanted ss1) fr,
      ss_total_connects_provided := provided, ss_frequency_list := rest, ss_current_scan_frequencies := fs\<rparr>)"
    unfolding InitiateScan_def GetScanFrequencies_def Let_def fr_def[symmetric] ss1_def[symmetric] case_prod_beta T
    by (simp add: T[unfolded case_prod_beta] fr_def[symmetric] ss1_def[symmetric])
  with K S1 show ?thesis by (intro exI[of _ taken]) (simp add: DoScan_def)
qed

text \<open>
  C39: a progressive scan covers everything and ends: a session with at least one frequency per scan, asked for scan after
  scan while \<open>HasMoreFrequencies\<close>, is through after at most as many scans as there are frequencies; by then it has asked
  for every frequency connected to before and every available one exactly once, in the order of decreasing use.
\<close>

theorem progressive_scan_covers:
  assumes "distinct (map fst previous)" "distinct available" "0 < lo"
  shows "let start = ScanSession_new F previous available fr lo hi; fs = ss_frequency_list start
    in \<exists>n \<le> length fs. \<not> HasMoreFrequencies ((InitiateScan F ^^ n) start) \<and>
         concat (map fst (ss_sent ((InitiateScan F ^^ n) start))) = map fst fs \<and>
         length (ss_sent ((InitiateScan F ^^ n) start)) = n \<and> distinct (map fst fs) \<and>
         set fs = set previous \<union> {(f, 0) |f. f \<in> set available \<and> f \<notin> fst ` set previous} \<and>
         sorted_wrt (\<lambda>a b. snd a \<ge> snd b) fs"
proof -
  have G: "\<exists>n \<le> length (ss_frequency_list ss). ss_frequency_list ((InitiateScan F ^^ n) ss) = [] \<and>
      concat (map fst (ss_sent ((InitiateScan F ^^ n) ss))) = concat (map fst (ss_sent ss)) @ map fst (ss_frequency_list ss) \<and>
      length (ss_sent ((InitiateScan F ^^ n) ss)) = length (ss_sent ss) + n"
    if "0 < ss_min_frequencies ss" for ss
    using that
  proof (induction "length (ss_frequency_list ss)" arbitrary: ss rule: less_induct)
    case less
    show ?case
    proof (cases "ss_frequency_list ss = []")
      case True
      then show ?thesis by (intro exI[of _ 0]) simp
    next
      case False
      obtain taken where K: "taken \<noteq> []" "ss_frequency_list ss = taken @ ss_frequency_list (InitiateScan F ss)"
          "map fst (ss_sent (InitiateScan F ss)) = map fst (ss_sent ss) @ [map fst taken]"
          "ss_min_frequencies (InitiateScan F ss) = ss_min_frequencies ss"
        using InitiateScan_split[OF False less.prems] by blast
      have L: "length (ss_frequency_list (InitiateScan F ss)) < length (ss_frequency_list ss)"
        using K(1) arg_cong[OF K(2), of length] by simp
      have Z: "length (ss_sent (InitiateScan F ss)) = Suc (length (ss_sent ss))"
        using arg_cong[OF K(3), of length] by simp
      obtain n where N: "n \<le> length (ss_frequency_list (InitiateScan F ss))"
          "ss_frequency_list ((InitiateScan F ^^ n) (InitiateScan F ss)) = []"
          "concat (map fst (ss_sent ((InitiateScan F ^^ n) (InitiateScan F ss)))) =
             concat (map fst (ss_sent (InitiateScan F ss))) @ map fst (ss_frequency_list (InitiateScan F ss))"
          "length (ss_sent ((InitiateScan F ^^ n) (InitiateScan F ss))) = length (ss_sent (InitiateScan F ss)) + n"
        using less.hyps[OF L] less.prems K(4) by auto
      have "map fst (ss_frequency_list ss) = map fst taken @ map fst (ss_frequency_list (InitiateScan F ss))"
        using K(2) by (metis map_append)
      then show ?thesis
        using N K(3) L Z by (intro exI[of _ "Suc n"]) (simp add: funpow_Suc_right del: funpow.simps)
    qed
  qed
  define ss0 where "ss0 = ScanSession_new F previous available fr lo hi"
  have M: "0 < ss_min_frequencies ss0" "ss_sent ss0 = []" using assms(3) by (simp_all add: ss0_def ScanSession_new_def Let_def)
  from G[OF M(1)] M(2) obtain n where N: "n \<le> length (ss_frequency_list ss0)"
      "ss_frequency_list ((InitiateScan F ^^ n) ss0) = []"
      "concat (map fst (ss_sent ((InitiateScan F ^^ n) ss0))) = map fst (ss_frequency_list ss0)"
      "length (ss_sent ((InitiateScan F ^^ n) ss0)) = n"
    by auto
  note W = new_list[OF assms(1,2), of F fr lo hi, folded ss0_def]
  show ?thesis
    unfolding ss0_def[symmetric] Let_def HasMoreFrequencies_def
    using N W by (intro exI[of _ n] conjI) simp_all
qed

text \<open>Floats for examples: natural numbers, in hundredths.\<close>

definition demo_floats :: "nat float_ops" where
  "demo_floats = \<lparr>fl_zero = 0, fl_all = 110, fl_add = (+), fl_times = (*), fl_reached = (\<lambda>p w. w \<le> 100 * p)\<rparr>"

lemma progressive_scan_covers_witness:
  "let start = ScanSession_new demo_floats [(2412, 3), (5180, 9)] [2412, 2437, 5180, 5200 :: u16] [34, 34, 34] 1 2
   in \<exists>n \<le> 4. concat (map fst (ss_sent ((InitiateScan demo_floats ^^ n) start))) = [5180, 2412, 2437, 5200]"
proof -
  define start where "start = ScanSession_new demo_floats [(2412, 3), (5180, 9)] [2412, 2437, 5180, 5200 :: u16] [34, 34, 34] 1 2"
  have L: "map fst (ss_frequency_list start) = [5180, 2412, 2437, 5200]" unfolding start_def by code_simp
  have "length (map fst (ss_frequency_list start)) = 4" unfolding L by simp
  then have F: "length (ss_frequency_list start) = 4" by simp
  have D: "distinct (map fst [(2412 :: u16, 3 :: nat), (5180, 9)])" "distinct [2412, 2437, 5180, 5200 :: u16]" "0 < (1 :: nat)"
    by code_simp+
  obtain n where n: "n \<le> length (ss_frequency_list start)"
      "concat (map fst (ss_sent ((InitiateScan demo_floats ^^ n) start))) = map fst (ss_frequency_list start)"
    using progressive_scan_covers[OF D, of demo_floats "[34, 34, 34]" 2] unfolding start_def[symmetric] Let_def by blast
  have "concat (map fst (ss_sent ((InitiateScan demo_floats ^^ n) start))) = [5180, 2412, 2437, 5200]"
    using n(2) L by (rule trans)
  with n(1) F show ?thesis unfolding Let_def start_def[symmetric] by (intro exI[of _ n] conjI) simp_all
qed

text \<open>A kernel that is busy all the time is asked 51 times.\<close>

lemma busy_kernel:
  "n \<le> ss_scan_tries_left ss \<Longrightarrow>
     ss_scan_tries_left (((\<lambda>ss. snd (OnTriggerScanErrorResponse (KernelError kEBUSY) ss)) ^^ n) ss) = ss_scan_tries_left ss - n"
  by (induction n) (simp_all add: OnTriggerScanErrorResponse_def kEBUSY_def)

lemma busy_kernel_gives_up:
  assumes "ss_scan_tries_left ss = kScanRetryCount" "n \<le> 50"
  shows "fst (OnTriggerScanErrorResponse (KernelError kEBUSY)
      (((\<lambda>ss. snd (OnTriggerScanErrorResponse (KernelError kEBUSY) ss)) ^^ n) ss)) = (if n < 50 then ScanRetriedLater else ScanFailed)"
  using busy_kernel[of n ss] assms
  by (auto simp: OnTriggerScanErrorResponse_def kEBUSY_def scan_failed_def kScanRetryCount_def)

end
