(* ===== verification/Wifi_Frequencies.thy ===== *)
theory Wifi_Frequencies
  imports Store_Interface
begin

text \<open>
  Model of the part of \<open>wifi/wifi_provider.cc\<close> that counts the connections made on each frequency, week by week, and keeps the
  counts in the default profile: what a progressive scan looks at first. Maps are lists in the order of their keys; times are
  in seconds. \<open>base::SplitString\<close> is an argument.
\<close>

subsection \<open>Ordered maps\<close>

type_synonym ('k, 'v) ordered_map = "('k \<times> 'v) list"

fun map_put :: "'k::linorder \<Rightarrow> 'v \<Rightarrow> ('k, 'v) ordered_map \<Rightarrow> ('k, 'v) ordered_map" where
  "map_put k v [] = [(k, v)]"
| "map_put k v ((k', v') # m) =
     (if k < k' then (k, v) # (k', v') # m else if k = k' then (k, v) # m else (k', v') # map_put k v m)"

text \<open>\<open>operator[]\<close> reads a missing entry as 0.\<close>

definition look :: "('k, int) ordered_map \<Rightarrow> 'k \<Rightarrow> int" where
  "look m k = (case map_of m k of None \<Rightarrow> 0 | Some v \<Rightarrow> v)"

definition map_erase :: "'k \<Rightarrow> ('k, 'v) ordered_map \<Rightarrow> ('k, 'v) ordered_map" where
  "map_erase k m = filter (\<lambda>e. fst e \<noteq> k) m"

type_synonym connect_frequency_map = "(u16, int) ordered_map"

record frequency_counts =
  fc_total_frequency_connections :: int
  fc_connect_count_by_frequency :: connect_frequency_map
  fc_connect_count_by_frequency_dated :: "(int, connect_frequency_map) ordered_map"

definition kMaxStorageFrequencies :: nat where "kMaxStorageFrequencies = 20"
definition kWeeksToKeepFrequencyCounts :: int where "kWeeksToKeepFrequencyCounts = 3"
definition kSecondsPerWeek :: int where "kSecondsPerWeek = 60 * 60 * 24 * 7"
definition kIllegalStartWeek :: int where "kIllegalStartWeek = 2 ^ 63 - 1"

subsection \<open>Counting\<close>

text \<open>A count of an expired week is taken off; an entry that is used up goes.\<close>

definition take_off :: "u16 \<times> int \<Rightarrow> frequency_counts \<Rightarrow> frequency_counts" where
  "take_off fn fc =
     (case fn of (f, n) \<Rightarrow>
        let by = fc_connect_count_by_frequency fc; v = look by f - n
        in fc\<lparr>fc_connect_count_by_frequency := (if v \<le> 0 then map_erase f by else map_put f v by),
              fc_total_frequency_connections := fc_total_frequency_connections fc - n\<rparr>)"

fun expire :: "int \<Rightarrow> (int, connect_frequency_map) ordered_map \<Rightarrow> frequency_counts \<Rightarrow> frequency_counts" where
  "expire oldest_legal_week [] fc = fc\<lparr>fc_connect_count_by_frequency_dated := []\<rparr>"
| "expire oldest_legal_week ((week, m) # dated) fc =
     (if week < oldest_legal_week then expire oldest_legal_week dated (fold take_off m fc)
      else fc\<lparr>fc_connect_count_by_frequency_dated := (week, m) # dated\<rparr>)"

text \<open>\<open>None\<close> is the failed \<open>CHECK\<close> on the total, an \<open>int64_t\<close>.\<close>

definition IncrementConnectCount :: "int \<Rightarrow> u16 \<Rightarrow> frequency_counts \<Rightarrow> frequency_counts option" where
  "IncrementConnectCount now frequency_mhz fc =
     (if fc_total_frequency_connections fc \<ge> 2 ^ 63 - 1 then None
      else
        let by = fc_connect_count_by_frequency fc; dated = fc_connect_count_by_frequency_dated fc;
            this_week = now div kSecondsPerWeek;
            m = (case map_of dated this_week of None \<Rightarrow> [] | Some m \<Rightarrow> m);
            fc = fc\<lparr>fc_connect_count_by_frequency := map_put frequency_mhz (look by frequency_mhz + 1) by,
                    fc_total_frequency_connections := fc_total_frequency_connections fc + 1\<rparr>;
            dated = map_put this_week (map_put frequency_mhz (look m frequency_mhz + 1) m) dated
        in Some (expire (this_week - kWeeksToKeepFrequencyCounts) dated
             (fc\<lparr>fc_connect_count_by_frequency_dated := dated\<rparr>)))"

definition GetScanFrequencies_of :: "frequency_counts \<Rightarrow> (u16 \<times> nat) list" where
  "GetScanFrequencies_of fc = map (\<lambda>(f, n). (f, nat n)) (fc_connect_count_by_frequency fc)"

subsection \<open>Text\<close>

definition digit_of :: "nat \<Rightarrow> char" where "digit_of d = char_of (d + 48)"

function decimal :: "nat \<Rightarrow> string" where
  "decimal n = (let tens = n div 10; units = [digit_of (n mod 10)] in if tens = 0 then units else decimal tens @ units)"
  by pat_completeness auto
termination by (relation "measure id") auto

lemmas [simp del] = decimal.simps

definition decimal_int :: "int \<Rightarrow> string" where
  "decimal_int i = (if i < 0 then CHR ''-'' # decimal (nat (- i)) else decimal (nat i))"

text \<open>
  \<open>atoi\<close> and \<open>atoll\<close>: white space, a sign, and digits up to the first other character. Numbers that do not fit
  their type are undefined behaviour in C; the model computes the number.
\<close>

definition is_digit :: "char \<Rightarrow> bool" where
  "is_digit c \<longleftrightarrow> 48 \<le> (of_char c :: nat) \<and> (of_char c :: nat) \<le> 57"

definition digits_value :: "string \<Rightarrow> nat" where
  "digits_value s = foldl (\<lambda>n c. 10 * n + (of_char c - 48)) 0 (takeWhile is_digit s)"

definition is_space :: "char \<Rightarrow> bool" where
  "is_space c \<longleftrightarrow> (of_char c :: nat) = 32 \<or> 9 \<le> (of_char c :: nat) \<and> (of_char c :: nat) \<le> 13"

definition atoll :: "string \<Rightarrow> int" where
  "atoll s =
     (case dropWhile is_space s of
        [] \<Rightarrow> 0
      | c # t \<Rightarrow> if c = CHR ''-'' then - int (digits_value t) else if c = CHR ''+'' then int (digits_value t)
                 else int (digits_value (c # t)))"

definition GetStringListStartWeek :: "string \<Rightarrow> int" where
  "GetStringListStartWeek week_string =
     (if take 1 week_string \<noteq> ''@'' then kIllegalStartWeek else atoll (drop 1 week_string))"

definition ParseStringListFreqCount ::
    "(string \<Rightarrow> string \<Rightarrow> string list) \<Rightarrow> string \<Rightarrow> connect_frequency_map \<Rightarrow> connect_frequency_map" where
  "ParseStringListFreqCount split freq_count_string numbers =
     (case split freq_count_string '':'' of
        [f, n] \<Rightarrow> map_put (word_of_int (atoll f)) (atoll n) numbers
      | _ \<Rightarrow> numbers)"

definition StringListToFrequencyMap ::
    "(string \<Rightarrow> string \<Rightarrow> string list) \<Rightarrow> string list \<Rightarrow> connect_frequency_map \<Rightarrow> int \<times> connect_frequency_map" where
  "StringListToFrequencyMap split strings numbers =
     (case strings of
        [] \<Rightarrow> (kIllegalStartWeek, numbers)
      | s # ss \<Rightarrow>
          let start_week = GetStringListStartWeek s
          in if start_week = kIllegalStartWeek then (kIllegalStartWeek, numbers)
             else (start_week, fold (ParseStringListFreqCount split) ss numbers))"

text \<open>The week is printed as an unsigned 64-bit number.\<close>

definition FrequencyMapToStringList :: "int \<Rightarrow> connect_frequency_map \<Rightarrow> string list" where
  "FrequencyMapToStringList start_week numbers =
     (CHR ''@'' # decimal (unat (word_of_int start_week :: u64))) #
     map (\<lambda>(f, n). decimal (unat f) @ '':'' @ decimal_int n) numbers"

subsection \<open>Storage\<close>

definition frequencies_key :: "nat \<Rightarrow> string" where
  "frequencies_key freq = ''Frequencies'' @ decimal freq"

definition Provider_Save :: "'s store_interface \<Rightarrow> frequency_counts \<Rightarrow> 's \<Rightarrow> 's" where
  "Provider_Save I fc storage =
     fold (\<lambda>(freq, week, m) st. snd (si_SetStringList I st ''provider_of_wifi'' (frequencies_key freq) (FrequencyMapToStringList week m)))
       (zip [0..<kMaxStorageFrequencies] (rev (fc_connect_count_by_frequency_dated fc))) storage"

definition add_count :: "u16 \<times> int \<Rightarrow> frequency_counts \<Rightarrow> frequency_counts" where
  "add_count fn fc =
     (case fn of (f, n) \<Rightarrow>
        fc\<lparr>fc_connect_count_by_frequency := map_put f (look (fc_connect_count_by_frequency fc) f + n) (fc_connect_count_by_frequency fc),
           fc_total_frequency_connections := fc_total_frequency_connections fc + n\<rparr>)"

fun load_loop ::
    "(nat \<Rightarrow> string list option) \<Rightarrow> (string \<Rightarrow> string \<Rightarrow> string list) \<Rightarrow> int \<Rightarrow> nat list \<Rightarrow> frequency_counts \<Rightarrow> frequency_counts" where
  "load_loop stored split this_week [] fc = fc"
| "load_loop stored split this_week (freq # rest) fc =
     (case stored freq of
        None \<Rightarrow> fc
      | Some frequencies \<Rightarrow>
          (case StringListToFrequencyMap split frequencies [] of
             (start_week, m) \<Rightarrow>
               if start_week = kIllegalStartWeek \<or> start_week > this_week then load_loop stored split this_week rest fc
               else load_loop stored split this_week rest
                 (fold add_count m
                   (fc\<lparr>fc_connect_count_by_frequency_dated := map_put start_week m (fc_connect_count_by_frequency_dated fc)\<rparr>))))"

text \<open>The part of \<open>LoadAndFixupServiceEntries\<close> for the default profile.\<close>

definition load_frequencies ::
    "'s store_interface \<Rightarrow> (string \<Rightarrow> string \<Rightarrow> string list) \<Rightarrow> int \<Rightarrow> 's \<Rightarrow> frequency_counts \<Rightarrow> frequency_counts" where
  "load_frequencies I split now storage fc =
     load_loop (\<lambda>freq. si_GetStringList I storage ''provider_of_wifi'' (frequencies_key freq)) split (now div kSecondsPerWeek)
       [0..<kMaxStorageFrequencies]
       (fc\<lparr>fc_total_frequency_connections := 0, fc_connect_count_by_frequency := []\<rparr>)"

subsection \<open>The counts are those of the last weeks\<close>

lemma map_of_map_put [simp]: "map_of (map_put k v m) = (map_of m)(k \<mapsto> v)"
  by (induction k v m rule: map_put.induct) auto

lemma map_put_keys [simp]: "fst ` set (map_put k v m) = insert k (fst ` set m)"
  by (induction k v m rule: map_put.induct) auto

lemma map_put_sorted: "sorted_wrt (<) (map fst m) \<Longrightarrow> sorted_wrt (<) (map fst (map_put k v m))"
proof (induction k v m rule: map_put.induct)
  case (2 k v k' v' m)
  have "set (map fst (map_put k v m)) = insert k (set (map fst m))" using map_put_keys[of k v m] by simp
  with 2 show ?case by (auto simp: not_less less_le)
qed simp

lemma map_put_set: "sorted_wrt (<) (map fst m) \<Longrightarrow> set (map_put k v m) = insert (k, v) {e \<in> set m. fst e \<noteq> k}"
proof (induction k v m rule: map_put.induct)
  case (2 k v k' v' m)
  have "k \<notin> fst ` set m" if "k \<le> k'" using 2(2) that by fastforce
  with 2 show ?case by (cases k k' rule: linorder_cases) force+
qed simp

lemma look_map_put [simp]: "look (map_put k v m) k' = (if k' = k then v else look m k')"
  by (simp add: look_def)

lemma look_map_erase [simp]: "look (map_erase k m) k' = (if k' = k then 0 else look m k')"
proof -
  have "map_of (map_erase k m) k' = (if k' = k then None else map_of m k')"
    unfolding map_erase_def by (induction m) auto
  then show ?thesis by (simp add: look_def)
qed

lemma map_erase_sorted: "sorted_wrt (<) (map fst m) \<Longrightarrow> sorted_wrt (<) (map fst (map_erase k m))"
  unfolding map_erase_def by (simp add: sorted_wrt_map sorted_wrt_filter)

lemma look_Nil [simp]: "look [] k = 0" by (simp add: look_def)

lemma look_Cons: "look ((k, v) # m) k' = (if k' = k then v else look m k')" by (simp add: look_def)

lemma look_notin: "k \<notin> fst ` set m \<Longrightarrow> look m k = 0"
  using map_of_eq_None_iff[of m k] by (simp add: look_def)

lemma sum_map_put:
  "sorted_wrt (<) (map fst m) \<Longrightarrow> sum_list (map snd (map_put k v m)) = sum_list (map snd m) - look m k + (v :: int)"
proof (induction k v m rule: map_put.induct)
  case (2 k v k' v' m)
  have "look ((k', v') # m) k = 0" if "k < k'" using 2(2) that by (intro look_notin) fastforce
  with 2 show ?case by (auto simp: look_Cons)
qed simp

definition positive :: "connect_frequency_map \<Rightarrow> bool" where
  "positive m \<longleftrightarrow> sorted_wrt (<) (map fst m) \<and> (\<forall>e \<in> set m. 0 < snd e)"

definition fc_ok :: "(int \<times> connect_frequency_map) list \<Rightarrow> frequency_counts \<Rightarrow> bool" where
  "fc_ok dated fc \<longleftrightarrow>
     positive (fc_connect_count_by_frequency fc) \<and>
     (\<forall>f. look (fc_connect_count_by_frequency fc) f = (\<Sum>(w, m)\<leftarrow>dated. look m f)) \<and>
     fc_total_frequency_connections fc = (\<Sum>(w, m)\<leftarrow>dated. sum_list (map snd m))"

text \<open>The invariant: both tables agree with the weekly ones, and the total with both.\<close>

definition fc_inv :: "frequency_counts \<Rightarrow> bool" where
  "fc_inv fc \<longleftrightarrow>
     sorted_wrt (<) (map fst (fc_connect_count_by_frequency_dated fc)) \<and>
     (\<forall>e \<in> set (fc_connect_count_by_frequency_dated fc). positive (snd e)) \<and>
     fc_ok (fc_connect_count_by_frequency_dated fc) fc"

lemma positive_put: "positive m \<Longrightarrow> 0 < v \<Longrightarrow> positive (map_put k v m)"
  unfolding positive_def by (auto simp: map_put_sorted map_put_set)

lemma positive_erase: "positive m \<Longrightarrow> positive (map_erase k m)"
  unfolding positive_def using map_erase_sorted by (auto simp: map_erase_def)

lemma positive_look: "positive m \<Longrightarrow> 0 \<le> look m f"
  by (auto simp: positive_def look_def dest!: map_of_SomeD split: option.split)

lemma fold_take_off:
  assumes "sorted_wrt (<) (map fst m)" "positive (fc_connect_count_by_frequency fc)"
    "\<forall>f. look m f \<le> look (fc_connect_count_by_frequency fc) f"
  shows "let fc' = fold take_off m fc
    in positive (fc_connect_count_by_frequency fc') \<and>
       (\<forall>f. look (fc_connect_count_by_frequency fc') f = look (fc_connect_count_by_frequency fc) f - look m f) \<and>
       fc_total_frequency_connections fc' = fc_total_frequency_connections fc - sum_list (map snd m)"
  using assms
proof (induction m arbitrary: fc)
  case (Cons e m)
  obtain f n where e: "e = (f, n)" by fastforce
  let ?by = "fc_connect_count_by_frequency fc"
  have nf: "look m f = 0" using Cons.prems(1) e by (intro look_notin) fastforce
  have v: "0 \<le> look ?by f - n" using Cons.prems(3)[rule_format, of f] by (simp add: e look_Cons)
  let ?fc = "take_off (f, n) fc"
  have L: "look (fc_connect_count_by_frequency ?fc) g = look ?by g - (if g = f then n else 0)" for g
    using v by (auto simp: take_off_def Let_def)
  have P: "positive (fc_connect_count_by_frequency ?fc)"
    using Cons.prems(2) v by (auto simp: take_off_def Let_def positive_put positive_erase)
  have T: "fc_total_frequency_connections ?fc = fc_total_frequency_connections fc - n"
    by (simp add: take_off_def Let_def)
  have "\<forall>g. look m g \<le> look (fc_connect_count_by_frequency ?fc) g"
  proof
    fix g show "look m g \<le> look (fc_connect_count_by_frequency ?fc) g"
      using Cons.prems(3)[rule_format, of g] v nf unfolding L by (auto simp: e look_Cons split: if_splits)
  qed
  with Cons.IH[OF _ P] Cons.prems(1) show ?case
    unfolding Let_def by (auto simp: e L T look_Cons nf)
qed simp

lemma expire_ok:
  assumes "sorted_wrt (<) (map fst dated)" "\<forall>e \<in> set dated. positive (snd e)" "fc_ok dated fc"
  shows "fc_connect_count_by_frequency_dated (expire limit dated fc) = filter (\<lambda>e. limit \<le> fst e) dated \<and>
    fc_ok (filter (\<lambda>e. limit \<le> fst e) dated) (expire limit dated fc)"
  using assms
proof (induction limit dated fc rule: expire.induct)
  case (2 limit week m dated fc)
  show ?case
  proof (cases "week < limit")
    case True
    have nn: "0 \<le> (\<Sum>(w, m)\<leftarrow>dated. look m f)" for f
      using 2(3) by (intro sum_list_nonneg) (fastforce intro: positive_look)
    have O: "positive (fc_connect_count_by_frequency fc)"
      "\<forall>f. look (fc_connect_count_by_frequency fc) f = look m f + (\<Sum>(w, m)\<leftarrow>dated. look m f)"
      "fc_total_frequency_connections fc = sum_list (map snd m) + (\<Sum>(w, m)\<leftarrow>dated. sum_list (map snd m))"
      using 2(4) by (auto simp: fc_ok_def)
    have m: "sorted_wrt (<) (map fst m)" using 2(3) by (simp add: positive_def)
    have "\<forall>f. look m f \<le> look (fc_connect_count_by_frequency fc) f" using O(2) nn by simp
    from fold_take_off[OF m O(1) this] O have "fc_ok dated (fold take_off m fc)" by (simp add: fc_ok_def Let_def)
    with True 2 show ?thesis by simp
  next
    case False
    have F: "filter (\<lambda>e. limit \<le> fst e) ((week, m) # dated) = (week, m) # dated"
      using False 2(2) by (auto intro!: filter_True)
    have "expire limit ((week, m) # dated) fc = fc\<lparr>fc_connect_count_by_frequency_dated := (week, m) # dated\<rparr>"
      using False by simp
    with 2(4) show ?thesis unfolding F by (simp add: fc_ok_def)
  qed
qed (simp add: fc_ok_def)

text \<open>The connections counted on a frequency in a week.\<close>

definition count_in :: "frequency_counts \<Rightarrow> int \<Rightarrow> u16 \<Rightarrow> int" where
  "count_in fc week f =
     (case map_of (fc_connect_count_by_frequency_dated fc) week of None \<Rightarrow> 0 | Some m \<Rightarrow> look m f)"

lemma map_of_filter_key: "map_of (filter (\<lambda>e. P (fst e)) m) k = (if P k then map_of m k else None)"
  by (induction m) auto

lemma sum_map_put_dated:
  "sorted_wrt (<) (map fst dated) \<Longrightarrow>
     (\<Sum>(w, m)\<leftarrow>map_put k v dated. h m) = (\<Sum>(w, m)\<leftarrow>dated. h m) - (case map_of dated k of None \<Rightarrow> 0 | Some m \<Rightarrow> h m) + (h v :: int)"
proof (induction k v dated rule: map_put.induct)
  case (2 k v k' v' m)
  have "map_of ((k', v') # m) k = None" if "k < k'" using 2(2) that by (fastforce simp: map_of_eq_None_iff)
  with 2 show ?case by auto
qed simp

text \<open>
  C40: the counts of connections are a window over the last weeks: \<open>IncrementConnectCount\<close> adds one to the count of the
  frequency in the present week and forgets exactly the weeks before the last three, and keeps the count of each frequency
  and the total, which the progressive scan uses, equal to the sums over the weeks that are left.
\<close>

theorem IncrementConnectCount_window:
  assumes "fc_inv fc" "IncrementConnectCount now f fc = Some fc'"
  shows "fc_inv fc' \<and>
    (\<forall>week g. count_in fc' week g =
       (if week < now div kSecondsPerWeek - 3 then 0
        else count_in fc week g + (if week = now div kSecondsPerWeek \<and> g = f then 1 else 0)))"
proof -
  let ?by = "fc_connect_count_by_frequency fc" and ?dated = "fc_connect_count_by_frequency_dated fc"
  define week m where "week = now div kSecondsPerWeek" and "m = (case map_of ?dated week of None \<Rightarrow> [] | Some m \<Rightarrow> m)"
  define m' where "m' = map_put f (look m f + 1) m"
  define dated where "dated = map_put week m' ?dated"
  define fc1 where "fc1 = fc\<lparr>fc_connect_count_by_frequency := map_put f (look ?by f + 1) ?by,
      fc_total_frequency_connections := fc_total_frequency_connections fc + 1, fc_connect_count_by_frequency_dated := dated\<rparr>"
  have I: "sorted_wrt (<) (map fst ?dated)" "\<forall>e \<in> set ?dated. positive (snd e)" "fc_ok ?dated fc"
    using assms(1) by (simp_all add: fc_inv_def)
  have fc': "fc' = expire (week - 3) dated fc1"
    using assms(2) unfolding IncrementConnectCount_def Let_def fc1_def dated_def m'_def m_def week_def
      kWeeksToKeepFrequencyCounts_def by (auto split: if_splits)
  have m: "positive m" using I(2) by (force simp: m_def positive_def dest: map_of_SomeD split: option.split)
  then have m': "positive m'" using positive_look[OF m, of f] by (simp add: m'_def positive_put)
  have D: "sorted_wrt (<) (map fst dated)" "\<forall>e \<in> set dated. positive (snd e)"
    using I(1,2) m' by (auto simp: dated_def map_put_sorted map_put_set)
  have S: "(\<Sum>(w, m)\<leftarrow>dated. h m) = (\<Sum>(w, m)\<leftarrow>?dated. h m) - h m + (h m' :: int)" if "h [] = 0" for h
    using sum_map_put_dated[OF I(1), of h week m'] that by (simp add: dated_def m_def split: option.splits)
  have F: "fc_connect_count_by_frequency fc1 = map_put f (look ?by f + 1) ?by"
    "fc_total_frequency_connections fc1 = fc_total_frequency_connections fc + 1"
    by (simp_all add: fc1_def)
  have "positive (map_put f (look ?by f + 1) ?by)"
    using I(3) positive_look[of ?by f] by (intro positive_put) (simp_all add: fc_ok_def)
  moreover have "\<forall>g. look (map_put f (look ?by f + 1) ?by) g = (\<Sum>(w, m)\<leftarrow>dated. look m g)"
    using I(3) by (simp add: S[of "\<lambda>m. look m g" for g] fc_ok_def m'_def)
  moreover have "fc_total_frequency_connections fc + 1 = (\<Sum>(w, m)\<leftarrow>dated. sum_list (map snd m))"
    using I(3) m by (simp add: S[of "\<lambda>m. sum_list (map snd m)"] fc_ok_def m'_def sum_map_put positive_def)
  ultimately have "fc_ok dated fc1" unfolding fc_ok_def F by blast
  note E = expire_ok[OF D this, of "week - 3"]
  have "fc_inv fc'"
    using E D unfolding fc_inv_def fc' by (auto simp: sorted_wrt_map sorted_wrt_filter)
  moreover have "count_in fc' w g = (if w < week - 3 then 0 else count_in fc w g + (if w = week \<and> g = f then 1 else 0))" for w g
  proof -
    have "map_of (fc_connect_count_by_frequency_dated fc') w = (if week - 3 \<le> w then map_of dated w else None)"
      using E map_of_filter_key[of "\<lambda>k. week - 3 \<le> k" dated w] unfolding fc' by simp
    then show ?thesis by (auto simp: count_in_def dated_def m'_def m_def split: option.split)
  qed
  ultimately show ?thesis by (simp add: week_def)
qed

subsection \<open>Text and back\<close>

lemma digit_of:
  "d < 10 \<Longrightarrow> is_digit (digit_of d)" "d < 10 \<Longrightarrow> (of_char (digit_of d) :: nat) - 48 = d"
  by (simp_all add: is_digit_def digit_of_def)

lemma decimal_split: "decimal n = (if n < 10 then [] else decimal (n div 10)) @ [digit_of (n mod 10)]"
  by (subst decimal.simps) (simp add: Let_def div_eq_0_iff)

lemma decimal_digits: "\<forall>c \<in> set (decimal n). is_digit c"
proof (induction n rule: less_induct)
  case (less n)
  show ?case using less[of "n div 10"] by (subst decimal_split) (auto simp: digit_of)
qed

lemma decimal_nonempty: "decimal n \<noteq> []" by (subst decimal_split) simp

lemma digits_value_decimal: "digits_value (decimal n) = n"
proof -
  have "foldl (\<lambda>n c. 10 * n + (of_char c - 48)) 0 (decimal n) = n"
  proof (induction n rule: less_induct)
    case (less n)
    show ?case
    proof (cases "n < 10")
      case False
      then have "decimal n = decimal (n div 10) @ [digit_of (n mod 10)]" by (subst decimal_split) simp
      with less[of "n div 10"] False show ?thesis by (simp add: digit_of)
    qed (subst decimal_split, simp add: digit_of)
  qed
  moreover have "takeWhile is_digit (decimal n) = decimal n" using decimal_digits by (simp only: takeWhile_eq_all_conv)
  ultimately show ?thesis by (simp only: digits_value_def)
qed

lemma digit_not:
  "is_digit c \<Longrightarrow> \<not> is_space c" "is_digit c \<Longrightarrow> c \<noteq> CHR ''-''" "is_digit c \<Longrightarrow> c \<noteq> CHR ''+''" "is_digit c \<Longrightarrow> c \<noteq> CHR '':''"
  by (auto simp: is_digit_def is_space_def)

lemma atoll_decimal: "atoll (decimal n) = int n"
proof -
  obtain c t where d: "decimal n = c # t" using decimal_nonempty by (cases "decimal n") auto
  then have c: "is_digit c" using decimal_digits[of n] by simp
  have "atoll (c # t) = int (digits_value (c # t))"
    using digit_not[OF c] by (simp add: atoll_def)
  then show ?thesis using digits_value_decimal[of n] d by simp
qed

lemma atoll_decimal_int: "atoll (decimal_int i) = i"
proof (cases "i < 0")
  case True
  have "\<not> is_space CHR ''-''" by (simp add: is_space_def)
  with True show ?thesis by (simp add: decimal_int_def atoll_def digits_value_decimal)
qed (simp add: decimal_int_def atoll_decimal)

lemma fold_map_put:
  "sorted_wrt (<) (map fst (acc @ m)) \<Longrightarrow> fold (\<lambda>(k, v). map_put k v) m acc = acc @ m"
proof (induction m arbitrary: acc)
  case (Cons e m)
  obtain k v where e: "e = (k, v)" by fastforce
  have "map_put k v acc = acc @ [(k, v)]" if "\<forall>x \<in> set acc. fst x < k" for acc
    using that by (induction k v acc rule: map_put.induct) auto
  moreover have "\<forall>x \<in> set acc. fst x < k" using Cons.prems by (auto simp: e sorted_wrt_append)
  ultimately show ?case using Cons.IH[of "acc @ [(k, v)]"] Cons.prems by (simp add: e)
qed simp

text \<open>
  The text of the weekly counts is exact: \<open>StringListToFrequencyMap\<close> reads back the week and the counts of every
  frequency from what \<open>FrequencyMapToStringList\<close> writes, if \<open>SplitString\<close> splits two texts at the colon between them.
\<close>

theorem FrequencyMap_roundtrip:
  assumes "\<forall>a b. (\<forall>c \<in> set (a @ b). is_digit c \<or> c = CHR ''-'') \<longrightarrow> split (a @ '':'' @ b) '':'' = [a, b]"
    and "sorted_wrt (<) (map fst m)" and "0 \<le> week" and "week < kIllegalStartWeek"
  shows "StringListToFrequencyMap split (FrequencyMapToStringList week m) [] = (week, m)"
proof -
  have W: "uint (word_of_int week :: u64) = week"
    using assms(3,4) by (simp add: uint_word_of_int kIllegalStartWeek_def)
  have G: "GetStringListStartWeek (CHR ''@'' # decimal (unat (word_of_int week :: u64))) = week"
    using W by (simp add: GetStringListStartWeek_def atoll_decimal)
  have P: "ParseStringListFreqCount split (decimal (unat f) @ '':'' @ decimal_int n) numbers = map_put f n numbers" for f n numbers
  proof -
    have "\<forall>c \<in> set (decimal (unat f) @ decimal_int n). is_digit c \<or> c = CHR ''-''"
      using decimal_digits by (auto simp: decimal_int_def split: if_splits)
    then have "split (decimal (unat f) @ '':'' @ decimal_int n) '':'' = [decimal (unat f), decimal_int n]"
      using assms(1) by blast
    then show ?thesis by (simp add: ParseStringListFreqCount_def atoll_decimal atoll_decimal_int)
  qed
  have "fold (ParseStringListFreqCount split) (map (\<lambda>(f, n). decimal (unat f) @ '':'' @ decimal_int n) m) [] =
      fold (\<lambda>(k, v). map_put k v) m []"
    unfolding fold_map by (intro fold_cong) (auto simp: P[simplified])
  also have "\<dots> = m" using fold_map_put[of "[]" m] assms(2) by simp
  finally show ?thesis
    using assms(4) by (simp add: StringListToFrequencyMap_def FrequencyMapToStringList_def G)
qed

text \<open>A splitter for examples.\<close>

fun demo_colon_split :: "string \<Rightarrow> string list" where
  "demo_colon_split [] = [[]]"
| "demo_colon_split (c # s) =
     (if c = CHR '':'' then [] # demo_colon_split s
      else case demo_colon_split s of [] \<Rightarrow> [[c]] | t # ts \<Rightarrow> (c # t) # ts)"

lemma FrequencyMap_roundtrip_witness:
  "StringListToFrequencyMap (\<lambda>s sep. demo_colon_split s) (FrequencyMapToStringList 2300 [(2412, 12), (5180, 7)]) [] =
    (2300, [(2412, 12), (5180, 7)])"
proof -
  have N: "demo_colon_split a = [a]" if "CHR '':'' \<notin> set a" for a
    using that by (induction a) auto
  have "demo_colon_split (a @ '':'' @ b) = [a, b]" if "CHR '':'' \<notin> set (a @ b)" for a b
    using that by (induction a) (auto simp: N)
  moreover have "CHR '':'' \<notin> set (a @ b)" if "\<forall>c \<in> set (a @ b). is_digit c \<or> c = CHR ''-''" for a b
    using that digit_not(4) by blast
  ultimately have A: "\<forall>a b. (\<forall>c \<in> set (a @ b). is_digit c \<or> c = CHR ''-'') \<longrightarrow> demo_colon_split (a @ '':'' @ b) = [a, b]"
    by blast
  show ?thesis
    by (rule FrequencyMap_roundtrip[OF A]) (simp_all add: kIllegalStartWeek_def)
qed

lemma IncrementConnectCount_window_witness:
  "\<exists>fc'. IncrementConnectCount (100 * kSecondsPerWeek) 2412 \<lparr>fc_total_frequency_connections = 2,
       fc_connect_count_by_frequency = [(5180, 2)], fc_connect_count_by_frequency_dated = [(90, [(5180, 2)])]\<rparr> = Some fc' \<and>
     count_in fc' 90 5180 = 0 \<and> count_in fc' 100 2412 = 1"
proof -
  let ?fc = "\<lparr>fc_total_frequency_connections = 2,
       fc_connect_count_by_frequency = [(5180, 2)], fc_connect_count_by_frequency_dated = [(90, [(5180, 2)])]\<rparr>"
  have I: "fc_inv ?fc" by (simp add: fc_inv_def fc_ok_def positive_def look_def)
  obtain fc' where F: "IncrementConnectCount (100 * kSecondsPerWeek) 2412 ?fc = Some fc'"
    by (simp add: IncrementConnectCount_def Let_def)
  have D: "100 * kSecondsPerWeek div kSecondsPerWeek = 100" by (simp add: kSecondsPerWeek_def)
  have "count_in fc' 90 5180 = 0 \<and> count_in fc' 100 2412 = 1"
    using IncrementConnectCount_window[OF I F] by (simp add: D count_in_def)
  with F show ?thesis by blast
qed

end
