(* ===== verification/Spec2Isabelle.thy ===== *)
theory Spec2Isabelle
  imports Byte_String Service_Storage Service_Order Default_Profile Device_Proofs Manager_Theorems Portal_Detector
    Link_Monitor_Proofs Connection_Theorems Hook_Table Netlink_Manager_Proofs Wifi_Service
    Wifi_Scan_Session Wifi_Frequencies
begin

text \<open>
  A verification library for shill, the connection manager of Chrome OS and Brillo: the daemon that finds network
  devices, ranks the services they offer, connects the best one and keeps addresses, routes and name servers in step with
  it. All paths below are under \<open>src/\<close>. Every definition that models code is executable and follows the code of the function it is named
  after; an operation takes the state and returns the new one.

  \<^bold>\<open>The program and its parts.\<close>
  A \<open>Manager\<close> owns the devices, the registered services and a stack of profiles. A service belongs to one profile of the
  stack, or to the ephemeral one, and stores its settings there through a \<open>StoreInterface\<close>. A device selects at most one
  service, and configures a \<open>Connection\<close> for it, which installs addresses through \<open>RTNLHandler\<close>, routes through
  \<open>RoutingTable\<close> and name servers through \<open>Resolver\<close>. Portal detection and the link monitors tell whether the network
  behind a connection works; what they find changes the state of the service, the manager sorts its services again, and
  connects and disconnects what follows from the new ranking. Devices speak to the kernel over route netlink and,
  for WiFi, over generic netlink through \<open>NetlinkManager\<close>.

  \<^bold>\<open>Theories, from the bottom up.\<close>
  \<^item> \<open>Prelude\<close>: machine integers, byte order, \<open>None\<close> for a failed \<open>CHECK\<close> or undefined behaviour, maps as sorted
    association lists, shared lemmas and the collections they are in.
  \<^item> \<open>Byte_String\<close> (\<open>net/byte_string.cc\<close>), \<open>IP_Address\<close> (\<open>net/ip_address.cc\<close>), \<open>Event_History\<close>
    (\<open>net/event_history.cc\<close>), \<open>Technology\<close> (\<open>technology.cc\<close>), \<open>Shill_Error\<close> (\<open>error.cc\<close>): the value classes.
  \<^item> \<open>Key_Value_Store\<close> (\<open>key_value_store.cc\<close>), \<open>Store_Interface\<close> (\<open>store_interface.h\<close>), \<open>Json_Store\<close>
    (\<open>json_store.cc\<close>), \<open>Dhcp_Properties\<close>, \<open>Eap_Credentials\<close>, \<open>IP_Config\<close> (\<open>ipconfig.cc\<close>, \<open>static_ip_parameters.cc\<close>):
    settings and where they are kept. The locale \<open>store_laws\<close> is what services, profiles and credentials rely on of a
    store; \<open>Json_Store\<close> interprets it, as \<open>js\<close>, on the model of the JSON store.
  \<^item> \<open>Service\<close> (\<open>service.cc\<close>, with the operations of \<open>Manager\<close> and \<open>Profile\<close> that a service calls),
    \<open>Service_Proofs\<close>, \<open>Service_Machine\<close> (a service as a state machine, step relation \<open>svc_step\<close>), \<open>Service_Storage\<close> (its
    persistent form), \<open>Service_Order\<close> (\<open>Service::Compare\<close>, \<open>ServiceSorter\<close>; the locale \<open>comparator\<close>, interpreted as
    \<open>svc\<close>, is what a sort by insertion needs of an order).
  \<^item> \<open>Profile\<close>, \<open>Default_Profile\<close> (\<open>profile.cc\<close>, \<open>default_profile.cc\<close>); \<open>Device\<close>, \<open>Device_Proofs\<close> (\<open>device.cc\<close>).
  \<^item> \<open>World_Frames\<close>, \<open>Manager\<close>, \<open>Manager_Proofs\<close>, \<open>Manager_Theorems\<close> (\<open>manager.cc\<close>): what service operations leave
    alone, the manager, its invariant over the step relation \<open>mgr_step\<close>, and what its operations achieve.
  \<^item> \<open>Http_Request\<close> (\<open>http_url.cc\<close>, \<open>http_request.cc\<close>), \<open>Connectivity_Trial\<close>, \<open>Portal_Detector\<close>; \<open>Arp_Packet\<close>,
    \<open>Link_Monitor\<close>, \<open>Link_Monitor_Proofs\<close> (\<open>active_link_monitor.cc\<close>, \<open>passive_link_monitor.cc\<close>, \<open>link_monitor.cc\<close>):
    does the network work.
  \<^item> \<open>Rtnl_Message\<close>, \<open>Rtnl_Handler\<close> (\<open>net/rtnl_message.cc\<close>, \<open>net/rtnl_handler.cc\<close>), \<open>Routing_Table\<close>,
    \<open>Routing_Proofs\<close> (\<open>routing_table.cc\<close>), \<open>Connection\<close>, \<open>Connection_Proofs\<close>, \<open>Connection_Theorems\<close>
    (\<open>connection.cc\<close>, \<open>resolver.cc\<close>): addresses, routes and name servers.
  \<^item> \<open>Netlink_Attribute\<close>, \<open>Netlink_Proofs\<close>, \<open>Netlink_Message\<close>, \<open>Netlink_Manager\<close>, \<open>Netlink_Manager_Proofs\<close>
    (\<open>net/netlink_attribute.cc\<close>, \<open>net/attribute_list.cc\<close>, \<open>net/netlink_packet.cc\<close>, \<open>net/netlink_message.cc\<close>,
    \<open>net/generic_netlink_message.cc\<close>, \<open>net/netlink_manager.cc\<close>): generic netlink.
  \<^item> \<open>Hook_Table\<close> (\<open>hook_table.cc\<close>, \<open>result_aggregator.cc\<close>): waiting for several asynchronous actions.
  \<^item> \<open>Wifi_Endpoint\<close> (\<open>wifi/wifi_endpoint.cc\<close>, \<open>tethering.cc\<close>), \<open>Wifi_Service\<close> (\<open>wifi/wifi_service.cc\<close>),
    \<open>Wifi_Scan_Session\<close> (\<open>wifi/scan_session.cc\<close>), \<open>Wifi_Frequencies\<close> (the connection counts of
    \<open>wifi/wifi_provider.cc\<close>): access points as their beacons describe them, the services made of them, the frequencies
    a progressive scan asks for, and where those counts come from and how they are stored.

  \<^bold>\<open>How the code's state appears.\<close>
  A class is a record with its members; where a subclass overrides a virtual method that the modelled code calls, the
  method or its result is a field or an argument. An object referred to by pointer from several places is a number and the
  object is found in a map or function from numbers (profiles, services, connections, devices), so aliasing is kept.
  Callbacks to clients and calls that leave the modelled part (RPC signals, metrics, posted tasks, system calls, messages
  to the kernel) are appended in order to a list of events or of sent messages in the state. A delayed task is a flag or
  field of the state, and its run is an operation guarded by it. Errors are values: \<open>Inl\<close> of an error, a result with
  false, or \<open>None\<close> where the C++ program would die or have undefined behaviour; theorems of kind safety show where \<open>None\<close>
  cannot come up. Machine integers have their width and wrap around; a C++ \<open>string\<close> is a \<open>string\<close>, bytes are words.

  \<^bold>\<open>What is a parameter.\<close>
  Functions of libchrome, of the C library and of the kernel are arguments of the definitions that use them (splitting and
  joining strings, \<open>inet_pton\<close>, the clock, whether a socket call succeeds, what a client callback answers), with the
  documented facts a theorem relies on as its named hypotheses; the witness of such a theorem instantiates them by
  concrete functions. The constants of \<open>service_constants.h\<close> and the kernel's nl80211 tables are arguments as well.

  \<^bold>\<open>What the lemmas show.\<close>
  Invariants: of the service machine (\<open>svc_step\<close>: the operations of \<open>service.cc\<close> and \<open>set_error\<close>, a new profile,
  any change of the surroundings), the manager (\<open>mgr_step\<close>: its operations, the registered services' own, their moves
  between profiles, any change of the devices, the settings and the surroundings), HTTP requests, the dump queue of the
  netlink manager, each by rule induction over a step relation that admits these operations in any order; of the enabling
  of devices (\<open>dev_reach\<close>, which counts the requests that get around the check). The JSON store as a map of maps. Round trips: settings of a
  service, the JSON file, route netlink and generic netlink messages, routes, pushing and popping a profile. Refinement:
  the registry of services as an abstract map, the parser of route netlink as a list of messages with the calls each of them makes. Equivalence: one sort
  against a full re-ranking, one pass over the devices against the specification of multi-homing. Progress and
  termination: portal detection, link failure, queued dumps, popping profiles, notifying bound connections. Safety and
  errors: decoding any bytes stays inside them, pushes of profiles are all or nothing, at most one operation of a
  device at a time unless a request gets around the check. Lemmas outside the list of properties support these, or prove a finding: a place where the code does
  not do what it means to, shown on a concrete input or in general.
  \<open>std::sort\<close> is \<open>std_sort\<close>, an insertion sort: on an order that is strict and total on the given services it leaves
  the only list the standard lets \<open>std::sort\<close> leave (\<open>std_sort_determined\<close>), and the theorems about rankings assume such
  an order; on others the result of \<open>std::sort\<close> is undefined and nothing is claimed of it.

  \<^bold>\<open>Bounds and termination.\<close>
  No definition uses fuel. Recursions that are not structural terminate by a measure proved with the definition: the bytes
  left (netlink and route netlink buffers, IP and ARP parsing), the attributes left, the profiles or services left to
  treat, the connections not yet visited in a chain of carriers. Loops of the event loop are steps of a relation, never a
  recursion.

  \<^bold>\<open>Not modelled.\<close>
  The WiFi device \<open>wifi/wifi.cc\<close>, the paths of a WiFi service that call it (connect, disconnect, load, unload), the
  rest of \<open>wifi/wifi_provider.cc\<close>, wake on WiFi, the mac80211 monitor and TDLS, and the cellular, WiMAX, VPN, Ethernet and
  PPP device classes are driven by asynchronous calls of external daemons (wpa_supplicant, the modem manager, VPN
  daemons) and are left to them; \<open>dhcp/\<close> controls an external \<open>dhcpcd\<close>;
  \<open>device_info.cc\<close>, \<open>process_manager.cc\<close>, \<open>external_task.cc\<close>, sockets and file helpers are operating system calls;
  \<open>key_file_store.cc\<close> is a wrapper around GLib; \<open>metrics.cc\<close> reports histograms; \<open>dbus/\<close> and \<open>binder/\<close> are glue to
  generated stubs; \<open>property_store.cc\<close> and the RPC plumbing of the modelled classes forward to accessors. Within
  the modelled classes, logging, printing and metrics are left out.
\<close>

end
